(* ===== verification/Prelude.thy ===== *)
theory Prelude
  imports Complex_Main "HOL-Library.AList" "HOL-Library.Char_ord" "HOL-Library.List_Lexorder"
begin

text \<open>
  The vocabulary every component of the model shares.

  Numbers: a JavaScript number is an exact rational (\<open>rat\<close>) wherever the code computes with
  finite values, and a \<open>jsnum\<close> (a rational, an infinity or NaN) wherever it comes from the wire
  and the code tests for these cases. Rounding of IEEE doubles and the sign of zero are not modelled.

  Strings: a \<open>string\<close> is a list of code units below 256 (Latin-1); trimming and lower-casing follow
  ECMAScript on that range.

  Values from the wire: \<open>json\<close>, with \<open>None :: json option\<close> for \<open>undefined\<close>. The accessors
  \<open>as_string\<close>, \<open>as_number\<close> and \<open>as_bool\<close> are the source's
  \<open>typeof x === '...' ? x : undefined\<close>.

  JavaScript \<open>Map\<close> and \<open>Set\<close> objects iterate in insertion order: they are association
  lists under the library's \<open>AList.update\<close> and \<open>AList.delete\<close>, and lists under \<open>set_add\<close>.

  Methods with effects are statements of type \<open>('s, 'o) act\<close>: they map a state to the next state
  and the list of the effects performed, in order. \<open>seqS\<close>, \<open>ifS\<close>, \<open>upd\<close> and \<open>out\<close> are the source's
  sequencing, conditional, assignment and calls to the outside.
\<close>

section \<open>Collections of rules\<close>

named_theorems js_defs \<open>definitions of the number and string operations\<close>
named_theorems act_simps \<open>evaluation of statements\<close>
named_theorems keeps \<open>statements that keep an invariant\<close>
named_theorems confines \<open>statements that raise only the allowed effects\<close>

section \<open>Options and nullish values\<close>

definition coalesce :: "'a option \<Rightarrow> 'a option \<Rightarrow> 'a option" where
  "coalesce a b = (case a of None \<Rightarrow> b | Some x \<Rightarrow> Some x)"

definition default :: "'a \<Rightarrow> 'a option \<Rightarrow> 'a" where
  "default d a = (case a of None \<Rightarrow> d | Some x \<Rightarrow> x)"

lemma coalesce_simps [simp]:
  "coalesce None b = b" "coalesce (Some x) b = Some x" "coalesce a None = a"
  by (simp_all add: coalesce_def split: option.split)

lemma default_simps [simp]: "default d None = d" "default d (Some x) = x"
  by (simp_all add: default_def)

lemma coalesce_eq_None [simp]: "coalesce a b = None \<longleftrightarrow> a = None \<and> b = None"
  by (cases a) simp_all

section \<open>JavaScript numbers\<close>

datatype jsnum = Fin rat | PosInf | NegInf | NaN

definition js_of_int :: "int \<Rightarrow> jsnum" where
  "js_of_int i = Fin (of_int i)"

fun js_is_finite :: "jsnum \<Rightarrow> bool" where
  "js_is_finite (Fin _) = True"
| "js_is_finite _ = False"

fun js_lt :: "jsnum \<Rightarrow> jsnum \<Rightarrow> bool" where
  "js_lt (Fin a) (Fin b) = (a < b)"
| "js_lt (Fin a) PosInf = True"
| "js_lt NegInf (Fin b) = True"
| "js_lt NegInf PosInf = True"
| "js_lt _ _ = False"

fun js_eq :: "jsnum \<Rightarrow> jsnum \<Rightarrow> bool" where
  "js_eq NaN _ = False"
| "js_eq _ NaN = False"
| "js_eq a b = (a = b)"

definition js_le :: "jsnum \<Rightarrow> jsnum \<Rightarrow> bool" where
  "js_le a b = (js_lt a b \<or> js_eq a b)"

text \<open>A number is truthy unless it is zero or NaN.\<close>

fun js_truthy :: "jsnum \<Rightarrow> bool" where
  "js_truthy (Fin a) = (a \<noteq> 0)"
| "js_truthy NaN = False"
| "js_truthy _ = True"

fun js_neg :: "jsnum \<Rightarrow> jsnum" where
  "js_neg (Fin a) = Fin (- a)"
| "js_neg PosInf = NegInf"
| "js_neg NegInf = PosInf"
| "js_neg NaN = NaN"

fun js_add :: "jsnum \<Rightarrow> jsnum \<Rightarrow> jsnum" where
  "js_add (Fin a) (Fin b) = Fin (a + b)"
| "js_add NaN _ = NaN"
| "js_add _ NaN = NaN"
| "js_add (Fin _) b = b"
| "js_add a (Fin _) = a"
| "js_add PosInf PosInf = PosInf"
| "js_add NegInf NegInf = NegInf"
| "js_add _ _ = NaN"

definition js_sub :: "jsnum \<Rightarrow> jsnum \<Rightarrow> jsnum" where
  "js_sub a b = js_add a (js_neg b)"

text \<open>Scaling by a positive finite constant, the only product the code takes of wire numbers.\<close>

fun js_scale :: "rat \<Rightarrow> jsnum \<Rightarrow> jsnum" where
  "js_scale c (Fin a) = Fin (c * a)"
| "js_scale c x = x"

definition js_max :: "jsnum \<Rightarrow> jsnum \<Rightarrow> jsnum" where
  "js_max a b = (if a = NaN \<or> b = NaN then NaN else if js_lt a b then b else a)"

definition js_is_safe_integer :: "jsnum \<Rightarrow> bool" where
  "js_is_safe_integer n =
     (case n of Fin r \<Rightarrow> of_int \<lfloor>r\<rfloor> = r \<and> \<bar>r\<bar> \<le> 9007199254740991 | _ \<Rightarrow> False)"

text \<open>\<open>Math.round\<close>: to the nearest integer, halves up.\<close>

definition js_round :: "rat \<Rightarrow> int" where
  "js_round r = \<lfloor>r + 1 / 2\<rfloor>"

lemma js_le_Fin [simp]: "js_le (Fin a) (Fin b) \<longleftrightarrow> a \<le> b"
  by (auto simp: js_le_def)

lemma js_sub_Fin [simp]: "js_sub (Fin a) (Fin b) = Fin (a - b)"
  by (simp add: js_sub_def)

lemma js_max_Fin [simp]: "js_max (Fin a) (Fin b) = Fin (max a b)"
  by (simp add: js_max_def max_def)

lemma js_lt_finite_trans: "js_lt a b \<Longrightarrow> js_lt b c \<Longrightarrow> js_lt a c"
  by (cases a; cases b; cases c) auto

lemma js_round_of_int [simp]: "js_round (of_int i) = i"
  unfolding js_round_def by (simp add: floor_unique)

lemma js_round_mono: "a \<le> b \<Longrightarrow> js_round a \<le> js_round b"
  unfolding js_round_def by (simp add: floor_mono)

lemma js_round_near: "\<bar>of_int (js_round r) - r\<bar> \<le> 1 / 2"
proof -
  let ?n = "of_int \<lfloor>r + 1 / 2\<rfloor> :: rat"
  have "?n \<le> r + 1 / 2" by (rule of_int_floor_le)
  moreover have "r + 1 / 2 < ?n + 1" using floor_correct [of "r + 1 / 2"] by simp
  ultimately have "\<bar>?n - r\<bar> \<le> 1 / 2" by linarith
  then show ?thesis unfolding js_round_def .
qed

section \<open>JavaScript strings\<close>

definition is_js_space :: "char \<Rightarrow> bool" where
  "is_js_space c = (let n = (of_char c :: nat) in (9 \<le> n \<and> n \<le> 13) \<or> n = 32 \<or> n = 160)"

definition js_trim :: "string \<Rightarrow> string" where
  "js_trim s = rev (dropWhile is_js_space (rev (dropWhile is_js_space s)))"

definition js_lower_char :: "char \<Rightarrow> char" where
  "js_lower_char c = (let n = (of_char c :: nat) in
     if (65 \<le> n \<and> n \<le> 90) \<or> (192 \<le> n \<and> n \<le> 222 \<and> n \<noteq> 215) then char_of (n + 32) else c)"

definition js_lower :: "string \<Rightarrow> string" where
  "js_lower s = map js_lower_char s"

text \<open>\<open>s.split(',')\<close>: always at least one piece.\<close>

fun split_on :: "char \<Rightarrow> string \<Rightarrow> string list" where
  "split_on c [] = [[]]"
| "split_on c (x # xs) =
     (if x = c then [] # split_on c xs
      else (case split_on c xs of [] \<Rightarrow> [[x]] | p # ps \<Rightarrow> (x # p) # ps))"

text \<open>The decimal digits of a natural number, \<open>String(n)\<close>.\<close>

fun decimal :: "nat \<Rightarrow> string" where
  "decimal n = (if n < 10 then [char_of (48 + n)] else decimal (n div 10) @ [char_of (48 + n mod 10)])"

declare decimal.simps [simp del]

text \<open>Decimal digits and their value.\<close>

definition is_digit :: "char \<Rightarrow> bool" where
  "is_digit c = (let n = (of_char c :: nat) in 48 \<le> n \<and> n \<le> 57)"

definition digits_value :: "string \<Rightarrow> nat" where
  "digits_value ds = foldl (\<lambda>n c. 10 * n + (of_char c - 48)) 0 ds"

definition is_blank :: "string \<Rightarrow> bool" where
  "is_blank s = (js_trim s = [])"

lemma is_blank_iff: "is_blank s \<longleftrightarrow> list_all is_js_space s"
proof
  assume "is_blank s"
  then have "\<forall>c \<in> set (rev (dropWhile is_js_space s)). is_js_space c"
    by (simp add: is_blank_def js_trim_def)
  then have "dropWhile is_js_space s = []"
    by (metis hd_dropWhile hd_in_set set_rev)
  then show "list_all is_js_space s" by (simp add: list_all_iff)
next
  assume "list_all is_js_space s"
  then show "is_blank s"
    by (auto simp: is_blank_def js_trim_def list_all_iff dest: set_dropWhileD)
qed

lemma is_blank_Nil [simp]: "is_blank []"
  by (simp add: is_blank_iff)

lemma not_blank_not_empty: "\<not> is_blank s \<Longrightarrow> s \<noteq> []"
  by auto

lemma split_on_not_Nil [simp]: "split_on c s \<noteq> []"
  by (induction s) (auto split: list.split)

text \<open>\<open>ps.join(',')\<close>.\<close>

fun join_with :: "char \<Rightarrow> string list \<Rightarrow> string" where
  "join_with c [] = []"
| "join_with c [p] = p"
| "join_with c (p # q # ps) = p @ c # join_with c (q # ps)"

lemma split_on_piece: "c \<notin> set p \<Longrightarrow> split_on c p = [p]"
  by (induction p) auto

lemma split_on_append: "c \<notin> set p \<Longrightarrow> split_on c (p @ c # s) = p # split_on c s"
  by (induction p) auto

lemma split_on_join:
  "ps \<noteq> [] \<Longrightarrow> (\<And>p. p \<in> set ps \<Longrightarrow> c \<notin> set p) \<Longrightarrow> split_on c (join_with c ps) = ps"
  by (induction c ps rule: join_with.induct) (simp_all add: split_on_piece split_on_append)

section \<open>Values from the wire\<close>

datatype json =
    JNull
  | JBool bool
  | JNum jsnum
  | JStr string
  | JArr "json list"
  | JObj "(string \<times> json) list"

text \<open>Property access on an unknown value: \<open>None\<close> is \<open>undefined\<close>.\<close>

definition field :: "json option \<Rightarrow> string \<Rightarrow> json option" where
  "field v k = (case v of Some (JObj kvs) \<Rightarrow> map_of kvs k | _ \<Rightarrow> None)"

fun json_truthy :: "json option \<Rightarrow> bool" where
  "json_truthy None = False"
| "json_truthy (Some JNull) = False"
| "json_truthy (Some (JBool b)) = b"
| "json_truthy (Some (JNum n)) = js_truthy n"
| "json_truthy (Some (JStr s)) = (s \<noteq> [])"
| "json_truthy (Some (JArr _)) = True"
| "json_truthy (Some (JObj _)) = True"

fun is_record :: "json option \<Rightarrow> bool" where
  "is_record (Some (JObj _)) = True"
| "is_record _ = False"

fun as_string :: "json option \<Rightarrow> string option" where
  "as_string (Some (JStr s)) = Some s"
| "as_string _ = None"

fun as_number :: "json option \<Rightarrow> jsnum option" where
  "as_number (Some (JNum n)) = Some n"
| "as_number _ = None"

fun as_bool :: "json option \<Rightarrow> bool option" where
  "as_bool (Some (JBool b)) = Some b"
| "as_bool _ = None"

text \<open>\<open>typeof x === 'string' && x !== '' ? x : undefined\<close>, and the trimmed variant.\<close>

definition as_nonempty :: "json option \<Rightarrow> string option" where
  "as_nonempty v = (case as_string v of Some s \<Rightarrow> if s = [] then None else Some s | None \<Rightarrow> None)"

definition as_nonblank :: "json option \<Rightarrow> string option" where
  "as_nonblank v = (case as_string v of Some s \<Rightarrow> if is_blank s then None else Some s | None \<Rightarrow> None)"

lemma as_nonempty_Some [simp]: "as_nonempty v = Some s \<longleftrightarrow> as_string v = Some s \<and> s \<noteq> []"
  by (auto simp: as_nonempty_def split: option.splits)

lemma as_nonblank_Some [simp]: "as_nonblank v = Some s \<longleftrightarrow> as_string v = Some s \<and> \<not> is_blank s"
  by (auto simp: as_nonblank_def split: option.splits)

lemma as_string_Some: "as_string v = Some s \<longleftrightarrow> v = Some (JStr s)"
  by (cases "v" rule: as_string.cases) auto

lemma as_number_Some: "as_number v = Some n \<longleftrightarrow> v = Some (JNum n)"
  by (cases "v" rule: as_number.cases) auto

lemma as_bool_Some: "as_bool v = Some b \<longleftrightarrow> v = Some (JBool b)"
  by (cases "v" rule: as_bool.cases) auto

lemma is_record_iff: "is_record v \<longleftrightarrow> (\<exists>kvs. v = Some (JObj kvs))"
  by (cases "v" rule: is_record.cases) auto

lemma field_JObj [simp]: "field (Some (JObj kvs)) k = map_of kvs k"
  by (simp add: field_def)

lemma is_record_truthy: "is_record v \<Longrightarrow> json_truthy v"
  by (auto simp: is_record_iff)

text \<open>The optional members of an object literal: absent members are not written.\<close>

definition opt_member :: "string \<Rightarrow> ('a \<Rightarrow> json) \<Rightarrow> 'a option \<Rightarrow> (string \<times> json) list" where
  "opt_member k f x = (case x of None \<Rightarrow> [] | Some v \<Rightarrow> [(k, f v)])"

lemma map_add_coalesce [simp]: "(m ++ n) k = coalesce (n k) (m k)"
  by (simp add: map_add_def coalesce_def split: option.split)

lemma map_of_opt_member [simp]:
  "map_of (opt_member k f x) j = (if j = k then map_option f x else None)"
  by (auto simp: opt_member_def split: option.split)


section \<open>Lists\<close>

text \<open>\<open>xs.indexOf(x)\<close>: \<open>None\<close> is \<open>-1\<close>.\<close>

fun index_of :: "'a list \<Rightarrow> 'a \<Rightarrow> nat option" where
  "index_of [] y = None"
| "index_of (x # xs) y = (if x = y then Some 0 else map_option Suc (index_of xs y))"

lemma index_of_None_iff: "index_of xs y = None \<longleftrightarrow> y \<notin> set xs"
  by (induction xs) auto

lemma index_of_Some: "index_of xs y = Some i \<Longrightarrow> i < length xs \<and> xs ! i = y"
  by (induction xs arbitrary: i) (auto split: if_splits)

lemma index_of_nth: "distinct xs \<Longrightarrow> i < length xs \<Longrightarrow> index_of xs (xs ! i) = Some i"
  by (induction xs arbitrary: i) (auto simp: nth_Cons split: nat.split)

lemma map_filter_append: "List.map_filter f (xs @ ys) = List.map_filter f xs @ List.map_filter f ys"
  by (simp add: List.map_filter_def)

section \<open>Insertion-ordered collections\<close>

definition set_add :: "'a \<Rightarrow> 'a list \<Rightarrow> 'a list" where
  "set_add x xs = (if x \<in> set xs then xs else xs @ [x])"

text \<open>\<open>Array.from(new Set(xs))\<close>: duplicates dropped, the first occurrence kept.\<close>

definition set_of :: "'a list \<Rightarrow> 'a list" where
  "set_of xs = fold set_add xs []"

abbreviation map_keys :: "('k \<times> 'v) list \<Rightarrow> 'k list" where
  "map_keys m \<equiv> map fst m"

lemma set_add_set [simp]: "set (set_add x xs) = insert x (set xs)"
  by (auto simp: set_add_def)

lemma distinct_set_add [simp]: "distinct (set_add x xs) = distinct xs"
  by (auto simp: set_add_def)

lemma fold_set_add_set: "set (fold set_add xs ys) = set xs \<union> set ys"
  by (induction xs arbitrary: ys) auto

lemma fold_set_add_distinct: "distinct ys \<Longrightarrow> distinct (fold set_add xs ys)"
  by (induction xs arbitrary: ys) auto

lemma set_set_of [simp]: "set (set_of xs) = set xs"
  by (simp add: set_of_def fold_set_add_set)

lemma distinct_set_of [simp]: "distinct (set_of xs)"
  by (simp add: set_of_def fold_set_add_distinct)

lemma fold_set_add_distinct_append:
  "distinct (ys @ xs) \<Longrightarrow> fold set_add xs ys = ys @ xs"
  by (induction xs arbitrary: ys) (auto simp: set_add_def)

lemma set_of_distinct: "distinct xs \<Longrightarrow> set_of xs = xs"
  using fold_set_add_distinct_append [of "[]" xs] by (simp add: set_of_def)

lemma set_AList_update: "set (AList.update k v m) \<subseteq> insert (k, v) (set m)"
  by (induction m) auto

text \<open>The contract of a keyed collection, as the code uses a \<open>Map\<close>.\<close>

locale keyed_store =
  fixes get :: "'m \<Rightarrow> 'k \<Rightarrow> 'v option"
    and put :: "'k \<Rightarrow> 'v \<Rightarrow> 'm \<Rightarrow> 'm"
    and del :: "'k \<Rightarrow> 'm \<Rightarrow> 'm"
    and keys_of :: "'m \<Rightarrow> 'k list"
    and wf :: "'m \<Rightarrow> bool"
  assumes get_put: "get (put k v m) = (get m)(k \<mapsto> v)"
    and get_del: "get (del k m) = (get m)(k := None)"
    and keys_iff: "set (keys_of m) = {k. get m k \<noteq> None}"
    and wf_put: "wf m \<Longrightarrow> wf (put k v m)"
    and wf_del: "wf m \<Longrightarrow> wf (del k m)"
    and wf_distinct: "wf m \<Longrightarrow> distinct (keys_of m)"
begin

lemma get_put_same: "get (put k v m) k = Some v"
  by (simp add: get_put)

lemma get_put_other: "j \<noteq> k \<Longrightarrow> get (put k v m) j = get m j"
  by (simp add: get_put)

lemma get_del_same: "get (del k m) k = None"
  by (simp add: get_del)

lemma del_all_get:
  "get (fold del ks m) j = (if j \<in> set ks then None else get m j)"
  by (induction ks arbitrary: m) (auto simp: get_del)

lemma del_all_wf: "wf m \<Longrightarrow> wf (fold del ks m)"
  by (induction ks arbitrary: m) (auto simp: wf_del)

lemma put_all_wf: "wf m \<Longrightarrow> wf (fold (\<lambda>x. put (f x) (g x)) xs m)"
  by (induction xs arbitrary: m) (auto simp: wf_put)

lemma put_all_get_other:
  "j \<notin> f ` set xs \<Longrightarrow> get (fold (\<lambda>x. put (f x) (g x)) xs m) j = get m j"
  by (induction xs arbitrary: m) (auto simp: get_put_other)

text \<open>Deleting every key that fails a test, the code's reconciliation loop over \<open>map.keys()\<close>.\<close>

lemma retain_get:
  "get (fold del (filter (\<lambda>k. \<not> keep k) (keys_of m)) m) j = (if keep j then get m j else None)"
  using keys_iff [of m] by (cases "get m j") (auto simp: del_all_get)

end

interpretation js_map: keyed_store map_of AList.update AList.delete map_keys "\<lambda>m. distinct (map fst m)"
proof
  show "map_of (AList.update k v m) = (map_of m)(k \<mapsto> v)"
    for k :: 'a and v :: 'b and m by (rule AList.update_conv')
  show "map_of (AList.delete k m) = (map_of m)(k := None)"
    for k :: 'a and m :: "('a \<times> 'b) list" by (rule AList.delete_conv')
  show "set (map fst m) = {k. map_of m k \<noteq> None}"
    for m :: "('a \<times> 'b) list" by (auto simp: map_of_eq_None_iff)
  show "distinct (map fst m) \<Longrightarrow> distinct (map fst (AList.update k v m))"
    for k :: 'a and v :: 'b and m by (rule AList.distinct_update)
  show "distinct (map fst m) \<Longrightarrow> distinct (map fst (AList.delete k m))"
    for k :: 'a and m :: "('a \<times> 'b) list" by (rule AList.distinct_delete)
qed auto

definition map_has :: "('k \<times> 'v) list \<Rightarrow> 'k \<Rightarrow> bool" where
  "map_has m k = (map_of m k \<noteq> None)"

lemma map_has_iff: "map_has m k \<longleftrightarrow> k \<in> fst ` set m"
  by (simp add: map_has_def map_of_eq_None_iff)

section \<open>Statements\<close>

type_synonym ('s, 'o) act = "'s \<Rightarrow> 's \<times> 'o list"

definition skipS :: "('s, 'o) act" where
  "skipS s = (s, [])"

definition upd :: "('s \<Rightarrow> 's) \<Rightarrow> ('s, 'o) act" where
  "upd f s = (f s, [])"

definition out :: "('s \<Rightarrow> 'o) \<Rightarrow> ('s, 'o) act" where
  "out f s = (s, [f s])"

definition outs :: "('s \<Rightarrow> 'o list) \<Rightarrow> ('s, 'o) act" where
  "outs f s = (s, f s)"

definition ifS :: "('s \<Rightarrow> bool) \<Rightarrow> ('s, 'o) act \<Rightarrow> ('s, 'o) act \<Rightarrow> ('s, 'o) act" where
  "ifS c a b s = (if c s then a s else b s)"

definition thenS :: "('s, 'o) act \<Rightarrow> ('s, 'o) act \<Rightarrow> ('s, 'o) act" where
  "thenS a b s = (let r = a s; q = b (fst r) in (fst q, snd r @ snd q))"

fun seqS :: "('s, 'o) act list \<Rightarrow> ('s, 'o) act" where
  "seqS [] = skipS"
| "seqS (a # as) = thenS a (seqS as)"

text \<open>\<open>const x = e; ...\<close>: the expression is read in the state before the continuation.\<close>

definition letS :: "('s \<Rightarrow> 'x) \<Rightarrow> ('x \<Rightarrow> ('s, 'o) act) \<Rightarrow> ('s, 'o) act" where
  "letS e k s = k (e s) s"

definition whenS :: "('s \<Rightarrow> bool) \<Rightarrow> ('s, 'o) act \<Rightarrow> ('s, 'o) act" where
  "whenS c a = ifS c a skipS"

definition forS :: "'x list \<Rightarrow> ('x \<Rightarrow> ('s, 'o) act) \<Rightarrow> ('s, 'o) act" where
  "forS xs body = seqS (map body xs)"

lemmas act_eval [act_simps] =
  skipS_def upd_def out_def outs_def ifS_def thenS_def letS_def whenS_def forS_def Let_def

text \<open>The invariant calculus: what every statement of a method keeps, the method keeps.\<close>

definition keeping :: "('s \<Rightarrow> bool) \<Rightarrow> ('s, 'o) act \<Rightarrow> bool" where
  "keeping P a \<longleftrightarrow> (\<forall>s. P s \<longrightarrow> P (fst (a s)))"

lemma keepingI: "(\<And>s. P s \<Longrightarrow> P (fst (a s))) \<Longrightarrow> keeping P a"
  by (simp add: keeping_def)

lemma keepingD: "keeping P a \<Longrightarrow> P s \<Longrightarrow> P (fst (a s))"
  by (simp add: keeping_def)

lemma keeping_skipS [keeps]: "keeping P skipS"
  by (simp add: keeping_def skipS_def)

lemma keeping_upd: "(\<And>s. P s \<Longrightarrow> P (f s)) \<Longrightarrow> keeping P (upd f)"
  by (simp add: keeping_def upd_def)

lemma keeping_out [keeps]: "keeping P (out f)"
  by (simp add: keeping_def out_def)

lemma keeping_outs [keeps]: "keeping P (outs f)"
  by (simp add: keeping_def outs_def)

lemma keeping_ifS [keeps]: "keeping P a \<Longrightarrow> keeping P b \<Longrightarrow> keeping P (ifS c a b)"
  by (simp add: keeping_def ifS_def)

lemma keeping_whenS [keeps]: "keeping P a \<Longrightarrow> keeping P (whenS c a)"
  by (simp add: whenS_def keeping_ifS keeping_skipS)

lemma keeping_thenS [keeps]: "keeping P a \<Longrightarrow> keeping P b \<Longrightarrow> keeping P (thenS a b)"
  by (simp add: keeping_def thenS_def Let_def)

lemma keeping_letS [keeps]: "(\<And>x. keeping P (k x)) \<Longrightarrow> keeping P (letS e k)"
  by (simp add: keeping_def letS_def)

lemma keeping_seqS [keeps]: "(\<And>a. a \<in> set as \<Longrightarrow> keeping P a) \<Longrightarrow> keeping P (seqS as)"
  by (induction as) (auto intro: keeping_thenS keeping_skipS)

lemma keeping_forS [keeps]: "(\<And>x. x \<in> set xs \<Longrightarrow> keeping P (body x)) \<Longrightarrow> keeping P (forS xs body)"
  by (auto simp: forS_def intro!: keeping_seqS)

text \<open>The same for effects: in the states \<open>P\<close> the statement stays in \<open>P\<close> and raises only effects \<open>Q\<close>.\<close>

definition confined :: "('s \<Rightarrow> bool) \<Rightarrow> ('o \<Rightarrow> bool) \<Rightarrow> ('s, 'o) act \<Rightarrow> bool" where
  "confined P Q a \<longleftrightarrow> (\<forall>s. P s \<longrightarrow> P (fst (a s)) \<and> list_all Q (snd (a s)))"

lemma confinedI: "(\<And>s. P s \<Longrightarrow> P (fst (a s)) \<and> list_all Q (snd (a s))) \<Longrightarrow> confined P Q a"
  by (simp add: confined_def)

lemma confinedD: "confined P Q a \<Longrightarrow> P s \<Longrightarrow> P (fst (a s)) \<and> list_all Q (snd (a s))"
  by (simp add: confined_def)

lemma confined_skipS [confines]: "confined P Q skipS"
  by (simp add: confined_def skipS_def)

lemma confined_upd: "(\<And>s. P s \<Longrightarrow> P (f s)) \<Longrightarrow> confined P Q (upd f)"
  by (simp add: confined_def upd_def)

lemma confined_out: "(\<And>s. P s \<Longrightarrow> Q (f s)) \<Longrightarrow> confined P Q (out f)"
  by (simp add: confined_def out_def)

lemma confined_ifS: "confined P Q a \<Longrightarrow> confined P Q b \<Longrightarrow> confined P Q (ifS c a b)"
  by (simp add: confined_def ifS_def)

text \<open>The taken branch of a guard that the state decides.\<close>

lemma confined_ifS_true: "(\<And>s. P s \<Longrightarrow> c s) \<Longrightarrow> confined P Q a \<Longrightarrow> confined P Q (ifS c a b)"
  by (simp add: confined_def ifS_def)

lemma confined_whenS: "confined P Q a \<Longrightarrow> confined P Q (whenS c a)"
  by (simp add: whenS_def confined_ifS confined_skipS)

lemma confined_thenS [confines]: "confined P Q a \<Longrightarrow> confined P Q b \<Longrightarrow> confined P Q (thenS a b)"
  by (simp add: confined_def thenS_def Let_def)

lemma confined_letS [confines]: "(\<And>x. confined P Q (k x)) \<Longrightarrow> confined P Q (letS e k)"
  by (simp add: confined_def letS_def)

lemma confined_seqS [confines]: "(\<And>a. a \<in> set as \<Longrightarrow> confined P Q a) \<Longrightarrow> confined P Q (seqS as)"
  by (induction as) (auto intro: confined_thenS confined_skipS)

lemma confined_pointwise: "(\<And>s. \<exists>b. confined P Q b \<and> a s = b s) \<Longrightarrow> confined P Q a"
  unfolding confined_def by metis

lemma confined_forS [confines]: "(\<And>x. x \<in> set xs \<Longrightarrow> confined P Q (body x)) \<Longrightarrow> confined P Q (forS xs body)"
  by (auto simp: forS_def intro!: confined_seqS)

text \<open>The invariant calculus with a condition before and one after.\<close>

definition leads :: "('s \<Rightarrow> bool) \<Rightarrow> ('s, 'o) act \<Rightarrow> ('s \<Rightarrow> bool) \<Rightarrow> bool" where
  "leads P a Q \<longleftrightarrow> (\<forall>s. P s \<longrightarrow> Q (fst (a s)))"

lemma leadsI: "(\<And>s. P s \<Longrightarrow> Q (fst (a s))) \<Longrightarrow> leads P a Q"
  by (simp add: leads_def)

lemma leadsD: "leads P a Q \<Longrightarrow> P s \<Longrightarrow> Q (fst (a s))"
  by (simp add: leads_def)

lemma leads_skip: "(\<And>s. P s \<Longrightarrow> Q s) \<Longrightarrow> leads P skipS Q"
  by (simp add: leads_def skipS_def)

lemma leads_upd: "(\<And>s. P s \<Longrightarrow> Q (f s)) \<Longrightarrow> leads P (upd f) Q"
  by (simp add: leads_def upd_def)

lemma leads_out: "(\<And>s. P s \<Longrightarrow> Q s) \<Longrightarrow> leads P (out f) Q"
  by (simp add: leads_def out_def)

lemma leads_then: "leads P a R \<Longrightarrow> leads R b Q \<Longrightarrow> leads P (thenS a b) Q"
  by (simp add: leads_def thenS_def Let_def)

lemma leads_if: "leads (\<lambda>s. P s \<and> c s) a Q \<Longrightarrow> leads (\<lambda>s. P s \<and> \<not> c s) b Q \<Longrightarrow> leads P (ifS c a b) Q"
  by (simp add: leads_def ifS_def)

lemma leads_when: "leads (\<lambda>s. P s \<and> c s) a Q \<Longrightarrow> (\<And>s. P s \<Longrightarrow> \<not> c s \<Longrightarrow> Q s) \<Longrightarrow> leads P (whenS c a) Q"
  by (simp add: leads_def ifS_def whenS_def skipS_def)

lemma leads_let: "(\<And>x. leads (\<lambda>s. P s \<and> x = e s) (k x) Q) \<Longrightarrow> leads P (letS e k) Q"
  by (simp add: leads_def letS_def)

lemma leads_pre: "leads P a Q \<Longrightarrow> (\<And>s. P' s \<Longrightarrow> P s) \<Longrightarrow> leads P' a Q"
  by (simp add: leads_def)

lemma leads_keeping: "keeping Q a \<Longrightarrow> (\<And>s. P s \<Longrightarrow> Q s) \<Longrightarrow> leads P a Q"
  by (simp add: leads_def keeping_def)

lemma keeping_leads: "leads P a P \<Longrightarrow> keeping P a"
  by (simp add: leads_def keeping_def)

section \<open>Reactive components\<close>

text \<open>
  A component is a state and a handler for each event; the contract its clients rely on is an
  invariant that every handler keeps. The run of a component over a list of events keeps it too.
\<close>

fun run :: "('s \<Rightarrow> 'e \<Rightarrow> 's \<times> 'o list) \<Rightarrow> 's \<Rightarrow> 'e list \<Rightarrow> 's \<times> 'o list" where
  "run step s [] = (s, [])"
| "run step s (e # es) =
     (let r = step s e; q = run step (fst r) es in (fst q, snd r @ snd q))"

lemma run_confined:
  "(\<And>e. confined P Q (\<lambda>s. step s e)) \<Longrightarrow> confined P Q (\<lambda>s. run step s es)"
proof (induction es)
  case (Cons e es)
  then show ?case by (auto simp: confined_def Let_def)
qed (simp add: confined_def)

lemma run_append:
  "run step s (es @ fs) =
     (let r = run step s es; q = run step (fst r) fs in (fst q, snd r @ snd q))"
  by (induction es arbitrary: s) (simp_all add: Let_def)

locale reactive =
  fixes step :: "'s \<Rightarrow> 'e \<Rightarrow> 's \<times> 'o list"
    and inv :: "'s \<Rightarrow> bool"
  assumes step_inv: "inv s \<Longrightarrow> inv (fst (step s e))"
begin

lemma run_inv: "inv s \<Longrightarrow> inv (fst (run step s es))"
  by (induction es arbitrary: s) (simp_all add: Let_def step_inv)

text \<open>A state quantity that no event decreases is not decreased by a run.\<close>

lemma run_mono:
  fixes f :: "'s \<Rightarrow> 'n::preorder"
  assumes "\<And>s e. inv s \<Longrightarrow> f s \<le> f (fst (step s e))" and "inv s"
  shows "f s \<le> f (fst (run step s es))"
  using assms(2)
proof (induction es arbitrary: s)
  case (Cons e es)
  have "f s \<le> f (fst (step s e))" using assms(1) Cons.prems .
  also have "\<dots> \<le> f (fst (run step (fst (step s e)) es))"
    using Cons.IH step_inv [OF Cons.prems] .
  finally show ?case by (simp add: Let_def)
qed simp

text \<open>Effects that every step of a good state emits satisfy a predicate do so along a run.\<close>

lemma run_outputs:
  assumes "\<And>s e. inv s \<Longrightarrow> list_all Q (snd (step s e))" and "inv s"
  shows "list_all Q (snd (run step s es))"
  using assms(2) by (induction es arbitrary: s) (simp_all add: Let_def assms(1) step_inv)

end

text \<open>A component with a final state: once reached, no event leaves it or has an effect.\<close>

locale reactive_final = reactive step inv
  for step :: "'s \<Rightarrow> 'e \<Rightarrow> 's \<times> 'o list" and inv :: "'s \<Rightarrow> bool" +
  fixes final :: "'s \<Rightarrow> bool"
  assumes step_final: "inv s \<Longrightarrow> final s \<Longrightarrow> step s e = (s, [])"
begin

lemma run_final: "inv s \<Longrightarrow> final s \<Longrightarrow> run step s es = (s, [])"
  by (induction es arbitrary: s) (simp_all add: Let_def step_final)

end

end
