(* ===== verification/Payloads.thy ===== *)
theory Payloads
  imports Prelude
begin

text \<open>
  The wire types and the payload parsers: \<^verbatim>\<open>client/packages/core/src/signaling/types.ts\<close> and
  \<^verbatim>\<open>client/packages/core/src/signaling/payloads.ts\<close>. Each parser takes the raw payload
  (\<open>None\<close> for \<open>undefined\<close>) and returns \<open>None\<close> where the source returns \<open>null\<close>.
  The encoders at the end are the specification's: the wire form of a room state, from which the
  parser recovers the state.
\<close>

section \<open>Wire types\<close>

datatype connection_status = Suspended

record content_state =
  cs_active :: bool
  cs_contentType :: "string option"
  cs_updatedAtMs :: "jsnum option"
  cs_epoch :: "jsnum option"
  cs_revision :: "jsnum option"

record capabilities =
  cap_trickleIce :: "bool option"
  cap_maxParticipants :: "jsnum option"
  cap_independentContentVideo :: "bool option"

record media_policy =
  mp_videoMediaEnabled :: "bool option"

record room_participant =
  rp_cid :: string
  rp_joinedAt :: "jsnum option"
  rp_displayName :: "string option"
  rp_peerId :: "string option"
  rp_audioEnabled :: "bool option"
  rp_videoEnabled :: "bool option"
  rp_connectionStatus :: "connection_status option"
  rp_contentState :: "content_state option"
  rp_capabilities :: "capabilities option"
  rp_mediaPolicy :: "media_policy option"

record room_state =
  rs_hostCid :: "string option"
  rs_participants :: "room_participant list"
  rs_maxParticipants :: "jsnum option"
  rs_epoch :: "jsnum option"

datatype reconnect_outcome = Fresh | Reattached | Recovered

record joined_payload =
  jp_hostCid :: "string option"
  jp_participants :: "room_participant list"
  jp_turnToken :: "string option"
  jp_turnTokenTTLMs :: "jsnum option"
  jp_reconnectToken :: "string option"
  jp_reconnectTokenTTLMs :: "jsnum option"
  jp_maxParticipants :: "jsnum option"
  jp_epoch :: "jsnum option"
  jp_reconnect :: "reconnect_outcome option"

record error_payload =
  ep_code :: string
  ep_message :: string
  ep_reason :: "string option"

record relay_failed_payload =
  rf_reason :: string
  rf_targets :: "string list"
  rf_of :: "string option"

record turn_refreshed_payload =
  tr_turnToken :: string
  tr_turnTokenTTLMs :: "jsnum option"

record token_refreshed_payload =
  rt_reconnectToken :: string
  rt_reconnectTokenTTLMs :: "jsnum option"

record offer_payload =
  op_from :: string
  op_sdp :: string
  op_offerId :: "string option"
  op_timestamp :: "jsnum option"

record answer_payload =
  ap_from :: string
  ap_sdp :: string
  ap_offerId :: "string option"

record ice_candidate_payload =
  ic_from :: string
  ic_candidate :: json
  ic_offerId :: "string option"

section \<open>Parsers\<close>

definition parseContentRevision :: "json option \<Rightarrow> jsnum option" where
  "parseContentRevision raw =
     (case as_number raw of
        Some n \<Rightarrow> if js_is_safe_integer n \<and> js_le (Fin 0) n then Some n else None
      | None \<Rightarrow> None)"

definition parseContentState :: "json option \<Rightarrow> content_state option" where
  "parseContentState raw =
     (if \<not> is_record raw then None
      else (case as_bool (field raw ''active'') of
              None \<Rightarrow> None
            | Some active \<Rightarrow> Some
                \<lparr> cs_active = active,
                  cs_contentType = as_nonempty (field raw ''contentType''),
                  cs_updatedAtMs = as_number (field raw ''updatedAtMs''),
                  cs_epoch = as_number (field raw ''epoch''),
                  cs_revision = parseContentRevision (field raw ''revision'') \<rparr>))"

definition parseCapabilities :: "json option \<Rightarrow> capabilities option" where
  "parseCapabilities raw =
     (if \<not> is_record raw then None
      else Some
        \<lparr> cap_trickleIce = as_bool (field raw ''trickleIce''),
          cap_maxParticipants = as_number (field raw ''maxParticipants''),
          cap_independentContentVideo = as_bool (field raw ''independentContentVideo'') \<rparr>)"

definition parseMediaPolicy :: "json option \<Rightarrow> media_policy option" where
  "parseMediaPolicy raw =
     (if \<not> is_record raw then None
      else Some \<lparr> mp_videoMediaEnabled = as_bool (field raw ''videoMediaEnabled'') \<rparr>)"

text \<open>One iteration of the loop of \<open>parseParticipants\<close>: \<open>None\<close> is \<open>continue\<close>.\<close>

definition parseParticipant :: "json \<Rightarrow> room_participant option" where
  "parseParticipant p =
     (let rec = Some p in
      if \<not> is_record rec then None
      else (case as_nonblank (field rec ''cid'') of
              None \<Rightarrow> None
            | Some cid \<Rightarrow> Some
                \<lparr> rp_cid = cid,
                  rp_joinedAt = as_number (field rec ''joinedAt''),
                  rp_displayName = as_nonblank (field rec ''displayName''),
                  rp_peerId = as_nonblank (field rec ''peerId''),
                  rp_audioEnabled = as_bool (field rec ''audioEnabled''),
                  rp_videoEnabled = as_bool (field rec ''videoEnabled''),
                  rp_connectionStatus =
                    (if field rec ''connectionStatus'' = Some (JStr ''suspended'')
                     then Some Suspended else None),
                  rp_contentState = parseContentState (field rec ''contentState''),
                  rp_capabilities = parseCapabilities (field rec ''capabilities''),
                  rp_mediaPolicy = parseMediaPolicy (field rec ''mediaPolicy'') \<rparr>))"

definition parseParticipants :: "json option \<Rightarrow> room_participant list option" where
  "parseParticipants raw =
     (case raw of Some (JArr ps) \<Rightarrow> Some (List.map_filter parseParticipant ps) | _ \<Rightarrow> None)"

definition parseReconnectOutcome :: "json option \<Rightarrow> reconnect_outcome option" where
  "parseReconnectOutcome raw =
     (if raw = Some (JStr ''fresh'') then Some Fresh
      else if raw = Some (JStr ''reattached'') then Some Reattached
      else if raw = Some (JStr ''recovered'') then Some Recovered
      else None)"

definition parseJoinedPayload :: "json option \<Rightarrow> joined_payload option" where
  "parseJoinedPayload raw =
     (if \<not> json_truthy raw then None
      else (case parseParticipants (field raw ''participants'') of
              None \<Rightarrow> None
            | Some participants \<Rightarrow> Some
                \<lparr> jp_hostCid = as_string (field raw ''hostCid''),
                  jp_participants = participants,
                  jp_turnToken = as_string (field raw ''turnToken''),
                  jp_turnTokenTTLMs = as_number (field raw ''turnTokenTTLMs''),
                  jp_reconnectToken = as_string (field raw ''reconnectToken''),
                  jp_reconnectTokenTTLMs = as_number (field raw ''reconnectTokenTTLMs''),
                  jp_maxParticipants = as_number (field raw ''maxParticipants''),
                  jp_epoch = as_number (field raw ''epoch''),
                  jp_reconnect = parseReconnectOutcome (field raw ''reconnect'') \<rparr>))"

definition parseRoomStatePayload :: "json option \<Rightarrow> room_state option" where
  "parseRoomStatePayload raw =
     (if \<not> json_truthy raw then None
      else (case parseParticipants (field raw ''participants'') of
              None \<Rightarrow> None
            | Some participants \<Rightarrow> Some
                \<lparr> rs_hostCid = as_string (field raw ''hostCid''),
                  rs_participants = participants,
                  rs_maxParticipants = as_number (field raw ''maxParticipants''),
                  rs_epoch = as_number (field raw ''epoch'') \<rparr>))"

definition parseErrorPayload :: "json option \<Rightarrow> error_payload option" where
  "parseErrorPayload raw =
     (if \<not> json_truthy raw then None
      else (case as_string (field raw ''message'') of
              None \<Rightarrow> None
            | Some message \<Rightarrow> Some
                \<lparr> ep_code = default ''UNKNOWN'' (as_string (field raw ''code'')),
                  ep_message = message,
                  ep_reason = as_nonempty (field raw ''reason'') \<rparr>))"

definition parseRelayFailedPayload :: "json option \<Rightarrow> relay_failed_payload option" where
  "parseRelayFailedPayload raw =
     (if \<not> json_truthy raw then None
      else (case (as_string (field raw ''reason''), field raw ''targets'') of
              (Some reason, Some (JArr ts)) \<Rightarrow>
                (let targets = List.map_filter (\<lambda>t. as_nonempty (Some t)) ts in
                 if targets = [] then None
                 else Some \<lparr> rf_reason = reason, rf_targets = targets,
                             rf_of = as_nonempty (field raw ''of'') \<rparr>)
            | _ \<Rightarrow> None))"

definition parseNegotiationDirtyPayload :: "json option \<Rightarrow> string option" where
  "parseNegotiationDirtyPayload raw =
     (if \<not> json_truthy raw then None else as_nonempty (field raw ''with''))"

definition parseTurnRefreshedPayload :: "json option \<Rightarrow> turn_refreshed_payload option" where
  "parseTurnRefreshedPayload raw =
     (if \<not> json_truthy raw then None
      else (case as_string (field raw ''turnToken'') of
              None \<Rightarrow> None
            | Some t \<Rightarrow> Some \<lparr> tr_turnToken = t,
                              tr_turnTokenTTLMs = as_number (field raw ''turnTokenTTLMs'') \<rparr>))"

definition parseReconnectTokenRefreshedPayload :: "json option \<Rightarrow> token_refreshed_payload option" where
  "parseReconnectTokenRefreshedPayload raw =
     (if \<not> json_truthy raw then None
      else (case as_string (field raw ''reconnectToken'') of
              None \<Rightarrow> None
            | Some t \<Rightarrow> Some \<lparr> rt_reconnectToken = t,
                              rt_reconnectTokenTTLMs = as_number (field raw ''reconnectTokenTTLMs'') \<rparr>))"

text \<open>The offer id of an offer, answer or candidate: \<open>offerId\<close>, else the legacy \<open>negotiationId\<close>.\<close>

definition parse_offer_id :: "json option \<Rightarrow> string option" where
  "parse_offer_id raw =
     coalesce (as_nonempty (field raw ''offerId'')) (as_nonempty (field raw ''negotiationId''))"

definition parseOfferPayload :: "json option \<Rightarrow> offer_payload option" where
  "parseOfferPayload raw =
     (if \<not> json_truthy raw then None
      else (case (as_nonempty (field raw ''from''), as_nonempty (field raw ''sdp'')) of
              (Some from, Some sdp) \<Rightarrow> Some
                \<lparr> op_from = from, op_sdp = sdp, op_offerId = parse_offer_id raw,
                  op_timestamp = as_number (field raw ''timestamp'') \<rparr>
            | _ \<Rightarrow> None))"

definition parseAnswerPayload :: "json option \<Rightarrow> answer_payload option" where
  "parseAnswerPayload raw =
     (if \<not> json_truthy raw then None
      else (case (as_nonempty (field raw ''from''), as_nonempty (field raw ''sdp'')) of
              (Some from, Some sdp) \<Rightarrow> Some
                \<lparr> ap_from = from, ap_sdp = sdp, ap_offerId = parse_offer_id raw \<rparr>
            | _ \<Rightarrow> None))"

definition parseIceCandidatePayload :: "json option \<Rightarrow> ice_candidate_payload option" where
  "parseIceCandidatePayload raw =
     (if \<not> json_truthy raw then None
      else (case as_nonempty (field raw ''from'') of
              None \<Rightarrow> None
            | Some from \<Rightarrow>
                (case field raw ''candidate'' of
                   Some (JObj kvs) \<Rightarrow>
                     (case as_string (field (Some (JObj kvs)) ''candidate'') of
                        Some _ \<Rightarrow> Some \<lparr> ic_from = from, ic_candidate = JObj kvs,
                                        ic_offerId = parse_offer_id raw \<rparr>
                      | None \<Rightarrow> None)
                 | _ \<Rightarrow> None)))"

lemmas parser_defs =
  parseContentRevision_def parseContentState_def parseCapabilities_def parseMediaPolicy_def
  parseParticipant_def parseParticipants_def parseReconnectOutcome_def

section \<open>Well-formed values\<close>

definition wf_revision :: "jsnum \<Rightarrow> bool" where
  "wf_revision n = (js_is_safe_integer n \<and> js_le (Fin 0) n)"

definition wf_content_state :: "content_state \<Rightarrow> bool" where
  "wf_content_state c = (cs_contentType c \<noteq> Some [] \<and> pred_option wf_revision (cs_revision c))"

definition wf_participant :: "room_participant \<Rightarrow> bool" where
  "wf_participant p =
     (\<not> is_blank (rp_cid p) \<and>
      pred_option (\<lambda>s. \<not> is_blank s) (rp_displayName p) \<and>
      pred_option (\<lambda>s. \<not> is_blank s) (rp_peerId p) \<and>
      pred_option wf_content_state (rp_contentState p))"

lemma parseContentRevision_wf: "parseContentRevision raw = Some n \<Longrightarrow> wf_revision n"
  by (auto simp: parseContentRevision_def wf_revision_def split: option.splits if_splits)

lemma wf_revision_nat: "wf_revision n \<Longrightarrow> \<exists>k. n = Fin (of_nat k) \<and> k \<le> 9007199254740991"
proof (cases n)
  case (Fin r)
  assume "wf_revision n"
  with Fin have i: "of_int \<lfloor>r\<rfloor> = r" and b: "\<bar>r\<bar> \<le> 9007199254740991" and p: "0 \<le> r"
    by (auto simp: wf_revision_def js_is_safe_integer_def)
  from p have "0 \<le> \<lfloor>r\<rfloor>" by simp
  then have "of_nat (nat \<lfloor>r\<rfloor>) = (of_int \<lfloor>r\<rfloor> :: rat)" by simp
  with i have r: "r = of_nat (nat \<lfloor>r\<rfloor>)" by metis
  have "(of_nat (nat \<lfloor>r\<rfloor>) :: rat) \<le> of_nat 9007199254740991" using b p r by simp
  then have "nat \<lfloor>r\<rfloor> \<le> 9007199254740991" using of_nat_le_iff by blast
  with r Fin show ?thesis by blast
qed (auto simp: wf_revision_def js_is_safe_integer_def)

lemma parseContentState_wf: "parseContentState raw = Some c \<Longrightarrow> wf_content_state c"
  by (auto simp: parseContentState_def wf_content_state_def as_nonempty_def option.pred_set
      intro: parseContentRevision_wf split: option.splits if_splits)

lemma parseParticipant_wf: "parseParticipant j = Some p \<Longrightarrow> wf_participant p"
  by (auto simp: parseParticipant_def wf_participant_def option.pred_set Let_def
      intro: parseContentState_wf split: option.splits if_splits)

lemma map_filter_all:
  "(\<And>x y. f x = Some y \<Longrightarrow> P y) \<Longrightarrow> list_all P (List.map_filter f xs)"
  by (induction xs) (auto simp: List.map_filter_simps split: option.split)

lemma parseParticipants_wf: "parseParticipants raw = Some ps \<Longrightarrow> list_all wf_participant ps"
  by (auto simp: parseParticipants_def parseParticipant_wf intro!: map_filter_all
      split: option.splits json.splits)

section \<open>Wire form of a room state\<close>

definition encode_content_state :: "content_state \<Rightarrow> json" where
  "encode_content_state c = JObj
     (opt_member ''contentType'' JStr (cs_contentType c) @
      opt_member ''updatedAtMs'' JNum (cs_updatedAtMs c) @
      opt_member ''epoch'' JNum (cs_epoch c) @
      opt_member ''revision'' JNum (cs_revision c) @
      [(''active'', JBool (cs_active c))])"

definition encode_capabilities :: "capabilities \<Rightarrow> json" where
  "encode_capabilities c = JObj
     (opt_member ''trickleIce'' JBool (cap_trickleIce c) @
      opt_member ''maxParticipants'' JNum (cap_maxParticipants c) @
      opt_member ''independentContentVideo'' JBool (cap_independentContentVideo c))"

definition encode_media_policy :: "media_policy \<Rightarrow> json" where
  "encode_media_policy m = JObj (opt_member ''videoMediaEnabled'' JBool (mp_videoMediaEnabled m))"

definition encode_participant :: "room_participant \<Rightarrow> json" where
  "encode_participant p = JObj
     (opt_member ''joinedAt'' JNum (rp_joinedAt p) @
      opt_member ''displayName'' JStr (rp_displayName p) @
      opt_member ''peerId'' JStr (rp_peerId p) @
      opt_member ''audioEnabled'' JBool (rp_audioEnabled p) @
      opt_member ''videoEnabled'' JBool (rp_videoEnabled p) @
      opt_member ''connectionStatus'' (\<lambda>_. JStr ''suspended'') (rp_connectionStatus p) @
      opt_member ''contentState'' encode_content_state (rp_contentState p) @
      opt_member ''capabilities'' encode_capabilities (rp_capabilities p) @
      opt_member ''mediaPolicy'' encode_media_policy (rp_mediaPolicy p) @
      [(''cid'', JStr (rp_cid p))])"

definition encode_room_state :: "room_state \<Rightarrow> json" where
  "encode_room_state r = JObj
     (opt_member ''hostCid'' JStr (rs_hostCid r) @
      opt_member ''maxParticipants'' JNum (rs_maxParticipants r) @
      opt_member ''epoch'' JNum (rs_epoch r) @
      [(''participants'', JArr (map encode_participant (rs_participants r)))])"

lemma as_string_map_option [simp]: "as_string (map_option JStr x) = x"
  by (cases x) simp_all

lemma as_number_map_option [simp]: "as_number (map_option JNum x) = x"
  by (cases x) simp_all

lemma as_bool_map_option [simp]: "as_bool (map_option JBool x) = x"
  by (cases x) simp_all

lemma as_nonempty_map_option [simp]: "x \<noteq> Some [] \<Longrightarrow> as_nonempty (map_option JStr x) = x"
  by (cases x) (auto simp: as_nonempty_def)

lemma as_nonblank_map_option [simp]:
  "pred_option (\<lambda>s. \<not> is_blank s) x \<Longrightarrow> as_nonblank (map_option JStr x) = x"
  by (cases x) (auto simp: as_nonblank_def)

lemma as_nonblank_JStr [simp]: "as_nonblank (Some (JStr s)) = (if is_blank s then None else Some s)"
  by (simp add: as_nonblank_def)

lemma parseContentRevision_encode [simp]:
  "pred_option wf_revision x \<Longrightarrow> parseContentRevision (map_option JNum x) = x"
  by (cases x) (auto simp: parseContentRevision_def wf_revision_def)

lemma parse_encode_content_state [simp]:
  "wf_content_state c \<Longrightarrow> parseContentState (Some (encode_content_state c)) = Some c"
  by (simp add: parseContentState_def encode_content_state_def wf_content_state_def)

lemma parse_encode_capabilities [simp]: "parseCapabilities (Some (encode_capabilities c)) = Some c"
  by (simp add: parseCapabilities_def encode_capabilities_def)

lemma parse_encode_media_policy [simp]: "parseMediaPolicy (Some (encode_media_policy m)) = Some m"
  by (simp add: parseMediaPolicy_def encode_media_policy_def)

lemma parse_undefined [simp]:
  "parseContentState None = None" "parseCapabilities None = None" "parseMediaPolicy None = None"
  by (simp_all add: parser_defs)

lemma parseContentState_map_option [simp]:
  "pred_option wf_content_state x \<Longrightarrow> parseContentState (map_option encode_content_state x) = x"
  by (cases x) simp_all

lemma parseCapabilities_map_option [simp]: "parseCapabilities (map_option encode_capabilities x) = x"
  by (cases x) simp_all

lemma parseMediaPolicy_map_option [simp]: "parseMediaPolicy (map_option encode_media_policy x) = x"
  by (cases x) simp_all

lemma parse_encode_participant:
  "wf_participant p \<Longrightarrow> parseParticipant (encode_participant p) = Some p"
  by (cases "rp_connectionStatus p"; cases "the (rp_connectionStatus p)")
    (auto simp: parseParticipant_def encode_participant_def wf_participant_def)

lemma parse_encode_participants:
  "list_all wf_participant ps \<Longrightarrow>
   parseParticipants (Some (JArr (map encode_participant ps))) = Some ps"
  by (induction ps)
    (auto simp: parseParticipants_def List.map_filter_simps parse_encode_participant)

section \<open>Properties\<close>

text \<open>C34: Round trip. Every room state whose participants are well-formed is recovered from its wire
  form by \<open>parseRoomStatePayload\<close>: no field is lost, defaulted or reordered.\<close>

theorem room_state_roundtrip:
  assumes "list_all wf_participant (rs_participants r)"
  shows "parseRoomStatePayload (Some (encode_room_state r)) = Some r"
  using parse_encode_participants [OF assms]
  by (simp add: parseRoomStatePayload_def encode_room_state_def)

theorem room_state_roundtrip_witness:
  "parseRoomStatePayload (Some (encode_room_state
     \<lparr> rs_hostCid = Some ''a'',
       rs_participants =
         [\<lparr> rp_cid = ''a'', rp_joinedAt = Some (Fin 7), rp_displayName = Some ''Ann'', rp_peerId = None,
            rp_audioEnabled = Some True, rp_videoEnabled = None, rp_connectionStatus = Some Suspended,
            rp_contentState = Some \<lparr> cs_active = True, cs_contentType = None, cs_updatedAtMs = None,
                                     cs_epoch = None, cs_revision = Some (Fin 3) \<rparr>,
            rp_capabilities = None, rp_mediaPolicy = None \<rparr>],
       rs_maxParticipants = None, rs_epoch = Some (Fin 12) \<rparr>)) = Some
     \<lparr> rs_hostCid = Some ''a'',
       rs_participants =
         [\<lparr> rp_cid = ''a'', rp_joinedAt = Some (Fin 7), rp_displayName = Some ''Ann'', rp_peerId = None,
            rp_audioEnabled = Some True, rp_videoEnabled = None, rp_connectionStatus = Some Suspended,
            rp_contentState = Some \<lparr> cs_active = True, cs_contentType = None, cs_updatedAtMs = None,
                                     cs_epoch = None, cs_revision = Some (Fin 3) \<rparr>,
            rp_capabilities = None, rp_mediaPolicy = None \<rparr>],
       rs_maxParticipants = None, rs_epoch = Some (Fin 12) \<rparr>"
  by (rule room_state_roundtrip)
    (simp add: wf_participant_def wf_content_state_def wf_revision_def js_is_safe_integer_def
      is_blank_iff is_js_space_def Let_def)

text \<open>C37: Whatever JSON arrives, the participants a \<open>joined\<close> or \<open>room_state\<close> payload yields are
  well-formed: no blank cid, display name or peer id, no empty content type, and every content
  revision is a non-negative safe integer; a relay failure names at least one non-empty target.\<close>

theorem parsed_payloads_wf:
  "(parseJoinedPayload raw = Some j \<longrightarrow> list_all wf_participant (jp_participants j)) \<and>
   (parseRoomStatePayload raw = Some r \<longrightarrow> list_all wf_participant (rs_participants r)) \<and>
   (parseRelayFailedPayload raw = Some f \<longrightarrow>
      rf_targets f \<noteq> [] \<and> list_all (\<lambda>t. t \<noteq> []) (rf_targets f))"
proof (intro conjI impI)
  assume "parseJoinedPayload raw = Some j"
  then show "list_all wf_participant (jp_participants j)"
    by (auto simp: parseJoinedPayload_def intro: parseParticipants_wf split: if_splits option.splits)
next
  assume "parseRoomStatePayload raw = Some r"
  then show "list_all wf_participant (rs_participants r)"
    by (auto simp: parseRoomStatePayload_def intro: parseParticipants_wf split: if_splits option.splits)
next
  assume f: "parseRelayFailedPayload raw = Some f"
  then show "rf_targets f \<noteq> []"
    by (auto simp: parseRelayFailedPayload_def Let_def split: if_splits option.splits json.splits)
  from f show "list_all (\<lambda>t. t \<noteq> []) (rf_targets f)"
    by (auto simp: parseRelayFailedPayload_def Let_def intro!: map_filter_all
        split: if_splits option.splits json.splits)
qed

theorem parsed_payloads_wf_witness:
  "list_all wf_participant (jp_participants (the (parseJoinedPayload
     (Some (JObj [(''participants'', JArr [JNull, JObj [(''cid'', JStr '' '')],
                                           JObj [(''cid'', JStr ''b'')]])])))))"
  using parsed_payloads_wf [of "Some (JObj [(''participants'', JArr [JNull, JObj [(''cid'', JStr '' '')],
                                           JObj [(''cid'', JStr ''b'')]])])"
      "the (parseJoinedPayload
     (Some (JObj [(''participants'', JArr [JNull, JObj [(''cid'', JStr '' '')],
                                           JObj [(''cid'', JStr ''b'')]])])))"]
  by (simp add: parseJoinedPayload_def parseParticipants_def List.map_filter_simps)

end
