(* ===== verification/Room_Statuses.thy ===== *)
theory Room_Statuses
  imports Prelude
begin

text \<open>
  Room occupancy as the home screen watches it:
  \<^verbatim>\<open>client/packages/core/src/signaling/roomStatuses.ts\<close>. A \<open>RoomStatuses\<close> object is an
  association list from room id to status. The merges are shown to keep every stored status sane
  and to touch only the rooms the payload names.
\<close>

record room_status =
  st_count :: jsnum
  st_max :: "jsnum option"

type_synonym room_statuses = "(string \<times> room_status) list"

datatype status_state = Hidden | Waiting | Full

definition usable_max :: "jsnum \<Rightarrow> bool" where
  "usable_max n = (js_is_finite n \<and> js_le (Fin 2) n)"

definition normalizeMaxParticipants :: "json option \<Rightarrow> jsnum option \<Rightarrow> jsnum option" where
  "normalizeMaxParticipants value fallback =
     (case as_number value of
        Some n \<Rightarrow> if usable_max n then Some n
                  else (case fallback of Some f \<Rightarrow> if usable_max f then Some f else None | None \<Rightarrow> None)
      | None \<Rightarrow> (case fallback of Some f \<Rightarrow> if usable_max f then Some f else None | None \<Rightarrow> None))"

definition parseRoomStatus :: "json option \<Rightarrow> jsnum option \<Rightarrow> room_status option" where
  "parseRoomStatus value fallbackMax =
     (case as_number value of
        Some n \<Rightarrow>
          if js_is_finite n
          then Some \<lparr> st_count = n,
                      st_max = normalizeMaxParticipants (map_option JNum fallbackMax) (Some (Fin 2)) \<rparr>
          else None
      | None \<Rightarrow>
          if \<not> is_record value then None
          else (case as_number (field value ''count'') of
                  Some count \<Rightarrow>
                    if js_is_finite count
                    then Some \<lparr> st_count = count,
                                st_max = normalizeMaxParticipants (field value ''maxParticipants'') fallbackMax \<rparr>
                    else None
                | None \<Rightarrow> None))"

definition prev_max :: "room_statuses \<Rightarrow> string \<Rightarrow> jsnum option" where
  "prev_max previous rid = Option.bind (map_of previous rid) st_max"

definition merge_entry :: "room_statuses \<Rightarrow> string \<times> json \<Rightarrow> room_statuses \<Rightarrow> room_statuses" where
  "merge_entry previous entry next =
     (case parseRoomStatus (Some (snd entry)) (prev_max previous (fst entry)) of
        Some status \<Rightarrow> AList.update (fst entry) status next
      | None \<Rightarrow> next)"

definition mergeRoomStatusesPayload :: "room_statuses \<Rightarrow> json option \<Rightarrow> room_statuses" where
  "mergeRoomStatusesPayload previous payload =
     (case payload of
        Some (JObj entries) \<Rightarrow> fold (merge_entry previous) entries previous
      | _ \<Rightarrow> previous)"

definition mergeRoomStatusUpdatePayload :: "room_statuses \<Rightarrow> json option \<Rightarrow> room_statuses" where
  "mergeRoomStatusUpdatePayload previous payload =
     (if \<not> is_record payload then previous
      else (case (as_string (field payload ''rid''), as_number (field payload ''count'')) of
              (Some rid, Some count) \<Rightarrow>
                if js_is_finite count
                then AList.update rid
                       \<lparr> st_count = count,
                         st_max = normalizeMaxParticipants (field payload ''maxParticipants'')
                                    (prev_max previous rid) \<rparr> previous
                else previous
            | _ \<Rightarrow> previous))"

definition getRoomStatusState :: "room_status option \<Rightarrow> status_state" where
  "getRoomStatusState status =
     (let count = (case status of Some s \<Rightarrow> st_count s | None \<Rightarrow> Fin 0) in
      if js_le count (Fin 0) then Hidden
      else (let m = default (Fin 2)
                      (normalizeMaxParticipants (map_option JNum (Option.bind status st_max)) (Some (Fin 2)))
            in if js_le m count then Full else Waiting))"

section \<open>Sane statuses\<close>

definition sane_status :: "room_status \<Rightarrow> bool" where
  "sane_status s = (js_is_finite (st_count s) \<and> pred_option usable_max (st_max s))"

definition sane_statuses :: "room_statuses \<Rightarrow> bool" where
  "sane_statuses m = (distinct (map fst m) \<and> list_all (\<lambda>e. sane_status (snd e)) m)"

lemma normalizeMax_usable: "normalizeMaxParticipants v f = Some n \<Longrightarrow> usable_max n"
  by (auto simp: normalizeMaxParticipants_def split: option.splits if_splits)

lemma normalizeMax_pred: "pred_option usable_max (normalizeMaxParticipants v f)"
  by (auto simp: option.pred_set dest: normalizeMax_usable)

lemma normalizeMax_total: "\<exists>m. normalizeMaxParticipants v (Some (Fin 2)) = Some m"
  by (cases "as_number v") (simp_all add: normalizeMaxParticipants_def usable_max_def)

lemma parseRoomStatus_sane: "parseRoomStatus v f = Some s \<Longrightarrow> sane_status s"
  by (auto simp: parseRoomStatus_def sane_status_def normalizeMax_pred split: option.splits if_splits)

lemma set_update_subset: "set (AList.update k v m) \<subseteq> insert (k, v) (set m)"
  by (induction m) auto

lemma sane_statuses_update:
  "sane_statuses m \<Longrightarrow> sane_status s \<Longrightarrow> sane_statuses (AList.update k s m)"
  using set_update_subset [of k s m]
  by (fastforce simp: sane_statuses_def list_all_iff AList.distinct_update)

lemma merge_entry_sane: "sane_statuses next \<Longrightarrow> sane_statuses (merge_entry prev e next)"
  by (auto simp: merge_entry_def intro: sane_statuses_update parseRoomStatus_sane split: option.split)

lemma fold_merge_sane: "sane_statuses next \<Longrightarrow> sane_statuses (fold (merge_entry prev) es next)"
  by (induction es arbitrary: "next") (auto intro: merge_entry_sane)

lemma fold_merge_other:
  "rid \<notin> fst ` set es \<Longrightarrow> map_of (fold (merge_entry prev) es next) rid = map_of next rid"
  by (induction es arbitrary: "next")
    (auto simp: merge_entry_def js_map.get_put_other split: option.split)

lemma merge_entry_lookup:
  "map_of (merge_entry prev (rid, v) next) rid =
     coalesce (parseRoomStatus (Some v) (prev_max prev rid)) (map_of next rid)"
  by (simp add: merge_entry_def js_map.get_put_same split: option.split)

lemma merge_entry_other: "fst e \<noteq> rid \<Longrightarrow> map_of (merge_entry prev e next) rid = map_of next rid"
  by (simp add: merge_entry_def js_map.get_put_other split: option.split)

lemma fold_merge_lookup:
  "distinct (map fst es) \<Longrightarrow>
   map_of (fold (merge_entry prev) es next) rid =
     coalesce (Option.bind (map_of es rid) (\<lambda>v. parseRoomStatus (Some v) (prev_max prev rid)))
       (map_of next rid)"
proof (induction es arbitrary: "next")
  case (Cons e es)
  show ?case
  proof (cases "fst e = rid")
    case True
    then obtain v where e: "e = (rid, v)" by (cases e) auto
    with Cons.prems have "rid \<notin> fst ` set es" by auto
    then show ?thesis by (simp add: e fold_merge_other merge_entry_lookup)
  next
    case False
    then have "map_of (e # es) rid = map_of es rid" by (cases e) auto
    with False Cons show ?thesis by (simp add: merge_entry_other del: map_of.simps)
  qed
qed simp

lemma merge_payload_sane:
  "sane_statuses m \<Longrightarrow> sane_statuses (mergeRoomStatusesPayload m payload)"
  by (auto simp: mergeRoomStatusesPayload_def intro: fold_merge_sane split: option.split json.split)

lemma merge_update_sane:
  "sane_statuses m \<Longrightarrow> sane_statuses (mergeRoomStatusUpdatePayload m payload)"
  by (auto simp: mergeRoomStatusUpdatePayload_def sane_status_def normalizeMax_pred
      intro!: sane_statuses_update split: option.split)

section \<open>Properties\<close>

text \<open>A bulk status payload is merged exactly: a room it names with a parsable status gets that
  status (its capacity falling back to the one known before), a room it names with an unusable status
  or does not name at all keeps its previous status, and the merged table is sane: every room once,
  with a finite count and a capacity that is absent or a finite number of at least two.\<close>

theorem merge_statuses_exact:
  assumes "sane_statuses previous" and "distinct (map fst entries)"
  shows "sane_statuses (mergeRoomStatusesPayload previous (Some (JObj entries))) \<and>
         map_of (mergeRoomStatusesPayload previous (Some (JObj entries))) rid =
           (case map_of entries rid of
              None \<Rightarrow> map_of previous rid
            | Some v \<Rightarrow> coalesce (parseRoomStatus (Some v) (prev_max previous rid)) (map_of previous rid))"
  using merge_payload_sane [OF assms(1), of "Some (JObj entries)"] fold_merge_lookup [OF assms(2)]
  by (simp add: mergeRoomStatusesPayload_def split: option.split)

theorem merge_statuses_exact_witness:
  "map_of (mergeRoomStatusesPayload
       [(''a'', \<lparr> st_count = Fin 1, st_max = Some (Fin 4) \<rparr>), (''b'', \<lparr> st_count = Fin 1, st_max = None \<rparr>)]
       (Some (JObj [(''a'', JObj [(''count'', JNum (Fin 3))]), (''b'', JNull)]))) ''a''
     = Some \<lparr> st_count = Fin 3, st_max = Some (Fin 4) \<rparr>"
  using merge_statuses_exact [of
      "[(''a'', \<lparr> st_count = Fin 1, st_max = Some (Fin 4) \<rparr>), (''b'', \<lparr> st_count = Fin 1, st_max = None \<rparr>)]"
      "[(''a'', JObj [(''count'', JNum (Fin 3))]), (''b'', JNull)]" "''a''"]
  by (simp add: sane_statuses_def sane_status_def usable_max_def parseRoomStatus_def prev_max_def
      normalizeMaxParticipants_def)

text \<open>A single-room update keeps the table sane and changes no other room, and whatever the table
  holds, the badge of a room is \<open>Full\<close> only at two or more participants: a room with fewer is \<open>Hidden\<close>
  when empty and \<open>Waiting\<close> otherwise.\<close>

theorem status_update_and_badge:
  assumes "sane_statuses previous"
  shows "sane_statuses (mergeRoomStatusUpdatePayload previous payload) \<and>
         (as_string (field payload ''rid'') \<noteq> Some rid \<longrightarrow>
            map_of (mergeRoomStatusUpdatePayload previous payload) rid = map_of previous rid) \<and>
         (map_of (mergeRoomStatusUpdatePayload previous payload) rid = Some s \<longrightarrow>
            (getRoomStatusState (Some s) = Hidden \<longleftrightarrow> js_le (st_count s) (Fin 0)) \<and>
            (getRoomStatusState (Some s) = Full \<longrightarrow> js_le (Fin 2) (st_count s)))"
proof (intro conjI impI)
  show sane: "sane_statuses (mergeRoomStatusUpdatePayload previous payload)"
    by (rule merge_update_sane [OF assms])
  show "map_of (mergeRoomStatusUpdatePayload previous payload) rid = map_of previous rid"
    if "as_string (field payload ''rid'') \<noteq> Some rid"
    using that by (auto simp: mergeRoomStatusUpdatePayload_def js_map.get_put_other split: option.split)
  show "getRoomStatusState (Some s) = Hidden \<longleftrightarrow> js_le (st_count s) (Fin 0)"
    by (simp add: getRoomStatusState_def Let_def)
  assume "map_of (mergeRoomStatusUpdatePayload previous payload) rid = Some s"
    and full: "getRoomStatusState (Some s) = Full"
  with sane have "js_is_finite (st_count s)"
    by (auto simp: sane_statuses_def sane_status_def list_all_iff dest!: map_of_SomeD)
  moreover obtain m where m: "normalizeMaxParticipants (map_option JNum (st_max s)) (Some (Fin 2)) = Some m"
    using normalizeMax_total by blast
  ultimately show "js_le (Fin 2) (st_count s)"
    using full normalizeMax_usable [OF m]
    by (cases "st_count s"; cases m)
      (auto simp: getRoomStatusState_def Let_def usable_max_def split: if_splits)
qed

theorem status_update_and_badge_witness:
  "getRoomStatusState (map_of (mergeRoomStatusUpdatePayload
       [(''a'', \<lparr> st_count = Fin 1, st_max = Some (Fin 4) \<rparr>)]
       (Some (JObj [(''rid'', JStr ''b''), (''count'', JNum (Fin 2))]))) ''b'') = Full
   \<and> js_le (Fin 2) (Fin 2)"
  using status_update_and_badge [of "[(''a'', \<lparr> st_count = Fin 1, st_max = Some (Fin 4) \<rparr>)]"
      "Some (JObj [(''rid'', JStr ''b''), (''count'', JNum (Fin 2))])" "''b''"
      "\<lparr> st_count = Fin 2, st_max = None \<rparr>"]
  by (simp add: sane_statuses_def sane_status_def usable_max_def mergeRoomStatusUpdatePayload_def
      prev_max_def normalizeMaxParticipants_def getRoomStatusState_def)

end
