(* ===== verification/Constants.thy ===== *)
theory Constants
  imports Prelude
begin

text \<open>
  The resilience constants of \<^verbatim>\<open>client/packages/core/src/constants.ts\<close> that the model uses,
  in milliseconds unless the name says otherwise. The collection \<open>constants\<close> unfolds them.
\<close>

named_theorems constants \<open>values of the resilience constants\<close>

definition RECONNECT_BACKOFF_BASE_MS :: int where [constants]: "RECONNECT_BACKOFF_BASE_MS = 500"
definition RECONNECT_BACKOFF_CAP_MS :: int where [constants]: "RECONNECT_BACKOFF_CAP_MS = 5000"
definition CONNECT_TIMEOUT_MS :: int where [constants]: "CONNECT_TIMEOUT_MS = 2000"
definition PING_INTERVAL_MS :: int where [constants]: "PING_INTERVAL_MS = 12000"
definition PONG_MISS_THRESHOLD :: nat where [constants]: "PONG_MISS_THRESHOLD = 2"
definition WS_FALLBACK_CONSECUTIVE_FAILURES :: nat where [constants]: "WS_FALLBACK_CONSECUTIVE_FAILURES = 3"

definition JOIN_CONNECT_KICKSTART_MS :: int where [constants]: "JOIN_CONNECT_KICKSTART_MS = 1200"
definition JOIN_RECOVERY_MS :: int where [constants]: "JOIN_RECOVERY_MS = 4000"
definition JOIN_HARD_TIMEOUT_MS :: int where [constants]: "JOIN_HARD_TIMEOUT_MS = 15000"

definition OFFER_TIMEOUT_MS :: int where [constants]: "OFFER_TIMEOUT_MS = 8000"
definition ICE_RESTART_COOLDOWN_MS :: int where [constants]: "ICE_RESTART_COOLDOWN_MS = 10000"
definition ICE_CANDIDATE_BUFFER_MAX :: nat where [constants]: "ICE_CANDIDATE_BUFFER_MAX = 50"
definition OUTBOUND_MEDIA_STALL_SAMPLES :: nat where [constants]: "OUTBOUND_MEDIA_STALL_SAMPLES = 2"
definition OUTBOUND_MEDIA_RECOVERY_COOLDOWN_MS :: int where
  [constants]: "OUTBOUND_MEDIA_RECOVERY_COOLDOWN_MS = 30000"

definition ICE_FETCH_RETRY_DELAYS_MS :: "int list" where
  [constants]: "ICE_FETCH_RETRY_DELAYS_MS = [0, 1000, 2000, 4000]"
definition TURN_REFRESH_TRIGGER_RATIO :: rat where [constants]: "TURN_REFRESH_TRIGGER_RATIO = 4 / 5"

definition RECONNECT_TOKEN_TTL_FALLBACK_MS :: int where [constants]: "RECONNECT_TOKEN_TTL_FALLBACK_MS = 1200000"
definition RECONNECT_TOKEN_REFRESH_LEEWAY_MS :: int where
  [constants]: "RECONNECT_TOKEN_REFRESH_LEEWAY_MS = 600000"

definition ENDING_SCREEN_MS :: int where [constants]: "ENDING_SCREEN_MS = 3000"
definition FOREGROUND_FORCE_PING_TIMEOUT_MS :: int where
  [constants]: "FOREGROUND_FORCE_PING_TIMEOUT_MS = 2000"
definition EPOCH_RESYNC_TIMEOUT_MS :: int where [constants]: "EPOCH_RESYNC_TIMEOUT_MS = 5000"
definition PEER_SUSPENDED_UI_TIMEOUT_MS :: int where [constants]: "PEER_SUSPENDED_UI_TIMEOUT_MS = 30000"
definition SUSPEND_HARD_EVICTION_TIMEOUT_MS :: int where
  [constants]: "SUSPEND_HARD_EVICTION_TIMEOUT_MS = 600000"
definition MEDIA_LIVENESS_INTERVAL_MS :: int where [constants]: "MEDIA_LIVENESS_INTERVAL_MS = 10000"
definition CONNECTION_RETRYING_DELAY_MS :: int where [constants]: "CONNECTION_RETRYING_DELAY_MS = 10000"
definition LOCAL_VIDEO_RESUME_GAP_MS :: int where [constants]: "LOCAL_VIDEO_RESUME_GAP_MS = 15000"

end
