(* ===== verification/Config_Policies.thy ===== *)
theory Config_Policies
  imports Constants
begin

text \<open>
  Configuration and small decision tables of the SDK: the transport order
  (\<^verbatim>\<open>signaling/transportConfig.ts\<close>), the camera cycle (\<^verbatim>\<open>cameraModes.ts\<close>), the validation of
  the session configuration (\<^verbatim>\<open>configValidation.ts\<close>), local video recovery
  (\<^verbatim>\<open>media/localVideoRecovery.ts\<close>), the error-code tables (\<^verbatim>\<open>media/reconnectReason.ts\<close> and
  \<open>mapErrorCode\<close> of \<^verbatim>\<open>SerenadaSession.ts\<close>) and the \<open>turnsOnly\<close> switch of the web client.
\<close>

section \<open>Transport order\<close>

datatype transport_kind = Ws | Sse

definition DEFAULT_TRANSPORTS :: "transport_kind list" where
  "DEFAULT_TRANSPORTS = [Ws, Sse]"

definition normalizeTransport :: "string \<Rightarrow> transport_kind option" where
  "normalizeTransport value =
     (let normalized = js_lower (js_trim value) in
      if normalized = ''ws'' \<or> normalized = ''wss'' then Some Ws
      else if normalized = ''sse'' then Some Sse
      else None)"

definition parseTransportOrder :: "string option \<Rightarrow> transport_kind list" where
  "parseTransportOrder raw =
     (case raw of
        None \<Rightarrow> DEFAULT_TRANSPORTS
      | Some s \<Rightarrow>
          if s = [] then DEFAULT_TRANSPORTS
          else (let parsed = List.map_filter normalizeTransport (split_on CHR '','' s) in
                if parsed = [] then DEFAULT_TRANSPORTS
                else fold (\<lambda>kind unique. if kind \<in> set unique then unique else unique @ [kind]) parsed []))"

section \<open>Camera modes\<close>

datatype camera_mode = Selfie | World | Composite

definition DEFAULT_CAMERA_MODES :: "camera_mode list" where
  "DEFAULT_CAMERA_MODES = [Selfie, World, Composite]"

definition resolveCameraModes :: "camera_mode list option \<Rightarrow> camera_mode list" where
  "resolveCameraModes configured =
     fst (fold (\<lambda>mode (result, seen).
            if mode = Composite then (result, seen)
            else if mode \<noteq> Selfie \<and> mode \<noteq> World then (result, seen)
            else if mode \<in> seen then (result, seen)
            else (result @ [mode], insert mode seen))
          (default DEFAULT_CAMERA_MODES configured) ([], {}))"

definition nextCameraMode :: "camera_mode list \<Rightarrow> camera_mode \<Rightarrow> camera_mode option" where
  "nextCameraMode modes current =
     (if length modes \<le> 1 then None
      else (case index_of modes current of
              None \<Rightarrow> Some (modes ! 0)
            | Some index \<Rightarrow> Some (modes ! ((index + 1) mod length modes))))"

section \<open>Session configuration\<close>

text \<open>The provider object is opaque but for its version.\<close>

record provider_ref =
  pr_version :: int
  pr_id :: nat

record serenada_config =
  cfg_serverHost :: "string option"
  cfg_signalingProvider :: "provider_ref option"

datatype config_error = ExactlyOneRequired | UnsupportedVersion int | RequiresServerHost

definition SUPPORTED_SIGNALING_PROVIDER_VERSION :: int where
  "SUPPORTED_SIGNALING_PROVIDER_VERSION = 1"

definition resolveSerenadaConfig ::
  "serenada_config \<Rightarrow> config_error + (string option \<times> provider_ref option)" where
  "resolveSerenadaConfig config =
     (let trimmedHost = (case cfg_serverHost config of Some h \<Rightarrow> js_trim h | None \<Rightarrow> []);
          serverHost = (if length trimmedHost > 0 then Some trimmedHost else None);
          signalingProvider = cfg_signalingProvider config
      in if serverHost \<noteq> None \<and> signalingProvider \<noteq> None then Inl ExactlyOneRequired
         else if serverHost = None \<and> signalingProvider = None then Inl ExactlyOneRequired
         else (case signalingProvider of
                 Some p \<Rightarrow> if pr_version p \<noteq> SUPPORTED_SIGNALING_PROVIDER_VERSION
                           then Inl (UnsupportedVersion (pr_version p))
                           else Inr (serverHost, signalingProvider)
               | None \<Rightarrow> Inr (serverHost, signalingProvider)))"

definition requireServerHost :: "serenada_config \<Rightarrow> config_error + string" where
  "requireServerHost config =
     (case resolveSerenadaConfig config of
        Inl e \<Rightarrow> Inl e
      | Inr (Some h, _) \<Rightarrow> Inr h
      | Inr (None, _) \<Rightarrow> Inl RequiresServerHost)"

section \<open>Local video recovery\<close>

datatype track_ready_state = TrackLive | TrackEnded

definition shouldForceLocalVideoRefresh :: "int option \<Rightarrow> int option \<Rightarrow> int \<Rightarrow> bool" where
  "shouldForceLocalVideoRefresh hiddenDurationMs sleepGapMs thresholdMs =
     (thresholdMs \<le> default 0 hiddenDurationMs \<or> thresholdMs \<le> default 0 sleepGapMs)"

definition shouldRecoverLocalVideo ::
  "bool \<Rightarrow> bool \<Rightarrow> track_ready_state option \<Rightarrow> bool \<Rightarrow> bool \<Rightarrow> bool" where
  "shouldRecoverLocalVideo hasVideoTrack isScreenSharing readyState muted forceRefresh =
     (if \<not> hasVideoTrack \<or> isScreenSharing then False
      else if forceRefresh then True
      else readyState \<noteq> Some TrackLive \<or> muted)"

section \<open>Error codes\<close>

datatype call_error_code =
    SignalingTimeout | RoomFull | RoomEnded | SessionExpired | PermissionDenied | WebrtcUnavailable
  | MediaUnavailable | ConnectionFailed | ServerError | UnknownError

definition mapErrorCode :: "string \<Rightarrow> call_error_code" where
  "mapErrorCode c =
     (if c = ''JOIN_TIMEOUT'' then SignalingTimeout
      else if c = ''ROOM_FULL'' \<or> c = ''ROOM_CAPACITY_UNSUPPORTED'' then RoomFull
      else if c = ''ROOM_ENDED'' then RoomEnded
      else if c = ''INVALID_RECONNECT_TOKEN'' then SessionExpired
      else if c = ''PERMISSION_DENIED'' then PermissionDenied
      else if c = ''MEDIA_UNSUPPORTED'' then WebrtcUnavailable
      else if c = ''LOCAL_MEDIA_FAILED'' then MediaUnavailable
      else if c = ''CONNECTION_FAILED'' then ConnectionFailed
      else if c = ''ICE_SERVER_FETCH_FAILED'' then ServerError
      else if c \<in> {''BAD_REQUEST'', ''UNSUPPORTED_VERSION'', ''INVALID_ROOM_ID'',
                    ''SERVER_NOT_CONFIGURED'', ''NOT_IN_ROOM'', ''NOT_HOST''} then ServerError
      else UnknownError)"

datatype reconnect_failed_reason = ReasonTimeout | ReasonNetworkConnectivity

definition reconnectFailedReasonForCode :: "string \<Rightarrow> reconnect_failed_reason option" where
  "reconnectFailedReasonForCode c =
     (if c = ''JOIN_TIMEOUT'' then Some ReasonTimeout
      else if c = ''INVALID_RECONNECT_TOKEN'' \<or> c = ''CONNECTION_FAILED'' \<or> c = ''ICE_SERVER_FETCH_FAILED''
      then Some ReasonNetworkConnectivity
      else None)"

section \<open>The turnsOnly switch\<close>

text \<open>The argument is \<open>params.get('turnsOnly')\<close> of the query string.\<close>

definition parseTurnsOnly :: "string option \<Rightarrow> bool" where
  "parseTurnsOnly raw =
     (case raw of
        None \<Rightarrow> False
      | Some r \<Rightarrow> js_lower (js_trim r) \<notin> {'''', ''0'', ''false'', ''no'', ''off''})"

section \<open>Lemmas\<close>

lemma parseTransportOrder_alt:
  "parseTransportOrder raw =
     (let parsed = List.map_filter normalizeTransport (split_on CHR '','' (default [] raw)) in
      if parsed = [] then DEFAULT_TRANSPORTS else set_of parsed)"
proof -
  have "(\<lambda>k u. if k \<in> set u then u else u @ [k]) = (set_add :: transport_kind \<Rightarrow> _)"
    by (simp add: fun_eq_iff set_add_def)
  moreover have "normalizeTransport [] = None"
    by (simp add: normalizeTransport_def js_trim_def js_lower_def)
  ultimately show ?thesis
    by (auto simp: parseTransportOrder_def set_of_def Let_def List.map_filter_simps split: option.split)
qed

fun transport_name :: "transport_kind \<Rightarrow> string" where
  "transport_name Ws = ''ws''"
| "transport_name Sse = ''sse''"

lemma normalizeTransport_names: "normalizeTransport ''ws'' = Some Ws" "normalizeTransport ''sse'' = Some Sse"
  by code_simp+

lemma normalizeTransport_name [simp]: "normalizeTransport (transport_name k) = Some k"
  by (cases k) (simp_all add: normalizeTransport_names)

lemma map_filter_normalize_names [simp]: "List.map_filter normalizeTransport (map transport_name ks) = ks"
  by (induction ks) (simp_all add: List.map_filter_simps)

lemma comma_not_in_name: "CHR '','' \<notin> set (transport_name k)"
  by (cases k) simp_all

lemma resolveCameraModes_fold:
  "snd acc = set (fst acc) \<Longrightarrow>
   fst (fold (\<lambda>mode (result, seen).
            if mode = Composite then (result, seen)
            else if mode \<noteq> Selfie \<and> mode \<noteq> World then (result, seen)
            else if mode \<in> seen then (result, seen)
            else (result @ [mode], insert mode seen)) ms acc) =
   fold set_add (filter (\<lambda>m. m \<noteq> Composite) ms) (fst acc)"
proof (induction ms arbitrary: acc)
  case (Cons m ms)
  obtain r s where acc: "acc = (r, s)" by (cases acc)
  with Cons.prems have "s = set r" by simp
  with acc Cons.IH [of "(r @ [m], insert m s)"] Cons.IH [of "(r, s)"] show ?case
    by (cases m) (auto simp: set_add_def)
qed simp

lemma resolveCameraModes_alt:
  "resolveCameraModes c = set_of (filter (\<lambda>m. m \<noteq> Composite) (default DEFAULT_CAMERA_MODES c))"
  by (simp add: resolveCameraModes_def resolveCameraModes_fold set_of_def)

lemma nextCameraMode_nth:
  "distinct modes \<Longrightarrow> 1 < length modes \<Longrightarrow> i < length modes \<Longrightarrow>
   nextCameraMode modes (modes ! i) = Some (modes ! ((i + 1) mod length modes))"
  by (simp add: nextCameraMode_def index_of_nth)

text \<open>Pressing the camera button \<open>k\<close> times: a press without a next mode changes nothing.\<close>

definition cycle_camera :: "camera_mode list \<Rightarrow> nat \<Rightarrow> camera_mode \<Rightarrow> camera_mode" where
  "cycle_camera modes k m = ((\<lambda>m. default m (nextCameraMode modes m)) ^^ k) m"

lemma cycle_camera_nth:
  assumes "distinct modes" "i < length modes"
  shows "cycle_camera modes k (modes ! i) = modes ! ((i + k) mod length modes)"
proof (cases "1 < length modes")
  case True
  then have "modes \<noteq> []" by auto
  then show ?thesis
    using assms True
    by (induction k) (simp_all add: cycle_camera_def nextCameraMode_nth mod_Suc_eq
        nextCameraMode_nth [of modes "(i + _) mod length modes", simplified])
next
  case False
  with assms have "length modes = 1" "i = 0" by auto
  then show ?thesis
    by (induction k) (simp_all add: cycle_camera_def nextCameraMode_def)
qed

section \<open>Properties\<close>

text \<open>The transport order is never empty, never repeats a transport, and any configuration string
  the SDK could print is read back: the names of a non-empty list of transports joined by commas parse
  to these transports in order of first occurrence.\<close>

theorem transport_order_total:
  "parseTransportOrder raw \<noteq> [] \<and> distinct (parseTransportOrder raw) \<and>
   parseTransportOrder (Some (join_with CHR '','' (map transport_name (k # ks)))) = set_of (k # ks)"
proof (intro conjI)
  have "set_of xs = [] \<longleftrightarrow> xs = []" for xs :: "transport_kind list"
    by (metis set_empty set_set_of)
  then show "parseTransportOrder raw \<noteq> []"
    by (simp add: parseTransportOrder_alt DEFAULT_TRANSPORTS_def Let_def)
  show "distinct (parseTransportOrder raw)"
    by (simp add: parseTransportOrder_alt DEFAULT_TRANSPORTS_def Let_def)
  have "split_on CHR '','' (join_with CHR '','' (map transport_name (k # ks))) = map transport_name (k # ks)"
    by (rule split_on_join) (auto simp: comma_not_in_name)
  moreover have "List.map_filter normalizeTransport (map transport_name (k # ks)) = k # ks"
    by (rule map_filter_normalize_names)
  ultimately show "parseTransportOrder (Some (join_with CHR '','' (map transport_name (k # ks)))) = set_of (k # ks)"
    by (simp add: parseTransportOrder_alt)
qed

text \<open>The camera cycle. Whatever the configuration, the resolved modes are distinct, hold no
  composite mode and every other configured mode; and cycling from the mode at position \<open>i\<close> reaches
  after \<open>k\<close> presses exactly the mode at position \<open>(i + k) mod n\<close>, so every mode is reached and \<open>n\<close>
  presses return to the start.\<close>

theorem camera_cycle:
  "distinct (resolveCameraModes c) \<and>
   set (resolveCameraModes c) = set (default DEFAULT_CAMERA_MODES c) - {Composite} \<and>
   (i < length (resolveCameraModes c) \<longrightarrow>
      cycle_camera (resolveCameraModes c) k (resolveCameraModes c ! i)
        = resolveCameraModes c ! ((i + k) mod length (resolveCameraModes c)))"
proof (intro conjI impI)
  show d: "distinct (resolveCameraModes c)"
    by (simp add: resolveCameraModes_alt)
  show "set (resolveCameraModes c) = set (default DEFAULT_CAMERA_MODES c) - {Composite}"
    by (auto simp: resolveCameraModes_alt)
  assume "i < length (resolveCameraModes c)"
  with d show "cycle_camera (resolveCameraModes c) k (resolveCameraModes c ! i)
        = resolveCameraModes c ! ((i + k) mod length (resolveCameraModes c))"
    by (rule cycle_camera_nth)
qed

theorem camera_cycle_witness:
  "cycle_camera (resolveCameraModes (Some [World, Composite, Selfie, World])) 1 World = Selfie"
  using camera_cycle [of "Some [World, Composite, Selfie, World]" 0 1]
  by (simp add: resolveCameraModes_alt set_of_def set_add_def)

end
