(* ===== verification/Call_Types.thy ===== *)
theory Call_Types
  imports Config_Policies
begin

text \<open>
  The enumerations of \<^verbatim>\<open>client/packages/core/src/types.ts\<close> that several components share: the call
  phase, the connection status, the state of a peer connection, and the connection-quality events; and the
  kind of a media track.
\<close>

datatype call_phase = Idle | AwaitingPermissions | Joining | WaitingPhase | InCall | EndingPhase | ErrorPhase

datatype link_status = LinkConnected | LinkRecovering | LinkRetrying | LinkDisconnected

datatype pc_state = PcNew | PcConnecting | PcConnected | PcDisconnected | PcFailed | PcClosed

datatype ice_state = IceNew | IceChecking | IceConnected | IceCompleted | IceDisconnected | IceFailed | IceClosed

datatype track_kind = AudioTrack | VideoTrack

datatype dropout_trigger = NetworkLost | UnknownTrigger

datatype connection_event =
    Reconnected rat dropout_trigger
  | ReconnectFailed reconnect_failed_reason

end
