(* ===== verification/Streaming_Median.thy ===== *)
theory Streaming_Median
  imports Prelude "HOL-Library.Multiset"
begin

text \<open>
  The two-heap streaming median of \<^verbatim>\<open>client/packages/core/src/media/streamingMedian.ts\<close>:
  the binary heap \<open>NumberHeap\<close> on a list with its sift loops, and \<open>StreamingMedian\<close> over a
  max-heap and a min-heap. The contract of a priority queue is a locale; the heap meets it for
  every total comparator, and the two comparators of the source are its interpretations. The last
  section shows that the median is the one of the sorted samples.
\<close>

section \<open>NumberHeap\<close>

type_synonym comparator_fn = "rat \<Rightarrow> rat \<Rightarrow> rat"

definition swap :: "rat list \<Rightarrow> nat \<Rightarrow> nat \<Rightarrow> rat list" where
  "swap data i j = data[i := data ! j, j := data ! i]"

lemma length_swap [simp]: "length (swap xs i j) = length xs"
  by (simp add: swap_def)

lemma mset_swap' [simp]: "i < length xs \<Longrightarrow> j < length xs \<Longrightarrow> mset (swap xs i j) = mset xs"
  unfolding swap_def by (rule mset_swap)

lemma nth_swap:
  "i < length xs \<Longrightarrow> j < length xs \<Longrightarrow> k < length xs \<Longrightarrow>
   swap xs i j ! k = (if k = j then xs ! i else if k = i then xs ! j else xs ! k)"
  by (simp add: swap_def nth_list_update)

function siftUp :: "comparator_fn \<Rightarrow> rat list \<Rightarrow> nat \<Rightarrow> rat list" where
  "siftUp compare data i =
     (if 0 < i
      then (let parent = (i - 1) div 2 in
            if compare (data ! i) (data ! parent) \<ge> 0 then data
            else siftUp compare (swap data i parent) parent)
      else data)"
  by pat_completeness auto
termination by (relation "measure (\<lambda>(_, _, i). i)") auto

text \<open>The candidate of one round of \<open>siftDown\<close>: the node or the prior of its children.\<close>

definition best_of :: "comparator_fn \<Rightarrow> rat list \<Rightarrow> nat \<Rightarrow> nat" where
  "best_of compare data i =
     (let n = length data; left = 2 * i + 1; right = 2 * i + 2;
          best = (if left < n \<and> compare (data ! left) (data ! i) < 0 then left else i)
      in if right < n \<and> compare (data ! right) (data ! best) < 0 then right else best)"

lemma best_of_cases: "best_of c xs i = i \<or> i < best_of c xs i \<and> best_of c xs i < length xs"
  by (auto simp: best_of_def Let_def)

function siftDown :: "comparator_fn \<Rightarrow> rat list \<Rightarrow> nat \<Rightarrow> rat list" where
  "siftDown compare data i =
     (let best = best_of compare data i in
      if best = i then data
      else siftDown compare (swap data i best) best)"
  by pat_completeness auto
termination
proof (relation "measure (\<lambda>(_, xs, i). length xs - i)")
  show "((c, swap xs i b, b), (c, xs, i)) \<in> measure (\<lambda>(_, xs, i). length xs - i)"
    if "b = best_of c xs i" "b \<noteq> i" for c xs i b
    using that best_of_cases [of c xs i] by auto
qed simp

declare siftUp.simps [simp del] siftDown.simps [simp del]

definition peek :: "rat list \<Rightarrow> rat option" where
  "peek data = (case data of [] \<Rightarrow> None | x # _ \<Rightarrow> Some x)"

definition push :: "comparator_fn \<Rightarrow> rat \<Rightarrow> rat list \<Rightarrow> rat list" where
  "push compare v data = siftUp compare (data @ [v]) (length (data @ [v]) - 1)"

definition pop :: "comparator_fn \<Rightarrow> rat list \<Rightarrow> rat option \<times> rat list" where
  "pop compare data =
     (if data = [] then (None, [])
      else (let first = data ! 0; lst = last data; rest = butlast data
            in (Some first, if length rest > 0 then siftDown compare (rest[0 := lst]) 0 else rest)))"

section \<open>StreamingMedian\<close>

definition cmp_max :: comparator_fn where "cmp_max a b = b - a"
definition cmp_min :: comparator_fn where "cmp_min a b = a - b"

record streaming_median =
  sm_lower :: "rat list"
  sm_upper :: "rat list"

definition new_median :: streaming_median where
  "new_median = \<lparr> sm_lower = [], sm_upper = [] \<rparr>"

definition rebalance :: "streaming_median \<Rightarrow> streaming_median" where
  "rebalance m =
     (if length (sm_lower m) > length (sm_upper m) + 1
      then (case pop cmp_max (sm_lower m) of
              (Some v, rest) \<Rightarrow> m\<lparr> sm_lower := rest, sm_upper := push cmp_min v (sm_upper m) \<rparr>
            | (None, _) \<Rightarrow> m)
      else if length (sm_upper m) > length (sm_lower m)
      then (case pop cmp_min (sm_upper m) of
              (Some v, rest) \<Rightarrow> m\<lparr> sm_upper := rest, sm_lower := push cmp_max v (sm_lower m) \<rparr>
            | (None, _) \<Rightarrow> m)
      else m)"

definition sm_add :: "rat \<Rightarrow> streaming_median \<Rightarrow> streaming_median" where
  "sm_add v m =
     rebalance
       (if (case peek (sm_lower m) of None \<Rightarrow> True | Some l \<Rightarrow> v \<le> l)
        then m\<lparr> sm_lower := push cmp_max v (sm_lower m) \<rparr>
        else m\<lparr> sm_upper := push cmp_min v (sm_upper m) \<rparr>)"

definition sm_median :: "streaming_median \<Rightarrow> int option" where
  "sm_median m =
     (let total = length (sm_lower m) + length (sm_upper m) in
      if total = 0 then None
      else (case (peek (sm_lower m), peek (sm_upper m)) of
              (Some l, up) \<Rightarrow>
                if length (sm_lower m) > length (sm_upper m) then Some (js_round l)
                else (case up of Some u \<Rightarrow> Some (js_round ((l + u) / 2)) | None \<Rightarrow> None)
            | (None, _) \<Rightarrow> None))"

section \<open>The contract of a priority queue\<close>

locale priority_queue =
  fixes contents :: "'h \<Rightarrow> rat multiset"
    and wf :: "'h \<Rightarrow> bool"
    and prior :: "rat \<Rightarrow> rat \<Rightarrow> bool"
    and front :: "'h \<Rightarrow> rat option"
    and insert_q :: "rat \<Rightarrow> 'h \<Rightarrow> 'h"
    and remove_q :: "'h \<Rightarrow> rat option \<times> 'h"
  assumes insert_contents: "wf h \<Longrightarrow> contents (insert_q v h) = add_mset v (contents h)"
    and insert_wf: "wf h \<Longrightarrow> wf (insert_q v h)"
    and front_None: "front h = None \<longleftrightarrow> contents h = {#}"
    and front_prior: "wf h \<Longrightarrow> front h = Some t \<Longrightarrow> t \<in># contents h \<and> (\<forall>x \<in># contents h. prior t x)"
    and remove_None: "front h = None \<Longrightarrow> remove_q h = (None, h)"
    and remove_Some: "wf h \<Longrightarrow> front h = Some t \<Longrightarrow>
          \<exists>h'. remove_q h = (Some t, h') \<and> wf h' \<and> contents h = add_mset t (contents h')"
begin

lemma insert_all: "wf h \<Longrightarrow> wf (fold insert_q vs h) \<and> contents (fold insert_q vs h) = mset vs + contents h"
  by (induction vs arbitrary: h) (simp_all add: insert_wf insert_contents)

lemma removed:
  assumes "wf h" "contents h \<noteq> {#}"
  obtains t h' where "remove_q h = (Some t, h')" "wf h'" "contents h = add_mset t (contents h')"
    "front h = Some t" "\<forall>x \<in># contents h'. prior t x"
proof -
  from assms(2) obtain t where t: "front h = Some t" using front_None by fastforce
  with remove_Some [OF assms(1)] obtain h' where
    h': "remove_q h = (Some t, h')" "wf h'" "contents h = add_mset t (contents h')" by blast
  with front_prior [OF assms(1) t] have "\<forall>x \<in># contents h'. prior t x" by simp
  with t h' that show ?thesis by blast
qed

end

section \<open>The heap meets the contract for every comparator\<close>

definition parent_of :: "nat \<Rightarrow> nat" where "parent_of j = (j - 1) div 2"

lemma parent_less [simp]: "0 < j \<Longrightarrow> parent_of j < j"
  by (auto simp: parent_of_def)

lemma parent_child: "0 < j \<Longrightarrow> parent_of j = i \<longleftrightarrow> j = 2 * i + 1 \<or> j = 2 * i + 2"
  by (auto simp: parent_of_def)

definition heap_ok :: "comparator_fn \<Rightarrow> rat list \<Rightarrow> bool" where
  "heap_ok cmp xs = (\<forall>j < length xs. 0 < j \<longrightarrow> cmp (xs ! parent_of j) (xs ! j) \<le> 0)"

text \<open>The heaps the loops work on: \<open>up_ok\<close> may break the order above \<open>i\<close>, \<open>down_ok\<close> below it.\<close>

definition bridged :: "comparator_fn \<Rightarrow> rat list \<Rightarrow> nat \<Rightarrow> bool" where
  "bridged cmp xs i =
     (0 < i \<longrightarrow> (\<forall>j < length xs. 0 < j \<longrightarrow> parent_of j = i \<longrightarrow> cmp (xs ! parent_of i) (xs ! j) \<le> 0))"

definition up_ok :: "comparator_fn \<Rightarrow> rat list \<Rightarrow> nat \<Rightarrow> bool" where
  "up_ok cmp xs i =
     ((\<forall>j < length xs. 0 < j \<longrightarrow> j \<noteq> i \<longrightarrow> cmp (xs ! parent_of j) (xs ! j) \<le> 0) \<and> bridged cmp xs i)"

definition down_ok :: "comparator_fn \<Rightarrow> rat list \<Rightarrow> nat \<Rightarrow> bool" where
  "down_ok cmp xs i =
     ((\<forall>j < length xs. 0 < j \<longrightarrow> parent_of j \<noteq> i \<longrightarrow> cmp (xs ! parent_of j) (xs ! j) \<le> 0) \<and> bridged cmp xs i)"

locale total_comparator =
  fixes cmp :: comparator_fn
  assumes anti: "cmp b a = - cmp a b"
    and trans: "cmp a b \<le> 0 \<Longrightarrow> cmp b c \<le> 0 \<Longrightarrow> cmp a c \<le> 0"
begin

lemma cmp_refl [simp]: "cmp a a = 0"
  using anti [of a a] by simp

lemma cmp_total: "\<not> cmp a b \<le> 0 \<Longrightarrow> cmp b a \<le> 0"
  using anti [of a b] by simp

lemma root_prior:
  assumes "heap_ok cmp xs"
  shows "j < length xs \<Longrightarrow> cmp (xs ! 0) (xs ! j) \<le> 0"
proof (induction j rule: less_induct)
  case (less j)
  show ?case
  proof (cases "j = 0")
    case False
    then have "cmp (xs ! 0) (xs ! parent_of j) \<le> 0"
      using less parent_less [of j] by simp
    moreover have "cmp (xs ! parent_of j) (xs ! j) \<le> 0"
      using assms less.prems False by (simp add: heap_ok_def)
    ultimately show ?thesis by (rule trans)
  qed simp
qed

lemma up_step:
  assumes ok: "up_ok cmp xs i" and i: "0 < i" "i < length xs"
    and less: "cmp (xs ! i) (xs ! parent_of i) < 0"
  shows "up_ok cmp (swap xs i (parent_of i)) (parent_of i)"
proof -
  let ?p = "parent_of i" let ?ys = "swap xs i ?p"
  have p: "?p < i" "?p < length xs" using i less_trans [OF parent_less [OF i(1)] i(2)] by auto
  have le: "cmp (xs ! i) (xs ! ?p) \<le> 0" using less by simp
  have order: "cmp (xs ! parent_of j) (xs ! j) \<le> 0" if "j < length xs" "0 < j" "j \<noteq> i" for j
    using ok that by (simp add: up_ok_def)
  have child: "cmp (xs ! ?p) (xs ! j) \<le> 0" if "j < length xs" "0 < j" "parent_of j = i" for j
    using ok that i by (simp add: up_ok_def bridged_def)
  have nth: "?ys ! k = (if k = ?p then xs ! i else if k = i then xs ! ?p else xs ! k)"
    if "k < length xs" for k
    using that i p by (simp add: nth_swap)
  have "cmp (?ys ! parent_of j) (?ys ! j) \<le> 0" if j: "j < length xs" "0 < j" "j \<noteq> ?p" for j
  proof -
    have pj: "parent_of j < length xs" using less_trans [OF parent_less [OF j(2)] j(1)] .
    consider "j = i" | "j \<noteq> i" "parent_of j = i" | "j \<noteq> i" "parent_of j = ?p"
      | "j \<noteq> i" "parent_of j \<noteq> i" "parent_of j \<noteq> ?p" by blast
    then show ?thesis
    proof cases
      case 3
      have "cmp (xs ! ?p) (xs ! j) \<le> 0" using order [of j] j 3 by simp
      with le have "cmp (xs ! i) (xs ! j) \<le> 0" by (rule trans)
      with 3 j p show ?thesis by (simp add: nth)
    qed (use p j pj le child order in \<open>auto simp: nth\<close>)
  qed
  moreover have "cmp (?ys ! parent_of ?p) (?ys ! j) \<le> 0"
    if "0 < ?p" "j < length xs" "0 < j" "parent_of j = ?p" for j
  proof -
    have "parent_of ?p < ?p" using that(1) by (rule parent_less)
    then have "parent_of ?p < length xs" "parent_of ?p \<noteq> ?p" "parent_of ?p \<noteq> i" using p by auto
    moreover have "cmp (xs ! parent_of ?p) (xs ! ?p) \<le> 0" using that(1) p by (intro order) auto
    ultimately show ?thesis
      using that p trans [of "xs ! parent_of ?p" "xs ! ?p" "xs ! j"] order [of j]
        parent_less [of j] by (auto simp: nth)
  qed
  ultimately show ?thesis by (simp add: up_ok_def bridged_def)
qed

lemma up_done:
  assumes "up_ok cmp xs i" "0 < i \<Longrightarrow> cmp (xs ! parent_of i) (xs ! i) \<le> 0"
  shows "heap_ok cmp xs"
  using assms by (auto simp: heap_ok_def up_ok_def)

lemma siftUp_correct:
  "up_ok cmp xs i \<Longrightarrow> i < length xs \<Longrightarrow> heap_ok cmp (siftUp cmp xs i) \<and> mset (siftUp cmp xs i) = mset xs"
proof (induction i arbitrary: xs rule: less_induct)
  case (less i)
  let ?p = "parent_of i"
  show ?case
  proof (cases "0 < i \<and> cmp (xs ! i) (xs ! ?p) < 0")
    case True
    then have p: "?p < i" by simp
    then have "siftUp cmp xs i = siftUp cmp (swap xs i ?p) ?p"
      using True by (subst siftUp.simps) (simp add: parent_of_def Let_def)
    moreover have "up_ok cmp (swap xs i ?p) ?p" using less.prems True by (intro up_step) auto
    ultimately show ?thesis using less.IH [OF p, of "swap xs i ?p"] less.prems p by simp
  next
    case False
    then have "siftUp cmp xs i = xs"
      by (subst siftUp.simps) (auto simp: parent_of_def Let_def)
    moreover have "heap_ok cmp xs"
      using less.prems(1) False anti [of "xs ! i" "xs ! ?p"] by (intro up_done) auto
    ultimately show ?thesis by simp
  qed
qed

lemma best_prior:
  assumes "i < length xs"
  defines "b \<equiv> best_of cmp xs i"
  shows "\<And>j. j < length xs \<Longrightarrow> 0 < j \<Longrightarrow> parent_of j = i \<Longrightarrow> cmp (xs ! b) (xs ! j) \<le> 0"
    and "cmp (xs ! b) (xs ! i) \<le> 0"
    and "b \<noteq> i \<Longrightarrow> b < length xs \<and> i < b \<and> parent_of b = i"
proof -
  let ?l = "2 * i + 1" let ?r = "2 * i + 2"
  let ?m = "if ?l < length xs \<and> cmp (xs ! ?l) (xs ! i) < 0 then ?l else i"
  have b: "b = (if ?r < length xs \<and> cmp (xs ! ?r) (xs ! ?m) < 0 then ?r else ?m)"
    by (simp add: b_def best_of_def Let_def)
  have lt: "cmp x y < 0 \<Longrightarrow> cmp x y \<le> 0" for x y by simp
  have m: "cmp (xs ! ?m) (xs ! i) \<le> 0" "?l < length xs \<Longrightarrow> cmp (xs ! ?m) (xs ! ?l) \<le> 0"
    using anti [of "xs ! i" "xs ! ?l"] by auto
  have bm: "cmp (xs ! b) (xs ! ?m) \<le> 0" unfolding b by (simp add: lt)
  show "cmp (xs ! b) (xs ! i) \<le> 0" using bm m(1) by (rule trans)
  show "cmp (xs ! b) (xs ! j) \<le> 0" if j: "j < length xs" "0 < j" "parent_of j = i" for j
  proof -
    consider "j = ?l" | "j = ?r" using j parent_child by blast
    then show ?thesis
    proof cases
      case 1
      with m(2) j have "cmp (xs ! ?m) (xs ! j) \<le> 0" by simp
      with bm show ?thesis by (rule trans)
    next
      case 2
      with j show ?thesis using anti [of "xs ! ?m" "xs ! ?r"] unfolding b by auto
    qed
  qed
  show "b \<noteq> i \<Longrightarrow> b < length xs \<and> i < b \<and> parent_of b = i"
    unfolding b by (auto simp: parent_of_def split: if_splits)
qed

lemma down_step:
  assumes ok: "down_ok cmp xs i" and i: "i < length xs" and b: "b = best_of cmp xs i" "b \<noteq> i"
  shows "down_ok cmp (swap xs i b) b"
proof -
  let ?ys = "swap xs i b"
  note best = best_prior [OF i, folded b(1)]
  have bl: "b < length xs" "i < b" "parent_of b = i" using best(3) b(2) by auto
  have order: "cmp (xs ! parent_of j) (xs ! j) \<le> 0" if "j < length xs" "0 < j" "parent_of j \<noteq> i" for j
    using ok that by (simp add: down_ok_def)
  have bridge: "cmp (xs ! parent_of i) (xs ! j) \<le> 0"
    if "0 < i" "j < length xs" "0 < j" "parent_of j = i" for j
    using ok that by (simp add: down_ok_def bridged_def)
  have nth: "?ys ! k = (if k = b then xs ! i else if k = i then xs ! b else xs ! k)"
    if "k < length xs" for k
    using that i bl by (simp add: nth_swap)
  have "cmp (?ys ! parent_of j) (?ys ! j) \<le> 0" if j: "j < length xs" "0 < j" "parent_of j \<noteq> b" for j
  proof -
    have pj: "parent_of j < length xs" using less_trans [OF parent_less [OF j(2)] j(1)] .
    consider "parent_of j = i" "j = b" | "parent_of j = i" "j \<noteq> b"
      | "parent_of j \<noteq> i" "j = i" | "parent_of j \<noteq> i" "j \<noteq> i" by blast
    then show ?thesis
    proof cases
      case 1
      then show ?thesis using best(2) i bl by (simp add: nth)
    next
      case 2
      with j have "j \<noteq> i" using parent_less [of j] by auto
      with 2 j best(1) i bl show ?thesis by (simp add: nth)
    next
      case 3
      with j bl bridge [of b] show ?thesis by (simp add: nth pj [simplified 3])
    next
      case 4
      with j bl have "j \<noteq> b" by auto
      with 4 j pj order show ?thesis by (simp add: nth)
    qed
  qed
  moreover have "cmp (?ys ! parent_of b) (?ys ! j) \<le> 0"
    if "j < length xs" "0 < j" "parent_of j = b" for j
  proof -
    have "b < j" using that parent_less by blast
    with that bl i order [of j] show ?thesis by (simp add: nth)
  qed
  ultimately show ?thesis by (simp add: down_ok_def bridged_def)
qed

lemma down_done:
  assumes "down_ok cmp xs i" "i < length xs" "best_of cmp xs i = i"
  shows "heap_ok cmp xs"
  unfolding heap_ok_def
proof (intro allI impI)
  fix j assume j: "j < length xs" "0 < j"
  show "cmp (xs ! parent_of j) (xs ! j) \<le> 0"
    using assms j best_prior(1) [OF assms(2), of j] by (cases "parent_of j = i") (auto simp: down_ok_def)
qed

lemma siftDown_correct:
  "down_ok cmp xs i \<Longrightarrow> i < length xs \<Longrightarrow>
   heap_ok cmp (siftDown cmp xs i) \<and> mset (siftDown cmp xs i) = mset xs"
proof (induction "length xs - i" arbitrary: xs i rule: less_induct)
  case less
  show ?case
  proof (cases "best_of cmp xs i = i")
    case True
    then have "siftDown cmp xs i = xs" by (subst siftDown.simps) (simp add: Let_def)
    with down_done [OF less.prems True] show ?thesis by simp
  next
    case False
    let ?b = "best_of cmp xs i"
    have b: "?b < length xs" "i < ?b" using best_prior(3) [OF less.prems(2) False] by auto
    have "siftDown cmp xs i = siftDown cmp (swap xs i ?b) ?b"
      using False by (subst siftDown.simps) (simp add: Let_def)
    moreover have "down_ok cmp (swap xs i ?b) ?b"
      using less.prems False by (intro down_step) auto
    ultimately show ?thesis using less.hyps [of "swap xs i ?b" ?b] less.prems b by simp
  qed
qed

lemma push_correct:
  "heap_ok cmp xs \<Longrightarrow> heap_ok cmp (push cmp v xs) \<and> mset (push cmp v xs) = add_mset v (mset xs)"
proof -
  assume h: "heap_ok cmp xs"
  have "up_ok cmp (xs @ [v]) (length xs)"
    unfolding up_ok_def bridged_def
  proof (intro conjI allI impI)
    fix j assume j: "j < length (xs @ [v])" "0 < j" "j \<noteq> length xs"
    then have "j < length xs" "parent_of j < length xs"
      using less_trans [OF parent_less [OF j(2)], of "length xs"] by auto
    with h j show "cmp ((xs @ [v]) ! parent_of j) ((xs @ [v]) ! j) \<le> 0"
      by (simp add: heap_ok_def nth_append)
  next
    fix j assume "j < length (xs @ [v])" "0 < j" "parent_of j = length xs"
    with parent_less [of j] show "cmp ((xs @ [v]) ! parent_of (length xs)) ((xs @ [v]) ! j) \<le> 0"
      by simp
  qed
  from siftUp_correct [OF this] show ?thesis by (simp add: push_def)
qed

lemma pop_correct:
  assumes "heap_ok cmp (x # xs)"
  obtains rest where "pop cmp (x # xs) = (Some x, rest)" "heap_ok cmp rest" "mset rest = mset xs"
proof (cases "xs = []")
  case True
  then have "pop cmp (x # xs) = (Some x, [])" by (simp add: pop_def)
  with True that show ?thesis by (simp add: heap_ok_def)
next
  case False
  let ?ys = "last xs # butlast xs"
  from False have "pop cmp (x # xs) = (Some x, siftDown cmp ?ys 0)" by (simp add: pop_def)
  moreover have "down_ok cmp ?ys 0"
    unfolding down_ok_def bridged_def
  proof (intro conjI allI impI)
    fix j assume j: "j < length ?ys" "0 < j" "parent_of j \<noteq> 0"
    have eq: "?ys ! k = (x # xs) ! k" if "k < length ?ys" "0 < k" for k
      using that False by (simp add: nth_Cons nth_butlast split: nat.split)
    have "parent_of j < length ?ys" using less_trans [OF parent_less [OF j(2)] j(1)] .
    then have "?ys ! parent_of j = (x # xs) ! parent_of j" "?ys ! j = (x # xs) ! j"
      using eq [of j] eq [of "parent_of j"] j by blast+
    moreover have "j < length (x # xs)" using j(1) False by simp
    then have "cmp ((x # xs) ! parent_of j) ((x # xs) ! j) \<le> 0"
      using assms j(2) unfolding heap_ok_def by blast
    ultimately show "cmp (?ys ! parent_of j) (?ys ! j) \<le> 0" by presburger
  qed simp
  moreover have "mset ?ys = mset xs"
    using append_butlast_last_id [OF False] by (metis mset.simps(2) mset_append union_mset_add_mset_right
        mset.simps(1) empty_neutral(2))
  ultimately show ?thesis using siftDown_correct [of ?ys 0] that by simp
qed

end

sublocale total_comparator \<subseteq> heap: priority_queue mset "heap_ok cmp" "\<lambda>a b. cmp a b \<le> 0" peek "push cmp" "pop cmp"
proof
  show "mset (push cmp v h) = add_mset v (mset h)" if "heap_ok cmp h" for h v
    using push_correct [OF that] by simp
  show "heap_ok cmp (push cmp v h)" if "heap_ok cmp h" for h v
    using push_correct [OF that] by simp
  show "peek h = None \<longleftrightarrow> mset h = {#}" for h
    by (cases h) (simp_all add: peek_def)
  show "t \<in># mset h \<and> (\<forall>x \<in># mset h. cmp t x \<le> 0)" if "heap_ok cmp h" "peek h = Some t" for h t
  proof (cases h)
    case (Cons y ys)
    with that have t: "t = h ! 0" by (simp add: peek_def)
    have "cmp t x \<le> 0" if "x \<in> set h" for x
      using root_prior [OF \<open>heap_ok cmp h\<close>] that unfolding t in_set_conv_nth by blast
    with t Cons show ?thesis by simp
  qed (use that in \<open>simp add: peek_def\<close>)
  show "pop cmp h = (None, h)" if "peek h = None" for h
    using that by (cases h) (simp_all add: peek_def pop_def)
  show "\<exists>h'. pop cmp h = (Some t, h') \<and> heap_ok cmp h' \<and> mset h = add_mset t (mset h')"
    if "heap_ok cmp h" "peek h = Some t" for h t
  proof (cases h)
    case (Cons y ys)
    from that(1) obtain rest where "pop cmp h = (Some y, rest)" "heap_ok cmp rest" "mset rest = mset ys"
      unfolding Cons by (rule pop_correct)
    with Cons that(2) show ?thesis by (auto simp: peek_def)
  qed (use that in \<open>simp add: peek_def\<close>)
qed

interpretation lowq: total_comparator cmp_max
  by unfold_locales (auto simp: cmp_max_def)

interpretation uppq: total_comparator cmp_min
  by unfold_locales (auto simp: cmp_min_def)

section \<open>The median\<close>

definition median_inv :: "streaming_median \<Rightarrow> rat multiset \<Rightarrow> bool" where
  "median_inv m samples \<longleftrightarrow>
     heap_ok cmp_max (sm_lower m) \<and> heap_ok cmp_min (sm_upper m) \<and>
     mset (sm_lower m) + mset (sm_upper m) = samples \<and>
     (\<forall>a \<in> set (sm_lower m). \<forall>b \<in> set (sm_upper m). a \<le> b) \<and>
     (length (sm_lower m) = length (sm_upper m) \<or> length (sm_lower m) = length (sm_upper m) + 1)"

text \<open>The invariant before \<open>rebalance\<close>: the sizes may be off by one more.\<close>

definition loose_inv :: "streaming_median \<Rightarrow> rat multiset \<Rightarrow> bool" where
  "loose_inv m samples \<longleftrightarrow>
     heap_ok cmp_max (sm_lower m) \<and> heap_ok cmp_min (sm_upper m) \<and>
     mset (sm_lower m) + mset (sm_upper m) = samples \<and>
     (\<forall>a \<in> set (sm_lower m). \<forall>b \<in> set (sm_upper m). a \<le> b) \<and>
     length (sm_lower m) \<le> length (sm_upper m) + 2 \<and> length (sm_upper m) \<le> length (sm_lower m) + 1"

lemma mset_facts: "mset xs = add_mset v (mset ys) \<Longrightarrow> set xs = insert v (set ys) \<and> length xs = Suc (length ys)"
  by (metis set_mset_mset set_mset_add_mset_insert size_mset size_add_mset)

lemma rebalance_inv: "loose_inv m samples \<Longrightarrow> median_inv (rebalance m) samples"
proof -
  assume l: "loose_inv m samples"
  then have hl: "heap_ok cmp_max (sm_lower m)" and hu: "heap_ok cmp_min (sm_upper m)"
    by (auto simp: loose_inv_def)
  consider "length (sm_lower m) > length (sm_upper m) + 1"
    | "\<not> length (sm_lower m) > length (sm_upper m) + 1" "length (sm_upper m) > length (sm_lower m)"
    | "\<not> length (sm_lower m) > length (sm_upper m) + 1" "\<not> length (sm_upper m) > length (sm_lower m)"
    by blast
  then show ?thesis
  proof cases
    case 1
    then have "mset (sm_lower m) \<noteq> {#}" by auto
    then obtain t rest where r: "pop cmp_max (sm_lower m) = (Some t, rest)" "heap_ok cmp_max rest"
      "mset (sm_lower m) = add_mset t (mset rest)" "\<forall>x \<in># mset rest. cmp_max t x \<le> 0"
      by (rule lowq.heap.removed [OF hl])
    have u: "heap_ok cmp_min (push cmp_min t (sm_upper m))"
      "mset (push cmp_min t (sm_upper m)) = add_mset t (mset (sm_upper m))"
      using uppq.push_correct [OF hu] by auto
    show ?thesis
      using l 1 r u mset_facts [OF r(3)] mset_facts [OF u(2)]
      by (auto simp: rebalance_def loose_inv_def median_inv_def cmp_max_def)
  next
    case 2
    then have "mset (sm_upper m) \<noteq> {#}" by auto
    then obtain t rest where r: "pop cmp_min (sm_upper m) = (Some t, rest)" "heap_ok cmp_min rest"
      "mset (sm_upper m) = add_mset t (mset rest)" "\<forall>x \<in># mset rest. cmp_min t x \<le> 0"
      by (rule uppq.heap.removed [OF hu])
    have u: "heap_ok cmp_max (push cmp_max t (sm_lower m))"
      "mset (push cmp_max t (sm_lower m)) = add_mset t (mset (sm_lower m))"
      using lowq.push_correct [OF hl] by auto
    show ?thesis
      using l 2 r u mset_facts [OF r(3)] mset_facts [OF u(2)]
      by (auto simp: rebalance_def loose_inv_def median_inv_def cmp_min_def)
  next
    case 3
    with l show ?thesis by (auto simp: rebalance_def loose_inv_def median_inv_def)
  qed
qed

lemma sm_add_inv:
  assumes "median_inv m samples"
  shows "median_inv (sm_add v m) (add_mset v samples)"
proof -
  have hl: "heap_ok cmp_max (sm_lower m)" and hu: "heap_ok cmp_min (sm_upper m)"
    and s: "mset (sm_lower m) + mset (sm_upper m) = samples"
    and le: "\<And>a b. a \<in> set (sm_lower m) \<Longrightarrow> b \<in> set (sm_upper m) \<Longrightarrow> a \<le> b"
    and sz: "length (sm_lower m) = length (sm_upper m) \<or> length (sm_lower m) = length (sm_upper m) + 1"
    using assms by (auto simp: median_inv_def)
  define l where "l = push cmp_max v (sm_lower m)"
  define u where "u = push cmp_min v (sm_upper m)"
  have l: "heap_ok cmp_max l" "mset l = add_mset v (mset (sm_lower m))"
    unfolding l_def using lowq.push_correct [OF hl] by auto
  have u: "heap_ok cmp_min u" "mset u = add_mset v (mset (sm_upper m))"
    unfolding u_def using uppq.push_correct [OF hu] by auto
  show ?thesis
  proof (cases "case peek (sm_lower m) of None \<Rightarrow> True | Some t \<Rightarrow> v \<le> t")
    case True
    have "v \<le> b" if "b \<in> set (sm_upper m)" for b
    proof (cases "peek (sm_lower m)")
      case None
      then have "length (sm_lower m) = 0" by (auto simp: peek_def split: list.splits)
      with sz that show ?thesis by auto
    next
      case (Some t)
      then have "t \<in> set (sm_lower m)" using lowq.heap.front_prior [OF hl] by simp
      with le that True Some show ?thesis by fastforce
    qed
    then have "loose_inv (m\<lparr> sm_lower := l \<rparr>) (add_mset v samples)"
      using l hu s le sz mset_facts [OF l(2)] by (auto simp: loose_inv_def)
    with True show ?thesis by (simp add: sm_add_def l_def rebalance_inv)
  next
    case False
    then obtain t where t: "peek (sm_lower m) = Some t" "\<not> v \<le> t" by (auto split: option.splits)
    have "a \<le> v" if "a \<in> set (sm_lower m)" for a
      using lowq.heap.front_prior [OF hl t(1)] that t(2) by (auto simp: cmp_max_def)
    then have "loose_inv (m\<lparr> sm_upper := u \<rparr>) (add_mset v samples)"
      using u hl s le sz mset_facts [OF u(2)] by (auto simp: loose_inv_def)
    with False show ?thesis by (simp add: sm_add_def u_def rebalance_inv)
  qed
qed

lemma new_median_inv: "median_inv new_median {#}"
  by (simp add: median_inv_def new_median_def heap_ok_def)

lemma fold_sm_add_inv:
  "median_inv m samples \<Longrightarrow> median_inv (fold sm_add vs m) (mset vs + samples)"
proof (induction vs arbitrary: m samples)
  case (Cons v vs)
  from Cons.IH [OF sm_add_inv [OF Cons.prems]] show ?case by simp
qed simp

text \<open>The specification: sort, and take the middle element or the mean of the two middle ones.\<close>

definition sorted_median :: "rat list \<Rightarrow> int option" where
  "sorted_median xs =
     (let ys = sort xs; n = length xs in
      if n = 0 then None
      else if odd n then Some (js_round (ys ! (n div 2)))
      else Some (js_round ((ys ! (n div 2 - 1) + ys ! (n div 2)) / 2)))"

lemma sort_split:
  assumes "mset xs + mset ys = mset zs" "\<forall>a \<in> set xs. \<forall>b \<in> set ys. a \<le> b"
  shows "sort zs = sort xs @ sort (ys :: 'a :: linorder list)"
  by (rule properties_for_sort) (use assms in \<open>auto simp: sorted_append\<close>)

lemma sort_last_greatest:
  "t \<in> set xs \<Longrightarrow> \<forall>x \<in> set xs. x \<le> t \<Longrightarrow> sort xs ! (length xs - 1) = (t :: 'a :: linorder)"
proof -
  assume t: "t \<in> set xs" and all: "\<forall>x \<in> set xs. x \<le> t"
  from t obtain i where i: "i < length xs" "sort xs ! i = t"
    using in_set_conv_nth [of t "sort xs"] by auto
  then have "length xs - 1 < length xs" "i \<le> length xs - 1" by auto
  then have "t \<le> sort xs ! (length xs - 1)"
    using sorted_nth_mono [OF sorted_sort, of i "length xs - 1" xs] i by simp
  moreover have "sort xs ! (length xs - 1) \<in> set xs"
    using i nth_mem [of "length xs - 1" "sort xs"] by simp
  ultimately show ?thesis using all by (simp add: antisym)
qed

lemma sort_first_least:
  "t \<in> set xs \<Longrightarrow> \<forall>x \<in> set xs. t \<le> x \<Longrightarrow> sort xs ! 0 = (t :: 'a :: linorder)"
proof -
  assume t: "t \<in> set xs" and all: "\<forall>x \<in> set xs. t \<le> x"
  from t obtain i where i: "i < length xs" "sort xs ! i = t"
    using in_set_conv_nth [of t "sort xs"] by auto
  then have "sort xs ! 0 \<le> t"
    using sorted_nth_mono [OF sorted_sort, of 0 i xs] by simp
  moreover have "0 < length (sort xs)" using i by auto
  then have "sort xs ! 0 \<in> set xs" using nth_mem [of 0 "sort xs"] by (metis set_sort)
  ultimately show ?thesis using all by (simp add: antisym)
qed

lemma median_of_inv:
  assumes inv: "median_inv m (mset xs)"
  shows "sm_median m = sorted_median xs"
proof -
  let ?l = "sm_lower m" and ?u = "sm_upper m"
  have hl: "heap_ok cmp_max ?l" and hu: "heap_ok cmp_min ?u"
    and s: "mset ?l + mset ?u = mset xs" and le: "\<forall>a \<in> set ?l. \<forall>b \<in> set ?u. a \<le> b"
    and sz: "length ?l = length ?u \<or> length ?l = length ?u + 1"
    using inv by (auto simp: median_inv_def)
  have sorted: "sort xs = sort ?l @ sort ?u" by (rule sort_split [OF s le])
  have len: "length xs = length ?l + length ?u"
    using s by (metis size_mset size_union)
  show ?thesis
  proof (cases "?l = []")
    case True
    with sz len show ?thesis by (auto simp: sm_median_def sorted_median_def)
  next
    case False
    then obtain t where t: "peek ?l = Some t" by (cases ?l) (auto simp: peek_def)
    with lowq.heap.front_prior [OF hl] have "t \<in> set ?l" "\<forall>x \<in> set ?l. x \<le> t"
      by (auto simp: cmp_max_def)
    then have lst: "sort ?l ! (length ?l - 1) = t" by (rule sort_last_greatest)
    show ?thesis
    proof (cases "length ?l = length ?u")
      case True
      with False obtain w where w: "peek ?u = Some w" by (cases ?u) (auto simp: peek_def)
      with uppq.heap.front_prior [OF hu] have "w \<in> set ?u" "\<forall>x \<in> set ?u. w \<le> x"
        by (auto simp: cmp_min_def)
      then have fst: "sort ?u ! 0 = w" by (rule sort_first_least)
      from True len have n: "length xs = 2 * length ?l" by simp
      from False have pos: "0 < length ?l" by simp
      have "sort xs ! (length ?l - 1) = t" "sort xs ! length ?l = w"
        using pos lst fst by (simp_all add: sorted nth_append)
      with n pos True t w show ?thesis by (simp add: sm_median_def sorted_median_def Let_def)
    next
      case False
      with sz have u: "length ?l = length ?u + 1" by simp
      with len have n: "length xs = 2 * length ?u + 1" by simp
      have "sort xs ! length ?u = t" using u lst by (simp add: sorted nth_append)
      with n u t show ?thesis by (simp add: sm_median_def sorted_median_def Let_def)
    qed
  qed
qed

section \<open>Properties\<close>

text \<open>C31: The streaming median is the median of the sorted samples: after any sequence of \<open>add\<close> calls,
  \<open>median()\<close> is \<open>null\<close> for no sample, the rounded middle element for an odd count and the rounded mean
  of the two middle elements for an even count.\<close>

theorem streaming_median_correct:
  "sm_median (fold sm_add samples new_median) = sorted_median samples"
  by (rule median_of_inv) (use fold_sm_add_inv [OF new_median_inv] in simp)

end
