(* ===== verification/Quality_Tracker.thy ===== *)
theory Quality_Tracker
  imports Call_Types Streaming_Median
begin

text \<open>
  Call quality: the MOS formula of \<^verbatim>\<open>client/packages/core/src/media/mos.ts\<close> and the state machine of
  \<^verbatim>\<open>client/packages/core/src/media/CallQualityTracker.ts\<close>. The emitted connection events are the
  effects of the tracker's statements; time is the monotonic clock the session passes in.
\<close>

section \<open>MOS\<close>

definition clamp :: "rat \<Rightarrow> rat \<Rightarrow> rat \<Rightarrow> rat" where
  "clamp v lo hi = min hi (max lo v)"

definition mos_of_rating :: "rat \<Rightarrow> rat" where
  "mos_of_rating r = 1 + 35 / 1000 * r + r * (r - 60) * (100 - r) * (7 / 1000000)"

definition computeMos :: "rat \<Rightarrow> rat \<Rightarrow> rat \<Rightarrow> rat" where
  "computeMos rttMs jitterMs lossPct =
     (let effLatency = rttMs / 2 + 2 * jitterMs + 10;
          r0 = (if effLatency < 160 then 932 / 10 - effLatency / 40
                else 932 / 10 - (effLatency - 120) / 10);
          r1 = r0 - 5 / 2 * lossPct;
          r = clamp r1 0 100;
          mos = clamp (mos_of_rating r) 1 (9 / 2)
      in of_int (js_round (mos * 100)) / 100)"

section \<open>The tracker\<close>

text \<open>The members of \<open>CallStats\<close> that \<open>onStatsSample\<close> reads.\<close>

record quality_sample =
  qs_rttMs :: "rat option"
  qs_audioJitterMs :: "rat option"
  qs_audioPacketsLost :: "rat option"
  qs_audioPacketsReceived :: "rat option"

record quality_summary =
  sum_mosScore :: "rat option"
  sum_packetLossPct :: "rat option"
  sum_medianLatencyMs :: "int option"
  sum_medianJitterMs :: "int option"
  sum_countDisconnects :: nat
  sum_countReconnects :: nat
  sum_totalDropoutDurationMs :: rat
  sum_qualitySampleCount :: nat

record quality_tracker =
  qt_inCallStartedAtMs :: "rat option"
  qt_latency :: streaming_median
  qt_jitter :: streaming_median
  qt_qualitySampleCount :: nat
  qt_lastAudioPacketsLost :: "rat option"
  qt_lastAudioPacketsReceived :: "rat option"
  qt_deltaLostTotal :: rat
  qt_deltaReceivedTotal :: rat
  qt_hasLossSample :: bool
  qt_dropoutOpenSinceMs :: "rat option"
  qt_dropoutTrigger :: dropout_trigger
  qt_countDisconnects :: nat
  qt_countReconnects :: nat
  qt_totalDropoutDurationMs :: rat
  qt_finalized :: bool
  qt_summary :: "quality_summary option"

type_synonym tracker_act = "(quality_tracker, connection_event) act"

definition new_tracker :: quality_tracker where
  "new_tracker =
     \<lparr> qt_inCallStartedAtMs = None, qt_latency = new_median, qt_jitter = new_median,
       qt_qualitySampleCount = 0, qt_lastAudioPacketsLost = None, qt_lastAudioPacketsReceived = None,
       qt_deltaLostTotal = 0, qt_deltaReceivedTotal = 0, qt_hasLossSample = False,
       qt_dropoutOpenSinceMs = None, qt_dropoutTrigger = UnknownTrigger,
       qt_countDisconnects = 0, qt_countReconnects = 0, qt_totalDropoutDurationMs = 0,
       qt_finalized = False, qt_summary = None \<rparr>"

definition loss_pct :: "quality_tracker \<Rightarrow> rat option" where
  "loss_pct t =
     (if qt_hasLossSample t
      then Some (if 0 < qt_deltaReceivedTotal t + qt_deltaLostTotal t
                 then qt_deltaLostTotal t / (qt_deltaLostTotal t + qt_deltaReceivedTotal t) * 100
                 else 0)
      else None)"

definition current_summary :: "quality_tracker \<Rightarrow> quality_summary" where
  "current_summary t =
     (let medianLatencyMs = sm_median (qt_latency t);
          medianJitterMs = sm_median (qt_jitter t);
          packetLossPct = loss_pct t;
          mosScore = (case (medianLatencyMs, medianJitterMs, packetLossPct) of
                        (Some l, Some j, Some p) \<Rightarrow> Some (computeMos (of_int l) (of_int j) p)
                      | _ \<Rightarrow> None)
      in \<lparr> sum_mosScore = mosScore, sum_packetLossPct = packetLossPct,
           sum_medianLatencyMs = medianLatencyMs, sum_medianJitterMs = medianJitterMs,
           sum_countDisconnects = qt_countDisconnects t, sum_countReconnects = qt_countReconnects t,
           sum_totalDropoutDurationMs = qt_totalDropoutDurationMs t,
           sum_qualitySampleCount = qt_qualitySampleCount t \<rparr>)"

definition recompute :: tracker_act where
  "recompute =
     upd (\<lambda>t. t\<lparr> qt_summary := (case qt_inCallStartedAtMs t of
                                None \<Rightarrow> None | Some _ \<Rightarrow> Some (current_summary t)) \<rparr>)"

definition closeDropoutSilently :: "rat \<Rightarrow> tracker_act" where
  "closeDropoutSilently now =
     upd (\<lambda>t. case qt_dropoutOpenSinceMs t of
            None \<Rightarrow> t
          | Some since \<Rightarrow>
              t\<lparr> qt_totalDropoutDurationMs := qt_totalDropoutDurationMs t + max 0 (now - since),
                 qt_dropoutOpenSinceMs := None, qt_dropoutTrigger := UnknownTrigger \<rparr>)"

text \<open>The counter-delta part of \<open>onStatsSample\<close>: the tracker, and whether an interval was accumulated.\<close>

definition loss_sample :: "quality_sample \<Rightarrow> quality_tracker \<Rightarrow> quality_tracker \<times> bool" where
  "loss_sample stats t =
     (case (qs_audioPacketsLost stats, qs_audioPacketsReceived stats) of
        (Some lost, Some received) \<Rightarrow>
          (let (t', usable) =
             (case (qt_lastAudioPacketsLost t, qt_lastAudioPacketsReceived t) of
                (Some l0, Some r0) \<Rightarrow>
                  (let dLost = lost - l0; dReceived = received - r0 in
                   if 0 \<le> dLost \<and> 0 \<le> dReceived
                   then (t\<lparr> qt_deltaLostTotal := qt_deltaLostTotal t + dLost,
                            qt_deltaReceivedTotal := qt_deltaReceivedTotal t + dReceived,
                            qt_hasLossSample := True \<rparr>, True)
                   else (t, False))
              | _ \<Rightarrow> (t, False))
           in (t'\<lparr> qt_lastAudioPacketsLost := Some lost, qt_lastAudioPacketsReceived := Some received \<rparr>,
               usable))
      | _ \<Rightarrow> (t, False))"

definition onStatsSample :: "quality_sample \<Rightarrow> rat \<Rightarrow> tracker_act" where
  "onStatsSample stats now =
     ifS (\<lambda>t. qt_finalized t \<or> qt_inCallStartedAtMs t = None) skipS
       (ifS (\<lambda>t. now < the (qt_inCallStartedAtMs t)) skipS
         (ifS (\<lambda>t. qt_dropoutOpenSinceMs t \<noteq> None) skipS
           (seqS
             [upd (\<lambda>t.
                let t1 = (case qs_rttMs stats of
                            Some v \<Rightarrow> t\<lparr> qt_latency := sm_add v (qt_latency t) \<rparr> | None \<Rightarrow> t);
                    t2 = (case qs_audioJitterMs stats of
                            Some v \<Rightarrow> t1\<lparr> qt_jitter := sm_add v (qt_jitter t1) \<rparr> | None \<Rightarrow> t1);
                    (t3, interval) = loss_sample stats t2;
                    usable = qs_rttMs stats \<noteq> None \<or> qs_audioJitterMs stats \<noteq> None \<or> interval
                in if usable then t3\<lparr> qt_qualitySampleCount := qt_qualitySampleCount t3 + 1 \<rparr> else t3),
              recompute])))"

definition onPhaseTransition :: "call_phase \<Rightarrow> rat \<Rightarrow> tracker_act" where
  "onPhaseTransition next now =
     ifS qt_finalized skipS
       (ifS (\<lambda>_. next = InCall)
         (whenS (\<lambda>t. qt_inCallStartedAtMs t = None)
           (upd (\<lambda>t. t\<lparr> qt_inCallStartedAtMs := Some now \<rparr>)))
         (whenS (\<lambda>t. qt_inCallStartedAtMs t \<noteq> None \<and> qt_dropoutOpenSinceMs t \<noteq> None)
           (seqS [closeDropoutSilently now, recompute])))"

definition onConnectionStatusTransition :: "link_status \<Rightarrow> dropout_trigger \<Rightarrow> rat \<Rightarrow> tracker_act" where
  "onConnectionStatusTransition next trigger now =
     ifS (\<lambda>t. qt_finalized t \<or> qt_inCallStartedAtMs t = None) skipS
       (ifS (\<lambda>_. next \<noteq> LinkConnected)
         (whenS (\<lambda>t. qt_dropoutOpenSinceMs t = None)
           (seqS
             [upd (\<lambda>t. t\<lparr> qt_dropoutOpenSinceMs := Some now, qt_dropoutTrigger := trigger,
                          qt_countDisconnects := qt_countDisconnects t + 1 \<rparr>),
              recompute]))
         (letS qt_dropoutOpenSinceMs (\<lambda>open_since. case open_since of
            None \<Rightarrow> skipS
          | Some since \<Rightarrow>
              letS (\<lambda>_. max 0 (now - since)) (\<lambda>downtimeMs.
              letS qt_dropoutTrigger (\<lambda>reason.
              seqS
                [upd (\<lambda>t. t\<lparr> qt_totalDropoutDurationMs := qt_totalDropoutDurationMs t + downtimeMs,
                             qt_countReconnects := qt_countReconnects t + 1,
                             qt_dropoutOpenSinceMs := None, qt_dropoutTrigger := UnknownTrigger \<rparr>),
                 recompute,
                 out (\<lambda>_. Reconnected downtimeMs reason)])))))"

definition reportReconnectFailed :: "reconnect_failed_reason \<Rightarrow> tracker_act" where
  "reportReconnectFailed reason = ifS qt_finalized skipS (out (\<lambda>_. ReconnectFailed reason))"

definition finalizeTracker :: "rat \<Rightarrow> tracker_act" where
  "finalizeTracker now =
     ifS qt_finalized skipS
       (seqS
         [whenS (\<lambda>t. qt_dropoutOpenSinceMs t \<noteq> None) (closeDropoutSilently now),
          recompute,
          upd (\<lambda>t. t\<lparr> qt_finalized := True \<rparr>)])"

datatype tracker_event =
    StatsSample quality_sample rat
  | PhaseTransition call_phase rat
  | StatusTransition link_status dropout_trigger rat
  | ReportFailed reconnect_failed_reason
  | Finalize rat

fun tracker_step :: "quality_tracker \<Rightarrow> tracker_event \<Rightarrow> quality_tracker \<times> connection_event list" where
  "tracker_step t (StatsSample s now) = onStatsSample s now t"
| "tracker_step t (PhaseTransition p now) = onPhaseTransition p now t"
| "tracker_step t (StatusTransition s trig now) = onConnectionStatusTransition s trig now t"
| "tracker_step t (ReportFailed r) = reportReconnectFailed r t"
| "tracker_step t (Finalize now) = finalizeTracker now t"

section \<open>Lemmas on MOS\<close>

lemma clamp_bounds: "lo \<le> hi \<Longrightarrow> lo \<le> clamp v lo hi \<and> clamp v lo hi \<le> hi"
  by (simp add: clamp_def)

lemma clamp_mono: "v \<le> w \<Longrightarrow> clamp v lo hi \<le> clamp w lo hi"
  by (auto simp: clamp_def)

lemma mos_of_rating_poly:
  "mos_of_rating s - mos_of_rating r
     = (s - r) * (7 / 1000000) * (- (s\<^sup>2 + s * r + r\<^sup>2) + 160 * (s + r) - 1000)"
  by (simp add: mos_of_rating_def power2_eq_square field_simps)

text \<open>The cubic is below one near zero and increases where it is above: clamped, it is monotone.\<close>

lemma mos_bracket:
  fixes r s :: rat
  assumes "0 \<le> r" "r \<le> s" "s \<le> 100" "0 < - r\<^sup>2 + 160 * r - 1000"
  shows "0 \<le> - (s\<^sup>2 + s * r + r\<^sup>2) + 160 * (s + r) - 1000"
proof (cases "s + r \<le> 160")
  case True
  then have "0 \<le> s * (160 - s - r)" using assms by simp
  with assms(4) show ?thesis by (simp add: power2_eq_square algebra_simps)
next
  case False
  have "0 \<le> (100 - s) * (100 - r)" using assms by simp
  moreover have "0 \<le> (s + r - 160) * (200 - (s + r))" using False assms by simp
  ultimately show ?thesis using False assms by (simp add: power2_eq_square algebra_simps)
qed

lemma mos_clamped_mono:
  assumes "0 \<le> r" "r \<le> s" "s \<le> 100"
  shows "clamp (mos_of_rating r) 1 (9 / 2) \<le> clamp (mos_of_rating s) 1 (9 / 2)"
proof (cases "mos_of_rating r \<le> 1")
  case True
  then show ?thesis by (auto simp: clamp_def)
next
  case False
  have "mos_of_rating r - 1 = r * (7 / 1000000) * (- r\<^sup>2 + 160 * r - 1000)"
    by (simp add: mos_of_rating_def power2_eq_square field_simps)
  with False have "0 < r * (- r\<^sup>2 + 160 * r - 1000)" by simp
  with assms(1) have "0 < - r\<^sup>2 + 160 * r - 1000" by (simp add: zero_less_mult_iff)
  from mos_bracket [OF assms this] assms have "0 \<le> mos_of_rating s - mos_of_rating r"
    unfolding mos_of_rating_poly by (intro mult_nonneg_nonneg) auto
  then show ?thesis by (intro clamp_mono) simp
qed

definition rating :: "rat \<Rightarrow> rat \<Rightarrow> rat \<Rightarrow> rat" where
  "rating rtt jit loss =
     (let e = rtt / 2 + 2 * jit + 10 in
      (if e < 160 then 932 / 10 - e / 40 else 932 / 10 - (e - 120) / 10) - 5 / 2 * loss)"

lemma computeMos_alt:
  "computeMos rtt jit loss =
     of_int (js_round (clamp (mos_of_rating (clamp (rating rtt jit loss) 0 100)) 1 (9 / 2) * 100)) / 100"
  by (simp add: computeMos_def rating_def Let_def)

lemma rating_antimono:
  "rtt \<le> rtt' \<Longrightarrow> jit \<le> jit' \<Longrightarrow> loss \<le> loss' \<Longrightarrow> rating rtt' jit' loss' \<le> rating rtt jit loss"
  by (auto simp: rating_def Let_def field_simps)

lemma computeMos_bounds: "1 \<le> computeMos rtt jit loss \<and> computeMos rtt jit loss \<le> 9 / 2"
proof -
  let ?m = "clamp (mos_of_rating (clamp (rating rtt jit loss) 0 100)) 1 (9 / 2) * 100"
  have "of_int 100 \<le> ?m" "?m \<le> of_int 450"
    using clamp_bounds [of 1 "9 / 2" "mos_of_rating (clamp (rating rtt jit loss) 0 100)"] by simp_all
  then have "100 \<le> js_round ?m" "js_round ?m \<le> 450"
    using js_round_mono [of "of_int 100" ?m] js_round_mono [of ?m "of_int 450"]
    unfolding js_round_of_int by simp_all
  then have "(of_int 100 :: rat) \<le> of_int (js_round ?m)" "of_int (js_round ?m) \<le> (of_int 450 :: rat)"
    unfolding of_int_le_iff by simp_all
  then show ?thesis by (simp add: computeMos_alt)
qed

lemma computeMos_antimono:
  assumes "rtt \<le> rtt'" "jit \<le> jit'" "loss \<le> loss'"
  shows "computeMos rtt' jit' loss' \<le> computeMos rtt jit loss"
proof -
  have c: "clamp (rating rtt' jit' loss') 0 100 \<le> clamp (rating rtt jit loss) 0 100"
    by (intro clamp_mono rating_antimono assms)
  have "clamp (mos_of_rating (clamp (rating rtt' jit' loss') 0 100)) 1 (9 / 2)
          \<le> clamp (mos_of_rating (clamp (rating rtt jit loss) 0 100)) 1 (9 / 2)"
    by (rule mos_clamped_mono [OF _ c]) (simp_all add: clamp_bounds)
  then have "js_round (clamp (mos_of_rating (clamp (rating rtt' jit' loss') 0 100)) 1 (9 / 2) * 100)
          \<le> js_round (clamp (mos_of_rating (clamp (rating rtt jit loss) 0 100)) 1 (9 / 2) * 100)"
    by (intro js_round_mono) simp
  then show ?thesis by (simp add: computeMos_alt divide_right_mono)
qed

section \<open>The invariant of the tracker\<close>

definition summary_ok :: "quality_summary \<Rightarrow> bool" where
  "summary_ok s =
     (pred_option (\<lambda>m. 1 \<le> m \<and> m \<le> 9 / 2) (sum_mosScore s) \<and>
      pred_option (\<lambda>p. 0 \<le> p \<and> p \<le> 100) (sum_packetLossPct s) \<and>
      sum_countReconnects s \<le> sum_countDisconnects s \<and>
      0 \<le> sum_totalDropoutDurationMs s)"

definition tracker_inv :: "quality_tracker \<Rightarrow> bool" where
  "tracker_inv t =
     (qt_countReconnects t + (if qt_dropoutOpenSinceMs t = None then 0 else 1) \<le> qt_countDisconnects t \<and>
      0 \<le> qt_deltaLostTotal t \<and> 0 \<le> qt_deltaReceivedTotal t \<and> 0 \<le> qt_totalDropoutDurationMs t \<and>
      (qt_finalized t \<longrightarrow> qt_dropoutOpenSinceMs t = None) \<and>
      pred_option summary_ok (qt_summary t))"

lemma share_bounds: "0 \<le> a \<Longrightarrow> 0 \<le> b \<Longrightarrow> 0 \<le> a / (a + b) * 100 \<and> a / (a + b) * 100 \<le> (100 :: rat)"
  by (cases "a + b = 0") (simp_all add: field_simps)

lemma loss_pct_bounds:
  "0 \<le> qt_deltaLostTotal t \<Longrightarrow> 0 \<le> qt_deltaReceivedTotal t \<Longrightarrow> loss_pct t = Some p \<Longrightarrow> 0 \<le> p \<and> p \<le> 100"
  using share_bounds [of "qt_deltaLostTotal t" "qt_deltaReceivedTotal t"]
  by (auto simp: loss_pct_def split: if_splits)

lemma current_summary_ok: "tracker_inv t \<Longrightarrow> summary_ok (current_summary t)"
  using computeMos_bounds
  by (auto simp: tracker_inv_def summary_ok_def current_summary_def Let_def option.pred_set
      dest: loss_pct_bounds split: option.splits if_splits)

lemma recompute_keeps [keeps]: "keeping tracker_inv recompute"
  unfolding recompute_def
proof (rule keeping_upd)
  fix t assume t: "tracker_inv t"
  then have "summary_ok (current_summary t)" by (rule current_summary_ok)
  with t show "tracker_inv (t\<lparr>qt_summary :=
      case qt_inCallStartedAtMs t of None \<Rightarrow> None | Some _ \<Rightarrow> Some (current_summary t)\<rparr>)"
    by (auto simp: tracker_inv_def split: option.split)
qed

lemma close_keeps [keeps]: "keeping tracker_inv (closeDropoutSilently now)"
  unfolding closeDropoutSilently_def
  by (rule keeping_upd) (auto simp: tracker_inv_def split: option.split)

lemma loss_sample_inv: "tracker_inv t \<Longrightarrow> tracker_inv (fst (loss_sample stats t))"
  by (auto simp: tracker_inv_def loss_sample_def Let_def split: option.split)

lemma onStatsSample_keeps [keeps]: "keeping tracker_inv (onStatsSample stats now)"
proof -
  have frame: "tracker_inv (t\<lparr> qt_latency := a \<rparr>) = tracker_inv t" "tracker_inv (t\<lparr> qt_jitter := a \<rparr>) = tracker_inv t"
    "tracker_inv (t\<lparr> qt_qualitySampleCount := n \<rparr>) = tracker_inv t" for t a n
    by (simp_all add: tracker_inv_def)
  show ?thesis
    unfolding onStatsSample_def
    by (intro keeps)
      (auto intro!: keeping_upd keeps loss_sample_inv
        simp: frame Let_def case_prod_beta split: option.split)
qed

lemma onPhaseTransition_keeps [keeps]: "keeping tracker_inv (onPhaseTransition next now)"
  unfolding onPhaseTransition_def
  by (intro keeps) (auto intro!: keeping_upd keeps simp: tracker_inv_def)

lemma onConnectionStatusTransition_keeps [keeps]:
  "keeping tracker_inv (onConnectionStatusTransition next trigger now)"
proof (rule keepingI)
  fix t assume inv: "tracker_inv t"
  let ?opened = "t\<lparr> qt_dropoutOpenSinceMs := Some now, qt_dropoutTrigger := trigger,
                    qt_countDisconnects := qt_countDisconnects t + 1 \<rparr>"
  let ?closed = "\<lambda>since. t\<lparr> qt_totalDropoutDurationMs := qt_totalDropoutDurationMs t + max 0 (now - since),
                             qt_countReconnects := qt_countReconnects t + 1,
                             qt_dropoutOpenSinceMs := None, qt_dropoutTrigger := UnknownTrigger \<rparr>"
  have o: "tracker_inv ?opened" if "\<not> qt_finalized t" "qt_dropoutOpenSinceMs t = None"
    using inv that by (simp add: tracker_inv_def)
  have c: "tracker_inv (?closed since)" if "qt_dropoutOpenSinceMs t = Some since" for since
    using inv that by (simp add: tracker_inv_def)
  show "tracker_inv (fst (onConnectionStatusTransition next trigger now t))"
    using inv keepingD [OF recompute_keeps o] keepingD [OF recompute_keeps c]
    by (auto simp: onConnectionStatusTransition_def act_simps split: option.split)
qed

lemma reportReconnectFailed_keeps [keeps]: "keeping tracker_inv (reportReconnectFailed r)"
  unfolding reportReconnectFailed_def by (intro keeps)

lemma finalizeTracker_keeps [keeps]: "keeping tracker_inv (finalizeTracker now)"
proof (rule keepingI)
  fix t assume inv: "tracker_inv t"
  let ?t1 = "fst (whenS (\<lambda>t. qt_dropoutOpenSinceMs t \<noteq> None) (closeDropoutSilently now) t)"
  let ?t2 = "fst (recompute ?t1)"
  have "tracker_inv ?t1" using inv by (rule keepingD [rotated]) (intro keeps)
  then have "tracker_inv ?t2" by (rule keepingD [OF recompute_keeps])
  moreover have "qt_dropoutOpenSinceMs ?t2 = None"
    by (auto simp: recompute_def closeDropoutSilently_def act_simps split: option.split)
  ultimately have "tracker_inv (?t2\<lparr> qt_finalized := True \<rparr>)"
    by (simp add: tracker_inv_def)
  with inv show "tracker_inv (fst (finalizeTracker now t))"
    by (simp add: finalizeTracker_def ifS_def thenS_def upd_def skipS_def Let_def)
qed

lemma tracker_step_final: "qt_finalized t \<Longrightarrow> tracker_step t e = (t, [])"
  by (cases e) (simp_all add: onStatsSample_def onPhaseTransition_def onConnectionStatusTransition_def
      reportReconnectFailed_def finalizeTracker_def ifS_def skipS_def)

interpretation tracker: reactive_final tracker_step tracker_inv qt_finalized
proof
  show "tracker_inv (fst (tracker_step t e))" if "tracker_inv t" for t e
    using that by (cases e) (auto intro: keepingD keeps)
qed (rule tracker_step_final)

lemma new_tracker_inv: "tracker_inv new_tracker"
  by (simp add: tracker_inv_def new_tracker_def)

text \<open>How the effects of one step relate to the counters.\<close>

definition reconnections :: "connection_event list \<Rightarrow> rat list" where
  "reconnections es = List.map_filter (\<lambda>e. case e of Reconnected d _ \<Rightarrow> Some d | _ \<Rightarrow> None) es"

lemma reconnections_append [simp]: "reconnections (xs @ ys) = reconnections xs @ reconnections ys"
  by (simp add: reconnections_def List.map_filter_def)

lemma reconnections_simps [simp]:
  "reconnections [] = []" "reconnections (Reconnected d r # es) = d # reconnections es"
  "reconnections (ReconnectFailed q # es) = reconnections es"
  by (simp_all add: reconnections_def List.map_filter_simps)

lemma loss_sample_frame [simp]:
  "qt_countReconnects (fst (loss_sample s t)) = qt_countReconnects t"
  "qt_totalDropoutDurationMs (fst (loss_sample s t)) = qt_totalDropoutDurationMs t"
  by (auto simp: loss_sample_def Let_def split: option.split)

definition counts_agree :: "quality_tracker \<times> connection_event list \<Rightarrow> quality_tracker \<Rightarrow> bool" where
  "counts_agree r t =
     (qt_countReconnects (fst r) = qt_countReconnects t + length (reconnections (snd r)) \<and>
      qt_totalDropoutDurationMs t + sum_list (reconnections (snd r)) \<le> qt_totalDropoutDurationMs (fst r) \<and>
      list_all (\<lambda>d. 0 \<le> d) (reconnections (snd r)))"

lemma tracker_step_counts: "counts_agree (tracker_step t e) t"
proof (cases e)
  case (StatsSample s now)
  then show ?thesis
    by (auto simp: counts_agree_def onStatsSample_def recompute_def act_simps case_prod_beta split: option.split)
next
  case (StatusTransition s trig now)
  then show ?thesis
    by (auto simp: counts_agree_def onConnectionStatusTransition_def recompute_def act_simps split: option.split)
qed (auto simp: counts_agree_def onPhaseTransition_def reportReconnectFailed_def finalizeTracker_def
    closeDropoutSilently_def recompute_def act_simps split: option.split)

lemma tracker_run_counts: "counts_agree (run tracker_step t es) t"
proof (induction es arbitrary: t)
  case (Cons e es)
  from tracker_step_counts [of t e] Cons.IH [of "fst (tracker_step t e)"] show ?case
    by (simp add: counts_agree_def Let_def)
qed (simp add: counts_agree_def)

section \<open>Properties\<close>

text \<open>The MOS estimate always lies in [1, 4.5], and a network that is worse in latency, jitter and
  loss never scores better: the estimate is antitone in all three inputs.\<close>

theorem mos_bounded_and_antitone:
  assumes "rtt \<le> rtt'" and "jitter \<le> jitter'" and "loss \<le> loss'"
  shows "1 \<le> computeMos rtt' jitter' loss' \<and>
         computeMos rtt' jitter' loss' \<le> computeMos rtt jitter loss \<and>
         computeMos rtt jitter loss \<le> 9 / 2"
  using computeMos_antimono [OF assms] computeMos_bounds by blast

theorem mos_bounded_and_antitone_witness:
  "1 \<le> computeMos 400 30 20 \<and> computeMos 400 30 20 \<le> computeMos 100 10 (1 / 2)
   \<and> computeMos 100 10 (1 / 2) \<le> 9 / 2"
  by (rule mos_bounded_and_antitone) simp_all

text \<open>C28: In every run of the tracker the published summary is sound: the MOS lies in [1, 4.5], the
  packet loss in [0, 100], the downtime is not negative, and there are never more reconnects than
  disconnects; and the \<open>reconnected\<close> events emitted are exactly as many as the reconnects counted, each
  with a downtime that is not negative and together within the recorded downtime.\<close>

theorem tracker_runs_sound:
  "pred_option summary_ok (qt_summary (fst (run tracker_step new_tracker es))) \<and>
   qt_countReconnects (fst (run tracker_step new_tracker es)) =
     length (reconnections (snd (run tracker_step new_tracker es))) \<and>
   list_all (\<lambda>d. 0 \<le> d) (reconnections (snd (run tracker_step new_tracker es))) \<and>
   sum_list (reconnections (snd (run tracker_step new_tracker es)))
     \<le> qt_totalDropoutDurationMs (fst (run tracker_step new_tracker es))"
  using tracker.run_inv [OF new_tracker_inv, of es] tracker_run_counts [of new_tracker es]
  by (simp add: tracker_inv_def counts_agree_def new_tracker_def)

text \<open>\<open>finalize\<close> freezes the call: after it, whatever inputs follow, the tracker's state and summary
  do not change and no connection event is emitted; and no dropout is left open.\<close>

theorem tracker_finalize_freezes:
  "run tracker_step new_tracker (es @ Finalize now # later) =
     run tracker_step new_tracker (es @ [Finalize now]) \<and>
   qt_finalized (fst (run tracker_step new_tracker (es @ [Finalize now]))) \<and>
   qt_dropoutOpenSinceMs (fst (run tracker_step new_tracker (es @ [Finalize now]))) = None"
proof -
  define t where "t = fst (run tracker_step new_tracker es)"
  have inv: "tracker_inv t" unfolding t_def by (rule tracker.run_inv [OF new_tracker_inv])
  let ?f = "fst (finalizeTracker now t)"
  have inv': "tracker_inv ?f" by (rule keepingD [OF finalizeTracker_keeps inv])
  have fin: "qt_finalized ?f"
    by (auto simp: finalizeTracker_def act_simps)
  have "run tracker_step ?f later = (?f, [])" by (rule tracker.run_final [OF inv' fin])
  with fin inv' show ?thesis
    by (simp add: run_append Let_def t_def [symmetric] tracker_inv_def)
qed

end
