(* ===== verification/Transports.thy ===== *)
theory Transports
  imports Call_Types
begin

text \<open>
  The two signaling transports: \<^verbatim>\<open>signaling/transports/ws.ts\<close> and \<^verbatim>\<open>signaling/transports/sse.ts\<close>.
  The browser's socket is the environment: its events and its ready state come in as events of the
  transport, and what the transport does to it (open, close, send) and to the signaling engine
  (the three handlers) comes out as effects. Every handler call of the source is the last
  statement of the method that makes it, so the engine may handle the effect afterwards.

  The browser's rules are part of the steps: a socket opens only while connecting, delivers messages
  only while open, and a closing or closed one never opens again (an \<open>EventSource\<close> may go back from
  open to connecting by itself).

  \<open>tp_listening\<close> says whether the socket's handlers are attached, \<open>tp_timer\<close> whether the connect
  timeout is running. A response to a POST is reported whether or not the transport is still open.
\<close>

section \<open>Messages\<close>

record signaling_message =
  sg_v :: int
  sg_type :: string
  sg_rid :: "string option"
  sg_sid :: "string option"
  sg_cid :: "string option"
  sg_to :: "string option"
  sg_payload :: "json option"

text \<open>\<open>s || undefined\<close>.\<close>

definition truthy_string :: "string option \<Rightarrow> string option" where
  "truthy_string s = (if s = Some [] then None else s)"

lemma truthy_string_simps [simp]:
  "truthy_string None = None" "truthy_string (Some []) = None" "s \<noteq> [] \<Longrightarrow> truthy_string (Some s) = Some s"
  "truthy_string x = Some s \<longleftrightarrow> x = Some s \<and> s \<noteq> []"
  by (auto simp: truthy_string_def)

section \<open>State, events and effects\<close>

datatype ready_state = RsConnecting | RsOpen | RsClosing | RsClosed

record transport =
  tp_kind :: transport_kind
  tp_sock :: "ready_state option"
  tp_open :: bool
  tp_listening :: bool
  tp_timer :: bool
  tp_sid :: string

datatype transport_signal =
    SigOpen
  | SigClose string
  | SigMessage signaling_message

datatype transport_effect =
    SockNew
  | SockClose
  | SockSend signaling_message
  | Signal transport_signal

text \<open>What \<open>connect()\<close> meets: the API is missing, its constructor throws, or a socket is made.\<close>

datatype connect_outcome = ConnectUnsupported | ConnectThrows | ConnectStarted

datatype transport_event =
    TConnect connect_outcome
  | TCloseCall
  | TForceClose string
  | TSend signaling_message
  | TTimer
  | TOpen
  | TClose
  | TError
  | TMessage "signaling_message option"
  | TReady ready_state
  | TPostStatus int

type_synonym transport_act = "(transport, transport_effect) act"

definition new_transport :: "transport_kind \<Rightarrow> string \<Rightarrow> transport" where
  "new_transport kind sid =
     \<lparr> tp_kind = kind, tp_sock = None, tp_open = False, tp_listening = False, tp_timer = False,
       tp_sid = sid \<rparr>"

abbreviation set_open :: "bool \<Rightarrow> transport_act" where
  "set_open b \<equiv> upd (\<lambda>t. t\<lparr> tp_open := b \<rparr>)"

abbreviation signal :: "transport_signal \<Rightarrow> transport_act" where
  "signal s \<equiv> out (\<lambda>_. Signal s)"

definition clearConnectTimeout :: transport_act where
  "clearConnectTimeout = upd (\<lambda>t. t\<lparr> tp_timer := False \<rparr>)"

text \<open>The socket opens, delivers, or is closed by the browser.\<close>

definition opens :: "transport_act \<Rightarrow> transport_act" where
  "opens handler =
     whenS (\<lambda>t. tp_listening t \<and> tp_sock t = Some RsConnecting)
       (seqS [upd (\<lambda>t. t\<lparr> tp_sock := Some RsOpen \<rparr>), handler])"

definition while_open :: "transport_act \<Rightarrow> transport_act" where
  "while_open handler = whenS (\<lambda>t. tp_listening t \<and> tp_sock t = Some RsOpen) handler"

definition sock_closed :: transport_act where
  "sock_closed = upd (\<lambda>t. t\<lparr> tp_sock := map_option (\<lambda>_. RsClosed) (tp_sock t) \<rparr>)"

text \<open>The message handlers: a message that does not parse is logged and dropped.\<close>

definition on_data :: "signaling_message option \<Rightarrow> transport_act" where
  "on_data m = (case m of Some msg \<Rightarrow> signal (SigMessage msg) | None \<Rightarrow> skipS)"

text \<open>\<open>close()\<close> up to its handler call, the same in both transports.\<close>

definition close_transport :: transport_act where
  "close_transport =
     seqS
       [clearConnectTimeout,
        letS tp_sock (\<lambda>sock.
        seqS
          [upd (\<lambda>t. t\<lparr> tp_sock := None \<rparr>),
           whenS (\<lambda>_. sock \<noteq> None)
             (seqS [upd (\<lambda>t. t\<lparr> tp_listening := False \<rparr>), out (\<lambda>_. SockClose)]),
           set_open False])]"

definition force_close :: "string \<Rightarrow> transport_act" where
  "force_close reason = seqS [close_transport, signal (SigClose reason)]"

section \<open>WebSocketTransport\<close>

definition ws_connect :: "connect_outcome \<Rightarrow> transport_act" where
  "ws_connect outcome =
     (if outcome = ConnectStarted
      then seqS
        [upd (\<lambda>t. t\<lparr> tp_sock := Some RsConnecting, tp_listening := True, tp_timer := True \<rparr>),
         out (\<lambda>_. SockNew)]
      else skipS)"

definition ws_timeout :: transport_act where
  "ws_timeout =
     seqS
       [upd (\<lambda>t. t\<lparr> tp_timer := False \<rparr>),
        whenS (\<lambda>t. tp_sock t \<noteq> None \<and> tp_sock t \<noteq> Some RsOpen)
          (seqS [out (\<lambda>_. SockClose), upd (\<lambda>t. t\<lparr> tp_sock := Some RsClosing \<rparr>), set_open False,
                 signal (SigClose ''timeout'')])]"

definition ws_is_open :: "transport \<Rightarrow> bool" where
  "ws_is_open t = (tp_sock t \<noteq> None \<and> tp_open t \<and> tp_sock t = Some RsOpen)"

definition ws_send :: "signaling_message \<Rightarrow> transport_act" where
  "ws_send m = whenS (\<lambda>t. tp_sock t = Some RsOpen) (out (\<lambda>_. SockSend m))"

fun ws_step :: "transport \<Rightarrow> transport_event \<Rightarrow> transport \<times> transport_effect list" where
  "ws_step t (TConnect outcome) = ws_connect outcome t"
| "ws_step t TCloseCall = close_transport t"
| "ws_step t (TForceClose reason) = force_close reason t"
| "ws_step t (TSend m) = ws_send m t"
| "ws_step t TTimer = whenS tp_timer ws_timeout t"
| "ws_step t TOpen = opens (seqS [clearConnectTimeout, set_open True, signal SigOpen]) t"
| "ws_step t TClose =
     whenS tp_listening
       (seqS [sock_closed, clearConnectTimeout, set_open False, signal (SigClose ''close'')]) t"
| "ws_step t TError =
     whenS tp_listening
       (seqS [sock_closed, clearConnectTimeout, set_open False, signal (SigClose ''error'')]) t"
| "ws_step t (TMessage m) = while_open (on_data m) t"
| "ws_step t (TReady rs) =
     whenS (\<lambda>t. tp_sock t \<noteq> None \<and> (rs = RsClosing \<or> rs = RsClosed)) (upd (\<lambda>t. t\<lparr> tp_sock := Some rs \<rparr>)) t"
| "ws_step t (TPostStatus _) = skipS t"

section \<open>SseTransport\<close>

definition sse_connect :: "connect_outcome \<Rightarrow> transport_act" where
  "sse_connect outcome =
     (case outcome of
        ConnectUnsupported \<Rightarrow> seqS [set_open False, signal (SigClose ''unsupported'')]
      | ConnectThrows \<Rightarrow> skipS
      | ConnectStarted \<Rightarrow> seqS
          [upd (\<lambda>t. t\<lparr> tp_sock := Some RsConnecting, tp_listening := True, tp_timer := True \<rparr>),
           out (\<lambda>_. SockNew)])"

text \<open>\<open>es.close(); this.es = null\<close>: a closed \<open>EventSource\<close> fires no more events.\<close>

definition close_source :: transport_act where
  "close_source =
     seqS [out (\<lambda>_. SockClose), upd (\<lambda>t. t\<lparr> tp_sock := None, tp_listening := False \<rparr>)]"

definition sse_timeout :: transport_act where
  "sse_timeout =
     seqS
       [upd (\<lambda>t. t\<lparr> tp_timer := False \<rparr>),
        whenS (\<lambda>t. tp_sock t \<noteq> None \<and> tp_sock t \<noteq> Some RsOpen)
          (seqS [close_source, set_open False, signal (SigClose ''timeout'')])]"

definition sse_error :: transport_act where
  "sse_error =
     ifS (\<lambda>t. tp_sock t = None) skipS
       (whenS (\<lambda>t. tp_sock t = Some RsClosed)
         (seqS [clearConnectTimeout, set_open False, signal (SigClose ''close'')]))"

definition sse_is_open :: "transport \<Rightarrow> bool" where
  "sse_is_open t = tp_open t"

text \<open>A POST, and the handling of its status; other failures are logged.\<close>

definition sse_send :: "signaling_message \<Rightarrow> transport_act" where
  "sse_send m = out (\<lambda>_. SockSend m)"

definition sse_post_status :: "int \<Rightarrow> transport_act" where
  "sse_post_status status =
     (if status = 410
      then seqS
        [set_open False,
         whenS (\<lambda>t. tp_sock t \<noteq> None) close_source,
         signal (SigClose ''gone'')]
      else skipS)"

fun sse_step :: "transport \<Rightarrow> transport_event \<Rightarrow> transport \<times> transport_effect list" where
  "sse_step t (TConnect outcome) = sse_connect outcome t"
| "sse_step t TCloseCall = close_transport t"
| "sse_step t (TForceClose reason) = force_close reason t"
| "sse_step t (TSend m) = sse_send m t"
| "sse_step t TTimer = whenS tp_timer sse_timeout t"
| "sse_step t TOpen = opens (seqS [clearConnectTimeout, set_open True, signal SigOpen]) t"
| "sse_step t TError = whenS tp_listening sse_error t"
| "sse_step t (TMessage m) = while_open (on_data m) t"
| "sse_step t (TReady rs) =
     whenS (\<lambda>t. (tp_sock t = Some RsOpen \<or> tp_sock t = Some RsConnecting) \<and> rs \<noteq> RsOpen)
       (upd (\<lambda>t. t\<lparr> tp_sock := Some rs \<rparr>)) t"
| "sse_step t (TPostStatus status) = sse_post_status status t"
| "sse_step t TClose = skipS t"

section \<open>The transport the engine sees\<close>

definition transport_step :: "transport \<Rightarrow> transport_event \<Rightarrow> transport \<times> transport_effect list" where
  "transport_step t e = (case tp_kind t of Ws \<Rightarrow> ws_step t e | Sse \<Rightarrow> sse_step t e)"

definition isOpen :: "transport \<Rightarrow> bool" where
  "isOpen t = (case tp_kind t of Ws \<Rightarrow> ws_is_open t | Sse \<Rightarrow> sse_is_open t)"

definition getSessionId :: "transport \<Rightarrow> string option" where
  "getSessionId t = (case tp_kind t of Ws \<Rightarrow> None | Sse \<Rightarrow> Some (tp_sid t))"

definition signals_of :: "transport_effect list \<Rightarrow> transport_signal list" where
  "signals_of es = List.map_filter (\<lambda>e. case e of Signal s \<Rightarrow> Some s | _ \<Rightarrow> None) es"

section \<open>The contract of a signaling transport\<close>

definition tp_wf :: "transport \<Rightarrow> bool" where
  "tp_wf t = (tp_listening t \<longrightarrow> tp_sock t \<noteq> None)"

definition tp_closed :: "transport \<Rightarrow> bool" where
  "tp_closed t = (tp_sock t = None \<and> \<not> tp_open t \<and> \<not> tp_listening t \<and> \<not> tp_timer t)"

text \<open>A transport that reported a close: its socket is gone for good.\<close>

definition tp_over :: "transport \<Rightarrow> bool" where
  "tp_over t = (tp_sock t \<noteq> Some RsConnecting \<and> tp_sock t \<noteq> Some RsOpen \<and> \<not> tp_open t)"

lemma closed_over: "tp_closed t \<Longrightarrow> tp_over t"
  by (simp add: tp_closed_def tp_over_def)

fun is_connect :: "transport_event \<Rightarrow> bool" where
  "is_connect (TConnect _) = True"
| "is_connect _ = False"

lemma signals_of_simps [simp]:
  "signals_of [] = []" "signals_of (Signal s # es) = s # signals_of es"
  "signals_of (SockNew # es) = signals_of es" "signals_of (SockClose # es) = signals_of es"
  "signals_of (SockSend m # es) = signals_of es"
  by (simp_all add: signals_of_def List.map_filter_simps)

lemma signals_of_append [simp]: "signals_of (xs @ ys) = signals_of xs @ signals_of ys"
  by (simp add: signals_of_def List.map_filter_def)

locale signaling_transport =
  fixes step :: "transport \<Rightarrow> transport_event \<Rightarrow> transport \<times> transport_effect list"
    and is_open :: "transport \<Rightarrow> bool"
  assumes step_wf: "tp_wf t \<Longrightarrow> tp_wf (fst (step t e))"
    and close_closes: "tp_wf t \<Longrightarrow> tp_closed (fst (step t TCloseCall))"
    and close_silent: "signals_of (snd (step t TCloseCall)) = []"
    and force_closes: "tp_wf t \<Longrightarrow> tp_closed (fst (step t (TForceClose r)))"
    and force_signals: "signals_of (snd (step t (TForceClose r))) = [SigClose r]"
    and over_not_open: "tp_over t \<Longrightarrow> \<not> is_open t"
    and over_stays: "tp_over t \<Longrightarrow> \<not> is_connect e \<Longrightarrow> tp_over (fst (step t e))"
    and over_quiet: "tp_over t \<Longrightarrow> \<not> is_connect e \<Longrightarrow>
          list_all (\<lambda>s. \<exists>r. s = SigClose r) (signals_of (snd (step t e)))"
    and one_signal: "length (signals_of (snd (step t e))) \<le> 1"
    and open_signal: "SigOpen \<in> set (signals_of (snd (step t e))) \<Longrightarrow>
          tp_open (fst (step t e)) \<and> is_open (fst (step t e))"
    and close_signal: "SigClose r \<in> set (signals_of (snd (step t e))) \<Longrightarrow>
          is_connect e \<longrightarrow> tp_sock t = None \<Longrightarrow> tp_over (fst (step t e))"
begin

lemma run_wf: "tp_wf t \<Longrightarrow> tp_wf (fst (run step t es))"
  by (induction es arbitrary: t) (simp_all add: Let_def step_wf)

lemma over_run:
  "tp_over t \<Longrightarrow> list_all (\<lambda>e. \<not> is_connect e) es \<Longrightarrow>
   tp_over (fst (run step t es)) \<and>
   list_all (\<lambda>s. \<exists>r. s = SigClose r) (signals_of (snd (run step t es)))"
  by (induction es arbitrary: t) (simp_all add: Let_def over_stays over_quiet)

text \<open>However a transport was used, once it is closed it never opens or delivers a message again.\<close>

lemma quiet_after_close:
  assumes "tp_wf t" "list_all (\<lambda>e. \<not> is_connect e) es"
  shows "\<not> is_open (fst (run step t (TCloseCall # es))) \<and>
         list_all (\<lambda>s. \<exists>r. s = SigClose r) (signals_of (snd (run step t (TCloseCall # es))))"
  using over_run [OF closed_over [OF close_closes [OF assms(1)]] assms(2)] over_not_open close_silent
  by (simp add: Let_def)

end

lemmas ws_defs = ws_connect_def ws_timeout_def ws_send_def
lemmas sse_defs = sse_connect_def sse_timeout_def sse_error_def sse_send_def sse_post_status_def close_source_def
lemmas transport_defs =
  close_transport_def force_close_def clearConnectTimeout_def on_data_def tp_wf_def tp_closed_def
  tp_over_def opens_def while_open_def sock_closed_def ws_is_open_def sse_is_open_def

interpretation ws: signaling_transport ws_step ws_is_open
proof
  show "tp_wf (fst (ws_step t e))" if "tp_wf t" for t e
    using that by (cases e) (auto simp: ws_defs transport_defs act_simps split: option.split)
  show "tp_closed (fst (ws_step t TCloseCall))" if "tp_wf t" for t
    using that by (auto simp: transport_defs act_simps)
  show "tp_closed (fst (ws_step t (TForceClose r)))" if "tp_wf t" for t r
    using that by (auto simp: transport_defs act_simps)
  show "tp_over (fst (ws_step t e))" if "tp_over t" "\<not> is_connect e" for t e
    using that by (cases e) (auto simp: ws_defs transport_defs act_simps split: option.split)
  show "list_all (\<lambda>s. \<exists>r. s = SigClose r) (signals_of (snd (ws_step t e)))"
    if "tp_over t" "\<not> is_connect e" for t e
    using that by (cases e) (auto simp: ws_defs transport_defs act_simps split: option.split)
  show "length (signals_of (snd (ws_step t e))) \<le> 1" for t e
    by (cases e) (auto simp: ws_defs transport_defs act_simps split: option.split)
  show "tp_open (fst (ws_step t e)) \<and> ws_is_open (fst (ws_step t e))" if "SigOpen \<in> set (signals_of (snd (ws_step t e)))" for t e
    using that by (cases e) (auto simp: ws_defs transport_defs act_simps split: option.splits if_splits)
  show "tp_over (fst (ws_step t e))"
    if "SigClose r \<in> set (signals_of (snd (ws_step t e)))" "is_connect e \<longrightarrow> tp_sock t = None" for t e r
    using that
    by (cases e) (auto simp: ws_defs transport_defs ws_is_open_def act_simps split: option.splits if_splits)
qed (auto simp: transport_defs ws_is_open_def act_simps)

interpretation sse: signaling_transport sse_step sse_is_open
proof
  show "tp_wf (fst (sse_step t e))" if "tp_wf t" for t e
    using that by (cases e) (auto simp: sse_defs transport_defs act_simps split: option.split connect_outcome.split)
  show "tp_closed (fst (sse_step t TCloseCall))" if "tp_wf t" for t
    using that by (auto simp: transport_defs act_simps)
  show "tp_closed (fst (sse_step t (TForceClose r)))" if "tp_wf t" for t r
    using that by (auto simp: transport_defs act_simps)
  show "tp_over (fst (sse_step t e))" if "tp_over t" "\<not> is_connect e" for t e
    using that by (cases e) (auto simp: sse_defs transport_defs act_simps split: option.split connect_outcome.split)
  show "list_all (\<lambda>s. \<exists>r. s = SigClose r) (signals_of (snd (sse_step t e)))"
    if "tp_over t" "\<not> is_connect e" for t e
    using that by (cases e) (auto simp: sse_defs transport_defs act_simps split: option.split connect_outcome.split)
  show "length (signals_of (snd (sse_step t e))) \<le> 1" for t e
    by (cases e) (auto simp: sse_defs transport_defs act_simps split: option.split connect_outcome.split)
  show "tp_open (fst (sse_step t e)) \<and> sse_is_open (fst (sse_step t e))" if "SigOpen \<in> set (signals_of (snd (sse_step t e)))" for t e
    using that
    by (cases e) (auto simp: sse_defs transport_defs act_simps split: option.splits if_splits connect_outcome.splits)
  show "tp_over (fst (sse_step t e))"
    if "SigClose r \<in> set (signals_of (snd (sse_step t e)))" "is_connect e \<longrightarrow> tp_sock t = None" for t e r
    using that
    by (cases e) (auto simp: sse_defs transport_defs sse_is_open_def act_simps
        split: option.splits if_splits connect_outcome.splits)
qed (auto simp: transport_defs sse_is_open_def act_simps)

text \<open>The transport the factory makes is one of the two, so it meets the contract as well.\<close>

interpretation tp: signaling_transport transport_step isOpen
proof
  note kinds = transport_step_def isOpen_def
  fix t e r
  show "tp_wf t \<Longrightarrow> tp_wf (fst (transport_step t e))"
    by (cases "tp_kind t") (simp_all add: kinds ws.step_wf sse.step_wf)
  show "tp_wf t \<Longrightarrow> tp_closed (fst (transport_step t TCloseCall))"
    unfolding kinds by (cases "tp_kind t") (simp_all only: transport_kind.case ws.close_closes sse.close_closes)
  show "signals_of (snd (transport_step t TCloseCall)) = []"
    unfolding kinds by (cases "tp_kind t") (simp_all only: transport_kind.case ws.close_silent sse.close_silent)
  show "tp_wf t \<Longrightarrow> tp_closed (fst (transport_step t (TForceClose r)))"
    unfolding kinds by (cases "tp_kind t") (simp_all only: transport_kind.case ws.force_closes sse.force_closes)
  show "signals_of (snd (transport_step t (TForceClose r))) = [SigClose r]"
    unfolding kinds by (cases "tp_kind t") (simp_all only: transport_kind.case ws.force_signals sse.force_signals)
  show "tp_over t \<Longrightarrow> \<not> isOpen t"
    by (cases "tp_kind t") (simp_all add: kinds ws.over_not_open sse.over_not_open)
  show "tp_over t \<Longrightarrow> \<not> is_connect e \<Longrightarrow> tp_over (fst (transport_step t e))"
    by (cases "tp_kind t") (simp_all add: kinds ws.over_stays sse.over_stays)
  show "tp_over t \<Longrightarrow> \<not> is_connect e \<Longrightarrow>
      list_all (\<lambda>s. \<exists>r. s = SigClose r) (signals_of (snd (transport_step t e)))"
    by (cases "tp_kind t") (simp_all add: kinds ws.over_quiet sse.over_quiet)
  show "length (signals_of (snd (transport_step t e))) \<le> 1"
    unfolding kinds by (cases "tp_kind t") (simp_all only: transport_kind.case ws.one_signal sse.one_signal)
  show "SigClose r \<in> set (signals_of (snd (transport_step t e))) \<Longrightarrow>
      is_connect e \<longrightarrow> tp_sock t = None \<Longrightarrow> tp_over (fst (transport_step t e))"
    using ws.close_signal [of r t e] sse.close_signal [of r t e]
    by (cases "tp_kind t") (simp_all add: kinds)
  have "tp_kind (fst (transport_step t e)) = tp_kind t"
    by (cases "tp_kind t"; cases e)
      (auto simp: kinds ws_defs sse_defs transport_defs act_simps split: option.split connect_outcome.split)
  then show "SigOpen \<in> set (signals_of (snd (transport_step t e))) \<Longrightarrow>
      tp_open (fst (transport_step t e)) \<and> isOpen (fst (transport_step t e))"
    using ws.open_signal [of t e] sse.open_signal [of t e]
    by (cases "tp_kind t") (simp_all add: kinds)
qed

section \<open>Properties\<close>

lemma new_transport_wf: "tp_wf (new_transport k sid)"
  by (simp add: tp_wf_def new_transport_def)

text \<open>Whatever happened to a WebSocket or SSE transport before, once it is closed it is not open and,
  until it is connected again, it never reports an opening or a message to the engine; only a late
  \<open>close\<close> report (the 410 answer to an earlier POST) may still arrive. A forced close reports exactly
  one close, with its reason.\<close>

theorem closed_transport_is_quiet:
  assumes "list_all (\<lambda>e. \<not> is_connect e) later"
  shows "\<not> isOpen (fst (run transport_step (fst (run transport_step (new_transport k sid) es)) (TCloseCall # later))) \<and>
         list_all (\<lambda>s. \<exists>r. s = SigClose r)
           (signals_of (snd (run transport_step (fst (run transport_step (new_transport k sid) es))
                              (TCloseCall # later)))) \<and>
         signals_of (snd (transport_step (fst (run transport_step (new_transport k sid) es)) (TForceClose r))) = [SigClose r]"
  using tp.quiet_after_close [OF tp.run_wf [OF new_transport_wf] assms] tp.force_signals by blast

theorem closed_transport_is_quiet_witness:
  "\<not> isOpen (fst (run transport_step
      (fst (run transport_step (new_transport Sse ''S-1'') [TConnect ConnectStarted, TReady RsOpen, TOpen]))
      [TCloseCall, TOpen, TPostStatus 410]))"
  using closed_transport_is_quiet [of "[TOpen, TPostStatus 410]" Sse "''S-1''"
      "[TConnect ConnectStarted, TReady RsOpen, TOpen]"]
  by simp

end
