(* ===== verification/Signaling_Engine.thy ===== *)
theory Signaling_Engine
  imports Payloads Room_Statuses Transports
begin

text \<open>
  The signaling engine: \<^verbatim>\<open>client/packages/core/src/signaling/SignalingEngine.ts\<close> with the session
  storage of \<^verbatim>\<open>client/packages/core/src/recoveryStorage.ts\<close>.

  The state has every field of the class. A timer field holds what the pending callback captured
  (the join attempt and payload, or the delay it was set with) and is \<open>None\<close> when no timer runs.
  \<open>se_conn\<close> is the transport made last, whose handlers carry the id \<open>se_transportId\<close>;
  \<open>se_attached\<close> says whether \<open>this.transport\<close> refers to it or is \<open>null\<close>. Events of older
  transports carry an older id and are dropped by the handlers' first line. Each event of the
  environment brings the clock and what a new connection would meet.
\<close>

section \<open>State\<close>

record error_state =
  err_code :: string
  err_message :: string
  err_reason :: "string option"

record recovery_record =
  rec_roomId :: string
  rec_cid :: string
  rec_reconnectToken :: string
  rec_lastEpoch :: "jsnum option"
  rec_sessionStartTs :: rat
  rec_expiresAtMs :: jsnum

record engine_env =
  env_now :: rat
  env_connect :: "transport_kind \<Rightarrow> connect_outcome"
  env_new_sid :: string

record join_options =
  jo_createMaxParticipants :: "jsnum option"
  jo_displayName :: "string option"
  jo_peerId :: "string option"

definition no_options :: join_options where
  "no_options = \<lparr> jo_createMaxParticipants = None, jo_displayName = None, jo_peerId = None \<rparr>"

record engine =
  se_isConnected :: bool
  se_activeTransport :: "transport_kind option"
  se_clientId :: "string option"
  se_roomState :: "room_state option"
  se_turnToken :: "string option"
  se_turnTokenTTLMs :: "jsnum option"
  se_error :: "error_state option"
  se_roomStatuses :: room_statuses
  se_lastReconnectOutcome :: "reconnect_outcome option"
  se_lastEpoch :: "jsnum option"
  se_epochAtDisconnect :: "jsnum option"
  se_sessionStartTs :: "rat option"
  se_awaitingSnapshot :: bool
  se_transportOrder :: "transport_kind list"
  se_videoMediaEnabled :: bool
  se_independentContentVideo :: bool
  se_conn :: "transport option"
  se_attached :: bool
  se_transportIndex :: nat
  se_connectedOnce :: "transport_kind \<Rightarrow> bool"
  se_transportId :: nat
  se_currentRoomId :: "string option"
  se_pendingJoin :: "string option"
  se_lastClientId :: "string option"
  se_needsRejoin :: bool
  se_reconnectToken :: "string option"
  se_reconnectTokenRoomId :: "string option"
  se_reconnectTokenTTLMs :: "jsnum option"
  se_lastPongAt :: rat
  se_missedPongs :: nat
  se_wsConsecutiveFailures :: nat
  se_sseSid :: "string option"
  se_joinAttemptId :: nat
  se_joinAcked :: bool
  se_joinKickstartTimer :: "(nat \<times> json) option"
  se_joinRecoveryTimer :: "(nat \<times> json) option"
  se_joinHardTimeout :: "nat option"
  se_turnRefreshTimer :: "jsnum option"
  se_tokenRefreshTimer :: "jsnum option"
  se_pingInterval :: bool
  se_reconnectTimeout :: "int option"
  se_reconnectAttempts :: nat
  se_closedByDestroy :: bool
  se_connecting :: bool
  se_lastCreateMax :: "jsnum option"
  se_lastDisplayName :: "string option"
  se_lastPeerId :: "string option"
  se_turnGate :: bool
  se_gatesPending :: nat
  se_turnTokenExpiresAtMs :: "jsnum option"
  se_storage_ok :: bool
  se_storage :: "(string \<times> string) list"
  se_recovery :: "recovery_record option"

datatype engine_effect =
    Wire signaling_message
  | OpenSocket transport_kind "string option"
  | CloseSocket
  | NotifyState
  | DeliverMessage signaling_message
  | AskTurnGate

type_synonym engine_act = "(engine, engine_effect) act"

text \<open>A string field used as a condition: \<open>null\<close> and the empty string are false.\<close>

abbreviation has_text :: "string option \<Rightarrow> bool" where
  "has_text s \<equiv> truthy_string s \<noteq> None"

section \<open>Session storage\<close>

definition KEY_CID :: string where "KEY_CID = ''serenada.reconnectCid''"
definition KEY_TOKEN :: string where "KEY_TOKEN = ''serenada.reconnectToken''"
definition KEY_TOKEN_ROOM :: string where "KEY_TOKEN_ROOM = ''serenada.reconnectTokenRoom''"

definition store_set :: "string \<Rightarrow> string \<Rightarrow> engine \<Rightarrow> engine" where
  "store_set k v s = (if se_storage_ok s then s\<lparr> se_storage := AList.update k v (se_storage s) \<rparr> else s)"

definition store_remove :: "string \<Rightarrow> engine \<Rightarrow> engine" where
  "store_remove k s = (if se_storage_ok s then s\<lparr> se_storage := AList.delete k (se_storage s) \<rparr> else s)"

definition clearRecoveryRecord :: "engine \<Rightarrow> engine" where
  "clearRecoveryRecord s = (if se_storage_ok s then s\<lparr> se_recovery := None \<rparr> else s)"

definition saveRecoveryRecord :: "recovery_record \<Rightarrow> engine \<Rightarrow> engine" where
  "saveRecoveryRecord r s = (if se_storage_ok s then s\<lparr> se_recovery := Some r \<rparr> else s)"

definition loadReconnectStorage :: "engine \<Rightarrow> engine" where
  "loadReconnectStorage s =
     (if \<not> se_storage_ok s then s
      else s\<lparr> se_lastClientId := (if has_text (se_lastClientId s) then se_lastClientId s
                else coalesce (truthy_string (map_of (se_storage s) KEY_CID)) (se_lastClientId s)),
              se_reconnectToken := (if has_text (se_reconnectToken s) then se_reconnectToken s
                else coalesce (truthy_string (map_of (se_storage s) KEY_TOKEN)) (se_reconnectToken s)),
              se_reconnectTokenRoomId := (if has_text (se_reconnectTokenRoomId s) then se_reconnectTokenRoomId s
                else coalesce (truthy_string (map_of (se_storage s) KEY_TOKEN_ROOM)) (se_reconnectTokenRoomId s)) \<rparr>)"

definition persistClientId :: "engine \<Rightarrow> engine" where
  "persistClientId s =
     (case truthy_string (se_clientId s) of Some c \<Rightarrow> store_set KEY_CID c s | None \<Rightarrow> s)"

definition persistReconnectStorage :: "engine \<Rightarrow> engine" where
  "persistReconnectStorage s =
     (let s1 = (case truthy_string (se_reconnectToken s) of
                  Some t \<Rightarrow> store_set KEY_TOKEN t s | None \<Rightarrow> s)
      in case truthy_string (se_reconnectTokenRoomId s1) of
           Some r \<Rightarrow> store_set KEY_TOKEN_ROOM r s1 | None \<Rightarrow> s1)"

definition remove_keys :: "engine \<Rightarrow> engine" where
  "remove_keys s = store_remove KEY_TOKEN_ROOM (store_remove KEY_TOKEN (store_remove KEY_CID s))"

definition clearReconnectStorage :: "engine \<Rightarrow> engine" where
  "clearReconnectStorage s =
     clearRecoveryRecord
       ((remove_keys s)\<lparr> se_reconnectToken := None, se_reconnectTokenRoomId := None,
                         se_reconnectTokenTTLMs := None, se_sessionStartTs := None \<rparr>)"

text \<open>A start time of zero is falsy as well.\<close>

definition persistRecoveryRecord :: "rat \<Rightarrow> jsnum option \<Rightarrow> engine \<Rightarrow> engine" where
  "persistRecoveryRecord now ttlMs s =
     (case (truthy_string (se_currentRoomId s), truthy_string (se_clientId s),
            truthy_string (se_reconnectToken s), se_sessionStartTs s) of
        (Some room, Some cid, Some token, Some start) \<Rightarrow>
          if start = 0 then s
          else (let ttl = (case ttlMs of
                             Some t \<Rightarrow> if js_truthy t \<and> js_lt (Fin 0) t then t
                                       else js_of_int RECONNECT_TOKEN_TTL_FALLBACK_MS
                           | None \<Rightarrow> js_of_int RECONNECT_TOKEN_TTL_FALLBACK_MS)
                in saveRecoveryRecord
                     \<lparr> rec_roomId = room, rec_cid = cid, rec_reconnectToken = token,
                       rec_lastEpoch = se_lastEpoch s, rec_sessionStartTs = start,
                       rec_expiresAtMs = js_add (Fin now) ttl \<rparr> s)
      | _ \<Rightarrow> s)"

section \<open>Timers\<close>

definition clearJoinTimers :: "engine \<Rightarrow> engine" where
  "clearJoinTimers s =
     s\<lparr> se_joinKickstartTimer := None, se_joinRecoveryTimer := None, se_joinHardTimeout := None \<rparr>"

definition clearPingInterval :: "engine \<Rightarrow> engine" where
  "clearPingInterval s = s\<lparr> se_pingInterval := False \<rparr>"

definition clearTurnRefreshTimer :: "engine \<Rightarrow> engine" where
  "clearTurnRefreshTimer s = s\<lparr> se_turnRefreshTimer := None \<rparr>"

definition clearReconnectTokenRefreshTimer :: "engine \<Rightarrow> engine" where
  "clearReconnectTokenRefreshTimer s = s\<lparr> se_tokenRefreshTimer := None \<rparr>"

definition clearReconnectTimeout :: "engine \<Rightarrow> engine" where
  "clearReconnectTimeout s = s\<lparr> se_reconnectTimeout := None \<rparr>"

definition clearReconnectAuthorityForFreshJoin :: "engine \<Rightarrow> engine" where
  "clearReconnectAuthorityForFreshJoin s =
     clearRecoveryRecord
       ((remove_keys (clearReconnectTokenRefreshTimer s))
          \<lparr> se_clientId := None, se_lastClientId := None, se_reconnectToken := None,
            se_reconnectTokenRoomId := None, se_reconnectTokenTTLMs := None, se_sessionStartTs := None \<rparr>)"

definition resetForTerminal :: "engine \<Rightarrow> engine" where
  "resetForTerminal s =
     (clearReconnectStorage
        ((clearReconnectTokenRefreshTimer (clearJoinTimers s))
           \<lparr> se_roomState := None, se_currentRoomId := None, se_needsRejoin := False \<rparr>))
       \<lparr> se_lastReconnectOutcome := None, se_lastEpoch := None,
         se_awaitingSnapshot := False, se_epochAtDisconnect := None \<rparr>"

text \<open>The delay of the next TURN refresh: \<open>ratio * TTL\<close>, unless a skipped refresh gives one.\<close>

definition scheduleTurnRefresh :: "rat \<Rightarrow> jsnum option \<Rightarrow> engine \<Rightarrow> engine" where
  "scheduleTurnRefresh now delayOverrideMs s0 =
     (let s = clearTurnRefreshTimer s0 in
      case se_turnTokenTTLMs s of
        None \<Rightarrow> s
      | Some ttl \<Rightarrow>
          if \<not> se_isConnected s \<or> \<not> js_truthy ttl \<or> \<not> has_text (se_currentRoomId s) then s
          else (let s1 = (if delayOverrideMs = None
                          then s\<lparr> se_turnTokenExpiresAtMs := Some (js_add (Fin now) ttl) \<rparr> else s);
                    refreshDelay = default (js_scale TURN_REFRESH_TRIGGER_RATIO ttl) delayOverrideMs
                in s1\<lparr> se_turnRefreshTimer := Some refreshDelay \<rparr>))"

definition token_refresh_delay :: "jsnum option \<Rightarrow> jsnum" where
  "token_refresh_delay ttlMs =
     (let ttl = (case ttlMs of
                   Some t \<Rightarrow> if js_truthy t \<and> js_lt (Fin 0) t then t
                             else js_of_int RECONNECT_TOKEN_TTL_FALLBACK_MS
                 | None \<Rightarrow> js_of_int RECONNECT_TOKEN_TTL_FALLBACK_MS)
      in if js_lt (js_of_int RECONNECT_TOKEN_REFRESH_LEEWAY_MS) ttl
         then js_sub ttl (js_of_int RECONNECT_TOKEN_REFRESH_LEEWAY_MS)
         else js_max (Fin 30000) (js_scale (1 / 2) ttl))"

definition scheduleReconnectTokenRefresh :: "jsnum option \<Rightarrow> engine \<Rightarrow> engine" where
  "scheduleReconnectTokenRefresh ttlMs s0 =
     (let s = clearReconnectTokenRefreshTimer s0 in
      if \<not> se_isConnected s \<or> \<not> has_text (se_currentRoomId s) \<or> \<not> has_text (se_reconnectToken s) then s
      else s\<lparr> se_tokenRefreshTimer := Some (token_refresh_delay ttlMs) \<rparr>)"

definition reconnect_backoff :: "nat \<Rightarrow> int" where
  "reconnect_backoff attempt =
     min (RECONNECT_BACKOFF_BASE_MS * 2 ^ (attempt - 1)) RECONNECT_BACKOFF_CAP_MS"

definition scheduleReconnect :: engine_act where
  "scheduleReconnect =
     ifS se_closedByDestroy skipS
       (ifS (\<lambda>s. se_reconnectTimeout s \<noteq> None) skipS
         (upd (\<lambda>s. let attempt = se_reconnectAttempts s + 1 in
                  s\<lparr> se_reconnectAttempts := attempt,
                     se_reconnectTimeout := Some (reconnect_backoff attempt) \<rparr>)))"

section \<open>Sending\<close>

definition socket_effects :: "transport \<Rightarrow> transport_effect list \<Rightarrow> engine_effect list" where
  "socket_effects t es = List.map_filter (\<lambda>e. case e of
       SockNew \<Rightarrow> Some (OpenSocket (tp_kind t) (getSessionId t))
     | SockClose \<Rightarrow> Some CloseSocket
     | SockSend m \<Rightarrow> Some (Wire m)
     | Signal _ \<Rightarrow> None) es"

text \<open>A call of a method of the last transport that reports nothing back.\<close>

definition conn_do :: "transport_event \<Rightarrow> engine_act" where
  "conn_do e s =
     (case se_conn s of
        None \<Rightarrow> (s, [])
      | Some t \<Rightarrow> (let r = transport_step t e
                  in (s\<lparr> se_conn := Some (fst r) \<rparr>, socket_effects t (snd r))))"

definition transport_open :: "engine \<Rightarrow> bool" where
  "transport_open s = (se_attached s \<and> pred_option isOpen (se_conn s) \<and> se_conn s \<noteq> None)"

definition outgoing :: "string \<Rightarrow> json option \<Rightarrow> engine \<Rightarrow> signaling_message" where
  "outgoing type payload s =
     \<lparr> sg_v = 1, sg_type = type, sg_rid = truthy_string (se_currentRoomId s), sg_sid = None,
       sg_cid = truthy_string (se_clientId s), sg_to = None, sg_payload = payload \<rparr>"

definition sendMessage :: "string \<Rightarrow> json option \<Rightarrow> string option \<Rightarrow> engine_act" where
  "sendMessage type payload to =
     whenS transport_open
       (letS (\<lambda>s. (outgoing type payload s)\<lparr> sg_to := to \<rparr>) (\<lambda>msg. conn_do (TSend msg)))"

abbreviation notifyStateChange :: engine_act where
  "notifyStateChange \<equiv> out (\<lambda>_. NotifyState)"

section \<open>Joining and leaving\<close>

definition join_payload :: "string \<Rightarrow> engine \<Rightarrow> json" where
  "join_payload roomId s =
     (let reconnectCid = coalesce (truthy_string (se_clientId s)) (truthy_string (se_lastClientId s));
          token = (if reconnectCid \<noteq> None \<and> se_reconnectTokenRoomId s = Some roomId
                   then truthy_string (se_reconnectToken s) else None)
      in JObj
        ([(''capabilities'', JObj
             [(''trickleIce'', JBool True), (''maxParticipants'', JNum (Fin 4)),
              (''independentContentVideo'', JBool (se_independentContentVideo s))]),
          (''mediaPolicy'', JObj [(''videoMediaEnabled'', JBool (se_videoMediaEnabled s))]),
          (''createMaxParticipants'', JNum (default (Fin 4) (se_lastCreateMax s)))] @
         opt_member ''displayName'' JStr (se_lastDisplayName s) @
         opt_member ''peerId'' JStr (se_lastPeerId s) @
         opt_member ''reconnectCid'' JStr reconnectCid @
         opt_member ''reconnectToken'' JStr token))"

text \<open>\<open>doSendJoin\<close>: only for the attempt it was made for.\<close>

definition doSendJoin :: "nat \<Rightarrow> json \<Rightarrow> engine_act" where
  "doSendJoin attemptId payload =
     ifS (\<lambda>s. se_joinAttemptId s \<noteq> attemptId) skipS (sendMessage ''join'' (Some payload) None)"

definition start_join :: "string \<Rightarrow> join_options \<Rightarrow> engine \<Rightarrow> engine" where
  "start_join roomId options s =
     (clearJoinTimers (s\<lparr> se_error := None \<rparr>))
       \<lparr> se_needsRejoin := False, se_currentRoomId := Some roomId,
         se_joinAttemptId := se_joinAttemptId s + 1, se_joinAcked := False,
         se_lastCreateMax := coalesce (jo_createMaxParticipants options) (se_lastCreateMax s),
         se_lastDisplayName := coalesce (jo_displayName options) (se_lastDisplayName s),
         se_lastPeerId := coalesce (jo_peerId options) (se_lastPeerId s) \<rparr>"

definition joinRoom :: "string \<Rightarrow> join_options \<Rightarrow> engine_act" where
  "joinRoom roomId options =
     seqS
       [upd (start_join roomId options),
        ifS transport_open
          (letS (join_payload roomId) (\<lambda>payload.
           letS se_joinAttemptId (\<lambda>attemptId.
           seqS
             [doSendJoin attemptId payload,
              upd (\<lambda>s. s\<lparr> se_joinKickstartTimer := Some (attemptId, payload),
                           se_joinRecoveryTimer := Some (attemptId, payload),
                           se_joinHardTimeout := Some attemptId \<rparr>)])))
          (upd (\<lambda>s. s\<lparr> se_pendingJoin := Some roomId \<rparr>)),
        notifyStateChange]"

definition leaveRoom :: "bool \<Rightarrow> engine_act" where
  "leaveRoom preserveReconnectState =
     seqS
       [upd clearJoinTimers,
        sendMessage ''leave'' None None,
        upd (\<lambda>s. s\<lparr> se_currentRoomId := None, se_needsRejoin := False \<rparr>),
        upd (\<lambda>s. if preserveReconnectState then s\<lparr> se_lastClientId := se_clientId s \<rparr>
                 else clearReconnectStorage (s\<lparr> se_lastClientId := None \<rparr>)),
        upd (\<lambda>s. (clearReconnectTokenRefreshTimer
                   (s\<lparr> se_clientId := None, se_roomState := None, se_turnToken := None,
                       se_turnTokenTTLMs := None, se_turnTokenExpiresAtMs := None \<rparr>))
               \<lparr> se_lastReconnectOutcome := None, se_lastEpoch := None,
                 se_awaitingSnapshot := False, se_epochAtDisconnect := None \<rparr>),
        notifyStateChange]"

definition endRoom :: engine_act where
  "endRoom = seqS [upd clearJoinTimers, sendMessage ''end_room'' None None]"

definition watchRooms :: "string list \<Rightarrow> engine_act" where
  "watchRooms rids = sendMessage ''watch_rooms'' (Some (JObj [(''rids'', JArr (map JStr rids))])) None"

definition clearError :: engine_act where
  "clearError = seqS [upd (\<lambda>s. s\<lparr> se_error := None \<rparr>), notifyStateChange]"

definition join_kickstart :: engine_act where
  "join_kickstart =
     letS se_joinKickstartTimer (\<lambda>tm. case tm of None \<Rightarrow> skipS | Some (attemptId, payload) \<Rightarrow>
       seqS [upd (\<lambda>s. s\<lparr> se_joinKickstartTimer := None \<rparr>),
             ifS (\<lambda>s. se_joinAttemptId s \<noteq> attemptId \<or> se_joinAcked s) skipS (doSendJoin attemptId payload)])"

definition join_recovery :: engine_act where
  "join_recovery =
     letS se_joinRecoveryTimer (\<lambda>tm. case tm of None \<Rightarrow> skipS | Some (attemptId, payload) \<Rightarrow>
       seqS [upd (\<lambda>s. s\<lparr> se_joinRecoveryTimer := None \<rparr>),
             ifS (\<lambda>s. se_joinAttemptId s \<noteq> attemptId \<or> se_joinAcked s) skipS (doSendJoin attemptId payload)])"

definition join_hard_timeout :: engine_act where
  "join_hard_timeout =
     letS se_joinHardTimeout (\<lambda>tm. case tm of None \<Rightarrow> skipS | Some attemptId \<Rightarrow>
       seqS [upd (\<lambda>s. s\<lparr> se_joinHardTimeout := None \<rparr>),
             ifS (\<lambda>s. se_joinAttemptId s \<noteq> attemptId \<or> se_joinAcked s) skipS
               (seqS [upd (\<lambda>s. (clearJoinTimers s)
                            \<lparr> se_error := Some \<lparr> err_code = ''JOIN_TIMEOUT'',
                                err_message = ''Join timed out'', err_reason = None \<rparr> \<rparr>),
                      notifyStateChange])])"

section \<open>Incoming messages\<close>

text \<open>\<open>retryFreshJoinAfterInvalidReconnectToken\<close>: \<open>None\<close> where it returns false.\<close>

definition retryFreshJoin :: "string option \<Rightarrow> engine \<Rightarrow> (string \<times> engine_act) option" where
  "retryFreshJoin rid s =
     (case coalesce (truthy_string rid) (truthy_string (se_currentRoomId s)) of
        None \<Rightarrow> None
      | Some roomId \<Rightarrow> Some (roomId,
          seqS
            [upd (\<lambda>s. clearReconnectAuthorityForFreshJoin (clearJoinTimers (s\<lparr> se_error := None \<rparr>))),
             letS (\<lambda>s. \<lparr> jo_createMaxParticipants = se_lastCreateMax s, jo_displayName = se_lastDisplayName s,
                         jo_peerId = se_lastPeerId s \<rparr>) (joinRoom roomId)]))"

definition joined_turn :: "rat \<Rightarrow> joined_payload \<Rightarrow> engine \<Rightarrow> engine" where
  "joined_turn now joined s2 =
     (let s3 = (case truthy_string (jp_turnToken joined) of
                  Some t \<Rightarrow> s2\<lparr> se_turnToken := Some t \<rparr> | None \<Rightarrow> s2)
      in case jp_turnTokenTTLMs joined of
           Some ttl \<Rightarrow> if js_truthy ttl
                       then scheduleTurnRefresh now None (s3\<lparr> se_turnTokenTTLMs := Some ttl \<rparr>)
                       else s3
         | None \<Rightarrow> s3)"

definition joined_token :: "signaling_message \<Rightarrow> joined_payload \<Rightarrow> engine \<Rightarrow> engine" where
  "joined_token msg joined s4 =
     (case truthy_string (jp_reconnectToken joined) of
        None \<Rightarrow> s4
      | Some t \<Rightarrow>
          (let ttl = default (js_of_int RECONNECT_TOKEN_TTL_FALLBACK_MS) (jp_reconnectTokenTTLMs joined);
               s' = persistReconnectStorage
                      (s4\<lparr> se_reconnectToken := Some t,
                           se_reconnectTokenRoomId := coalesce (truthy_string (sg_rid msg)) (se_currentRoomId s4),
                           se_reconnectTokenTTLMs := Some ttl \<rparr>)
           in scheduleReconnectTokenRefresh (Some ttl) s'))"

definition on_joined :: "rat \<Rightarrow> signaling_message \<Rightarrow> engine \<Rightarrow> engine" where
  "on_joined now msg s0 =
     (let s1 = (case truthy_string (sg_cid msg) of Some c \<Rightarrow> s0\<lparr> se_clientId := Some c \<rparr> | None \<Rightarrow> s0) in
      case parseJoinedPayload (sg_payload msg) of
        None \<Rightarrow> s1
      | Some joined \<Rightarrow>
          (let s2 = (clearJoinTimers s1)
                 \<lparr> se_joinAcked := True, se_lastReconnectOutcome := jp_reconnect joined,
                   se_lastEpoch := coalesce (jp_epoch joined) (se_lastEpoch s1),
                   se_roomState := Some \<lparr> rs_hostCid = jp_hostCid joined,
                                          rs_participants = jp_participants joined,
                                          rs_maxParticipants = jp_maxParticipants joined,
                                          rs_epoch = jp_epoch joined \<rparr> \<rparr>;
               s5 = joined_token msg joined (joined_turn now joined s2);
               s6 = persistClientId s5;
               s7 = s6\<lparr> se_sessionStartTs := coalesce (se_sessionStartTs s6) (Some now) \<rparr>
           in persistRecoveryRecord now (jp_reconnectTokenTTLMs joined) s7))"

definition on_turn_refreshed :: "rat \<Rightarrow> signaling_message \<Rightarrow> engine \<Rightarrow> engine" where
  "on_turn_refreshed now msg s =
     (case parseTurnRefreshedPayload (sg_payload msg) of
        None \<Rightarrow> s
      | Some p \<Rightarrow>
          (let s1 = s\<lparr> se_turnToken := Some (tr_turnToken p) \<rparr> in
           case tr_turnTokenTTLMs p of
             Some ttl \<Rightarrow> if js_truthy ttl
                         then scheduleTurnRefresh now None (s1\<lparr> se_turnTokenTTLMs := Some ttl \<rparr>) else s1
           | None \<Rightarrow> s1))"

definition on_token_refreshed :: "rat \<Rightarrow> signaling_message \<Rightarrow> engine \<Rightarrow> engine" where
  "on_token_refreshed now msg s =
     (case parseReconnectTokenRefreshedPayload (sg_payload msg) of
        None \<Rightarrow> s
      | Some p \<Rightarrow>
          (let ttl = default (js_of_int RECONNECT_TOKEN_TTL_FALLBACK_MS) (rt_reconnectTokenTTLMs p) in
           scheduleReconnectTokenRefresh (Some ttl)
             (persistRecoveryRecord now (Some ttl)
               (persistReconnectStorage
                 (s\<lparr> se_reconnectToken := Some (rt_reconnectToken p),
                     se_reconnectTokenRoomId := coalesce (truthy_string (sg_rid msg)) (se_currentRoomId s),
                     se_reconnectTokenTTLMs := Some ttl \<rparr>)))))"

definition on_room_state :: "signaling_message \<Rightarrow> engine \<Rightarrow> engine" where
  "on_room_state msg s =
     (case parseRoomStatePayload (sg_payload msg) of
        None \<Rightarrow> s
      | Some rs \<Rightarrow>
          (let s1 = s\<lparr> se_roomState := Some rs, se_lastEpoch := coalesce (rs_epoch rs) (se_lastEpoch s) \<rparr> in
           if se_awaitingSnapshot s1
           then s1\<lparr> se_awaitingSnapshot := False, se_epochAtDisconnect := None \<rparr> else s1))"

definition to_error_state :: "error_payload \<Rightarrow> error_state" where
  "to_error_state p = \<lparr> err_code = ep_code p, err_message = ep_message p, err_reason = ep_reason p \<rparr>"

definition on_error :: "error_payload \<Rightarrow> engine \<Rightarrow> engine" where
  "on_error p s =
     (let s1 = s\<lparr> se_error := Some (to_error_state p) \<rparr> in
      if ep_code p = ''ROOM_ENDED'' \<or> ep_code p = ''INVALID_RECONNECT_TOKEN'' then resetForTerminal s1 else s1)"

definition announce :: "signaling_message \<Rightarrow> engine_act" where
  "announce msg = seqS [notifyStateChange, out (\<lambda>_. DeliverMessage msg)]"

definition error_received :: "signaling_message \<Rightarrow> error_payload \<Rightarrow> engine_act" where
  "error_received msg p =
     letS (\<lambda>s. if ep_code p = ''INVALID_RECONNECT_TOKEN'' then retryFreshJoin (sg_rid msg) s else None)
       (\<lambda>retry. case retry of
          Some (_, rejoin) \<Rightarrow> rejoin
        | None \<Rightarrow> seqS [upd (on_error p), announce msg])"

definition handleIncomingMessage :: "rat \<Rightarrow> signaling_message \<Rightarrow> engine_act" where
  "handleIncomingMessage now msg =
     (let type = sg_type msg; payload = sg_payload msg in
      if type = ''joined'' then seqS [upd (on_joined now msg), announce msg]
      else if type = ''turn-refreshed'' then seqS [upd (on_turn_refreshed now msg), announce msg]
      else if type = ''reconnect-token-refreshed'' then seqS [upd (on_token_refreshed now msg), announce msg]
      else if type = ''pong''
      then seqS [upd (\<lambda>s. s\<lparr> se_lastPongAt := now, se_missedPongs := 0 \<rparr>), out (\<lambda>_. DeliverMessage msg)]
      else if type = ''room_state'' then seqS [upd (on_room_state msg), announce msg]
      else if type = ''room_ended'' then seqS [upd resetForTerminal, announce msg]
      else if type = ''negotiation_dirty'' \<or> type = ''relay_failed''
      then (if (if type = ''relay_failed'' then parseRelayFailedPayload payload \<noteq> None
                else parseNegotiationDirtyPayload payload \<noteq> None)
            then announce msg else skipS)
      else if type = ''room_statuses''
      then seqS [upd (\<lambda>s. if json_truthy payload
                          then s\<lparr> se_roomStatuses := mergeRoomStatusesPayload (se_roomStatuses s) payload \<rparr>
                          else s), announce msg]
      else if type = ''room_status_update''
      then seqS [upd (\<lambda>s. if json_truthy payload
                          then s\<lparr> se_roomStatuses := mergeRoomStatusUpdatePayload (se_roomStatuses s) payload \<rparr>
                          else s), announce msg]
      else if type = ''error''
      then (case parseErrorPayload payload of
              None \<Rightarrow> announce msg
            | Some p \<Rightarrow> error_received msg p)
      else announce msg)"

section \<open>Connecting\<close>

definition startPingInterval :: "rat \<Rightarrow> engine \<Rightarrow> engine" where
  "startPingInterval now s =
     (clearPingInterval s)\<lparr> se_lastPongAt := now, se_missedPongs := 0, se_pingInterval := True \<rparr>"

definition on_open :: "rat \<Rightarrow> transport_kind \<Rightarrow> engine_act" where
  "on_open now targetKind =
     seqS
       [upd (\<lambda>s. s\<lparr> se_connecting := False, se_reconnectAttempts := 0,
                    se_wsConsecutiveFailures :=
                      (if targetKind = Ws then 0 else se_wsConsecutiveFailures s) \<rparr>),
        letS se_isConnected (\<lambda>wasConnected.
        seqS
          [upd (\<lambda>s. startPingInterval now
                   (s\<lparr> se_isConnected := True, se_activeTransport := Some targetKind,
                       se_connectedOnce := (se_connectedOnce s)(targetKind := True) \<rparr>)),
           whenS (\<lambda>_. \<not> wasConnected)
             (letS (\<lambda>s. (truthy_string (se_pendingJoin s), truthy_string (se_currentRoomId s), se_needsRejoin s))
                (\<lambda>x. case x of
                   (Some roomId, _, _) \<Rightarrow>
                     seqS [upd (\<lambda>s. s\<lparr> se_pendingJoin := None \<rparr>), joinRoom roomId no_options]
                 | (None, Some roomId, True) \<Rightarrow>
                     seqS [upd (\<lambda>s. s\<lparr> se_needsRejoin := False \<rparr>), joinRoom roomId no_options]
                 | _ \<Rightarrow> skipS))]),
        notifyStateChange]"

definition shouldFallback :: "transport_kind \<Rightarrow> string \<Rightarrow> engine \<Rightarrow> bool" where
  "shouldFallback kind reason s =
     (if length (se_transportOrder s) \<le> 1 then False
      else if length (se_transportOrder s) - 1 \<le> se_transportIndex s then False
      else if reason = ''unsupported'' \<or> reason = ''timeout'' then True
      else if \<not> se_connectedOnce s kind then True
      else kind = Ws \<and> WS_FALLBACK_CONSECUTIVE_FAILURES \<le> se_wsConsecutiveFailures s)"

text \<open>The state changes of \<open>onClose\<close> before it decides how to go on.\<close>

definition mark_closed :: "transport_kind \<Rightarrow> engine \<Rightarrow> engine" where
  "mark_closed targetKind s0 =
     (let s = clearReconnectTokenRefreshTimer (clearTurnRefreshTimer (clearPingInterval
                (s0\<lparr> se_isConnected := False, se_activeTransport := None \<rparr>)));
          s1 = s\<lparr> se_wsConsecutiveFailures :=
                    (if targetKind = Ws then se_wsConsecutiveFailures s + 1 else se_wsConsecutiveFailures s),
                  se_lastClientId :=
                    (if has_text (se_clientId s) then se_clientId s else se_lastClientId s),
                  se_attached := False,
                  se_needsRejoin := has_text (se_currentRoomId s) \<rparr>
      in if has_text (se_currentRoomId s1)
         then s1\<lparr> se_epochAtDisconnect := se_lastEpoch s1, se_awaitingSnapshot := True \<rparr>
         else s1)"

text \<open>
  The handlers call \<open>doConnect\<close> again (the fallback), and \<open>doConnect\<close> may call a handler (a transport
  that is not supported reports so at once), so the handlers take the connecting statement as
  an argument. Each fallback takes the next transport of the order: the order's length bounds them.
\<close>

definition after_close :: "(nat \<Rightarrow> engine_act) \<Rightarrow> transport_kind \<Rightarrow> string \<Rightarrow> engine_act" where
  "after_close reconnect targetKind reason =
     ifS (\<lambda>s. shouldFallback targetKind reason s
               \<and> se_transportIndex s + 1 < length (se_transportOrder s))
       (seqS
         [letS (\<lambda>s. se_transportIndex s + 1) (\<lambda>nextIndex.
            seqS [upd (\<lambda>s. s\<lparr> se_reconnectAttempts := 0 \<rparr>), reconnect nextIndex]),
          notifyStateChange])
       (seqS [scheduleReconnect, notifyStateChange])"

definition on_close_with :: "(nat \<Rightarrow> engine_act) \<Rightarrow> transport_kind \<Rightarrow> string \<Rightarrow> engine_act" where
  "on_close_with reconnect targetKind reason =
     seqS
       [upd (\<lambda>s. s\<lparr> se_connecting := False \<rparr>),
        ifS se_closedByDestroy skipS
          (seqS [upd (mark_closed targetKind), after_close reconnect targetKind reason])]"

definition handle_signal_with :: "(nat \<Rightarrow> engine_act) \<Rightarrow> engine_env \<Rightarrow> transport_signal \<Rightarrow> engine_act" where
  "handle_signal_with reconnect env sig =
     letS (\<lambda>s. case se_conn s of Some t \<Rightarrow> tp_kind t | None \<Rightarrow> Ws) (\<lambda>targetKind.
       case sig of
         SigOpen \<Rightarrow> on_open (env_now env) targetKind
       | SigClose reason \<Rightarrow> on_close_with reconnect targetKind reason
       | SigMessage msg \<Rightarrow> handleIncomingMessage (env_now env) msg)"

text \<open>An event of the last transport: its own step, then the handler it calls.\<close>

definition drive_with :: "(nat \<Rightarrow> engine_act) \<Rightarrow> engine_env \<Rightarrow> transport_event \<Rightarrow> engine_act" where
  "drive_with reconnect env e =
     letS (\<lambda>s. case se_conn s of Some t \<Rightarrow> signals_of (snd (transport_step t e)) | None \<Rightarrow> []) (\<lambda>sigs.
       seqS [conn_do e, forS sigs (handle_signal_with reconnect env)])"

definition connect_throws :: "transport_kind \<Rightarrow> connect_outcome \<Rightarrow> bool" where
  "connect_throws kind outcome = (outcome = ConnectThrows \<or> (kind = Ws \<and> outcome = ConnectUnsupported))"

text \<open>The new transport of \<open>doConnect\<close>, after the old one is closed.\<close>

definition install_transport :: "engine_env \<Rightarrow> transport_kind \<Rightarrow> engine \<Rightarrow> engine" where
  "install_transport env kind s =
     s\<lparr> se_transportId := se_transportId s + 1,
        se_conn := Some (new_transport kind
          (if kind = Sse then default (env_new_sid env) (truthy_string (se_sseSid s)) else [])),
        se_attached := True \<rparr>"

definition try_connect :: "(nat \<Rightarrow> engine_act) \<Rightarrow> engine_env \<Rightarrow> transport_kind \<Rightarrow> engine_act" where
  "try_connect reconnect env kind =
     ifS (\<lambda>_. connect_throws kind (env_connect env kind))
       (seqS [upd (\<lambda>s. s\<lparr> se_connecting := False \<rparr>), scheduleReconnect])
       (drive_with reconnect env (TConnect (env_connect env kind)))"

definition replace_transport :: "(nat \<Rightarrow> engine_act) \<Rightarrow> engine_env \<Rightarrow> transport_kind \<Rightarrow> nat \<Rightarrow> engine_act" where
  "replace_transport reconnect env kind targetIndex =
     seqS
       [upd (\<lambda>s. s\<lparr> se_transportIndex := targetIndex, se_connecting := True \<rparr>),
        whenS se_attached
          (seqS
            [upd (\<lambda>s. s\<lparr> se_sseSid := coalesce (Option.bind (se_conn s) getSessionId) (se_sseSid s) \<rparr>),
             conn_do TCloseCall]),
        upd (install_transport env kind),
        try_connect reconnect env kind]"

fun doConnect :: "nat \<Rightarrow> engine_env \<Rightarrow> nat \<Rightarrow> engine_act" where
  "doConnect 0 env targetIndex = skipS"
| "doConnect (Suc fuel) env targetIndex =
     ifS se_closedByDestroy skipS
       (ifS se_connecting skipS
         (ifS (\<lambda>s. length (se_transportOrder s) \<le> targetIndex) skipS
           (letS (\<lambda>s. se_transportOrder s ! targetIndex) (\<lambda>kind.
             replace_transport (doConnect fuel env) env kind targetIndex))))"

text \<open>Each nested call has a larger index, so one call per transport of the order is enough.\<close>

definition connectAt :: "engine_env \<Rightarrow> nat \<Rightarrow> engine_act" where
  "connectAt env targetIndex =
     letS (\<lambda>s. length (se_transportOrder s)) (\<lambda>n. doConnect (Suc n) env targetIndex)"

definition drive :: "engine_env \<Rightarrow> transport_event \<Rightarrow> engine_act" where
  "drive env e = drive_with (connectAt env) env e"

definition connect_engine :: "engine_env \<Rightarrow> engine_act" where
  "connect_engine env =
     seqS
       [upd (\<lambda>s. s\<lparr> se_closedByDestroy := False, se_transportIndex := 0, se_connectedOnce := (\<lambda>_. False) \<rparr>),
        connectAt env 0]"

definition shut_down :: "engine \<Rightarrow> engine" where
  "shut_down s =
     (clearReconnectTokenRefreshTimer (clearTurnRefreshTimer (clearPingInterval
        (clearJoinTimers (clearReconnectTimeout (s\<lparr> se_closedByDestroy := True \<rparr>))))))
       \<lparr> se_awaitingSnapshot := False, se_epochAtDisconnect := None \<rparr>"

definition destroy :: engine_act where
  "destroy =
     seqS
       [upd shut_down,
        whenS se_attached
          (seqS [conn_do TCloseCall, upd (\<lambda>s. s\<lparr> se_attached := False \<rparr>)])]"

section \<open>Timer callbacks\<close>

definition reconnect_fired :: "engine_env \<Rightarrow> engine_act" where
  "reconnect_fired env =
     whenS (\<lambda>s. se_reconnectTimeout s \<noteq> None)
       (seqS
         [upd (\<lambda>s. s\<lparr> se_reconnectTimeout := None, se_transportIndex := 0, se_connectedOnce := (\<lambda>_. False) \<rparr>),
          connectAt env 0])"

definition ping_tick :: "engine_env \<Rightarrow> engine_act" where
  "ping_tick env =
     (let now = env_now env;
          ping = sendMessage ''ping'' (Some (JObj [(''ts'', JNum (Fin now))])) None in
      whenS se_pingInterval
        (ifS (\<lambda>s. now - se_lastPongAt s > of_int PING_INTERVAL_MS)
          (seqS
            [upd (\<lambda>s. s\<lparr> se_missedPongs := se_missedPongs s + 1 \<rparr>),
             ifS (\<lambda>s. PONG_MISS_THRESHOLD \<le> se_missedPongs s)
               (seqS
                 [upd (\<lambda>s. s\<lparr> se_missedPongs := 0 \<rparr>),
                  whenS se_attached (drive env (TForceClose ''ping-timeout''))])
               ping])
          ping))"

definition send_turn_refresh :: engine_act where
  "send_turn_refresh = sendMessage ''turn-refresh'' None None"

definition turn_timer_fired :: engine_act where
  "turn_timer_fired =
     whenS (\<lambda>s. se_turnRefreshTimer s \<noteq> None)
       (seqS
         [upd (\<lambda>s. s\<lparr> se_turnRefreshTimer := None \<rparr>),
          ifS (\<lambda>s. \<not> se_isConnected s \<or> \<not> has_text (se_currentRoomId s)) skipS
            (ifS se_turnGate
              (seqS [upd (\<lambda>s. s\<lparr> se_gatesPending := se_gatesPending s + 1 \<rparr>), out (\<lambda>_. AskTurnGate)])
              send_turn_refresh)])"

text \<open>The continuation of \<open>maybeSendTurnRefresh\<close> once the gate has answered (a failure counts as yes).\<close>

definition turn_gate_answered :: "rat \<Rightarrow> bool \<Rightarrow> engine_act" where
  "turn_gate_answered now shouldRefresh =
     whenS (\<lambda>s. 0 < se_gatesPending s)
       (seqS
         [upd (\<lambda>s. s\<lparr> se_gatesPending := se_gatesPending s - 1 \<rparr>),
          (if shouldRefresh then send_turn_refresh
           else upd (\<lambda>s. case se_turnTokenExpiresAtMs s of
                       None \<Rightarrow> s
                     | Some expires \<Rightarrow>
                         (let remainingMs = js_sub expires (Fin now) in
                          if js_lt (Fin 0) remainingMs
                          then scheduleTurnRefresh now (Some (js_scale TURN_REFRESH_TRIGGER_RATIO remainingMs)) s
                          else s)))])"

definition token_timer_fired :: engine_act where
  "token_timer_fired =
     whenS (\<lambda>s. se_tokenRefreshTimer s \<noteq> None)
       (seqS
         [upd (\<lambda>s. s\<lparr> se_tokenRefreshTimer := None \<rparr>),
          ifS (\<lambda>s. \<not> se_isConnected s \<or> \<not> has_text (se_currentRoomId s) \<or> \<not> has_text (se_reconnectToken s))
            skipS (sendMessage ''reconnect-token-refresh'' None None)])"

section \<open>The engine as a state machine\<close>

datatype engine_event =
    Connect
  | Destroy
  | Join string join_options
  | Leave bool
  | EndRoom
  | WatchRooms "string list"
  | ClearError
  | SetTurnGate bool
  | JoinKickstartFired
  | JoinRecoveryFired
  | JoinHardTimeoutFired
  | ReconnectFired
  | PingTick
  | TurnTimerFired
  | TurnGateAnswer bool
  | TokenTimerFired
  | Sock nat transport_event

text \<open>The events the browser raises on a socket, as opposed to the engine's own calls.\<close>

fun is_socket_event :: "transport_event \<Rightarrow> bool" where
  "is_socket_event (TConnect _) = False"
| "is_socket_event TCloseCall = False"
| "is_socket_event (TForceClose _) = False"
| "is_socket_event (TSend _) = False"
| "is_socket_event _ = True"

text \<open>Only the environment's events of the engine: its owner alone calls its methods.\<close>

fun is_environment :: "engine_event \<Rightarrow> bool" where
  "is_environment (Sock _ _) = True"
| "is_environment ReconnectFired = True"
| "is_environment PingTick = True"
| "is_environment JoinKickstartFired = True"
| "is_environment JoinRecoveryFired = True"
| "is_environment JoinHardTimeoutFired = True"
| "is_environment TurnTimerFired = True"
| "is_environment (TurnGateAnswer _) = True"
| "is_environment TokenTimerFired = True"
| "is_environment _ = False"

fun engine_step :: "engine_env \<Rightarrow> engine_event \<Rightarrow> engine_act" where
  "engine_step env Connect = connect_engine env"
| "engine_step env Destroy = destroy"
| "engine_step env (Join roomId options) = joinRoom roomId options"
| "engine_step env (Leave preserve) = leaveRoom preserve"
| "engine_step env EndRoom = endRoom"
| "engine_step env (WatchRooms rids) = watchRooms rids"
| "engine_step env ClearError = clearError"
| "engine_step env (SetTurnGate b) = upd (\<lambda>s. s\<lparr> se_turnGate := b \<rparr>)"
| "engine_step env JoinKickstartFired = join_kickstart"
| "engine_step env JoinRecoveryFired = join_recovery"
| "engine_step env JoinHardTimeoutFired = join_hard_timeout"
| "engine_step env ReconnectFired = reconnect_fired env"
| "engine_step env PingTick = ping_tick env"
| "engine_step env TurnTimerFired = turn_timer_fired"
| "engine_step env (TurnGateAnswer b) = turn_gate_answered (env_now env) b"
| "engine_step env TokenTimerFired = token_timer_fired"
| "engine_step env (Sock c e) =
     whenS (\<lambda>s. c = se_transportId s \<and> is_socket_event e) (drive env e)"

definition engine_event_step :: "engine \<Rightarrow> engine_env \<times> engine_event \<Rightarrow> engine \<times> engine_effect list" where
  "engine_event_step s e = engine_step (fst e) (snd e) s"

record engine_config =
  ec_transports :: "transport_kind list option"
  ec_videoMediaEnabled :: "bool option"
  ec_independentContentVideo :: "bool option"

definition new_engine :: "engine_config \<Rightarrow> rat \<Rightarrow> bool \<Rightarrow> (string \<times> string) list \<Rightarrow> recovery_record option \<Rightarrow> engine" where
  "new_engine cfg now storage_ok storage recovery = loadReconnectStorage
     \<lparr> se_isConnected = False, se_activeTransport = None, se_clientId = None, se_roomState = None,
       se_turnToken = None, se_turnTokenTTLMs = None, se_error = None, se_roomStatuses = [],
       se_lastReconnectOutcome = None, se_lastEpoch = None, se_epochAtDisconnect = None,
       se_sessionStartTs = None, se_awaitingSnapshot = False,
       se_transportOrder = default [Ws, Sse] (ec_transports cfg),
       se_videoMediaEnabled = (ec_videoMediaEnabled cfg \<noteq> Some False),
       se_independentContentVideo = (ec_independentContentVideo cfg = Some True),
       se_conn = None, se_attached = False, se_transportIndex = 0, se_connectedOnce = (\<lambda>_. False),
       se_transportId = 0, se_currentRoomId = None, se_pendingJoin = None, se_lastClientId = None,
       se_needsRejoin = False, se_reconnectToken = None, se_reconnectTokenRoomId = None,
       se_reconnectTokenTTLMs = None, se_lastPongAt = now, se_missedPongs = 0,
       se_wsConsecutiveFailures = 0, se_sseSid = None, se_joinAttemptId = 0, se_joinAcked = False,
       se_joinKickstartTimer = None, se_joinRecoveryTimer = None, se_joinHardTimeout = None,
       se_turnRefreshTimer = None, se_tokenRefreshTimer = None, se_pingInterval = False,
       se_reconnectTimeout = None, se_reconnectAttempts = 0, se_closedByDestroy = False,
       se_connecting = False, se_lastCreateMax = None, se_lastDisplayName = None, se_lastPeerId = None,
       se_turnGate = False, se_gatesPending = 0, se_turnTokenExpiresAtMs = None,
       se_storage_ok = storage_ok, se_storage = storage, se_recovery = recovery \<rparr>"

end
