(* ===== verification/Engine_Proofs.thy ===== *)
theory Engine_Proofs
  imports Signaling_Engine
begin

text \<open>
  Correctness of the signaling engine: its invariant, kept by every event, the silence of a
  destroyed engine, the reset on terminal events, the rejoin after a lost connection and the
  bounds of the reconnect backoff.
\<close>

section \<open>The part of the state the invariant reads\<close>

definition core :: "engine \<Rightarrow> _" where
  "core s = (se_reconnectTimeout s, se_joinKickstartTimer s, se_joinRecoveryTimer s, se_joinHardTimeout s,
             se_joinAttemptId s, se_joinAcked s, se_currentRoomId s, se_conn s, se_attached s,
             se_closedByDestroy s, se_awaitingSnapshot s)"

lemma core_storage [simp]:
  "core (store_set k v s) = core s" "core (store_remove k s) = core s" "core (remove_keys s) = core s"
  "core (clearRecoveryRecord s) = core s" "core (saveRecoveryRecord r s) = core s"
  "core (persistClientId s) = core s"
  by (simp_all add: core_def store_set_def store_remove_def remove_keys_def clearRecoveryRecord_def
      saveRecoveryRecord_def persistClientId_def split: option.split)

lemma core_persist [simp]: "core (persistReconnectStorage s) = core s"
  by (simp add: core_def store_set_def persistReconnectStorage_def Let_def split: option.split)

lemma core_recovery [simp]: "core (persistRecoveryRecord now ttl s) = core s"
  by (simp add: persistRecoveryRecord_def Let_def split: option.split)

lemma core_timers [simp]:
  "core (clearPingInterval s) = core s" "core (clearTurnRefreshTimer s) = core s"
  "core (clearReconnectTokenRefreshTimer s) = core s" "core (startPingInterval now s) = core s"
  "core (scheduleTurnRefresh now d s) = core s" "core (scheduleReconnectTokenRefresh ttl s) = core s"
  by (simp_all add: core_def clearPingInterval_def clearTurnRefreshTimer_def
      clearReconnectTokenRefreshTimer_def startPingInterval_def scheduleTurnRefresh_def
      scheduleReconnectTokenRefresh_def Let_def split: option.split)

lemma core_updates [simp]:
  "core (s\<lparr> se_reconnectToken := a \<rparr>) = core s" "core (s\<lparr> se_reconnectTokenRoomId := a \<rparr>) = core s"
  "core (s\<lparr> se_reconnectTokenTTLMs := c \<rparr>) = core s" "core (s\<lparr> se_sessionStartTs := d \<rparr>) = core s"
  "core (s\<lparr> se_turnToken := a \<rparr>) = core s" "core (s\<lparr> se_turnTokenTTLMs := c \<rparr>) = core s"
  "core (s\<lparr> se_error := e \<rparr>) = core s" "core (s\<lparr> se_clientId := a \<rparr>) = core s"
  "core (s\<lparr> se_roomState := r \<rparr>) = core s" "core (s\<lparr> se_lastEpoch := c \<rparr>) = core s"
  "core (s\<lparr> se_lastReconnectOutcome := ro \<rparr>) = core s" "core (s\<lparr> se_lastClientId := a \<rparr>) = core s"
  "core (s\<lparr> se_epochAtDisconnect := c \<rparr>) = core s" "core (s\<lparr> se_needsRejoin := b \<rparr>) = core s"
  "core (s\<lparr> se_turnTokenExpiresAtMs := c \<rparr>) = core s" "core (s\<lparr> se_pendingJoin := a \<rparr>) = core s"
  "core (s\<lparr> se_turnGate := b \<rparr>) = core s" "core (s\<lparr> se_turnRefreshTimer := c \<rparr>) = core s"
  "core (s\<lparr> se_tokenRefreshTimer := c \<rparr>) = core s" "core (s\<lparr> se_gatesPending := n \<rparr>) = core s"
  "core (s\<lparr> se_missedPongs := n \<rparr>) = core s" "core (s\<lparr> se_connecting := b \<rparr>) = core s"
  "core (s\<lparr> se_transportIndex := n \<rparr>) = core s" "core (s\<lparr> se_connectedOnce := g \<rparr>) = core s"
  "core (s\<lparr> se_sseSid := a \<rparr>) = core s"
  by (simp_all add: core_def)

lemma core_clearReconnectStorage [simp]: "core (clearReconnectStorage s) = core s"
  by (simp add: clearReconnectStorage_def)

lemma core_clearAuthority [simp]: "core (clearReconnectAuthorityForFreshJoin s) = core s"
  by (simp add: clearReconnectAuthorityForFreshJoin_def)

lemma core_on_refreshed [simp]:
  "core (on_turn_refreshed now m s) = core s" "core (on_token_refreshed now m s) = core s"
  by (simp_all add: on_turn_refreshed_def on_token_refreshed_def Let_def split: option.split)

section \<open>The invariant\<close>

definition backoff_ok :: "int option \<Rightarrow> bool" where
  "backoff_ok = pred_option (\<lambda>d. RECONNECT_BACKOFF_BASE_MS \<le> d \<and> d \<le> RECONNECT_BACKOFF_CAP_MS)"

definition timers_ok :: "engine \<Rightarrow> bool" where
  "timers_ok s =
     (pred_option (\<lambda>t. fst t = se_joinAttemptId s \<and> \<not> se_joinAcked s) (se_joinKickstartTimer s) \<and>
      pred_option (\<lambda>t. fst t = se_joinAttemptId s \<and> \<not> se_joinAcked s) (se_joinRecoveryTimer s) \<and>
      pred_option (\<lambda>a. a = se_joinAttemptId s \<and> \<not> se_joinAcked s) (se_joinHardTimeout s))"

definition common_inv :: "engine \<Rightarrow> bool" where
  "common_inv s =
     (backoff_ok (se_reconnectTimeout s) \<and> timers_ok s \<and>
      (se_awaitingSnapshot s \<longrightarrow> se_currentRoomId s \<noteq> None) \<and>
      pred_option tp_wf (se_conn s) \<and> (se_attached s \<longrightarrow> se_conn s \<noteq> None) \<and>
      (\<not> se_attached s \<longrightarrow> pred_option tp_over (se_conn s)))"

definition live :: "engine \<Rightarrow> bool" where
  "live s = (common_inv s \<and> \<not> se_closedByDestroy s)"

definition dead :: "engine \<Rightarrow> bool" where
  "dead s = (common_inv s \<and> se_closedByDestroy s \<and> \<not> se_attached s)"

definition engine_inv :: "engine \<Rightarrow> bool" where
  "engine_inv s = (live s \<or> dead s)"

lemmas inv_defs = live_def dead_def common_inv_def timers_ok_def

lemma core_cong:
  assumes "core s = core t"
  shows "live s = live t" "dead s = dead t"
  using assms by (auto simp: core_def inv_defs)

lemma keeping_core: "(\<And>s. core (f s) = core s) \<Longrightarrow> keeping live (upd f)"
  using core_cong by (intro keeping_upd) blast

lemma reconnect_backoff_ok: "backoff_ok (Some (reconnect_backoff attempt))"
proof -
  have "(1 :: int) \<le> 2 ^ (attempt - 1)" by simp
  then show ?thesis by (simp add: backoff_ok_def reconnect_backoff_def constants)
qed

lemma no_timers: "timers_ok (clearJoinTimers s)"
  by (simp add: timers_ok_def clearJoinTimers_def)

lemma live_clearJoinTimers: "live s \<Longrightarrow> live (clearJoinTimers s)"
  by (simp add: inv_defs clearJoinTimers_def)

lemma live_resetForTerminal: "live s \<Longrightarrow> live (resetForTerminal s)"
proof -
  assume l: "live s"
  have "core (resetForTerminal s) = core ((clearJoinTimers s)\<lparr> se_currentRoomId := None, se_awaitingSnapshot := False \<rparr>)"
    by (simp add: resetForTerminal_def core_def clearReconnectStorage_def clearRecoveryRecord_def
        remove_keys_def store_remove_def clearReconnectTokenRefreshTimer_def clearJoinTimers_def)
  moreover have "live ((clearJoinTimers s)\<lparr> se_currentRoomId := None, se_awaitingSnapshot := False \<rparr>)"
    using l by (simp add: inv_defs clearJoinTimers_def)
  ultimately show ?thesis using core_cong by blast
qed

lemma live_on_error: "live s \<Longrightarrow> live (on_error p s)"
  using core_cong(1) [of "s\<lparr> se_error := Some (to_error_state p) \<rparr>" s]
  by (auto simp: on_error_def Let_def intro: live_resetForTerminal)

lemma live_on_room_state: "live s \<Longrightarrow> live (on_room_state m s)"
  by (auto simp: on_room_state_def inv_defs Let_def split: option.split)

lemma core_on_joined:
  "core (on_joined now m s) =
     (case parseJoinedPayload (sg_payload m) of
        None \<Rightarrow> core s
      | Some _ \<Rightarrow> core ((clearJoinTimers s)\<lparr> se_joinAcked := True \<rparr>))"
proof (cases "parseJoinedPayload (sg_payload m)")
  case None
  then show ?thesis by (simp add: on_joined_def Let_def split: option.split)
next
  case (Some j)
  define s1 where "s1 = (case truthy_string (sg_cid m) of Some c \<Rightarrow> s\<lparr> se_clientId := Some c \<rparr> | None \<Rightarrow> s)"
  have "core ((clearJoinTimers s1)\<lparr> se_joinAcked := True \<rparr>) = core ((clearJoinTimers s)\<lparr> se_joinAcked := True \<rparr>)"
    by (simp add: s1_def core_def clearJoinTimers_def split: option.split)
  with Some show ?thesis
    unfolding on_joined_def s1_def [symmetric]
    by (simp add: Let_def joined_turn_def joined_token_def split: option.split)
qed

lemma live_on_joined: "live s \<Longrightarrow> live (on_joined now m s)"
proof -
  assume l: "live s"
  then have "live ((clearJoinTimers s)\<lparr> se_joinAcked := True \<rparr>)"
    by (simp add: inv_defs clearJoinTimers_def)
  with l core_on_joined [of now m s] show ?thesis
    by (metis core_cong(1) option.case_eq_if)
qed

section \<open>Every statement keeps a live engine live\<close>

lemma live_conn_do: "live s \<Longrightarrow> \<not> is_connect e \<Longrightarrow> live (fst (conn_do e s))"
  by (auto simp: conn_do_def inv_defs Let_def tp.step_wf tp.over_stays split: option.split)

lemma keep_conn_do: "\<not> is_connect e \<Longrightarrow> keeping live (conn_do e)"
  by (rule keepingI) (rule live_conn_do)

lemma keep_calls [keeps]: "keeping live (conn_do TCloseCall)" "keeping live (conn_do (TSend m))"
  by (simp_all add: keep_conn_do)

lemma keep_send [keeps]: "keeping live (sendMessage type payload to)"
  unfolding sendMessage_def by (intro keeps)

lemma keep_doSendJoin [keeps]: "keeping live (doSendJoin a p)"
  unfolding doSendJoin_def by (intro keeps)

text \<open>What a send leaves unchanged: everything but the transport, which stays attached.\<close>

lemma conn_do_frame:
  "fst (conn_do e s) = s\<lparr> se_conn := se_conn (fst (conn_do e s)) \<rparr>"
  by (cases s) (simp add: conn_do_def Let_def split: option.split)

lemma send_frame: "\<exists>c. fst (sendMessage type payload to s) = s\<lparr> se_conn := c \<rparr>"
proof (cases "transport_open s")
  case True
  then show ?thesis
    using conn_do_frame by (auto simp: sendMessage_def act_simps)
next
  case False
  then have "fst (sendMessage type payload to s) = s\<lparr> se_conn := se_conn s \<rparr>"
    by (simp add: sendMessage_def act_simps)
  then show ?thesis by blast
qed

lemma doSendJoin_frame: "\<exists>c. fst (doSendJoin a p s) = s\<lparr> se_conn := c \<rparr>"
proof (cases "se_joinAttemptId s = a")
  case True
  then show ?thesis using send_frame by (simp add: doSendJoin_def act_simps)
next
  case False
  then have "fst (doSendJoin a p s) = s\<lparr> se_conn := se_conn s \<rparr>" by (simp add: doSendJoin_def act_simps)
  then show ?thesis by blast
qed

lemma keep_joinRoom [keeps]: "keeping live (joinRoom roomId options)"
proof (rule keepingI)
  fix s assume l: "live s"
  define s1 where "s1 = start_join roomId options s"
  have l1: "live s1" using l by (simp add: s1_def start_join_def inv_defs clearJoinTimers_def)
  have acked: "\<not> se_joinAcked s1" by (simp add: s1_def start_join_def)
  show "live (fst (joinRoom roomId options s))"
  proof (cases "transport_open s1")
    case True
    define p where "p = join_payload roomId s1"
    define a where "a = se_joinAttemptId s1"
    obtain c where c: "fst (doSendJoin a p s1) = s1\<lparr> se_conn := c \<rparr>" using doSendJoin_frame by blast
    have l2: "live (s1\<lparr> se_conn := c \<rparr>)" using keepingD [OF keep_doSendJoin l1, of a p] c by simp
    have "live (s1\<lparr> se_conn := c, se_joinKickstartTimer := Some (a, p), se_joinRecoveryTimer := Some (a, p),
                    se_joinHardTimeout := Some a \<rparr>)"
      using l2 acked by (simp add: inv_defs a_def)
    with True c show ?thesis
      by (simp add: joinRoom_def act_simps s1_def [symmetric] p_def [symmetric] a_def [symmetric])
  next
    case False
    have "live (s1\<lparr> se_pendingJoin := Some roomId \<rparr>)" using l1 by (simp add: inv_defs)
    with False show ?thesis by (simp add: joinRoom_def act_simps s1_def [symmetric])
  qed
qed

lemma keep_scheduleReconnect [keeps]: "keeping live scheduleReconnect"
  unfolding scheduleReconnect_def
  by (intro keeps keeping_upd) (simp add: inv_defs Let_def reconnect_backoff_ok)

lemma keep_clearJoinTimers [keeps]: "keeping live (upd clearJoinTimers)"
  by (rule keeping_upd) (rule live_clearJoinTimers)

lemma keep_handlers [keeps]:
  "keeping live (upd (on_joined now m))" "keeping live (upd (on_room_state m))"
  "keeping live (upd resetForTerminal)" "keeping live (upd (on_turn_refreshed now m))"
  "keeping live (upd (on_token_refreshed now m))" "keeping live (upd (on_error p))"
  by (auto intro: keeping_upd live_on_joined live_on_room_state live_resetForTerminal live_on_error
      keeping_core)

lemma keep_announce [keeps]: "keeping live (announce m)"
  unfolding announce_def by (auto intro!: keeps)

lemma retryFreshJoin_keeps:
  assumes "retryFreshJoin rid s = Some (r, act)"
  shows "keeping live act"
proof -
  from assms have act: "act = seqS
       [upd (\<lambda>s. clearReconnectAuthorityForFreshJoin (clearJoinTimers (s\<lparr> se_error := None \<rparr>))),
        letS (\<lambda>s. \<lparr> jo_createMaxParticipants = se_lastCreateMax s, jo_displayName = se_lastDisplayName s,
                    jo_peerId = se_lastPeerId s \<rparr>) (joinRoom r)]"
    by (auto simp: retryFreshJoin_def split: option.splits)
  have "live (clearReconnectAuthorityForFreshJoin (clearJoinTimers (s\<lparr> se_error := None \<rparr>)))"
    if "live s" for s
  proof -
    have "live (clearJoinTimers (s\<lparr> se_error := None \<rparr>))"
      using that by (simp add: inv_defs clearJoinTimers_def)
    then show ?thesis by (subst core_cong(1) [OF core_clearAuthority])
  qed
  then show ?thesis unfolding act by (auto intro!: keeps keeping_upd)
qed

lemma keep_error_received [keeps]: "keeping live (error_received msg p)"
proof (rule keepingI)
  fix s assume l: "live s"
  have "keeping live (seqS [upd (on_error p), announce msg])"
    by (auto intro!: keeps)
  then have "live (fst (seqS [upd (on_error p), announce msg] s))" using l by (rule keepingD)
  then show "live (fst (error_received msg p s))"
    using l keepingD [OF retryFreshJoin_keeps]
    by (auto simp: error_received_def letS_def split: option.split)
qed

lemma keep_incoming [keeps]: "keeping live (handleIncomingMessage now msg)"
proof -
  have statuses: "keeping live (upd (\<lambda>s. if b then s\<lparr> se_roomStatuses := f s \<rparr> else s))" for b f
    by (rule keeping_upd) (simp add: inv_defs)
  have pong: "keeping live (upd (\<lambda>s. s\<lparr> se_lastPongAt := now, se_missedPongs := 0 \<rparr>))"
    by (rule keeping_upd) (simp add: inv_defs)
  show ?thesis
    unfolding handleIncomingMessage_def Let_def
    by (auto intro!: keeps statuses pong split: option.split)
qed

lemma keep_on_open [keeps]: "keeping live (on_open now kind)"
proof -
  have 1: "keeping live (upd (\<lambda>s. s\<lparr> se_connecting := False, se_reconnectAttempts := 0,
      se_wsConsecutiveFailures := (if kind = Ws then 0 else se_wsConsecutiveFailures s) \<rparr>))"
    by (rule keeping_upd) (simp add: inv_defs)
  have 2: "keeping live (upd (\<lambda>s. startPingInterval now (s\<lparr> se_isConnected := True,
      se_activeTransport := Some kind, se_connectedOnce := (se_connectedOnce s)(kind := True) \<rparr>)))"
    by (rule keeping_upd) (simp add: inv_defs startPingInterval_def clearPingInterval_def)
  show ?thesis
    unfolding on_open_def
    by (auto intro!: keeps 1 2 keeping_upd simp: inv_defs split: option.split prod.split bool.split)
qed

lemma live_mark_closed:
  "live s \<Longrightarrow> pred_option tp_over (se_conn s) \<Longrightarrow> live (mark_closed kind s)"
  by (auto simp: mark_closed_def inv_defs Let_def clearPingInterval_def clearTurnRefreshTimer_def
      clearReconnectTokenRefreshTimer_def truthy_string_def)

lemma keep_after_close:
  "(\<And>i. keeping live (reconnect i)) \<Longrightarrow> keeping live (after_close reconnect kind reason)"
proof -
  assume r: "\<And>i. keeping live (reconnect i)"
  have "keeping live (upd (\<lambda>s. s\<lparr> se_reconnectAttempts := 0 \<rparr>))"
    by (rule keeping_upd) (simp add: inv_defs)
  then show ?thesis unfolding after_close_def by (auto intro!: keeps r)
qed

lemma live_on_close:
  assumes r: "\<And>i. keeping live (reconnect i)" and l: "live s" and o: "pred_option tp_over (se_conn s)"
  shows "live (fst (on_close_with reconnect kind reason s))"
proof -
  let ?s0 = "s\<lparr> se_connecting := False \<rparr>"
  have "live ?s0" using l core_cong(1) [OF core_updates(22)] by simp
  then have "live (mark_closed kind ?s0)" by (rule live_mark_closed) (simp add: o)
  with keep_after_close [OF r] have "live (fst (after_close reconnect kind reason (mark_closed kind ?s0)))"
    by (rule keepingD)
  moreover have "\<not> se_closedByDestroy s" using l by (simp add: live_def)
  ultimately show ?thesis
    by (simp add: on_close_with_def thenS_def upd_def ifS_def skipS_def Let_def)
qed

lemma live_handle_signal:
  assumes "\<And>i. keeping live (reconnect i)" "live s"
    and "\<And>r. sig = SigClose r \<Longrightarrow> pred_option tp_over (se_conn s)"
  shows "live (fst (handle_signal_with reconnect env sig s))"
  using assms live_on_close [of reconnect s] keepingD [OF keep_on_open] keepingD [OF keep_incoming]
  by (cases sig) (simp_all add: handle_signal_with_def letS_def)

text \<open>A transport reports at most one thing per event, and after a close it is over.\<close>

lemma live_drive_with:
  assumes r: "\<And>i. keeping live (reconnect i)" and l: "live s"
    and e: "is_connect e \<Longrightarrow> se_attached s \<and> pred_option (\<lambda>t. tp_sock t = None) (se_conn s)"
  shows "live (fst (drive_with reconnect env e s))"
proof (cases "se_conn s")
  case None
  then have "fst (drive_with reconnect env e s) = s"
    by (simp add: drive_with_def letS_def thenS_def conn_do_def forS_def skipS_def)
  with l show ?thesis by simp
next
  case (Some t)
  let ?t = "fst (transport_step t e)" and ?sigs = "signals_of (snd (transport_step t e))"
  have s1: "fst (conn_do e s) = s\<lparr> se_conn := Some ?t \<rparr>" by (simp add: conn_do_def Some Let_def)
  have l1: "live (s\<lparr> se_conn := Some ?t \<rparr>)"
  proof (cases "is_connect e")
    case True
    with e l Some show ?thesis by (simp add: inv_defs tp.step_wf)
  next
    case False
    from live_conn_do [OF l this] s1 show ?thesis by simp
  qed
  have over: "tp_over ?t" if "SigClose x \<in> set ?sigs" for x
    using tp.close_signal [OF that] e Some by auto
  consider "?sigs = []" | g where "?sigs = [g]"
    using tp.one_signal [of t e] by (metis One_nat_def Suc_length_conv le_SucE le_zero_eq length_0_conv)
  then show ?thesis
  proof cases
    case 1
    with l1 s1 Some show ?thesis
      by (simp add: drive_with_def letS_def thenS_def forS_def skipS_def Let_def)
  next
    case (2 g)
    have "live (fst (handle_signal_with reconnect env g (s\<lparr> se_conn := Some ?t \<rparr>)))"
      by (rule live_handle_signal [OF r l1]) (use 2 over in simp)
    with 2 s1 Some show ?thesis
      by (simp add: drive_with_def letS_def thenS_def forS_def skipS_def Let_def)
  qed
qed

lemma keep_doConnect [keeps]: "keeping live (doConnect fuel env i)"
proof (induction fuel arbitrary: i)
  case (Suc fuel)
  have installed: "keeping live (thenS (upd (install_transport env kind)) (thenS
      (ifS (\<lambda>_. c) a (drive_with (doConnect fuel env) env (TConnect oc))) skipS))"
    if a: "keeping live a" for kind c a oc
  proof (rule keepingI)
    fix s assume "live s"
    then have l: "live (install_transport env kind s)"
      by (simp add: install_transport_def inv_defs new_transport_wf)
    have "live (fst (drive_with (doConnect fuel env) env (TConnect oc) (install_transport env kind s)))"
      by (rule live_drive_with [OF Suc.IH l]) (simp add: install_transport_def new_transport_def)
    with l keepingD [OF a l]
    show "live (fst (thenS (upd (install_transport env kind)) (thenS
      (ifS (\<lambda>_. c) a (drive_with (doConnect fuel env) env (TConnect oc))) skipS) s))"
      by (simp add: thenS_def upd_def ifS_def skipS_def Let_def)
  qed
  have 2: "keeping live (upd (\<lambda>s. s\<lparr> se_transportIndex := j, se_connecting := True \<rparr>))"
    "keeping live (upd (\<lambda>s. s\<lparr> se_sseSid := f s \<rparr>))" "keeping live (upd (\<lambda>s. s\<lparr> se_connecting := False \<rparr>))" for j f
    by (auto intro!: keeping_core)
  show ?case
    unfolding doConnect.simps replace_transport_def try_connect_def seqS.simps
    by (rule installed 2 keep_calls keep_scheduleReconnect keeping_skipS keeping_ifS keeping_letS
        keeping_whenS keeping_thenS)+
qed (simp add: keeps)

lemma keep_connectAt [keeps]: "keeping live (connectAt env i)"
  unfolding connectAt_def by (intro keeps)

lemma live_drive: "live s \<Longrightarrow> \<not> is_connect e \<Longrightarrow> live (fst (drive env e s))"
  unfolding drive_def by (rule live_drive_with) (auto intro: keeps)

lemma keep_drive: "\<not> is_connect e \<Longrightarrow> keeping live (drive env e)"
  by (rule keepingI) (rule live_drive)

lemma live_leaveRoom: "live s \<Longrightarrow> live (fst (leaveRoom preserve s))"
proof -
  assume "live s"
  then have "live (clearJoinTimers s)" by (rule live_clearJoinTimers)
  then have l1: "live (fst (sendMessage ''leave'' None None (clearJoinTimers s)))"
    by (rule keepingD [OF keep_send])
  let ?s1 = "fst (sendMessage ''leave'' None None (clearJoinTimers s))"
  have "core (fst (leaveRoom preserve s)) = core (?s1\<lparr> se_currentRoomId := None, se_awaitingSnapshot := False \<rparr>)"
    by (auto simp: leaveRoom_def act_simps core_def clearReconnectStorage_def clearRecoveryRecord_def
        remove_keys_def store_remove_def clearReconnectTokenRefreshTimer_def)
  moreover have "live (?s1\<lparr> se_currentRoomId := None, se_awaitingSnapshot := False \<rparr>)"
    using l1 by (simp add: inv_defs)
  ultimately show ?thesis using core_cong by blast
qed

lemma keep_join_timers [keeps]:
  "keeping live join_kickstart" "keeping live join_recovery" "keeping live join_hard_timeout"
proof -
  have 1: "keeping live (upd (\<lambda>s. s\<lparr> se_joinKickstartTimer := None \<rparr>))"
    by (rule keeping_upd) (simp add: inv_defs)
  have 2: "keeping live (upd (\<lambda>s. s\<lparr> se_joinRecoveryTimer := None \<rparr>))"
    by (rule keeping_upd) (simp add: inv_defs)
  have 3: "keeping live (upd (\<lambda>s. s\<lparr> se_joinHardTimeout := None \<rparr>))"
    by (rule keeping_upd) (simp add: inv_defs)
  have 4: "keeping live (upd (\<lambda>s. (clearJoinTimers s)\<lparr> se_error := Some e \<rparr>))" for e
    by (rule keeping_upd) (simp add: core_cong(1) [OF core_updates(7)] live_clearJoinTimers)
  show "keeping live join_kickstart"
    unfolding join_kickstart_def by (auto intro!: keeps 1 split: option.split)
  show "keeping live join_recovery"
    unfolding join_recovery_def by (auto intro!: keeps 2 split: option.split)
  show "keeping live join_hard_timeout"
    unfolding join_hard_timeout_def by (auto intro!: keeps 3 4 split: option.split)
qed

lemma keep_refresh_timers [keeps]:
  "keeping live turn_timer_fired" "keeping live (turn_gate_answered now b)" "keeping live token_timer_fired"
proof -
  have 1: "keeping live (upd (\<lambda>s. s\<lparr> se_turnRefreshTimer := None \<rparr>))"
    "keeping live (upd (\<lambda>s. s\<lparr> se_tokenRefreshTimer := None \<rparr>))"
    "keeping live (upd (\<lambda>s. s\<lparr> se_gatesPending := f s \<rparr>))" for f
    by (auto intro!: keeping_upd simp: inv_defs)
  have 2: "keeping live (upd (\<lambda>s. case se_turnTokenExpiresAtMs s of None \<Rightarrow> s
      | Some expires \<Rightarrow> (let remainingMs = js_sub expires (Fin now) in
          if js_lt (Fin 0) remainingMs
          then scheduleTurnRefresh now (Some (js_scale TURN_REFRESH_TRIGGER_RATIO remainingMs)) s else s)))"
    by (rule keeping_core) (simp add: Let_def split: option.split)
  show "keeping live turn_timer_fired"
    unfolding turn_timer_fired_def send_turn_refresh_def by (auto intro!: keeps 1)
  show "keeping live (turn_gate_answered now b)"
    unfolding turn_gate_answered_def send_turn_refresh_def by (auto intro!: keeps 1 2)
  show "keeping live token_timer_fired"
    unfolding token_timer_fired_def by (auto intro!: keeps 1)
qed

lemma keep_reconnect_fired [keeps]: "keeping live (reconnect_fired env)"
proof -
  have "keeping live (upd (\<lambda>s. s\<lparr> se_reconnectTimeout := None, se_transportIndex := 0,
      se_connectedOnce := (\<lambda>_. False) \<rparr>))"
    by (rule keeping_upd) (simp add: inv_defs backoff_ok_def)
  then show ?thesis unfolding reconnect_fired_def by (auto intro!: keeps)
qed

lemma keep_ping_tick [keeps]: "keeping live (ping_tick env)"
proof -
  have "keeping live (drive env (TForceClose r))" for r by (rule keep_drive) simp
  moreover  have "keeping live (upd (\<lambda>s. s\<lparr> se_missedPongs := f s \<rparr>))" for f
    by (rule keeping_upd) (simp add: inv_defs)
  ultimately show ?thesis unfolding ping_tick_def Let_def by (auto intro!: keeps)
qed

lemma keep_step_misc:
  "keeping live (upd (\<lambda>s. s\<lparr> se_turnGate := b \<rparr>))" "keeping live (upd (\<lambda>s. s\<lparr> se_error := None \<rparr>))"
  "keeping live (upd (\<lambda>s. s\<lparr> se_closedByDestroy := False, se_transportIndex := 0, se_connectedOnce := (\<lambda>_. False) \<rparr>))"
  by (auto intro!: keeping_upd simp: inv_defs)

lemma keep_sock: "keeping live (engine_step env (Sock c e))"
proof (cases "is_socket_event e")
  case True
  then have "\<not> is_connect e" by (cases e) auto
  then show ?thesis by (auto intro!: keeps keep_drive)
next
  case False
  then show ?thesis by (simp add: keeping_def whenS_def ifS_def skipS_def)
qed

lemma live_engine_step:
  assumes "live s" "e \<noteq> Destroy"
  shows "live (fst (engine_step env e s))"
proof (cases "\<exists>b. e = Leave b")
  case True
  with assms(1) show ?thesis by (auto intro: live_leaveRoom)
next
  case False
  with assms(2) have "keeping live (engine_step env e)"
    by (cases e) (auto intro!: keeps keep_step_misc keep_sock [simplified]
        simp: endRoom_def watchRooms_def clearError_def connect_engine_def)
  then show ?thesis using assms(1) by (rule keepingD)
qed

section \<open>A destroyed engine\<close>

fun quiet_effect :: "engine_effect \<Rightarrow> bool" where
  "quiet_effect (Wire _) = False"
| "quiet_effect (OpenSocket _ _) = False"
| "quiet_effect (DeliverMessage _) = False"
| "quiet_effect _ = True"

definition stays_dead :: "engine \<times> engine_effect list \<Rightarrow> bool" where
  "stays_dead r = (dead (fst r) \<and> list_all quiet_effect (snd r))"

lemma send_detached: "\<not> se_attached s \<Longrightarrow> sendMessage type payload to s = (s, [])"
  by (simp add: sendMessage_def transport_open_def act_simps)

lemma doSendJoin_detached: "\<not> se_attached s \<Longrightarrow> doSendJoin a p s = (s, [])"
  by (simp add: doSendJoin_def act_simps send_detached)

lemma socket_event_effects:
  "is_socket_event e \<Longrightarrow> list_all quiet_effect (socket_effects t (snd (transport_step t e)))"
  by (cases e; cases "tp_kind t")
    (auto simp: socket_effects_def transport_step_def ws_defs sse_defs transport_defs act_simps
      List.map_filter_simps split: option.split)

lemma dead_conn_do: "dead s \<Longrightarrow> is_socket_event e \<Longrightarrow> stays_dead (conn_do e s)"
proof -
  assume d: "dead s" and e: "is_socket_event e"
  have "\<not> is_connect e" using e by (cases e) auto
  then have "tp_over (fst (transport_step t e))" "tp_wf (fst (transport_step t e))" if "se_conn s = Some t" for t
    using d that tp.over_stays tp.step_wf by (auto simp: inv_defs)
  with d e socket_event_effects show ?thesis
    by (auto simp: stays_dead_def conn_do_def inv_defs Let_def split: option.split)
qed

lemma dead_drive: "dead s \<Longrightarrow> is_socket_event e \<Longrightarrow> stays_dead (drive env e s)"
proof -
  assume d: "dead s" and e: "is_socket_event e"
  define sigs where "sigs = (case se_conn s of Some t \<Rightarrow> signals_of (snd (transport_step t e)) | None \<Rightarrow> [])"
  have "\<not> is_connect e" using e by (cases e) auto
  then have closes: "list_all (\<lambda>g. \<exists>r. g = SigClose r) sigs"
    using d tp.over_quiet by (auto simp: sigs_def inv_defs split: option.split)
  have handled: "stays_dead (forS sigs (handle_signal_with (connectAt env) env) s')"
    if "dead s'" "list_all (\<lambda>g. \<exists>r. g = SigClose r) sigs" for s' sigs
    using that
  proof (induction sigs arbitrary: s')
    case Nil
    then show ?case by (simp add: stays_dead_def forS_def skipS_def)
  next
    case (Cons g sigs)
    then obtain r where g: "g = SigClose r" by auto
    have "handle_signal_with (connectAt env) env g s' = (s'\<lparr> se_connecting := False \<rparr>, [])"
      using Cons.prems(1) by (simp add: g handle_signal_with_def on_close_with_def act_simps inv_defs)
    moreover have "dead (s'\<lparr> se_connecting := False \<rparr>)" using Cons.prems(1) by (simp add: inv_defs)
    ultimately show ?case using Cons.IH Cons.prems(2) by (simp add: forS_def thenS_def Let_def)
  qed
  have c: "stays_dead (conn_do e s)" by (rule dead_conn_do [OF d e])
  then have "stays_dead (forS sigs (handle_signal_with (connectAt env) env) (fst (conn_do e s)))"
    by (intro handled closes) (simp add: stays_dead_def)
  with c show ?thesis
    by (simp add: drive_def drive_with_def letS_def sigs_def [symmetric] thenS_def skipS_def Let_def stays_dead_def)
qed

lemma dead_core: "dead s \<Longrightarrow> core t = core s \<Longrightarrow> dead t"
  using core_cong(2) by blast

lemma dead_updates:
  assumes "dead s"
  shows "dead (clearJoinTimers s)" "dead (s\<lparr> se_joinKickstartTimer := None \<rparr>)"
    "dead (s\<lparr> se_joinRecoveryTimer := None \<rparr>)" "dead (s\<lparr> se_joinHardTimeout := None \<rparr>)"
    "dead (s\<lparr> se_reconnectTimeout := None \<rparr>)" "dead (start_join roomId options s)"
    "dead (s\<lparr> se_currentRoomId := None, se_awaitingSnapshot := False \<rparr>)"
  using assms by (simp_all add: inv_defs clearJoinTimers_def start_join_def backoff_ok_def)

lemma dead_detached: "dead s \<Longrightarrow> \<not> se_attached s" "dead s \<Longrightarrow> se_closedByDestroy s"
  by (simp_all add: dead_def)

lemma dead_connectAt: "dead s \<Longrightarrow> connectAt env i s = (s, [])"
  by (simp add: connectAt_def letS_def ifS_def skipS_def dead_detached)

lemma dead_send: "dead s \<Longrightarrow> sendMessage t p to s = (s, [])"
  by (simp add: send_detached dead_detached)

lemma dead_doSendJoin: "dead s \<Longrightarrow> doSendJoin a p s = (s, [])"
  by (simp add: doSendJoin_detached dead_detached)

text \<open>The calculus of a destroyed engine: statements that keep it dead and have only quiet effects.\<close>

definition muted :: "engine_act \<Rightarrow> bool" where
  "muted a = (\<forall>s. dead s \<longrightarrow> stays_dead (a s))"

named_theorems muting \<open>statements that are muted on a destroyed engine\<close>

lemma muted_skip [muting]: "muted skipS"
  by (simp add: muted_def stays_dead_def skipS_def)

lemma muted_upd: "(\<And>s. dead s \<Longrightarrow> dead (f s)) \<Longrightarrow> muted (upd f)"
  by (simp add: muted_def stays_dead_def upd_def)

lemma muted_core: "(\<And>s. core (f s) = core s) \<Longrightarrow> muted (upd f)"
  by (rule muted_upd) (erule dead_core)

lemma muted_out [muting]: "(\<And>s. quiet_effect (f s)) \<Longrightarrow> muted (out f)"
  by (simp add: muted_def stays_dead_def out_def)

lemma muted_thenS [muting]: "muted a \<Longrightarrow> muted b \<Longrightarrow> muted (thenS a b)"
  by (simp add: muted_def stays_dead_def thenS_def Let_def)

lemma muted_ifS [muting]: "muted a \<Longrightarrow> muted b \<Longrightarrow> muted (ifS c a b)"
  by (simp add: muted_def ifS_def)

lemma muted_whenS [muting]: "muted a \<Longrightarrow> muted (whenS c a)"
  by (simp add: whenS_def muted_ifS muted_skip)

lemma muted_letS [muting]: "(\<And>x. muted (k x)) \<Longrightarrow> muted (letS e k)"
  by (simp add: muted_def letS_def)

lemma muted_calls [muting]:
  "muted (sendMessage t p to)" "muted (doSendJoin a j)" "muted (connectAt env i)"
  by (simp_all add: muted_def dead_send dead_doSendJoin dead_connectAt stays_dead_def)

lemma muted_updates [muting]:
  "muted (upd clearJoinTimers)" "muted (upd (\<lambda>s. s\<lparr> se_joinKickstartTimer := None \<rparr>))"
  "muted (upd (\<lambda>s. s\<lparr> se_joinRecoveryTimer := None \<rparr>))" "muted (upd (\<lambda>s. s\<lparr> se_joinHardTimeout := None \<rparr>))"
  "muted (upd (start_join roomId options))" "muted (upd (\<lambda>s. s\<lparr> se_pendingJoin := p \<rparr>))"
  "muted (upd (\<lambda>s. s\<lparr> se_error := err \<rparr>))" "muted (upd (\<lambda>s. s\<lparr> se_turnGate := b \<rparr>))"
  "muted (upd (\<lambda>s. s\<lparr> se_turnRefreshTimer := None \<rparr>))" "muted (upd (\<lambda>s. s\<lparr> se_tokenRefreshTimer := None \<rparr>))"
  "muted (upd (\<lambda>s. s\<lparr> se_gatesPending := f s \<rparr>))" "muted (upd (\<lambda>s. s\<lparr> se_missedPongs := f s \<rparr>))"
  by (auto intro: muted_upd dead_updates muted_core)

lemma muted_joinRoom [muting]: "muted (joinRoom roomId options)"
proof -
  have "joinRoom roomId options s = thenS (upd (start_join roomId options))
      (thenS (upd (\<lambda>s. s\<lparr> se_pendingJoin := Some roomId \<rparr>)) (thenS notifyStateChange skipS)) s" if "dead s" for s
  proof -
    have "\<not> transport_open (start_join roomId options s)"
      using dead_updates(6) [OF that, of roomId options] by (simp add: transport_open_def dead_detached)
    then show ?thesis by (simp add: joinRoom_def thenS_def upd_def ifS_def Let_def)
  qed
  moreover have "muted (thenS (upd (start_join roomId options))
      (thenS (upd (\<lambda>s. s\<lparr> se_pendingJoin := Some roomId \<rparr>)) (thenS notifyStateChange skipS)))"
    by (auto intro!: muting)
  ultimately show ?thesis by (simp add: muted_def)
qed

lemma muted_leaveRoom [muting]: "muted (leaveRoom b)"
  unfolding muted_def
proof (intro allI impI)
  fix s assume d: "dead s"
  let ?s1 = "clearJoinTimers s"
  have d1: "dead ?s1" using d by (rule dead_updates)
  have "core (fst (leaveRoom b s)) = core (?s1\<lparr> se_currentRoomId := None, se_awaitingSnapshot := False \<rparr>)"
    using dead_send [OF d1]
    by (auto simp: leaveRoom_def act_simps core_def clearReconnectStorage_def clearRecoveryRecord_def
        remove_keys_def store_remove_def clearReconnectTokenRefreshTimer_def)
  with dead_updates(7) [OF d1] have "dead (fst (leaveRoom b s))" by (rule dead_core)
  then show "stays_dead (leaveRoom b s)"
    using dead_send [OF d1] by (simp add: stays_dead_def leaveRoom_def thenS_def upd_def out_def skipS_def Let_def)
qed

lemma shut_down_core:
  "se_reconnectTimeout (shut_down s) = None" "timers_ok (shut_down s)" "se_awaitingSnapshot (shut_down s) = False"
  "se_closedByDestroy (shut_down s) = True" "se_conn (shut_down s) = se_conn s"
  "se_attached (shut_down s) = se_attached s"
  by (simp_all add: shut_down_def clearReconnectTimeout_def clearJoinTimers_def timers_ok_def
      clearPingInterval_def clearTurnRefreshTimer_def clearReconnectTokenRefreshTimer_def)

lemma dies_destroy: "common_inv s \<Longrightarrow> dead (fst (destroy s))"
proof -
  assume inv: "common_inv s"
  show ?thesis
  proof (cases "se_attached s")
    case True
    with inv obtain c where c: "se_conn s = Some c" "tp_wf c" by (auto simp: common_inv_def)
    let ?c = "fst (transport_step c TCloseCall)"
    have "fst (destroy s) = (shut_down s)\<lparr> se_conn := Some ?c, se_attached := False \<rparr>"
      using True c by (simp add: destroy_def thenS_def upd_def whenS_def ifS_def skipS_def conn_do_def Let_def
          shut_down_core)
    moreover have "tp_over ?c" "tp_wf ?c"
      using c tp.close_closes closed_over tp.step_wf by blast+
    ultimately show ?thesis
      using shut_down_core [of s] by (simp add: inv_defs backoff_ok_def)
  next
    case False
    then have "fst (destroy s) = shut_down s"
      by (simp add: destroy_def thenS_def upd_def whenS_def ifS_def skipS_def Let_def shut_down_core)
    then show ?thesis
      using inv False shut_down_core [of s] by (simp add: dead_def common_inv_def backoff_ok_def)
  qed
qed

lemma muted_attached: "muted (whenS se_attached a)"
  by (simp add: dead_detached muted_def whenS_def ifS_def skipS_def stays_dead_def)

lemma muted_destroy [muting]: "muted destroy"
proof -
  have "dead (shut_down s)" if "dead s" for s
    using that shut_down_core [of s] by (simp add: dead_def common_inv_def backoff_ok_def)
  then show ?thesis
    unfolding destroy_def seqS.simps by (intro muted_thenS muted_upd muted_attached muted_skip)
qed

lemma muted_drive [muting]: "is_socket_event e \<Longrightarrow> muted (drive env e)"
  by (simp add: muted_def dead_drive)

lemma muted_step: "e \<noteq> Connect \<Longrightarrow> muted (engine_step env e)"
proof -
  have 1: "muted (upd (\<lambda>s. case se_turnTokenExpiresAtMs s of None \<Rightarrow> s
      | Some expires \<Rightarrow> (let remainingMs = js_sub expires (Fin now) in
          if js_lt (Fin 0) remainingMs
          then scheduleTurnRefresh now (Some (js_scale TURN_REFRESH_TRIGGER_RATIO remainingMs)) s else s)))" for now
    by (rule muted_core) (simp add: Let_def split: option.split)
  have 2: "muted (upd (\<lambda>s. (clearJoinTimers s)\<lparr> se_error := Some err \<rparr>))" for err
    by (rule muted_upd) (auto intro: dead_core [OF dead_updates(1)])
  have 3: "muted (upd (\<lambda>s. s\<lparr> se_reconnectTimeout := None, se_transportIndex := 0, se_connectedOnce := (\<lambda>_. False) \<rparr>))"
    by (rule muted_upd) (auto intro: dead_core [OF dead_updates(5)])
  have ping: "muted (ping_tick env)"
    unfolding ping_tick_def Let_def seqS.simps
    by (rule muted_attached muted_updates muted_calls muted_skip muted_whenS muted_ifS muted_thenS)+
  have sock: "muted (whenS (\<lambda>s. c = se_transportId s \<and> is_socket_event ev) (drive env ev))" for c ev
  proof (cases "is_socket_event ev")
    case True
    then show ?thesis by (intro muting)
  next
    case False
    then show ?thesis by (simp add: muted_def whenS_def ifS_def skipS_def stays_dead_def)
  qed
  show "e \<noteq> Connect \<Longrightarrow> muted (engine_step env e)"
    by (cases e) (auto intro!: 1 2 3 ping sock muting simp: endRoom_def watchRooms_def clearError_def
        join_kickstart_def join_recovery_def join_hard_timeout_def reconnect_fired_def turn_timer_fired_def
        turn_gate_answered_def token_timer_fired_def send_turn_refresh_def split: option.split)
qed

section \<open>The engine as a reactive component\<close>

lemma engine_inv_step: "engine_inv s \<Longrightarrow> engine_inv (fst (engine_step env e s))"
proof -
  assume inv: "engine_inv s"
  show ?thesis
  proof (cases "live s")
    case True
    show ?thesis
    proof (cases "e = Destroy")
      case True
      then show ?thesis using \<open>live s\<close> dies_destroy [of s] by (simp add: engine_inv_def live_def)
    next
      case False
      then show ?thesis using live_engine_step \<open>live s\<close> by (simp add: engine_inv_def)
    qed
  next
    case False
    with inv have d: "dead s" by (simp add: engine_inv_def)
    show ?thesis
    proof (cases "e = Connect")
      case True
      let ?s = "s\<lparr> se_closedByDestroy := False, se_transportIndex := 0, se_connectedOnce := (\<lambda>_. False) \<rparr>"
      have "live ?s" using d by (simp add: inv_defs)
      then have "live (fst (connectAt env 0 ?s))" by (rule keepingD [OF keep_connectAt])
      with True show ?thesis
        by (simp add: engine_inv_def connect_engine_def thenS_def upd_def skipS_def Let_def)
    next
      case False
      with d muted_step show ?thesis by (auto simp: engine_inv_def muted_def stays_dead_def)
    qed
  qed
qed

interpretation engine: reactive engine_event_step engine_inv
  by unfold_locales (simp add: engine_event_step_def engine_inv_step)

lemma new_engine_live: "live (new_engine cfg now ok storage recovery)"
  by (simp add: new_engine_def loadReconnectStorage_def inv_defs backoff_ok_def)

lemma dead_run:
  "dead s \<Longrightarrow> list_all (\<lambda>e. snd e \<noteq> Connect) es \<Longrightarrow>
   stays_dead (run engine_event_step s es)"
proof (induction es arbitrary: s)
  case (Cons e es)
  then have 1: "stays_dead (engine_event_step s e)"
    using muted_step [of "snd e" "fst e"] by (simp add: muted_def engine_event_step_def)
  with Cons have "stays_dead (run engine_event_step (fst (engine_event_step s e)) es)"
    by (simp add: stays_dead_def)
  with 1 show ?case by (simp add: stays_dead_def Let_def)
qed (simp add: stays_dead_def)

section \<open>Properties of runs\<close>

definition engine_after ::
  "engine_config \<Rightarrow> bool \<Rightarrow> (string \<times> string) list \<Rightarrow> (engine_env \<times> engine_event) list \<Rightarrow> engine" where
  "engine_after cfg storage_ok storage es =
     fst (run engine_event_step (new_engine cfg 0 storage_ok storage None) es)"

lemma engine_after_inv: "engine_inv (engine_after cfg ok storage es)"
  unfolding engine_after_def by (rule engine.run_inv) (simp add: engine_inv_def new_engine_live)

definition sample_config :: engine_config where
  "sample_config = \<lparr> ec_transports = None, ec_videoMediaEnabled = None, ec_independentContentVideo = None \<rparr>"

definition sample_env :: engine_env where
  "sample_env = \<lparr> env_now = 0, env_connect = (\<lambda>_. ConnectStarted), env_new_sid = ''S-1'' \<rparr>"

text \<open>In every run of the engine, whatever the caller, the network and the timers do: a pending
  reconnect waits between 500 and 5000 ms; a pending join timer belongs to the current, not yet
  acknowledged join attempt; ICE restarts are gated only while the engine is in a room; and a transport
  that the engine has let go of is not open.\<close>

theorem engine_runs_keep_invariant:
  "pred_option (\<lambda>d. 500 \<le> d \<and> d \<le> 5000) (se_reconnectTimeout (engine_after cfg ok storage es)) \<and>
   timers_ok (engine_after cfg ok storage es) \<and>
   (se_awaitingSnapshot (engine_after cfg ok storage es) \<longrightarrow>
      se_currentRoomId (engine_after cfg ok storage es) \<noteq> None) \<and>
   (\<not> se_attached (engine_after cfg ok storage es) \<longrightarrow>
      pred_option (\<lambda>t. \<not> isOpen t) (se_conn (engine_after cfg ok storage es)))"
proof -
  have inv: "common_inv (engine_after cfg ok storage es)"
    using engine_after_inv by (auto simp: engine_inv_def live_def dead_def)
  then show ?thesis
    using tp.over_not_open
    by (auto simp: common_inv_def backoff_ok_def constants option.pred_set)
qed

theorem engine_runs_keep_invariant_witness:
  "pred_option (\<lambda>d. 500 \<le> d \<and> d \<le> 5000) (se_reconnectTimeout (engine_after sample_config True []
      [(sample_env, Connect), (sample_env, Join ''r'' no_options), (sample_env, Sock 1 TError)]))"
  using engine_runs_keep_invariant [of sample_config True "[]"
      "[(sample_env, Connect), (sample_env, Join ''r'' no_options), (sample_env, Sock 1 TError)]"]
  by blast

text \<open>C5: A destroyed engine is silent. After \<open>destroy()\<close>, until \<open>connect()\<close> is called again, no event - a
  late socket event, a timer that was pending, a join or a leave - makes it open a socket, send a
  message or deliver one to its listeners, and it stays destroyed.\<close>

theorem destroyed_engine_is_silent:
  assumes "list_all (\<lambda>e. snd e \<noteq> Connect) later"
  shows "list_all quiet_effect
           (snd (run engine_event_step (fst (destroy (engine_after cfg ok storage es))) later)) \<and>
         se_closedByDestroy (fst (run engine_event_step (fst (destroy (engine_after cfg ok storage es))) later))"
proof -
  have "dead (fst (destroy (engine_after cfg ok storage es)))"
    using engine_after_inv by (intro dies_destroy) (auto simp: engine_inv_def live_def dead_def)
  from dead_run [OF this assms(1)] show ?thesis by (simp add: stays_dead_def dead_def)
qed

theorem destroyed_engine_is_silent_witness:
  "list_all quiet_effect (snd (run engine_event_step
      (fst (destroy (engine_after sample_config True [] [(sample_env, Connect)])))
      [(sample_env, Sock 1 TOpen), (sample_env, Join ''r'' no_options)]))"
  using destroyed_engine_is_silent [of "[(sample_env, Sock 1 TOpen), (sample_env, Join ''r'' no_options)]"
      sample_config True "[]" "[(sample_env, Connect)]"]
  by simp

section \<open>Reconnect credentials\<close>

text \<open>The credentials part of the state, and that the timers do not touch it.\<close>

definition creds :: "engine \<Rightarrow> _" where
  "creds s = (se_storage_ok s, se_storage s, se_recovery s, se_reconnectToken s, se_reconnectTokenRoomId s,
              se_clientId s, se_currentRoomId s, se_sessionStartTs s)"

lemma creds_frame [simp]:
  "creds (clearJoinTimers s) = creds s" "creds (clearReconnectTokenRefreshTimer s) = creds s"
  "creds (scheduleTurnRefresh now d s) = creds s" "creds (scheduleReconnectTokenRefresh ttl s) = creds s"
  by (simp_all add: creds_def clearJoinTimers_def clearReconnectTokenRefreshTimer_def scheduleTurnRefresh_def
      scheduleReconnectTokenRefresh_def clearTurnRefreshTimer_def Let_def split: option.split)

lemma creds_conn [simp]: "creds (s\<lparr> se_conn := c \<rparr>) = creds s"
  by (simp add: creds_def)

lemma creds_send [simp]: "creds (fst (sendMessage t p to s)) = creds s"
  using send_frame [of t p to s] by auto

definition forgotten :: "engine \<Rightarrow> bool" where
  "forgotten s =
     (se_reconnectToken s = None \<and> se_reconnectTokenRoomId s = None \<and>
      (se_storage_ok s \<longrightarrow>
         map_of (se_storage s) KEY_CID = None \<and> map_of (se_storage s) KEY_TOKEN = None \<and>
         map_of (se_storage s) KEY_TOKEN_ROOM = None \<and> se_recovery s = None))"

lemma keys_distinct: "KEY_CID \<noteq> KEY_TOKEN" "KEY_CID \<noteq> KEY_TOKEN_ROOM" "KEY_TOKEN \<noteq> KEY_TOKEN_ROOM"
  by (simp_all add: KEY_CID_def KEY_TOKEN_def KEY_TOKEN_ROOM_def)

lemma remove_keys_storage:
  "se_storage_ok (remove_keys s) = se_storage_ok s"
  "se_storage_ok s \<Longrightarrow> map_of (se_storage (remove_keys s)) k =
     (if k = KEY_CID \<or> k = KEY_TOKEN \<or> k = KEY_TOKEN_ROOM then None else map_of (se_storage s) k)"
  by (simp_all add: remove_keys_def store_remove_def js_map.get_del)

lemma forgotten_cong: "creds s = creds t \<Longrightarrow> forgotten s = forgotten t"
  by (simp add: creds_def forgotten_def)

lemma forgotten_clear: "forgotten (clearReconnectStorage s)"
  by (simp add: clearReconnectStorage_def forgotten_def clearRecoveryRecord_def remove_keys_storage)

lemma forgotten_authority: "forgotten (clearReconnectAuthorityForFreshJoin s)"
  by (simp add: clearReconnectAuthorityForFreshJoin_def forgotten_def clearRecoveryRecord_def remove_keys_storage)

lemma forgotten_reset: "forgotten (resetForTerminal s)"
proof -
  have "forgotten (resetForTerminal s) = forgotten (clearReconnectStorage
      ((clearReconnectTokenRefreshTimer (clearJoinTimers s))
         \<lparr> se_roomState := None, se_currentRoomId := None, se_needsRejoin := False \<rparr>))"
    by (simp add: resetForTerminal_def forgotten_def)
  then show ?thesis by (simp add: forgotten_clear)
qed

lemma forgotten_leave: "forgotten (fst (leaveRoom False s))"
proof -
  let ?s1 = "fst (sendMessage ''leave'' None None (clearJoinTimers s))"
  have "forgotten (fst (leaveRoom False s)) =
      forgotten (clearReconnectStorage (?s1\<lparr> se_currentRoomId := None, se_needsRejoin := False, se_lastClientId := None \<rparr>))"
    by (simp add: leaveRoom_def thenS_def upd_def out_def skipS_def Let_def forgotten_def
        clearReconnectTokenRefreshTimer_def)
  then show ?thesis by (simp add: forgotten_clear)
qed

text \<open>What a \<open>joined\<close> with a token leaves behind.\<close>

definition remembers :: "string \<Rightarrow> string \<Rightarrow> string \<Rightarrow> engine \<Rightarrow> bool" where
  "remembers room cid token s =
     (map_of (se_storage s) KEY_TOKEN = Some token \<and> map_of (se_storage s) KEY_TOKEN_ROOM = Some room \<and>
      map_of (se_storage s) KEY_CID = Some cid \<and>
      (case se_recovery s of
         Some r \<Rightarrow> rec_roomId r = room \<and> rec_cid r = cid \<and> rec_reconnectToken r = token
       | None \<Rightarrow> False))"

lemma creds_joined_turn [simp]: "creds (joined_turn now joined s) = creds s"
proof -
  have "creds (s\<lparr> se_turnToken := t \<rparr>) = creds s" "creds (s\<lparr> se_turnTokenTTLMs := ttl \<rparr>) = creds s" for s t ttl
    by (simp_all add: creds_def)
  then show ?thesis by (simp add: joined_turn_def Let_def split: option.split)
qed

lemma remembers_cong: "creds s = creds t \<Longrightarrow> remembers room cid token s = remembers room cid token t"
  by (simp add: creds_def remembers_def)

text \<open>The last three writes of \<open>joined\<close> on the credentials.\<close>

lemma joined_remembers:
  assumes ok: "se_storage_ok s" and room: "se_currentRoomId s = Some room" "room \<noteq> []"
    and cid: "sg_cid msg = Some cid" "cid \<noteq> []" and rid: "truthy_string (sg_rid msg) \<in> {None, Some room}"
    and j: "parseJoinedPayload (sg_payload msg) = Some joined"
    and tok: "jp_reconnectToken joined = Some token" "token \<noteq> []"
    and start: "coalesce (se_sessionStartTs s) (Some now) \<noteq> Some 0"
  shows "remembers room cid token (on_joined now msg s)"
proof -
  define s2 where "s2 = (clearJoinTimers (s\<lparr> se_clientId := Some cid \<rparr>))
      \<lparr> se_joinAcked := True, se_lastReconnectOutcome := jp_reconnect joined,
        se_lastEpoch := coalesce (jp_epoch joined) (se_lastEpoch (s\<lparr> se_clientId := Some cid \<rparr>)),
        se_roomState := Some \<lparr> rs_hostCid = jp_hostCid joined, rs_participants = jp_participants joined,
          rs_maxParticipants = jp_maxParticipants joined, rs_epoch = jp_epoch joined \<rparr> \<rparr>"
  define s4 where "s4 = joined_turn now joined s2"
  have "creds s4 = creds s2" unfolding s4_def by (rule creds_joined_turn)
  moreover have "creds s2 = creds (s\<lparr> se_clientId := Some cid \<rparr>)"
    by (simp add: s2_def creds_def clearJoinTimers_def)
  ultimately have s4: "se_storage_ok s4" "se_currentRoomId s4 = Some room" "se_clientId s4 = Some cid"
    "se_sessionStartTs s4 = se_sessionStartTs s"
    using ok room by (simp_all add: creds_def)
  define s5 where "s5 = joined_token msg joined s4"
  have s5: "se_storage_ok s5" "se_currentRoomId s5 = Some room" "se_clientId s5 = Some cid"
    "se_sessionStartTs s5 = se_sessionStartTs s" "se_reconnectToken s5 = Some token"
    "map_of (se_storage s5) KEY_TOKEN = Some token" "map_of (se_storage s5) KEY_TOKEN_ROOM = Some room"
  proof -
    let ?ttl = "default (js_of_int RECONNECT_TOKEN_TTL_FALLBACK_MS) (jp_reconnectTokenTTLMs joined)"
    let ?p = "persistReconnectStorage (s4\<lparr> se_reconnectToken := Some token,
       se_reconnectTokenRoomId := Some room, se_reconnectTokenTTLMs := Some ?ttl \<rparr>)"
    have "coalesce (truthy_string (sg_rid msg)) (se_currentRoomId s4) = Some room" using rid s4 by auto
    then have "s5 = scheduleReconnectTokenRefresh (Some ?ttl) ?p"
      using tok by (simp add: s5_def joined_token_def Let_def)
    then have "creds s5 = creds ?p" by simp
    then show "se_storage_ok s5" "se_currentRoomId s5 = Some room" "se_clientId s5 = Some cid"
      "se_sessionStartTs s5 = se_sessionStartTs s" "se_reconnectToken s5 = Some token"
      "map_of (se_storage s5) KEY_TOKEN = Some token" "map_of (se_storage s5) KEY_TOKEN_ROOM = Some room"
      using s4 tok room keys_distinct
      by (simp_all add: creds_def persistReconnectStorage_def store_set_def Let_def js_map.get_put)
  qed
  define s7 where "s7 = (persistClientId s5)\<lparr> se_sessionStartTs := coalesce (se_sessionStartTs s5) (Some now) \<rparr>"
  have eq: "on_joined now msg s = persistRecoveryRecord now (jp_reconnectTokenTTLMs joined) s7"
    unfolding on_joined_def s2_def s4_def s5_def s7_def using cid j
    by (simp add: Let_def persistClientId_def store_set_def split: option.split)
  obtain st where st: "coalesce (se_sessionStartTs s) (Some now) = Some st" "st \<noteq> 0"
    using start by (cases "se_sessionStartTs s") auto
  show ?thesis
    unfolding eq using s5 st cid room tok keys_distinct keys_distinct [symmetric]
    by (simp add: s7_def remembers_def persistRecoveryRecord_def persistClientId_def store_set_def
        saveRecoveryRecord_def Let_def js_map.get_put)
qed

section \<open>Joins on an open transport\<close>

lemma send_open:
  assumes "transport_open s"
  shows "sendMessage type payload to s = (s, [Wire ((outgoing type payload s)\<lparr> sg_to := to \<rparr>)])"
proof -
  from assms obtain t where t: "se_conn s = Some t" "isOpen t" by (auto simp: transport_open_def)
  have "transport_step t (TSend m) = (t, [SockSend m])" for m
    using t(2) by (cases "tp_kind t")
      (auto simp: transport_step_def isOpen_def ws_is_open_def ws_send_def sse_send_def act_simps)
  with assms t show ?thesis
    by (simp add: sendMessage_def whenS_def ifS_def letS_def conn_do_def socket_effects_def
        List.map_filter_simps Let_def)
qed

lemma transport_open_cong:
  "se_attached s = se_attached t \<Longrightarrow> se_conn s = se_conn t \<Longrightarrow> transport_open s = transport_open t"
  by (simp add: transport_open_def)

lemma start_join_open: "transport_open (start_join roomId options s) = transport_open s"
  by (rule transport_open_cong) (simp_all add: start_join_def clearJoinTimers_def)

lemma joinRoom_open:
  fixes roomId :: string and options :: join_options
  assumes "transport_open s"
  defines "s1 \<equiv> start_join roomId options s"
  shows "joinRoom roomId options s =
    (s1\<lparr> se_joinKickstartTimer := Some (se_joinAttemptId s1, join_payload roomId s1),
         se_joinRecoveryTimer := Some (se_joinAttemptId s1, join_payload roomId s1),
         se_joinHardTimeout := Some (se_joinAttemptId s1) \<rparr>,
     [Wire (outgoing ''join'' (Some (join_payload roomId s1)) s1), NotifyState])"
proof -
  have o: "transport_open s1" using assms start_join_open by simp
  then have d: "doSendJoin (se_joinAttemptId s1) p s1 = (s1, [Wire (outgoing ''join'' (Some p) s1)])" for p
    by (simp add: doSendJoin_def ifS_def send_open outgoing_def)
  show ?thesis
    using o by (simp add: joinRoom_def thenS_def upd_def ifS_def letS_def out_def skipS_def Let_def d
        s1_def [symmetric])
qed

definition wires :: "engine_effect list \<Rightarrow> signaling_message list" where
  "wires es = List.map_filter (\<lambda>e. case e of Wire m \<Rightarrow> Some m | _ \<Rightarrow> None) es"

lemma wires_simps [simp]:
  "wires [] = []" "wires (Wire m # es) = m # wires es" "wires (NotifyState # es) = wires es"
  "wires (DeliverMessage m # es) = wires es" "wires (CloseSocket # es) = wires es"
  "wires (OpenSocket k sid # es) = wires es" "wires (AskTurnGate # es) = wires es"
  by (simp_all add: wires_def List.map_filter_simps)

lemma join_payload_fields:
  "field (Some (join_payload roomId s)) ''reconnectCid'' =
     map_option JStr (coalesce (truthy_string (se_clientId s)) (truthy_string (se_lastClientId s)))"
  "field (Some (join_payload roomId s)) ''reconnectToken'' =
     (if coalesce (truthy_string (se_clientId s)) (truthy_string (se_lastClientId s)) \<noteq> None
         \<and> se_reconnectTokenRoomId s = Some roomId
      then map_option JStr (truthy_string (se_reconnectToken s)) else None)"
  by (cases "coalesce (truthy_string (se_clientId s)) (truthy_string (se_lastClientId s))";
      simp add: join_payload_def Let_def del: coalesce_eq_None)+

section \<open>Properties of the credentials\<close>

text \<open>A \<open>joined\<close> with a reconnect token is remembered in lockstep: the session storage and the recovery
  record both hold exactly this token, room and client id.\<close>

theorem joined_persists_credentials:
  assumes "se_storage_ok s" and "se_currentRoomId s = Some room" and "room \<noteq> []"
    and "sg_type msg = ''joined''" and "sg_cid msg = Some cid" and "cid \<noteq> []"
    and "truthy_string (sg_rid msg) \<in> {None, Some room}"
    and "parseJoinedPayload (sg_payload msg) = Some joined"
    and "jp_reconnectToken joined = Some token" and "token \<noteq> []"
    and "coalesce (se_sessionStartTs s) (Some now) \<noteq> Some 0"
  shows "remembers room cid token (fst (handleIncomingMessage now msg s))"
  using joined_remembers [of s room msg cid joined token now] assms
  by (simp add: handleIncomingMessage_def thenS_def upd_def skipS_def out_def announce_def Let_def)

definition sample_joined :: signaling_message where
  "sample_joined = \<lparr> sg_v = 1, sg_type = ''joined'', sg_rid = Some ''r'', sg_sid = None, sg_cid = Some ''c'',
     sg_to = None, sg_payload = Some (JObj [(''participants'', JArr []), (''reconnectToken'', JStr ''tok'')]) \<rparr>"

theorem joined_persists_credentials_witness:
  "remembers ''r'' ''c'' ''tok'' (fst (handleIncomingMessage 7 sample_joined
     ((new_engine sample_config 0 True [] None)\<lparr> se_currentRoomId := Some ''r'' \<rparr>)))"
  by (rule joined_persists_credentials [where joined =
        "the (parseJoinedPayload (sg_payload sample_joined))"])
    (simp_all add: sample_joined_def new_engine_def loadReconnectStorage_def parseJoinedPayload_def
      parseParticipants_def List.map_filter_simps)

text \<open>Terminal events forget: after a clean leave, a \<open>room_ended\<close> message or a \<open>ROOM_ENDED\<close> error
  the reconnect token is gone from memory, from all three session-storage keys and from the
  recovery record.\<close>

theorem terminal_events_forget:
  "forgotten (fst (leaveRoom False s)) \<and>
   (sg_type msg = ''room_ended'' \<longrightarrow> forgotten (fst (handleIncomingMessage now msg s))) \<and>
   (sg_type msg = ''error'' \<and> parseErrorPayload (sg_payload msg) = Some p \<and> ep_code p = ''ROOM_ENDED'' \<longrightarrow>
      forgotten (fst (handleIncomingMessage now msg s)))"
  by (auto simp: forgotten_leave forgotten_reset handleIncomingMessage_def thenS_def upd_def skipS_def
      out_def announce_def error_received_def letS_def on_error_def Let_def)

theorem terminal_events_forget_witness:
  "forgotten (fst (handleIncomingMessage 9
     (sample_joined\<lparr> sg_type := ''room_ended'' \<rparr>) (fst (handleIncomingMessage 7 sample_joined
     ((new_engine sample_config 0 True [] None)\<lparr> se_currentRoomId := Some ''r'' \<rparr>)))))"
  using terminal_events_forget [of _ "sample_joined\<lparr> sg_type := ''room_ended'' \<rparr>" 9] by simp

text \<open>C3: A rejected reconnect token leads to a fresh join: the engine forgets its credentials, clears the
  error, and sends exactly one \<open>join\<close> for the room, which claims no client id and no token; listeners do
  not see the error.\<close>

theorem invalid_token_joins_afresh:
  assumes "transport_open s" and "sg_type msg = ''error''"
    and "parseErrorPayload (sg_payload msg) = Some p" and "ep_code p = ''INVALID_RECONNECT_TOKEN''"
    and "coalesce (truthy_string (sg_rid msg)) (truthy_string (se_currentRoomId s)) = Some room"
  shows "forgotten (fst (handleIncomingMessage now msg s)) \<and>
         se_error (fst (handleIncomingMessage now msg s)) = None \<and>
         (\<exists>m. snd (handleIncomingMessage now msg s) = [Wire m, NotifyState] \<and>
              sg_type m = ''join'' \<and> sg_rid m = Some room \<and>
              field (sg_payload m) ''reconnectCid'' = None \<and> field (sg_payload m) ''reconnectToken'' = None)"
proof -
  define s1 where "s1 = clearReconnectAuthorityForFreshJoin (clearJoinTimers (s\<lparr> se_error := None \<rparr>))"
  define opts where "opts = \<lparr> jo_createMaxParticipants = se_lastCreateMax s1, jo_displayName = se_lastDisplayName s1,
                         jo_peerId = se_lastPeerId s1 \<rparr>"
  have room: "room \<noteq> []"
    using assms(5) by (cases "truthy_string (sg_rid msg)") auto
  have s1: "se_attached s1 = se_attached s" "se_conn s1 = se_conn s" "se_clientId s1 = None"
    "se_lastClientId s1 = None"
    by (simp_all add: s1_def clearReconnectAuthorityForFreshJoin_def clearJoinTimers_def clearRecoveryRecord_def
        remove_keys_def store_remove_def clearReconnectTokenRefreshTimer_def)
  have o: "transport_open s1" using assms(1) transport_open_cong [OF s1(1,2)] by simp
  have h: "handleIncomingMessage now msg s = joinRoom room opts s1"
    using assms(2-5)
    by (simp add: handleIncomingMessage_def error_received_def letS_def retryFreshJoin_def thenS_def upd_def
        skipS_def Let_def s1_def opts_def)
  have "forgotten s1" unfolding s1_def by (rule forgotten_authority)
  then have f: "forgotten (start_join room opts s1)"
    by (simp add: forgotten_def start_join_def clearJoinTimers_def)
  have c: "se_clientId (start_join room opts s1) = None" "se_lastClientId (start_join room opts s1) = None"
    using s1 by (simp_all add: start_join_def clearJoinTimers_def)
  show ?thesis
    unfolding h joinRoom_open [OF o]
    using f c room
    by (auto simp: forgotten_def join_payload_fields outgoing_def) (auto simp: start_join_def clearJoinTimers_def)
qed

definition open_sample :: engine where
  "open_sample = (new_engine sample_config 0 True [(''serenada.reconnectToken'', ''old'')] None)
     \<lparr> se_attached := True, se_currentRoomId := Some ''r'', se_clientId := Some ''c'',
       se_conn := Some \<lparr> tp_kind = Ws, tp_sock = Some RsOpen, tp_open = True, tp_listening = True,
                         tp_timer = False, tp_sid = [] \<rparr> \<rparr>"

definition invalid_token_error :: signaling_message where
  "invalid_token_error = \<lparr> sg_v = 1, sg_type = ''error'', sg_rid = None, sg_sid = None, sg_cid = None,
     sg_to = None, sg_payload = Some (JObj [(''code'', JStr ''INVALID_RECONNECT_TOKEN''), (''message'', JStr ''no'')]) \<rparr>"

lemma open_sample_open: "transport_open open_sample"
  by (simp add: open_sample_def transport_open_def isOpen_def ws_is_open_def)

theorem invalid_token_joins_afresh_witness:
  "\<exists>m. snd (handleIncomingMessage 5 invalid_token_error open_sample) = [Wire m, NotifyState] \<and>
       sg_type m = ''join'' \<and> field (sg_payload m) ''reconnectToken'' = None"
  using invalid_token_joins_afresh [OF open_sample_open, of invalid_token_error
      "\<lparr> ep_code = ''INVALID_RECONNECT_TOKEN'', ep_message = ''no'', ep_reason = None \<rparr>" "''r''" 5]
  by (auto simp: invalid_token_error_def parseErrorPayload_def as_nonempty_def open_sample_def)

section \<open>The snapshot gate\<close>

definition gate_opener :: "signaling_message \<Rightarrow> bool" where
  "gate_opener msg =
     (sg_type msg = ''room_ended'' \<or>
      (sg_type msg = ''room_state'' \<and> parseRoomStatePayload (sg_payload msg) \<noteq> None) \<or>
      (sg_type msg = ''error'' \<and>
        pred_option (\<lambda>p. ep_code p \<in> {''ROOM_ENDED'', ''INVALID_RECONNECT_TOKEN''})
          (parseErrorPayload (sg_payload msg)) \<and> parseErrorPayload (sg_payload msg) \<noteq> None))"

abbreviation gated :: "engine \<Rightarrow> bool" where
  "gated \<equiv> se_awaitingSnapshot"

lemma gated_core: "core s = core t \<Longrightarrow> gated s = gated t"
  by (simp add: core_def)

lemma gated_upd_core: "(\<And>s. core (f s) = core s) \<Longrightarrow> keeping gated (upd f)"
  by (rule keeping_upd) (use gated_core in blast)

lemma gated_send [simp]: "gated (fst (sendMessage t p to s)) = gated s"
  using send_frame [of t p to s] by auto

lemma gated_conn_do [simp]: "gated (fst (conn_do e s)) = gated s"
  by (subst conn_do_frame) simp

named_theorems gating \<open>statements that keep the snapshot gate closed\<close>

lemmas gating_basic [gating] =
  keeping_skipS keeping_out keeping_ifS keeping_whenS keeping_thenS keeping_letS keeping_seqS keeping_forS

lemma gated_doSendJoin [simp]: "gated (fst (doSendJoin a p s)) = gated s"
  using doSendJoin_frame [of a p s] by auto

lemma gating_calls [gating]:
  "keeping gated (sendMessage t p to)" "keeping gated (conn_do e)" "keeping gated (doSendJoin a j)"
  by (simp_all add: keeping_def)

lemma gating_updates [gating]:
  "keeping gated (upd clearJoinTimers)" "keeping gated (upd (start_join roomId options))"
  "keeping gated (upd (\<lambda>s. s\<lparr> se_pendingJoin := p \<rparr>))" "keeping gated (upd (\<lambda>s. s\<lparr> se_error := err \<rparr>))"
  "keeping gated (upd (\<lambda>s. s\<lparr> se_joinKickstartTimer := None \<rparr>))"
  "keeping gated (upd (\<lambda>s. s\<lparr> se_joinRecoveryTimer := None \<rparr>))"
  "keeping gated (upd (\<lambda>s. s\<lparr> se_joinHardTimeout := None \<rparr>))"
  "keeping gated (upd (\<lambda>s. s\<lparr> se_joinKickstartTimer := k, se_joinRecoveryTimer := r, se_joinHardTimeout := h \<rparr>))"
  "keeping gated (upd (\<lambda>s. s\<lparr> se_turnGate := b \<rparr>))" "keeping gated (upd (\<lambda>s. s\<lparr> se_turnRefreshTimer := None \<rparr>))"
  "keeping gated (upd (\<lambda>s. s\<lparr> se_tokenRefreshTimer := None \<rparr>))" "keeping gated (upd (\<lambda>s. s\<lparr> se_gatesPending := f s \<rparr>))"
  "keeping gated (upd (\<lambda>s. s\<lparr> se_missedPongs := f s \<rparr>))" "keeping gated (upd (\<lambda>s. s\<lparr> se_needsRejoin := b \<rparr>))"
  "keeping gated (upd (\<lambda>s. s\<lparr> se_connecting := b \<rparr>))" "keeping gated (upd (\<lambda>s. s\<lparr> se_reconnectAttempts := n \<rparr>))"
  "keeping gated (upd (\<lambda>s. s\<lparr> se_sseSid := sid s \<rparr>))" "keeping gated (upd (install_transport env kind))"
  "keeping gated (upd (\<lambda>s. s\<lparr> se_transportIndex := n, se_connecting := b \<rparr>))"
  "keeping gated (upd (\<lambda>s. (clearJoinTimers s)\<lparr> se_error := err \<rparr>))"
  "keeping gated (upd (mark_closed kind))"
  by (auto intro!: keeping_upd simp: clearJoinTimers_def start_join_def install_transport_def mark_closed_def
      Let_def clearPingInterval_def clearTurnRefreshTimer_def clearReconnectTokenRefreshTimer_def)

lemma gating_joinRoom [gating]: "keeping gated (joinRoom roomId options)"
  unfolding joinRoom_def seqS.simps by (intro gating)

lemma gating_scheduleReconnect [gating]: "keeping gated scheduleReconnect"
  unfolding scheduleReconnect_def
  by (intro gating keeping_upd) (simp add: Let_def)

lemma gating_on_open [gating]: "keeping gated (on_open now kind)"
proof -
  have "keeping gated (upd (\<lambda>s. s\<lparr> se_connecting := False, se_reconnectAttempts := 0,
      se_wsConsecutiveFailures := f s \<rparr>))" for f by (rule keeping_upd) simp
  moreover have "keeping gated (upd (\<lambda>s. startPingInterval now (s\<lparr> se_isConnected := True,
      se_activeTransport := Some kind, se_connectedOnce := g s \<rparr>)))" for g
    by (rule keeping_upd) (simp add: startPingInterval_def clearPingInterval_def)
  ultimately show ?thesis
    unfolding on_open_def seqS.simps
    by (auto intro!: gating split: option.split prod.split bool.split)
qed

lemma gating_on_close:
  "(\<And>i. keeping gated (reconnect i)) \<Longrightarrow> keeping gated (on_close_with reconnect kind reason)"
  unfolding on_close_with_def after_close_def seqS.simps by (intro gating) auto

text \<open>A message reaches the engine only as the message event of the transport.\<close>

lemma message_signal:
  "SigMessage m \<in> set (signals_of (snd (transport_step t e))) \<Longrightarrow> e = TMessage (Some m)"
  by (cases e; cases "tp_kind t")
    (auto simp: transport_step_def ws_defs sse_defs transport_defs act_simps
      split: option.splits if_splits connect_outcome.splits)

lemma gated_incoming: "gated s \<Longrightarrow> \<not> gate_opener msg \<Longrightarrow> gated (fst (handleIncomingMessage now msg s))"
proof -
  assume g: "gated s" and n: "\<not> gate_opener msg"
  have joined: "gated (on_joined now msg s)"
  proof -
    have "core (on_joined now msg s) = core s \<or> core (on_joined now msg s) = core ((clearJoinTimers s)\<lparr> se_joinAcked := True \<rparr>)"
      using core_on_joined [of now msg s] by (cases "parseJoinedPayload (sg_payload msg)") auto
    then show ?thesis using g by (auto simp: core_def clearJoinTimers_def)
  qed
  have err: "gated (fst (error_received msg p s))" if "parseErrorPayload (sg_payload msg) = Some p" "sg_type msg = ''error''" for p
    using that g n
    by (auto simp: error_received_def letS_def gate_opener_def on_error_def announce_def thenS_def upd_def
        out_def skipS_def Let_def)
  show ?thesis
    using g n joined err gated_core [OF core_on_refreshed(1), of now msg s]
      gated_core [OF core_on_refreshed(2), of now msg s]
    by (auto simp: handleIncomingMessage_def Let_def announce_def thenS_def upd_def out_def skipS_def
        gate_opener_def on_room_state_def split: option.split)
qed

lemma gated_drive_with:
  assumes r: "\<And>i. keeping gated (reconnect i)" and g: "gated s"
    and n: "\<And>m. e = TMessage (Some m) \<Longrightarrow> \<not> gate_opener m"
  shows "gated (fst (drive_with reconnect env e s))"
proof (cases "se_conn s")
  case None
  with g show ?thesis by (simp add: drive_with_def letS_def thenS_def forS_def skipS_def Let_def)
next
  case (Some t)
  let ?sigs = "signals_of (snd (transport_step t e))"
  have g1: "gated (fst (conn_do e s))" using g by simp
  have "gated (fst (handle_signal_with reconnect env x (fst (conn_do e s))))" if "x \<in> set ?sigs" for x
  proof (cases x)
    case SigOpen
    then show ?thesis using keepingD [OF gating_on_open g1] by (simp add: handle_signal_with_def letS_def)
  next
    case (SigClose q)
    then show ?thesis using keepingD [OF gating_on_close [OF r] g1] by (simp add: handle_signal_with_def letS_def)
  next
    case (SigMessage m)
    then have "\<not> gate_opener m" using n message_signal that by blast
    with SigMessage gated_incoming [OF g1] show ?thesis by (simp add: handle_signal_with_def letS_def)
  qed
  moreover have "?sigs = [] \<or> (\<exists>x. ?sigs = [x])"
    using tp.one_signal [of t e] by (cases ?sigs) auto
  ultimately show ?thesis
    using g1 Some by (auto simp: drive_with_def letS_def thenS_def forS_def skipS_def Let_def)
qed

lemma gating_doConnect [gating]: "keeping gated (doConnect fuel env i)"
proof (induction fuel arbitrary: i)
  case (Suc fuel)
  have "keeping gated (drive_with (doConnect fuel env) env (TConnect oc))" for oc
    by (rule keepingI) (rule gated_drive_with [OF Suc.IH], simp_all)
  then show ?case unfolding doConnect.simps replace_transport_def try_connect_def seqS.simps by (intro gating)
qed (simp add: gating)

lemma gating_connectAt [gating]: "keeping gated (connectAt env i)"
  unfolding connectAt_def by (intro gating)

text \<open>C2: The gate on ICE restarts holds until it may open: once a connection is lost in a room, no event
  - a reopened transport, a \<open>joined\<close>, any other message, a timer - lowers the flag, except the first
  valid \<open>room_state\<close>, the end of the room, a terminal error, a leave or \<open>destroy()\<close>.\<close>

theorem snapshot_gate_holds:
  assumes "se_awaitingSnapshot s" and "e \<noteq> Destroy" and "\<And>b. e \<noteq> Leave b"
    and "\<And>c m. e = Sock c (TMessage (Some m)) \<Longrightarrow> \<not> gate_opener m"
  shows "se_awaitingSnapshot (fst (engine_step env e s))"
proof -
  have 1: "keeping gated (upd (\<lambda>s. case se_turnTokenExpiresAtMs s of None \<Rightarrow> s
      | Some expires \<Rightarrow> (let remainingMs = js_sub expires (Fin now) in
          if js_lt (Fin 0) remainingMs
          then scheduleTurnRefresh now (Some (js_scale TURN_REFRESH_TRIGGER_RATIO remainingMs)) s else s)))" for now
    by (rule gated_upd_core) (simp add: Let_def split: option.split)
  have 2: "keeping gated (upd (\<lambda>s. s\<lparr> se_reconnectTimeout := None, se_transportIndex := 0, se_connectedOnce := g \<rparr>))"
    "keeping gated (upd (\<lambda>s. s\<lparr> se_closedByDestroy := False, se_transportIndex := 0, se_connectedOnce := g \<rparr>))" for g
    by (auto intro!: keeping_upd)
  have 3: "keeping gated (drive env (TForceClose r))" for r
    unfolding drive_def by (rule keepingI) (rule gated_drive_with, auto intro: gating)
  show ?thesis
  proof (cases "\<exists>c ev. e = Sock c ev")
    case True
    then obtain c ev where e: "e = Sock c ev" by blast
    have "gated (fst (drive env ev s))"
      unfolding drive_def by (rule gated_drive_with) (use assms(1,4) e in \<open>auto intro: gating\<close>)
    with assms(1) e show ?thesis by (simp add: whenS_def ifS_def skipS_def)
  next
    case False
    with assms(2,3) have "keeping gated (engine_step env e)"
      by (cases e) (auto intro!: 1 2 3 gating split: option.split
          simp: endRoom_def watchRooms_def clearError_def connect_engine_def join_kickstart_def
            join_recovery_def join_hard_timeout_def reconnect_fired_def ping_tick_def turn_timer_fired_def
            turn_gate_answered_def token_timer_fired_def send_turn_refresh_def Let_def)
    then show ?thesis using assms(1) by (rule keepingD)
  qed
qed

theorem snapshot_gate_holds_witness:
  "se_awaitingSnapshot (fst (engine_step sample_env (Sock 0 (TMessage (Some sample_joined)))
     (open_sample\<lparr> se_awaitingSnapshot := True \<rparr>)))"
  by (rule snapshot_gate_holds) (simp_all add: gate_opener_def sample_joined_def)

section \<open>Rejoining after a lost connection\<close>


lemma mark_closed_fields:
  "se_currentRoomId (mark_closed k s) = se_currentRoomId s" "se_clientId (mark_closed k s) = se_clientId s"
  "se_reconnectToken (mark_closed k s) = se_reconnectToken s"
  "se_reconnectTokenRoomId (mark_closed k s) = se_reconnectTokenRoomId s"
  "se_pendingJoin (mark_closed k s) = se_pendingJoin s" "se_isConnected (mark_closed k s) = False"
  "se_closedByDestroy (mark_closed k s) = se_closedByDestroy s" "se_attached (mark_closed k s) = False"
  "se_needsRejoin (mark_closed k s) = has_text (se_currentRoomId s)"
  "se_connecting (mark_closed k s) = se_connecting s" "se_transportId (mark_closed k s) = se_transportId s"
  "se_transportOrder (mark_closed k s) = se_transportOrder s"
  "se_reconnectTimeout (mark_closed k s) = se_reconnectTimeout s"
  "se_reconnectAttempts (mark_closed k s) = se_reconnectAttempts s"
  "has_text (se_currentRoomId s) \<Longrightarrow> se_awaitingSnapshot (mark_closed k s)"
  by (simp_all add: mark_closed_def Let_def clearPingInterval_def clearTurnRefreshTimer_def
      clearReconnectTokenRefreshTimer_def)








section \<open>The connect fuel is enough\<close>

text \<open>A nested connect has a larger index; past the end of the order the statement does nothing.\<close>

lemma doConnect_past_end: "length (se_transportOrder s) \<le> i \<Longrightarrow> doConnect fuel env i s = (s, [])"
  by (cases fuel) (simp_all add: ifS_def skipS_def)

lemma after_close_cong:
  assumes "\<And>s'. se_transportOrder s' = se_transportOrder s \<Longrightarrow>
             f (se_transportIndex s + 1) s' = g (se_transportIndex s + 1) s'"
  shows "after_close f k r s = after_close g k r s"
  using assms [of "s\<lparr> se_reconnectAttempts := 0 \<rparr>"]
  by (simp add: after_close_def ifS_def letS_def thenS_def upd_def Let_def)

lemma mark_closed_index: "se_transportIndex (mark_closed k s) = se_transportIndex s"
  by (simp add: mark_closed_def Let_def clearPingInterval_def clearTurnRefreshTimer_def
      clearReconnectTokenRefreshTimer_def)

lemma on_close_cong:
  assumes "\<And>s'. se_transportOrder s' = se_transportOrder s \<Longrightarrow>
             f (se_transportIndex s + 1) s' = g (se_transportIndex s + 1) s'"
  shows "on_close_with f k r s = on_close_with g k r s"
proof -
  have "after_close f k r (mark_closed k (s\<lparr> se_connecting := False \<rparr>))
      = after_close g k r (mark_closed k (s\<lparr> se_connecting := False \<rparr>))"
    using assms by (intro after_close_cong) (simp add: mark_closed_fields mark_closed_index)
  then show ?thesis by (simp add: on_close_with_def ifS_def thenS_def upd_def skipS_def Let_def)
qed

lemma drive_connect_cong:
  assumes "\<And>s'. se_transportOrder s' = se_transportOrder s \<Longrightarrow>
             f (se_transportIndex s + 1) s' = g (se_transportIndex s + 1) s'"
  shows "drive_with f env (TConnect oc) s = drive_with g env (TConnect oc) s"
proof (cases "se_conn s")
  case None
  then show ?thesis by (simp add: drive_with_def letS_def forS_def)
next
  case (Some t)
  let ?sigs = "signals_of (snd (transport_step t (TConnect oc)))"
  have sigs: "?sigs = [] \<or> ?sigs = [SigClose ''unsupported'']"
    by (cases "tp_kind t"; cases oc) (auto simp: transport_step_def ws_defs sse_defs act_simps)
  have "se_transportOrder (fst (conn_do (TConnect oc) s)) = se_transportOrder s"
    "se_transportIndex (fst (conn_do (TConnect oc) s)) = se_transportIndex s"
    by (simp_all add: conn_do_def Some Let_def)
  then have "on_close_with f k r (fst (conn_do (TConnect oc) s)) = on_close_with g k r (fst (conn_do (TConnect oc) s))" for k r
    using assms by (intro on_close_cong) simp
  with sigs Some show ?thesis
    by (auto simp: drive_with_def letS_def forS_def thenS_def skipS_def handle_signal_with_def Let_def)
qed

lemma doConnect_enough:
  "length (se_transportOrder s) \<le> i + n \<Longrightarrow> n \<le> m \<Longrightarrow> doConnect m env i s = doConnect n env i s"
proof (induction n arbitrary: i m s)
  case 0
  then show ?case by (simp add: doConnect_past_end skipS_def)
next
  case (Suc n)
  then obtain m' where m: "m = Suc m'" "n \<le> m'" by (cases m) auto
  have same: "drive_with (doConnect m' env) env (TConnect oc) s1 = drive_with (doConnect n env) env (TConnect oc) s1"
    if "se_transportOrder s1 = se_transportOrder s" "se_transportIndex s1 = i" for s1 oc
    by (rule drive_connect_cong) (use that Suc.prems m(2) in \<open>auto intro!: Suc.IH\<close>)
  show ?case
  proof (cases "se_closedByDestroy s \<or> se_connecting s \<or> length (se_transportOrder s) \<le> i")
    case True
    then show ?thesis by (auto simp: m ifS_def skipS_def)
  next
    case False
    define s0 where "s0 = s\<lparr> se_transportIndex := i, se_connecting := True \<rparr>"
    define closing where "closing = whenS se_attached
        (seqS [upd (\<lambda>s. s\<lparr> se_sseSid := coalesce (Option.bind (se_conn s) getSessionId) (se_sseSid s) \<rparr>),
               conn_do TCloseCall])"
    have c: "se_transportOrder (fst (closing s0)) = se_transportOrder s" "se_transportIndex (fst (closing s0)) = i"
      by (simp_all add: closing_def s0_def whenS_def ifS_def thenS_def upd_def skipS_def conn_do_def Let_def
          split: option.split)
    have tc: "try_connect (doConnect m' env) env kind (install_transport env kind (fst (closing s0)))
        = try_connect (doConnect n env) env kind (install_transport env kind (fst (closing s0)))" for kind
      unfolding try_connect_def ifS_def
      by (simp add: same c install_transport_def)
    have "replace_transport (doConnect m' env) env kind i s = replace_transport (doConnect n env) env kind i s" for kind
      unfolding replace_transport_def closing_def [symmetric]
      by (simp add: thenS_def upd_def s0_def [symmetric] tc skipS_def Let_def)
    then show ?thesis by (simp add: m ifS_def letS_def)
  qed
qed

text \<open>C35: Falling back through the transports terminates: the reconnections nested in one connect try each
  transport of the order at most once, so the bound of \<open>connectAt\<close> is never reached and any more
  fuel gives the same state and the same effects.\<close>

theorem connectAt_enough:
  "doConnect (Suc (length (se_transportOrder s)) + k) env i s = connectAt env i s"
  unfolding connectAt_def letS_def by (rule doConnect_enough) simp_all

end
