(* ===== verification/Room_Watcher.thy ===== *)
theory Room_Watcher
  imports Engine_Proofs
begin

text \<open>
  The room watcher of \<^verbatim>\<open>client/packages/core/src/RoomWatcher.ts\<close>: the client of the signaling engine
  that watches the occupancy of rooms. A call on the engine runs to its end; then each state-change
  notification it raised runs the watcher's callback. Listeners are identified by numbers.
\<close>

record watcher_snapshot =
  ws_isConnected :: bool
  ws_activeTransport :: "transport_kind option"
  ws_roomStatuses :: room_statuses

record watcher =
  rw_engine :: engine
  rw_listeners :: "nat list"
  rw_watched :: "string list"
  rw_hasConnected :: bool
  rw_stopped :: bool
  rw_wasConnected :: bool

datatype watcher_effect =
    OfEngine engine_effect
  | Tell nat watcher_snapshot

type_synonym watcher_act = "(watcher, watcher_effect) act"

definition filterRoomStatuses :: "room_statuses \<Rightarrow> string list \<Rightarrow> room_statuses" where
  "filterRoomStatuses roomStatuses watchedRoomIds =
     (if watchedRoomIds = [] then []
      else filter (\<lambda>e. fst e \<in> set watchedRoomIds) roomStatuses)"

definition snapshot :: "watcher \<Rightarrow> watcher_snapshot" where
  "snapshot w =
     \<lparr> ws_isConnected = (\<not> rw_stopped w \<and> se_isConnected (rw_engine w)),
       ws_activeTransport = (if rw_stopped w then None else se_activeTransport (rw_engine w)),
       ws_roomStatuses = filterRoomStatuses (se_roomStatuses (rw_engine w)) (rw_watched w) \<rparr>"

definition notify_listeners :: watcher_act where
  "notify_listeners = outs (\<lambda>w. map (\<lambda>l. Tell l (snapshot w)) (rw_listeners w))"

text \<open>A call on the engine whose notifications, if any, are not for the watcher.\<close>

definition engine_call :: "engine_act \<Rightarrow> watcher_act" where
  "engine_call a w =
     (let r = a (rw_engine w) in (w\<lparr> rw_engine := fst r \<rparr>, map OfEngine (snd r)))"

definition on_engine_change :: watcher_act where
  "on_engine_change =
     letS (\<lambda>w. se_isConnected (rw_engine w)) (\<lambda>nowConnected.
     seqS
       [whenS (\<lambda>w. nowConnected \<and> \<not> rw_wasConnected w \<and> rw_watched w \<noteq> [])
          (letS rw_watched (\<lambda>rids. engine_call (watchRooms rids))),
        upd (\<lambda>w. w\<lparr> rw_wasConnected := nowConnected \<rparr>),
        notify_listeners])"

definition notifications :: "engine_effect list \<Rightarrow> nat" where
  "notifications es = length (filter (\<lambda>e. e = NotifyState) es)"

text \<open>A call on the engine while the watcher is subscribed to it.\<close>

definition engine_do :: "engine_act \<Rightarrow> watcher_act" where
  "engine_do a =
     letS (\<lambda>w. notifications (snd (a (rw_engine w)))) (\<lambda>n.
     seqS [engine_call a, forS (replicate n ()) (\<lambda>_. on_engine_change)])"

definition subscribe :: "nat \<Rightarrow> watcher_act" where
  "subscribe l =
     seqS [upd (\<lambda>w. w\<lparr> rw_listeners := set_add l (rw_listeners w) \<rparr>), out (\<lambda>w. Tell l (snapshot w))]"

definition unsubscribe :: "nat \<Rightarrow> watcher_act" where
  "unsubscribe l = upd (\<lambda>w. w\<lparr> rw_listeners := filter (\<lambda>k. k \<noteq> l) (rw_listeners w) \<rparr>)"

definition watch_rooms :: "engine_env \<Rightarrow> string list \<Rightarrow> watcher_act" where
  "watch_rooms env roomIds =
     ifS rw_stopped skipS
       (seqS
         [upd (\<lambda>w. w\<lparr> rw_watched := set_of (filter (\<lambda>r. r \<noteq> []) roomIds) \<rparr>),
          notify_listeners,
          ifS (\<lambda>w. rw_watched w = [])
            (whenS (\<lambda>w. rw_hasConnected w \<and> se_isConnected (rw_engine w)) (engine_do (watchRooms [])))
            (ifS (\<lambda>w. \<not> rw_hasConnected w)
              (seqS [upd (\<lambda>w. w\<lparr> rw_hasConnected := True \<rparr>), engine_do (connect_engine env)])
              (whenS (\<lambda>w. se_isConnected (rw_engine w))
                (letS rw_watched (\<lambda>rids. engine_do (watchRooms rids)))))])"

definition stop :: watcher_act where
  "stop =
     ifS rw_stopped skipS
       (seqS
         [upd (\<lambda>w. w\<lparr> rw_stopped := True, rw_watched := [] \<rparr>),
          engine_call destroy,
          notify_listeners,
          upd (\<lambda>w. w\<lparr> rw_listeners := [] \<rparr>)])"

text \<open>The engine's own events: its sockets and timers. A stopped watcher no longer listens.\<close>

definition engine_event :: "engine_env \<Rightarrow> engine_event \<Rightarrow> watcher_act" where
  "engine_event env e =
     ifS rw_stopped (engine_call (engine_step env e)) (engine_do (engine_step env e))"

datatype watcher_event =
    Subscribe nat
  | Unsubscribe nat
  | Watch engine_env "string list"
  | Stop
  | FromEngine engine_env engine_event

fun watcher_step :: "watcher \<Rightarrow> watcher_event \<Rightarrow> watcher \<times> watcher_effect list" where
  "watcher_step w (Subscribe l) = subscribe l w"
| "watcher_step w (Unsubscribe l) = unsubscribe l w"
| "watcher_step w (Watch env rids) = watch_rooms env rids w"
| "watcher_step w Stop = stop w"
| "watcher_step w (FromEngine env e) = whenS (\<lambda>_. is_environment e) (engine_event env e) w"

definition new_watcher :: "transport_kind list option \<Rightarrow> watcher" where
  "new_watcher transports =
     \<lparr> rw_engine = new_engine \<lparr> ec_transports = transports, ec_videoMediaEnabled = None,
                                ec_independentContentVideo = None \<rparr> 0 True [] None,
       rw_listeners = [], rw_watched = [], rw_hasConnected = False, rw_stopped = False,
       rw_wasConnected = False \<rparr>"

section \<open>The invariant of the watcher\<close>

definition watcher_inv :: "watcher \<Rightarrow> bool" where
  "watcher_inv w =
     (engine_inv (rw_engine w) \<and>
      (rw_stopped w \<longrightarrow> dead (rw_engine w) \<and> rw_watched w = []) \<and>
      distinct (rw_watched w) \<and> [] \<notin> set (rw_watched w))"

text \<open>The invariant while the watcher runs: the calls keep the engine's invariant.\<close>

definition running :: "watcher \<Rightarrow> bool" where
  "running w = (watcher_inv w \<and> \<not> rw_stopped w)"

lemma keep_engine_call:
  "(\<And>s. engine_inv s \<Longrightarrow> engine_inv (fst (a s))) \<Longrightarrow> keeping running (engine_call a)"
  by (rule keepingI) (simp add: engine_call_def running_def watcher_inv_def Let_def)

lemma send_engine_inv: "engine_inv s \<Longrightarrow> engine_inv (fst (watchRooms rids s))"
  using engine_inv_step [of s _ "WatchRooms rids"] by simp

lemma keep_on_engine_change [keeps]: "keeping running on_engine_change"
proof -
  have "keeping running (upd (\<lambda>w. w\<lparr> rw_wasConnected := b \<rparr>))" for b
    by (rule keeping_upd) (simp add: running_def watcher_inv_def)
  moreover have "keeping running (engine_call (watchRooms rids))" for rids
    by (rule keep_engine_call) (rule send_engine_inv)
  ultimately show ?thesis
    unfolding on_engine_change_def notify_listeners_def by (auto intro!: keeps)
qed

lemma keep_engine_do:
  "(\<And>s. engine_inv s \<Longrightarrow> engine_inv (fst (a s))) \<Longrightarrow> keeping running (engine_do a)"
  unfolding engine_do_def by (auto intro!: keeps keep_engine_call)

lemma engine_inv_connect: "engine_inv s \<Longrightarrow> engine_inv (fst (connect_engine env s))"
  using engine_inv_step [of s env Connect] by simp

lemma running_watch_rooms: "running w \<Longrightarrow> running (fst (watch_rooms env roomIds w))"
proof (rule keepingD [of running])
  have "keeping running (upd (\<lambda>w. w\<lparr> rw_watched := set_of (filter (\<lambda>r. r \<noteq> []) roomIds) \<rparr>))"
    by (rule keeping_upd) (simp add: running_def watcher_inv_def)
  moreover have "keeping running (upd (\<lambda>w. w\<lparr> rw_hasConnected := True \<rparr>))"
    by (rule keeping_upd) (simp add: running_def watcher_inv_def)
  ultimately show "keeping running (watch_rooms env roomIds)"
    unfolding watch_rooms_def notify_listeners_def
    by (auto intro!: keeps keep_engine_do send_engine_inv engine_inv_connect)
qed

lemma watcher_inv_step: "watcher_inv w \<Longrightarrow> watcher_inv (fst (watcher_step w e))"
proof -
  assume inv: "watcher_inv w"
  show ?thesis
  proof (cases e)
    case (Watch env rids)
    show ?thesis
    proof (cases "rw_stopped w")
      case True
      with Watch inv show ?thesis by (simp add: watch_rooms_def ifS_def skipS_def)
    next
      case False
      with inv have "running (fst (watch_rooms env rids w))"
        by (intro running_watch_rooms) (simp add: running_def)
      with Watch show ?thesis by (simp add: running_def)
    qed
  next
    case Stop
    have "dead (fst (destroy (rw_engine w)))"
      using inv by (intro dies_destroy) (auto simp: watcher_inv_def engine_inv_def live_def dead_def)
    then show ?thesis
      using inv Stop by (auto simp: stop_def act_simps engine_call_def notify_listeners_def
          watcher_inv_def engine_inv_def)
  next
    case (FromEngine env ev)
    show ?thesis
    proof (cases "is_environment ev")
      case True
      then have "ev \<noteq> Connect" by auto
      show ?thesis
      proof (cases "rw_stopped w")
        case True
        with inv have "dead (fst (engine_step env ev (rw_engine w)))"
          using muted_step [OF \<open>ev \<noteq> Connect\<close>] by (simp add: watcher_inv_def muted_def stays_dead_def)
        with True inv FromEngine show ?thesis
          by (simp add: whenS_def ifS_def skipS_def engine_event_def engine_call_def watcher_inv_def
              engine_inv_def Let_def)
      next
        case False
        have "keeping running (engine_do (engine_step env ev))"
          by (rule keep_engine_do) (rule engine_inv_step)
        with False inv have "running (fst (engine_do (engine_step env ev) w))"
          by (intro keepingD [of running]) (simp_all add: running_def)
        with False FromEngine show ?thesis
          using inv by (simp add: whenS_def ifS_def skipS_def engine_event_def running_def)
      qed
    next
      case False
      with inv FromEngine show ?thesis by (simp add: whenS_def ifS_def skipS_def)
    qed
  qed (use inv in \<open>auto simp: subscribe_def unsubscribe_def act_simps watcher_inv_def\<close>)
qed

interpretation watcher: reactive watcher_step watcher_inv
  by unfold_locales (rule watcher_inv_step)

section \<open>Properties\<close>

definition watcher_after :: "transport_kind list option \<Rightarrow> watcher_event list \<Rightarrow> watcher" where
  "watcher_after transports es = fst (run watcher_step (new_watcher transports) es)"

lemma watcher_after_inv: "watcher_inv (watcher_after transports es)"
  unfolding watcher_after_def
  by (rule watcher.run_inv) (simp add: new_watcher_def watcher_inv_def engine_inv_def new_engine_live)

lemma map_of_filter_fst: "map_of (filter (\<lambda>e. fst e \<in> A) m) k = (if k \<in> A then map_of m k else None)"
  by (induction m) auto

text \<open>In every run of the room watcher the statuses it shows are those the engine knows, restricted to
  the rooms being watched, and the watch list holds every room once and no empty id.\<close>

theorem watcher_shows_watched_rooms:
  "map_of (ws_roomStatuses (snapshot (watcher_after transports es))) rid =
     (if rid \<in> set (rw_watched (watcher_after transports es))
      then map_of (se_roomStatuses (rw_engine (watcher_after transports es))) rid else None) \<and>
   distinct (rw_watched (watcher_after transports es)) \<and> [] \<notin> set (rw_watched (watcher_after transports es))"
  using watcher_after_inv [of transports es]
  by (simp add: snapshot_def filterRoomStatuses_def watcher_inv_def map_of_filter_fst)

fun muffled :: "watcher_effect \<Rightarrow> bool" where
  "muffled (OfEngine e) = quiet_effect e"
| "muffled (Tell _ s) = (\<not> ws_isConnected s \<and> ws_activeTransport s = None \<and> ws_roomStatuses s = [])"

lemma stopped_snapshot: "watcher_inv w \<Longrightarrow> rw_stopped w \<Longrightarrow> muffled (Tell l (snapshot w))"
  by (simp add: snapshot_def watcher_inv_def filterRoomStatuses_def)

lemma stopped_step:
  "watcher_inv w \<Longrightarrow> rw_stopped w \<Longrightarrow>
   rw_stopped (fst (watcher_step w e)) \<and> list_all muffled (snd (watcher_step w e))"
proof (cases e)
  case (Subscribe l)
  assume w: "watcher_inv w" "rw_stopped w"
  then have "muffled (Tell l (snapshot (w\<lparr> rw_listeners := set_add l (rw_listeners w) \<rparr>)))"
    by (intro stopped_snapshot) (simp_all add: watcher_inv_def)
  with w Subscribe show ?thesis by (simp add: subscribe_def act_simps)
next
  case (FromEngine env ev)
  assume w: "watcher_inv w" "rw_stopped w"
  show ?thesis
  proof (cases "is_environment ev")
    case True
    then have "ev \<noteq> Connect" by auto
    from muted_step [OF this] w have "list_all quiet_effect (snd (engine_step env ev (rw_engine w)))"
      by (simp add: watcher_inv_def muted_def stays_dead_def)
    with w FromEngine True show ?thesis
      by (simp add: whenS_def ifS_def engine_event_def engine_call_def Let_def list_all_iff)
  next
    case False
    with w FromEngine show ?thesis by (simp add: whenS_def ifS_def skipS_def)
  qed
qed (auto simp: unsubscribe_def watch_rooms_def stop_def act_simps)

lemma stopped_run:
  "watcher_inv w \<Longrightarrow> rw_stopped w \<Longrightarrow> list_all muffled (snd (run watcher_step w es))"
  by (induction es arbitrary: w) (simp_all add: Let_def stopped_step watcher_inv_step)

text \<open>A stopped watcher stays stopped: whatever its engine's sockets and timers still do and whatever is
  called, it opens no socket, sends and delivers no message, and whoever asks sees it disconnected with
  no statuses.\<close>

theorem stopped_watcher_is_silent:
  "list_all muffled (snd (run watcher_step (fst (stop (watcher_after transports es))) later))"
proof (rule stopped_run)
  show "watcher_inv (fst (stop (watcher_after transports es)))"
    using watcher_inv_step [OF watcher_after_inv, of transports es Stop] by simp
  show "rw_stopped (fst (stop (watcher_after transports es)))"
    by (simp add: stop_def act_simps engine_call_def notify_listeners_def)
qed

end
