(* ===== verification/Server_Provider.thy ===== *)
theory Server_Provider
  imports Engine_Proofs
begin

text \<open>
  The server provider of \<^verbatim>\<open>client/packages/core/src/SerenadaServerProvider.ts\<close> with the events of
  \<^verbatim>\<open>client/packages/core/src/SignalingProvider.ts\<close>: it turns the engine's notifications and messages
  into the session's events and refreshes the ICE servers. A call on the engine runs to its end; then
  the provider's callbacks run on what it raised, in order. The credentials request is the
  environment: its result comes in as an event of the refresh that asked for it.
\<close>

section \<open>Events\<close>

record provider_participant =
  pp_peerId :: string
  pp_joinedAt :: "jsnum option"
  pp_displayName :: "string option"
  pp_appPeerId :: "string option"
  pp_audioEnabled :: "bool option"
  pp_videoEnabled :: "bool option"
  pp_connectionStatus :: "connection_status option"
  pp_capabilities :: "capabilities option"
  pp_mediaPolicy :: "media_policy option"
  pp_contentState :: "content_state option"

record joined_event =
  je_peerId :: string
  je_participants :: "provider_participant list"
  je_hostPeerId :: "string option"
  je_maxParticipants :: "jsnum option"

record room_state_event =
  re_participants :: "provider_participant list"
  re_hostPeerId :: "string option"
  re_maxParticipants :: "jsnum option"

record peer_message =
  pm_from :: string
  pm_type :: string
  pm_payload :: json
  pm_sid :: "string option"

record ice_server =
  is_urls :: "string list"
  is_username :: "string option"
  is_credential :: "string option"

datatype provider_event =
    EvConnected "transport_kind option"
  | EvDisconnected
  | EvJoined joined_event
  | EvRoomStateUpdated room_state_event
  | EvPeerJoined provider_participant
  | EvPeerLeft provider_participant
  | EvMessage peer_message
  | EvRoomEnded string "string option"
  | EvError error_payload
  | EvIceServersChanged "ice_server list"
  | EvNegotiationDirty string
  | EvRelayFailed relay_failed_payload

section \<open>State\<close>

text \<open>A refresh in progress: its generation, the retry delays still to come, and whether it is fetching.\<close>

record refresh_task =
  rf_generation :: nat
  rf_delays :: "int list"
  rf_fetching :: bool

record provider =
  sp_engine :: engine
  sp_lastConnected :: bool
  sp_turnToken :: "string option"
  sp_participants :: "(string \<times> provider_participant) list"
  sp_hostPeerId :: "string option"
  sp_disconnected :: bool
  sp_generation :: nat
  sp_refreshes :: "(nat \<times> refresh_task) list"
  sp_nextRefresh :: nat

datatype provider_effect =
    FromEng engine_effect
  | Emit provider_event
  | Sleep nat int
  | FetchCredentials nat string

type_synonym provider_act = "(provider, provider_effect) act"

abbreviation emit :: "provider_event \<Rightarrow> provider_act" where
  "emit e \<equiv> out (\<lambda>_. Emit e)"

section \<open>Helpers\<close>

definition mapParticipant :: "room_participant \<Rightarrow> provider_participant" where
  "mapParticipant p =
     \<lparr> pp_peerId = rp_cid p, pp_joinedAt = rp_joinedAt p, pp_displayName = rp_displayName p,
       pp_appPeerId = rp_peerId p, pp_audioEnabled = rp_audioEnabled p, pp_videoEnabled = rp_videoEnabled p,
       pp_connectionStatus = rp_connectionStatus p, pp_capabilities = rp_capabilities p,
       pp_mediaPolicy = rp_mediaPolicy p, pp_contentState = rp_contentState p \<rparr>"

definition toParticipantMap :: "provider_participant list \<Rightarrow> (string \<times> provider_participant) list" where
  "toParticipantMap ps = fold (\<lambda>p. AList.update (pp_peerId p) p) ps []"

text \<open>\<open>None\<close> is \<open>undefined\<close>; a value that is not a plain object is wrapped.\<close>

definition toRecordPayload :: "json option \<Rightarrow> json option" where
  "toRecordPayload payload =
     (case payload of
        None \<Rightarrow> None
      | Some (JObj kvs) \<Rightarrow> Some (JObj kvs)
      | Some v \<Rightarrow> Some (JObj [(''value'', v)]))"

definition roomEndedBy :: "json option \<Rightarrow> string option" where
  "roomEndedBy payload = as_nonblank (field payload ''by'')"

definition roomEndedReason :: "json option \<Rightarrow> string option" where
  "roomEndedReason payload = as_nonblank (field payload ''reason'')"

section \<open>Message handling\<close>

definition emitRoomEnded :: "json option \<Rightarrow> provider_act" where
  "emitRoomEnded payload =
     letS (\<lambda>p. truthy_string (coalesce (roomEndedBy payload) (sp_hostPeerId p))) (\<lambda>who.
       emit (EvRoomEnded (default ''room ended'' (roomEndedReason payload)) who))"

definition handleJoined :: "signaling_message \<Rightarrow> provider_act" where
  "handleJoined msg =
     (case (parseJoinedPayload (sg_payload msg), truthy_string (sg_cid msg)) of
        (Some payload, Some cid) \<Rightarrow>
          (let event = \<lparr> je_peerId = cid, je_participants = map mapParticipant (jp_participants payload),
                         je_hostPeerId = jp_hostCid payload, je_maxParticipants = jp_maxParticipants payload \<rparr>
           in seqS
             [upd (\<lambda>p. case truthy_string (jp_turnToken payload) of
                     Some t \<Rightarrow> p\<lparr> sp_turnToken := Some t \<rparr> | None \<Rightarrow> p),
              upd (\<lambda>p. p\<lparr> sp_hostPeerId := je_hostPeerId event,
                           sp_participants := toParticipantMap (je_participants event) \<rparr>),
              emit (EvJoined event)])
      | _ \<Rightarrow> skipS)"

definition emitParticipantDiffs ::
  "(string \<times> provider_participant) list \<Rightarrow> (string \<times> provider_participant) list \<Rightarrow> provider_act" where
  "emitParticipantDiffs previous next =
     seqS
       [forS next (\<lambda>e. whenS (\<lambda>_. \<not> map_has previous (fst e)) (emit (EvPeerJoined (snd e)))),
        forS previous (\<lambda>e. whenS (\<lambda>_. \<not> map_has next (fst e)) (emit (EvPeerLeft (snd e))))]"

definition handleRoomState :: "signaling_message \<Rightarrow> provider_act" where
  "handleRoomState msg =
     (case parseRoomStatePayload (sg_payload msg) of
        None \<Rightarrow> skipS
      | Some payload \<Rightarrow>
          (let nextState = \<lparr> re_participants = map mapParticipant (rs_participants payload),
                             re_hostPeerId = rs_hostCid payload, re_maxParticipants = rs_maxParticipants payload \<rparr>;
               nextMap = toParticipantMap (re_participants nextState)
           in seqS
             [upd (\<lambda>p. case as_string (field (sg_payload msg) ''turnToken'') of
                     Some t \<Rightarrow> p\<lparr> sp_turnToken := Some t \<rparr> | None \<Rightarrow> p),
              letS sp_participants (\<lambda>previous. emitParticipantDiffs previous nextMap),
              upd (\<lambda>p. p\<lparr> sp_participants := nextMap, sp_hostPeerId := re_hostPeerId nextState \<rparr>),
              emit (EvRoomStateUpdated nextState)]))"

definition emitPeerMessage :: "signaling_message \<Rightarrow> provider_act" where
  "emitPeerMessage msg =
     (case truthy_string (coalesce (as_string (field (sg_payload msg) ''from'')) (sg_cid msg)) of
        None \<Rightarrow> skipS
      | Some from \<Rightarrow>
          emit (EvMessage \<lparr> pm_from = from, pm_type = sg_type msg,
                            pm_payload = default (JObj []) (sg_payload msg),
                            pm_sid = truthy_string (sg_sid msg) \<rparr>))"

section \<open>Refreshing the ICE servers\<close>

text \<open>
  \<open>refreshIceServers\<close> is split at its awaits: the loop head (a delay to wait for, or the checks and
  the request), the continuation after a delay, and the continuation after the request. A refresh
  that returns is removed.
\<close>

definition finish_refresh :: "nat \<Rightarrow> provider_act" where
  "finish_refresh i = upd (\<lambda>p. p\<lparr> sp_refreshes := AList.delete i (sp_refreshes p) \<rparr>)"

definition stale :: "refresh_task \<Rightarrow> provider \<Rightarrow> bool" where
  "stale t p = (sp_disconnected p \<or> rf_generation t \<noteq> sp_generation p)"

text \<open>
  \<open>getIceServers\<close> up to its request: without a token it yields no servers at once, which the loop
  treats as a failed attempt.
\<close>

definition current_token :: "provider \<Rightarrow> string option" where
  "current_token p = truthy_string (map_option js_trim (sp_turnToken p))"

fun refresh_loop :: "nat \<Rightarrow> nat \<Rightarrow> int list \<Rightarrow> provider_act" where
  "refresh_loop i gen [] = finish_refresh i"
| "refresh_loop i gen (delayMs # rest) =
     (if 0 < delayMs
      then seqS
        [upd (\<lambda>p. p\<lparr> sp_refreshes := AList.update i
                \<lparr> rf_generation = gen, rf_delays = rest, rf_fetching = False \<rparr> (sp_refreshes p) \<rparr>),
         out (\<lambda>_. Sleep i delayMs)]
      else
        ifS (stale \<lparr> rf_generation = gen, rf_delays = rest, rf_fetching = False \<rparr>) (finish_refresh i)
          (letS current_token (\<lambda>token. case token of
             None \<Rightarrow> refresh_loop i gen rest
           | Some tk \<Rightarrow> seqS
               [upd (\<lambda>p. p\<lparr> sp_refreshes := AList.update i
                       \<lparr> rf_generation = gen, rf_delays = rest, rf_fetching = True \<rparr> (sp_refreshes p) \<rparr>),
                out (\<lambda>_. FetchCredentials i tk)])))"

definition after_sleep :: "nat \<Rightarrow> provider_act" where
  "after_sleep i =
     letS (\<lambda>p. map_of (sp_refreshes p) i) (\<lambda>t. case t of
       None \<Rightarrow> skipS
     | Some task \<Rightarrow>
         if rf_fetching task then skipS
         else ifS (stale task) (finish_refresh i)
           (letS current_token (\<lambda>token. case token of
              None \<Rightarrow> refresh_loop i (rf_generation task) (rf_delays task)
            | Some tk \<Rightarrow> seqS
                [upd (\<lambda>p. p\<lparr> sp_refreshes := AList.update i (task\<lparr> rf_fetching := True \<rparr>) (sp_refreshes p) \<rparr>),
                 out (\<lambda>_. FetchCredentials i tk)])))"

text \<open>The answer of the credentials API: a failed request, or the JSON it returned.\<close>

definition ice_servers_of :: "json option \<Rightarrow> ice_server list" where
  "ice_servers_of data =
     (let uris = (case field data ''uris'' of
                    Some (JArr us) \<Rightarrow> List.map_filter (\<lambda>u. as_nonblank (Some u)) us
                  | _ \<Rightarrow> [])
      in if uris = [] then []
         else [\<lparr> is_urls = uris, is_username = as_string (field data ''username''),
                 is_credential = as_string (field data ''password'') \<rparr>])"

definition after_fetch :: "nat \<Rightarrow> json option \<Rightarrow> provider_act" where
  "after_fetch i answer =
     letS (\<lambda>p. map_of (sp_refreshes p) i) (\<lambda>t. case t of
       None \<Rightarrow> skipS
     | Some task \<Rightarrow>
         if \<not> rf_fetching task then skipS
         else (case answer of
                 None \<Rightarrow> refresh_loop i (rf_generation task) (rf_delays task)
               | Some data \<Rightarrow>
                   ifS (stale task) (finish_refresh i)
                     (if ice_servers_of (Some data) = []
                      then refresh_loop i (rf_generation task) (rf_delays task)
                      else seqS [emit (EvIceServersChanged (ice_servers_of (Some data))), finish_refresh i])))"

definition refreshIceServers :: provider_act where
  "refreshIceServers =
     seqS
       [upd (\<lambda>p. p\<lparr> sp_generation := sp_generation p + 1, sp_nextRefresh := sp_nextRefresh p + 1 \<rparr>),
        letS (\<lambda>p. (sp_nextRefresh p, sp_generation p)) (\<lambda>(i, gen).
          refresh_loop i gen ICE_FETCH_RETRY_DELAYS_MS)]"

definition handleMessage :: "signaling_message \<Rightarrow> provider_act" where
  "handleMessage msg =
     (let type = sg_type msg; payload = sg_payload msg in
      if type = ''joined'' then handleJoined msg
      else if type = ''room_state'' then handleRoomState msg
      else if type = ''room_ended''
      then seqS [upd (\<lambda>p. p\<lparr> sp_participants := [] \<rparr>), emitRoomEnded payload]
      else if type = ''error''
      then (case parseErrorPayload payload of Some e \<Rightarrow> emit (EvError e) | None \<Rightarrow> skipS)
      else if type = ''turn-refreshed''
      then (case parseTurnRefreshedPayload payload of
              None \<Rightarrow> skipS
            | Some r \<Rightarrow> seqS [upd (\<lambda>p. p\<lparr> sp_turnToken := Some (tr_turnToken r) \<rparr>), refreshIceServers])
      else if type \<in> {''offer'', ''answer'', ''ice'', ''media_restart_request'', ''content_state'',
                      ''participant_media_state''} then emitPeerMessage msg
      else if type = ''negotiation_dirty''
      then (case parseNegotiationDirtyPayload payload of Some c \<Rightarrow> emit (EvNegotiationDirty c) | None \<Rightarrow> skipS)
      else if type = ''relay_failed''
      then (case parseRelayFailedPayload payload of Some f \<Rightarrow> emit (EvRelayFailed f) | None \<Rightarrow> skipS)
      else skipS)"

definition handleStateChange :: provider_act where
  "handleStateChange =
     letS (\<lambda>p. se_isConnected (sp_engine p)) (\<lambda>connected.
     ifS (\<lambda>p. connected = sp_lastConnected p) skipS
       (seqS
         [upd (\<lambda>p. p\<lparr> sp_lastConnected := connected \<rparr>),
          (if connected then out (\<lambda>p. Emit (EvConnected (se_activeTransport (sp_engine p))))
           else emit EvDisconnected)]))"

section \<open>The provider's operations\<close>

definition call_engine :: "engine_act \<Rightarrow> provider_act" where
  "call_engine a p = (let r = a (sp_engine p) in (p\<lparr> sp_engine := fst r \<rparr>, map FromEng (snd r)))"

definition react :: "engine_effect \<Rightarrow> provider_act" where
  "react e = (case e of NotifyState \<Rightarrow> handleStateChange | DeliverMessage m \<Rightarrow> handleMessage m | _ \<Rightarrow> skipS)"

text \<open>Once disconnected the provider is unsubscribed from the engine.\<close>

definition provider_do :: "engine_act \<Rightarrow> provider_act" where
  "provider_do a =
     letS (\<lambda>p. snd (a (sp_engine p))) (\<lambda>raised.
     seqS
       [call_engine a,
        forS raised (\<lambda>e. ifS sp_disconnected skipS (react e))])"

definition disconnect_provider :: provider_act where
  "disconnect_provider =
     ifS sp_disconnected skipS
       (seqS
         [upd (\<lambda>p. p\<lparr> sp_disconnected := True \<rparr>),
          provider_do destroy,
          upd (\<lambda>p. p\<lparr> sp_participants := [], sp_turnToken := None, sp_hostPeerId := None \<rparr>)])"

definition provider_joinRoom :: "string \<Rightarrow> join_options \<Rightarrow> provider_act" where
  "provider_joinRoom roomId options =
     seqS [upd (\<lambda>p. p\<lparr> sp_participants := [] \<rparr>), provider_do (joinRoom roomId options)]"

definition provider_leaveRoom :: provider_act where
  "provider_leaveRoom =
     seqS
       [upd (\<lambda>p. p\<lparr> sp_participants := [], sp_turnToken := None, sp_hostPeerId := None \<rparr>),
        provider_do (leaveRoom False)]"

definition sendToPeer :: "string \<Rightarrow> string \<Rightarrow> json option \<Rightarrow> provider_act" where
  "sendToPeer peerId type payload = provider_do (sendMessage type (toRecordPayload payload) (Some peerId))"

definition broadcast :: "string \<Rightarrow> json option \<Rightarrow> provider_act" where
  "broadcast type payload = provider_do (sendMessage type (toRecordPayload payload) None)"

datatype provider_input =
    PConnect engine_env
  | PDisconnect
  | PJoin string join_options
  | PLeave
  | PEnd
  | PSend string string "json option"
  | PBroadcast string "json option"
  | PSetGate bool
  | PEngine engine_env engine_event
  | PSlept nat
  | PFetched nat "json option"

fun provider_step :: "provider \<Rightarrow> provider_input \<Rightarrow> provider \<times> provider_effect list" where
  "provider_step p (PConnect env) = provider_do (connect_engine env) p"
| "provider_step p PDisconnect = disconnect_provider p"
| "provider_step p (PJoin roomId options) = provider_joinRoom roomId options p"
| "provider_step p PLeave = provider_leaveRoom p"
| "provider_step p PEnd = provider_do endRoom p"
| "provider_step p (PSend peer type payload) = sendToPeer peer type payload p"
| "provider_step p (PBroadcast type payload) = broadcast type payload p"
| "provider_step p (PSetGate b) = provider_do (upd (\<lambda>s. s\<lparr> se_turnGate := b \<rparr>)) p"
| "provider_step p (PEngine env e) = whenS (\<lambda>_. is_environment e) (provider_do (engine_step env e)) p"
| "provider_step p (PSlept i) = after_sleep i p"
| "provider_step p (PFetched i answer) = after_fetch i answer p"

definition new_provider :: "engine_config \<Rightarrow> provider" where
  "new_provider cfg =
     \<lparr> sp_engine = new_engine cfg 0 True [] None, sp_lastConnected = False, sp_turnToken = None,
       sp_participants = [], sp_hostPeerId = None, sp_disconnected = False, sp_generation = 0,
       sp_refreshes = [], sp_nextRefresh = 0 \<rparr>"

section \<open>The invariant of the provider\<close>

text \<open>The keyed values of a participant map carry their key.\<close>

definition keyed :: "(string \<times> provider_participant) list \<Rightarrow> bool" where
  "keyed m = (\<forall>e \<in> set m. pp_peerId (snd e) = fst e)"

lemma keyed_update: "keyed m \<Longrightarrow> keyed (AList.update (pp_peerId q) q m)"
  using set_AList_update [of "pp_peerId q" q m] by (auto simp: keyed_def)

lemma keyed_fold: "keyed m \<Longrightarrow> keyed (fold (\<lambda>p. AList.update (pp_peerId p) p) ps m)"
  by (induction ps arbitrary: m) (simp_all add: keyed_update)

lemma keyed_Nil: "keyed []"
  by (simp add: keyed_def)

lemma keyed_map: "keyed (toParticipantMap ps)"
  unfolding toParticipantMap_def by (rule keyed_fold) (simp add: keyed_def)

definition provider_inv :: "provider \<Rightarrow> bool" where
  "provider_inv p =
     (engine_inv (sp_engine p) \<and> distinct (map fst (sp_participants p)) \<and> keyed (sp_participants p))"

lemma toParticipantMap_distinct: "distinct (map fst (toParticipantMap ps))"
  unfolding toParticipantMap_def by (rule js_map.put_all_wf) simp

lemma inv_frame:
  "provider_inv (p\<lparr> sp_turnToken := a \<rparr>) = provider_inv p" "provider_inv (p\<lparr> sp_hostPeerId := a \<rparr>) = provider_inv p"
  "provider_inv (p\<lparr> sp_refreshes := r \<rparr>) = provider_inv p" "provider_inv (p\<lparr> sp_lastConnected := b \<rparr>) = provider_inv p"
  "provider_inv (p\<lparr> sp_generation := n, sp_nextRefresh := m \<rparr>) = provider_inv p"
  "provider_inv (p\<lparr> sp_disconnected := b \<rparr>) = provider_inv p"
  by (simp_all add: provider_inv_def)

lemma keep_frames [keeps]:
  "keeping provider_inv (upd (\<lambda>p. p\<lparr> sp_turnToken := Some t \<rparr>))"
  "keeping provider_inv (upd (\<lambda>p. case x of Some t \<Rightarrow> p\<lparr> sp_turnToken := Some t \<rparr> | None \<Rightarrow> p))"
  "keeping provider_inv (upd (\<lambda>p. p\<lparr> sp_refreshes := f p \<rparr>))"
  "keeping provider_inv (upd (\<lambda>p. p\<lparr> sp_lastConnected := b \<rparr>))"
  "keeping provider_inv (upd (\<lambda>p. p\<lparr> sp_generation := Suc (sp_generation p), sp_nextRefresh := Suc (sp_nextRefresh p) \<rparr>))"
  "keeping provider_inv (upd (\<lambda>p. p\<lparr> sp_disconnected := b \<rparr>))"
  "keeping provider_inv (upd (\<lambda>p. p\<lparr> sp_participants := [] \<rparr>))"
  "keeping provider_inv (upd (\<lambda>p. p\<lparr> sp_participants := [], sp_turnToken := None, sp_hostPeerId := None \<rparr>))"
  "keeping provider_inv (upd (\<lambda>p. p\<lparr> sp_hostPeerId := h, sp_participants := toParticipantMap ps \<rparr>))"
  "keeping provider_inv (upd (\<lambda>p. p\<lparr> sp_participants := toParticipantMap ps, sp_hostPeerId := h \<rparr>))"
  by (auto intro!: keeping_upd simp: provider_inv_def toParticipantMap_distinct keyed_map keyed_Nil split: option.split)

lemma keep_refresh_loop [keeps]: "keeping provider_inv (refresh_loop i gen ds)"
proof (induction ds)
  case (Cons d ds)
  then show ?case
    unfolding refresh_loop.simps finish_refresh_def by (auto intro!: keeps split: option.split)
qed (simp add: finish_refresh_def keeps)

lemma keep_refresh [keeps]:
  "keeping provider_inv (after_sleep i)" "keeping provider_inv (after_fetch i answer)"
  "keeping provider_inv refreshIceServers"
  unfolding after_sleep_def after_fetch_def refreshIceServers_def finish_refresh_def
  by (auto intro!: keeps split: option.split)

lemma keep_handleMessage [keeps]: "keeping provider_inv (handleMessage msg)"
  unfolding handleMessage_def handleJoined_def handleRoomState_def emitRoomEnded_def emitPeerMessage_def
    emitParticipantDiffs_def Let_def
  by (auto intro!: keeps split: option.split)

lemma keep_handleStateChange [keeps]: "keeping provider_inv handleStateChange"
  unfolding handleStateChange_def by (auto intro!: keeps)

lemma keep_react [keeps]: "keeping provider_inv (react e)"
  unfolding react_def by (auto intro!: keeps split: engine_effect.split)

lemma keep_provider_do:
  "(\<And>s. engine_inv s \<Longrightarrow> engine_inv (fst (a s))) \<Longrightarrow> keeping provider_inv (provider_do a)"
proof -
  assume "\<And>s. engine_inv s \<Longrightarrow> engine_inv (fst (a s))"
  then have "keeping provider_inv (call_engine a)"
    by (intro keepingI) (simp add: call_engine_def provider_inv_def Let_def)
  then show ?thesis unfolding provider_do_def by (auto intro!: keeps)
qed

lemma engine_calls_inv:
  "engine_inv s \<Longrightarrow> engine_inv (fst (connect_engine env s))" "engine_inv s \<Longrightarrow> engine_inv (fst (destroy s))"
  "engine_inv s \<Longrightarrow> engine_inv (fst (joinRoom r jo s))" "engine_inv s \<Longrightarrow> engine_inv (fst (leaveRoom b s))"
  "engine_inv s \<Longrightarrow> engine_inv (fst (endRoom s))"
  "engine_inv s \<Longrightarrow> engine_inv (fst ((upd (\<lambda>s. s\<lparr> se_turnGate := g \<rparr>) :: engine_act) s))"
  using engine_inv_step [of s env Connect] engine_inv_step [of s env Destroy]
    engine_inv_step [of s env "Join r jo"] engine_inv_step [of s env "Leave b"]
    engine_inv_step [of s env EndRoom] engine_inv_step [of s env "SetTurnGate g"] by simp_all

lemma engine_send_inv: "engine_inv s \<Longrightarrow> engine_inv (fst (sendMessage t p to s))"
proof -
  assume "engine_inv s"
  then consider "live s" | "dead s" by (auto simp: engine_inv_def)
  then show ?thesis
  proof cases
    case 1
    then show ?thesis using keepingD [OF keep_send] by (simp add: engine_inv_def)
  next
    case 2
    then show ?thesis by (simp add: dead_send engine_inv_def)
  qed
qed

lemma provider_inv_step: "provider_inv p \<Longrightarrow> provider_inv (fst (provider_step p e))"
proof -
  have k: "keeping provider_inv (\<lambda>p. provider_step p e)"
    by (cases e) (auto intro!: keeps keep_provider_do engine_calls_inv engine_send_inv engine_inv_step
        simp: disconnect_provider_def provider_joinRoom_def provider_leaveRoom_def sendToPeer_def broadcast_def)
  assume "provider_inv p"
  from keepingD [OF k this] show ?thesis .
qed

interpretation provider: reactive provider_step provider_inv
  by unfold_locales (rule provider_inv_step)

section \<open>Properties\<close>

definition emitted :: "provider_effect list \<Rightarrow> provider_event list" where
  "emitted es = List.map_filter (\<lambda>e. case e of Emit ev \<Rightarrow> Some ev | _ \<Rightarrow> None) es"

definition joined_peers :: "provider_event list \<Rightarrow> string list" where
  "joined_peers es = List.map_filter (\<lambda>e. case e of EvPeerJoined q \<Rightarrow> Some (pp_peerId q) | _ \<Rightarrow> None) es"

definition left_peers :: "provider_event list \<Rightarrow> string list" where
  "left_peers es = List.map_filter (\<lambda>e. case e of EvPeerLeft q \<Rightarrow> Some (pp_peerId q) | _ \<Rightarrow> None) es"

lemma emitted_simps [simp]:
  "emitted [] = []" "emitted (Emit ev # es) = ev # emitted es"
  by (simp_all add: emitted_def List.map_filter_simps)

lemma emitted_append [simp]: "emitted (xs @ ys) = emitted xs @ emitted ys"
  by (simp add: emitted_def map_filter_append)

lemma peers_simps [simp]:
  "joined_peers [] = []" "left_peers [] = []"
  "joined_peers (EvPeerJoined q # es) = pp_peerId q # joined_peers es"
  "left_peers (EvPeerJoined q # es) = left_peers es"
  "joined_peers (EvPeerLeft q # es) = joined_peers es"
  "left_peers (EvPeerLeft q # es) = pp_peerId q # left_peers es"
  "joined_peers (EvRoomStateUpdated r # es) = joined_peers es"
  "left_peers (EvRoomStateUpdated r # es) = left_peers es"
  by (simp_all add: joined_peers_def left_peers_def List.map_filter_simps)

lemma peers_append [simp]:
  "joined_peers (es @ fs) = joined_peers es @ joined_peers fs"
  "left_peers (es @ fs) = left_peers es @ left_peers fs"
  by (simp_all add: joined_peers_def left_peers_def map_filter_append)

lemma forS_emit:
  "forS xs (\<lambda>e. whenS (\<lambda>_. c e) (emit (f e))) p = (p, map (\<lambda>e. Emit (f e)) (filter c xs))"
  by (induction xs) (simp_all add: forS_def skipS_def thenS_def whenS_def ifS_def out_def Let_def)

lemma toParticipantMap_keys: "fst ` set (toParticipantMap ps) = pp_peerId ` set ps"
proof -
  have "fst ` set (fold (\<lambda>p. AList.update (pp_peerId p) p) ps m) = fst ` set m \<union> pp_peerId ` set ps" for m
  proof (induction ps arbitrary: m)
    case (Cons q ps)
    show ?case by (simp add: Cons AList.dom_update)
  qed simp
  then show ?thesis by (simp add: toParticipantMap_def)
qed

lemma map_id_keyed: "keyed m \<Longrightarrow> map (\<lambda>e. pp_peerId (snd e)) m = map fst m"
  unfolding keyed_def by (rule map_cong [OF refl]) blast

lemma joined_of_emits:
  "joined_peers (emitted (map (\<lambda>e. Emit (EvPeerJoined (snd e))) xs)) = map (\<lambda>e. pp_peerId (snd e)) xs"
  "left_peers (emitted (map (\<lambda>e. Emit (EvPeerJoined (snd e))) xs)) = []"
  "left_peers (emitted (map (\<lambda>e. Emit (EvPeerLeft (snd e))) xs)) = map (\<lambda>e. pp_peerId (snd e)) xs"
  "joined_peers (emitted (map (\<lambda>e. Emit (EvPeerLeft (snd e))) xs)) = []"
  by (induction xs) simp_all

lemma keyed_filter: "keyed m \<Longrightarrow> keyed (filter c m)"
  by (simp add: keyed_def)

text \<open>Every run of the provider.\<close>

definition provider_after :: "engine_config \<Rightarrow> provider_input list \<Rightarrow> provider" where
  "provider_after cfg es = fst (run provider_step (new_provider cfg) es)"

lemma new_provider_inv: "provider_inv (new_provider cfg)"
  by (simp add: new_provider_def provider_inv_def engine_inv_def new_engine_live keyed_Nil)

lemma provider_after_inv: "provider_inv (provider_after cfg es)"
  unfolding provider_after_def by (rule provider.run_inv) (rule new_provider_inv)

text \<open>C4: After any run of the provider, a \<open>room_state\<close> is turned into exact membership events: one
  \<open>peerJoined\<close> for each participant not known before, one \<open>peerLeft\<close> for each known before and gone, none
  for any other, and none twice; and the provider then knows exactly the participants of the message.\<close>

theorem room_state_diffs_exact:
  fixes p :: provider and rs :: room_state and msg :: signaling_message
  assumes "p = provider_after cfg es" and "parseRoomStatePayload (sg_payload msg) = Some rs"
  defines "evs \<equiv> emitted (snd (handleRoomState msg p))"
    and "known \<equiv> fst ` set (sp_participants p)" and "present \<equiv> rp_cid ` set (rs_participants rs)"
  shows "distinct (joined_peers evs) \<and> set (joined_peers evs) = present - known \<and>
         distinct (left_peers evs) \<and> set (left_peers evs) = known - present \<and>
         fst ` set (sp_participants (fst (handleRoomState msg p))) = present"
proof -
  let ?next = "toParticipantMap (map mapParticipant (rs_participants rs))"
  let ?prev = "sp_participants p"
  have k: "keyed ?prev" and d: "distinct (map fst ?prev)" "distinct (map fst ?next)"
    using provider_after_inv [of cfg es] by (simp_all add: assms(1) provider_inv_def toParticipantMap_distinct)
  have keys: "fst ` set ?next = present"
    by (simp add: toParticipantMap_keys present_def mapParticipant_def image_image)
  have st: "sp_participants (fst (handleRoomState msg p)) = ?next"
    and ev: "evs = emitted (map (\<lambda>e. Emit (EvPeerJoined (snd e))) (filter (\<lambda>e. \<not> map_has ?prev (fst e)) ?next)) @
             emitted (map (\<lambda>e. Emit (EvPeerLeft (snd e))) (filter (\<lambda>e. \<not> map_has ?next (fst e)) ?prev)) @
             [EvRoomStateUpdated \<lparr> re_participants = map mapParticipant (rs_participants rs),
                re_hostPeerId = rs_hostCid rs, re_maxParticipants = rs_maxParticipants rs \<rparr>]"
    using assms(2)
    by (simp_all add: evs_def handleRoomState_def emitParticipantDiffs_def thenS_def upd_def letS_def out_def
        skipS_def forS_emit Let_def split: option.split)
  have j: "joined_peers evs = map fst (filter (\<lambda>e. \<not> map_has ?prev (fst e)) ?next)"
    unfolding ev by (simp add: joined_of_emits map_id_keyed keyed_filter keyed_map)
  have l: "left_peers evs = map fst (filter (\<lambda>e. \<not> map_has ?next (fst e)) ?prev)"
    unfolding ev using k by (simp add: joined_of_emits map_id_keyed keyed_filter)
  show ?thesis
  proof (intro conjI)
    show "distinct (joined_peers evs)" "distinct (left_peers evs)"
      using d by (simp_all add: j l distinct_map_filter)
    show "set (joined_peers evs) = present - known" "set (left_peers evs) = known - present"
      unfolding j l keys [symmetric] known_def by (auto simp: map_has_iff)
    show "fst ` set (sp_participants (fst (handleRoomState msg p))) = present"
      by (simp add: st keys)
  qed
qed

theorem room_state_diffs_exact_witness:
  "set (joined_peers (emitted (snd (handleRoomState
      \<lparr> sg_v = 1, sg_type = ''room_state'', sg_rid = Some ''r'', sg_sid = None, sg_cid = None, sg_to = None,
        sg_payload = Some (JObj [(''participants'',
          JArr [JObj [(''cid'', JStr ''a'')], JObj [(''cid'', JStr ''b'')]])]) \<rparr>
      (provider_after sample_config []))))) = {''a'', ''b''}"
  using room_state_diffs_exact [of "provider_after sample_config []" sample_config "[]"
    "\<lparr> sg_v = 1, sg_type = ''room_state'', sg_rid = Some ''r'', sg_sid = None, sg_cid = None, sg_to = None,
        sg_payload = Some (JObj [(''participants'',
          JArr [JObj [(''cid'', JStr ''a'')], JObj [(''cid'', JStr ''b'')]])]) \<rparr>"]
  by (simp add: provider_after_def new_provider_def parseRoomStatePayload_def parseParticipants_def
      List.map_filter_simps parseParticipant_def is_blank_iff is_js_space_def Let_def)

text \<open>What a disconnected provider may still do: effects of its engine and waiting.\<close>

fun unheard :: "provider_effect \<Rightarrow> bool" where
  "unheard (FromEng e) = True"
| "unheard (Sleep i d) = True"
| "unheard (Emit e) = False"
| "unheard (FetchCredentials i t) = False"

abbreviation unheard_act :: "provider_act \<Rightarrow> bool" where
  "unheard_act \<equiv> confined sp_disconnected unheard"

lemma unheard_engine [confines]: "unheard_act (call_engine a)"
  by (rule confinedI) (simp add: call_engine_def Let_def list_all_iff)

lemma unheard_do [confines]: "unheard_act (provider_do a)"
  unfolding provider_do_def by (auto intro!: confines confined_ifS_true)

lemma unheard_upd [confines]: "(\<And>p. sp_disconnected (f p) = sp_disconnected p) \<Longrightarrow> unheard_act (upd f)"
  by (rule confined_upd) simp

lemma unheard_finish [confines]: "unheard_act (finish_refresh i)"
  unfolding finish_refresh_def by (rule confines) simp

lemma unheard_loop [confines]: "unheard_act (refresh_loop i gen ds)"
proof (induction ds)
  case (Cons d ds)
  then show ?case
    unfolding refresh_loop.simps
    by (auto intro!: confines confined_out confined_ifS_true simp: stale_def)
qed (simp add: confines)

lemma unheard_after [confines]: "unheard_act (after_sleep i)" "unheard_act (after_fetch i answer)"
  unfolding after_sleep_def after_fetch_def
  by (auto intro!: confines confined_ifS_true simp: stale_def split: option.split)

lemma unheard_step: "unheard_act (\<lambda>p. provider_step p e)"
  by (cases e)
    (auto intro!: confines confined_whenS confined_ifS_true
      simp: disconnect_provider_def provider_joinRoom_def provider_leaveRoom_def sendToPeer_def broadcast_def)

text \<open>A disconnected provider is silent: after \<open>disconnect()\<close>, whatever the session still calls (even
  \<open>connect()\<close>), whatever its engine raises and whatever retry or credentials answer was still pending,
  no event reaches the session and no credentials are requested.\<close>

theorem disconnected_provider_is_silent:
  "list_all unheard (snd (run provider_step (fst (disconnect_provider p)) later))"
proof -
  have "sp_disconnected (fst (disconnect_provider p))"
  proof (cases "sp_disconnected p")
    case True
    then show ?thesis by (simp add: disconnect_provider_def ifS_def skipS_def)
  next
    case False
    let ?rest = "seqS [provider_do destroy,
      upd (\<lambda>p. p\<lparr> sp_participants := [], sp_turnToken := None, sp_hostPeerId := None \<rparr>)] :: provider_act"
    have "unheard_act ?rest" by (auto intro!: confines)
    from confinedD [OF this, of "p\<lparr> sp_disconnected := True \<rparr>"] False
    show ?thesis by (simp add: disconnect_provider_def ifS_def thenS_def upd_def Let_def)
  qed
  then show ?thesis
    using confinedD [OF run_confined [where es = later, OF unheard_step], of "fst (disconnect_provider p)"] by simp
qed

text \<open>The servers an event offers can be used: there is one, and each has a URL and no blank one.\<close>

fun usable_servers :: "provider_effect \<Rightarrow> bool" where
  "usable_servers (Emit (EvIceServersChanged servers)) =
     (servers \<noteq> [] \<and> list_all (\<lambda>s. is_urls s \<noteq> [] \<and> list_all (\<lambda>u. \<not> is_blank u) (is_urls s)) servers)"
| "usable_servers e = True"

abbreviation usable_act :: "provider_act \<Rightarrow> bool" where
  "usable_act \<equiv> confined (\<lambda>_. True) usable_servers"

lemma usable_upd [confines]: "usable_act (upd f)"
  by (simp add: confined_upd)

lemma usable_out [confines]: "(\<And>p. usable_servers (f p)) \<Longrightarrow> usable_act (out f)"
  by (simp add: confined_out)

lemma usable_engine [confines]: "usable_act (call_engine a)"
  by (rule confinedI) (simp add: call_engine_def Let_def list_all_iff)

lemmas usable_branches = confined_ifS [where P = "\<lambda>_. True" and Q = usable_servers]
  confined_whenS [where P = "\<lambda>_. True" and Q = usable_servers]

lemma map_filter_nonblank: "list_all (\<lambda>u. \<not> is_blank u) (List.map_filter (\<lambda>u. as_nonblank (Some u)) us)"
  by (induction us) (auto simp: List.map_filter_simps as_nonblank_def split: option.splits json.splits)

lemma usable_answer: "ice_servers_of data \<noteq> [] \<Longrightarrow> usable_servers (Emit (EvIceServersChanged (ice_servers_of data)))"
  by (auto simp: ice_servers_of_def Let_def map_filter_nonblank split: option.splits json.splits if_splits)

lemma usable_refresh [confines]:
  "usable_act (finish_refresh i)" "usable_act (refresh_loop i gen ds)"
  "usable_act (after_sleep i)" "usable_act (after_fetch i answer)" "usable_act refreshIceServers"
proof -
  show f: "usable_act (finish_refresh i)" for i unfolding finish_refresh_def by (rule confines)
  show l: "usable_act (refresh_loop i gen ds)" for i gen ds
  proof (induction ds)
    case (Cons d ds)
    with f show ?case
      unfolding refresh_loop.simps by (auto intro!: confines usable_branches split: option.split)
  qed (simp add: f)
  show "usable_act (after_sleep i)" "usable_act (after_fetch i answer)" "usable_act refreshIceServers"
    unfolding after_sleep_def after_fetch_def refreshIceServers_def
    by (auto intro!: confines usable_branches f l usable_answer split: option.split simp del: usable_servers.simps)
      (auto)
qed

lemma usable_handlers [confines]:
  "usable_act (handleJoined msg)" "usable_act (emitParticipantDiffs m n)" "usable_act (emitRoomEnded payload)"
  "usable_act (emitPeerMessage msg)" "usable_act handleStateChange"
  unfolding handleJoined_def emitRoomEnded_def emitPeerMessage_def emitParticipantDiffs_def handleStateChange_def Let_def
  by (auto intro!: confines usable_branches split: option.split)

lemma usable_room_state [confines]: "usable_act (handleRoomState msg)"
  unfolding handleRoomState_def Let_def by (auto intro!: confines split: option.split)

lemma usable_message [confines]: "usable_act (handleMessage msg)"
  unfolding handleMessage_def Let_def by (auto intro!: confines split: option.split)

lemma usable_react [confines]: "usable_act (react e)"
  unfolding react_def by (auto intro!: confines split: engine_effect.split)

lemma usable_do [confines]: "usable_act (provider_do a)"
  unfolding provider_do_def by (auto intro!: confines usable_branches)

lemma usable_step: "usable_act (\<lambda>p. provider_step p e)"
  by (cases e)
    (auto intro!: confines usable_branches
      simp: disconnect_provider_def provider_joinRoom_def provider_leaveRoom_def sendToPeer_def broadcast_def)

text \<open>The ICE servers of a live call are never stripped: in every run of the provider, whatever the
  credentials API answers (nothing, malformed JSON, no URIs), each \<open>iceServersChanged\<close> event offers at
  least one server, and each offered server has a URL and no blank one.\<close>

theorem ice_servers_never_stripped:
  "list_all usable_servers (snd (run provider_step (new_provider cfg) es))"
  using confinedD [OF run_confined [OF usable_step]] by simp

end
