(* ===== verification/Layout.thy ===== *)
theory Layout
  imports Prelude
begin

text \<open>
  The call layout of \<^verbatim>\<open>client/packages/core/src/layout/computeLayout.ts\<close>: the harmonic-mean grid of the
  stage, absolute positions, the picture-in-picture, the filmstrip of the focus and content modes and
  the entry point \<open>computeLayout\<close>. Lengths are exact rationals; a video's aspect ratio comes from the
  browser and may be missing, infinite or NaN.
\<close>

section \<open>The stage\<close>

definition MIN_STAGE_TILE_ASPECT :: rat where "MIN_STAGE_TILE_ASPECT = 9 / 16"
definition MAX_STAGE_TILE_ASPECT :: rat where "MAX_STAGE_TILE_ASPECT = 16 / 9"
definition DEFAULT_STAGE_TILE_ASPECT :: rat where "DEFAULT_STAGE_TILE_ASPECT = 16 / 9"

lemmas aspect_constants = MIN_STAGE_TILE_ASPECT_def MAX_STAGE_TILE_ASPECT_def DEFAULT_STAGE_TILE_ASPECT_def

record stage_tile_spec =
  sts_cid :: string
  sts_aspectRatio :: rat

record stage_tile =
  st_cid :: string
  st_width :: int
  st_height :: int

text \<open>A row is the list of its items.\<close>

type_synonym stage_row = "stage_tile list"

definition clampStageTileAspectRatio :: "jsnum option \<Rightarrow> rat" where
  "clampStageTileAspectRatio ratio =
     (case ratio of
        Some (Fin r) \<Rightarrow> if r \<le> 0 then DEFAULT_STAGE_TILE_ASPECT
                        else min MAX_STAGE_TILE_ASPECT (max MIN_STAGE_TILE_ASPECT r)
      | _ \<Rightarrow> DEFAULT_STAGE_TILE_ASPECT)"

definition candidate_rows :: "nat \<Rightarrow> nat list list list" where
  "candidate_rows n =
     (if n = 1 then [[[0]]]
      else if n = 2 then [[[0, 1]], [[0], [1]]]
      else [[[0, 1, 2]], [[0, 1], [2]], [[0], [1, 2]], [[0], [1], [2]]])"

text \<open>\<open>gap * Math.max(0, n - 1)\<close>.\<close>

definition gaps :: "rat \<Rightarrow> nat \<Rightarrow> rat" where
  "gaps gap n = gap * of_nat (n - 1)"

definition base_height :: "stage_tile_spec list \<Rightarrow> rat \<Rightarrow> rat \<Rightarrow> nat list \<Rightarrow> rat" where
  "base_height tiles availableWidth gap row =
     (let totalAspect = (\<Sum>i\<leftarrow>row. sts_aspectRatio (tiles ! i));
          rowWidth = availableWidth - gaps gap (length row)
      in if 0 < rowWidth \<and> 0 < totalAspect then rowWidth / totalAspect else 0)"

definition lay_row :: "stage_tile_spec list \<Rightarrow> rat \<Rightarrow> nat list \<times> rat \<Rightarrow> stage_row" where
  "lay_row tiles scale rb =
     (let rowHeight = max 1 \<lfloor>snd rb * scale\<rfloor> in
      map (\<lambda>i. \<lparr> st_cid = sts_cid (tiles ! i),
                st_width = max 1 \<lfloor>sts_aspectRatio (tiles ! i) * of_int rowHeight\<rfloor>,
                st_height = rowHeight \<rparr>) (fst rb))"

text \<open>The layout of one candidate, or \<open>None\<close> where the loop continues with the next one.\<close>

definition lay_candidate ::
  "stage_tile_spec list \<Rightarrow> rat \<Rightarrow> rat \<Rightarrow> rat \<Rightarrow> nat list list \<Rightarrow> stage_row list option" where
  "lay_candidate tiles availableWidth availableHeight gap rows =
     (let baseHeights = map (base_height tiles availableWidth gap) rows;
          verticalGap = gaps gap (length rows);
          totalBaseHeight = sum_list baseHeights
      in if totalBaseHeight \<le> 0 \<or> availableHeight \<le> verticalGap then None
         else (let scale = min 1 ((availableHeight - verticalGap) / totalBaseHeight) in
               if scale \<le> 0 then None
               else Some (map (lay_row tiles scale) (zip rows baseHeights))))"

text \<open>The best candidate so far; before the first one its row count is infinite (\<open>None\<close>).\<close>

record best_layout =
  bl_harmonic :: rat
  bl_minShort :: rat
  bl_area :: int
  bl_rowCount :: "nat option"
  bl_layout :: "stage_row list"

definition no_layout :: best_layout where
  "no_layout = \<lparr> bl_harmonic = -1, bl_minShort = -1, bl_area = -1, bl_rowCount = None, bl_layout = [] \<rparr>"

definition layout_area :: "stage_row list \<Rightarrow> int" where
  "layout_area rows = (\<Sum>row\<leftarrow>rows. \<Sum>t\<leftarrow>row. st_width t * st_height t)"

definition short_edges :: "stage_row list \<Rightarrow> rat list" where
  "short_edges rows = map (\<lambda>t. of_int (min (st_width t) (st_height t))) (concat rows)"

text \<open>\<open>reduce(Math.min, Infinity)\<close>; a candidate has at least one tile.\<close>

fun min_edge :: "rat list \<Rightarrow> rat" where
  "min_edge [] = 0"
| "min_edge (e # es) = fold min es e"

definition harmonic_mean :: "rat list \<Rightarrow> rat" where
  "harmonic_mean es = of_nat (length es) / (\<Sum>e\<leftarrow>es. 1 / e)"

definition improves :: "stage_row list \<Rightarrow> best_layout \<Rightarrow> bool" where
  "improves rows b =
     (let area = layout_area rows;
          minShortEdge = min_edge (short_edges rows);
          harmonicShortEdge = harmonic_mean (short_edges rows);
          rowCount = length rows;
          shortEdgeGainIsMeaningful = harmonicShortEdge > bl_harmonic b + 6;
          shortEdgeIsComparable = \<bar>harmonicShortEdge - bl_harmonic b\<bar> \<le> 6;
          minShortEdgeImproved = minShortEdge > bl_minShort b + 1;
          minShortEdgeComparable = \<bar>minShortEdge - bl_minShort b\<bar> \<le> 1
      in shortEdgeGainIsMeaningful \<or>
         (shortEdgeIsComparable \<and>
           (pred_option (\<lambda>n. rowCount < n) (bl_rowCount b) \<or>
            (bl_rowCount b = Some rowCount \<and>
              (minShortEdgeImproved \<or> (minShortEdgeComparable \<and> area > bl_area b))))) \<or>
         (\<not> shortEdgeIsComparable \<and> harmonicShortEdge > bl_harmonic b \<and> minShortEdgeImproved))"

definition consider_candidate ::
  "stage_tile_spec list \<Rightarrow> rat \<Rightarrow> rat \<Rightarrow> rat \<Rightarrow> nat list list \<Rightarrow> best_layout \<Rightarrow> best_layout" where
  "consider_candidate tiles availableWidth availableHeight gap rows b =
     (case lay_candidate tiles availableWidth availableHeight gap rows of
        None \<Rightarrow> b
      | Some l \<Rightarrow>
          if improves l b
          then \<lparr> bl_harmonic = harmonic_mean (short_edges l), bl_minShort = min_edge (short_edges l),
                 bl_area = layout_area l, bl_rowCount = Some (length l), bl_layout = l \<rparr>
          else b)"

definition computeStageLayout :: "stage_tile_spec list \<Rightarrow> rat \<Rightarrow> rat \<Rightarrow> rat \<Rightarrow> stage_row list" where
  "computeStageLayout tiles availableWidth availableHeight gap =
     (if tiles = [] \<or> availableWidth \<le> 0 \<or> availableHeight \<le> 0 then []
      else bl_layout (fold (consider_candidate tiles availableWidth availableHeight gap)
             (candidate_rows (length tiles)) no_layout))"

section \<open>Scenes and layouts\<close>

datatype role = Local | Remote
datatype fit = Cover | Contain
datatype source_type = ScreenShare | WorldCamera | CompositeCamera
datatype layout_mode = Solo | Pair | Grid | Focus | Content
datatype device_group = Phone | Tablet | Desktop
datatype tile_type = ParticipantTile | ContentTile
datatype pip_anchor = TopLeft | TopRight | BottomLeft | BottomRight

record scene_participant =
  pa_id :: string
  pa_role :: role
  pa_videoEnabled :: bool
  pa_videoAspectRatio :: "jsnum option"

record content_source =
  so_type :: source_type
  so_owner :: string
  so_aspectRatio :: "jsnum option"

record insets =
  in_top :: rat
  in_bottom :: rat
  in_left :: rat
  in_right :: rat

record call_scene =
  sc_viewportWidth :: rat
  sc_viewportHeight :: rat
  sc_safeAreaInsets :: insets
  sc_participants :: "scene_participant list"
  sc_localParticipantId :: string
  sc_activeSpeakerId :: "string option"
  sc_pinnedParticipantId :: "string option"
  sc_contentSource :: "content_source option"
  sc_swapped :: bool
  sc_dominantFit :: fit

record rect =
  r_x :: rat
  r_y :: rat
  r_width :: rat
  r_height :: rat

record tile_layout =
  tl_id :: string
  tl_type :: tile_type
  tl_frame :: rect
  tl_fit :: fit
  tl_cornerRadius :: rat
  tl_zOrder :: nat

record pip_layout =
  pl_participantId :: string
  pl_frame :: rect
  pl_fit :: fit
  pl_cornerRadius :: rat
  pl_anchor :: pip_anchor
  pl_zOrder :: nat

record layout_result =
  lr_mode :: layout_mode
  lr_tiles :: "tile_layout list"
  lr_localPip :: "pip_layout option"

section \<open>Constants per device\<close>

fun layout_gap :: "device_group \<Rightarrow> rat" where
  "layout_gap Phone = 8" | "layout_gap Tablet = 12" | "layout_gap Desktop = 12"

fun outer_padding :: "device_group \<Rightarrow> rat" where
  "outer_padding Phone = 8" | "outer_padding Tablet = 16" | "outer_padding Desktop = 16"

fun corner_radius :: "device_group \<Rightarrow> rat" where
  "corner_radius Phone = 12" | "corner_radius Tablet = 14" | "corner_radius Desktop = 16"

fun pip_width_fraction :: "device_group \<Rightarrow> rat" where
  "pip_width_fraction Phone = 24 / 100" | "pip_width_fraction Tablet = 20 / 100"
| "pip_width_fraction Desktop = 16 / 100"

fun pip_inset :: "device_group \<Rightarrow> rat" where
  "pip_inset Phone = 12" | "pip_inset Tablet = 16" | "pip_inset Desktop = 20"

fun thumbnail_min :: "device_group \<Rightarrow> rat" where
  "thumbnail_min Phone = 72" | "thumbnail_min Tablet = 96" | "thumbnail_min Desktop = 120"

definition PIP_ASPECT_RATIO :: rat where "PIP_ASPECT_RATIO = 3 / 4"
definition PIP_CORNER_RADIUS :: rat where "PIP_CORNER_RADIUS = 12"
definition PRIMARY_RATIO :: rat where "PRIMARY_RATIO = 75 / 100"

definition deviceGroup :: "rat \<Rightarrow> rat \<Rightarrow> device_group" where
  "deviceGroup viewportWidth viewportHeight =
     (let shortSide = min viewportWidth viewportHeight in
      if shortSide < 600 then Phone else if shortSide < 1024 then Tablet else Desktop)"

definition deriveMode :: "call_scene \<Rightarrow> layout_mode" where
  "deriveMode scene =
     (if length (sc_participants scene) = 1 then Solo
      else if sc_contentSource scene \<noteq> None then Content
      else if sc_pinnedParticipantId scene \<noteq> None then Focus
      else if length (sc_participants scene) = 2 then Pair
      else Grid)"

section \<open>Positions\<close>

fun place_row :: "rat \<Rightarrow> rat \<Rightarrow> int \<Rightarrow> rat \<Rightarrow> stage_tile list \<Rightarrow> (string \<times> rect) list" where
  "place_row tileX rowY rowHeight gap [] = []"
| "place_row tileX rowY rowHeight gap (t # ts) =
     (st_cid t, \<lparr> r_x = tileX, r_y = rowY, r_width = of_int (st_width t), r_height = of_int rowHeight \<rparr>)
       # place_row (tileX + (of_int (st_width t) + gap)) rowY rowHeight gap ts"

definition row_width :: "rat \<Rightarrow> stage_row \<Rightarrow> rat" where
  "row_width gap row = of_int (\<Sum>t\<leftarrow>row. st_width t) + gaps gap (length row)"

definition row_height :: "stage_row \<Rightarrow> int" where
  "row_height row = st_height (hd row)"

fun place_rows :: "rat \<Rightarrow> rat \<Rightarrow> rat \<Rightarrow> rat \<Rightarrow> stage_row list \<Rightarrow> (string \<times> rect) list" where
  "place_rows availableX availableWidth gap rowY [] = []"
| "place_rows availableX availableWidth gap rowY (row # rows) =
     place_row (availableX + (availableWidth - row_width gap row) / 2) rowY (row_height row) gap row
     @ place_rows availableX availableWidth gap (rowY + (of_int (row_height row) + gap)) rows"

definition rows_height :: "rat \<Rightarrow> stage_row list \<Rightarrow> rat" where
  "rows_height gap rows = of_int (\<Sum>row\<leftarrow>rows. row_height row) + gaps gap (length rows)"

definition gridTilesToAbsolute ::
  "stage_row list \<Rightarrow> rat \<Rightarrow> rat \<Rightarrow> rat \<Rightarrow> rat \<Rightarrow> rat \<Rightarrow> (string \<times> rect) list" where
  "gridTilesToAbsolute rows availableX availableY availableWidth availableHeight gap =
     place_rows availableX availableWidth gap (availableY + (availableHeight - rows_height gap rows) / 2) rows"

definition computePip :: "string \<Rightarrow> rat \<Rightarrow> rat \<Rightarrow> device_group \<Rightarrow> jsnum option \<Rightarrow> pip_layout" where
  "computePip participantId viewportWidth viewportHeight grp videoAspectRatio =
     (let inset = pip_inset grp;
          width = viewportWidth * pip_width_fraction grp;
          ar = clampStageTileAspectRatio (coalesce videoAspectRatio (Some (Fin PIP_ASPECT_RATIO)));
          height = width / ar
      in \<lparr> pl_participantId = participantId,
           pl_frame = \<lparr> r_x = viewportWidth - inset - width, r_y = viewportHeight - inset - height,
                        r_width = width, r_height = height \<rparr>,
           pl_fit = Cover, pl_cornerRadius = PIP_CORNER_RADIUS, pl_anchor = BottomRight, pl_zOrder = 1 \<rparr>)"

section \<open>Primary tile with a filmstrip\<close>

text \<open>The share of the primary tile along the long side; \<open>along\<close> and \<open>across\<close> are the area's sides.\<close>

definition primary_ratio :: "rat \<Rightarrow> rat \<Rightarrow> nat \<Rightarrow> rat \<Rightarrow> rat \<Rightarrow> rat" where
  "primary_ratio along across n gap thumbnailMin =
     (if n = 0 then PRIMARY_RATIO
      else let secondary = along * (1 - PRIMARY_RATIO);
               tile = (across - gaps gap n) / of_nat n
           in if tile < thumbnailMin \<or> secondary < thumbnailMin
              then let needed = thumbnailMin * of_nat n + gaps gap n;
                       ratioFromAcross = (if needed > across then 1 / 2 else PRIMARY_RATIO);
                       ratioFromAlong = 1 - thumbnailMin / along
                   in max (1 / 2) (min PRIMARY_RATIO (min ratioFromAcross ratioFromAlong))
              else PRIMARY_RATIO)"

definition strip_tile :: "rat \<Rightarrow> (nat \<Rightarrow> rect) \<Rightarrow> nat \<Rightarrow> scene_participant \<Rightarrow> tile_layout" where
  "strip_tile cornerRadius frame i p =
     \<lparr> tl_id = pa_id p, tl_type = ParticipantTile, tl_frame = frame i, tl_fit = Cover,
       tl_cornerRadius = cornerRadius, tl_zOrder = i + 1 \<rparr>"

definition primary_frame :: "rect \<Rightarrow> rat \<Rightarrow> rat \<Rightarrow> rect" where
  "primary_frame area primaryRatio gap =
     (if r_width area > r_height area
      then area\<lparr> r_width := r_width area * primaryRatio - gap / 2 \<rparr>
      else area\<lparr> r_height := r_height area * primaryRatio - gap / 2 \<rparr>)"

definition strip_frame :: "rect \<Rightarrow> rat \<Rightarrow> rat \<Rightarrow> nat \<Rightarrow> nat \<Rightarrow> rect" where
  "strip_frame area primaryRatio gap n i =
     (if r_width area > r_height area
      then (let primaryWidth = r_width area * primaryRatio - gap / 2;
                tileHeight = (r_height area - gaps gap n) / of_nat n
            in \<lparr> r_x = r_x area + primaryWidth + gap, r_y = r_y area + of_nat i * (tileHeight + gap),
                 r_width = r_width area - primaryWidth - gap, r_height = tileHeight \<rparr>)
      else (let primaryHeight = r_height area * primaryRatio - gap / 2;
                tileWidth = (r_width area - gaps gap n) / of_nat n
            in \<lparr> r_x = r_x area + of_nat i * (tileWidth + gap), r_y = r_y area + primaryHeight + gap,
                 r_width = tileWidth, r_height = r_height area - primaryHeight - gap \<rparr>))"

definition computePrimaryWithFilmstrip ::
  "string \<Rightarrow> tile_type \<Rightarrow> fit \<Rightarrow> scene_participant list \<Rightarrow> rect \<Rightarrow> rat \<Rightarrow> rat \<Rightarrow> device_group \<Rightarrow> tile_layout list" where
  "computePrimaryWithFilmstrip primaryId primaryType primaryFit filmstrip area gap cornerRadius grp =
     (let n = length filmstrip;
          long = (if r_width area > r_height area then r_width area else r_height area);
          across = (if r_width area > r_height area then r_height area else r_width area);
          ratio = primary_ratio long across n gap (thumbnail_min grp)
      in \<lparr> tl_id = primaryId, tl_type = primaryType, tl_frame = primary_frame area ratio gap,
           tl_fit = primaryFit, tl_cornerRadius = cornerRadius, tl_zOrder = 0 \<rparr>
         # map2 (strip_tile cornerRadius (strip_frame area ratio gap n)) [0..<n] filmstrip)"

definition participantsStableOrder :: "scene_participant list \<Rightarrow> string \<Rightarrow> scene_participant list" where
  "participantsStableOrder ps localId =
     filter (\<lambda>p. pa_id p \<noteq> localId) ps @ filter (\<lambda>p. pa_id p = localId) ps"

section \<open>The entry point\<close>

definition padded_area :: "call_scene \<Rightarrow> rect" where
  "padded_area scene =
     (let grp = deviceGroup (sc_viewportWidth scene) (sc_viewportHeight scene);
          i = sc_safeAreaInsets scene
      in \<lparr> r_x = in_left i + outer_padding grp, r_y = in_top i + outer_padding grp,
           r_width = sc_viewportWidth scene - in_left i - in_right i - outer_padding grp * 2,
           r_height = sc_viewportHeight scene - in_top i - in_bottom i - outer_padding grp * 2 \<rparr>)"

definition available_area :: "call_scene \<Rightarrow> rect" where
  "available_area scene =
     (let i = sc_safeAreaInsets scene in
      \<lparr> r_x = in_left i, r_y = in_top i,
        r_width = sc_viewportWidth scene - in_left i - in_right i,
        r_height = sc_viewportHeight scene - in_top i - in_bottom i \<rparr>)"

definition pip_of :: "call_scene \<Rightarrow> scene_participant option \<Rightarrow> pip_layout option" where
  "pip_of scene p = map_option (\<lambda>p. computePip (pa_id p) (sc_viewportWidth scene) (sc_viewportHeight scene)
     (deviceGroup (sc_viewportWidth scene) (sc_viewportHeight scene)) (pa_videoAspectRatio p)) p"

definition layout_pair :: "call_scene \<Rightarrow> scene_participant option \<Rightarrow> layout_result" where
  "layout_pair scene localParticipant =
     (let remoteParticipant = find (\<lambda>p. pa_role p = Remote) (sc_participants scene);
          dominant = (if sc_swapped scene then localParticipant else remoteParticipant);
          pipParticipant = (if sc_swapped scene then remoteParticipant else localParticipant)
      in \<lparr> lr_mode = Pair,
           lr_tiles = (case dominant of None \<Rightarrow> []
             | Some d \<Rightarrow> [\<lparr> tl_id = pa_id d, tl_type = ParticipantTile, tl_frame = available_area scene,
                            tl_fit = sc_dominantFit scene, tl_cornerRadius = 0, tl_zOrder = 0 \<rparr>]),
           lr_localPip = pip_of scene pipParticipant \<rparr>)"

definition stage_specs :: "scene_participant list \<Rightarrow> stage_tile_spec list" where
  "stage_specs ps = map (\<lambda>p. \<lparr> sts_cid = pa_id p,
     sts_aspectRatio = clampStageTileAspectRatio (pa_videoAspectRatio p) \<rparr>) ps"

definition grid_tiles :: "rect \<Rightarrow> rat \<Rightarrow> scene_participant list \<Rightarrow> (string \<times> rect) list" where
  "grid_tiles area gap remotes =
     gridTilesToAbsolute (computeStageLayout (stage_specs remotes) (r_width area) (r_height area) gap)
       (r_x area) (r_y area) (r_width area) (r_height area) gap"

definition layout_grid :: "call_scene \<Rightarrow> device_group \<Rightarrow> scene_participant option \<Rightarrow> layout_result" where
  "layout_grid scene grp localParticipant =
     (let remotes = filter (\<lambda>p. pa_role p = Remote) (sc_participants scene);
          placed = grid_tiles (padded_area scene) (layout_gap grp) remotes
      in \<lparr> lr_mode = Grid,
           lr_tiles = map2 (\<lambda>index t. \<lparr> tl_id = fst t, tl_type = ParticipantTile, tl_frame = snd t,
             tl_fit = Cover, tl_cornerRadius = corner_radius grp, tl_zOrder = index \<rparr>) [0..<length placed] placed,
           lr_localPip = pip_of scene localParticipant \<rparr>)"

definition layout_filmstrip :: "call_scene \<Rightarrow> layout_mode \<Rightarrow> string \<Rightarrow> tile_type \<Rightarrow> string \<Rightarrow> device_group \<Rightarrow> layout_result" where
  "layout_filmstrip scene mode primaryId primaryType leftOut grp =
     \<lparr> lr_mode = mode,
       lr_tiles = computePrimaryWithFilmstrip primaryId primaryType (sc_dominantFit scene)
         (participantsStableOrder (filter (\<lambda>p. pa_id p \<noteq> leftOut) (sc_participants scene)) (sc_localParticipantId scene))
         (padded_area scene) (layout_gap grp) (corner_radius grp) grp,
       lr_localPip = None \<rparr>"

function computeLayout :: "call_scene \<Rightarrow> layout_result" where
  "computeLayout scene =
     (let grp = deviceGroup (sc_viewportWidth scene) (sc_viewportHeight scene);
          localParticipant = find (\<lambda>p. pa_id p = sc_localParticipantId scene) (sc_participants scene)
      in case deriveMode scene of
           Solo \<Rightarrow> \<lparr> lr_mode = Solo, lr_tiles = [], lr_localPip = pip_of scene localParticipant \<rparr>
         | Pair \<Rightarrow> layout_pair scene localParticipant
         | Grid \<Rightarrow> layout_grid scene grp localParticipant
         | Focus \<Rightarrow>
             (case find (\<lambda>p. Some (pa_id p) = sc_pinnedParticipantId scene) (sc_participants scene) of
                None \<Rightarrow> computeLayout (scene\<lparr> sc_pinnedParticipantId := None \<rparr>)
              | Some pinned \<Rightarrow> layout_filmstrip scene Focus (pa_id pinned) ParticipantTile (pa_id pinned) grp)
         | Content \<Rightarrow>
             (case sc_contentSource scene of
                None \<Rightarrow> computeLayout (scene\<lparr> sc_contentSource := None \<rparr>)
              | Some source \<Rightarrow>
                  layout_filmstrip scene Content (so_owner source @ ''_content'') ContentTile (so_owner source) grp))"
  by pat_completeness auto

text \<open>Both fallbacks drop what selected the mode; the content one is never taken.\<close>

termination computeLayout
  by (relation "measure (\<lambda>s. if sc_pinnedParticipantId s = None then 0 else 1)")
    (auto simp: deriveMode_def split: if_splits)

declare computeLayout.simps [simp del]

section \<open>Rectangles\<close>

definition inside :: "rect \<Rightarrow> rect \<Rightarrow> bool" where
  "inside area r = (r_x area \<le> r_x r \<and> r_x r + r_width r \<le> r_x area + r_width area \<and>
                    r_y area \<le> r_y r \<and> r_y r + r_height r \<le> r_y area + r_height area)"

definition separate :: "rect \<Rightarrow> rect \<Rightarrow> bool" where
  "separate r q = (r_x r + r_width r \<le> r_x q \<or> r_x q + r_width q \<le> r_x r \<or>
                   r_y r + r_height r \<le> r_y q \<or> r_y q + r_height q \<le> r_y r)"

fun apart :: "rect list \<Rightarrow> bool" where
  "apart [] = True"
| "apart (r # rs) = (list_all (separate r) rs \<and> apart rs)"

lemma apart_append: "apart (rs @ qs) \<longleftrightarrow> apart rs \<and> apart qs \<and> (\<forall>r \<in> set rs. list_all (separate r) qs)"
  by (induction rs) (auto simp: list_all_iff)

lemma inside_trans: "inside a b \<Longrightarrow> inside b c \<Longrightarrow> inside a c"
  by (auto simp: inside_def)

section \<open>Placing rows\<close>

definition tile_ok :: "stage_tile \<Rightarrow> bool" where
  "tile_ok t = (0 < st_width t \<and> 0 < st_height t)"

lemma gaps_Suc [simp]: "gaps g (Suc n) = (if n = 0 then 0 else g + gaps g n)" "gaps g 0 = 0"
  by (cases n) (simp_all add: gaps_def algebra_simps)

lemma gaps_nonneg: "0 \<le> g \<Longrightarrow> 0 \<le> gaps g n"
  by (simp add: gaps_def)

lemma row_width_Cons:
  "row_width g (t # ts) = of_int (st_width t) + (if ts = [] then 0 else g + row_width g ts)"
  by (simp add: row_width_def)

lemma row_width_nonneg: "0 \<le> g \<Longrightarrow> \<forall>t \<in> set ts. 0 < st_width t \<Longrightarrow> 0 \<le> row_width g ts"
proof (induction ts)
  case (Cons t ts)
  then have "0 \<le> row_width g ts" "0 < st_width t" by simp_all
  with Cons.prems(1) show ?case by (simp add: row_width_Cons)
qed (simp add: row_width_def)

lemma place_row_frames:
  assumes "0 \<le> g" and "\<forall>t \<in> set ts. 0 < st_width t" and "e \<in> set (place_row x y h g ts)"
  shows "x \<le> r_x (snd e) \<and> r_x (snd e) + r_width (snd e) \<le> x + row_width g ts \<and>
         r_y (snd e) = y \<and> r_height (snd e) = of_int h \<and> 0 < r_width (snd e)"
  using assms
proof (induction ts arbitrary: x)
  case (Cons t ts)
  have w: "row_width g (t # ts) = of_int (st_width t) + (if ts = [] then 0 else g + row_width g ts)"
    by (rule row_width_Cons)
  have p: "0 \<le> row_width g ts"
    using Cons.prems(1,2) by (simp add: row_width_nonneg)
  have c: "0 < st_width t" using Cons.prems by simp
  show ?case
  proof (cases "e \<in> set (place_row (x + (of_int (st_width t) + g)) y h g ts)")
    case True
    with Cons.IH [OF Cons.prems(1) _ True] Cons.prems(1,2) w show ?thesis by (cases ts) auto
  next
    case False
    with Cons.prems(1,3) w p c show ?thesis by auto
  qed
qed simp

lemma place_row_apart:
  assumes "0 \<le> g" and "\<forall>t \<in> set ts. 0 < st_width t"
  shows "apart (map snd (place_row x y h g ts))"
  using assms
proof (induction ts arbitrary: x)
  case (Cons t ts)
  then show ?case
    using place_row_frames [of g ts _ "x + (of_int (st_width t) + g)" y h]
    by (fastforce simp: list_all_iff separate_def)
qed simp

lemma place_row_ids: "map fst (place_row x y h g ts) = map st_cid ts"
  by (induction ts arbitrary: x) simp_all

lemma place_rows_ids: "map fst (place_rows ax w g y rows) = map st_cid (concat rows)"
  by (induction rows arbitrary: y) (simp_all add: place_row_ids)

definition rows_ok :: "rat \<Rightarrow> rat \<Rightarrow> stage_row list \<Rightarrow> bool" where
  "rows_ok w g rows = (\<forall>row \<in> set rows. row \<noteq> [] \<and> 0 < row_height row \<and> row_width g row \<le> w \<and>
     (\<forall>t \<in> set row. 0 < st_width t))"

lemma rows_ok_Cons:
  "rows_ok w g (row # rows) \<longleftrightarrow>
   row \<noteq> [] \<and> 0 < row_height row \<and> row_width g row \<le> w \<and> (\<forall>t \<in> set row. 0 < st_width t) \<and> rows_ok w g rows"
  by (simp add: rows_ok_def)

lemma rows_height_Cons:
  "rows_height g (row # rows) = of_int (row_height row) + (if rows = [] then 0 else g + rows_height g rows)"
  by (simp add: rows_height_def)

lemma rows_height_nonneg: "0 \<le> g \<Longrightarrow> rows_ok w g rows \<Longrightarrow> 0 \<le> rows_height g rows"
proof (induction rows)
  case (Cons row rows)
  then have "0 \<le> rows_height g rows" "0 < row_height row" by (simp_all add: rows_ok_Cons)
  with Cons.prems(1) show ?case by (simp add: rows_height_Cons)
qed (simp add: rows_height_def)

lemma place_rows_frames:
  assumes "0 \<le> g" and "rows_ok w g rows" and "e \<in> set (place_rows ax w g y rows)"
  shows "ax \<le> r_x (snd e) \<and> r_x (snd e) + r_width (snd e) \<le> ax + w \<and>
         y \<le> r_y (snd e) \<and> r_y (snd e) + r_height (snd e) \<le> y + rows_height g rows \<and>
         0 < r_width (snd e) \<and> 0 < r_height (snd e)"
  using assms
proof (induction rows arbitrary: y)
  case (Cons row rows)
  have row: "\<forall>t \<in> set row. 0 < st_width t" "row_width g row \<le> w" "0 < row_height row" and rest: "rows_ok w g rows"
    using Cons.prems(2) by (simp_all add: rows_ok_Cons)
  have h: "0 \<le> rows_height g rows" using rows_height_nonneg [OF Cons.prems(1) rest] .
  show ?case
  proof (cases "e \<in> set (place_rows ax w g (y + (of_int (row_height row) + g)) rows)")
    case True
    have "rows \<noteq> []" using True by auto
    with Cons.IH [OF Cons.prems(1) rest True] row(3) Cons.prems(1) show ?thesis
      by (simp add: rows_height_Cons)
  next
    case False
    with Cons.prems(3) have "e \<in> set (place_row (ax + (w - row_width g row) / 2) y (row_height row) g row)" by simp
    from place_row_frames [OF Cons.prems(1) row(1) this] row(2,3) h Cons.prems(1) show ?thesis
      by (auto simp: rows_height_Cons field_simps)
  qed
qed simp

lemma place_rows_apart:
  assumes "0 \<le> g" and "rows_ok w g rows"
  shows "apart (map snd (place_rows ax w g y rows))"
  using assms
proof (induction rows arbitrary: y)
  case (Cons row rows)
  have row: "\<forall>t \<in> set row. 0 < st_width t" and rest: "rows_ok w g rows"
    using Cons.prems(2) by (simp_all add: rows_ok_Cons)
  let ?x = "ax + (w - row_width g row) / 2"
  let ?y = "y + (of_int (row_height row) + g)"
  have "separate (snd e) (snd f)"
    if "e \<in> set (place_row ?x y (row_height row) g row)" "f \<in> set (place_rows ax w g ?y rows)" for e f
    using place_row_frames [OF Cons.prems(1) row that(1)] place_rows_frames [OF Cons.prems(1) rest that(2)]
      Cons.prems(1) by (simp add: separate_def)
  then show ?case
    using place_row_apart [OF Cons.prems(1) row] Cons.IH [OF Cons.prems(1) rest]
    by (auto simp: apart_append list_all_iff)
qed simp

lemma grid_placement:
  fixes x y :: rat
  assumes "0 \<le> g" and "rows_ok w g rows" and "rows_height g rows \<le> h"
  defines "placed \<equiv> gridTilesToAbsolute rows x y w h g"
  shows "map fst placed = map st_cid (concat rows) \<and>
         list_all (inside \<lparr> r_x = x, r_y = y, r_width = w, r_height = h \<rparr>) (map snd placed) \<and>
         apart (map snd placed) \<and> list_all (\<lambda>r. 0 < r_width r \<and> 0 < r_height r) (map snd placed)"
proof -
  let ?y = "y + (h - rows_height g rows) / 2"
  have "inside \<lparr> r_x = x, r_y = y, r_width = w, r_height = h \<rparr> (snd e) \<and> 0 < r_width (snd e) \<and> 0 < r_height (snd e)"
    if "e \<in> set placed" for e
    using place_rows_frames [OF assms(1,2), of e x ?y] that assms(3)
    by (simp add: placed_def gridTilesToAbsolute_def inside_def field_simps)
  then show ?thesis
    by (auto simp: placed_def gridTilesToAbsolute_def place_rows_ids place_rows_apart [OF assms(1,2)] list_all_iff)
qed

section \<open>The chosen candidate\<close>

lemma of_int_sum_list: "of_int (sum_list xs) = sum_list (map of_int xs)"
  by (induction xs) simp_all

definition specs_ok :: "stage_tile_spec list \<Rightarrow> bool" where
  "specs_ok tiles = (\<forall>t \<in> set tiles. MIN_STAGE_TILE_ASPECT \<le> sts_aspectRatio t \<and> sts_aspectRatio t \<le> MAX_STAGE_TILE_ASPECT)"

lemma stage_clamp_bounds:
  "MIN_STAGE_TILE_ASPECT \<le> clampStageTileAspectRatio a" "clampStageTileAspectRatio a \<le> MAX_STAGE_TILE_ASPECT"
  by (auto simp: clampStageTileAspectRatio_def aspect_constants split: option.split jsnum.split)

lemma stage_specs_ok: "specs_ok (stage_specs ps)"
  by (auto simp: specs_ok_def stage_specs_def stage_clamp_bounds)

text \<open>The area is large enough for rows of at least two pixels.\<close>

definition roomy :: "rat \<Rightarrow> rat \<Rightarrow> rat \<Rightarrow> bool" where
  "roomy w h g = (0 \<le> g \<and> 4 * g \<le> w \<and> 22 \<le> w \<and> 2 * g + 114 \<le> h)"

definition row_indices_ok :: "nat \<Rightarrow> nat list \<Rightarrow> bool" where
  "row_indices_ok n row = (row \<noteq> [] \<and> length row \<le> 3 \<and> (\<forall>i \<in> set row. i < n))"

lemma aspect_sum:
  assumes "specs_ok tiles" and "\<forall>i \<in> set row. i < length tiles"
  shows "9 / 16 * of_nat (length row) \<le> (\<Sum>i\<leftarrow>row. sts_aspectRatio (tiles ! i)) \<and>
         (\<Sum>i\<leftarrow>row. sts_aspectRatio (tiles ! i)) \<le> 16 / 9 * of_nat (length row)"
  using assms(2)
proof (induction row)
  case (Cons i row)
  then have "tiles ! i \<in> set tiles" by simp
  with assms(1) have "9 / 16 \<le> sts_aspectRatio (tiles ! i)" "sts_aspectRatio (tiles ! i) \<le> 16 / 9"
    by (auto simp: specs_ok_def aspect_constants)
  with Cons show ?case by (simp add: algebra_simps)
qed simp

lemma row_space:
  assumes "roomy w h g" and "length row \<le> 3"
  shows "w / 2 \<le> w - gaps g (length row) \<and> w - gaps g (length row) \<le> w"
proof -
  have "of_nat (length row - 1) \<le> (2 :: rat)" using assms(2) by simp
  then have "gaps g (length row) \<le> g * 2"
    using assms(1) unfolding gaps_def roomy_def by (intro mult_left_mono) auto
  moreover have "0 \<le> gaps g (length row)" using assms(1) by (simp add: roomy_def gaps_nonneg)
  ultimately show ?thesis using assms(1) by (simp add: roomy_def)
qed

lemma base_bounds:
  assumes "specs_ok tiles" and "roomy w h g" and "row_indices_ok (length tiles) row"
  shows "3 / 32 * w \<le> base_height tiles w g row \<and> base_height tiles w g row \<le> 16 / 9 * w \<and>
         base_height tiles w g row * (\<Sum>i\<leftarrow>row. sts_aspectRatio (tiles ! i)) = w - gaps g (length row) \<and>
         0 < (\<Sum>i\<leftarrow>row. sts_aspectRatio (tiles ! i))"
proof -
  define A where "A = (\<Sum>i\<leftarrow>row. sts_aspectRatio (tiles ! i))"
  define R where "R = w - gaps g (length row)"
  have k: "1 \<le> (of_nat (length row) :: rat)" "(of_nat (length row) :: rat) \<le> 3"
    using assms(3) by (cases row; simp add: row_indices_ok_def)+
  have "9 / 16 * of_nat (length row) \<le> A \<and> A \<le> 16 / 9 * of_nat (length row)"
    unfolding A_def using assms(1,3) by (intro aspect_sum) (simp_all add: row_indices_ok_def)
  with k have A: "9 / 16 \<le> A" "A \<le> 16 / 3" by linarith+
  have R: "w / 2 \<le> R" "R \<le> w" using row_space [OF assms(2), of row] assms(3) by (simp_all add: R_def row_indices_ok_def)
  have w: "0 < w" using assms(2) by (simp add: roomy_def)
  have b: "base_height tiles w g row = R / A"
    using A R w by (simp add: base_height_def Let_def flip: A_def R_def)
  have "3 / 32 * w * A \<le> 3 / 32 * w * (16 / 3)" using A w by (intro mult_left_mono) auto
  then have "3 / 32 * w * A \<le> R" using R by linarith
  moreover have "16 / 9 * w * (9 / 16) \<le> 16 / 9 * w * A" using A w by (intro mult_left_mono) auto
  then have "R \<le> 16 / 9 * w * A" using R by linarith
  ultimately show ?thesis using A by (simp add: b A_def [symmetric] R_def [symmetric] field_simps)
qed

definition candidate_ok :: "nat \<Rightarrow> nat list list \<Rightarrow> bool" where
  "candidate_ok n rows = (rows \<noteq> [] \<and> length rows \<le> 3 \<and> list_all (row_indices_ok n) rows \<and> concat rows = [0..<n])"

lemma candidate_rows_ok: "1 \<le> n \<Longrightarrow> n \<le> 3 \<Longrightarrow> \<forall>rows \<in> set (candidate_rows n). candidate_ok n rows"
proof -
  assume "1 \<le> n" "n \<le> 3"
  then consider "n = 1" | "n = 2" | "n = 3" by linarith
  then show ?thesis
    by cases (simp_all add: candidate_rows_def candidate_ok_def row_indices_ok_def upt_rec)
qed

lemma total_bounds:
  assumes "specs_ok tiles" and "roomy w h g" and "list_all (row_indices_ok (length tiles)) rows"
  shows "3 / 32 * w * of_nat (length rows) \<le> sum_list (map (base_height tiles w g) rows) \<and>
         sum_list (map (base_height tiles w g) rows) \<le> 16 / 9 * w * of_nat (length rows)"
  using assms(3)
proof (induction rows)
  case (Cons row rows)
  with base_bounds [OF assms(1,2), of row] show ?case by (simp add: algebra_simps)
qed simp

text \<open>The scale of a candidate, and that it leaves every row at least two pixels.\<close>

lemma scale_bounds:
  assumes "specs_ok tiles" and "roomy w h g" and "candidate_ok (length tiles) rows"
  defines "tot \<equiv> sum_list (map (base_height tiles w g) rows)" and "vgap \<equiv> gaps g (length rows)"
  defines "scale \<equiv> min 1 ((h - vgap) / tot)"
  shows "0 < tot \<and> vgap < h \<and> 0 < scale \<and> scale \<le> 1 \<and> scale * tot \<le> h - vgap \<and>
         (\<forall>row \<in> set rows. 2 \<le> base_height tiles w g row * scale)"
proof -
  have r: "list_all (row_indices_ok (length tiles)) rows" "rows \<noteq> []" "length rows \<le> 3"
    using assms(3) by (simp_all add: candidate_ok_def)
  have w: "22 \<le> w" "0 \<le> g" "2 * g + 114 \<le> h" using assms(2) by (simp_all add: roomy_def)
  have k: "1 \<le> (of_nat (length rows) :: rat)" "(of_nat (length rows) :: rat) \<le> 3"
    using r by (cases rows; simp)+
  note t = total_bounds [OF assms(1,2) r(1)]
  have "3 / 32 * w * 1 \<le> 3 / 32 * w * of_nat (length rows)" using k w by (intro mult_left_mono) auto
  then have t0: "0 < tot" using t w unfolding tot_def by linarith
  have "16 / 9 * w * of_nat (length rows) \<le> 16 / 9 * w * 3" using k w by (intro mult_left_mono) auto
  then have t1: "tot \<le> 16 / 3 * w" using t unfolding tot_def by linarith
  have "of_nat (length rows - 1) \<le> (2 :: rat)" using r(3) by simp
  then have "vgap \<le> g * 2" using w unfolding vgap_def gaps_def by (intro mult_left_mono) auto
  then have v: "114 \<le> h - vgap" using w by linarith
  have s: "0 < scale" "scale \<le> 1" using t0 v by (auto simp: scale_def)
  have st: "scale * tot \<le> h - vgap"
    using t0 by (simp add: scale_def min_def field_simps)
  have "2 \<le> base_height tiles w g row * scale" if "row \<in> set rows" for row
  proof -
    have b: "3 / 32 * w \<le> base_height tiles w g row"
      using base_bounds [OF assms(1,2), of row] r(1) that by (simp add: list_all_iff)
    show ?thesis
    proof (cases "scale = 1")
      case True
      then show ?thesis using b w by simp
    next
      case False
      then have sc: "scale = (h - vgap) / tot" by (auto simp: scale_def min_def split: if_splits)
      have "2 * tot \<le> 32 / 3 * w" using t1 by simp
      also have "\<dots> \<le> 3 / 32 * w * 114" using w by simp
      also have "\<dots> \<le> base_height tiles w g row * (h - vgap)" using b v w by (intro mult_mono) auto
      finally show ?thesis using t0 by (simp add: sc field_simps)
    qed
  qed
  with t0 s st v show ?thesis by auto
qed

lemma lay_row_fits:
  assumes "specs_ok tiles" and "roomy w h g" and "row_indices_ok (length tiles) row"
    and "0 < scale" and "scale \<le> 1" and "2 \<le> base_height tiles w g row * scale"
  defines "laid \<equiv> lay_row tiles scale (row, base_height tiles w g row)"
  shows "laid \<noteq> [] \<and> row_height laid = \<lfloor>base_height tiles w g row * scale\<rfloor> \<and> 2 \<le> row_height laid \<and>
         row_width g laid \<le> w \<and> (\<forall>t \<in> set laid. 0 < st_width t) \<and>
         map st_cid laid = map (\<lambda>i. sts_cid (tiles ! i)) row"
proof -
  define b where "b = base_height tiles w g row"
  define H where "H = \<lfloor>b * scale\<rfloor>"
  let ?A = "\<Sum>i\<leftarrow>row. sts_aspectRatio (tiles ! i)"
  have H: "2 \<le> H" "of_int H \<le> b * scale" using assms(6) by (simp_all add: H_def b_def le_floor_iff)
  have laid: "laid = map (\<lambda>i. \<lparr> st_cid = sts_cid (tiles ! i),
      st_width = max 1 \<lfloor>sts_aspectRatio (tiles ! i) * of_int H\<rfloor>, st_height = H \<rparr>) row"
    using H(1) by (simp add: laid_def lay_row_def Let_def flip: b_def H_def)
  have ne: "row \<noteq> []" using assms(3) by (simp add: row_indices_ok_def)
  have asp: "9 / 16 \<le> sts_aspectRatio (tiles ! i)" if "i \<in> set row" for i
    using assms(1,3) that by (auto simp: specs_ok_def row_indices_ok_def aspect_constants)
  have wi: "of_int (max 1 \<lfloor>sts_aspectRatio (tiles ! i) * of_int H\<rfloor>) \<le> sts_aspectRatio (tiles ! i) * of_int H"
    if "i \<in> set row" for i
  proof -
    have "9 / 16 * 2 \<le> sts_aspectRatio (tiles ! i) * of_int H"
      using asp [OF that] H(1) by (intro mult_mono) auto
    then show ?thesis by (auto simp: max_def)
  qed
  have "of_int (\<Sum>t\<leftarrow>laid. st_width t) = (\<Sum>i\<leftarrow>row. of_int (max 1 \<lfloor>sts_aspectRatio (tiles ! i) * of_int H\<rfloor>) :: rat)"
    by (simp add: laid o_def of_int_sum_list)
  also have "\<dots> \<le> (\<Sum>i\<leftarrow>row. sts_aspectRatio (tiles ! i) * of_int H)"
    by (rule sum_list_mono) (rule wi)
  also have "\<dots> = ?A * of_int H" by (rule sum_list_mult_const)
  also have "\<dots> \<le> ?A * b"
  proof (rule mult_left_mono)
    have "b * scale \<le> b * 1" using assms(2,5) base_bounds [OF assms(1-3)]
      by (intro mult_left_mono) (auto simp: b_def roomy_def)
    with H(2) show "of_int H \<le> b" by linarith
    show "0 \<le> ?A" using base_bounds [OF assms(1-3)] by simp
  qed
  also have "\<dots> = w - gaps g (length row)" using base_bounds [OF assms(1-3)] by (simp add: b_def mult.commute)
  finally have "row_width g laid \<le> w" by (simp add: row_width_def laid)
  moreover have "row_height laid = H" using ne by (cases row) (simp_all add: laid row_height_def)
  ultimately show ?thesis using ne H by (auto simp: laid H_def b_def)
qed

lemma candidate_laid:
  assumes "specs_ok tiles" and "roomy w h g" and "candidate_ok (length tiles) rows"
  shows "\<exists>l. lay_candidate tiles w h g rows = Some l \<and> rows_ok w g l \<and> rows_height g l \<le> h \<and> l \<noteq> [] \<and>
             map st_cid (concat l) = map sts_cid tiles"
proof -
  define tot where "tot = sum_list (map (base_height tiles w g) rows)"
  define vgap where "vgap = gaps g (length rows)"
  define scale where "scale = min 1 ((h - vgap) / tot)"
  let ?l = "map (\<lambda>row. lay_row tiles scale (row, base_height tiles w g row)) rows"
  note sc = scale_bounds [OF assms, folded tot_def vgap_def, folded scale_def]
  have ok: "row_indices_ok (length tiles) row" if "row \<in> set rows" for row
    using assms(3) that by (simp add: candidate_ok_def list_all_iff)
  have fits: "lay_row tiles scale (row, base_height tiles w g row) \<noteq> [] \<and>
      row_height (lay_row tiles scale (row, base_height tiles w g row)) = \<lfloor>base_height tiles w g row * scale\<rfloor> \<and>
      2 \<le> row_height (lay_row tiles scale (row, base_height tiles w g row)) \<and>
      row_width g (lay_row tiles scale (row, base_height tiles w g row)) \<le> w \<and>
      (\<forall>t \<in> set (lay_row tiles scale (row, base_height tiles w g row)). 0 < st_width t) \<and>
      map st_cid (lay_row tiles scale (row, base_height tiles w g row)) = map (\<lambda>i. sts_cid (tiles ! i)) row"
    if "row \<in> set rows" for row
    using lay_row_fits [OF assms(1,2) ok [OF that]] sc that by blast
  have zip: "zip rows (map f rows) = map (\<lambda>row. (row, f row)) rows" for f :: "nat list \<Rightarrow> rat"
    by (induction rows) simp_all
  have l: "lay_candidate tiles w h g rows = Some ?l"
    using sc by (simp add: lay_candidate_def Let_def zip o_def flip: tot_def vgap_def scale_def)
  have ok_l: "rows_ok w g ?l" using fits by (fastforce simp: rows_ok_def)
  have "of_int (\<Sum>row\<leftarrow>?l. row_height row) = (\<Sum>row\<leftarrow>rows. of_int \<lfloor>base_height tiles w g row * scale\<rfloor> :: rat)"
    using fits by (simp add: o_def of_int_sum_list cong: map_cong)
  also have "\<dots> \<le> (\<Sum>row\<leftarrow>rows. base_height tiles w g row * scale)" by (rule sum_list_mono) simp
  also have "\<dots> = tot * scale" unfolding tot_def by (rule sum_list_mult_const)
  also have "\<dots> \<le> h - vgap" using sc by (simp add: mult.commute)
  finally have "rows_height g ?l \<le> h" by (simp add: rows_height_def vgap_def)
  moreover have "map st_cid (concat ?l) = map (\<lambda>i. sts_cid (tiles ! i)) (concat rows)"
    using fits by (simp add: map_concat o_def cong: map_cong)
  then have "map st_cid (concat ?l) = map sts_cid tiles"
    using assms(3) by (auto simp: candidate_ok_def intro!: nth_equalityI)
  moreover have "?l \<noteq> []" using assms(3) by (simp add: candidate_ok_def)
  ultimately show ?thesis using l ok_l by blast
qed

text \<open>Once a candidate can be laid out, one of them is chosen.\<close>

lemma laid_positive:
  assumes "lay_candidate tiles w h g rows = Some l"
  shows "\<forall>row \<in> set l. \<forall>t \<in> set row. 1 \<le> st_width t \<and> 1 \<le> st_height t"
  using assms by (auto simp: lay_candidate_def lay_row_def Let_def split: if_splits)

lemma first_improves:
  assumes "lay_candidate tiles w h g rows = Some l"
  shows "improves l no_layout"
proof -
  have "\<forall>e \<in> set (short_edges l). 0 \<le> e"
    using laid_positive [OF assms] by (fastforce simp: short_edges_def)
  then have "0 \<le> harmonic_mean (short_edges l)"
    unfolding harmonic_mean_def by (auto intro!: divide_nonneg_nonneg sum_list_nonneg)
  then show ?thesis by (auto simp: improves_def no_layout_def Let_def)
qed

lemma consider_choice:
  "bl_layout (consider_candidate tiles w h g rows b) = bl_layout b \<or>
   lay_candidate tiles w h g rows = Some (bl_layout (consider_candidate tiles w h g rows b))"
  by (auto simp: consider_candidate_def split: option.split)

lemma fold_choice:
  assumes "lay_candidate tiles w h g rows0 = Some (bl_layout b)" and "rows0 \<in> C" and "set cands \<subseteq> C"
  shows "\<exists>rows \<in> C. lay_candidate tiles w h g rows = Some (bl_layout (fold (consider_candidate tiles w h g) cands b))"
  using assms
proof (induction cands arbitrary: b rows0)
  case (Cons rows cands)
  let ?b = "consider_candidate tiles w h g rows b"
  have "\<exists>r \<in> C. lay_candidate tiles w h g r = Some (bl_layout ?b)"
    using consider_choice [of tiles w h g rows b] Cons.prems by (metis insert_subset list.set(2))
  then show ?case using Cons.IH Cons.prems(3) by auto
qed auto

lemma stage_layout_choice:
  assumes "specs_ok tiles" and "roomy w h g" and "1 \<le> length tiles" and "length tiles \<le> 3"
  shows "\<exists>rows \<in> set (candidate_rows (length tiles)). candidate_ok (length tiles) rows \<and>
           lay_candidate tiles w h g rows = Some (computeStageLayout tiles w h g)"
proof -
  note ok = candidate_rows_ok [OF assms(3,4)]
  obtain rows0 cands where c: "candidate_rows (length tiles) = rows0 # cands"
    by (cases "candidate_rows (length tiles)") (auto simp: candidate_rows_def split: if_splits)
  obtain l where l: "lay_candidate tiles w h g rows0 = Some l"
    using candidate_laid [OF assms(1,2)] ok c by fastforce
  then have "bl_layout (consider_candidate tiles w h g rows0 no_layout) = l"
    using first_improves [OF l] by (simp add: consider_candidate_def)
  with l have "\<exists>rows \<in> set (rows0 # cands). lay_candidate tiles w h g rows =
      Some (bl_layout (fold (consider_candidate tiles w h g) cands (consider_candidate tiles w h g rows0 no_layout)))"
    by (intro fold_choice) auto
  moreover have "computeStageLayout tiles w h g = bl_layout (fold (consider_candidate tiles w h g) (rows0 # cands) no_layout)"
    using assms(2,3) by (auto simp: computeStageLayout_def c roomy_def)
  ultimately show ?thesis using ok c by fastforce
qed

text \<open>The grid: every tile once, in order, inside the area and apart.\<close>

definition well_placed :: "rect \<Rightarrow> rect list \<Rightarrow> bool" where
  "well_placed area rs =
     (list_all (inside area) rs \<and> apart rs \<and> list_all (\<lambda>r. 0 < r_width r \<and> 0 < r_height r) rs)"

lemma grid_tiles_placed:
  assumes "roomy (r_width area) (r_height area) g" and "1 \<le> length remotes" and "length remotes \<le> 3"
  shows "map fst (grid_tiles area g remotes) = map pa_id remotes \<and>
         well_placed area (map snd (grid_tiles area g remotes))"
proof -
  let ?tiles = "stage_specs remotes"
  let ?l = "computeStageLayout ?tiles (r_width area) (r_height area) g"
  obtain rows where "candidate_ok (length ?tiles) rows"
    and "lay_candidate ?tiles (r_width area) (r_height area) g rows = Some ?l"
    using stage_layout_choice [OF stage_specs_ok assms(1), of remotes] assms(2,3) by (auto simp: stage_specs_def)
  with candidate_laid [OF stage_specs_ok assms(1), of remotes rows]
  have l: "rows_ok (r_width area) g ?l" "rows_height g ?l \<le> r_height area"
    "map st_cid (concat ?l) = map sts_cid ?tiles" by auto
  have g: "0 \<le> g" using assms(1) by (simp add: roomy_def)
  have "\<lparr> r_x = r_x area, r_y = r_y area, r_width = r_width area, r_height = r_height area \<rparr> = area" by simp
  with grid_placement [OF g l(1,2), of "r_x area" "r_y area"] l(3) show ?thesis
    by (simp add: grid_tiles_def well_placed_def) (simp add: stage_specs_def o_def)
qed

section \<open>The filmstrip\<close>

lemma apart_sorted: "apart rs = sorted_wrt separate rs"
  by (induction rs) (simp_all add: list_all_iff)

lemma primary_ratio_bounds: "1 / 2 \<le> primary_ratio along across n g m" "primary_ratio along across n g m \<le> 3 / 4"
  by (auto simp: primary_ratio_def PRIMARY_RATIO_def Let_def max_def min_def)

lemma filmstrip_frames:
  "map tl_frame (computePrimaryWithFilmstrip i ty f ps area g c grp) =
     (let n = length ps;
          long = (if r_width area > r_height area then r_width area else r_height area);
          across = (if r_width area > r_height area then r_height area else r_width area);
          ratio = primary_ratio long across n g (thumbnail_min grp)
      in primary_frame area ratio g # map (strip_frame area ratio g n) [0..<n])"
  by (auto simp: computePrimaryWithFilmstrip_def Let_def strip_tile_def intro!: nth_equalityI)

lemma filmstrip_ids: "map tl_id (computePrimaryWithFilmstrip i ty f ps area g c grp) = i # map pa_id ps"
  by (auto simp: computePrimaryWithFilmstrip_def Let_def strip_tile_def intro!: nth_equalityI)

text \<open>The cells of a strip: \<open>n\<close> cells of equal size with gaps fill the side.\<close>

lemma strip_cells:
  fixes s g :: rat
  assumes "0 \<le> g" and "gaps g n < s"
  defines "cell \<equiv> (s - gaps g n) / of_nat n"
  shows "i < n \<Longrightarrow> 0 \<le> of_nat i * (cell + g) \<and> of_nat i * (cell + g) + cell \<le> s \<and> 0 < cell"
    and "i < j \<Longrightarrow> j < n \<Longrightarrow> of_nat i * (cell + g) + cell \<le> of_nat j * (cell + g)"
proof -
  have c: "0 < cell" if "0 < n" using assms(2) that by (simp add: cell_def)
  show "0 \<le> of_nat i * (cell + g) \<and> of_nat i * (cell + g) + cell \<le> s \<and> 0 < cell" if "i < n"
  proof -
    have "of_nat i * (cell + g) \<le> of_nat (n - 1) * (cell + g)"
      using that c assms(1) by (intro mult_right_mono) auto
    also have "\<dots> + cell = s"
    proof -
      have "of_nat n * cell = s - gaps g n" using that by (simp add: cell_def)
      then show ?thesis using that by (cases n) (simp_all add: gaps_def algebra_simps)
    qed
    finally have "of_nat i * (cell + g) + cell \<le> s" by simp
    with that c assms(1) show ?thesis by simp
  qed
  show "of_nat i * (cell + g) + cell \<le> of_nat j * (cell + g)" if "i < j" "j < n"
  proof -
    have "(of_nat i + 1) * (cell + g) \<le> of_nat j * (cell + g)"
      using that c assms(1) by (intro mult_right_mono) auto
    with assms(1) show ?thesis by (simp add: algebra_simps)
  qed
qed

lemma filmstrip_placed:
  assumes "0 \<le> g" and "3 * g < r_width area" and "3 * g < r_height area"
    and "0 < r_width area" and "0 < r_height area" and "length ps \<le> 4"
  shows "well_placed area (map tl_frame (computePrimaryWithFilmstrip i ty f ps area g c grp))"
proof -
  let ?n = "length ps"
  define wide where "wide = (r_width area > r_height area)"
  define long where "long = (if wide then r_width area else r_height area)"
  define across where "across = (if wide then r_height area else r_width area)"
  define ratio where "ratio = primary_ratio long across ?n g (thumbnail_min grp)"
  define primary where "primary = long * ratio - g / 2"
  define cell where "cell = (across - gaps g ?n) / of_nat ?n"
  have "gaps g ?n \<le> g * 3" using assms(1,6) unfolding gaps_def by (intro mult_left_mono) auto
  then have gn: "gaps g ?n < across" using assms(2,3) by (simp add: across_def)
  have long: "3 * g < long" "0 < long" using assms by (simp_all add: long_def)
  have r: "1 / 2 \<le> ratio" "ratio \<le> 3 / 4" unfolding ratio_def by (rule primary_ratio_bounds)+
  have "long * (1 / 2) \<le> long * ratio" "long * ratio \<le> long * (3 / 4)"
    using r long by (auto intro!: mult_left_mono)
  then have pr: "0 < primary" "primary + g < long" using long assms(1) unfolding primary_def by linarith+
  note cells = strip_cells [OF assms(1) gn, folded cell_def]
  have frames: "map tl_frame (computePrimaryWithFilmstrip i ty f ps area g c grp) =
      primary_frame area ratio g # map (strip_frame area ratio g ?n) [0..<?n]"
    by (simp add: filmstrip_frames Let_def ratio_def long_def across_def wide_def)
  have p: "primary_frame area ratio g =
      (if wide then area\<lparr> r_width := primary \<rparr> else area\<lparr> r_height := primary \<rparr>)"
    by (simp add: primary_frame_def primary_def long_def wide_def)
  have st: "strip_frame area ratio g ?n i =
      (if wide then \<lparr> r_x = r_x area + primary + g, r_y = r_y area + of_nat i * (cell + g),
                      r_width = long - primary - g, r_height = cell \<rparr>
       else \<lparr> r_x = r_x area + of_nat i * (cell + g), r_y = r_y area + primary + g,
              r_width = cell, r_height = long - primary - g \<rparr>)" for i
    by (simp add: strip_frame_def primary_def long_def across_def cell_def wide_def Let_def)
  have sides: "wide \<Longrightarrow> r_width area = long \<and> r_height area = across"
    "\<not> wide \<Longrightarrow> r_height area = long \<and> r_width area = across" by (simp_all add: long_def across_def)
  have pos: "0 < across" using assms(4,5) by (simp add: across_def)
  have one: "inside area (strip_frame area ratio g ?n i) \<and>
      separate (primary_frame area ratio g) (strip_frame area ratio g ?n i) \<and>
      0 < r_width (strip_frame area ratio g ?n i) \<and> 0 < r_height (strip_frame area ratio g ?n i)"
    if "i < ?n" for i
    using cells(1) [OF that] pr sides assms(1)
    by (cases wide) (simp_all add: st p inside_def separate_def)
  have two: "separate (strip_frame area ratio g ?n i) (strip_frame area ratio g ?n j)" if "i < j" "j < ?n" for i j
    using cells(2) [OF that] by (simp add: st separate_def)
  have "inside area (primary_frame area ratio g) \<and> 0 < r_width (primary_frame area ratio g) \<and>
      0 < r_height (primary_frame area ratio g)"
    using pr sides pos assms(1) by (cases wide) (simp_all add: p inside_def)
  moreover have "sorted_wrt separate (map (strip_frame area ratio g ?n) [0..<?n])"
    by (simp add: sorted_wrt_map sorted_wrt_iff_nth_less two)
  ultimately show ?thesis using one
    by (simp add: well_placed_def frames list_all_iff apart_sorted)
qed

section \<open>Properties\<close>

definition shown :: "layout_result \<Rightarrow> string list" where
  "shown l = map tl_id (lr_tiles l) @ map pl_participantId (case lr_localPip l of None \<Rightarrow> [] | Some p \<Rightarrow> [p])"

text \<open>The ids that should be shown: shared content stands for its owner, unless only one is in the call.\<close>

definition to_show :: "call_scene \<Rightarrow> string set" where
  "to_show scene =
     (let ids = pa_id ` set (sc_participants scene) in
      if length (sc_participants scene) = 1 then ids
      else case sc_contentSource scene of
             None \<Rightarrow> ids
           | Some s \<Rightarrow> insert (so_owner s @ ''_content'') (ids - {so_owner s}))"

text \<open>A call of at most four, the local participant among them, on a screen that is not tiny.\<close>

definition scene_ok :: "call_scene \<Rightarrow> bool" where
  "scene_ok scene =
     (distinct (map pa_id (sc_participants scene)) \<and> length (sc_participants scene) \<le> 4 \<and>
      list_ex (\<lambda>p. pa_id p = sc_localParticipantId scene) (sc_participants scene) \<and>
      list_all (\<lambda>p. (pa_role p = Local) = (pa_id p = sc_localParticipantId scene)) (sc_participants scene) \<and>
      pred_option (\<lambda>s. list_all (\<lambda>p. pa_id p \<noteq> so_owner s @ ''_content'') (sc_participants scene)) (sc_contentSource scene) \<and>
      138 \<le> r_width (padded_area scene) \<and> 138 \<le> r_height (padded_area scene))"

lemma padded_inside: "inside (available_area scene) (padded_area scene)"
  by (cases "deviceGroup (sc_viewportWidth scene) (sc_viewportHeight scene)")
    (simp_all add: inside_def available_area_def padded_area_def Let_def)

lemma well_placed_padded: "well_placed (padded_area scene) rs \<Longrightarrow> well_placed (available_area scene) rs"
  using inside_trans [OF padded_inside] by (auto simp: well_placed_def list_all_iff)

lemma device_roomy:
  assumes "scene_ok scene"
  shows "roomy (r_width (padded_area scene)) (r_height (padded_area scene)) (layout_gap grp)"
    and "0 \<le> layout_gap grp" "3 * layout_gap grp < r_width (padded_area scene)"
    and "3 * layout_gap grp < r_height (padded_area scene)"
    and "0 < r_width (padded_area scene)" "0 < r_height (padded_area scene)"
  using assms by (cases grp; simp add: scene_ok_def roomy_def)+

lemma pip_id [simp]: "pl_participantId (computePip i w h grp a) = i"
  by (simp add: computePip_def Let_def)

lemma find_found: "x \<in> set xs \<Longrightarrow> P x \<Longrightarrow> \<exists>y. find P xs = Some y \<and> P y \<and> y \<in> set xs"
  by (induction xs) auto

lemma find_nothing: "find P xs = None \<longleftrightarrow> (\<forall>x \<in> set xs. \<not> P x)"
  by (induction xs) auto

text \<open>The participants: the local one and the remotes.\<close>

lemma remotes:
  assumes "scene_ok scene"
  shows "filter (\<lambda>p. pa_role p = Remote) (sc_participants scene) =
           filter (\<lambda>p. pa_id p \<noteq> sc_localParticipantId scene) (sc_participants scene)"
    and "\<exists>l. find (\<lambda>p. pa_id p = sc_localParticipantId scene) (sc_participants scene) = Some l \<and>
             pa_id l = sc_localParticipantId scene \<and> l \<in> set (sc_participants scene)"
    and "Suc (length (filter (\<lambda>p. pa_role p = Remote) (sc_participants scene))) = length (sc_participants scene)"
proof -
  have r: "pa_role p = Remote \<longleftrightarrow> pa_id p \<noteq> sc_localParticipantId scene" if "p \<in> set (sc_participants scene)" for p
    using assms that by (cases "pa_role p") (auto simp: scene_ok_def list_all_iff)
  then show f: "filter (\<lambda>p. pa_role p = Remote) (sc_participants scene) =
      filter (\<lambda>p. pa_id p \<noteq> sc_localParticipantId scene) (sc_participants scene)"
    by (rule filter_cong [OF refl])
  obtain l where l: "l \<in> set (sc_participants scene)" "pa_id l = sc_localParticipantId scene"
    using assms by (auto simp: scene_ok_def list_ex_iff)
  then show "\<exists>l. find (\<lambda>p. pa_id p = sc_localParticipantId scene) (sc_participants scene) = Some l \<and>
      pa_id l = sc_localParticipantId scene \<and> l \<in> set (sc_participants scene)"
    using find_found [of l "sc_participants scene" "\<lambda>p. pa_id p = sc_localParticipantId scene"] by blast
  have one: "length (filter (\<lambda>p. pa_id p = k) ps) = 1" if "distinct (map pa_id ps)" "k \<in> pa_id ` set ps"
    for k and ps :: "scene_participant list"
    using that by (induction ps) (auto simp: filter_empty_conv image_iff)
  have "sc_localParticipantId scene \<in> pa_id ` set (sc_participants scene)" using l by (metis image_eqI)
  with one assms have "length (filter (\<lambda>p. pa_id p = sc_localParticipantId scene) (sc_participants scene)) = 1"
    by (simp add: scene_ok_def)
  with sum_length_filter_compl [of "\<lambda>p. pa_id p = sc_localParticipantId scene" "sc_participants scene"]
  show "Suc (length (filter (\<lambda>p. pa_role p = Remote) (sc_participants scene))) = length (sc_participants scene)"
    by (simp add: f)
qed

lemma stable_order:
  "set (participantsStableOrder ps k) = set ps" "length (participantsStableOrder ps k) = length ps"
  "distinct (map pa_id ps) \<Longrightarrow> distinct (map pa_id (participantsStableOrder ps k))"
  using sum_length_filter_compl [of "\<lambda>p. pa_id p = k" ps]
  by (auto simp: participantsStableOrder_def distinct_map_filter)

lemma filmstrip_scene:
  assumes "scene_ok scene"
  shows "well_placed (available_area scene) (map tl_frame (lr_tiles (layout_filmstrip scene m i ty leftOut grp)))"
    and "set (shown (layout_filmstrip scene m i ty leftOut grp)) = insert i (pa_id ` set (sc_participants scene) - {leftOut})"
    and "\<forall>p \<in> set (sc_participants scene). pa_id p \<noteq> i \<or> i = leftOut \<Longrightarrow>
         distinct (shown (layout_filmstrip scene m i ty leftOut grp))"
proof -
  let ?ps = "filter (\<lambda>p. pa_id p \<noteq> leftOut) (sc_participants scene)"
  have "length ?ps \<le> length (sc_participants scene)" by (rule length_filter_le)
  then have n: "length ?ps \<le> 4" using assms unfolding scene_ok_def by linarith
  show "well_placed (available_area scene) (map tl_frame (lr_tiles (layout_filmstrip scene m i ty leftOut grp)))"
    unfolding layout_filmstrip_def layout_result.simps
    by (rule well_placed_padded, rule filmstrip_placed [OF device_roomy(2-6) [OF assms]]) (simp add: stable_order n)
  show "set (shown (layout_filmstrip scene m i ty leftOut grp)) = insert i (pa_id ` set (sc_participants scene) - {leftOut})"
    by (auto simp: shown_def layout_filmstrip_def filmstrip_ids stable_order)
  have "distinct (map pa_id ?ps)" using assms by (simp add: scene_ok_def distinct_map_filter)
  then show "distinct (shown (layout_filmstrip scene m i ty leftOut grp))"
    if "\<forall>p \<in> set (sc_participants scene). pa_id p \<noteq> i \<or> i = leftOut"
    using that by (auto simp: shown_def layout_filmstrip_def filmstrip_ids stable_order)
qed

lemma grid_scene:
  assumes "scene_ok scene" and "3 \<le> length (sc_participants scene)"
  defines "local \<equiv> find (\<lambda>p. pa_id p = sc_localParticipantId scene) (sc_participants scene)"
  shows "well_placed (available_area scene) (map tl_frame (lr_tiles (layout_grid scene grp local)))"
    and "set (shown (layout_grid scene grp local)) = pa_id ` set (sc_participants scene)"
    and "distinct (shown (layout_grid scene grp local))"
proof -
  let ?rs = "filter (\<lambda>p. pa_role p = Remote) (sc_participants scene)"
  let ?placed = "grid_tiles (padded_area scene) (layout_gap grp) ?rs"
  have "1 \<le> length ?rs" "length ?rs \<le> 3" using remotes(3) [OF assms(1)] assms by (simp_all add: scene_ok_def)
  from grid_tiles_placed [OF device_roomy(1) [OF assms(1)] this]
  have g: "map fst ?placed = map pa_id ?rs" "well_placed (padded_area scene) (map snd ?placed)" by simp_all
  have frames: "map tl_frame (lr_tiles (layout_grid scene grp local)) = map snd ?placed"
    and ids: "map tl_id (lr_tiles (layout_grid scene grp local)) = map fst ?placed"
    by (auto simp: layout_grid_def Let_def intro!: nth_equalityI)
  obtain l where l: "local = Some l" "pa_id l = sc_localParticipantId scene" "l \<in> set (sc_participants scene)"
    using remotes(2) [OF assms(1)] by (auto simp: local_def)
  have sh: "shown (layout_grid scene grp local) = map pa_id ?rs @ [sc_localParticipantId scene]"
    unfolding shown_def ids g(1) using l
    by (simp add: layout_grid_def Let_def pip_of_def)
  show "well_placed (available_area scene) (map tl_frame (lr_tiles (layout_grid scene grp local)))"
    unfolding frames by (rule well_placed_padded [OF g(2)])
  show "set (shown (layout_grid scene grp local)) = pa_id ` set (sc_participants scene)"
    unfolding sh remotes(1) [OF assms(1)] using l(3) by (auto simp flip: l(2))
  have "distinct (map pa_id ?rs)" using assms(1) by (simp add: scene_ok_def distinct_map_filter)
  then show "distinct (shown (layout_grid scene grp local))"
    unfolding sh remotes(1) [OF assms(1)] by auto
qed

lemma pair_scene:
  assumes "scene_ok scene" and "length (sc_participants scene) = 2"
  defines "local \<equiv> find (\<lambda>p. pa_id p = sc_localParticipantId scene) (sc_participants scene)"
  shows "well_placed (available_area scene) (map tl_frame (lr_tiles (layout_pair scene local)))"
    and "set (shown (layout_pair scene local)) = pa_id ` set (sc_participants scene)"
    and "distinct (shown (layout_pair scene local))"
proof -
  obtain l where l: "local = Some l" "pa_id l = sc_localParticipantId scene" "l \<in> set (sc_participants scene)"
    using remotes(2) [OF assms(1)] by (auto simp: local_def)
  have "length (filter (\<lambda>p. pa_role p = Remote) (sc_participants scene)) = 1"
    using remotes(3) [OF assms(1)] assms(2) by simp
  then obtain r where fr: "filter (\<lambda>p. pa_role p = Remote) (sc_participants scene) = [r]"
    by (auto simp: length_Suc_conv)
  have "r \<in> set (filter (\<lambda>p. pa_role p = Remote) (sc_participants scene))" unfolding fr by simp
  moreover from this have "pa_id r \<noteq> sc_localParticipantId scene" unfolding remotes(1) [OF assms(1)] by simp
  ultimately have r: "r \<in> set (sc_participants scene)" "pa_role r = Remote" "pa_id r \<noteq> sc_localParticipantId scene"
    by simp_all
  have all: "pa_id ` set (sc_participants scene) = {sc_localParticipantId scene, pa_id r}"
  proof -
    have "pa_id p = sc_localParticipantId scene \<or> p = r" if "p \<in> set (sc_participants scene)" for p
    proof (rule disjCI)
      assume "p \<noteq> r"
      then have "p \<notin> set (filter (\<lambda>p. pa_role p = Remote) (sc_participants scene))" unfolding fr by simp
      then show "pa_id p = sc_localParticipantId scene" unfolding remotes(1) [OF assms(1)] using that by simp
    qed
    moreover have "sc_localParticipantId scene \<in> pa_id ` set (sc_participants scene)"
      using l(2,3) by (metis image_eqI)
    ultimately show ?thesis using r(1) by auto
  qed
  have f: "find (\<lambda>p. pa_role p = Remote) (sc_participants scene) = Some r"
  proof -
    obtain q where q: "find (\<lambda>p. pa_role p = Remote) (sc_participants scene) = Some q" "pa_role q = Remote"
      "q \<in> set (sc_participants scene)"
      using find_found [OF r(1), of "\<lambda>p. pa_role p = Remote"] r(2) by blast
    then have "q \<in> set [r]" unfolding fr [symmetric] by simp
    with q show ?thesis by simp
  qed
  have big: "0 < r_width (available_area scene)" "0 < r_height (available_area scene)"
    using padded_inside [of scene] device_roomy(5,6) [OF assms(1)] by (auto simp: inside_def)
  then show "well_placed (available_area scene) (map tl_frame (lr_tiles (layout_pair scene local)))"
    by (simp add: layout_pair_def Let_def f l well_placed_def inside_def)
  have sh: "shown (layout_pair scene local) = (if sc_swapped scene then [pa_id l, pa_id r] else [pa_id r, pa_id l])"
    by (simp add: shown_def layout_pair_def Let_def f l pip_of_def)
  show "set (shown (layout_pair scene local)) = pa_id ` set (sc_participants scene)"
    unfolding sh all using l by auto
  show "distinct (shown (layout_pair scene local))" unfolding sh using l r by simp
qed

lemma solo_scene:
  assumes "scene_ok scene" and "length (sc_participants scene) = 1"
  shows "map pl_participantId (case pip_of scene (find (\<lambda>p. pa_id p = sc_localParticipantId scene)
      (sc_participants scene)) of None \<Rightarrow> [] | Some p \<Rightarrow> [p]) = map pa_id (sc_participants scene)"
  using remotes(2) [OF assms(1)] assms(2) by (auto simp: length_Suc_conv pip_of_def)

lemma layout_correct:
  "scene_ok scene \<Longrightarrow>
   well_placed (available_area scene) (map tl_frame (lr_tiles (computeLayout scene))) \<and>
   set (shown (computeLayout scene)) = to_show scene \<and> distinct (shown (computeLayout scene))"
proof (induction scene rule: computeLayout.induct)
  case (1 scene)
  note ok = 1(3)
  note eq = computeLayout.simps [of scene]
  show ?case
  proof (cases "deriveMode scene")
    case Solo
    then have n: "length (sc_participants scene) = 1" by (auto simp: deriveMode_def split: if_splits)
    have "shown (computeLayout scene) = map pa_id (sc_participants scene)" "lr_tiles (computeLayout scene) = []"
      unfolding eq using Solo solo_scene [OF ok n] by (simp_all add: shown_def Let_def)
    with ok n show ?thesis by (simp add: to_show_def well_placed_def Let_def scene_ok_def)
  next
    case Pair
    then have "length (sc_participants scene) = 2" "sc_contentSource scene = None"
      by (auto simp: deriveMode_def split: if_splits)
    with pair_scene [OF ok] Pair show ?thesis unfolding eq by (simp add: Let_def to_show_def)
  next
    case Grid
    then have "length (sc_participants scene) \<noteq> 1" "length (sc_participants scene) \<noteq> 2" "sc_contentSource scene = None"
      by (auto simp: deriveMode_def split: if_splits)
    moreover have "length (sc_participants scene) \<noteq> 0" using ok by (auto simp: scene_ok_def)
    ultimately have "3 \<le> length (sc_participants scene)" by linarith
    with grid_scene [OF ok] Grid \<open>sc_contentSource scene = None\<close> show ?thesis
      unfolding eq by (simp add: Let_def to_show_def)
  next
    case Focus
    then have m: "length (sc_participants scene) \<noteq> 1" "sc_contentSource scene = None"
      by (auto simp: deriveMode_def split: if_splits)
    show ?thesis
    proof (cases "find (\<lambda>p. Some (pa_id p) = sc_pinnedParticipantId scene) (sc_participants scene)")
      case None
      have "scene_ok (scene\<lparr> sc_pinnedParticipantId := None \<rparr>)" using ok by (simp add: scene_ok_def padded_area_def)
      from 1(1) [OF refl refl Focus None this] show ?thesis
        unfolding eq using Focus None by (simp add: Let_def to_show_def available_area_def)
    next
      case (Some pinned)
      then have "pinned \<in> set (sc_participants scene)" by (auto simp: find_Some_iff)
      with filmstrip_scene [OF ok, where m = Focus and i = "pa_id pinned" and leftOut = "pa_id pinned"] m show ?thesis
        unfolding eq using Focus Some by (auto simp: Let_def to_show_def)
    qed
  next
    case Content
    then obtain src where m: "length (sc_participants scene) \<noteq> 1" "sc_contentSource scene = Some src"
      by (auto simp: deriveMode_def split: if_splits)
    then have "\<forall>p \<in> set (sc_participants scene). pa_id p \<noteq> so_owner src @ ''_content''"
      using ok by (simp add: scene_ok_def list_all_iff)
    with filmstrip_scene [OF ok, where m = Content and i = "so_owner src @ ''_content''" and leftOut = "so_owner src"] m show ?thesis
      unfolding eq using Content by (simp add: Let_def to_show_def)
  qed
qed

definition sample_scene :: call_scene where
  "sample_scene =
     \<lparr> sc_viewportWidth = 390, sc_viewportHeight = 844,
       sc_safeAreaInsets = \<lparr> in_top = 47, in_bottom = 34, in_left = 0, in_right = 0 \<rparr>,
       sc_participants =
         [\<lparr> pa_id = ''me'', pa_role = Local, pa_videoEnabled = True, pa_videoAspectRatio = None \<rparr>,
          \<lparr> pa_id = ''a'', pa_role = Remote, pa_videoEnabled = True, pa_videoAspectRatio = Some (Fin (4 / 3)) \<rparr>,
          \<lparr> pa_id = ''b'', pa_role = Remote, pa_videoEnabled = True, pa_videoAspectRatio = Some NaN \<rparr>],
       sc_localParticipantId = ''me'', sc_activeSpeakerId = None, sc_pinnedParticipantId = Some ''gone'',
       sc_contentSource = None, sc_swapped = False, sc_dominantFit = Cover \<rparr>"

lemma sample_scene_ok: "scene_ok sample_scene"
  by (simp add: scene_ok_def sample_scene_def padded_area_def deviceGroup_def Let_def)

text \<open>C22: In every layout mode the tiles of a call lie inside the part of the screen that the safe area
  leaves, have a positive size, and no two of them overlap.\<close>

theorem layout_tiles_fit:
  assumes "scene_ok scene"
  shows "list_all (inside (available_area scene)) (map tl_frame (lr_tiles (computeLayout scene))) \<and>
         apart (map tl_frame (lr_tiles (computeLayout scene))) \<and>
         list_all (\<lambda>r. 0 < r_width r \<and> 0 < r_height r) (map tl_frame (lr_tiles (computeLayout scene)))"
  using layout_correct [OF assms] by (simp add: well_placed_def)

theorem layout_tiles_fit_witness: "apart (map tl_frame (lr_tiles (computeLayout sample_scene)))"
  using layout_tiles_fit [OF sample_scene_ok] by blast

text \<open>C23: Everyone is shown exactly once: in every mode the tiles and the picture-in-picture together show
  each participant of the call once and nobody else; only shared content replaces its owner. A pinned
  participant that has left changes nothing of this.\<close>

theorem everyone_shown_once:
  assumes "scene_ok scene"
  shows "distinct (shown (computeLayout scene)) \<and> set (shown (computeLayout scene)) = to_show scene"
  using layout_correct [OF assms] by blast

theorem everyone_shown_once_witness: "set (shown (computeLayout sample_scene)) = {''me'', ''a'', ''b''}"
  using everyone_shown_once [OF sample_scene_ok] by (auto simp: to_show_def sample_scene_def Let_def)

end
