(* ===== verification/Content_Rendering.thy ===== *)
theory Content_Rendering
  imports Layout
begin

text \<open>
  What the call view presents as content and as camera, after
  \<^verbatim>\<open>client/packages/react-ui/src/utils/contentRendering.ts\<close>: the resolution of the content of every
  sharer, the choice of the primary one, the gates of the content stage, and the stream-keyed tiles
  of the stage with their ids. A media stream is known by a number and its video tracks.
\<close>

section \<open>Participants and streams\<close>

record video_track =
  vt_ended :: bool
  vt_enabled :: bool

record media_stream =
  ms_id :: nat
  ms_videoTracks :: "video_track list"

record presence =
  pr_active :: bool
  pr_type :: string
  pr_revision :: jsnum

record content_local =
  cl_cid :: string
  cl_cameraMode :: "string option"
  cl_content :: "presence option"

record content_remote =
  cr_cid :: string
  cr_content :: "presence option"
  cr_supportsIndependent :: "bool option"

record legacy_signal =
  lg_cid :: string
  lg_contentType :: source_type

datatype content_mode = Independent | Legacy

record resolved_content =
  rc_ownerId :: string
  rc_isLocal :: bool
  rc_type :: source_type
  rc_mode :: content_mode
  rc_stream :: "media_stream option"
  rc_loading :: bool
  rc_waiting :: bool

text \<open>The two accessors of the session handle are the functions \<open>ri_localContentStream\<close> and \<open>ri_remoteContentStream\<close>.\<close>

record resolve_input =
  ri_local :: "content_local option"
  ri_localStream :: "media_stream option"
  ri_remotes :: "content_remote list"
  ri_remoteStreams :: "(string \<times> media_stream) list"
  ri_independentEnabled :: bool
  ri_legacy :: "legacy_signal option"
  ri_localContentStream :: "media_stream option"
  ri_remoteContentStream :: "string \<Rightarrow> media_stream option"
  ri_localVideoMediaEnabled :: bool
  ri_order :: "string list option"

section \<open>Who presents what\<close>

definition streamHasLiveVideo :: "media_stream option \<Rightarrow> bool" where
  "streamHasLiveVideo stream =
     (case stream of None \<Rightarrow> False
      | Some s \<Rightarrow> list_ex (\<lambda>t. \<not> vt_ended t \<and> vt_enabled t) (ms_videoTracks s))"

definition localContentActive :: "content_local \<Rightarrow> bool" where
  "localContentActive l =
     (case cl_content l of Some c \<Rightarrow> pr_active c | None \<Rightarrow> cl_cameraMode l = Some ''screenShare'')"

definition localContentType :: "content_local \<Rightarrow> source_type" where
  "localContentType l =
     (let t = map_option pr_type (cl_content l) in
      if t = Some ''worldCamera'' then WorldCamera
      else if t = Some ''compositeCamera'' then CompositeCamera else ScreenShare)"

definition remoteContentActive :: "content_remote \<Rightarrow> legacy_signal option \<Rightarrow> bool" where
  "remoteContentActive r legacy =
     (case cr_content r of Some c \<Rightarrow> pr_active c
      | None \<Rightarrow> map_option lg_cid legacy = Some (cr_cid r))"

definition remoteContentType :: "content_remote \<Rightarrow> legacy_signal option \<Rightarrow> source_type" where
  "remoteContentType r legacy =
     (let t = map_option pr_type (cr_content r) in
      if t = Some ''worldCamera'' then WorldCamera
      else if t = Some ''compositeCamera'' then CompositeCamera
      else if t = Some ''screenShare'' then ScreenShare
      else case legacy of
             Some l \<Rightarrow> if lg_cid l = cr_cid r then lg_contentType l else ScreenShare
           | None \<Rightarrow> ScreenShare)"

definition is_active :: "presence option \<Rightarrow> bool" where
  "is_active c = (case c of Some p \<Rightarrow> pr_active p | None \<Rightarrow> False)"

definition resolveLocalContent :: "resolve_input \<Rightarrow> resolved_content option" where
  "resolveLocalContent input =
     (case ri_local input of
        None \<Rightarrow> None
      | Some l \<Rightarrow>
          if \<not> ri_localVideoMediaEnabled input then None
          else if \<not> localContentActive l then None
          else if ri_independentEnabled input \<and> is_active (cl_content l) \<and> localContentType l = ScreenShare
          then (let stream = ri_localContentStream input; live = streamHasLiveVideo stream in
                Some \<lparr> rc_ownerId = cl_cid l, rc_isLocal = True, rc_type = localContentType l,
                       rc_mode = Independent, rc_stream = (if live then stream else None),
                       rc_loading = (\<not> live), rc_waiting = (ri_remotes input = []) \<rparr>)
          else Some \<lparr> rc_ownerId = cl_cid l, rc_isLocal = True, rc_type = localContentType l,
                      rc_mode = Legacy, rc_stream = ri_localStream input,
                      rc_loading = False, rc_waiting = False \<rparr>)"

text \<open>The body of the loop of \<open>resolveRemoteContents\<close>: \<open>None\<close> where it continues without a push.\<close>

definition resolve_remote :: "resolve_input \<Rightarrow> content_remote \<Rightarrow> resolved_content option" where
  "resolve_remote input r =
     (let legacy = ri_legacy input; contentType = remoteContentType r legacy in
      if \<not> remoteContentActive r legacy then None
      else if ri_independentEnabled input \<and> cr_supportsIndependent r = Some True
              \<and> is_active (cr_content r) \<and> contentType = ScreenShare
      then (let stream = ri_remoteContentStream input (cr_cid r); live = streamHasLiveVideo stream in
            Some \<lparr> rc_ownerId = cr_cid r, rc_isLocal = False, rc_type = contentType,
                   rc_mode = Independent, rc_stream = (if live then stream else None),
                   rc_loading = (\<not> live), rc_waiting = False \<rparr>)
      else (let stream = map_of (ri_remoteStreams input) (cr_cid r) in
            Some \<lparr> rc_ownerId = cr_cid r, rc_isLocal = False, rc_type = contentType,
                   rc_mode = Legacy, rc_stream = stream, rc_loading = (stream = None), rc_waiting = False \<rparr>))"

definition resolveRemoteContents :: "resolve_input \<Rightarrow> resolved_content list" where
  "resolveRemoteContents input =
     (if \<not> ri_localVideoMediaEnabled input then [] else List.map_filter (resolve_remote input) (ri_remotes input))"

section \<open>The primary content\<close>

text \<open>Walking the order back to front: the first id that has a match.\<close>

fun newest_match :: "resolved_content list \<Rightarrow> string list \<Rightarrow> resolved_content option" where
  "newest_match rs [] = None"
| "newest_match rs (cid # older) =
     (case find (\<lambda>r. rc_ownerId r = cid) rs of Some r \<Rightarrow> Some r | None \<Rightarrow> newest_match rs older)"

definition most_recent :: "resolved_content list \<Rightarrow> string list option \<Rightarrow> resolved_content" where
  "most_recent rs order = default (last rs) (newest_match rs (rev (default [] order)))"

definition pickPrimaryContent ::
  "resolved_content option \<Rightarrow> resolved_content list \<Rightarrow> string list option \<Rightarrow> resolved_content option" where
  "pickPrimaryContent local remotes order =
     (let independentRemotes = filter (\<lambda>r. rc_mode r = Independent) remotes in
      if independentRemotes \<noteq> [] then Some (most_recent independentRemotes order)
      else case local of
             Some l \<Rightarrow> Some l
           | None \<Rightarrow> if remotes \<noteq> [] then Some (most_recent remotes order) else None)"

record content_scene =
  cs_primary :: "resolved_content option"
  cs_local :: "resolved_content option"
  cs_remotes :: "resolved_content list"
  cs_all :: "resolved_content list"

definition resolveContentScene :: "resolve_input \<Rightarrow> content_scene" where
  "resolveContentScene input =
     (let local = resolveLocalContent input; remotes = resolveRemoteContents input in
      \<lparr> cs_primary = pickPrimaryContent local remotes (ri_order input), cs_local = local,
        cs_remotes = remotes,
        cs_all = (case local of Some l \<Rightarrow> remotes @ [l] | None \<Rightarrow> remotes) \<rparr>)"

definition resolveContentSource :: "resolved_content option \<Rightarrow> bool \<Rightarrow> content_source option" where
  "resolveContentSource primary isMultiParty =
     (case primary of
        None \<Rightarrow> None
      | Some p \<Rightarrow>
          if \<not> isMultiParty \<and> rc_mode p \<noteq> Independent then None
          else Some \<lparr> so_type = rc_type p, so_owner = rc_ownerId p, so_aspectRatio = None \<rparr>)"

datatype stage_phase =
  SpIdle | SpAwaitingPermissions | SpJoining | SpWaiting | SpInCall | SpEnding | SpError

definition shouldRenderContentStage :: "stage_phase \<Rightarrow> bool \<Rightarrow> bool \<Rightarrow> bool" where
  "shouldRenderContentStage phase isMultiParty hasContentStageLayout =
     (if phase = SpInCall then isMultiParty \<or> hasContentStageLayout
      else if phase = SpWaiting then hasContentStageLayout else False)"

section \<open>Stage tiles\<close>

datatype tile_kind = CameraKind | ContentKind

record tile_key =
  tk_cid :: string
  tk_kind :: tile_kind

record stage_tile_entry =
  se_id :: string
  se_cid :: string
  se_kind :: tile_kind
  se_isLocal :: bool

record camera_participant =
  cp_cid :: string
  cp_isLocal :: bool

fun kind_name :: "tile_kind \<Rightarrow> string" where
  "kind_name CameraKind = ''camera''"
| "kind_name ContentKind = ''content''"

definition kind_of :: "string \<Rightarrow> tile_kind option" where
  "kind_of s = (if s = ''camera'' then Some CameraKind else if s = ''content'' then Some ContentKind else None)"

definition stageTileId :: "tile_key \<Rightarrow> string" where
  "stageTileId key = tk_cid key @ ''::'' @ kind_name (tk_kind key)"

text \<open>\<open>id.lastIndexOf('::')\<close>.\<close>

definition lastIndexOf_sep :: "string \<Rightarrow> nat option" where
  "lastIndexOf_sep s = find (\<lambda>i. take 2 (drop i s) = ''::'') (rev [0..<length s])"

definition parseStageTileId :: "string \<Rightarrow> tile_key option" where
  "parseStageTileId s =
     (case lastIndexOf_sep s of
        None \<Rightarrow> None
      | Some sep \<Rightarrow>
          if sep = 0 then None
          else map_option (\<lambda>kind. \<lparr> tk_cid = take sep s, tk_kind = kind \<rparr>) (kind_of (drop (sep + 2) s)))"

definition stageTileKeyEquals :: "tile_key option \<Rightarrow> tile_key option \<Rightarrow> bool" where
  "stageTileKeyEquals a b =
     (case (a, b) of (Some x, Some y) \<Rightarrow> tk_cid x = tk_cid y \<and> tk_kind x = tk_kind y | _ \<Rightarrow> False)"

definition stage_entry :: "string \<Rightarrow> tile_kind \<Rightarrow> bool \<Rightarrow> stage_tile_entry" where
  "stage_entry cid kind isLocal =
     \<lparr> se_id = stageTileId \<lparr> tk_cid = cid, tk_kind = kind \<rparr>, se_cid = cid, se_kind = kind, se_isLocal = isLocal \<rparr>"

definition deriveStageTiles :: "camera_participant list \<Rightarrow> resolved_content list \<Rightarrow> stage_tile_entry list" where
  "deriveStageTiles cameras content =
     map (\<lambda>c. stage_entry (cp_cid c) CameraKind False) (filter (\<lambda>c. \<not> cp_isLocal c) cameras) @
     map (\<lambda>c. stage_entry (cp_cid c) CameraKind True) (filter cp_isLocal cameras) @
     map (\<lambda>c. stage_entry (rc_ownerId c) ContentKind (rc_isLocal c)) (filter (\<lambda>c. rc_mode c = Independent) content)"

definition has_tile :: "stage_tile_entry list \<Rightarrow> string \<Rightarrow> bool" where
  "has_tile tiles i = list_ex (\<lambda>t. se_id t = i) tiles"

definition present_id :: "stage_tile_entry list \<Rightarrow> tile_key option \<Rightarrow> string option" where
  "present_id tiles key =
     (case key of
        None \<Rightarrow> None
      | Some k \<Rightarrow> if has_tile tiles (stageTileId k) then Some (stageTileId k) else None)"

definition pickStageSpotlightTileId ::
  "stage_tile_entry list \<Rightarrow> tile_key option \<Rightarrow> resolved_content option \<Rightarrow> string option" where
  "pickStageSpotlightTileId tiles pinnedTile contentPrimary =
     (let primaryKey = map_option (\<lambda>c. \<lparr> tk_cid = rc_ownerId c, tk_kind = ContentKind \<rparr>) contentPrimary
      in if tiles = [] then None
         else coalesce (present_id tiles pinnedTile)
                (coalesce (present_id tiles primaryKey) (Some (se_id (hd tiles)))))"

section \<open>The ids of tiles\<close>

lemma find_rev_upt:
  "find P (rev [0..<n]) = Some i \<longleftrightarrow> i < n \<and> P i \<and> (\<forall>j. i < j \<and> j < n \<longrightarrow> \<not> P j)"
  by (induction n) (auto simp: less_Suc_eq)

lemma lastIndexOf_sep_Some:
  "lastIndexOf_sep s = Some i \<longleftrightarrow>
   i < length s \<and> take 2 (drop i s) = ''::'' \<and> (\<forall>j. i < j \<and> j < length s \<longrightarrow> take 2 (drop j s) \<noteq> ''::'')"
  by (simp add: lastIndexOf_sep_def find_rev_upt)

lemma kind_of_name: "kind_of s = Some k \<longleftrightarrow> s = kind_name k"
  by (cases k) (auto simp: kind_of_def)

text \<open>The name of a kind has no colon, so the last separator is the one \<open>stageTileId\<close> wrote.\<close>

lemma no_later_sep: "0 < d \<Longrightarrow> take 2 (drop d (''::'' @ kind_name k)) \<noteq> ''::''"
proof -
  assume "0 < d"
  then obtain e where d: "d = Suc e" by (cases d) auto
  show ?thesis by (cases k) (simp_all add: d drop_Cons take_Cons split: nat.split)
qed

lemma lastIndexOf_stageTileId: "lastIndexOf_sep (stageTileId k) = Some (length (tk_cid k))"
proof -
  have "take 2 (drop j (stageTileId k)) \<noteq> ''::''" if "length (tk_cid k) < j" for j
    using no_later_sep [of "j - length (tk_cid k)" "tk_kind k"] that by (simp add: stageTileId_def)
  then show ?thesis by (auto simp: lastIndexOf_sep_Some) (simp_all add: stageTileId_def)
qed

lemma parse_stageTileId: "parseStageTileId s = Some k \<longleftrightarrow> s = stageTileId k \<and> tk_cid k \<noteq> []"
proof
  assume p: "parseStageTileId s = Some k"
  then obtain sep where sep: "lastIndexOf_sep s = Some sep" "sep \<noteq> 0"
    and k: "tk_cid k = take sep s" "kind_of (drop (sep + 2) s) = Some (tk_kind k)"
    by (auto simp: parseStageTileId_def split: option.splits if_splits)
  have t: "take 2 (drop sep s) = ''::''" "sep < length s" using sep(1) by (simp_all add: lastIndexOf_sep_Some)
  have "s = take sep s @ take 2 (drop sep s) @ drop 2 (drop sep s)" by (simp only: append_take_drop_id)
  then have "s = stageTileId k" using k t by (simp add: stageTileId_def kind_of_name add.commute)
  with k t sep(2) show "s = stageTileId k \<and> tk_cid k \<noteq> []" by auto
next
  assume s: "s = stageTileId k \<and> tk_cid k \<noteq> []"
  have "drop (length (tk_cid k) + 2) s = kind_name (tk_kind k)" using s by (simp add: stageTileId_def)
  with s show "parseStageTileId s = Some k"
    by (simp add: parseStageTileId_def lastIndexOf_stageTileId kind_of_name [THEN iffD2])
      (simp add: stageTileId_def)
qed

lemma stageTileId_inj: "stageTileId a = stageTileId b \<longleftrightarrow> tk_cid a = tk_cid b \<and> tk_kind a = tk_kind b"
proof
  assume e: "stageTileId a = stageTileId b"
  then have "length (tk_cid a) = length (tk_cid b)" using lastIndexOf_stageTileId [of a] lastIndexOf_stageTileId [of b] by simp
  with e have "tk_cid a = tk_cid b" "kind_name (tk_kind a) = kind_name (tk_kind b)" by (simp_all add: stageTileId_def)
  then show "tk_cid a = tk_cid b \<and> tk_kind a = tk_kind b" by (cases "tk_kind a"; cases "tk_kind b") auto
qed (simp add: stageTileId_def)

text \<open>Tile ids are read back exactly: \<open>parseStageTileId\<close> accepts the ids that \<open>stageTileId\<close> builds for
  a non-empty participant id and no others, whatever colons the participant's id contains, and returns
  the key the id was built from; different keys have different ids.\<close>

theorem stage_tile_id_roundtrip:
  "(parseStageTileId s = Some k \<longleftrightarrow> s = stageTileId k \<and> tk_cid k \<noteq> []) \<and>
   (stageTileId j = stageTileId k \<longleftrightarrow> tk_cid j = tk_cid k \<and> tk_kind j = tk_kind k)"
  by (simp add: parse_stageTileId stageTileId_inj)

section \<open>The primary content: facts\<close>

lemma find_in: "find P xs = Some x \<Longrightarrow> x \<in> set xs \<and> P x"
  by (induction xs) (auto split: if_splits)

lemma newest_match_in: "newest_match rs cids = Some r \<Longrightarrow> r \<in> set rs"
  by (induction cids) (auto split: option.splits dest: find_in)

lemma most_recent_in: "rs \<noteq> [] \<Longrightarrow> most_recent rs order \<in> set rs"
  using newest_match_in [of rs "rev (default [] order)"]
  by (cases "newest_match rs (rev (default [] order))") (auto simp: most_recent_def)

lemma pick_in:
  "pickPrimaryContent local remotes order = Some c \<Longrightarrow>
   c \<in> set remotes \<or> local = Some c"
  using most_recent_in [of remotes order] most_recent_in [of "filter (\<lambda>r. rc_mode r = Independent) remotes" order]
  by (auto simp: pickPrimaryContent_def Let_def split: if_splits option.splits)

lemma pick_None: "pickPrimaryContent local remotes order = None \<longleftrightarrow> local = None \<and> remotes = []"
  by (auto simp: pickPrimaryContent_def Let_def split: option.split)

text \<open>What may be put on the screen for a sharer.\<close>

definition presentable :: "resolved_content \<Rightarrow> bool" where
  "presentable c =
     (case rc_mode c of
        Independent \<Rightarrow> rc_type c = ScreenShare \<and> rc_loading c = (rc_stream c = None) \<and>
                       (rc_stream c = None \<or> streamHasLiveVideo (rc_stream c))
      | Legacy \<Rightarrow> \<not> rc_waiting c \<and> (rc_isLocal c \<or> rc_loading c = (rc_stream c = None)))"

lemma local_presentable: "resolveLocalContent input = Some c \<Longrightarrow> presentable c"
  by (auto simp: resolveLocalContent_def presentable_def Let_def streamHasLiveVideo_def split: option.splits if_splits)

lemma remote_presentable: "resolve_remote input r = Some c \<Longrightarrow> presentable c"
  by (auto simp: resolve_remote_def presentable_def Let_def streamHasLiveVideo_def split: option.splits if_splits)

lemma set_map_filter: "set (List.map_filter f xs) = {y. \<exists>x \<in> set xs. f x = Some y}"
  by (induction xs) (auto simp: List.map_filter_simps split: option.split)

text \<open>The sharers, by the presence they announce or the legacy signals.\<close>

definition sharers :: "resolve_input \<Rightarrow> string set" where
  "sharers input =
     (if ri_localVideoMediaEnabled input
      then {cl_cid l | l. ri_local input = Some l \<and> localContentActive l} \<union>
           {cr_cid r | r. r \<in> set (ri_remotes input) \<and> remoteContentActive r (ri_legacy input)}
      else {})"

lemma local_owner:
  "(\<exists>c. resolveLocalContent input = Some c \<and> rc_ownerId c = i) \<longleftrightarrow>
   ri_localVideoMediaEnabled input \<and> (\<exists>l. ri_local input = Some l \<and> localContentActive l \<and> cl_cid l = i)"
  by (auto simp: resolveLocalContent_def Let_def split: option.split)

lemma remote_owner:
  "(\<exists>c. resolve_remote input r = Some c \<and> rc_ownerId c = i) \<longleftrightarrow> remoteContentActive r (ri_legacy input) \<and> cr_cid r = i"
  by (auto simp: resolve_remote_def Let_def)

lemma all_iff:
  "c \<in> set (cs_all (resolveContentScene input)) \<longleftrightarrow>
   resolveLocalContent input = Some c \<or> c \<in> set (resolveRemoteContents input)"
  by (auto simp: resolveContentScene_def Let_def split: option.split)

lemma in_remote_contents:
  "c \<in> set (resolveRemoteContents input) \<longleftrightarrow>
   ri_localVideoMediaEnabled input \<and> (\<exists>r. r \<in> set (ri_remotes input) \<and> resolve_remote input r = Some c)"
  by (auto simp: resolveRemoteContents_def set_map_filter)

text \<open>Content is shown for exactly the participants that share, a receiver of audio only shows none,
  dedicated content shows a stream only while it carries live video and a loading tile otherwise, and the
  primary content is one of those shown, missing only when nobody shares.\<close>

theorem content_scene_sound:
  "rc_ownerId ` set (cs_all (resolveContentScene input)) = sharers input \<and>
   list_all presentable (cs_all (resolveContentScene input)) \<and>
   pred_option (\<lambda>c. c \<in> set (cs_all (resolveContentScene input))) (cs_primary (resolveContentScene input)) \<and>
   (cs_primary (resolveContentScene input) = None \<longleftrightarrow> sharers input = {})"
proof -
  have owners: "i \<in> rc_ownerId ` set (cs_all (resolveContentScene input)) \<longleftrightarrow> i \<in> sharers input" for i
  proof -
    have "i \<in> rc_ownerId ` set (cs_all (resolveContentScene input)) \<longleftrightarrow>
        (\<exists>c. resolveLocalContent input = Some c \<and> rc_ownerId c = i) \<or>
        (ri_localVideoMediaEnabled input \<and>
          (\<exists>r \<in> set (ri_remotes input). \<exists>c. resolve_remote input r = Some c \<and> rc_ownerId c = i))"
      unfolding image_iff Bex_def all_iff in_remote_contents by blast
    also have "\<dots> \<longleftrightarrow> i \<in> sharers input"
      unfolding local_owner remote_owner by (auto simp: sharers_def)
    finally show ?thesis .
  qed
  have p: "cs_primary (resolveContentScene input) =
      pickPrimaryContent (resolveLocalContent input) (resolveRemoteContents input) (ri_order input)"
    by (simp add: resolveContentScene_def Let_def)
  have "presentable c" if "c \<in> set (cs_all (resolveContentScene input))" for c
    using that local_presentable remote_presentable
    by (auto simp: all_iff in_remote_contents)
  moreover have "cs_primary (resolveContentScene input) = None \<longleftrightarrow> set (cs_all (resolveContentScene input)) = {}"
    by (simp add: resolveContentScene_def Let_def pick_None split: option.split)
  then have "cs_primary (resolveContentScene input) = None \<longleftrightarrow> sharers input = {}"
    using owners by (metis empty_iff equals0I image_is_empty)
  ultimately show ?thesis
    using owners pick_in [of "resolveLocalContent input" "resolveRemoteContents input" "ri_order input"]
    by (auto simp: list_all_iff option.pred_set p all_iff)
qed

text \<open>A screen share keeps the spotlight: the primary content is a dedicated screen share exactly when
  one is present among the contents shown; no camera framing of anyone takes its place.\<close>

theorem independent_share_wins:
  "map_option rc_mode (cs_primary (resolveContentScene input)) = Some Independent \<longleftrightarrow>
   list_ex (\<lambda>c. rc_mode c = Independent) (cs_all (resolveContentScene input))"
proof -
  let ?ind = "filter (\<lambda>r. rc_mode r = Independent) (resolveRemoteContents input)"
  show ?thesis
  proof (cases "?ind = []")
    case True
    then have "rc_mode c \<noteq> Independent" if "c \<in> set (resolveRemoteContents input)" for c
      using that by (auto simp: filter_empty_conv)
    then show ?thesis
      using True most_recent_in [of "resolveRemoteContents input" "ri_order input"]
      by (cases "resolveLocalContent input")
        (auto simp: resolveContentScene_def pickPrimaryContent_def Let_def list_ex_iff)
  next
    case False
    then have "most_recent ?ind (ri_order input) \<in> set ?ind" by (rule most_recent_in)
    then show ?thesis using False
      by (auto simp: resolveContentScene_def pickPrimaryContent_def Let_def list_ex_iff split: option.split)
  qed
qed

section \<open>With the feature off\<close>

text \<open>The call view before independent content: the local share first, else the most recent remote one, each
  shown from its combined stream.\<close>

definition legacy_local :: "resolve_input \<Rightarrow> content_local \<Rightarrow> resolved_content" where
  "legacy_local input l =
     \<lparr> rc_ownerId = cl_cid l, rc_isLocal = True, rc_type = localContentType l, rc_mode = Legacy,
       rc_stream = ri_localStream input, rc_loading = False, rc_waiting = False \<rparr>"

definition legacy_remote :: "resolve_input \<Rightarrow> content_remote \<Rightarrow> resolved_content" where
  "legacy_remote input r =
     (let stream = map_of (ri_remoteStreams input) (cr_cid r) in
      \<lparr> rc_ownerId = cr_cid r, rc_isLocal = False, rc_type = remoteContentType r (ri_legacy input),
        rc_mode = Legacy, rc_stream = stream, rc_loading = (stream = None), rc_waiting = False \<rparr>)"

definition legacy_selection :: "resolve_input \<Rightarrow> resolved_content option" where
  "legacy_selection input =
     (let sharing = filter (\<lambda>r. remoteContentActive r (ri_legacy input)) (ri_remotes input) in
      if \<not> ri_localVideoMediaEnabled input then None
      else if pred_option localContentActive (ri_local input) \<and> ri_local input \<noteq> None
      then map_option (legacy_local input) (ri_local input)
      else if sharing = [] then None
      else Some (most_recent (map (legacy_remote input) sharing) (ri_order input)))"

lemma legacy_remotes:
  "\<not> ri_independentEnabled input \<Longrightarrow>
   List.map_filter (resolve_remote input) rs =
     map (legacy_remote input) (filter (\<lambda>r. remoteContentActive r (ri_legacy input)) rs)"
  by (induction rs) (simp_all add: List.map_filter_simps resolve_remote_def legacy_remote_def Let_def)

text \<open>With independent content off, the primary content is the one the call view chose before the feature
  existed: the local share wins, then the most recently active remote one, always shown from the single
  combined stream.\<close>

theorem flag_off_is_legacy:
  assumes "\<not> ri_independentEnabled input"
  shows "cs_primary (resolveContentScene input) = legacy_selection input"
proof (cases "ri_localVideoMediaEnabled input")
  case False
  then show ?thesis
    by (simp add: resolveContentScene_def resolveLocalContent_def resolveRemoteContents_def pickPrimaryContent_def
        legacy_selection_def Let_def split: option.split)
next
  case True
  let ?sharing = "filter (\<lambda>r. remoteContentActive r (ri_legacy input)) (ri_remotes input)"
  have r: "resolveRemoteContents input = map (legacy_remote input) ?sharing"
    using True by (simp add: resolveRemoteContents_def legacy_remotes [OF assms])
  have "filter (\<lambda>r. rc_mode r = Independent) (map (legacy_remote input) ?sharing) = []"
    by (simp add: filter_empty_conv legacy_remote_def Let_def)
  moreover have "resolveLocalContent input =
      (if pred_option localContentActive (ri_local input) \<and> ri_local input \<noteq> None
       then map_option (legacy_local input) (ri_local input) else None)"
    using True assms by (simp add: resolveLocalContent_def legacy_local_def split: option.split)
  ultimately show ?thesis
    using True by (auto simp: resolveContentScene_def r pickPrimaryContent_def legacy_selection_def Let_def
        split: option.split)
qed

definition sample_input :: resolve_input where
  "sample_input =
     \<lparr> ri_local = Some \<lparr> cl_cid = ''me'', cl_cameraMode = Some ''selfie'', cl_content = None \<rparr>,
       ri_localStream = None,
       ri_remotes = [\<lparr> cr_cid = ''a'', cr_content = None, cr_supportsIndependent = None \<rparr>],
       ri_remoteStreams = [(''a'', \<lparr> ms_id = 1, ms_videoTracks = [] \<rparr>)],
       ri_independentEnabled = False,
       ri_legacy = Some \<lparr> lg_cid = ''a'', lg_contentType = WorldCamera \<rparr>,
       ri_localContentStream = None, ri_remoteContentStream = (\<lambda>_. None),
       ri_localVideoMediaEnabled = True, ri_order = None \<rparr>"

theorem flag_off_is_legacy_witness:
  "map_option rc_ownerId (cs_primary (resolveContentScene sample_input)) = Some ''a''"
  using flag_off_is_legacy [of sample_input]
  by (simp add: sample_input_def legacy_selection_def Let_def localContentActive_def remoteContentActive_def
      most_recent_def legacy_remote_def)

section \<open>The tiles of the stage\<close>

definition owners_distinct :: "camera_participant list \<Rightarrow> resolved_content list \<Rightarrow> bool" where
  "owners_distinct cameras content =
     (distinct (map cp_cid cameras) \<and> distinct (map rc_ownerId content) \<and>
      list_all (\<lambda>c. cp_cid c \<noteq> []) cameras \<and> list_all (\<lambda>c. rc_ownerId c \<noteq> []) content)"

lemma entry_simps [simp]:
  "se_id (stage_entry c k l) = stageTileId \<lparr> tk_cid = c, tk_kind = k \<rparr>"
  "se_cid (stage_entry c k l) = c" "se_kind (stage_entry c k l) = k"
  by (simp_all add: stage_entry_def)

lemma distinct_entry_ids:
  "distinct (map f xs) \<Longrightarrow> distinct (map (\<lambda>x. stageTileId \<lparr> tk_cid = f x, tk_kind = k \<rparr>) xs)"
  by (auto simp: distinct_map inj_on_def stageTileId_inj)

lemma present_id_Some: "present_id tiles key = Some i \<Longrightarrow> has_tile tiles i"
  by (auto simp: present_id_def split: option.splits if_splits)

lemma spotlight_present: "pred_option (has_tile tiles) (pickStageSpotlightTileId tiles pin primary)"
proof (cases tiles)
  case (Cons t ts)
  then show ?thesis
    by (auto simp: pickStageSpotlightTileId_def Let_def coalesce_def has_tile_def dest!: present_id_Some split: option.split)
qed (simp add: pickStageSpotlightTileId_def)

text \<open>The stage shows each participant's camera and each dedicated share in a tile of its own: the ids
  are distinct, every id is read back as the participant and kind of its tile, and the spotlight is one
  of the tiles - the pinned one while it exists.\<close>

theorem stage_tiles_identified:
  assumes "owners_distinct cameras content"
  shows "distinct (map se_id (deriveStageTiles cameras content)) \<and>
         map (\<lambda>t. parseStageTileId (se_id t)) (deriveStageTiles cameras content) =
           map (\<lambda>t. Some \<lparr> tk_cid = se_cid t, tk_kind = se_kind t \<rparr>) (deriveStageTiles cameras content) \<and>
         cp_cid ` set cameras = se_cid ` set (filter (\<lambda>t. se_kind t = CameraKind) (deriveStageTiles cameras content)) \<and>
         (pickStageSpotlightTileId (deriveStageTiles cameras content) pin primary = None \<longleftrightarrow> deriveStageTiles cameras content = []) \<and>
         pred_option (has_tile (deriveStageTiles cameras content))
           (pickStageSpotlightTileId (deriveStageTiles cameras content) pin primary)"
proof (intro conjI)
  have d: "distinct (map cp_cid (filter c cameras))" "distinct (map rc_ownerId (filter i content))" for c i
    using assms by (simp_all add: owners_distinct_def distinct_map_filter)
  have camera: "cp_cid x \<noteq> cp_cid y" if "x \<in> set cameras" "y \<in> set cameras" "cp_isLocal x \<noteq> cp_isLocal y" for x y
    using assms that by (auto simp: owners_distinct_def distinct_map inj_on_def)
  show "distinct (map se_id (deriveStageTiles cameras content))"
    using d camera by (auto simp: deriveStageTiles_def o_def distinct_entry_ids stageTileId_inj)
  show "map (\<lambda>t. parseStageTileId (se_id t)) (deriveStageTiles cameras content) =
      map (\<lambda>t. Some \<lparr> tk_cid = se_cid t, tk_kind = se_kind t \<rparr>) (deriveStageTiles cameras content)"
    using assms by (auto simp: deriveStageTiles_def owners_distinct_def parse_stageTileId list_all_iff)
  show "cp_cid ` set cameras = se_cid ` set (filter (\<lambda>t. se_kind t = CameraKind) (deriveStageTiles cameras content))"
    by (auto simp: deriveStageTiles_def image_Un image_image)
  show "pickStageSpotlightTileId (deriveStageTiles cameras content) pin primary = None \<longleftrightarrow> deriveStageTiles cameras content = []"
    by (simp add: pickStageSpotlightTileId_def Let_def)
  show "pred_option (has_tile (deriveStageTiles cameras content))
      (pickStageSpotlightTileId (deriveStageTiles cameras content) pin primary)"
    by (rule spotlight_present)
qed

theorem stage_tiles_identified_witness:
  "distinct (map se_id (deriveStageTiles
     [\<lparr> cp_cid = ''a:'', cp_isLocal = False \<rparr>, \<lparr> cp_cid = ''a'', cp_isLocal = True \<rparr>] []))"
  using stage_tiles_identified [of "[\<lparr> cp_cid = ''a:'', cp_isLocal = False \<rparr>, \<lparr> cp_cid = ''a'', cp_isLocal = True \<rparr>]" "[]"]
  by (simp add: owners_distinct_def)

text \<open>A pinned tile holds the spotlight while it is on the stage; else the primary share's tile has it.\<close>

lemma spotlight_pinned:
  "has_tile tiles (stageTileId k) \<Longrightarrow> pickStageSpotlightTileId tiles (Some k) primary = Some (stageTileId k)"
  by (cases tiles) (auto simp: pickStageSpotlightTileId_def present_id_def has_tile_def)

lemma spotlight_primary:
  "has_tile tiles (stageTileId \<lparr> tk_cid = rc_ownerId c, tk_kind = ContentKind \<rparr>) \<Longrightarrow>
   pickStageSpotlightTileId tiles None (Some c) = Some (stageTileId \<lparr> tk_cid = rc_ownerId c, tk_kind = ContentKind \<rparr>)"
  by (cases tiles) (auto simp: pickStageSpotlightTileId_def present_id_def has_tile_def)

end
