(* ===== verification/Session_Room.thy ===== *)
theory Session_Room
  imports Server_Provider
begin

text \<open>
  The session's view of the room, the pure part of
  \<^verbatim>\<open>client/packages/core/src/SerenadaSession.ts\<close>: the room state built from the provider's events
  (\<open>buildRoomState\<close>, \<open>upsertParticipant\<close>, \<open>removeParticipant\<close>), the messages handed to the media
  engine, and the tracking of the content each remote participant shares.
\<close>

section \<open>The room state\<close>

definition toRoomParticipant :: "provider_participant \<Rightarrow> room_participant" where
  "toRoomParticipant p =
     \<lparr> rp_cid = pp_peerId p, rp_joinedAt = pp_joinedAt p, rp_displayName = pp_displayName p,
       rp_peerId = pp_appPeerId p, rp_audioEnabled = pp_audioEnabled p, rp_videoEnabled = pp_videoEnabled p,
       rp_connectionStatus = pp_connectionStatus p, rp_contentState = pp_contentState p,
       rp_capabilities = pp_capabilities p, rp_mediaPolicy = pp_mediaPolicy p \<rparr>"

text \<open>An object literal with a \<open>cid\<close> and nothing else.\<close>

definition bare_participant :: "string \<Rightarrow> room_participant" where
  "bare_participant cid =
     \<lparr> rp_cid = cid, rp_joinedAt = None, rp_displayName = None, rp_peerId = None, rp_audioEnabled = None,
       rp_videoEnabled = None, rp_connectionStatus = None, rp_contentState = None,
       rp_capabilities = None, rp_mediaPolicy = None \<rparr>"

definition dedupe_map :: "room_participant list \<Rightarrow> (string \<times> room_participant) list" where
  "dedupe_map ps = fold (\<lambda>p m. if rp_cid p = [] then m else AList.update (rp_cid p) p m) ps []"

definition dedupeParticipants :: "room_participant list \<Rightarrow> string option \<Rightarrow> room_participant list" where
  "dedupeParticipants ps localPeerId =
     (let deduped = dedupe_map ps in
      map snd (case truthy_string localPeerId of
                 None \<Rightarrow> deduped
               | Some l \<Rightarrow> if map_has deduped l then deduped else AList.update l (bare_participant l) deduped))"

definition first_cid :: "room_participant list \<Rightarrow> string option" where
  "first_cid ps = (case ps of [] \<Rightarrow> None | p # _ \<Rightarrow> Some (rp_cid p))"

definition resolveHostCid :: "room_participant list \<Rightarrow> string option \<Rightarrow> string option \<Rightarrow> string option" where
  "resolveHostCid ps nextHostCid localPeerId =
     (case truthy_string (coalesce nextHostCid localPeerId) of
        None \<Rightarrow> first_cid ps
      | Some candidate \<Rightarrow>
          if ps \<noteq> [] \<and> candidate \<notin> set (map rp_cid ps) then first_cid ps else Some candidate)"

definition buildRoomState ::
  "provider_participant list \<Rightarrow> string option \<Rightarrow> jsnum option \<Rightarrow> string option \<Rightarrow> string option \<Rightarrow> room_state" where
  "buildRoomState ps hostPeerId maxParticipants currentHostCid localPeerId =
     (let participants = dedupeParticipants (map toRoomParticipant ps) localPeerId in
      \<lparr> rs_hostCid = resolveHostCid participants (coalesce hostPeerId currentHostCid) localPeerId,
        rs_participants = participants, rs_maxParticipants = maxParticipants, rs_epoch = None \<rparr>)"

definition upsertParticipant :: "room_state option \<Rightarrow> provider_participant \<Rightarrow> string option \<Rightarrow> room_state option" where
  "upsertParticipant roomState event localPeerId =
     (if roomState = None \<and> truthy_string localPeerId = None then None
      else (let present = (case roomState of Some r \<Rightarrow> rs_participants r | None \<Rightarrow> []);
                participants = dedupeParticipants
                  (present @ [(bare_participant (pp_peerId event))
                    \<lparr> rp_joinedAt := pp_joinedAt event, rp_displayName := pp_displayName event,
                      rp_peerId := pp_appPeerId event \<rparr>]) localPeerId
            in Some \<lparr> rs_hostCid = resolveHostCid participants (Option.bind roomState rs_hostCid) localPeerId,
                      rs_participants = participants,
                      rs_maxParticipants = Option.bind roomState rs_maxParticipants, rs_epoch = None \<rparr>))"

definition removeParticipant :: "room_state option \<Rightarrow> string \<Rightarrow> string option \<Rightarrow> room_state option" where
  "removeParticipant roomState peerId localPeerId =
     (case roomState of
        None \<Rightarrow> None
      | Some r \<Rightarrow>
          (let participants = dedupeParticipants (filter (\<lambda>p. rp_cid p \<noteq> peerId) (rs_participants r)) localPeerId;
               nextHostCid = (if rs_hostCid r = Some peerId then None else rs_hostCid r)
           in if participants = [] then None
              else Some \<lparr> rs_hostCid = resolveHostCid participants nextHostCid localPeerId,
                          rs_participants = participants, rs_maxParticipants = rs_maxParticipants r,
                          rs_epoch = None \<rparr>))"

section \<open>Messages for the media engine\<close>

definition toMediaSignalingMessage :: "peer_message \<Rightarrow> signaling_message" where
  "toMediaSignalingMessage m =
     \<lparr> sg_v = 1, sg_type = pm_type m, sg_rid = None, sg_sid = None, sg_cid = Some (pm_from m), sg_to = None,
       sg_payload = Some (case pm_payload m of
           JObj kvs \<Rightarrow> JObj (AList.update ''from''
             (case as_string (map_of kvs ''from'') of Some f \<Rightarrow> JStr f | None \<Rightarrow> JStr (pm_from m)) kvs)
         | v \<Rightarrow> JObj [(''from'', JStr (pm_from m)), (''value'', v)]) \<rparr>"

definition isMediaSignalingMessageType :: "string \<Rightarrow> bool" where
  "isMediaSignalingMessageType type =
     (type = ''content_state'' \<or> type = ''offer'' \<or> type = ''answer'' \<or> type = ''ice'' \<or>
      type = ''media_restart_request'')"

section \<open>Remote content\<close>

record participant_content =
  pc_active :: bool
  pc_type :: string
  pc_revision :: jsnum

record tracked_content =
  trk_content :: participant_content
  trk_sid :: "string option"
  trk_revision :: jsnum

type_synonym content_map = "(string \<times> tracked_content) list"

definition content_discarded :: "tracked_content option \<Rightarrow> string option \<Rightarrow> jsnum option \<Rightarrow> bool \<Rightarrow> bool" where
  "content_discarded existing sid revision isSnapshot =
     (case (existing, revision) of
        (Some e, Some r) \<Rightarrow> trk_sid e = sid \<and> js_le r (trk_revision e)
      | (Some e, None) \<Rightarrow> isSnapshot
      | _ \<Rightarrow> False)"

definition applyRemoteContentState ::
  "string \<Rightarrow> string option \<Rightarrow> bool \<Rightarrow> string option \<Rightarrow> jsnum option \<Rightarrow> bool \<Rightarrow> content_map \<Rightarrow> content_map \<times> bool" where
  "applyRemoteContentState cid sid active contentType revision isSnapshot states =
     (let existing = map_of states cid in
      if content_discarded existing sid revision isSnapshot then (states, False)
      else (AList.update cid
              \<lparr> trk_content = \<lparr> pc_active = active, pc_type = default ''screenShare'' contentType,
                                 pc_revision = default (Fin 0) revision \<rparr>,
                trk_sid = sid,
                trk_revision = (case revision of
                    Some r \<Rightarrow> r
                  | None \<Rightarrow> (case existing of
                        Some e \<Rightarrow> if trk_sid e = sid then trk_revision e else Fin 0
                      | None \<Rightarrow> Fin 0)) \<rparr> states, True))"

section \<open>The room state is sane\<close>

definition room_sane :: "string option \<Rightarrow> room_state \<Rightarrow> bool" where
  "room_sane localPeerId r =
     (let cids = map rp_cid (rs_participants r) in
      distinct cids \<and> [] \<notin> set cids \<and>
      pred_option (\<lambda>l. l \<in> set cids) (truthy_string localPeerId) \<and>
      (cids = [] \<or> (\<exists>h \<in> set cids. rs_hostCid r = Some h)))"

definition keyed_room :: "(string \<times> room_participant) list \<Rightarrow> bool" where
  "keyed_room m = (distinct (map fst m) \<and> (\<forall>e \<in> set m. rp_cid (snd e) = fst e \<and> fst e \<noteq> []))"

lemma keyed_room_update:
  "keyed_room m \<Longrightarrow> rp_cid p = k \<Longrightarrow> k \<noteq> [] \<Longrightarrow> keyed_room (AList.update k p m)"
  using set_AList_update [of k p m] by (auto simp: keyed_room_def AList.distinct_update)

lemma keyed_dedupe_map: "keyed_room (dedupe_map ps)"
proof -
  have "keyed_room (fold (\<lambda>p m. if rp_cid p = [] then m else AList.update (rp_cid p) p m) ps m)"
    if "keyed_room m" for m
    using that by (induction ps arbitrary: m) (simp_all add: keyed_room_update)
  from this [of "[]"] show ?thesis by (simp add: dedupe_map_def keyed_room_def)
qed

lemma dedupe_map_keys: "fst ` set (dedupe_map ps) = rp_cid ` set ps - {[]}"
proof -
  have "fst ` set (fold (\<lambda>p m. if rp_cid p = [] then m else AList.update (rp_cid p) p m) ps m) =
      fst ` set m \<union> (rp_cid ` set ps - {[]})" for m
    by (induction ps arbitrary: m) (auto simp: AList.dom_update)
  then show ?thesis by (simp add: dedupe_map_def)
qed

lemma keyed_cids: "keyed_room m \<Longrightarrow> map rp_cid (map snd m) = map fst m"
  by (auto simp: keyed_room_def)

lemma truthy_string_Some [simp]: "truthy_string s = Some t \<longleftrightarrow> s = Some t \<and> t \<noteq> []"
  by (cases s) (auto simp: truthy_string_def)

text \<open>The participants after deduplication: no id twice, none empty, exactly those given and the local one.\<close>

lemma dedupe_sane:
  "distinct (map rp_cid (dedupeParticipants ps l))"
  "set (map rp_cid (dedupeParticipants ps l)) = rp_cid ` set ps \<union> set_option l - {[]}"
proof -
  let ?m = "case truthy_string l of None \<Rightarrow> dedupe_map ps
    | Some c \<Rightarrow> if map_has (dedupe_map ps) c then dedupe_map ps else AList.update c (bare_participant c) (dedupe_map ps)"
  have k: "keyed_room ?m"
    using keyed_dedupe_map [of ps]
    by (auto intro!: keyed_room_update simp: bare_participant_def split: option.split)
  have e: "map rp_cid (dedupeParticipants ps l) = map fst ?m"
    using keyed_cids [OF k] by (simp add: dedupeParticipants_def Let_def)
  show "distinct (map rp_cid (dedupeParticipants ps l))" using k by (simp only: e keyed_room_def)
  have "fst ` set ?m = rp_cid ` set ps \<union> set_option l - {[]}"
    by (cases "truthy_string l")
      (auto simp: dedupe_map_keys AList.dom_update map_has_iff truthy_string_def split: option.splits if_splits)
  then show "set (map rp_cid (dedupeParticipants ps l)) = rp_cid ` set ps \<union> set_option l - {[]}"
    by (simp only: e set_map)
qed

lemma resolveHost_in:
  "ps \<noteq> [] \<Longrightarrow> \<exists>h \<in> set (map rp_cid ps). resolveHostCid ps next l = Some h"
  by (cases ps) (auto simp: resolveHostCid_def first_cid_def split: option.split)

lemma deduped_room_sane:
  "room_sane l \<lparr> rs_hostCid = resolveHostCid (dedupeParticipants ps l) next l,
     rs_participants = dedupeParticipants ps l, rs_maxParticipants = mx, rs_epoch = ep \<rparr>"
  using dedupe_sane [of ps l] resolveHost_in [of "dedupeParticipants ps l" "next" l]
  by (cases "truthy_string l") (auto simp: room_sane_def Let_def truthy_string_def split: option.splits if_splits)

lemma room_builders_sane:
  "room_sane l (buildRoomState ps h mx cur l)"
  "upsertParticipant r ev l = Some r' \<Longrightarrow> room_sane l r'"
  "removeParticipant r pid l = Some r' \<Longrightarrow> room_sane l r'"
  using deduped_room_sane
  by (auto simp: buildRoomState_def upsertParticipant_def removeParticipant_def Let_def split: option.splits if_splits)

section \<open>Content announcements arrive in any order\<close>

text \<open>A revisioned announcement, live or from a snapshot.\<close>

record content_update =
  cu_cid :: string
  cu_sid :: "string option"
  cu_active :: bool
  cu_type :: "string option"
  cu_revision :: nat
  cu_snapshot :: bool

definition tracked_of :: "content_update \<Rightarrow> tracked_content" where
  "tracked_of u =
     \<lparr> trk_content = \<lparr> pc_active = cu_active u, pc_type = default ''screenShare'' (cu_type u),
                        pc_revision = Fin (of_nat (cu_revision u)) \<rparr>,
       trk_sid = cu_sid u, trk_revision = Fin (of_nat (cu_revision u)) \<rparr>"

definition deliver :: "content_update \<Rightarrow> content_map \<Rightarrow> content_map" where
  "deliver u m = fst (applyRemoteContentState (cu_cid u) (cu_sid u) (cu_active u) (cu_type u)
     (Some (Fin (of_nat (cu_revision u)))) (cu_snapshot u) m)"

lemma deliver_lookup:
  "map_of (deliver u m) c =
     (if c \<noteq> cu_cid u then map_of m c
      else case map_of m c of
             None \<Rightarrow> Some (tracked_of u)
           | Some e \<Rightarrow> if trk_sid e = cu_sid u \<and> js_le (Fin (of_nat (cu_revision u))) (trk_revision e)
                       then Some e else Some (tracked_of u))"
  by (auto simp: deliver_def applyRemoteContentState_def content_discarded_def tracked_of_def Let_def
      AList.update_conv' split: option.splits)

text \<open>The abstract register: the highest revision seen so far.\<close>

definition highest :: "content_update list \<Rightarrow> content_update \<Rightarrow> bool" where
  "highest us w = (w \<in> set us \<and> (\<forall>v \<in> set us. cu_revision v \<le> cu_revision w))"

lemma deliver_all_highest:
  assumes "\<forall>v \<in> set us. cu_cid v = c \<longrightarrow> cu_sid v = s"
  defines "mine \<equiv> filter (\<lambda>v. cu_cid v = c) us"
  shows "(mine = [] \<and> map_of (fold deliver us []) c = None) \<or>
         (\<exists>w. highest mine w \<and> map_of (fold deliver us []) c = Some (tracked_of w))"
  using assms(1) unfolding mine_def
proof (induction us rule: rev_induct)
  case (snoc u us)
  show ?case
  proof (cases "cu_cid u = c")
    case False
    with snoc show ?thesis by (auto simp: deliver_lookup)
  next
    case True
    from snoc consider "filter (\<lambda>v. cu_cid v = c) us = []" "map_of (fold deliver us []) c = None"
      | w where "highest (filter (\<lambda>v. cu_cid v = c) us) w" "map_of (fold deliver us []) c = Some (tracked_of w)"
      by auto
    then show ?thesis
    proof cases
      case 1
      with True show ?thesis by (auto simp: deliver_lookup highest_def)
    next
      case 2
      then have "cu_sid w = cu_sid u" using snoc.prems True by (auto simp: highest_def)
      then have m: "map_of (fold deliver (us @ [u]) []) c =
          Some (tracked_of (if cu_revision u \<le> cu_revision w then w else u))"
        using 2 True by (simp add: deliver_lookup) (simp add: tracked_of_def)
      have "highest (filter (\<lambda>v. cu_cid v = c) (us @ [u])) (if cu_revision u \<le> cu_revision w then w else u)"
        using 2(1) True by (auto simp: highest_def)
      with m show ?thesis by blast
    qed
  qed
qed simp

text \<open>C32: Content announcements converge whatever the order: if one announcement of a participant's session has
  the highest revision, then after all announcements were delivered - in any order, with duplicates,
  live or from snapshots, interleaved with those of others - exactly this one is tracked.\<close>

theorem highest_revision_wins:
  assumes "u \<in> set us"
    and "\<And>v. v \<in> set us \<Longrightarrow> cu_cid v = cu_cid u \<Longrightarrow> v = u \<or> cu_sid v = cu_sid u \<and> cu_revision v < cu_revision u"
  shows "map_of (fold deliver us []) (cu_cid u) = Some (tracked_of u)"
proof -
  have "\<forall>v \<in> set us. cu_cid v = cu_cid u \<longrightarrow> cu_sid v = cu_sid u" using assms(2) by blast
  from deliver_all_highest [OF this] assms(1) obtain w
    where "highest (filter (\<lambda>v. cu_cid v = cu_cid u) us) w" "map_of (fold deliver us []) (cu_cid u) = Some (tracked_of w)"
    by (auto simp: filter_empty_conv)
  moreover from this(1) assms(1) have "w \<in> set us" "cu_cid w = cu_cid u" "cu_revision u \<le> cu_revision w"
    by (auto simp: highest_def)
  with assms(2) have "w = u" using leD by blast
  ultimately show ?thesis by simp
qed

definition announcement :: "nat \<Rightarrow> bool \<Rightarrow> content_update" where
  "announcement n on = \<lparr> cu_cid = ''a'', cu_sid = None, cu_active = on, cu_type = None, cu_revision = n, cu_snapshot = False \<rparr>"

theorem highest_revision_wins_witness:
  "map_of (fold deliver [announcement 2 False, announcement 1 True, announcement 2 False] []) ''a'' =
     Some (tracked_of (announcement 2 False))"
proof -
  have c: "cu_cid (announcement 2 False) = ''a''" by (simp add: announcement_def)
  have "map_of (fold deliver [announcement 2 False, announcement 1 True, announcement 2 False] [])
      (cu_cid (announcement 2 False)) = Some (tracked_of (announcement 2 False))"
    by (rule highest_revision_wins) (auto simp: announcement_def)
  then show ?thesis by (simp only: c)
qed

end
