(* ===== verification/Media_Engine.thy ===== *)
theory Media_Engine
  imports Session_Room
begin

text \<open>
  Peers and negotiation of the media engine, \<^verbatim>\<open>client/packages/core/src/media/MediaEngine.ts\<close>:
  which side offers, offers, answers and candidates, ICE restarts, local track negotiation, recovery of
  stalled peers, and the connection status shown to the session.

  A peer connection is an \<open>RTCPeerConnection\<close> of the browser: its getters are the \<open>pc_view\<close> of the event
  that is handled, its methods are effects. A peer is an object that outlives its entry in the map of
  peers (late answers and timers still refer to it), so peers live in a store \<open>me_objs\<close> and the map
  holds their addresses. An awaiting method leaves a continuation in \<open>me_pending\<close>; between the two
  awaits of creating and setting an offer or answer nothing of the engine is read, so they are one step.
  Acquiring local tracks and attaching them is an effect; its answer says whether they need negotiation.
\<close>

section \<open>Peer connections\<close>

datatype sig_state = Stable | HaveLocalOffer | HaveRemoteOffer | HaveLocalPranswer | HaveRemotePranswer | SigClosed
datatype direction = SendRecv | SendOnly | RecvOnly | InactiveDir | StoppedDir

record sender_track =
  tk_kind :: track_kind
  tk_live :: bool
  tk_enabled :: bool

text \<open>A sender: its track, and the current direction of its transceiver if it has one.\<close>

record sender =
  sn_track :: "sender_track option"
  sn_transceiver :: "direction option option"

record pc_view =
  pv_signaling :: sig_state
  pv_ice :: ice_state
  pv_conn :: pc_state
  pv_hasRemote :: bool
  pv_senders :: "sender list"

record media_env =
  nv_now :: nat
  nv_pc :: "nat \<Rightarrow> pc_view"
  nv_hasStream :: bool

section \<open>State\<close>

record outbound_sample =
  ob_audioBytes :: rat
  ob_videoBytes :: rat
  ob_videoFrames :: rat

record peer =
  pe_cid :: string
  pe_independent :: bool
  pe_iceBuffer :: "json list"
  pe_isMakingOffer :: bool
  pe_offerTimeout :: bool
  pe_iceRestartTimer :: "(int \<times> bool) option"
  pe_lastIceRestartAt :: nat
  pe_pendingIceRestart :: bool
  pe_pendingLocalTrackNegotiation :: bool
  pe_isSettingRemoteAnswerPending :: bool
  pe_pendingLocalOfferId :: "string option"
  pe_acceptedRemoteOfferId :: "string option"
  pe_currentNegotiationId :: "string option"
  pe_ignoredOfferId :: "string option"
  pe_pendingRemoteIce :: "(string \<times> json list) list"
  pe_lastSample :: "outbound_sample option"
  pe_stallSamples :: nat
  pe_watchInFlight :: bool
  pe_lastRecoveryAt :: nat

definition new_peer :: "string \<Rightarrow> bool \<Rightarrow> peer" where
  "new_peer cid indep =
     \<lparr> pe_cid = cid, pe_independent = indep, pe_iceBuffer = [], pe_isMakingOffer = False,
       pe_offerTimeout = False, pe_iceRestartTimer = None, pe_lastIceRestartAt = 0,
       pe_pendingIceRestart = False, pe_pendingLocalTrackNegotiation = False,
       pe_isSettingRemoteAnswerPending = False, pe_pendingLocalOfferId = None,
       pe_acceptedRemoteOfferId = None, pe_currentNegotiationId = None, pe_ignoredOfferId = None,
       pe_pendingRemoteIce = [], pe_lastSample = None, pe_stallSamples = 0, pe_watchInFlight = False,
       pe_lastRecoveryAt = 0 \<rparr>"

record media_config =
  mc_turnsOnly :: bool
  mc_deferInitialAnswer :: bool
  mc_videoMediaEnabled :: bool
  mc_independentContentVideo :: bool

record rtc_config =
  rtc_servers :: "ice_server list"
  rtc_relayOnly :: bool

text \<open>Candidates are applied after a remote offer, on the way to the answer, or after an answer.\<close>

datatype ice_purpose = Answering string | Completing

datatype media_continuation =
    KOffer nat string string
  | KTimeoutRollback string
  | KRestartRollback nat string
  | KOfferRollback nat string string string
  | KRemoteOffer nat string string string bool
  | KRemoteAnswer nat string string "string option" bool
  | KAddIce nat string ice_purpose "json list"
  | KDrainIce nat string string
  | KAttach nat string string
  | KAnswer nat string string
  | KOutboundStats nat string bool bool

record media_engine =
  me_config :: media_config
  me_rtcConfig :: rtc_config
  me_roomState :: "room_state option"
  me_clientId :: "string option"
  me_isSignalingConnected :: bool
  me_peers :: "(string \<times> nat) list"
  me_objs :: "nat \<Rightarrow> peer"
  me_nextPeer :: nat
  me_participantStatus :: "(string \<times> bool) list"
  me_restartHandledAt :: "(string \<times> nat) list"
  me_answeredCids :: "string list"
  me_offerSequence :: nat
  me_contentRevision :: nat
  me_iceState :: ice_state
  me_connState :: pc_state
  me_sigState :: sig_state
  me_connectionStatus :: link_status
  me_retryingTimer :: bool
  me_destroyed :: bool
  me_pending :: "media_continuation list"

datatype media_effect =
    PcCreate nat string
  | PcClose nat
  | PcConfigure nat rtc_config
  | PcOffer nat string bool
  | PcRollback nat string
  | PcRemoteOffer nat string
  | PcRemoteAnswer nat string
  | PcAnswer nat
  | PcAddIce nat json
  | PcStats nat
  | RejectRemoteVideo nat
  | AttachLocalMedia nat
  | AttachPendingTracks nat
  | SendOffer string string string
  | SendAnswer string string string
  | SendIce string json "string option"
  | SendRestartRequest string string
  | SendContentState bool "string option" nat
  | StopLocalMedia
  | RemoveListeners
  | MediaChange

type_synonym media_act = "(media_engine, media_effect) act"

definition DEFAULT_RTC_CONFIG :: rtc_config where
  "DEFAULT_RTC_CONFIG =
     \<lparr> rtc_servers = [\<lparr> is_urls = [''stun:stun.l.google.com:19302''], is_username = None, is_credential = None \<rparr>],
       rtc_relayOnly = False \<rparr>"

definition LEGACY_OFFER_ID :: string where
  "LEGACY_OFFER_ID = ''__legacy__''"

definition MEDIA_RESTART_REASON_LOCAL_TRACK_NEGOTIATION :: string where
  "MEDIA_RESTART_REASON_LOCAL_TRACK_NEGOTIATION = ''local track negotiation''"

abbreviation media_tell :: "media_effect \<Rightarrow> media_act" where
  "media_tell e \<equiv> out (\<lambda>_. e)"

abbreviation obj :: "media_engine \<Rightarrow> nat \<Rightarrow> peer" where
  "obj s pid \<equiv> me_objs s pid"

definition upd_peer :: "nat \<Rightarrow> (peer \<Rightarrow> peer) \<Rightarrow> media_act" where
  "upd_peer pid f = upd (\<lambda>s. s\<lparr> me_objs := (me_objs s)(pid := f (me_objs s pid)) \<rparr>)"

text \<open>\<open>const peer = this.peers.get(cid); if (!peer) return\<close>.\<close>

definition with_peer :: "string \<Rightarrow> (nat \<Rightarrow> media_act) \<Rightarrow> media_act" where
  "with_peer cid k = letS (\<lambda>s. map_of (me_peers s) cid) (\<lambda>p. case p of None \<Rightarrow> skipS | Some pid \<Rightarrow> k pid)"

definition media_await :: "media_continuation \<Rightarrow> media_act" where
  "media_await k = upd (\<lambda>s. s\<lparr> me_pending := me_pending s @ [k] \<rparr>)"

definition media_resume :: "media_continuation \<Rightarrow> media_act \<Rightarrow> media_act" where
  "media_resume k a = whenS (\<lambda>s. k \<in> set (me_pending s))
     (seqS [upd (\<lambda>s. s\<lparr> me_pending := remove1 k (me_pending s) \<rparr>), a])"

definition notifyChange :: media_act where
  "notifyChange = media_tell MediaChange"

section \<open>Who is in the room and who offers\<close>

definition me_participants :: "media_engine \<Rightarrow> room_participant list" where
  "me_participants s = (case me_roomState s of None \<Rightarrow> [] | Some r \<Rightarrow> rs_participants r)"

definition isCurrentParticipant :: "media_engine \<Rightarrow> string \<Rightarrow> bool" where
  "isCurrentParticipant s cid =
     (if Some cid = me_clientId s then False
      else me_roomState s = None \<or> cid \<in> set (map rp_cid (me_participants s)))"

text \<open>The host if it is in the room.\<close>

definition room_host :: "room_state \<Rightarrow> string option" where
  "room_host r = (case rs_hostCid r of
      Some h \<Rightarrow> if h \<in> set (map rp_cid (rs_participants r)) then Some h else None
    | None \<Rightarrow> None)"

definition shouldIOffer :: "media_engine \<Rightarrow> string \<Rightarrow> bool" where
  "shouldIOffer s cid =
     (case truthy_string (me_clientId s) of
        None \<Rightarrow> False
      | Some myId \<Rightarrow>
          isCurrentParticipant s cid \<and>
          (case (if mc_deferInitialAnswer (me_config s) then me_roomState s else None) of
             Some r \<Rightarrow>
               (case truthy_string (room_host r) of
                  Some hostCid \<Rightarrow>
                    if card (set (map rp_cid (rs_participants r))) \<le> 2 then myId = hostCid else myId < cid
                | None \<Rightarrow> myId < cid)
           | None \<Rightarrow> myId < cid))"

definition isParticipantActive :: "media_engine \<Rightarrow> string \<Rightarrow> bool" where
  "isParticipantActive s cid =
     (me_roomState s = None \<or>
      (case find (\<lambda>p. rp_cid p = cid) (me_participants s) of
         None \<Rightarrow> False
       | Some p \<Rightarrow> rp_connectionStatus p \<noteq> Some Suspended))"

definition isPeerIndependentCapable :: "media_engine \<Rightarrow> string \<Rightarrow> bool" where
  "isPeerIndependentCapable s cid =
     (mc_independentContentVideo (me_config s) \<and>
      (case find (\<lambda>p. rp_cid p = cid) (me_participants s) of
         None \<Rightarrow> False
       | Some p \<Rightarrow>
           Option.bind (rp_capabilities p) cap_independentContentVideo = Some True \<and>
           Option.bind (rp_mediaPolicy p) mp_videoMediaEnabled \<noteq> Some False \<and>
           mc_videoMediaEnabled (me_config s)))"

definition isDeferringInitialNegotiation :: "media_engine \<Rightarrow> string \<Rightarrow> bool" where
  "isDeferringInitialNegotiation s cid =
     (mc_deferInitialAnswer (me_config s) \<and> shouldIOffer s cid \<and> cid \<notin> set (me_answeredCids s))"

section \<open>The connection status\<close>

definition resetConnectionStatusMachine :: media_act where
  "resetConnectionStatusMachine = upd (\<lambda>s. s\<lparr> me_retryingTimer := False, me_connectionStatus := LinkConnected \<rparr>)"

definition scheduleRetryingTransition :: media_act where
  "scheduleRetryingTransition = ifS me_retryingTimer skipS (upd (\<lambda>s. s\<lparr> me_retryingTimer := True \<rparr>))"

definition setConnectionRecovering :: media_act where
  "setConnectionRecovering =
     seqS
       [whenS (\<lambda>s. me_connectionStatus s = LinkConnected) (upd (\<lambda>s. s\<lparr> me_connectionStatus := LinkRecovering \<rparr>)),
        whenS (\<lambda>s. me_connectionStatus s \<noteq> LinkRetrying) scheduleRetryingTransition]"

definition is_degraded :: "media_engine \<Rightarrow> bool" where
  "is_degraded s =
     (\<not> me_isSignalingConnected s \<or> me_iceState s = IceDisconnected \<or> me_iceState s = IceFailed \<or>
      me_connState s = PcDisconnected \<or> me_connState s = PcFailed)"

definition updateConnectionStatusValue :: media_act where
  "updateConnectionStatusValue =
     ifS (\<lambda>s. length (me_participants s) \<le> 1) resetConnectionStatusMachine
       (ifS is_degraded setConnectionRecovering resetConnectionStatusMachine)"

definition retrying_fired :: media_act where
  "retrying_fired =
     whenS me_retryingTimer
       (seqS
         [upd (\<lambda>s. s\<lparr> me_retryingTimer := False \<rparr>),
          whenS (\<lambda>s. me_connectionStatus s = LinkRecovering) (upd (\<lambda>s. s\<lparr> me_connectionStatus := LinkRetrying \<rparr>)),
          notifyChange])"

definition ICE_STATE_PRIORITY :: "ice_state list" where
  "ICE_STATE_PRIORITY = [IceFailed, IceDisconnected, IceChecking, IceNew, IceConnected, IceCompleted, IceClosed]"

definition CONN_STATE_PRIORITY :: "pc_state list" where
  "CONN_STATE_PRIORITY = [PcFailed, PcDisconnected, PcConnecting, PcNew, PcConnected, PcClosed]"

definition SIG_STATE_PRIORITY :: "sig_state list" where
  "SIG_STATE_PRIORITY = [SigClosed, HaveLocalOffer, HaveRemoteOffer, HaveLocalPranswer, HaveRemotePranswer, Stable]"

text \<open>\<open>indexOf\<close> on a list that contains the element.\<close>

definition priority_of :: "'a list \<Rightarrow> 'a \<Rightarrow> nat" where
  "priority_of xs x = length (takeWhile (\<lambda>y. y \<noteq> x) xs)"

definition worst :: "'a list \<Rightarrow> 'a list \<Rightarrow> 'a \<Rightarrow> 'a" where
  "worst priority xs start = fold (\<lambda>x w. if priority_of priority x < priority_of priority w then x else w) xs start"

definition updateAggregateState :: "media_env \<Rightarrow> media_act" where
  "updateAggregateState env =
     seqS
       [upd (\<lambda>s. let views = map (\<lambda>e. nv_pc env (snd e)) (me_peers s) in
          s\<lparr> me_iceState := (if views = [] then IceNew else worst ICE_STATE_PRIORITY (map pv_ice views) IceCompleted),
             me_connState := (if views = [] then PcNew else worst CONN_STATE_PRIORITY (map pv_conn views) PcConnected),
             me_sigState := worst SIG_STATE_PRIORITY (map pv_signaling views) Stable \<rparr>),
        updateConnectionStatusValue, notifyChange]"

section \<open>Offers and ICE restarts\<close>

definition nextOfferId :: "media_env \<Rightarrow> string \<Rightarrow> media_engine \<Rightarrow> string" where
  "nextOfferId env cid s =
     default [] (me_clientId s) @ '':'' @ cid @ '':'' @ decimal (nv_now env) @ '':'' @ decimal (me_offerSequence s + 1)"

definition currentLocalOfferId :: "peer \<Rightarrow> string option" where
  "currentLocalOfferId p =
     coalesce (pe_pendingLocalOfferId p) (coalesce (pe_acceptedRemoteOfferId p) (pe_currentNegotiationId p))"

definition isKnownNegotiationId :: "peer \<Rightarrow> string \<Rightarrow> bool" where
  "isKnownNegotiationId p offerId =
     (pe_pendingLocalOfferId p = Some offerId \<or> pe_acceptedRemoteOfferId p = Some offerId \<or>
      pe_currentNegotiationId p = Some offerId)"

definition cooldown_remaining :: "media_env \<Rightarrow> peer \<Rightarrow> int" where
  "cooldown_remaining env p =
     min ICE_RESTART_COOLDOWN_MS (max 0 (int (pe_lastIceRestartAt p) + ICE_RESTART_COOLDOWN_MS - int (nv_now env)))"

definition scheduleIceRestart :: "media_env \<Rightarrow> string \<Rightarrow> int \<Rightarrow> bool \<Rightarrow> media_act" where
  "scheduleIceRestart env cid delayMs allowBeforeFirstAnswer =
     with_peer cid (\<lambda>pid.
       ifS (\<lambda>s. \<not> allowBeforeFirstAnswer \<and> isDeferringInitialNegotiation s cid) skipS
         (ifS (\<lambda>s. \<not> me_isSignalingConnected s \<or> \<not> isParticipantActive s cid)
           (upd_peer pid (\<lambda>p. p\<lparr> pe_pendingIceRestart := True \<rparr>))
           (ifS (\<lambda>s. pe_iceRestartTimer (obj s pid) \<noteq> None) skipS
             (upd_peer pid (\<lambda>p. p\<lparr> pe_iceRestartTimer :=
                Some (max delayMs (cooldown_remaining env p), allowBeforeFirstAnswer) \<rparr>)))))"

text \<open>The \<open>finally\<close> block of \<open>createOfferTo\<close>.\<close>

definition offer_finally :: "media_env \<Rightarrow> nat \<Rightarrow> string \<Rightarrow> media_act" where
  "offer_finally env pid cid =
     seqS
       [upd_peer pid (\<lambda>p. p\<lparr> pe_isMakingOffer := False \<rparr>),
        whenS (\<lambda>s. pe_pendingIceRestart (obj s pid))
          (seqS [upd_peer pid (\<lambda>p. p\<lparr> pe_pendingIceRestart := False \<rparr>), scheduleIceRestart env cid 500 False])]"

definition createOfferTo :: "media_env \<Rightarrow> string \<Rightarrow> bool \<Rightarrow> media_act" where
  "createOfferTo env cid iceRestart =
     with_peer cid (\<lambda>pid.
       let want_restart = (if iceRestart then upd_peer pid (\<lambda>p. p\<lparr> pe_pendingIceRestart := True \<rparr>) else skipS) in
       ifS (\<lambda>s. pe_isMakingOffer (obj s pid)) want_restart
         (ifS (\<lambda>s. \<not> shouldIOffer s cid \<or> \<not> isParticipantActive s cid) skipS
           (if pv_signaling (nv_pc env pid) \<noteq> Stable
            then seqS [want_restart, offer_finally env pid cid]
            else letS (nextOfferId env cid) (\<lambda>offerId.
              seqS
                [upd (\<lambda>s. s\<lparr> me_offerSequence := me_offerSequence s + 1 \<rparr>),
                 upd_peer pid (\<lambda>p. p\<lparr> pe_pendingLocalOfferId := Some offerId, pe_acceptedRemoteOfferId := None,
                                      pe_ignoredOfferId := None, pe_isMakingOffer := True \<rparr>),
                 media_tell (PcOffer pid cid iceRestart), media_await (KOffer pid cid offerId)]))))"

text \<open>The offer was created and set, with its SDP, or one of the two failed.\<close>

definition offer_made :: "media_env \<Rightarrow> nat \<Rightarrow> string \<Rightarrow> string \<Rightarrow> string option \<Rightarrow> media_act" where
  "offer_made env pid cid offerId outcome =
     media_resume (KOffer pid cid offerId)
       (seqS
         [(case outcome of
             None \<Rightarrow> upd_peer pid (\<lambda>p. p\<lparr> pe_pendingLocalOfferId := None \<rparr>)
           | Some sdp \<Rightarrow> seqS
               [media_tell (SendOffer cid sdp offerId),
                letS (\<lambda>s. isDeferringInitialNegotiation s cid) (\<lambda>deferring.
                  upd_peer pid (\<lambda>p. p\<lparr> pe_offerTimeout := \<not> deferring \<rparr>))]),
          offer_finally env pid cid])"

definition offer_timeout_fired :: "media_env \<Rightarrow> nat \<Rightarrow> media_act" where
  "offer_timeout_fired env pid =
     whenS (\<lambda>s. pe_offerTimeout (obj s pid))
       (letS (\<lambda>s. pe_cid (obj s pid)) (\<lambda>cid.
        ifS (\<lambda>s. map_of (me_peers s) cid \<noteq> Some pid)
          (upd_peer pid (\<lambda>p. p\<lparr> pe_offerTimeout := False \<rparr>))
          (seqS
            [upd_peer pid (\<lambda>p. p\<lparr> pe_offerTimeout := False, pe_pendingIceRestart := True, pe_pendingLocalOfferId := None \<rparr>),
             (if pv_signaling (nv_pc env pid) = HaveLocalOffer
              then seqS [media_tell (PcRollback pid cid), media_await (KTimeoutRollback cid)]
              else scheduleIceRestart env cid 0 False)])))"

definition timeout_rolled_back :: "media_env \<Rightarrow> string \<Rightarrow> media_act" where
  "timeout_rolled_back env cid = media_resume (KTimeoutRollback cid) (scheduleIceRestart env cid 0 False)"

definition restart_now :: "media_env \<Rightarrow> nat \<Rightarrow> string \<Rightarrow> media_act" where
  "restart_now env pid cid =
     seqS
       [upd_peer pid (\<lambda>p. p\<lparr> pe_lastIceRestartAt := nv_now env, pe_pendingIceRestart := False \<rparr>),
        createOfferTo env cid True]"

definition triggerIceRestart :: "media_env \<Rightarrow> string \<Rightarrow> bool \<Rightarrow> media_act" where
  "triggerIceRestart env cid allowBeforeFirstAnswer =
     with_peer cid (\<lambda>pid.
       let remember = upd_peer pid (\<lambda>p. p\<lparr> pe_pendingIceRestart := True \<rparr>) in
       ifS (\<lambda>s. \<not> allowBeforeFirstAnswer \<and> isDeferringInitialNegotiation s cid) skipS
         (ifS (\<lambda>s. \<not> me_isSignalingConnected s \<or> \<not> isParticipantActive s cid) remember
           (ifS (\<lambda>s. \<not> shouldIOffer s cid) skipS
             (ifS (\<lambda>s. pe_isMakingOffer (obj s pid)) remember
               (case pv_signaling (nv_pc env pid) of
                  Stable \<Rightarrow> restart_now env pid cid
                | HaveLocalOffer \<Rightarrow> seqS
                    [remember, upd_peer pid (\<lambda>p. p\<lparr> pe_pendingLocalOfferId := None \<rparr>),
                     media_tell (PcRollback pid cid), media_await (KRestartRollback pid cid)]
                | _ \<Rightarrow> remember)))))"

definition restart_rolled_back :: "media_env \<Rightarrow> nat \<Rightarrow> string \<Rightarrow> bool \<Rightarrow> media_act" where
  "restart_rolled_back env pid cid ok =
     media_resume (KRestartRollback pid cid)
       (if \<not> ok \<or> pv_signaling (nv_pc env pid) \<noteq> Stable then skipS
        else seqS [upd_peer pid (\<lambda>p. p\<lparr> pe_pendingIceRestart := False \<rparr>), restart_now env pid cid])"

definition ice_restart_fired :: "media_env \<Rightarrow> nat \<Rightarrow> media_act" where
  "ice_restart_fired env pid =
     letS (\<lambda>s. pe_iceRestartTimer (obj s pid)) (\<lambda>timer. case timer of
       None \<Rightarrow> skipS
     | Some (_, allow) \<Rightarrow>
         letS (\<lambda>s. pe_cid (obj s pid)) (\<lambda>cid.
         seqS [upd_peer pid (\<lambda>p. p\<lparr> pe_iceRestartTimer := None \<rparr>), triggerIceRestart env cid allow]))"

section \<open>Negotiating local tracks\<close>

definition live_track :: "sender_track option \<Rightarrow> bool" where
  "live_track t = (case t of None \<Rightarrow> False | Some tr \<Rightarrow> tk_live tr \<and> tk_enabled tr)"

definition needsLocalTrackNegotiation :: "sender_track option \<Rightarrow> direction option \<Rightarrow> bool" where
  "needsLocalTrackNegotiation track currentDirection =
     (live_track track \<and> currentDirection \<noteq> Some SendRecv \<and> currentDirection \<noteq> Some SendOnly)"

definition hasUnnegotiatedLocalTracks :: "pc_view \<Rightarrow> bool" where
  "hasUnnegotiatedLocalTracks pc =
     list_ex (\<lambda>sn. live_track (sn_track sn) \<and>
       (case sn_transceiver sn of None \<Rightarrow> True | Some d \<Rightarrow> needsLocalTrackNegotiation (sn_track sn) d)) (pv_senders pc)"

definition requestPeerMediaRecovery :: "string \<Rightarrow> string \<Rightarrow> media_act" where
  "requestPeerMediaRecovery cid reason =
     ifS (\<lambda>s. \<not> me_isSignalingConnected s \<or> \<not> isParticipantActive s cid) skipS
       (media_tell (SendRestartRequest cid reason))"

definition scheduleLocalTrackNegotiation :: "media_env \<Rightarrow> string \<Rightarrow> nat \<Rightarrow> media_act" where
  "scheduleLocalTrackNegotiation env cid pid =
     (let pc = nv_pc env pid in
      ifS (\<lambda>s. \<not> me_isSignalingConnected s \<or> (\<not> shouldIOffer s cid \<and> \<not> pv_hasRemote pc) \<or> pv_signaling pc \<noteq> Stable)
        (upd_peer pid (\<lambda>p. p\<lparr> pe_pendingLocalTrackNegotiation := True \<rparr>))
        (seqS
          [upd_peer pid (\<lambda>p. p\<lparr> pe_pendingLocalTrackNegotiation := False \<rparr>),
           (if \<not> hasUnnegotiatedLocalTracks pc then skipS
            else ifS (\<lambda>s. \<not> shouldIOffer s cid)
              (requestPeerMediaRecovery cid MEDIA_RESTART_REASON_LOCAL_TRACK_NEGOTIATION)
              (createOfferTo env cid False))]))"

section \<open>The peers\<close>

definition clearPeerTimers :: "nat \<Rightarrow> media_act" where
  "clearPeerTimers pid = upd_peer pid (\<lambda>p. p\<lparr> pe_offerTimeout := False, pe_iceRestartTimer := None \<rparr>)"

definition clearPeerNegotiation :: "nat \<Rightarrow> media_act" where
  "clearPeerNegotiation pid =
     upd_peer pid (\<lambda>p. p\<lparr> pe_isSettingRemoteAnswerPending := False, pe_pendingLocalOfferId := None,
       pe_acceptedRemoteOfferId := None, pe_currentNegotiationId := None, pe_ignoredOfferId := None,
       pe_pendingRemoteIce := [] \<rparr>)"

definition getOrCreatePeer :: "string \<Rightarrow> media_act" where
  "getOrCreatePeer cid =
     ifS (\<lambda>s. map_of (me_peers s) cid \<noteq> None) skipS
       (letS me_nextPeer (\<lambda>pid.
        seqS
          [upd (\<lambda>s. s\<lparr> me_objs := (me_objs s)(pid := new_peer cid (isPeerIndependentCapable s cid)),
                       me_nextPeer := pid + 1 \<rparr>),
           media_tell (PcCreate pid cid),
           upd (\<lambda>s. s\<lparr> me_peers := AList.update cid pid (me_peers s) \<rparr>)]))"

definition close_peer :: "nat \<Rightarrow> media_act" where
  "close_peer pid = seqS [clearPeerTimers pid, clearPeerNegotiation pid, media_tell (PcClose pid)]"

definition cleanupPeer :: "media_env \<Rightarrow> string \<Rightarrow> bool \<Rightarrow> media_act" where
  "cleanupPeer env cid clearMediaRestartCooldown =
     with_peer cid (\<lambda>pid.
       seqS
         [close_peer pid,
          upd (\<lambda>s. s\<lparr> me_peers := AList.delete cid (me_peers s),
                      me_participantStatus := AList.delete cid (me_participantStatus s) \<rparr>),
          (if clearMediaRestartCooldown
           then upd (\<lambda>s. s\<lparr> me_restartHandledAt := AList.delete cid (me_restartHandledAt s),
                            me_answeredCids := removeAll cid (me_answeredCids s) \<rparr>)
           else skipS),
          updateAggregateState env])"

definition cleanupAllPeers :: media_act where
  "cleanupAllPeers =
     seqS
       [letS (\<lambda>s. map snd (me_peers s)) (\<lambda>pids. forS pids close_peer),
        upd (\<lambda>s. s\<lparr> me_peers := [], me_restartHandledAt := [], me_answeredCids := [], me_retryingTimer := False,
                    me_iceState := IceClosed, me_connState := PcClosed, me_sigState := SigClosed,
                    me_connectionStatus := LinkConnected \<rparr>),
        notifyChange]"

definition replacePeerForRemoteOffer :: "media_env \<Rightarrow> string \<Rightarrow> string \<Rightarrow> json list \<Rightarrow> media_act" where
  "replacePeerForRemoteOffer env cid offerId pendingIce =
     seqS
       [cleanupPeer env cid False, getOrCreatePeer cid,
        with_peer cid (\<lambda>pid.
          if pendingIce = [] then skipS
          else upd_peer pid (\<lambda>p. p\<lparr> pe_pendingRemoteIce := AList.update offerId pendingIce (pe_pendingRemoteIce p) \<rparr>))]"

text \<open>\<open>cleanupPeer\<close> and \<open>getOrCreatePeer\<close> around the participant's last known status.\<close>

definition recreate_peer :: "media_env \<Rightarrow> string \<Rightarrow> media_act" where
  "recreate_peer env cid =
     letS (\<lambda>s. map_of (me_participantStatus s) cid) (\<lambda>previousStatus.
     seqS
       [cleanupPeer env cid False,
        (case previousStatus of
           None \<Rightarrow> skipS
         | Some st \<Rightarrow> upd (\<lambda>s. s\<lparr> me_participantStatus := AList.update cid st (me_participantStatus s) \<rparr>)),
        getOrCreatePeer cid])"

definition recreatePeerForMediaRecovery :: "media_env \<Rightarrow> string \<Rightarrow> media_act" where
  "recreatePeerForMediaRecovery env cid =
     ifS (\<lambda>s. \<not> shouldIOffer s cid \<or> \<not> me_isSignalingConnected s \<or> \<not> isParticipantActive s cid) skipS
       (seqS
         [recreate_peer env cid,
          with_peer cid (\<lambda>pid. upd_peer pid (\<lambda>p. p\<lparr> pe_lastRecoveryAt := nv_now env \<rparr>)),
          createOfferTo env cid False])"

definition recreatePeerForCapabilityChange :: "media_env \<Rightarrow> string \<Rightarrow> media_act" where
  "recreatePeerForCapabilityChange env cid =
     ifS (\<lambda>s. \<not> isParticipantActive s cid) skipS
       (seqS
         [recreate_peer env cid,
          ifS (\<lambda>s. shouldIOffer s cid \<and> nv_hasStream env) (createOfferTo env cid False) skipS])"

text \<open>Whether the peer of a participant was built with another capability than it has now.\<close>

definition capability_changed :: "media_engine \<Rightarrow> string \<Rightarrow> bool" where
  "capability_changed s cid =
     (case map_of (me_peers s) cid of
        None \<Rightarrow> False
      | Some pid \<Rightarrow> isPeerIndependentCapable s cid \<noteq> pe_independent (obj s pid))"

text \<open>The loop body of \<open>syncPeers\<close> for a remote participant.\<close>

definition sync_participant :: "media_env \<Rightarrow> room_participant \<Rightarrow> media_act" where
  "sync_participant env p =
     (let cid = rp_cid p; suspended = (rp_connectionStatus p = Some Suspended) in
      letS (\<lambda>s. map_of (me_participantStatus s) cid) (\<lambda>previousStatus.
      let becameActive = (previousStatus = Some True \<and> \<not> suspended);
          offer_or_restart =
            ifS (\<lambda>s. \<not> shouldIOffer s cid) skipS
              (if becameActive then scheduleIceRestart env cid 0 False
               else with_peer cid (\<lambda>pid.
                 if nv_hasStream env \<and> pv_signaling (nv_pc env pid) = Stable \<and> \<not> pv_hasRemote (nv_pc env pid)
                 then createOfferTo env cid False else skipS))
      in seqS
        [upd (\<lambda>s. s\<lparr> me_participantStatus := AList.update cid suspended (me_participantStatus s) \<rparr>),
         ifS (\<lambda>s. map_of (me_peers s) cid = None)
           (seqS [getOrCreatePeer cid, offer_or_restart])
           (ifS (\<lambda>s. capability_changed s cid)
             (recreatePeerForCapabilityChange env cid) offer_or_restart)]))"

definition keep_keys :: "string list \<Rightarrow> (string \<times> 'a) list \<Rightarrow> (string \<times> 'a) list" where
  "keep_keys cids m = fold AList.delete (filter (\<lambda>k. k \<notin> set cids) (map_keys m)) m"

definition remote_participants :: "media_engine \<Rightarrow> room_participant list" where
  "remote_participants s = filter (\<lambda>p. Some (rp_cid p) \<noteq> me_clientId s) (me_participants s)"

definition syncPeers :: "media_env \<Rightarrow> media_act" where
  "syncPeers env =
     ifS (\<lambda>s. me_roomState s = None \<or> truthy_string (me_clientId s) = None)
       (seqS
         [whenS (\<lambda>s. me_peers s \<noteq> []) cleanupAllPeers,
          upd (\<lambda>s. s\<lparr> me_participantStatus := [], me_restartHandledAt := [], me_answeredCids := [] \<rparr>)])
       (letS remote_participants (\<lambda>remotePeers.
        let remoteCids = map rp_cid remotePeers in
        seqS
          [letS (\<lambda>s. map fst (me_peers s)) (\<lambda>cids.
             forS (filter (\<lambda>cid. cid \<notin> set remoteCids) cids) (\<lambda>cid. cleanupPeer env cid True)),
           upd (\<lambda>s. s\<lparr> me_participantStatus := keep_keys remoteCids (me_participantStatus s),
                       me_restartHandledAt := keep_keys remoteCids (me_restartHandledAt s),
                       me_answeredCids := filter (\<lambda>cid. cid \<in> set remoteCids) (me_answeredCids s) \<rparr>),
           forS remotePeers (sync_participant env),
           notifyChange]))"

section \<open>Calls of the session\<close>

definition seedContentRevision :: "jsnum option \<Rightarrow> media_act" where
  "seedContentRevision revision =
     (case revision of
        Some (Fin r) \<Rightarrow>
          if js_is_safe_integer (Fin r) \<and> 0 \<le> r
          then upd (\<lambda>s. s\<lparr> me_contentRevision := max (me_contentRevision s) (nat \<lfloor>r\<rfloor>) \<rparr>) else skipS
      | _ \<Rightarrow> skipS)"

definition updateRoomState :: "media_env \<Rightarrow> room_state option \<Rightarrow> string option \<Rightarrow> media_act" where
  "updateRoomState env state clientId =
     seqS [upd (\<lambda>s. s\<lparr> me_roomState := state, me_clientId := clientId \<rparr>), syncPeers env]"

definition resume_peer :: "media_env \<Rightarrow> string \<times> nat \<Rightarrow> media_act" where
  "resume_peer env e =
     (let cid = fst e; pid = snd e in
      seqS
        [whenS (\<lambda>s. pe_pendingIceRestart (obj s pid) \<and> shouldIOffer s cid \<and> pv_signaling (nv_pc env pid) = Stable)
           (restart_now env pid cid),
         whenS (\<lambda>s. pe_pendingLocalTrackNegotiation (obj s pid)) (scheduleLocalTrackNegotiation env cid pid)])"

definition updateSignalingConnected :: "media_env \<Rightarrow> bool \<Rightarrow> media_act" where
  "updateSignalingConnected env up =
     seqS
       [upd (\<lambda>s. s\<lparr> me_isSignalingConnected := up \<rparr>), updateConnectionStatusValue,
        (if up then letS me_peers (\<lambda>peers. forS peers (resume_peer env)) else skipS)]"

definition normalizeIceServers :: "ice_server list \<Rightarrow> bool \<Rightarrow> ice_server list" where
  "normalizeIceServers servers turnsOnly =
     filter (\<lambda>sv. is_urls sv \<noteq> [])
       (map (\<lambda>sv. sv\<lparr> is_urls := filter (\<lambda>url. url \<noteq> [] \<and> (turnsOnly \<longrightarrow> take 6 (js_lower url) = ''turns:'')) (is_urls sv) \<rparr>)
         servers)"

definition setIceServers :: "ice_server list \<Rightarrow> media_act" where
  "setIceServers servers =
     letS (\<lambda>s. let turnsOnly = mc_turnsOnly (me_config s); next_servers = normalizeIceServers servers turnsOnly in
        \<lparr> rtc_servers = (if next_servers \<noteq> [] then next_servers else rtc_servers DEFAULT_RTC_CONFIG),
          rtc_relayOnly = turnsOnly \<rparr>) (\<lambda>cfg.
     seqS
       [upd (\<lambda>s. s\<lparr> me_rtcConfig := cfg \<rparr>),
        letS (\<lambda>s. map snd (me_peers s)) (\<lambda>pids. forS pids (\<lambda>pid. media_tell (PcConfigure pid cfg)))])"

definition handleSignalingReconnect :: "media_env \<Rightarrow> media_act" where
  "handleSignalingReconnect env =
     ifS (\<lambda>s. \<not> me_isSignalingConnected s) skipS
       (letS (\<lambda>s. map fst (me_peers s)) (\<lambda>cids.
          forS cids (\<lambda>cid. whenS (\<lambda>s. shouldIOffer s cid) (scheduleIceRestart env cid 0 False))))"

definition scheduleDirtyPairRestart :: "media_env \<Rightarrow> string \<Rightarrow> media_act" where
  "scheduleDirtyPairRestart env cid =
     ifS (\<lambda>s. map_of (me_peers s) cid = None) skipS
       (whenS (\<lambda>s. shouldIOffer s cid) (scheduleIceRestart env cid 0 False))"

definition sendContentState :: "bool \<Rightarrow> string option \<Rightarrow> media_act" where
  "sendContentState active_flag contentType =
     seqS
       [upd (\<lambda>s. s\<lparr> me_contentRevision := me_contentRevision s + 1 \<rparr>),
        out (\<lambda>s. SendContentState active_flag contentType (me_contentRevision s))]"

definition destroy_media :: media_act where
  "destroy_media =
     seqS
       [upd (\<lambda>s. s\<lparr> me_destroyed := True \<rparr>), cleanupAllPeers, media_tell StopLocalMedia, media_tell RemoveListeners,
        upd (\<lambda>s. s\<lparr> me_retryingTimer := False \<rparr>)]"

section \<open>Answering an offer\<close>

definition applyRemoteOffer :: "nat \<Rightarrow> string \<Rightarrow> string \<Rightarrow> string \<Rightarrow> bool \<Rightarrow> media_act" where
  "applyRemoteOffer pid cid sdp offerId allowPeerReset =
     seqS
       [upd_peer pid (\<lambda>p. p\<lparr> pe_ignoredOfferId := None, pe_pendingLocalOfferId := None \<rparr>),
        media_tell (PcRemoteOffer pid sdp), media_await (KRemoteOffer pid cid sdp offerId allowPeerReset)]"

definition offer_collides :: "pc_view \<Rightarrow> peer \<Rightarrow> bool" where
  "offer_collides pc p =
     (pe_isMakingOffer p \<or> (pv_signaling pc \<noteq> Stable \<and> \<not> pe_isSettingRemoteAnswerPending p))"

definition handleOfferFrom :: "media_env \<Rightarrow> string \<Rightarrow> string \<Rightarrow> string \<Rightarrow> media_act" where
  "handleOfferFrom env cid sdp offerId =
     seqS
       [getOrCreatePeer cid,
        with_peer cid (\<lambda>pid.
          let pc = nv_pc env pid in
          ifS (\<lambda>s. offer_collides pc (obj s pid) \<and> shouldIOffer s cid)
            (upd_peer pid (\<lambda>p. p\<lparr> pe_ignoredOfferId := Some offerId \<rparr>))
            (ifS (\<lambda>s. offer_collides pc (obj s pid) \<and> pv_signaling pc = HaveLocalOffer)
              (seqS
                [upd_peer pid (\<lambda>p. p\<lparr> pe_pendingLocalOfferId := None, pe_offerTimeout := False \<rparr>),
                 media_tell (PcRollback pid cid), media_await (KOfferRollback pid cid sdp offerId)])
              (applyRemoteOffer pid cid sdp offerId True)))]"

definition offer_rolled_back :: "nat \<Rightarrow> string \<Rightarrow> string \<Rightarrow> string \<Rightarrow> bool \<Rightarrow> media_act" where
  "offer_rolled_back pid cid sdp offerId ok =
     media_resume (KOfferRollback pid cid sdp offerId)
       (ifS (\<lambda>s. ok \<and> map_of (me_peers s) cid = Some pid) (applyRemoteOffer pid cid sdp offerId True) skipS)"

text \<open>The loop over \<open>iceBuffer\<close>, and the local media and the answer after it.\<close>

definition drain_ice :: "nat \<Rightarrow> string \<Rightarrow> string \<Rightarrow> media_act" where
  "drain_ice pid cid offerId =
     letS (\<lambda>s. pe_iceBuffer (obj s pid)) (\<lambda>buffer. case buffer of
       [] \<Rightarrow> seqS [media_tell (AttachLocalMedia pid), media_await (KAttach pid cid offerId)]
     | c # rest \<Rightarrow> seqS
         [upd_peer pid (\<lambda>p. p\<lparr> pe_iceBuffer := rest \<rparr>), media_tell (PcAddIce pid c), media_await (KDrainIce pid cid offerId)])"

text \<open>After an answer: the tracks that wait for a negotiation are attached.\<close>

definition answer_completed :: "nat \<Rightarrow> media_act" where
  "answer_completed pid =
     whenS (\<lambda>s. pe_independent (obj s pid) \<and> mc_videoMediaEnabled (me_config s)) (media_tell (AttachPendingTracks pid))"

definition add_ice :: "nat \<Rightarrow> string \<Rightarrow> ice_purpose \<Rightarrow> json list \<Rightarrow> media_act" where
  "add_ice pid cid purpose candidates =
     (case candidates of
        c # rest \<Rightarrow> seqS [media_tell (PcAddIce pid c), media_await (KAddIce pid cid purpose rest)]
      | [] \<Rightarrow> (case purpose of Answering offerId \<Rightarrow> drain_ice pid cid offerId | Completing \<Rightarrow> answer_completed pid))"

definition flushPendingRemoteIce :: "nat \<Rightarrow> string \<Rightarrow> ice_purpose \<Rightarrow> string \<Rightarrow> media_act" where
  "flushPendingRemoteIce pid cid purpose offerId =
     letS (\<lambda>s. default [] (map_of (pe_pendingRemoteIce (obj s pid)) offerId)) (\<lambda>pending.
     seqS
       [upd_peer pid (\<lambda>p. p\<lparr> pe_pendingRemoteIce := AList.delete offerId (pe_pendingRemoteIce p) \<rparr>),
        add_ice pid cid purpose pending])"

definition remote_offer_set ::
  "media_env \<Rightarrow> nat \<Rightarrow> string \<Rightarrow> string \<Rightarrow> string \<Rightarrow> bool \<Rightarrow> bool \<Rightarrow> media_act" where
  "remote_offer_set env pid cid sdp offerId allowPeerReset ok =
     media_resume (KRemoteOffer pid cid sdp offerId allowPeerReset)
       (if ok then
          seqS
            [ifS (\<lambda>s. mc_videoMediaEnabled (me_config s)) skipS (media_tell (RejectRemoteVideo pid)),
             upd_peer pid (\<lambda>p. p\<lparr> pe_acceptedRemoteOfferId := Some offerId, pe_currentNegotiationId := Some offerId,
                                  pe_offerTimeout := False \<rparr>),
             flushPendingRemoteIce pid cid (Answering offerId) offerId]
        else
          ifS (\<lambda>s. allowPeerReset \<and> map_of (me_peers s) cid = Some pid)
            (letS (\<lambda>s. default [] (map_of (pe_pendingRemoteIce (obj s pid)) offerId)) (\<lambda>pendingIce.
             seqS
               [replacePeerForRemoteOffer env cid offerId pendingIce,
                with_peer cid (\<lambda>replacement. applyRemoteOffer replacement cid sdp offerId False)]))
            skipS)"

definition setting_failed :: "string \<Rightarrow> media_act" where
  "setting_failed cid = with_peer cid (\<lambda>pid. upd_peer pid (\<lambda>p. p\<lparr> pe_isSettingRemoteAnswerPending := False \<rparr>))"

definition ice_added :: "nat \<Rightarrow> string \<Rightarrow> ice_purpose \<Rightarrow> json list \<Rightarrow> bool \<Rightarrow> media_act" where
  "ice_added pid cid purpose rest ok =
     media_resume (KAddIce pid cid purpose rest)
       (if ok then add_ice pid cid purpose rest
        else case purpose of Answering _ \<Rightarrow> skipS | Completing \<Rightarrow> setting_failed cid)"

definition ice_drained :: "nat \<Rightarrow> string \<Rightarrow> string \<Rightarrow> bool \<Rightarrow> media_act" where
  "ice_drained pid cid offerId ok =
     media_resume (KDrainIce pid cid offerId) (if ok then drain_ice pid cid offerId else skipS)"

text \<open>The local media is attached (whether it needs a negotiation), or that failed.\<close>

definition media_attached :: "media_env \<Rightarrow> nat \<Rightarrow> string \<Rightarrow> string \<Rightarrow> bool option \<Rightarrow> media_act" where
  "media_attached env pid cid offerId outcome =
     media_resume (KAttach pid cid offerId)
       (case outcome of
          None \<Rightarrow> skipS
        | Some negotiationNeeded \<Rightarrow> seqS
            [(if negotiationNeeded then scheduleLocalTrackNegotiation env cid pid else skipS),
             media_tell (PcAnswer pid), media_await (KAnswer pid cid offerId)])"

definition answer_made :: "nat \<Rightarrow> string \<Rightarrow> string \<Rightarrow> string option \<Rightarrow> media_act" where
  "answer_made pid cid offerId outcome =
     media_resume (KAnswer pid cid offerId)
       (case outcome of None \<Rightarrow> skipS | Some sdp \<Rightarrow> media_tell (SendAnswer cid sdp offerId))"

section \<open>Completing an offer\<close>

definition handleAnswerFrom :: "media_env \<Rightarrow> string \<Rightarrow> string \<Rightarrow> string \<Rightarrow> media_act" where
  "handleAnswerFrom env cid sdp offerId =
     with_peer cid (\<lambda>pid.
       if pv_signaling (nv_pc env pid) \<noteq> HaveLocalOffer then skipS
       else ifS (\<lambda>s. offerId \<noteq> LEGACY_OFFER_ID \<and> pe_pendingLocalOfferId (obj s pid) \<noteq> Some offerId) skipS
         (letS (\<lambda>s. (pe_pendingLocalOfferId (obj s pid), shouldIOffer s cid)) (\<lambda>(pendingOfferId, recover).
          seqS
            [upd_peer pid (\<lambda>p. p\<lparr> pe_isSettingRemoteAnswerPending := True \<rparr>),
             media_tell (PcRemoteAnswer pid sdp), media_await (KRemoteAnswer pid cid offerId pendingOfferId recover)])))"

definition complete_offer :: "string \<Rightarrow> peer \<Rightarrow> peer" where
  "complete_offer completedOfferId p =
     (if pe_pendingLocalOfferId p = Some completedOfferId
      then p\<lparr> pe_pendingLocalOfferId := None, pe_currentNegotiationId := Some completedOfferId,
              pe_ignoredOfferId := None, pe_offerTimeout := False, pe_pendingIceRestart := False \<rparr>
      else p)"

definition remote_answer_set ::
  "media_env \<Rightarrow> nat \<Rightarrow> string \<Rightarrow> string \<Rightarrow> string option \<Rightarrow> bool \<Rightarrow> bool \<Rightarrow> media_act" where
  "remote_answer_set env pid cid offerId pendingOfferId recover ok =
     media_resume (KRemoteAnswer pid cid offerId pendingOfferId recover)
       (if ok then
          (let completedOfferId = default offerId pendingOfferId in
           seqS
             [upd_peer pid (\<lambda>p. p\<lparr> pe_isSettingRemoteAnswerPending := False \<rparr>),
              upd (\<lambda>s. s\<lparr> me_answeredCids := set_add cid (me_answeredCids s) \<rparr>),
              upd_peer pid (complete_offer completedOfferId),
              flushPendingRemoteIce pid cid Completing completedOfferId])
        else seqS [setting_failed cid, (if recover then scheduleIceRestart env cid 0 True else skipS)])"

section \<open>Candidates\<close>

definition buffer_remote :: "string \<Rightarrow> json \<Rightarrow> peer \<Rightarrow> peer" where
  "buffer_remote offerId candidate p =
     (let pending = default [] (map_of (pe_pendingRemoteIce p) offerId) in
      p\<lparr> pe_pendingRemoteIce := AList.update offerId
           (if length pending < ICE_CANDIDATE_BUFFER_MAX then pending @ [candidate] else pending)
           (pe_pendingRemoteIce p) \<rparr>)"

definition handleIceFrom :: "media_env \<Rightarrow> string \<Rightarrow> json \<Rightarrow> string \<Rightarrow> media_act" where
  "handleIceFrom env cid candidate offerId =
     seqS
       [getOrCreatePeer cid,
        with_peer cid (\<lambda>pid.
          ifS (\<lambda>s. pe_ignoredOfferId (obj s pid) = Some offerId) skipS
            (ifS (\<lambda>s. offerId \<noteq> LEGACY_OFFER_ID \<and> \<not> isKnownNegotiationId (obj s pid) offerId)
              (upd_peer pid (buffer_remote offerId candidate))
              (if pv_hasRemote (nv_pc env pid) then media_tell (PcAddIce pid candidate)
               else upd_peer pid (\<lambda>p. if length (pe_iceBuffer p) < ICE_CANDIDATE_BUFFER_MAX
                                      then p\<lparr> pe_iceBuffer := pe_iceBuffer p @ [candidate] \<rparr> else p))))]"

section \<open>Recovery of stalled media\<close>

definition handlePeerLocalTrackNegotiationRequest :: "media_env \<Rightarrow> string \<Rightarrow> media_act" where
  "handlePeerLocalTrackNegotiationRequest env cid =
     ifS (\<lambda>s. \<not> shouldIOffer s cid \<or> \<not> me_isSignalingConnected s \<or> \<not> isParticipantActive s cid) skipS
       (with_peer cid (\<lambda>pid.
          if pv_signaling (nv_pc env pid) \<noteq> Stable then skipS else createOfferTo env cid False))"

definition handleMediaRestartRequest :: "media_env \<Rightarrow> string \<Rightarrow> string \<Rightarrow> media_act" where
  "handleMediaRestartRequest env cid reason =
     (if reason = MEDIA_RESTART_REASON_LOCAL_TRACK_NEGOTIATION then handlePeerLocalTrackNegotiationRequest env cid
      else ifS (\<lambda>s. isDeferringInitialNegotiation s cid) skipS
        (ifS (\<lambda>s. int (nv_now env) - int (default 0 (map_of (me_restartHandledAt s) cid))
                    < OUTBOUND_MEDIA_RECOVERY_COOLDOWN_MS) skipS
          (seqS
            [upd (\<lambda>s. s\<lparr> me_restartHandledAt := AList.update cid (nv_now env) (me_restartHandledAt s) \<rparr>),
             recreatePeerForMediaRecovery env cid])))"

definition processSignalingMessage :: "media_env \<Rightarrow> signaling_message \<Rightarrow> media_act" where
  "processSignalingMessage env msg =
     (let payload = sg_payload msg; type = sg_type msg in
      if \<not> json_truthy payload then skipS
      else if type = ''offer'' then
        (case parseOfferPayload payload of
           None \<Rightarrow> skipS
         | Some offer \<Rightarrow> whenS (\<lambda>s. isCurrentParticipant s (op_from offer))
             (handleOfferFrom env (op_from offer) (op_sdp offer) (default LEGACY_OFFER_ID (op_offerId offer))))
      else if type = ''answer'' then
        (case parseAnswerPayload payload of
           None \<Rightarrow> skipS
         | Some answer \<Rightarrow> whenS (\<lambda>s. isCurrentParticipant s (ap_from answer))
             (handleAnswerFrom env (ap_from answer) (ap_sdp answer) (default LEGACY_OFFER_ID (ap_offerId answer))))
      else if type = ''ice'' then
        (case parseIceCandidatePayload payload of
           None \<Rightarrow> skipS
         | Some ice \<Rightarrow> whenS (\<lambda>s. isCurrentParticipant s (ic_from ice))
             (handleIceFrom env (ic_from ice) (ic_candidate ice) (default LEGACY_OFFER_ID (ic_offerId ice))))
      else if type = ''media_restart_request'' then
        (let fromCid = js_trim (default [] (as_string (field payload ''from'')));
             reason = js_trim (default [] (as_string (field payload ''reason'')))
         in if fromCid = [] then skipS
            else whenS (\<lambda>s. isCurrentParticipant s fromCid) (handleMediaRestartRequest env fromCid reason))
      else skipS)"

definition isPeerMediaConnected :: "pc_view \<Rightarrow> bool" where
  "isPeerMediaConnected pc =
     (pv_signaling pc = Stable \<and> pv_conn pc = PcConnected \<and> (pv_ice pc = IceConnected \<or> pv_ice pc = IceCompleted))"

definition expects_track :: "track_kind \<Rightarrow> pc_view \<Rightarrow> bool" where
  "expects_track kind pc =
     list_ex (\<lambda>sn. live_track (sn_track sn) \<and> map_option tk_kind (sn_track sn) = Some kind) (pv_senders pc)"

definition resetOutboundMediaWatch :: "nat \<Rightarrow> media_act" where
  "resetOutboundMediaWatch pid = upd_peer pid (\<lambda>p. p\<lparr> pe_lastSample := None, pe_stallSamples := 0 \<rparr>)"

definition recoverStalledOutboundMediaForPeer :: "media_env \<Rightarrow> string \<times> nat \<Rightarrow> media_act" where
  "recoverStalledOutboundMediaForPeer env e =
     (let cid = fst e; pid = snd e; pc = nv_pc env pid;
          audio = expects_track AudioTrack pc; video = expects_track VideoTrack pc in
      ifS (\<lambda>s. pe_watchInFlight (obj s pid)) skipS
        (if \<not> isPeerMediaConnected pc \<or> (\<not> audio \<and> \<not> video) then resetOutboundMediaWatch pid
         else seqS
           [upd_peer pid (\<lambda>p. p\<lparr> pe_watchInFlight := True \<rparr>),
            media_tell (PcStats pid), media_await (KOutboundStats pid cid audio video)]))"

definition recoverStalledOutboundMedia :: "media_env \<Rightarrow> media_act" where
  "recoverStalledOutboundMedia env =
     ifS (\<lambda>s. me_destroyed s \<or> \<not> nv_hasStream env) skipS
       (letS me_peers (\<lambda>peers. forS peers (recoverStalledOutboundMediaForPeer env)))"

definition outbound_stalled :: "bool \<Rightarrow> bool \<Rightarrow> outbound_sample \<Rightarrow> outbound_sample \<Rightarrow> bool" where
  "outbound_stalled audio video previous sample =
     (video \<and> ob_videoBytes sample \<le> ob_videoBytes previous \<and> ob_videoFrames sample \<le> ob_videoFrames previous \<or>
      \<not> video \<and> audio \<and> ob_audioBytes sample \<le> ob_audioBytes previous)"

definition stall_counted :: "media_env \<Rightarrow> nat \<Rightarrow> string \<Rightarrow> media_act" where
  "stall_counted env pid cid =
     seqS
       [upd_peer pid (\<lambda>p. p\<lparr> pe_stallSamples := pe_stallSamples p + 1 \<rparr>),
        ifS (\<lambda>s. pe_stallSamples (obj s pid) < OUTBOUND_MEDIA_STALL_SAMPLES \<or>
                 int (nv_now env) - int (pe_lastRecoveryAt (obj s pid)) < OUTBOUND_MEDIA_RECOVERY_COOLDOWN_MS) skipS
          (seqS
            [upd_peer pid (\<lambda>p. p\<lparr> pe_lastRecoveryAt := nv_now env, pe_stallSamples := 0, pe_lastSample := None \<rparr>),
             ifS (\<lambda>s. shouldIOffer s cid) (recreatePeerForMediaRecovery env cid)
               (requestPeerMediaRecovery cid ''stalled outbound media'')])]"

definition outbound_stats ::
  "media_env \<Rightarrow> nat \<Rightarrow> string \<Rightarrow> bool \<Rightarrow> bool \<Rightarrow> outbound_sample option \<Rightarrow> media_act" where
  "outbound_stats env pid cid audio video outcome =
     media_resume (KOutboundStats pid cid audio video)
       (seqS
         [(case outcome of
             None \<Rightarrow> skipS
           | Some sample \<Rightarrow>
               ifS (\<lambda>s. map_of (me_peers s) cid \<noteq> Some pid) skipS
                 (letS (\<lambda>s. pe_lastSample (obj s pid)) (\<lambda>previous.
                  seqS
                    [upd_peer pid (\<lambda>p. p\<lparr> pe_lastSample := Some sample \<rparr>),
                     (case previous of
                        None \<Rightarrow> upd_peer pid (\<lambda>p. p\<lparr> pe_stallSamples := 0 \<rparr>)
                      | Some prev \<Rightarrow>
                          if \<not> outbound_stalled audio video prev sample
                          then upd_peer pid (\<lambda>p. p\<lparr> pe_stallSamples := 0 \<rparr>)
                          else stall_counted env pid cid)]))),
          upd_peer pid (\<lambda>p. p\<lparr> pe_watchInFlight := False \<rparr>)])"

section \<open>Events of the peer connections\<close>

definition restart_settled :: "nat \<Rightarrow> media_act" where
  "restart_settled pid = upd_peer pid (\<lambda>p. p\<lparr> pe_iceRestartTimer := None, pe_pendingIceRestart := False \<rparr>)"

definition on_ice_state :: "media_env \<Rightarrow> nat \<Rightarrow> media_act" where
  "on_ice_state env pid =
     letS (\<lambda>s. pe_cid (obj s pid)) (\<lambda>cid.
     seqS
       [updateAggregateState env,
        (case pv_ice (nv_pc env pid) of
           IceConnected \<Rightarrow> restart_settled pid
         | IceCompleted \<Rightarrow> restart_settled pid
         | IceDisconnected \<Rightarrow> scheduleIceRestart env cid 2000 False
         | IceFailed \<Rightarrow> scheduleIceRestart env cid 0 False
         | _ \<Rightarrow> skipS)])"

definition on_connection_state :: "media_env \<Rightarrow> nat \<Rightarrow> media_act" where
  "on_connection_state env pid =
     letS (\<lambda>s. pe_cid (obj s pid)) (\<lambda>cid.
     seqS
       [updateAggregateState env,
        (case pv_conn (nv_pc env pid) of
           PcConnected \<Rightarrow> restart_settled pid
         | PcDisconnected \<Rightarrow> scheduleIceRestart env cid 2000 False
         | PcFailed \<Rightarrow> scheduleIceRestart env cid 0 False
         | _ \<Rightarrow> skipS)])"

definition on_signaling_state :: "media_env \<Rightarrow> nat \<Rightarrow> media_act" where
  "on_signaling_state env pid =
     letS (\<lambda>s. pe_cid (obj s pid)) (\<lambda>cid.
     seqS
       [updateAggregateState env,
        (if pv_signaling (nv_pc env pid) \<noteq> Stable then skipS
         else seqS
           [upd_peer pid (\<lambda>p. p\<lparr> pe_offerTimeout := False \<rparr>),
            whenS (\<lambda>s. pe_pendingLocalTrackNegotiation (obj s pid)) (scheduleLocalTrackNegotiation env cid pid),
            whenS (\<lambda>s. pe_pendingIceRestart (obj s pid))
              (seqS
                [upd_peer pid (\<lambda>p. p\<lparr> pe_offerTimeout := False \<rparr>),
                 ifS (\<lambda>s. \<not> me_isSignalingConnected s \<or> \<not> shouldIOffer s cid) skipS (restart_now env pid cid)])])])"

text \<open>A candidate without \<open>sdpMid\<close> is named by the index of its media line (an unsigned short or \<open>null\<close>).\<close>

definition with_sdp_mid :: "json \<Rightarrow> json" where
  "with_sdp_mid candidate =
     (case candidate of
        JObj members \<Rightarrow>
          if json_truthy (map_of members ''sdpMid'') then candidate
          else JObj (AList.update ''sdpMid''
            (JStr (case map_of members ''sdpMLineIndex'' of Some (JNum (Fin n)) \<Rightarrow> decimal (nat \<lfloor>n\<rfloor>) | _ \<Rightarrow> ''0'')) members)
      | _ \<Rightarrow> candidate)"

definition on_ice_candidate :: "nat \<Rightarrow> json \<Rightarrow> media_act" where
  "on_ice_candidate pid candidate =
     out (\<lambda>s. SendIce (pe_cid (obj s pid)) (with_sdp_mid candidate)
       (case currentLocalOfferId (obj s pid) of Some i \<Rightarrow> truthy_string (Some i) | None \<Rightarrow> None))"

definition on_negotiation_needed :: "media_env \<Rightarrow> nat \<Rightarrow> media_act" where
  "on_negotiation_needed env pid =
     letS (\<lambda>s. pe_cid (obj s pid)) (\<lambda>cid.
     with_peer cid (\<lambda>current.
       ifS (\<lambda>s. \<not> shouldIOffer s cid) skipS
         (if \<not> nv_hasStream env then upd_peer current (\<lambda>p. p\<lparr> pe_pendingLocalTrackNegotiation := True \<rparr>)
          else createOfferTo env cid False)))"

text \<open>The loop over the peers once local media has started: its tracks were attached to this peer.\<close>

definition local_media_attached :: "media_env \<Rightarrow> string \<Rightarrow> bool \<Rightarrow> media_act" where
  "local_media_attached env cid negotiationNeeded =
     with_peer cid (\<lambda>pid.
       let pc = nv_pc env pid in
       seqS
         [(if negotiationNeeded then scheduleLocalTrackNegotiation env cid pid else skipS),
          (if \<not> pv_hasRemote pc
           then whenS (\<lambda>s. shouldIOffer s cid)
             (if pv_signaling pc = Stable then createOfferTo env cid False
              else upd_peer pid (\<lambda>p. p\<lparr> pe_pendingLocalTrackNegotiation := True \<rparr>))
           else whenS (\<lambda>s. \<not> shouldIOffer s cid) (scheduleLocalTrackNegotiation env cid pid))])"

text \<open>The browser is online again, or its network changed.\<close>

definition network_changed :: "media_env \<Rightarrow> media_act" where
  "network_changed env =
     letS (\<lambda>s. map fst (me_peers s)) (\<lambda>cids. forS cids (\<lambda>cid. scheduleIceRestart env cid 0 False))"

definition watchdog_tick :: "media_env \<Rightarrow> bool \<Rightarrow> media_act" where
  "watchdog_tick env hidden = (if hidden then skipS else recoverStalledOutboundMedia env)"

section \<open>The engine as a state machine\<close>

datatype media_event =
    MSeedRevision "jsnum option"
  | MUpdateRoomState "room_state option" "string option"
  | MUpdateConnected bool
  | MSetIceServers "ice_server list"
  | MSignalingReconnect
  | MDirtyPair string
  | MMessage signaling_message
  | MContentState bool "string option"
  | MCleanupPeers
  | MDestroy
  | MIceState nat | MConnectionState nat | MSignalingState nat | MIceCandidate nat json | MNegotiationNeeded nat
  | MLocalMediaAttached string bool
  | MOfferTimeout nat | MIceRestart nat | MRetrying | MWatchdog bool | MNetworkChange
  | MOfferMade nat string string "string option"
  | MTimeoutRolledBack string
  | MRestartRolledBack nat string bool
  | MOfferRolledBack nat string string string bool
  | MRemoteOfferSet nat string string string bool bool
  | MRemoteAnswerSet nat string string "string option" bool bool
  | MIceAdded nat string ice_purpose "json list" bool
  | MIceDrained nat string string bool
  | MMediaAttached nat string string "bool option"
  | MAnswerMade nat string string "string option"
  | MOutboundStats nat string bool bool "outbound_sample option"

fun media_step :: "media_env \<Rightarrow> media_event \<Rightarrow> media_act" where
  "media_step env (MSeedRevision r) = seedContentRevision r"
| "media_step env (MUpdateRoomState r c) = updateRoomState env r c"
| "media_step env (MUpdateConnected b) = updateSignalingConnected env b"
| "media_step env (MSetIceServers servers) = setIceServers servers"
| "media_step env MSignalingReconnect = handleSignalingReconnect env"
| "media_step env (MDirtyPair cid) = scheduleDirtyPairRestart env cid"
| "media_step env (MMessage msg) = processSignalingMessage env msg"
| "media_step env (MContentState b t) = sendContentState b t"
| "media_step env MCleanupPeers = cleanupAllPeers"
| "media_step env MDestroy = destroy_media"
| "media_step env (MIceState pid) = on_ice_state env pid"
| "media_step env (MConnectionState pid) = on_connection_state env pid"
| "media_step env (MSignalingState pid) = on_signaling_state env pid"
| "media_step env (MIceCandidate pid c) = on_ice_candidate pid c"
| "media_step env (MNegotiationNeeded pid) = on_negotiation_needed env pid"
| "media_step env (MLocalMediaAttached cid b) = local_media_attached env cid b"
| "media_step env (MOfferTimeout pid) = offer_timeout_fired env pid"
| "media_step env (MIceRestart pid) = ice_restart_fired env pid"
| "media_step env MRetrying = retrying_fired"
| "media_step env (MWatchdog hidden) = watchdog_tick env hidden"
| "media_step env MNetworkChange = network_changed env"
| "media_step env (MOfferMade pid cid i outcome) = offer_made env pid cid i outcome"
| "media_step env (MTimeoutRolledBack cid) = timeout_rolled_back env cid"
| "media_step env (MRestartRolledBack pid cid ok) = restart_rolled_back env pid cid ok"
| "media_step env (MOfferRolledBack pid cid sdp i ok) = offer_rolled_back pid cid sdp i ok"
| "media_step env (MRemoteOfferSet pid cid sdp i allow ok) = remote_offer_set env pid cid sdp i allow ok"
| "media_step env (MRemoteAnswerSet pid cid i pending recover ok) = remote_answer_set env pid cid i pending recover ok"
| "media_step env (MIceAdded pid cid purpose rest ok) = ice_added pid cid purpose rest ok"
| "media_step env (MIceDrained pid cid i ok) = ice_drained pid cid i ok"
| "media_step env (MMediaAttached pid cid i outcome) = media_attached env pid cid i outcome"
| "media_step env (MAnswerMade pid cid i outcome) = answer_made pid cid i outcome"
| "media_step env (MOutboundStats pid cid a v outcome) = outbound_stats env pid cid a v outcome"

definition media_event_step :: "media_engine \<Rightarrow> media_env \<times> media_event \<Rightarrow> media_engine \<times> media_effect list" where
  "media_event_step s e = media_step (fst e) (snd e) s"

definition new_media :: "media_config \<Rightarrow> media_engine" where
  "new_media cfg =
     \<lparr> me_config = cfg, me_rtcConfig = DEFAULT_RTC_CONFIG, me_roomState = None, me_clientId = None,
       me_isSignalingConnected = False, me_peers = [], me_objs = (\<lambda>_. new_peer [] False), me_nextPeer = 0,
       me_participantStatus = [], me_restartHandledAt = [], me_answeredCids = [], me_offerSequence = 0,
       me_contentRevision = 0, me_iceState = IceNew, me_connState = PcNew, me_sigState = Stable,
       me_connectionStatus = LinkConnected, me_retryingTimer = False, me_destroyed = False, me_pending = [] \<rparr>"

end
