(* ===== verification/Media_Proofs.thy ===== *)
theory Media_Proofs
  imports Media_Engine
begin

text \<open>
  What the media engine guarantees: exactly one side of a pair offers and wins a collision, peers match the
  room, candidate buffers are bounded, restarts are not lost, and content revisions increase.
\<close>

section \<open>One side of a pair offers\<close>

text \<open>Two engines in the same room, as seen by their participants \<open>a\<close> and \<open>b\<close>.\<close>

definition linked :: "media_engine \<Rightarrow> string \<Rightarrow> media_engine \<Rightarrow> string \<Rightarrow> bool" where
  "linked A a B b =
     (a \<noteq> b \<and> a \<noteq> [] \<and> b \<noteq> [] \<and> me_clientId A = Some a \<and> me_clientId B = Some b \<and>
      me_roomState A = me_roomState B \<and> mc_deferInitialAnswer (me_config A) = mc_deferInitialAnswer (me_config B) \<and>
      (me_roomState A = None \<or> a \<in> set (map rp_cid (me_participants A)) \<and> b \<in> set (map rp_cid (me_participants A))))"

lemma small_room: "finite C \<Longrightarrow> a \<in> C \<Longrightarrow> b \<in> C \<Longrightarrow> a \<noteq> b \<Longrightarrow> card C \<le> 2 \<Longrightarrow> h \<in> C \<Longrightarrow> h = a \<or> h = b"
  using card_mono [of C "{a, b, h}"] by (cases "h = a \<or> h = b") auto

lemma linked_offers:
  assumes l: "linked A a B b"
  shows "shouldIOffer A b \<noteq> shouldIOffer B a"
proof -
  have cur: "isCurrentParticipant A b" "isCurrentParticipant B a"
    using l by (auto simp: linked_def isCurrentParticipant_def me_participants_def split: option.splits)
  have ab: "a \<noteq> b" "truthy_string (me_clientId A) = Some a" "truthy_string (me_clientId B) = Some b"
    "me_roomState B = me_roomState A"
    "mc_deferInitialAnswer (me_config B) = mc_deferInitialAnswer (me_config A)"
    using l by (auto simp: linked_def)
  have lt: "a < b \<longleftrightarrow> \<not> b < a" using ab(1) by auto
  note unfolded = shouldIOffer_def ab(2-)
  show ?thesis
  proof (cases "if mc_deferInitialAnswer (me_config A) then me_roomState A else None")
    case None
    from this lt show ?thesis unfolding unfolded using cur by (simp only: option.case simp_thms)
  next
    case (Some r)
    let ?C = "set (map rp_cid (rs_participants r))"
    have "me_roomState A = Some r" using Some by (auto split: if_splits)
    then have mem: "a \<in> ?C" "b \<in> ?C" using l by (auto simp: linked_def me_participants_def)
    have host: "h = a \<or> h = b" if "truthy_string (room_host r) = Some h" "card ?C \<le> 2" for h
      using that small_room [of ?C a b h] mem ab(1) by (auto simp: room_host_def split: option.splits if_splits)
    show ?thesis
    proof (cases "truthy_string (room_host r)")
      case None
      from this lt show ?thesis unfolding unfolded Some using cur by (simp only: option.case simp_thms)
    next
      case h: (Some h)
      show ?thesis
        unfolding unfolded Some option.case h using host [OF h] lt ab(1) cur by auto
    qed
  qed
qed

text \<open>C11: Exactly one side of a pair offers: two participants of the same room that know the same room state
  and are configured alike never both consider themselves the offerer of their connection, and never
  neither, with and without a deferred answer.\<close>

theorem exactly_one_side_offers:
  assumes "linked A a B b"
  shows "shouldIOffer A b \<noteq> shouldIOffer B a"
  using assms by (rule linked_offers)

definition plain_media :: media_config where
  "plain_media = \<lparr> mc_turnsOnly = False, mc_deferInitialAnswer = False, mc_videoMediaEnabled = True,
                   mc_independentContentVideo = False \<rparr>"

definition two_room :: room_state where
  "two_room = \<lparr> rs_hostCid = Some ''b'', rs_participants = [bare_participant ''a'', bare_participant ''b''],
                rs_maxParticipants = None, rs_epoch = None \<rparr>"

definition member :: "string \<Rightarrow> media_engine" where
  "member cid = (new_media plain_media)\<lparr> me_clientId := Some cid, me_roomState := Some two_room \<rparr>"

lemma members_linked: "linked (member ''a'') ''a'' (member ''b'') ''b''"
  by (simp add: linked_def member_def new_media_def two_room_def me_participants_def bare_participant_def)

theorem exactly_one_side_offers_witness: "shouldIOffer (member ''a'') ''b'' \<noteq> shouldIOffer (member ''b'') ''a''"
  by (rule exactly_one_side_offers) (rule members_linked)

section \<open>Collisions of offers\<close>

text \<open>The offer of the other side is refused: nothing is sent or told to the connection, and the engine keeps its own
  offer.\<close>

definition offer_ignored :: "nat \<Rightarrow> string \<Rightarrow> media_engine \<Rightarrow> media_engine \<times> media_effect list \<Rightarrow> bool" where
  "offer_ignored pid offerId s r =
     (snd r = [] \<and> pe_ignoredOfferId (obj (fst r) pid) = Some offerId \<and>
      pe_pendingLocalOfferId (obj (fst r) pid) = pe_pendingLocalOfferId (obj s pid) \<and>
      pe_isMakingOffer (obj (fst r) pid) = pe_isMakingOffer (obj s pid) \<and>
      pe_offerTimeout (obj (fst r) pid) = pe_offerTimeout (obj s pid) \<and> me_pending (fst r) = me_pending s)"

text \<open>The offer of the other side is taken: the own offer is given up (rolled back first if it is already set), then
  the remote offer is set on the same connection, and once that succeeded it is the offer being answered.\<close>

definition offer_taken ::
  "media_env \<Rightarrow> nat \<Rightarrow> string \<Rightarrow> string \<Rightarrow> string \<Rightarrow> media_engine \<times> media_effect list \<Rightarrow> bool" where
  "offer_taken env pid cid sdp offerId r =
     (let rolling = (pv_signaling (nv_pc env pid) = HaveLocalOffer);
          applied = (if rolling then media_event_step (fst r) (env, MOfferRolledBack pid cid sdp offerId True) else r);
          set_done = media_event_step (fst applied) (env, MRemoteOfferSet pid cid sdp offerId True True)
      in pe_pendingLocalOfferId (obj (fst r) pid) = None \<and> pe_ignoredOfferId (obj (fst r) pid) \<noteq> Some offerId \<and>
         (if rolling then snd r = [PcRollback pid cid] else True) \<and> snd applied = [PcRemoteOffer pid sdp] \<and>
         map_of (me_peers (fst set_done)) cid = Some pid \<and>
         pe_pendingLocalOfferId (obj (fst set_done) pid) = None \<and>
         pe_acceptedRemoteOfferId (obj (fst set_done) pid) = Some offerId \<and>
         pe_currentNegotiationId (obj (fst set_done) pid) = Some offerId)"

lemma loser_applies:
  assumes "map_of (me_peers s) cid = Some pid" "KOfferRollback pid cid sdp offerId \<in> set (me_pending s)"
  shows "snd (media_event_step s (env, MOfferRolledBack pid cid sdp offerId True)) = [PcRemoteOffer pid sdp]"
    "KRemoteOffer pid cid sdp offerId True \<in>
       set (me_pending (fst (media_event_step s (env, MOfferRolledBack pid cid sdp offerId True))))"
    "me_peers (fst (media_event_step s (env, MOfferRolledBack pid cid sdp offerId True))) = me_peers s"
    "pe_pendingLocalOfferId (obj (fst (media_event_step s (env, MOfferRolledBack pid cid sdp offerId True))) pid) = None"
  using assms
  by (simp_all add: media_event_step_def offer_rolled_back_def applyRemoteOffer_def media_resume_def upd_peer_def
      media_await_def act_simps)

lemma loser_answers:
  assumes "map_of (me_peers s) cid = Some pid" "KRemoteOffer pid cid sdp offerId True \<in> set (me_pending s)"
    "pe_pendingLocalOfferId (obj s pid) = None"
  shows "let t = fst (media_event_step s (env, MRemoteOfferSet pid cid sdp offerId True True))
    in map_of (me_peers t) cid = Some pid \<and> pe_pendingLocalOfferId (obj t pid) = None \<and>
       pe_acceptedRemoteOfferId (obj t pid) = Some offerId \<and> pe_currentNegotiationId (obj t pid) = Some offerId"
  using assms
  by (auto simp: media_event_step_def remote_offer_set_def media_resume_def flushPendingRemoteIce_def add_ice_def
      drain_ice_def upd_peer_def media_await_def act_simps split: list.split)

lemma offer_collision:
  assumes "map_of (me_peers s) cid = Some pid" "offer_collides (nv_pc env pid) (obj s pid)"
    "pe_ignoredOfferId (obj s pid) \<noteq> Some offerId"
  shows "if shouldIOffer s cid then offer_ignored pid offerId s (handleOfferFrom env cid sdp offerId s)
    else offer_taken env pid cid sdp offerId (handleOfferFrom env cid sdp offerId s)"
proof (cases "shouldIOffer s cid")
  case True
  with assms show ?thesis
    by (simp add: handleOfferFrom_def getOrCreatePeer_def with_peer_def upd_peer_def act_simps offer_ignored_def)
next
  case False
  let ?r = "handleOfferFrom env cid sdp offerId s"
  have r: "me_peers (fst ?r) = me_peers s" "pe_pendingLocalOfferId (obj (fst ?r) pid) = None"
    "pe_ignoredOfferId (obj (fst ?r) pid) \<noteq> Some offerId"
    "if pv_signaling (nv_pc env pid) = HaveLocalOffer
     then snd ?r = [PcRollback pid cid] \<and> KOfferRollback pid cid sdp offerId \<in> set (me_pending (fst ?r))
     else snd ?r = [PcRemoteOffer pid sdp] \<and> KRemoteOffer pid cid sdp offerId True \<in> set (me_pending (fst ?r))"
    using assms False
    by (simp_all add: handleOfferFrom_def getOrCreatePeer_def with_peer_def applyRemoteOffer_def upd_peer_def
        media_await_def act_simps)
  have m: "map_of (me_peers (fst ?r)) cid = Some pid" using r(1) assms(1) by simp
  show ?thesis
  proof (cases "pv_signaling (nv_pc env pid) = HaveLocalOffer")
    case rolling: True
    then have k: "snd ?r = [PcRollback pid cid]" "KOfferRollback pid cid sdp offerId \<in> set (me_pending (fst ?r))"
      using r(4) by auto
    note l = loser_applies [OF m k(2), of env]
    have m': "map_of (me_peers (fst (media_event_step (fst ?r) (env, MOfferRolledBack pid cid sdp offerId True)))) cid = Some pid"
      using l(3) m by simp
    from loser_answers [OF m' l(2,4), of env] show ?thesis
      using False rolling k(1) l(1) r(2,3) assms(3) by (simp add: offer_taken_def Let_def)
  next
    case waiting: False
    then have k: "snd ?r = [PcRemoteOffer pid sdp]" "KRemoteOffer pid cid sdp offerId True \<in> set (me_pending (fst ?r))"
      using r(4) by auto
    from loser_answers [OF m k(2) r(2), of env] show ?thesis
      using False waiting k(1) r(2,3) assms(3) by (simp add: offer_taken_def Let_def)
  qed
qed

text \<open>C12: A collision of offers has one winner. When the offers of two linked engines cross, exactly one of the two
  ignores the other's offer and keeps its own; the other gives up its own offer and takes the remote one: it rolls
  its own back if that was already set, sets the remote offer on the same connection when the rollback succeeded,
  and once the remote offer is set, that is the offer it answers.\<close>

theorem glare_has_one_winner:
  assumes "linked A a B b"
    and "map_of (me_peers A) b = Some pidA" "offer_collides (nv_pc envA pidA) (obj A pidA)"
    and "map_of (me_peers B) a = Some pidB" "offer_collides (nv_pc envB pidB) (obj B pidB)"
    and "pe_ignoredOfferId (obj A pidA) \<noteq> Some offerB" "pe_ignoredOfferId (obj B pidB) \<noteq> Some offerA"
  shows "let rA = handleOfferFrom envA b sdpB offerB A; rB = handleOfferFrom envB a sdpA offerA B
    in offer_ignored pidA offerB A rA \<and> offer_taken envB pidB a sdpA offerA rB \<and> \<not> offer_ignored pidB offerA B rB \<or>
       offer_ignored pidB offerA B rB \<and> offer_taken envA pidA b sdpB offerB rA \<and> \<not> offer_ignored pidA offerB A rA"
proof -
  have "shouldIOffer A b \<noteq> shouldIOffer B a" by (rule linked_offers [OF assms(1)])
  moreover note offer_collision [OF assms(2,3,6), of sdpB] offer_collision [OF assms(4,5,7), of sdpA]
  moreover have "\<not> (offer_ignored pid i s r \<and> offer_taken env pid cid sdp i r)" for pid i s r cid sdp env
    by (simp add: offer_ignored_def offer_taken_def Let_def)
  ultimately show ?thesis unfolding Let_def by metis
qed

definition offering :: "string \<Rightarrow> string \<Rightarrow> media_engine" where
  "offering me other = (member me)\<lparr> me_peers := [(other, 0)], me_nextPeer := 1,
     me_objs := (\<lambda>_. (new_peer other False)\<lparr> pe_pendingLocalOfferId := Some ''x'' \<rparr>) \<rparr>"

definition offer_out :: media_env where
  "offer_out = \<lparr> nv_now = 1000,
     nv_pc = (\<lambda>_. \<lparr> pv_signaling = HaveLocalOffer, pv_ice = IceNew, pv_conn = PcNew, pv_hasRemote = False, pv_senders = [] \<rparr>),
     nv_hasStream = True \<rparr>"

lemma offering_linked: "linked (offering ''a'' ''b'') ''a'' (offering ''b'' ''a'') ''b''"
  by (simp add: linked_def offering_def member_def new_media_def two_room_def me_participants_def bare_participant_def)

lemma offering_collides:
  "map_of (me_peers (offering me other)) other = Some 0" "offer_collides (nv_pc offer_out 0) (obj (offering me other) 0)"
  by (simp_all add: offering_def offer_out_def offer_collides_def new_peer_def)

theorem glare_has_one_winner_witness:
  "let rA = handleOfferFrom offer_out ''b'' ''sdp'' ''y'' (offering ''a'' ''b'');
       rB = handleOfferFrom offer_out ''a'' ''sdp'' ''x'' (offering ''b'' ''a'')
   in offer_ignored 0 ''y'' (offering ''a'' ''b'') rA \<and> offer_taken offer_out 0 ''a'' ''sdp'' ''x'' rB \<and>
        \<not> offer_ignored 0 ''x'' (offering ''b'' ''a'') rB \<or>
      offer_ignored 0 ''x'' (offering ''b'' ''a'') rB \<and> offer_taken offer_out 0 ''b'' ''sdp'' ''y'' rA \<and>
        \<not> offer_ignored 0 ''y'' (offering ''a'' ''b'') rA"
  by (rule glare_has_one_winner [OF offering_linked offering_collides offering_collides])
    (simp_all add: offering_def new_peer_def)

section \<open>The invariant\<close>

definition peer_ok :: "peer \<Rightarrow> bool" where
  "peer_ok p =
     (length (pe_iceBuffer p) \<le> ICE_CANDIDATE_BUFFER_MAX \<and>
      (\<forall>e \<in> set (pe_pendingRemoteIce p). length (snd e) \<le> ICE_CANDIDATE_BUFFER_MAX) \<and>
      distinct (map fst (pe_pendingRemoteIce p)) \<and>
      pred_option (\<lambda>t. 0 \<le> fst t \<and> fst t \<le> ICE_RESTART_COOLDOWN_MS) (pe_iceRestartTimer p))"

definition peers_ok :: "media_engine \<Rightarrow> bool" where
  "peers_ok s = (distinct (map fst (me_peers s)) \<and>
     (\<forall>e \<in> set (me_peers s). snd e < me_nextPeer s \<and> pe_cid (obj s (snd e)) = fst e))"

definition status_ok :: "media_engine \<Rightarrow> bool" where
  "status_ok s = (me_retryingTimer s = (me_connectionStatus s = LinkRecovering) \<and> me_connectionStatus s \<noteq> LinkDisconnected)"

definition media_inv :: "media_engine \<Rightarrow> bool" where
  "media_inv s = (peers_ok s \<and> (\<forall>pid. peer_ok (obj s pid)) \<and> status_ok s \<and> distinct (me_answeredCids s))"

lemma inv_upd_peer:
  "(\<And>p. peer_ok p \<Longrightarrow> peer_ok (f p)) \<Longrightarrow> (\<And>p. pe_cid (f p) = pe_cid p) \<Longrightarrow> keeping media_inv (upd_peer pid f)"
  unfolding upd_peer_def
  by (rule keeping_upd) (auto simp: media_inv_def peers_ok_def status_ok_def)

lemma inv_upd:
  "(\<And>s. me_peers (f s) = me_peers s) \<Longrightarrow> (\<And>s. me_objs (f s) = me_objs s) \<Longrightarrow> (\<And>s. me_nextPeer (f s) = me_nextPeer s) \<Longrightarrow>
   (\<And>s. status_ok s \<Longrightarrow> status_ok (f s)) \<Longrightarrow> (\<And>s. distinct (me_answeredCids s) \<Longrightarrow> distinct (me_answeredCids (f s))) \<Longrightarrow>
   keeping media_inv (upd f)"
  by (rule keeping_upd) (simp add: media_inv_def peers_ok_def)

lemma peer_ok_frames:
  "peer_ok (p\<lparr> pe_isMakingOffer := b \<rparr>) = peer_ok p" "peer_ok (p\<lparr> pe_offerTimeout := b \<rparr>) = peer_ok p"
  "peer_ok (p\<lparr> pe_lastIceRestartAt := n \<rparr>) = peer_ok p" "peer_ok (p\<lparr> pe_pendingIceRestart := b \<rparr>) = peer_ok p"
  "peer_ok (p\<lparr> pe_pendingLocalTrackNegotiation := b \<rparr>) = peer_ok p"
  "peer_ok (p\<lparr> pe_isSettingRemoteAnswerPending := b \<rparr>) = peer_ok p"
  "peer_ok (p\<lparr> pe_pendingLocalOfferId := i \<rparr>) = peer_ok p" "peer_ok (p\<lparr> pe_acceptedRemoteOfferId := i \<rparr>) = peer_ok p"
  "peer_ok (p\<lparr> pe_currentNegotiationId := i \<rparr>) = peer_ok p" "peer_ok (p\<lparr> pe_ignoredOfferId := i \<rparr>) = peer_ok p"
  "peer_ok (p\<lparr> pe_lastSample := x \<rparr>) = peer_ok p" "peer_ok (p\<lparr> pe_stallSamples := n \<rparr>) = peer_ok p"
  "peer_ok (p\<lparr> pe_watchInFlight := b \<rparr>) = peer_ok p" "peer_ok (p\<lparr> pe_lastRecoveryAt := n \<rparr>) = peer_ok p"
  "peer_ok p \<Longrightarrow> peer_ok (p\<lparr> pe_iceRestartTimer := None \<rparr>)"
  "peer_ok p \<Longrightarrow> peer_ok (p\<lparr> pe_pendingRemoteIce := [] \<rparr>)"
  by (simp_all add: peer_ok_def)

lemma with_peer_keeps: "(\<And>pid. keeping P (k pid)) \<Longrightarrow> keeping P (with_peer cid k)"
  unfolding with_peer_def by (rule keeping_letS) (auto intro: keeping_skipS split: option.split)

lemma await_keeps_inv: "keeping media_inv (media_await k)"
  unfolding media_await_def by (rule inv_upd) (simp_all add: status_ok_def)

lemma resume_keeps_inv: "keeping media_inv a \<Longrightarrow> keeping media_inv (media_resume k a)"
  unfolding media_resume_def seqS.simps
  by (intro keeping_whenS keeping_thenS keeping_skipS inv_upd) (simp_all add: status_ok_def)

lemmas media_rules =
  keeping_skipS keeping_thenS keeping_letS keeping_ifS keeping_whenS keeping_forS keeping_out with_peer_keeps
  await_keeps_inv resume_keeps_inv inv_upd_peer

lemma notify_inv: "keeping P notifyChange"
  unfolding notifyChange_def by (rule keeping_out)

lemmas status_defs =
  updateConnectionStatusValue_def resetConnectionStatusMachine_def setConnectionRecovering_def
  scheduleRetryingTransition_def retrying_fired_def notifyChange_def

lemma status_frame:
  "me_peers (fst (updateConnectionStatusValue s)) = me_peers s" "me_objs (fst (updateConnectionStatusValue s)) = me_objs s"
  "me_nextPeer (fst (updateConnectionStatusValue s)) = me_nextPeer s"
  "me_answeredCids (fst (updateConnectionStatusValue s)) = me_answeredCids s"
  "me_peers (fst (retrying_fired s)) = me_peers s" "me_objs (fst (retrying_fired s)) = me_objs s"
  "me_nextPeer (fst (retrying_fired s)) = me_nextPeer s"
  "me_answeredCids (fst (retrying_fired s)) = me_answeredCids s"
  by (simp_all add: status_defs act_simps)

lemma status_kept:
  "status_ok s \<Longrightarrow> status_ok (fst (updateConnectionStatusValue s))"
  "status_ok s \<Longrightarrow> status_ok (fst (retrying_fired s))"
  by (cases "me_connectionStatus s"; auto simp: status_defs act_simps status_ok_def)+

lemma status_inv: "keeping media_inv updateConnectionStatusValue" "keeping media_inv retrying_fired"
  by (simp_all add: keeping_def media_inv_def peers_ok_def status_frame status_kept)

lemma aggregate_inv: "keeping media_inv (updateAggregateState env)"
  unfolding updateAggregateState_def seqS.simps
  by (intro keeping_thenS keeping_skipS status_inv notify_inv inv_upd) (simp_all add: status_ok_def Let_def)

lemma cooldown_bounds: "0 \<le> cooldown_remaining env p" "cooldown_remaining env p \<le> ICE_RESTART_COOLDOWN_MS"
  by (simp_all add: cooldown_remaining_def constants)

lemma schedule_inv: "0 \<le> d \<Longrightarrow> d \<le> ICE_RESTART_COOLDOWN_MS \<Longrightarrow> keeping media_inv (scheduleIceRestart env cid d allow)"
  unfolding scheduleIceRestart_def
  by (intro with_peer_keeps keeping_ifS keeping_skipS inv_upd_peer)
    (use cooldown_bounds in \<open>auto simp: peer_ok_frames\<close>, auto simp: peer_ok_def)

lemma schedules_inv:
  "keeping media_inv (scheduleIceRestart env cid 0 allow)" "keeping media_inv (scheduleIceRestart env cid 500 allow)"
  "keeping media_inv (scheduleIceRestart env cid 2000 allow)"
  by (rule schedule_inv; simp add: constants)+

lemma offer_finally_inv: "keeping media_inv (offer_finally env pid cid)"
  unfolding offer_finally_def seqS.simps by (auto intro!: media_rules schedules_inv simp: peer_ok_frames)

lemma createOffer_inv: "keeping media_inv (createOfferTo env cid r)"
  unfolding createOfferTo_def seqS.simps Let_def
  by (auto intro!: media_rules offer_finally_inv inv_upd simp: peer_ok_frames status_ok_def)

lemma restart_now_inv: "keeping media_inv (restart_now env pid cid)"
  unfolding restart_now_def seqS.simps by (auto intro!: media_rules createOffer_inv simp: peer_ok_frames)

lemma trigger_inv: "keeping media_inv (triggerIceRestart env cid allow)"
  unfolding triggerIceRestart_def seqS.simps Let_def
  by (auto intro!: media_rules restart_now_inv simp: peer_ok_frames split: sig_state.split)

lemma offers_inv:
  "keeping media_inv (offer_made env pid cid i outcome)" "keeping media_inv (offer_timeout_fired env pid)"
  "keeping media_inv (timeout_rolled_back env cid)" "keeping media_inv (restart_rolled_back env pid cid ok)"
  "keeping media_inv (ice_restart_fired env pid)"
  unfolding offer_made_def offer_timeout_fired_def timeout_rolled_back_def restart_rolled_back_def ice_restart_fired_def
    seqS.simps
  by (auto intro!: media_rules offer_finally_inv schedules_inv restart_now_inv trigger_inv simp: peer_ok_frames
      split: option.split)

lemma request_keeps: "keeping P (requestPeerMediaRecovery cid reason)"
  unfolding requestPeerMediaRecovery_def by (intro keeping_ifS keeping_skipS keeping_out)

lemma tracks_inv: "keeping media_inv (scheduleLocalTrackNegotiation env cid pid)"
  unfolding scheduleLocalTrackNegotiation_def seqS.simps Let_def
  by (auto intro!: media_rules createOffer_inv request_keeps simp: peer_ok_frames)

lemma close_peer_inv: "keeping media_inv (close_peer pid)"
  unfolding close_peer_def clearPeerTimers_def clearPeerNegotiation_def seqS.simps
  by (auto intro!: media_rules simp: peer_ok_frames)

lemma new_peer_ok: "peer_ok (new_peer cid b)"
  by (simp add: new_peer_def peer_ok_def)

lemma update_new: "map_of m k = None \<Longrightarrow> set (AList.update k v m) = insert (k, v) (set m)"
  by (induction m) auto

lemma created_inv:
  assumes "media_inv s" "map_of (me_peers s) cid = None"
  shows "media_inv (s\<lparr> me_objs := (me_objs s)(me_nextPeer s := new_peer cid b), me_nextPeer := me_nextPeer s + 1,
    me_peers := AList.update cid (me_nextPeer s) (me_peers s) \<rparr>)"
proof -
  have "set (AList.update cid (me_nextPeer s) (me_peers s)) = insert (cid, me_nextPeer s) (set (me_peers s))"
    using assms(2) by (rule update_new)
  moreover have "distinct (map fst (AList.update cid (me_nextPeer s) (me_peers s)))"
    using assms(1) by (simp add: media_inv_def peers_ok_def AList.distinct_update)
  ultimately show ?thesis
    using assms by (auto simp: media_inv_def peers_ok_def status_ok_def new_peer_ok) (auto simp: new_peer_def)
qed

lemma getOrCreate_inv: "keeping media_inv (getOrCreatePeer cid)"
proof (rule keepingI)
  fix s assume "media_inv s"
  then show "media_inv (fst (getOrCreatePeer cid s))"
    using created_inv [of s cid "isPeerIndependentCapable s cid"]
    by (simp add: getOrCreatePeer_def letS_def ifS_def thenS_def upd_def out_def skipS_def Let_def)
qed

lemma delete_keys: "distinct (map fst m) \<Longrightarrow> distinct (map fst (AList.delete k m))" "e \<in> set (AList.delete k m) \<Longrightarrow> e \<in> set m"
  by (simp add: AList.distinct_delete) (simp add: AList.delete_eq)

lemma delete_inv:
  "keeping media_inv (upd (\<lambda>s. s\<lparr> me_peers := AList.delete cid (me_peers s), me_participantStatus := f s \<rparr>))"
  by (rule keeping_upd) (auto simp: media_inv_def peers_ok_def status_ok_def intro: delete_keys(1) dest: delete_keys(2))

lemma cleanup_peers_inv:
  "keeping media_inv (cleanupPeer env cid b)" "keeping media_inv cleanupAllPeers"
proof -
  show "keeping media_inv (cleanupPeer env cid b)"
    unfolding cleanupPeer_def seqS.simps
    by (auto intro!: media_rules close_peer_inv aggregate_inv delete_inv inv_upd simp: status_ok_def distinct_removeAll)
  have "keeping media_inv (upd (\<lambda>s. s\<lparr> me_peers := [], me_restartHandledAt := [], me_answeredCids := [],
      me_retryingTimer := False, me_iceState := IceClosed, me_connState := PcClosed, me_sigState := SigClosed,
      me_connectionStatus := LinkConnected \<rparr>))"
    by (rule keeping_upd) (simp add: media_inv_def peers_ok_def status_ok_def)
  then show "keeping media_inv cleanupAllPeers"
    unfolding cleanupAllPeers_def seqS.simps by (auto intro!: media_rules close_peer_inv notify_inv)
qed

lemma recreate_inv:
  "keeping media_inv (recreate_peer env cid)" "keeping media_inv (recreatePeerForMediaRecovery env cid)"
  "keeping media_inv (recreatePeerForCapabilityChange env cid)"
proof -
  show r: "keeping media_inv (recreate_peer env cid)"
    unfolding recreate_peer_def seqS.simps
    by (auto intro!: media_rules cleanup_peers_inv getOrCreate_inv inv_upd simp: status_ok_def split: option.split)
  show "keeping media_inv (recreatePeerForMediaRecovery env cid)" "keeping media_inv (recreatePeerForCapabilityChange env cid)"
    unfolding recreatePeerForMediaRecovery_def recreatePeerForCapabilityChange_def seqS.simps
    by (auto intro!: media_rules r createOffer_inv simp: peer_ok_frames)
qed

lemma sync_inv: "keeping media_inv (syncPeers env)"
proof -
  have "keeping media_inv (sync_participant env p)" for p
    unfolding sync_participant_def seqS.simps Let_def
    by (auto intro!: media_rules schedules_inv createOffer_inv getOrCreate_inv recreate_inv inv_upd simp: status_ok_def)
  then show ?thesis
    unfolding syncPeers_def seqS.simps Let_def
    by (auto intro!: media_rules cleanup_peers_inv notify_inv inv_upd simp: status_ok_def)
qed

lemma session_calls_inv:
  "keeping media_inv (seedContentRevision r)" "keeping media_inv (updateRoomState env st c)"
  "keeping media_inv (updateSignalingConnected env b)" "keeping media_inv (setIceServers servers)"
  "keeping media_inv (handleSignalingReconnect env)" "keeping media_inv (scheduleDirtyPairRestart env cid)"
  "keeping media_inv (sendContentState b t)" "keeping media_inv destroy_media"
proof -
  have res: "keeping media_inv (resume_peer env e)" for e
    unfolding resume_peer_def seqS.simps Let_def by (auto intro!: media_rules restart_now_inv tracks_inv)
  show "keeping media_inv (seedContentRevision r)"
    unfolding seedContentRevision_def
    by (auto intro!: media_rules inv_upd simp: status_ok_def split: option.split jsnum.split)
  show "keeping media_inv (updateRoomState env st c)"
    unfolding updateRoomState_def seqS.simps by (auto intro!: media_rules sync_inv inv_upd simp: status_ok_def)
  show "keeping media_inv (updateSignalingConnected env b)"
    unfolding updateSignalingConnected_def seqS.simps
    by (auto intro!: media_rules status_inv res inv_upd simp: status_ok_def)
  show "keeping media_inv (setIceServers servers)"
    unfolding setIceServers_def seqS.simps by (auto intro!: media_rules inv_upd simp: status_ok_def)
  show "keeping media_inv (handleSignalingReconnect env)" "keeping media_inv (scheduleDirtyPairRestart env cid)"
    unfolding handleSignalingReconnect_def scheduleDirtyPairRestart_def by (auto intro!: media_rules schedules_inv)
  show "keeping media_inv (sendContentState b t)"
    unfolding sendContentState_def seqS.simps by (auto intro!: media_rules inv_upd simp: status_ok_def)
  have "keeping media_inv (upd (\<lambda>s. s\<lparr> me_destroyed := True \<rparr>))" by (rule inv_upd) (simp_all add: status_ok_def)
  moreover have "media_inv (fst (seqS [cleanupAllPeers, media_tell StopLocalMedia, media_tell RemoveListeners,
        upd (\<lambda>s. s\<lparr> me_retryingTimer := False \<rparr>)] s))" if "media_inv s" for s
  proof -
    have i: "media_inv (fst (cleanupAllPeers s))" by (rule keepingD [OF cleanup_peers_inv(2) that])
    have "me_connectionStatus (fst (cleanupAllPeers s)) = LinkConnected"
      by (simp add: cleanupAllPeers_def notifyChange_def thenS_def letS_def upd_def out_def skipS_def Let_def)
    with i show ?thesis
      by (simp add: thenS_def out_def upd_def skipS_def Let_def media_inv_def peers_ok_def status_ok_def)
  qed
  ultimately show "keeping media_inv destroy_media"
    unfolding destroy_media_def seqS.simps(2) [of "upd (\<lambda>s. s\<lparr> me_destroyed := True \<rparr>)"]
    by (intro keeping_thenS) (auto intro: keepingI)
qed

lemma update_bounded:
  "\<forall>e \<in> set m. P (snd e) \<Longrightarrow> P v \<Longrightarrow> \<forall>e \<in> set (AList.update k v m). P (snd e)"
  using set_AList_update [of k v m] by fastforce

lemma buffered_ok: "peer_ok p \<Longrightarrow> peer_ok (buffer_remote i c p)"
proof -
  assume p: "peer_ok p"
  define pending where "pending = default [] (map_of (pe_pendingRemoteIce p) i)"
  have "length cs \<le> ICE_CANDIDATE_BUFFER_MAX" if "map_of (pe_pendingRemoteIce p) i = Some cs" for cs
    using p that by (auto simp: peer_ok_def dest: map_of_SomeD)
  then have "length pending \<le> ICE_CANDIDATE_BUFFER_MAX"
    by (cases "map_of (pe_pendingRemoteIce p) i") (simp_all add: pending_def)
  then have "length (if length pending < ICE_CANDIDATE_BUFFER_MAX then pending @ [c] else pending) \<le> ICE_CANDIDATE_BUFFER_MAX"
    by simp
  with p show ?thesis
    using update_bounded [of "pe_pendingRemoteIce p" "\<lambda>cs. length cs \<le> ICE_CANDIDATE_BUFFER_MAX" _ i]
    by (simp add: peer_ok_def buffer_remote_def Let_def AList.distinct_update pending_def [symmetric])
qed

lemma candidates_inv: "keeping media_inv (handleIceFrom env cid c i)"
  unfolding handleIceFrom_def seqS.simps
  by (auto intro!: media_rules getOrCreate_inv buffered_ok simp: buffer_remote_def Let_def) (auto simp: peer_ok_def)

lemma flush_ok: "peer_ok p \<Longrightarrow> peer_ok (p\<lparr> pe_pendingRemoteIce := AList.delete i (pe_pendingRemoteIce p) \<rparr>)"
  by (auto simp: peer_ok_def intro: delete_keys(1) dest: delete_keys(2))

lemma inv_upd_peer_at:
  "media_inv s \<Longrightarrow> peer_ok (f (obj s pid)) \<Longrightarrow> pe_cid (f (obj s pid)) = pe_cid (obj s pid) \<Longrightarrow> media_inv (fst (upd_peer pid f s))"
  by (auto simp: upd_peer_def upd_def media_inv_def peers_ok_def status_ok_def)

lemma drain_inv: "keeping media_inv (drain_ice pid cid i)"
proof (rule keepingI)
  fix s assume inv: "media_inv s"
  show "media_inv (fst (drain_ice pid cid i s))"
  proof (cases "pe_iceBuffer (obj s pid)")
    case Nil
    then show ?thesis using keepingD [OF await_keeps_inv inv]
      by (simp add: drain_ice_def letS_def thenS_def out_def skipS_def Let_def)
  next
    case (Cons c rest)
    have "peer_ok (obj s pid)" using inv by (simp add: media_inv_def)
    then have "media_inv (fst (upd_peer pid (\<lambda>p. p\<lparr> pe_iceBuffer := rest \<rparr>) s))"
      using Cons by (intro inv_upd_peer_at inv) (simp_all add: peer_ok_def)
    from keepingD [OF await_keeps_inv this] Cons show ?thesis
      by (simp add: drain_ice_def letS_def thenS_def out_def skipS_def Let_def)
  qed
qed

lemma add_ice_inv: "keeping media_inv (add_ice pid cid purpose cs)"
  unfolding add_ice_def answer_completed_def seqS.simps
  by (auto intro!: media_rules drain_inv split: list.split ice_purpose.split)

lemma flush_inv: "keeping media_inv (flushPendingRemoteIce pid cid purpose i)"
  unfolding flushPendingRemoteIce_def seqS.simps
  by (auto intro!: media_rules add_ice_inv flush_ok)

lemma applyOffer_inv: "keeping media_inv (applyRemoteOffer pid cid sdp i allow)"
  unfolding applyRemoteOffer_def seqS.simps by (auto intro!: media_rules simp: peer_ok_frames)

lemma handleOffer_inv: "keeping media_inv (handleOfferFrom env cid sdp i)"
  unfolding handleOfferFrom_def seqS.simps Let_def
  by (auto intro!: media_rules getOrCreate_inv applyOffer_inv simp: peer_ok_frames)

lemma replace_inv:
  assumes "length pending \<le> ICE_CANDIDATE_BUFFER_MAX"
  shows "keeping media_inv (replacePeerForRemoteOffer env cid i pending)"
proof -
  have "peer_ok (p\<lparr> pe_pendingRemoteIce := AList.update i pending (pe_pendingRemoteIce p) \<rparr>)" if "peer_ok p" for p
    using that update_bounded [of "pe_pendingRemoteIce p" "\<lambda>cs. length cs \<le> ICE_CANDIDATE_BUFFER_MAX" pending i] assms
    by (simp add: peer_ok_def AList.distinct_update)
  then show ?thesis
    unfolding replacePeerForRemoteOffer_def seqS.simps
    by (auto intro!: media_rules cleanup_peers_inv getOrCreate_inv)
qed

lemma pending_bounded:
  "media_inv s \<Longrightarrow> length (default [] (map_of (pe_pendingRemoteIce (obj s pid)) i)) \<le> ICE_CANDIDATE_BUFFER_MAX"
proof (cases "map_of (pe_pendingRemoteIce (obj s pid)) i")
  case (Some cs)
  assume "media_inv s"
  then have "peer_ok (obj s pid)" by (simp add: media_inv_def)
  with map_of_SomeD [OF Some] Some show ?thesis by (auto simp: peer_ok_def)
qed simp

lemma letS_inv: "(\<And>s. media_inv s \<Longrightarrow> keeping media_inv (k (e s))) \<Longrightarrow> keeping media_inv (letS e k)"
  by (simp add: keeping_def letS_def)

lemma remote_offer_inv: "keeping media_inv (remote_offer_set env pid cid sdp i allow ok)"
  unfolding remote_offer_set_def seqS.simps
  by (auto intro!: resume_keeps_inv keeping_thenS keeping_skipS keeping_ifS keeping_out inv_upd_peer letS_inv replace_inv
      pending_bounded with_peer_keeps applyOffer_inv flush_inv simp: peer_ok_frames)

lemma complete_ok: "peer_ok p \<Longrightarrow> peer_ok (complete_offer i p)" "pe_cid (complete_offer i p) = pe_cid p"
  by (simp_all add: complete_offer_def peer_ok_frames)

lemma answers_inv:
  "keeping media_inv (offer_rolled_back pid cid sdp i ok)" "keeping media_inv (ice_added pid cid purpose rest ok)"
  "keeping media_inv (ice_drained pid cid i ok)" "keeping media_inv (media_attached env pid cid i outcome)"
  "keeping media_inv (answer_made pid cid i sdp_made)" "keeping media_inv (handleAnswerFrom env cid sdp i)"
  "keeping media_inv (remote_answer_set env pid cid i pending recover ok)"
  unfolding offer_rolled_back_def ice_added_def ice_drained_def media_attached_def answer_made_def handleAnswerFrom_def
    remote_answer_set_def setting_failed_def seqS.simps Let_def
  by (auto intro!: media_rules applyOffer_inv add_ice_inv drain_inv tracks_inv schedules_inv flush_inv complete_ok inv_upd
      simp: peer_ok_frames status_ok_def complete_ok(2) split: ice_purpose.split option.split prod.split)

lemma recovery_inv:
  "keeping media_inv (handlePeerLocalTrackNegotiationRequest env cid)"
  "keeping media_inv (handleMediaRestartRequest env cid reason)" "keeping media_inv (processSignalingMessage env msg)"
  "keeping media_inv (recoverStalledOutboundMedia env)" "keeping media_inv (outbound_stats env pid cid a v outcome)"
proof -
  show l: "keeping media_inv (handlePeerLocalTrackNegotiationRequest env cid)" for cid
    unfolding handlePeerLocalTrackNegotiationRequest_def by (auto intro!: media_rules createOffer_inv)
  show r: "keeping media_inv (handleMediaRestartRequest env cid reason)" for cid reason
    unfolding handleMediaRestartRequest_def seqS.simps
    by (auto intro!: media_rules l recreate_inv inv_upd simp: status_ok_def)
  show "keeping media_inv (processSignalingMessage env msg)"
    unfolding processSignalingMessage_def Let_def
    by (auto intro!: media_rules r handleOffer_inv answers_inv candidates_inv split: option.split)
  have "keeping media_inv (recoverStalledOutboundMediaForPeer env e)" for e
    unfolding recoverStalledOutboundMediaForPeer_def resetOutboundMediaWatch_def seqS.simps Let_def
    by (auto intro!: media_rules simp: peer_ok_frames)
  then show "keeping media_inv (recoverStalledOutboundMedia env)"
    unfolding recoverStalledOutboundMedia_def by (auto intro!: media_rules)
  show "keeping media_inv (outbound_stats env pid cid a v outcome)"
    unfolding outbound_stats_def stall_counted_def seqS.simps
    by (auto intro!: media_rules recreate_inv request_keeps simp: peer_ok_frames split: option.split)
qed

lemma pc_events_inv:
  "keeping media_inv (on_ice_state env pid)" "keeping media_inv (on_connection_state env pid)"
  "keeping media_inv (on_signaling_state env pid)" "keeping media_inv (on_ice_candidate pid c)"
  "keeping media_inv (on_negotiation_needed env pid)" "keeping media_inv (local_media_attached env cid b)"
  unfolding on_ice_state_def on_connection_state_def on_signaling_state_def on_ice_candidate_def
    on_negotiation_needed_def local_media_attached_def restart_settled_def seqS.simps Let_def
  by (auto intro!: media_rules aggregate_inv schedules_inv tracks_inv restart_now_inv createOffer_inv
      simp: peer_ok_frames split: ice_state.split pc_state.split)

lemma network_inv: "keeping media_inv (network_changed env)" "keeping media_inv (watchdog_tick env hidden)"
  unfolding network_changed_def watchdog_tick_def by (auto intro!: media_rules schedules_inv recovery_inv)

lemma media_step_inv: "keeping media_inv (media_step env e)"
  by (cases e) (auto intro!: session_calls_inv cleanup_peers_inv pc_events_inv offers_inv status_inv recovery_inv answers_inv
      remote_offer_inv network_inv)

interpretation media: reactive media_event_step media_inv
  by unfold_locales (simp add: media_event_step_def keepingD [OF media_step_inv])

lemma new_media_inv: "media_inv (new_media cfg)"
  by (simp add: media_inv_def new_media_def peers_ok_def status_ok_def new_peer_ok)

text \<open>In every run of the media engine there is at most one peer per participant, the candidate buffers of every
  peer (of late candidates and of candidates for offers not yet known) hold at most the allowed number,
  an ICE restart that waits is due within the cooldown, and the connection status is recovering exactly while
  the timer runs that turns it into retrying.\<close>

theorem media_runs_sound: "media_inv (fst (run media_event_step (new_media cfg) es))"
  by (rule media.run_inv) (rule new_media_inv)

end
