(* ===== verification/Media_Claims.thy ===== *)
theory Media_Claims
  imports Media_Proofs
begin

text \<open>
  Further guarantees of the media engine: offers come only from the side that offers, content revisions
  increase, the peers are those of the room and their connections are all closed in the end, and a restart
  asked for while signaling is down is performed when it is back.
\<close>

section \<open>Who offers, and what is announced\<close>

text \<open>The room as the engine knows it; only \<open>updateRoomState\<close> changes it.\<close>

definition room_key :: "media_engine \<Rightarrow> media_config \<times> room_state option \<times> string option" where
  "room_key s = (me_config s, me_roomState s, me_clientId s)"

definition offers_in :: "media_config \<times> room_state option \<times> string option \<Rightarrow> string \<Rightarrow> bool" where
  "offers_in k cid =
     (let s = (new_media (fst k))\<lparr> me_roomState := fst (snd k), me_clientId := snd (snd k) \<rparr>
      in shouldIOffer s cid \<and> isParticipantActive s cid)"

lemma offering_cong:
  assumes "me_config s' = me_config s" "me_roomState s' = me_roomState s" "me_clientId s' = me_clientId s"
  shows "shouldIOffer s' cid = shouldIOffer s cid" "isParticipantActive s' cid = isParticipantActive s cid"
  unfolding shouldIOffer_def isParticipantActive_def isCurrentParticipant_def me_participants_def assms by (rule refl)+

lemma offers_in_iff: "offers_in (room_key s) cid \<longleftrightarrow> shouldIOffer s cid \<and> isParticipantActive s cid"
  unfolding offers_in_def room_key_def Let_def fst_conv snd_conv
  by (subst (1) offering_cong(1) [of _ s], simp_all add: new_media_def)
    (subst offering_cong(2) [of _ s], simp_all add: new_media_def)

text \<open>
  The engine's operations are put together from statements that leave the room and the map of peers alone,
  from offers, and from the creation and the removal of peers. \<open>media_conduct\<close> is the contract: what
  these keep, every event keeps.
\<close>

fun plain_effect :: "media_effect \<Rightarrow> bool" where
  "plain_effect (PcCreate _ _) = False"
| "plain_effect (PcClose _) = False"
| "plain_effect (PcOffer _ _ _) = False"
| "plain_effect (SendContentState _ _ _) = False"
| "plain_effect _ = True"

locale media_basics =
  fixes ok :: "media_act \<Rightarrow> bool"
  assumes ok_skip: "ok skipS"
    and ok_then: "ok a \<Longrightarrow> ok b \<Longrightarrow> ok (thenS a b)"
    and ok_pointwise: "(\<And>s. \<exists>b. ok b \<and> a s = b s) \<Longrightarrow> ok a"
    and ok_upd: "(\<And>s. room_key (f s) = room_key s) \<Longrightarrow> (\<And>s. me_peers (f s) = me_peers s) \<Longrightarrow>
      (\<And>s. me_nextPeer (f s) = me_nextPeer s) \<Longrightarrow> (\<And>s. me_contentRevision s \<le> me_contentRevision (f s)) \<Longrightarrow> ok (upd f)"
    and ok_out: "(\<And>s. plain_effect (g s)) \<Longrightarrow> ok (out g)"
begin

lemma ok_let: "(\<And>x. ok (k x)) \<Longrightarrow> ok (letS e k)"
  by (rule ok_pointwise) (auto simp: letS_def)

lemma ok_if: "ok a \<Longrightarrow> ok b \<Longrightarrow> ok (ifS c a b)"
  by (rule ok_pointwise) (auto simp: ifS_def)

lemma ok_when: "ok a \<Longrightarrow> ok (whenS c a)"
  unfolding whenS_def by (intro ok_if ok_skip)

lemma ok_for: "(\<And>x. x \<in> set xs \<Longrightarrow> ok (body x)) \<Longrightarrow> ok (forS xs body)"
  by (induction xs) (auto simp: forS_def intro: ok_skip ok_then)

lemma ok_peer: "ok (upd_peer pid f)"
  unfolding upd_peer_def by (rule ok_upd) (simp_all add: room_key_def)

lemma ok_with_peer: "(\<And>pid. ok (a pid)) \<Longrightarrow> ok (with_peer cid a)"
  unfolding with_peer_def by (auto intro!: ok_let ok_skip split: option.split)

lemma ok_await: "ok (media_await c)"
  unfolding media_await_def by (rule ok_upd) (simp_all add: room_key_def)

lemma ok_resume: "ok a \<Longrightarrow> ok (media_resume c a)"
  unfolding media_resume_def seqS.simps
  by (intro ok_when ok_then ok_skip ok_upd) (simp_all add: room_key_def)

lemma ok_notify: "ok notifyChange"
  unfolding notifyChange_def by (rule ok_out) simp

lemmas ok_rules = ok_skip ok_then ok_let ok_if ok_when ok_for ok_out ok_peer ok_with_peer ok_await ok_resume ok_notify

lemma ok_status: "ok updateConnectionStatusValue" "ok retrying_fired" "ok (updateAggregateState env)"
proof -
  show u: "ok updateConnectionStatusValue"
    unfolding status_defs seqS.simps by (auto intro!: ok_rules ok_upd simp: room_key_def)
  show "ok retrying_fired"
    unfolding retrying_fired_def seqS.simps by (auto intro!: ok_rules ok_upd simp: room_key_def)
  show "ok (updateAggregateState env)"
    unfolding updateAggregateState_def seqS.simps by (auto intro!: ok_rules u ok_upd simp: Let_def room_key_def)
qed

lemma ok_schedule: "ok (scheduleIceRestart env cid d allow)"
  unfolding scheduleIceRestart_def by (auto intro!: ok_rules)

lemma ok_finally: "ok (offer_finally env pid cid)"
  unfolding offer_finally_def seqS.simps by (auto intro!: ok_rules ok_schedule)

lemma ok_request: "ok (requestPeerMediaRecovery cid reason)"
  unfolding requestPeerMediaRecovery_def by (auto intro!: ok_rules)

lemma ok_ice: "ok (drain_ice pid cid i)" "ok (add_ice pid cid purpose cs)" "ok (flushPendingRemoteIce pid cid purpose i)"
proof -
  show d: "ok (drain_ice pid cid i)" for i
    unfolding drain_ice_def seqS.simps by (auto intro!: ok_rules split: list.split)
  show "ok (add_ice pid cid purpose cs)" "ok (flushPendingRemoteIce pid cid purpose i)"
    unfolding flushPendingRemoteIce_def add_ice_def answer_completed_def seqS.simps
    by (auto intro!: ok_rules d split: list.split ice_purpose.split)
qed

lemma ok_apply: "ok (applyRemoteOffer pid cid sdp i allow)"
  unfolding applyRemoteOffer_def seqS.simps by (auto intro!: ok_rules)

end

locale media_conduct = media_basics +
  fixes env :: media_env
  assumes ok_offer: "ok (createOfferTo env cid r)"
    and ok_create: "ok (getOrCreatePeer cid)"
    and ok_cleanup: "ok (cleanupPeer env cid b)"
    and ok_cleanup_all: "ok cleanupAllPeers"
begin

lemmas ok_peers = ok_create ok_cleanup ok_cleanup_all

lemma ok_restart: "ok (restart_now env pid cid)" "ok (triggerIceRestart env cid allow)"
proof -
  show r: "ok (restart_now env pid cid)" for pid cid
    unfolding restart_now_def seqS.simps by (auto intro!: ok_rules ok_offer)
  show "ok (triggerIceRestart env cid allow)"
    unfolding triggerIceRestart_def seqS.simps Let_def by (auto intro!: ok_rules r split: sig_state.split)
qed

lemma ok_tracks: "ok (scheduleLocalTrackNegotiation env cid pid)"
  unfolding scheduleLocalTrackNegotiation_def seqS.simps Let_def
  by (auto intro!: ok_rules ok_offer ok_request)

lemma ok_made:
  "ok (offer_made env pid cid i outcome)" "ok (offer_timeout_fired env pid)" "ok (timeout_rolled_back env cid)"
  "ok (restart_rolled_back env pid cid b)" "ok (ice_restart_fired env pid)"
  unfolding offer_made_def offer_timeout_fired_def timeout_rolled_back_def restart_rolled_back_def ice_restart_fired_def
    seqS.simps
  by (auto intro!: ok_rules ok_finally ok_schedule ok_restart split: option.split)

lemma ok_recreate:
  "ok (recreatePeerForMediaRecovery env cid)" "ok (recreatePeerForCapabilityChange env cid)"
  "ok (replacePeerForRemoteOffer env cid i pending)"
  unfolding recreatePeerForMediaRecovery_def recreatePeerForCapabilityChange_def recreate_peer_def
    replacePeerForRemoteOffer_def seqS.simps
  by (auto intro!: ok_rules ok_peers ok_offer ok_upd simp: room_key_def split: option.split)

lemma ok_sync: "ok (syncPeers env)"
proof -
  have "ok (sync_participant env p)" for p
    unfolding sync_participant_def seqS.simps Let_def
    by (auto intro!: ok_rules ok_schedule ok_offer ok_peers ok_recreate ok_upd simp: room_key_def)
  then show ?thesis
    unfolding syncPeers_def seqS.simps Let_def by (auto intro!: ok_rules ok_peers ok_upd simp: room_key_def)
qed

lemma ok_calls:
  "ok (seedContentRevision r)" "ok (updateSignalingConnected env b)" "ok (setIceServers servers)"
  "ok (handleSignalingReconnect env)" "ok (scheduleDirtyPairRestart env cid)" "ok destroy_media"
proof -
  show "ok (seedContentRevision r)"
    unfolding seedContentRevision_def by (auto intro!: ok_rules ok_upd simp: room_key_def split: option.split jsnum.split)
  have "ok (resume_peer env e)" for e
    unfolding resume_peer_def seqS.simps Let_def by (auto intro!: ok_rules ok_restart ok_tracks)
  then show "ok (updateSignalingConnected env b)"
    unfolding updateSignalingConnected_def seqS.simps by (auto intro!: ok_rules ok_status ok_upd simp: room_key_def)
  show "ok (setIceServers servers)" "ok (handleSignalingReconnect env)" "ok (scheduleDirtyPairRestart env cid)"
    "ok destroy_media"
    unfolding setIceServers_def handleSignalingReconnect_def scheduleDirtyPairRestart_def destroy_media_def seqS.simps
    by (auto intro!: ok_rules ok_schedule ok_peers ok_upd simp: room_key_def)
qed

lemma ok_answers:
  "ok (handleOfferFrom env cid sdp i)" "ok (offer_rolled_back pid cid sdp i b)"
  "ok (remote_offer_set env pid cid sdp i allow b)" "ok (ice_added pid cid purpose rest b)" "ok (ice_drained pid cid i b)"
  "ok (media_attached env pid cid i needed)" "ok (answer_made pid cid i made)" "ok (handleAnswerFrom env cid sdp i)"
  "ok (remote_answer_set env pid cid i pending recover b)" "ok (handleIceFrom env cid c i)"
  unfolding handleOfferFrom_def offer_rolled_back_def remote_offer_set_def ice_added_def ice_drained_def
    media_attached_def answer_made_def handleAnswerFrom_def remote_answer_set_def setting_failed_def handleIceFrom_def
    seqS.simps Let_def
  by (auto intro!: ok_rules ok_peers ok_apply ok_ice ok_recreate ok_tracks ok_schedule ok_upd simp: room_key_def
      split: ice_purpose.split option.split prod.split)

lemma ok_messages: "ok (processSignalingMessage env msg)"
proof -
  have "ok (handleMediaRestartRequest env cid reason)" for cid reason
    unfolding handleMediaRestartRequest_def handlePeerLocalTrackNegotiationRequest_def seqS.simps
    by (auto intro!: ok_rules ok_offer ok_recreate ok_upd simp: room_key_def)
  then show ?thesis
    unfolding processSignalingMessage_def Let_def by (auto intro!: ok_rules ok_answers split: option.split)
qed

lemma ok_watchdog: "ok (recoverStalledOutboundMedia env)" "ok (outbound_stats env pid cid a v sample)"
  unfolding recoverStalledOutboundMedia_def recoverStalledOutboundMediaForPeer_def resetOutboundMediaWatch_def
    outbound_stats_def stall_counted_def seqS.simps Let_def
  by (auto intro!: ok_rules ok_recreate ok_request split: option.split)

lemma ok_pc_events:
  "ok (on_ice_state env pid)" "ok (on_connection_state env pid)" "ok (on_signaling_state env pid)"
  "ok (on_ice_candidate pid c)" "ok (on_negotiation_needed env pid)" "ok (local_media_attached env cid b)"
  unfolding on_ice_state_def on_connection_state_def on_signaling_state_def on_ice_candidate_def
    on_negotiation_needed_def local_media_attached_def restart_settled_def seqS.simps Let_def
  by (auto intro!: ok_rules ok_status ok_schedule ok_tracks ok_restart ok_offer split: ice_state.split pc_state.split)

lemma ok_network: "ok (network_changed env)" "ok (watchdog_tick env hidden)"
  unfolding network_changed_def watchdog_tick_def by (auto intro!: ok_rules ok_schedule ok_watchdog)

lemma ok_step: "(\<And>r c. e \<noteq> MUpdateRoomState r c) \<Longrightarrow> (\<And>b t. e \<noteq> MContentState b t) \<Longrightarrow> ok (media_step env e)"
  by (cases e) (auto intro!: ok_calls ok_peers ok_pc_events ok_made ok_status ok_answers ok_messages ok_watchdog ok_network)

end

text \<open>First contract: the room and the lowest next revision stay, and offers are those of the offering side.\<close>

definition held :: "media_config \<times> room_state option \<times> string option \<Rightarrow> nat \<Rightarrow> media_engine \<Rightarrow> bool" where
  "held k n s = (room_key s = k \<and> n \<le> me_contentRevision s)"

fun allowed :: "media_env \<Rightarrow> media_config \<times> room_state option \<times> string option \<Rightarrow> media_effect \<Rightarrow> bool" where
  "allowed env k (PcOffer pid cid r) = (offers_in k cid \<and> pv_signaling (nv_pc env pid) = Stable)"
| "allowed env k (SendContentState b t n) = False"
| "allowed env k _ = True"

abbreviation orderly :: "media_env \<Rightarrow> media_config \<times> room_state option \<times> string option \<Rightarrow> nat \<Rightarrow> media_act \<Rightarrow> bool" where
  "orderly env k n \<equiv> confined (held k n) (allowed env k)"

lemma plain_allowed: "plain_effect e \<Longrightarrow> allowed env k e"
  by (cases e) simp_all

lemma orderly_frame:
  "(\<And>s. room_key (f s) = room_key s) \<Longrightarrow> (\<And>s. me_contentRevision s \<le> me_contentRevision (f s)) \<Longrightarrow> orderly env k n (upd f)"
  by (rule confined_upd) (auto simp: held_def intro: order_trans)

interpretation orderly_basics: media_basics "orderly env k n" for env k n
proof
  show "orderly env k n skipS" by (rule confined_skipS)
  show "orderly env k n a \<Longrightarrow> orderly env k n b \<Longrightarrow> orderly env k n (thenS a b)" for a b by (rule confined_thenS)
  show "(\<And>s. \<exists>b. orderly env k n b \<and> a s = b s) \<Longrightarrow> orderly env k n a" for a by (rule confined_pointwise)
  show "(\<And>s. plain_effect (g s)) \<Longrightarrow> orderly env k n (out g)" for g by (rule confined_out) (rule plain_allowed)
qed (rule orderly_frame)

lemma orderly_guarded:
  "(\<And>s. held k n s \<Longrightarrow> \<not> c s \<Longrightarrow> held k n (fst (b s)) \<and> list_all (allowed env k) (snd (b s))) \<Longrightarrow> orderly env k n a \<Longrightarrow>
   orderly env k n (ifS c a b)"
  by (simp add: confined_def ifS_def)

definition start_offer :: "media_env \<Rightarrow> nat \<Rightarrow> string \<Rightarrow> bool \<Rightarrow> media_act" where
  "start_offer env pid cid r =
     letS (nextOfferId env cid) (\<lambda>offerId.
       seqS
         [upd (\<lambda>s. s\<lparr> me_offerSequence := me_offerSequence s + 1 \<rparr>),
          upd_peer pid (\<lambda>p. p\<lparr> pe_pendingLocalOfferId := Some offerId, pe_acceptedRemoteOfferId := None,
                               pe_ignoredOfferId := None, pe_isMakingOffer := True \<rparr>),
          media_tell (PcOffer pid cid r), media_await (KOffer pid cid offerId)])"

lemma start_offer_orderly:
  assumes "held k n s" "shouldIOffer s cid" "isParticipantActive s cid" "pv_signaling (nv_pc env pid) = Stable"
  shows "held k n (fst (start_offer env pid cid r s)) \<and> list_all (allowed env k) (snd (start_offer env pid cid r s))"
proof -
  have "offers_in k cid" using assms offers_in_iff [of s cid] by (simp add: held_def)
  with assms show ?thesis
    by (simp add: start_offer_def act_simps upd_peer_def media_await_def held_def room_key_def)
qed

lemma createOfferTo_unfold:
  "createOfferTo env cid r =
     with_peer cid (\<lambda>pid.
       let want_restart = (if r then upd_peer pid (\<lambda>p. p\<lparr> pe_pendingIceRestart := True \<rparr>) else skipS) in
       ifS (\<lambda>s. pe_isMakingOffer (obj s pid)) want_restart
         (ifS (\<lambda>s. \<not> shouldIOffer s cid \<or> \<not> isParticipantActive s cid) skipS
           (if pv_signaling (nv_pc env pid) \<noteq> Stable then seqS [want_restart, offer_finally env pid cid]
            else start_offer env pid cid r)))"
  unfolding createOfferTo_def start_offer_def ..

lemma orderly_offer: "orderly env k n (createOfferTo env cid r)"
proof -
  let ?w = "\<lambda>pid. if r then upd_peer pid (\<lambda>p. p\<lparr> pe_pendingIceRestart := True \<rparr>) else skipS"
  let ?b = "\<lambda>pid. if pv_signaling (nv_pc env pid) \<noteq> Stable then seqS [?w pid, offer_finally env pid cid]
            else start_offer env pid cid r"
  have w: "orderly env k n (?w pid)" for pid by (auto intro!: orderly_basics.ok_rules)
  have "held k n (fst (?b pid s)) \<and> list_all (allowed env k) (snd (?b pid s))"
    if "held k n s" "\<not> (\<not> shouldIOffer s cid \<or> \<not> isParticipantActive s cid)" for s pid
  proof (cases "pv_signaling (nv_pc env pid) = Stable")
    case True
    with that show ?thesis using start_offer_orderly [of k n s cid env pid r] by simp
  next
    case False
    have "orderly env k n (seqS [?w pid, offer_finally env pid cid])"
      unfolding seqS.simps by (intro confined_thenS confined_skipS w orderly_basics.ok_finally)
    from confinedD [OF this that(1)] False show ?thesis by simp
  qed
  then show ?thesis
    unfolding createOfferTo_unfold Let_def
    by (intro orderly_basics.ok_with_peer confined_ifS w orderly_guarded confined_skipS) simp_all
qed

lemma orderly_peers:
  "orderly env k n (getOrCreatePeer cid)" "orderly env k n (cleanupPeer env cid b)" "orderly env k n cleanupAllPeers"
proof -
  have out: "orderly env k n (media_tell (PcCreate pid cid))" "orderly env k n (media_tell (PcClose pid))" for pid cid
    by (rule confined_out, simp)+
  have upd: "(\<And>s. room_key (f s) = room_key s) \<Longrightarrow> (\<And>s. me_contentRevision (f s) = me_contentRevision s) \<Longrightarrow>
      orderly env k n (upd f)" for f
    by (rule confined_upd) (simp add: held_def)
  have c: "orderly env k n (close_peer pid)" for pid
    unfolding close_peer_def clearPeerTimers_def clearPeerNegotiation_def seqS.simps
    by (intro orderly_basics.ok_then orderly_basics.ok_peer orderly_basics.ok_skip out)
  show "orderly env k n (getOrCreatePeer cid)"
    unfolding getOrCreatePeer_def seqS.simps
    by (intro orderly_basics.ok_if orderly_basics.ok_skip orderly_basics.ok_let orderly_basics.ok_then upd out)
      (simp_all add: room_key_def)
  show "orderly env k n (cleanupPeer env cid b)" "orderly env k n cleanupAllPeers"
    unfolding cleanupPeer_def cleanupAllPeers_def seqS.simps
    by (auto intro!: orderly_basics.ok_rules c upd orderly_basics.ok_status simp: room_key_def)
qed

interpretation orderly: media_conduct "orderly env k n" env for env k n
  by unfold_locales (rule orderly_offer orderly_peers)+

text \<open>Every event but the announcement of content, from the state with the room that it leaves.\<close>

definition entered :: "media_event \<Rightarrow> media_engine \<Rightarrow> media_engine" where
  "entered e s = (case e of MUpdateRoomState r c \<Rightarrow> s\<lparr> me_roomState := r, me_clientId := c \<rparr> | _ \<Rightarrow> s)"

lemma orderly_run:
  assumes "\<And>b t. e \<noteq> MContentState b t"
  shows "held (room_key (entered e s)) (me_contentRevision s) (fst (media_step env e s)) \<and>
    list_all (allowed env (room_key (entered e s))) (snd (media_step env e s))"
proof (cases "\<exists>room c. e = MUpdateRoomState room c")
  case False
  then have "entered e s = s" by (cases e) (simp_all add: entered_def)
  moreover have "held (room_key s) (me_contentRevision s) s" by (simp add: held_def)
  moreover have "orderly env k n (media_step env e)" for k n using False assms by (intro orderly.ok_step) auto
  ultimately show ?thesis using confinedD by metis
next
  case True
  then obtain room c where e: "e = MUpdateRoomState room c" by auto
  let ?s = "entered e s"
  have "media_step env e s = syncPeers env ?s"
    by (simp add: e entered_def updateRoomState_def thenS_def upd_def skipS_def Let_def)
  moreover have "held (room_key ?s) (me_contentRevision s) ?s"
    by (simp add: held_def e entered_def)
  ultimately show ?thesis using confinedD [OF orderly.ok_sync] by simp
qed

text \<open>C15: Only the offering side makes offers, and only when it can: whenever the engine asks a connection for an offer,
  the other participant is an active member of the room as it is known after the event, the engine is the
  side of that pair that offers, and the signaling state of the connection is stable.\<close>

theorem only_the_offerer_offers:
  assumes "PcOffer pid cid restart \<in> set (snd (media_event_step s (env, e)))"
  shows "let s' = fst (media_event_step s (env, e))
    in shouldIOffer s' cid \<and> isParticipantActive s' cid \<and> pv_signaling (nv_pc env pid) = Stable"
proof -
  have ne: "e \<noteq> MContentState b t" for b t
    using assms by (auto simp: media_event_step_def sendContentState_def act_simps)
  let ?k = "room_key (entered e s)"
  from orderly_run [OF ne] have h: "room_key (fst (media_step env e s)) = ?k"
    and a: "list_all (allowed env ?k) (snd (media_step env e s))" by (simp_all add: held_def)
  from a assms have "allowed env ?k (PcOffer pid cid restart)"
    by (auto simp: list_all_iff media_event_step_def)
  with h show ?thesis using offers_in_iff [of "fst (media_step env e s)" cid] by (simp add: media_event_step_def Let_def)
qed

definition open_pc :: pc_view where
  "open_pc = \<lparr> pv_signaling = Stable, pv_ice = IceNew, pv_conn = PcNew, pv_hasRemote = False, pv_senders = [] \<rparr>"

definition with_camera :: media_env where
  "with_camera = \<lparr> nv_now = 1000, nv_pc = (\<lambda>_. open_pc), nv_hasStream = True \<rparr>"

lemma first_offer:
  "PcOffer 0 ''b'' False \<in> set (snd (media_event_step (offering ''a'' ''b'') (with_camera, MNegotiationNeeded 0)))"
  by (simp add: media_event_step_def on_negotiation_needed_def offering_def member_def me_participants_def two_room_def
      bare_participant_def truthy_string_def new_media_def createOfferTo_def with_peer_def shouldIOffer_def
      isCurrentParticipant_def isParticipantActive_def plain_media_def with_camera_def open_pc_def new_peer_def
      upd_peer_def media_await_def act_simps)

theorem only_the_offerer_offers_witness:
  "let s' = fst (media_event_step (offering ''a'' ''b'') (with_camera, MNegotiationNeeded 0))
   in shouldIOffer s' ''b'' \<and> isParticipantActive s' ''b'' \<and> pv_signaling (nv_pc with_camera 0) = Stable"
  by (rule only_the_offerer_offers [OF first_offer])

text \<open>The revisions announced.\<close>

definition announced :: "media_effect list \<Rightarrow> nat list" where
  "announced es = List.map_filter (\<lambda>e. case e of SendContentState _ _ n \<Rightarrow> Some n | _ \<Rightarrow> None) es"

lemma announced_none: "list_all (allowed env k) es \<Longrightarrow> announced es = []"
proof (induction es)
  case (Cons e es)
  then show ?case by (cases e) (simp_all add: announced_def List.map_filter_def)
qed (simp add: announced_def List.map_filter_def)

lemma announced_append: "announced (xs @ ys) = announced xs @ announced ys"
  by (simp add: announced_def List.map_filter_def)

lemma announced_step:
  "let r = media_event_step s e
   in me_contentRevision s \<le> me_contentRevision (fst r) \<and>
      (announced (snd r) = [] \<or> announced (snd r) = [me_contentRevision (fst r)] \<and>
       me_contentRevision s < me_contentRevision (fst r))"
proof (cases "\<exists>b t. snd e = MContentState b t")
  case True
  then show ?thesis
    by (auto simp: media_event_step_def sendContentState_def act_simps announced_def List.map_filter_def)
next
  case False
  then have ne: "snd e \<noteq> MContentState b t" for b t by blast
  note r = orderly_run [OF ne, of s "fst e"]
  show ?thesis
    unfolding media_event_step_def Let_def using announced_none [OF conjunct2 [OF r]] conjunct1 [OF r]
    by (simp add: held_def)
qed

lemma announced_run:
  "sorted_wrt (<) (announced (snd (run media_event_step s es))) \<and>
   (\<forall>n \<in> set (announced (snd (run media_event_step s es))). me_contentRevision s < n)"
proof (induction es arbitrary: s)
  case (Cons e es)
  let ?r = "media_event_step s e"
  from announced_step [of s e] Cons.IH [of "fst ?r"]
  show ?case by (fastforce simp: Let_def announced_append sorted_wrt_append)
qed (simp add: announced_def List.map_filter_def)

text \<open>The revisions of the announcements of shared content increase strictly along every run of the engine,
  so that the receivers that keep the highest revision keep the last announcement.\<close>

theorem content_revisions_increase:
  "sorted_wrt (<) (announced (snd (run media_event_step s es)))"
  using announced_run by blast

section \<open>The peers are the room\<close>

definition peer_cids :: "media_engine \<Rightarrow> string set" where
  "peer_cids s = set (map fst (me_peers s))"

lemma keys_update: "set (map fst (AList.update k v m)) = insert k (set (map fst m))"
  by (simp add: AList.dom_update)

lemma keys_delete: "set (map fst (AList.delete k m)) = set (map fst m) - {k}"
  by (simp add: AList.delete_keys)

definition turns :: "string set \<Rightarrow> string set \<Rightarrow> media_act \<Rightarrow> bool" where
  "turns d d' a = (\<forall>s. peer_cids s = d \<longrightarrow> peer_cids (fst (a s)) = d')"

lemma turnsD: "turns d d' a \<Longrightarrow> peer_cids s = d \<Longrightarrow> peer_cids (fst (a s)) = d'"
  by (simp add: turns_def)

lemma turns_skip: "turns d d skipS"
  by (simp add: turns_def skipS_def)

lemma turns_then: "turns d e a \<Longrightarrow> turns e f b \<Longrightarrow> turns d f (thenS a b)"
  by (simp add: turns_def thenS_def Let_def)

lemma turns_seq: "turns d d (seqS [])" "turns d e a \<Longrightarrow> turns e f (seqS as) \<Longrightarrow> turns d f (seqS (a # as))"
  using turns_skip turns_then by auto

lemma turns_let: "(\<And>x. turns d e (k x)) \<Longrightarrow> turns d e (letS f k)"
  by (simp add: turns_def letS_def)

lemma turns_if: "turns d e a \<Longrightarrow> turns d e b \<Longrightarrow> turns d e (ifS c a b)"
  by (simp add: turns_def ifS_def)

lemma turns_keeping: "keeping (\<lambda>s. peer_cids s = d) a \<Longrightarrow> turns d d a"
  by (simp add: keeping_def turns_def)

lemma cids_upd_peer: "keeping (\<lambda>s. peer_cids s = d) (upd_peer pid f)"
  unfolding upd_peer_def by (rule keeping_upd) (simp add: peer_cids_def)

lemma cids_upd: "(\<And>s. me_peers (f s) = me_peers s) \<Longrightarrow> keeping (\<lambda>s. peer_cids s = d) (upd f)"
  by (rule keeping_upd) (simp add: peer_cids_def)

lemma cids_await: "keeping (\<lambda>s. peer_cids s = d) (media_await k)"
  unfolding media_await_def by (rule cids_upd) simp

lemmas cids_rules =
  keeping_skipS keeping_thenS keeping_letS keeping_ifS keeping_whenS keeping_forS keeping_out with_peer_keeps
  notify_inv cids_upd_peer cids_await cids_upd

lemma cids_kept:
  "keeping (\<lambda>s. peer_cids s = d) (scheduleIceRestart env cid n allow)"
  "keeping (\<lambda>s. peer_cids s = d) (createOfferTo env cid r)"
  "keeping (\<lambda>s. peer_cids s = d) (close_peer pid)"
  "keeping (\<lambda>s. peer_cids s = d) (updateAggregateState env)"
proof -
  show s: "keeping (\<lambda>s. peer_cids s = d) (scheduleIceRestart env cid n allow)" for cid n allow
    unfolding scheduleIceRestart_def by (auto intro!: cids_rules)
  show "keeping (\<lambda>s. peer_cids s = d) (createOfferTo env cid r)"
    unfolding createOfferTo_def offer_finally_def seqS.simps Let_def by (auto intro!: cids_rules s)
  show "keeping (\<lambda>s. peer_cids s = d) (close_peer pid)"
    unfolding close_peer_def clearPeerTimers_def clearPeerNegotiation_def seqS.simps by (auto intro!: cids_rules)
  have "keeping (\<lambda>s. peer_cids s = d) updateConnectionStatusValue"
    by (simp add: keeping_def peer_cids_def status_frame)
  then show "keeping (\<lambda>s. peer_cids s = d) (updateAggregateState env)"
    unfolding updateAggregateState_def seqS.simps by (auto intro!: cids_rules simp: Let_def)
qed

lemma turns_cleanup: "turns d (d - {cid}) (cleanupPeer env cid b)"
proof (unfold turns_def, intro allI impI)
  fix s assume d: "peer_cids s = d"
  show "peer_cids (fst (cleanupPeer env cid b s)) = d - {cid}"
  proof (cases "map_of (me_peers s) cid")
    case None
    then have "cid \<notin> d" using d by (auto simp: peer_cids_def map_of_eq_None_iff)
    with None d show ?thesis by (simp add: cleanupPeer_def with_peer_def letS_def skipS_def)
  next
    case (Some pid)
    have del: "turns d (d - {cid}) (upd (\<lambda>s. s\<lparr> me_peers := AList.delete cid (me_peers s),
        me_participantStatus := f s \<rparr>))" for f
      by (auto simp: turns_def upd_def peer_cids_def keys_delete simp del: set_map)
    have "turns d (d - {cid}) (seqS [close_peer pid,
        upd (\<lambda>s. s\<lparr> me_peers := AList.delete cid (me_peers s),
                      me_participantStatus := AList.delete cid (me_participantStatus s) \<rparr>),
        (if b then upd (\<lambda>s. s\<lparr> me_restartHandledAt := AList.delete cid (me_restartHandledAt s),
                               me_answeredCids := removeAll cid (me_answeredCids s) \<rparr>)
         else skipS), updateAggregateState env])"
      unfolding seqS.simps
      by (rule turns_then turns_keeping cids_kept del turns_skip)+ (auto intro!: cids_rules turns_keeping cids_kept turns_skip turns_then)
    from turnsD [OF this d] Some show ?thesis by (simp add: cleanupPeer_def with_peer_def letS_def)
  qed
qed

lemma turns_create: "turns d (insert cid d) (getOrCreatePeer cid)"
proof -
  have "peer_cids (fst (getOrCreatePeer cid s)) = insert cid (peer_cids s)" for s
  proof (cases "map_of (me_peers s) cid")
    case None
    then show ?thesis by (simp add: getOrCreatePeer_def act_simps peer_cids_def keys_update del: set_map)
  next
    case (Some pid)
    from map_of_SomeD [OF this] have "cid \<in> peer_cids s" by (force simp: peer_cids_def)
    with Some show ?thesis by (simp add: getOrCreatePeer_def act_simps insert_absorb)
  qed
  then show ?thesis by (simp add: turns_def)
qed

lemma turns_recreate: "turns d (insert cid d) (recreate_peer env cid)"
proof -
  have "turns d (insert cid (d - {cid})) (recreate_peer env cid)"
    unfolding recreate_peer_def seqS.simps
    by (auto intro!: turns_let turns_then [OF turns_cleanup] turns_then [OF turns_keeping] turns_then [OF turns_create]
        turns_skip cids_rules split: option.split)
  then show ?thesis by simp
qed

lemma turns_if_absent:
  assumes "cid \<notin> d \<Longrightarrow> turns d e a" "cid \<in> d \<Longrightarrow> turns d e b"
  shows "turns d e (ifS (\<lambda>s. map_of (me_peers s) cid = None) a b)"
proof -
  have "map_of (me_peers s) cid = None \<longleftrightarrow> cid \<notin> peer_cids s" for s
    by (simp add: peer_cids_def map_of_eq_None_iff)
  with assms show ?thesis by (simp add: turns_def ifS_def)
qed

lemma turns_sync: "turns d (insert (rp_cid p) d) (sync_participant env p)"
proof -
  let ?cid = "rp_cid p"
  let ?offer = "\<lambda>b. ifS (\<lambda>s. \<not> shouldIOffer s ?cid) skipS
      (if b then scheduleIceRestart env ?cid 0 False
       else with_peer ?cid (\<lambda>pid.
         if nv_hasStream env \<and> pv_signaling (nv_pc env pid) = Stable \<and> \<not> pv_hasRemote (nv_pc env pid)
         then createOfferTo env ?cid False else skipS))"
  have offer: "turns d d (?offer b)" for d b
    by (rule turns_keeping) (auto intro!: cids_rules cids_kept)
  have change: "turns d d (recreatePeerForCapabilityChange env ?cid)" if "?cid \<in> d" for d
  proof -
    have "turns d d (recreate_peer env ?cid)" using turns_recreate [of d ?cid env] that by (simp add: insert_absorb)
    then show ?thesis
      unfolding recreatePeerForCapabilityChange_def seqS.simps
      by (intro turns_if turns_skip turns_then [where e = d] turns_keeping [OF keeping_ifS] cids_kept keeping_skipS)
  qed
  have st: "turns d d (upd (\<lambda>s. s\<lparr> me_participantStatus := AList.update ?cid b (me_participantStatus s) \<rparr>))" for b
    by (intro turns_keeping cids_upd) simp
  have new: "turns d (insert ?cid d) (seqS [getOrCreatePeer ?cid, ?offer b])" for b
    by (intro turns_seq(2) [OF turns_create] turns_seq(2) [OF offer] turns_seq(1))
  have old: "turns d (insert ?cid d) (ifS (\<lambda>s. capability_changed s ?cid) (recreatePeerForCapabilityChange env ?cid) (?offer b))"
    if "?cid \<in> d" for b
    using turns_if [OF change [OF that] offer] that by (simp add: insert_absorb)
  show ?thesis
    unfolding sync_participant_def Let_def
    by (intro turns_let turns_seq(2) [OF st] turns_seq(2) [where e = "insert ?cid d", OF turns_if_absent] turns_seq(1),
        rule new, erule old)
qed

lemma turns_for_cleanup: "turns d (d - set cids) (forS cids (\<lambda>cid. cleanupPeer env cid b))"
proof (induction cids arbitrary: d)
  case (Cons c cids)
  from turns_then [OF turns_cleanup [of d c env b] Cons.IH [of "d - {c}"]] show ?case
    by (simp add: forS_def Diff_insert2 [symmetric] set_diff_eq insert_commute)
qed (simp add: forS_def turns_skip)

lemma turns_for_sync: "turns d (d \<union> rp_cid ` set ps) (forS ps (sync_participant env))"
proof (induction ps arbitrary: d)
  case (Cons p ps)
  from turns_then [OF turns_sync [of d p env] Cons.IH] show ?case by (simp add: forS_def)
qed (simp add: forS_def turns_skip)

lemma turns_drop:
  "turns d (d \<inter> set R)
     (letS (\<lambda>s. map fst (me_peers s)) (\<lambda>cids. forS (filter (\<lambda>cid. cid \<notin> set R) cids) (\<lambda>cid. cleanupPeer env cid b)))"
proof (unfold turns_def letS_def, intro allI impI)
  fix s assume d: "peer_cids s = d"
  let ?gone = "filter (\<lambda>cid. cid \<notin> set R) (map fst (me_peers s))"
  have "d - set ?gone = d \<inter> set R" using d by (auto simp: peer_cids_def)
  with turnsD [OF turns_for_cleanup [of d ?gone env b] d]
  show "peer_cids (fst (forS ?gone (\<lambda>cid. cleanupPeer env cid b) s)) = d \<inter> set R" by simp
qed

text \<open>C14: The peers are exactly the other participants of the room: after a room state is delivered to the engine there
  is a peer for each participant other than the client itself and for no one else, and none when there is
  no room or no client id, whatever the peers were before.\<close>

theorem peers_match_room:
  "peer_cids (fst (updateRoomState env room clientId s)) =
    (case (room, truthy_string clientId) of
       (Some r, Some me) \<Rightarrow> rp_cid ` set (rs_participants r) - {me}
     | _ \<Rightarrow> {})"
proof -
  let ?s = "s\<lparr> me_roomState := room, me_clientId := clientId \<rparr>"
  have upd: "fst (updateRoomState env room clientId s) = fst (syncPeers env ?s)"
    by (simp add: updateRoomState_def thenS_def upd_def skipS_def Let_def)
  show ?thesis
  proof (cases "room = None \<or> truthy_string clientId = None")
    case True
    then have "peer_cids (fst (syncPeers env ?s)) = {}"
      by (auto simp: syncPeers_def cleanupAllPeers_def notifyChange_def act_simps peer_cids_def)
    with True upd show ?thesis by (auto split: option.split)
  next
    case False
    then obtain r me where r: "room = Some r" "truthy_string clientId = Some me" by auto
    then have me: "clientId = Some me" by (auto simp: truthy_string_def split: option.splits if_splits)
    let ?remote = "remote_participants ?s" and ?d = "peer_cids ?s"
    have c: "\<not> (me_roomState ?s = None \<or> truthy_string (me_clientId ?s) = None)" using r by simp
    have "peer_cids (fst (syncPeers env ?s)) = ?d \<inter> set (map rp_cid ?remote) \<union> rp_cid ` set ?remote"
      unfolding syncPeers_def ifS_def letS_def [where e = remote_participants] Let_def if_not_P [OF c]
      by (rule turnsD [OF _ refl], intro turns_seq(2) [OF turns_drop] turns_seq(2) [OF turns_keeping]
          turns_seq(2) [OF turns_for_sync] turns_seq(1) cids_upd notify_inv) simp
    moreover have "?d \<inter> set (map rp_cid ?remote) \<union> rp_cid ` set ?remote = rp_cid ` set (rs_participants r) - {me}"
      using r me by (auto simp: remote_participants_def me_participants_def)
    ultimately show ?thesis using r upd by simp
  qed
qed

section \<open>Every connection is closed\<close>

definition pcs_opened :: "media_effect list \<Rightarrow> nat list" where
  "pcs_opened es = List.map_filter (\<lambda>e. case e of PcCreate pid _ \<Rightarrow> Some pid | _ \<Rightarrow> None) es"

definition pcs_closed :: "media_effect list \<Rightarrow> nat list" where
  "pcs_closed es = List.map_filter (\<lambda>e. case e of PcClose pid \<Rightarrow> Some pid | _ \<Rightarrow> None) es"

lemma ledger_simps [simp]:
  "pcs_opened [] = []" "pcs_closed [] = []"
  "pcs_opened (xs @ ys) = pcs_opened xs @ pcs_opened ys" "pcs_closed (xs @ ys) = pcs_closed xs @ pcs_closed ys"
  "pcs_opened (PcCreate pid cid # es) = pid # pcs_opened es" "pcs_closed (PcCreate pid cid # es) = pcs_closed es"
  "pcs_opened (PcClose pid # es) = pcs_opened es" "pcs_closed (PcClose pid # es) = pid # pcs_closed es"
  "pcs_opened (MediaChange # es) = pcs_opened es" "pcs_closed (MediaChange # es) = pcs_closed es"
  by (simp_all add: pcs_opened_def pcs_closed_def List.map_filter_def)

text \<open>The connections in use before and after, those opened and closed in between.\<close>

definition settles :: "nat set \<Rightarrow> nat \<Rightarrow> nat list \<Rightarrow> nat list \<Rightarrow> nat set \<Rightarrow> nat \<Rightarrow> bool" where
  "settles L n cr cl L' n' =
     (n \<le> n' \<and> set cr \<subseteq> {n..<n'} \<and> distinct cr \<and> distinct cl \<and> set cl \<subseteq> L \<union> set cr \<and> L' = L \<union> set cr - set cl)"

lemma settles_trans:
  assumes "settles L n cr cl L' n'" "settles L' n' cr' cl' L'' n''" "L \<subseteq> {..<n}"
  shows "settles L n (cr @ cr') (cl @ cl') L'' n''"
proof -
  have fresh: "set cr' \<inter> (L \<union> set cr) = {}" using assms by (fastforce simp: settles_def)
  then have "set cl \<inter> set cl' = {}" "set cr \<inter> set cr' = {}" using assms by (fastforce simp: settles_def)+
  moreover have "set cr \<union> set cr' \<subseteq> {n..<n''}" using assms(1,2) by (fastforce simp: settles_def)
  ultimately show ?thesis using assms(1,2) fresh by (fastforce simp: settles_def)
qed

definition in_use :: "media_engine \<Rightarrow> nat set" where
  "in_use s = snd ` set (me_peers s)"

definition tidy :: "media_engine \<Rightarrow> bool" where
  "tidy s = (distinct (map fst (me_peers s)) \<and> distinct (map snd (me_peers s)) \<and> in_use s \<subseteq> {..<me_nextPeer s})"

definition accounts :: "media_engine \<Rightarrow> media_engine \<times> media_effect list \<Rightarrow> bool" where
  "accounts s r = (tidy (fst r) \<and>
     settles (in_use s) (me_nextPeer s) (pcs_opened (snd r)) (pcs_closed (snd r)) (in_use (fst r)) (me_nextPeer (fst r)))"

definition balanced :: "media_act \<Rightarrow> bool" where
  "balanced a = (\<forall>s. tidy s \<longrightarrow> accounts s (a s))"

lemma accounts_trans:
  assumes "tidy s" "accounts s r" "accounts (fst r) q"
  shows "accounts s (fst q, snd r @ snd q)"
  using assms settles_trans [of "in_use s" "me_nextPeer s"] by (auto simp: accounts_def tidy_def)

lemma accounts_frame:
  "tidy s \<Longrightarrow> me_peers (fst r) = me_peers s \<Longrightarrow> me_nextPeer (fst r) = me_nextPeer s \<Longrightarrow>
   pcs_opened (snd r) = [] \<Longrightarrow> pcs_closed (snd r) = [] \<Longrightarrow> accounts s r"
  by (simp add: accounts_def tidy_def in_use_def settles_def)

lemma balanced_then: "balanced a \<Longrightarrow> balanced b \<Longrightarrow> balanced (thenS a b)"
  using accounts_trans by (simp add: balanced_def thenS_def Let_def accounts_def)

lemma balanced_out: "(\<And>s. pcs_opened [f s] = [] \<and> pcs_closed [f s] = []) \<Longrightarrow> balanced (out f)"
  by (simp add: balanced_def out_def accounts_frame)

lemma balanced_upd:
  "(\<And>s. me_peers (f s) = me_peers s) \<Longrightarrow> (\<And>s. me_nextPeer (f s) = me_nextPeer s) \<Longrightarrow> balanced (upd f)"
  by (simp add: balanced_def upd_def accounts_frame)

interpretation balanced_basics: media_basics balanced
proof
  show "balanced skipS" by (simp add: balanced_def skipS_def accounts_frame)
  show "(\<And>s. \<exists>b. balanced b \<and> a s = b s) \<Longrightarrow> balanced a" for a unfolding balanced_def by metis
  show "(\<And>s. plain_effect (g s)) \<Longrightarrow> balanced (out g)" for g
  proof (rule balanced_out)
    fix s assume "\<And>s. plain_effect (g s)"
    from this [of s] show "pcs_opened [g s] = [] \<and> pcs_closed [g s] = []"
      by (cases "g s") (simp_all add: pcs_opened_def pcs_closed_def List.map_filter_def)
  qed
qed (auto intro: balanced_then balanced_upd)

lemma balanced_offer: "balanced (createOfferTo env cid r)"
proof -
  have "balanced (media_tell (PcOffer pid cid r))" for pid cid
    by (rule balanced_out) (simp add: pcs_opened_def pcs_closed_def List.map_filter_def)
  then show ?thesis
    unfolding createOfferTo_def seqS.simps Let_def
    by (auto intro!: balanced_basics.ok_then balanced_basics.ok_skip balanced_basics.ok_let balanced_basics.ok_if
        balanced_basics.ok_peer balanced_basics.ok_with_peer balanced_basics.ok_await balanced_basics.ok_finally balanced_upd)
qed

lemma update_appends: "map_of m k = None \<Longrightarrow> AList.update k v m = m @ [(k, v)]"
  by (induction m) auto

lemma balanced_create: "balanced (getOrCreatePeer cid)"
proof (unfold balanced_def, intro allI impI)
  fix s assume t: "tidy s"
  show "accounts s (getOrCreatePeer cid s)"
  proof (cases "map_of (me_peers s) cid")
    case None
    from t None show ?thesis
      by (auto simp: getOrCreatePeer_def act_simps accounts_def tidy_def in_use_def settles_def update_appends
          map_of_eq_None_iff)
  next
    case (Some pid)
    with t show ?thesis by (simp add: getOrCreatePeer_def act_simps accounts_frame)
  qed
qed

lemma status_quiet: "snd (updateConnectionStatusValue s) = []"
  by (simp add: status_defs act_simps)

lemma aggregate_ledger:
  "snd (updateAggregateState env s) = [MediaChange]" "me_peers (fst (updateAggregateState env s)) = me_peers s"
  "me_nextPeer (fst (updateAggregateState env s)) = me_nextPeer s"
  by (simp_all add: updateAggregateState_def thenS_def upd_def notifyChange_def out_def skipS_def Let_def status_quiet
      status_frame)

lemma close_ledger:
  "snd (close_peer pid s) = [PcClose pid]" "me_peers (fst (close_peer pid s)) = me_peers s"
  "me_nextPeer (fst (close_peer pid s)) = me_nextPeer s"
  by (simp_all add: close_peer_def clearPeerTimers_def clearPeerNegotiation_def upd_peer_def act_simps)

lemma delete_values:
  assumes "distinct (map fst m)" "distinct (map snd m)" "map_of m k = Some v"
  shows "snd ` set (AList.delete k m) = snd ` set m - {v}" "distinct (map snd (AList.delete k m))"
proof -
  have "AList.delete k m = filter (\<lambda>e. snd e \<noteq> v) m"
    unfolding AList.delete_eq
  proof (intro filter_cong refl)
    fix e assume e: "e \<in> set m"
    note inj = assms(1,2) [unfolded distinct_map, THEN conjunct2] and kv = map_of_SomeD [OF assms(3)]
    from inj_onD [OF inj(1) _ e kv] inj_onD [OF inj(2) _ e kv]
    show "(case e of (k', _) \<Rightarrow> k \<noteq> k') = (snd e \<noteq> v)" by (cases e) auto
  qed
  then show "snd ` set (AList.delete k m) = snd ` set m - {v}" "distinct (map snd (AList.delete k m))"
    using assms(2) by (auto simp: distinct_map_filter)
qed

lemma balanced_cleanup: "balanced (cleanupPeer env cid b)"
proof (unfold balanced_def, intro allI impI)
  fix s assume t: "tidy s"
  show "accounts s (cleanupPeer env cid b s)"
  proof (cases "map_of (me_peers s) cid")
    case None
    with t show ?thesis by (simp add: cleanupPeer_def with_peer_def letS_def skipS_def accounts_frame)
  next
    case (Some pid)
    let ?r = "cleanupPeer env cid b s"
    have r: "snd ?r = [PcClose pid, MediaChange]" "me_peers (fst ?r) = AList.delete cid (me_peers s)"
      "me_nextPeer (fst ?r) = me_nextPeer s"
      using Some by (simp_all add: cleanupPeer_def with_peer_def letS_def thenS_def upd_def skipS_def Let_def close_ledger
          aggregate_ledger)
    have "pid \<in> in_use s" using map_of_SomeD [OF Some] by (force simp: in_use_def)
    with t delete_values [OF _ _ Some] AList.distinct_delete [of "me_peers s" cid] r show ?thesis
      by (auto simp: accounts_def tidy_def in_use_def settles_def)
  qed
qed

lemma close_all_ledger:
  "snd (forS pids close_peer s) = map PcClose pids" "me_peers (fst (forS pids close_peer s)) = me_peers s"
  "me_nextPeer (fst (forS pids close_peer s)) = me_nextPeer s"
  by (induction pids arbitrary: s) (simp_all add: forS_def thenS_def skipS_def Let_def close_ledger)

lemma balanced_cleanup_all: "balanced cleanupAllPeers"
proof (unfold balanced_def, intro allI impI)
  fix s assume t: "tidy s"
  have c: "pcs_opened (map PcClose ps) = [] \<and> pcs_closed (map PcClose ps) = ps" for ps by (induction ps) simp_all
  let ?r = "cleanupAllPeers s"
  have "snd ?r = map PcClose (map snd (me_peers s)) @ [MediaChange]" "me_peers (fst ?r) = []"
    "me_nextPeer (fst ?r) = me_nextPeer s"
    by (simp_all add: cleanupAllPeers_def notifyChange_def letS_def thenS_def upd_def out_def skipS_def Let_def
        close_all_ledger)
  with t c [of "map snd (me_peers s)"] show "accounts s ?r"
    by (auto simp: accounts_def tidy_def in_use_def settles_def simp del: map_map)
qed

interpretation balanced: media_conduct balanced env for env
  by unfold_locales (rule balanced_offer balanced_create balanced_cleanup balanced_cleanup_all)+

lemma balanced_step: "balanced (media_step env e)"
proof (cases "(\<exists>r c. e = MUpdateRoomState r c) \<or> (\<exists>b t. e = MContentState b t)")
  case True
  have "balanced (updateRoomState env r c)" for r c
    unfolding updateRoomState_def seqS.simps
    by (intro balanced_then balanced_upd balanced.ok_sync balanced_basics.ok_skip) simp_all
  moreover have "balanced (sendContentState b t)" for b t
    unfolding sendContentState_def seqS.simps
    by (intro balanced_then balanced_upd balanced_out balanced_basics.ok_skip)
      (simp_all add: pcs_opened_def pcs_closed_def List.map_filter_def)
  ultimately show ?thesis using True by auto
qed (intro balanced.ok_step, auto)

lemma accounts_run: "tidy s \<Longrightarrow> accounts s (run media_event_step s es)"
proof (induction es arbitrary: s)
  case Nil
  then show ?case by (simp add: accounts_frame)
next
  case (Cons e es)
  have "accounts s (media_event_step s e)"
    using balanced_step Cons.prems by (simp add: balanced_def media_event_step_def)
  moreover from this have "accounts (fst (media_event_step s e)) (run media_event_step (fst (media_event_step s e)) es)"
    by (intro Cons.IH) (simp add: accounts_def)
  ultimately show ?case using accounts_trans Cons.prems by (simp add: Let_def)
qed

text \<open>C13: No peer connection leaks: in every run of the engine no connection is closed twice, only connections that the
  engine opened are closed, and those opened and not closed are exactly the connections of the present
  peers.\<close>

theorem no_connection_leaks:
  "let r = run media_event_step (new_media cfg) es in
     distinct (pcs_opened (snd r)) \<and> distinct (pcs_closed (snd r)) \<and> set (pcs_closed (snd r)) \<subseteq> set (pcs_opened (snd r)) \<and>
     set (pcs_opened (snd r)) - set (pcs_closed (snd r)) = snd ` set (me_peers (fst r))"
proof -
  have "tidy (new_media cfg)" by (simp add: tidy_def in_use_def new_media_def)
  from accounts_run [OF this, of es] show ?thesis
    by (simp add: accounts_def settles_def in_use_def Let_def new_media_def)
qed

section \<open>A restart survives a lost signaling connection\<close>





















































end
