(* ===== verification/Media_Devices.thy ===== *)
theory Media_Devices
  imports Call_Types
begin

text \<open>
  The choice of the microphone in \<^verbatim>\<open>client/packages/core/src/media/MediaEngine.ts\<close>: which audio input the
  engine switches to, given the devices of the browser and the group of the microphone in use. A device is an
  entry of \<open>enumerateDevices\<close>; \<open>None\<close> stands for a list that could not be obtained.
\<close>

datatype device_kind = AudioInput | AudioOutput | VideoInput

record media_device =
  dv_kind :: device_kind
  dv_id :: string
  dv_group :: string

datatype route_basis = DefaultInput | DefaultOutput | AlreadyMatched | NoBasis | NoDevices

record audio_choice =
  ac_device :: "media_device option"
  ac_matches :: bool
  ac_basis :: route_basis

text \<open>The track in use, as the choice sees it: whether it is live, and the group its settings name.\<close>

record current_audio =
  ca_live :: bool
  ca_group :: "string option"

text \<open>\<open>groupId ? groupId : null\<close>.\<close>

definition getTrackGroupId :: "current_audio option \<Rightarrow> string option" where
  "getTrackGroupId track = Option.bind track (\<lambda>t. case ca_group t of Some g \<Rightarrow> if g = [] then None else Some g | None \<Rightarrow> None)"

definition isVirtualDefaultAudioDevice :: "media_device \<Rightarrow> bool" where
  "isVirtualDefaultAudioDevice d = (dv_id d = ''default'' \<or> dv_id d = ''communications'')"

definition input_for_group :: "media_device list \<Rightarrow> string \<Rightarrow> media_device option" where
  "input_for_group audioInputs groupId =
     (let matching = filter (\<lambda>d. dv_group d = groupId) audioInputs in
      coalesce (find (\<lambda>d. \<not> isVirtualDefaultAudioDevice d) matching) (case matching of [] \<Rightarrow> None | d # _ \<Rightarrow> Some d))"

definition audio_inputs :: "media_device list \<Rightarrow> media_device list" where
  "audio_inputs devices = filter (\<lambda>d. dv_kind d = AudioInput) devices"

definition default_input :: "media_device list \<Rightarrow> media_device option" where
  "default_input devices = find (\<lambda>d. dv_id d = ''default'') (audio_inputs devices)"

definition default_output :: "media_device list \<Rightarrow> media_device option" where
  "default_output devices = find (\<lambda>d. dv_kind d = AudioOutput \<and> dv_id d = ''default'') devices"

text \<open>The group of the default output, if it has one.\<close>

definition output_group :: "media_device list \<Rightarrow> string option" where
  "output_group devices = (case default_output devices of Some d \<Rightarrow> if dv_group d = [] then None else Some (dv_group d) | None \<Rightarrow> None)"

definition selectPreferredAudioInput :: "media_device list option \<Rightarrow> current_audio option \<Rightarrow> audio_choice" where
  "selectPreferredAudioInput devices current =
     (case devices of
        None \<Rightarrow> \<lparr> ac_device = None, ac_matches = False, ac_basis = NoDevices \<rparr>
      | Some ds \<Rightarrow>
          (let hasCurrent = (case current of Some t \<Rightarrow> ca_live t | None \<Rightarrow> False);
               currentGroup = (if hasCurrent then getTrackGroupId current else None);
               defaultIn = default_input ds;
               outGroup = output_group ds;
               inputFor = input_for_group (audio_inputs ds);
               otherwise =
                 (case outGroup of
                    Some g \<Rightarrow>
                      if currentGroup \<noteq> Some g
                      then (case inputFor g of
                              None \<Rightarrow> \<lparr> ac_device = None, ac_matches = False, ac_basis = NoBasis \<rparr>
                            | Some d \<Rightarrow> \<lparr> ac_device = Some d, ac_matches = False, ac_basis = DefaultOutput \<rparr>)
                      else \<lparr> ac_device = None, ac_matches = True, ac_basis = AlreadyMatched \<rparr>
                  | None \<Rightarrow>
                      if currentGroup \<noteq> None \<and> (currentGroup = map_option dv_group defaultIn \<or>
                           currentGroup = map_option dv_group (default_output ds))
                      then \<lparr> ac_device = None, ac_matches = True, ac_basis = AlreadyMatched \<rparr>
                      else \<lparr> ac_device = None, ac_matches = False, ac_basis = NoBasis \<rparr>)
           in case defaultIn of
                None \<Rightarrow> otherwise
              | Some d \<Rightarrow>
                  if dv_group d = []
                  then (if hasCurrent \<and> currentGroup = None
                        then \<lparr> ac_device = None, ac_matches = True, ac_basis = AlreadyMatched \<rparr>
                        else \<lparr> ac_device = Some d, ac_matches = False, ac_basis = DefaultInput \<rparr>)
                  else if currentGroup \<noteq> Some (dv_group d)
                  then \<lparr> ac_device = Some (default d (inputFor (dv_group d))), ac_matches = False, ac_basis = DefaultInput \<rparr>
                  else otherwise))"

section \<open>The choice settles\<close>

lemma find_member: "find P xs = Some x \<Longrightarrow> x \<in> set xs \<and> P x"
  by (induction xs) (auto split: if_splits)

lemma input_for_group_member: "input_for_group ds g = Some d \<Longrightarrow> d \<in> set ds \<and> dv_group d = g"
proof -
  assume a: "input_for_group ds g = Some d"
  have "d \<in> set (filter (\<lambda>d. dv_group d = g) ds)"
  proof (cases "find (\<lambda>d. \<not> isVirtualDefaultAudioDevice d) (filter (\<lambda>d. dv_group d = g) ds)")
    case None
    with a obtain rest where "filter (\<lambda>d. dv_group d = g) ds = d # rest"
      by (auto simp: input_for_group_def Let_def split: list.splits)
    then show ?thesis by (metis list.set_intros(1))
  next
    case (Some e)
    with a find_member [OF Some] show ?thesis by (simp add: input_for_group_def Let_def)
  qed
  then show ?thesis by simp
qed

lemma default_input_member: "default_input ds = Some d \<Longrightarrow> d \<in> set (audio_inputs ds)"
  by (auto simp: default_input_def dest: find_member)

lemma chosen_default: "default_input ds = Some d \<Longrightarrow> dv_group (default d (input_for_group (audio_inputs ds) (dv_group d))) = dv_group d"
  by (cases "input_for_group (audio_inputs ds) (dv_group d)") (auto dest: input_for_group_member)

text \<open>The microphone after switching to a device: a live track of the device's group.\<close>

definition switched :: "media_device \<Rightarrow> current_audio option" where
  "switched d = Some \<lparr> ca_live = True, ca_group = Some (dv_group d) \<rparr>"

definition settled :: "media_device list \<Rightarrow> current_audio option \<Rightarrow> bool" where
  "settled ds current =
     (case ac_device (selectPreferredAudioInput (Some ds) current) of
        None \<Rightarrow> True
      | Some d \<Rightarrow> ac_device (selectPreferredAudioInput (Some ds) (switched d)) = None)"

text \<open>The default input and the default output are in different groups, and both groups have a microphone.\<close>

definition routes_conflict :: "media_device list \<Rightarrow> bool" where
  "routes_conflict ds =
     (case (default_input ds, output_group ds) of
        (Some d, Some g) \<Rightarrow> dv_group d \<noteq> [] \<and> dv_group d \<noteq> g \<and> input_for_group (audio_inputs ds) g \<noteq> None
      | _ \<Rightarrow> False)"

lemma group_switched: "getTrackGroupId (switched d) = (if dv_group d = [] then None else Some (dv_group d))"
  by (simp add: getTrackGroupId_def switched_def)

lemma output_group_nonempty: "output_group ds = Some g \<Longrightarrow> g \<noteq> []"
  by (auto simp: output_group_def split: option.splits if_splits)

lemma settled_without_conflict:
  assumes "\<not> routes_conflict ds"
  shows "settled ds current"
proof (cases "ac_device (selectPreferredAudioInput (Some ds) current)")
  case None
  then show ?thesis by (simp add: settled_def)
next
  case (Some d)
  have "ac_device (selectPreferredAudioInput (Some ds) (switched d)) = None"
  proof (cases "default_input ds")
    case None
    with Some obtain g where g: "output_group ds = Some g" "input_for_group (audio_inputs ds) g = Some d"
      by (auto simp: selectPreferredAudioInput_def Let_def split: option.splits if_splits)
    with None input_for_group_member [OF g(2)] output_group_nonempty [OF g(1)] show ?thesis
      by (simp add: selectPreferredAudioInput_def Let_def group_switched) (simp add: switched_def)
  next
    case (Some e)
    note e = this
    show ?thesis
    proof (cases "dv_group e = []")
      case True
      with e \<open>ac_device _ = Some d\<close> have "d = e"
        by (auto simp: selectPreferredAudioInput_def Let_def split: if_splits)
      with e True show ?thesis by (simp add: selectPreferredAudioInput_def Let_def group_switched) (simp add: switched_def)
    next
      case False
      with assms e have out: "output_group ds = None \<or> output_group ds = Some (dv_group e) \<or>
          (\<exists>g. output_group ds = Some g \<and> input_for_group (audio_inputs ds) g = None)"
        by (auto simp: routes_conflict_def split: option.splits)
      have "dv_group d = dv_group e"
        using \<open>ac_device _ = Some d\<close> e False out chosen_default [OF e]
        by (auto simp: selectPreferredAudioInput_def Let_def split: if_splits)
      with e False out show ?thesis
        by (auto simp: selectPreferredAudioInput_def Let_def group_switched) (simp_all add: switched_def)
    qed
  qed
  with Some show ?thesis by (simp add: settled_def)
qed

lemma conflict_oscillates:
  assumes "routes_conflict ds"
  shows "\<not> settled ds None"
proof -
  obtain d g where d: "default_input ds = Some d" "output_group ds = Some g" "dv_group d \<noteq> []" "dv_group d \<noteq> g"
      "input_for_group (audio_inputs ds) g \<noteq> None"
    using assms by (auto simp: routes_conflict_def split: option.splits)
  let ?d = "default d (input_for_group (audio_inputs ds) (dv_group d))"
  have "ac_device (selectPreferredAudioInput (Some ds) None) = Some ?d"
    using d by (simp add: selectPreferredAudioInput_def Let_def)
  moreover have "ac_device (selectPreferredAudioInput (Some ds) (switched ?d)) \<noteq> None"
    using d chosen_default [OF d(1)]
    by (auto simp: selectPreferredAudioInput_def Let_def group_switched split: option.split)
  ultimately show ?thesis by (auto simp: settled_def)
qed

text \<open>The choice of the microphone settles exactly when the routes agree: after switching to the chosen device the
  engine chooses no other one, for every microphone in use, unless the default input and the default output
  are in different groups that both have a microphone; then the first choice is followed by a second switch.\<close>

theorem microphone_choice_settles:
  "(\<forall>current. settled ds current) \<longleftrightarrow> \<not> routes_conflict ds"
  using settled_without_conflict conflict_oscillates by blast

text \<open>With conflicting routes the two groups alternate: each choice leads away from the other.\<close>

theorem conflicting_routes_alternate:
  assumes "default_input ds = Some d" "dv_group d \<noteq> []" "output_group ds = Some g" "dv_group d \<noteq> g"
    and "input_for_group (audio_inputs ds) g = Some e"
  shows "map_option dv_group (ac_device (selectPreferredAudioInput (Some ds) (switched d))) = Some g \<and>
    map_option dv_group (ac_device (selectPreferredAudioInput (Some ds) (switched e))) = Some (dv_group d)"
  using assms input_for_group_member [OF assms(5)] chosen_default [OF assms(1)] output_group_nonempty [OF assms(3)]
  by (auto simp: selectPreferredAudioInput_def Let_def group_switched) (simp_all add: switched_def)

end
