(* ===== verification/Local_Media.thy ===== *)
theory Local_Media
  imports Media_Devices
begin

text \<open>
  The local media of the engine, \<^verbatim>\<open>client/packages/core/src/media/MediaEngine.ts\<close>: acquiring and stopping the
  microphone and the camera, releasing, reacquiring, flipping and recovering the camera, screen sharing with a
  swapped camera track and with a track of its own, and following the audio devices.

  A track is an object of the browser: it has an address in the store \<open>lm_tracks\<close>, and it is live until it is
  stopped or ends by itself. The calls of the browser are effects, their answers events: a granted request
  creates the tracks it names, at most one of each kind that was requested. An awaiting method leaves a
  continuation in \<open>lm_pending\<close> that holds its local variables. Putting tracks on the peer connections is an
  effect whose end is an event.
\<close>

section \<open>State\<close>

record local_track =
  tr_kind :: track_kind
  tr_live :: bool
  tr_enabled :: bool
  tr_muted :: bool
  tr_group :: "string option"

record media_setup =
  mu_captureSupported :: bool
  mu_initialVideoEnabled :: bool
  mu_videoMediaEnabled :: bool
  mu_independentContent :: bool
  mu_userMedia :: bool
  mu_displayMedia :: bool

datatype facing_mode = UserFacing | EnvironmentFacing
datatype video_request = NoVideo | FacingVideo facing_mode | AnyVideo

text \<open>What waits for a camera, and what waits for the swap of the video track.\<close>

datatype camera_use = CamReacquire | CamFlip "nat option" | CamRefresh "nat option" | CamRestore "nat option"
datatype swap_use = SwapRelease | SwapReacquire | SwapFlip | SwapRefresh | SwapShareStart | SwapShareStop

datatype local_continuation =
    KStartDevices nat
  | KInitial nat video_request "string option" "string option"
  | KPostDevices nat
  | KMicrophone nat "nat option" bool "string option" "nat option"
  | KMicrophoneReplaced "nat option" nat "nat option"
  | KCamera camera_use bool bool
  | KSwap "nat option" "nat option" swap_use
  | KDisplayLegacy
  | KDisplayContent
  | KContentAttached
  | KContentDetached
  | KDevices
  | KDetect

record local_media =
  lm_setup :: media_setup
  lm_tracks :: "nat \<Rightarrow> local_track"
  lm_next :: nat
  lm_stream :: "nat list option"
  lm_requestId :: nat
  lm_requesting :: bool
  lm_starting :: "nat option"
  lm_error :: "(string \<times> string) option"
  lm_destroyed :: bool
  lm_cameraRecovery :: bool
  lm_audioRecovery :: bool
  lm_screenTrack :: "nat option"
  lm_restoreVideo :: "bool option"
  lm_contentTrack :: "nat option"
  lm_onended :: "nat list"
  lm_stopInFlight :: bool
  lm_sharing :: bool
  lm_facing :: facing_mode
  lm_multipleCameras :: bool
  lm_settleTimer :: bool
  lm_heartbeatAt :: int
  lm_hiddenAt :: "int option"
  lm_pending :: "local_continuation list"

datatype local_effect =
    EnumerateDevices
  | GetUserMedia video_request bool "string option"
  | GetDisplayMedia
  | StopTrack nat
  | AttachLocalTracks "nat list"
  | ReplaceVideo "nat option"
  | ReplaceAudio nat
  | AttachContent nat
  | DetachContent
  | ShareState bool
  | StartResult nat bool
  | LocalChange

type_synonym local_act = "(local_media, local_effect) act"

abbreviation local_tell :: "local_effect \<Rightarrow> local_act" where
  "local_tell e \<equiv> out (\<lambda>_. e)"

abbreviation local_notify :: local_act where
  "local_notify \<equiv> local_tell LocalChange"

definition local_await :: "local_continuation \<Rightarrow> local_act" where
  "local_await k = upd (\<lambda>s. s\<lparr> lm_pending := lm_pending s @ [k] \<rparr>)"

definition local_resume :: "local_continuation \<Rightarrow> local_act \<Rightarrow> local_act" where
  "local_resume k a = whenS (\<lambda>s. k \<in> set (lm_pending s))
     (seqS [upd (\<lambda>s. s\<lparr> lm_pending := remove1 k (lm_pending s) \<rparr>), a])"

section \<open>Tracks\<close>

definition upd_track :: "nat \<Rightarrow> (local_track \<Rightarrow> local_track) \<Rightarrow> local_act" where
  "upd_track i f = upd (\<lambda>s. s\<lparr> lm_tracks := (lm_tracks s)(i := f (lm_tracks s i)) \<rparr>)"

definition stop_track :: "nat \<Rightarrow> local_act" where
  "stop_track i = seqS [upd_track i (\<lambda>t. t\<lparr> tr_live := False \<rparr>), local_tell (StopTrack i)]"

text \<open>A granted request: new live tracks, given to the continuation.\<close>

definition granted :: "(track_kind \<times> string option) list \<Rightarrow> (nat list \<Rightarrow> local_act) \<Rightarrow> local_act" where
  "granted kinds k =
     letS lm_next (\<lambda>n.
       seqS
         [upd (\<lambda>s. s\<lparr> lm_next := n + length kinds,
            lm_tracks := (\<lambda>i. if n \<le> i \<and> i < n + length kinds
              then \<lparr> tr_kind = fst (kinds ! (i - n)), tr_live = True, tr_enabled = True, tr_muted = False,
                     tr_group = snd (kinds ! (i - n)) \<rparr>
              else lm_tracks s i) \<rparr>),
          k [n..<n + length kinds]])"

definition is_kind :: "local_media \<Rightarrow> track_kind \<Rightarrow> nat \<Rightarrow> bool" where
  "is_kind s kind i = (tr_kind (lm_tracks s i) = kind)"

text \<open>\<open>getAudioTracks()[0]\<close> and \<open>getVideoTracks()[0]\<close> of the local stream.\<close>

definition first_track :: "local_media \<Rightarrow> track_kind \<Rightarrow> nat option" where
  "first_track s kind = find (is_kind s kind) (default [] (lm_stream s))"

text \<open>The tracks of the next stream: the first track of the kind is replaced, the others of the kind are dropped.\<close>

fun put_first :: "(nat \<Rightarrow> bool) \<Rightarrow> nat \<Rightarrow> nat list \<Rightarrow> nat list" where
  "put_first k t [] = [t]"
| "put_first k t (i # is) = (if k i then t # filter (\<lambda>j. \<not> k j) is else i # put_first k t is)"

definition next_stream :: "(nat \<Rightarrow> bool) \<Rightarrow> nat option \<Rightarrow> nat list \<Rightarrow> nat list" where
  "next_stream k nx ids = (case nx of None \<Rightarrow> filter (\<lambda>j. \<not> k j) ids | Some t \<Rightarrow> put_first k t ids)"

definition set_stream :: "track_kind \<Rightarrow> nat option \<Rightarrow> local_act" where
  "set_stream kind nx = upd (\<lambda>s. s\<lparr> lm_stream := map_option (next_stream (is_kind s kind) nx) (lm_stream s) \<rparr>)"

text \<open>\<open>if (previousTrack && previousTrack !== nextTrack) previousTrack.stop()\<close>.\<close>

definition stop_previous :: "nat option \<Rightarrow> nat option \<Rightarrow> local_act" where
  "stop_previous prev nx = (case prev of None \<Rightarrow> skipS | Some p \<Rightarrow> if nx = Some p then skipS else stop_track p)"

definition isLegacyScreenSharing :: "local_media \<Rightarrow> bool" where
  "isLegacyScreenSharing s = (lm_sharing s \<and> \<not> mu_independentContent (lm_setup s))"

section \<open>Devices\<close>

definition detectCameras :: "media_device list option \<Rightarrow> local_act" where
  "detectCameras devices =
     (case devices of
        None \<Rightarrow> skipS
      | Some ds \<Rightarrow> upd (\<lambda>s. s\<lparr> lm_multipleCameras := 1 < length (filter (\<lambda>d. dv_kind d = VideoInput) ds) \<rparr>))"

definition current_microphone :: "local_media \<Rightarrow> nat option \<Rightarrow> current_audio option" where
  "current_microphone s current =
     map_option (\<lambda>i. \<lparr> ca_live = tr_live (lm_tracks s i), ca_group = tr_group (lm_tracks s i) \<rparr>) current"

text \<open>A device id as a constraint: the empty one is not used.\<close>

definition device_constraint :: "media_device option \<Rightarrow> string option" where
  "device_constraint d = (case d of None \<Rightarrow> None | Some dev \<Rightarrow> if dv_id dev = [] then None else Some (dv_id dev))"

section \<open>Starting local media\<close>

definition finish_start :: "nat \<Rightarrow> bool \<Rightarrow> local_act" where
  "finish_start r ok =
     seqS
       [whenS (\<lambda>s. lm_starting s = Some r) (upd (\<lambda>s. s\<lparr> lm_starting := None \<rparr>)),
        local_tell (StartResult r ok)]"

definition startLocalMediaInternal :: local_act where
  "startLocalMediaInternal =
     ifS (\<lambda>s. lm_stream s \<noteq> None \<or> lm_starting s \<noteq> None) skipS
       (letS (\<lambda>s. lm_requestId s + 1) (\<lambda>r.
        seqS
          [upd (\<lambda>s. s\<lparr> lm_requestId := r, lm_starting := Some r, lm_requesting := True, lm_error := None \<rparr>),
           ifS (\<lambda>s. \<not> mu_userMedia (lm_setup s))
             (seqS
               [upd (\<lambda>s. s\<lparr> lm_requesting := False,
                           lm_error := Some (''NotSupportedError'', ''getUserMedia is not supported'') \<rparr>),
                finish_start r False])
             (seqS [local_tell EnumerateDevices, local_await (KStartDevices r)])]))"

definition acquireInitialMedia :: "nat \<Rightarrow> video_request \<Rightarrow> string option \<Rightarrow> string option \<Rightarrow> local_act" where
  "acquireInitialMedia r spec preferred device =
     seqS [local_tell (GetUserMedia spec True device), local_await (KInitial r spec preferred device)]"

definition start_devices :: "nat \<Rightarrow> media_device list option \<Rightarrow> local_act" where
  "start_devices r devices =
     local_resume (KStartDevices r)
       (let preferred = device_constraint (ac_device (selectPreferredAudioInput devices None)) in
        letS (\<lambda>s. if \<not> mu_captureSupported (lm_setup s) \<or> \<not> mu_initialVideoEnabled (lm_setup s) then NoVideo
                  else FacingVideo (lm_facing s)) (\<lambda>spec. acquireInitialMedia r spec preferred preferred))"

definition start_tail :: "nat \<Rightarrow> local_act" where
  "start_tail r =
     letS lm_stream (\<lambda>stream. case stream of
       None \<Rightarrow> finish_start r False
     | Some ids \<Rightarrow> seqS [local_tell (AttachLocalTracks ids), local_notify, finish_start r True])"

text \<open>What an acquired stream holds: the microphone with its group, and a camera.\<close>

definition stream_tracks :: "string option option \<Rightarrow> bool \<Rightarrow> (track_kind \<times> string option) list" where
  "stream_tracks microphone camera =
     (case microphone of None \<Rightarrow> [] | Some g \<Rightarrow> [(AudioTrack, g)]) @ (if camera then [(VideoTrack, None)] else [])"

definition initial_answered ::
  "nat \<Rightarrow> video_request \<Rightarrow> string option \<Rightarrow> string option \<Rightarrow> (string \<times> string) + (string option option \<times> bool) \<Rightarrow> local_act" where
  "initial_answered r spec preferred device answer =
     local_resume (KInitial r spec preferred device)
       (case answer of
          Inl err \<Rightarrow>
            if device \<noteq> None then acquireInitialMedia r spec preferred None
            else (case spec of
                FacingVideo _ \<Rightarrow> acquireInitialMedia r AnyVideo preferred preferred
              | _ \<Rightarrow> seqS [upd (\<lambda>s. s\<lparr> lm_error := Some err, lm_requesting := False \<rparr>), finish_start r False])
        | Inr (microphone, camera) \<Rightarrow>
            granted (stream_tracks microphone camera) (\<lambda>ids.
              ifS (\<lambda>s. lm_destroyed s \<or> lm_requestId s \<noteq> r)
                (seqS [forS ids stop_track, finish_start r False])
                (seqS [upd (\<lambda>s. s\<lparr> lm_stream := Some ids \<rparr>), local_tell EnumerateDevices, local_await (KPostDevices r)])))"

section \<open>The microphone\<close>

text \<open>What follows \<open>refreshLocalAudioTrack\<close>: the rest of the start that awaits it, if any.\<close>

definition after_microphone :: "nat option \<Rightarrow> local_act" where
  "after_microphone after = (case after of None \<Rightarrow> skipS | Some r \<Rightarrow> start_tail r)"

definition acquireAudioTrack :: "nat \<Rightarrow> nat option \<Rightarrow> bool \<Rightarrow> string option \<Rightarrow> nat option \<Rightarrow> local_act" where
  "acquireAudioTrack r current enabled device after =
     seqS [local_tell (GetUserMedia NoVideo True device), local_await (KMicrophone r current enabled device after)]"

definition refreshLocalAudioTrack :: "media_device list option \<Rightarrow> nat option \<Rightarrow> local_act" where
  "refreshLocalAudioTrack devices after =
     letS (\<lambda>s. first_track s AudioTrack) (\<lambda>current.
     ifS (\<lambda>s. lm_stream s = None \<or> lm_requesting s \<or> lm_audioRecovery s) (after_microphone after)
       (letS (\<lambda>s. selectPreferredAudioInput devices (current_microphone s current)) (\<lambda>choice.
        if ac_basis choice = NoDevices \<or> ac_basis choice = NoBasis \<or> ac_matches choice then after_microphone after
        else (case ac_device choice of
            None \<Rightarrow> after_microphone after
          | Some d \<Rightarrow>
              letS (\<lambda>s. (lm_requestId s, case current of None \<Rightarrow> True | Some i \<Rightarrow> tr_enabled (lm_tracks s i)))
                (\<lambda>(r, enabled). seqS
                   [upd (\<lambda>s. s\<lparr> lm_audioRecovery := True \<rparr>),
                    acquireAudioTrack r current enabled (device_constraint (Some d)) after])))))"

definition microphone_done :: "nat option \<Rightarrow> local_act" where
  "microphone_done after = seqS [upd (\<lambda>s. s\<lparr> lm_audioRecovery := False \<rparr>), after_microphone after]"

definition microphone_answered ::
  "nat \<Rightarrow> nat option \<Rightarrow> bool \<Rightarrow> string option \<Rightarrow> nat option \<Rightarrow> string option option option \<Rightarrow> local_act" where
  "microphone_answered r current enabled device after answer =
     local_resume (KMicrophone r current enabled device after)
       (case answer of
          None \<Rightarrow>
            if device \<noteq> None then acquireAudioTrack r current enabled None after else microphone_done after
        | Some None \<Rightarrow> microphone_done after
        | Some (Some g) \<Rightarrow>
            granted [(AudioTrack, g)] (\<lambda>ids. let t = hd ids in
              seqS
                [upd_track t (\<lambda>tr. tr\<lparr> tr_enabled := enabled \<rparr>),
                 ifS (\<lambda>s. lm_destroyed s \<or> lm_stream s = None \<or> lm_requestId s \<noteq> r)
                   (seqS [stop_track t, microphone_done after])
                   (seqS [set_stream AudioTrack (Some t), local_tell (ReplaceAudio t),
                          local_await (KMicrophoneReplaced current t after)])]))"

definition microphone_replaced :: "nat option \<Rightarrow> nat \<Rightarrow> nat option \<Rightarrow> local_act" where
  "microphone_replaced current t after =
     local_resume (KMicrophoneReplaced current t after)
       (seqS [stop_previous current (Some t), local_notify, microphone_done after])"

definition post_devices :: "nat \<Rightarrow> media_device list option \<Rightarrow> bool \<Rightarrow> local_act" where
  "post_devices r devices joined =
     local_resume (KPostDevices r)
       (seqS
         [detectCameras devices, upd (\<lambda>s. s\<lparr> lm_requesting := False \<rparr>),
          (if joined then refreshLocalAudioTrack devices (Some r) else start_tail r)])"

section \<open>The camera\<close>

definition share_stopped :: local_act where
  "share_stopped =
     seqS
       [upd (\<lambda>s. s\<lparr> lm_sharing := False, lm_restoreVideo := None \<rparr>), local_tell (ShareState False), local_notify]"

definition after_swap :: "swap_use \<Rightarrow> local_act" where
  "after_swap use =
     (case use of
        SwapRelease \<Rightarrow> skipS
      | SwapReacquire \<Rightarrow> upd (\<lambda>s. s\<lparr> lm_cameraRecovery := False \<rparr>)
      | SwapFlip \<Rightarrow> local_notify
      | SwapRefresh \<Rightarrow> upd (\<lambda>s. s\<lparr> lm_cameraRecovery := False \<rparr>)
      | SwapShareStart \<Rightarrow>
          seqS [upd (\<lambda>s. s\<lparr> lm_sharing := True \<rparr>), local_tell (ShareState True), local_notify]
      | SwapShareStop \<Rightarrow> share_stopped)"

definition swapLocalVideoTrack :: "nat option \<Rightarrow> nat option \<Rightarrow> swap_use \<Rightarrow> local_act" where
  "swapLocalVideoTrack nx prev use =
     ifS (\<lambda>s. lm_stream s = None) (seqS [stop_previous prev nx, after_swap use])
       (seqS [set_stream VideoTrack nx, local_tell (ReplaceVideo nx), local_await (KSwap nx prev use)])"

definition local_video_swapped :: "nat option \<Rightarrow> nat option \<Rightarrow> swap_use \<Rightarrow> local_act" where
  "local_video_swapped nx prev use =
     local_resume (KSwap nx prev use) (seqS [stop_previous prev nx, local_notify, after_swap use])"

definition acquireCameraTrack :: "camera_use \<Rightarrow> bool \<Rightarrow> local_act" where
  "acquireCameraTrack use enabled =
     seqS [out (\<lambda>s. GetUserMedia (FacingVideo (lm_facing s)) False None), local_await (KCamera use True enabled)]"

definition camera_previous :: "camera_use \<Rightarrow> nat option" where
  "camera_previous use =
     (case use of CamReacquire \<Rightarrow> None | CamFlip p \<Rightarrow> p | CamRefresh p \<Rightarrow> p | CamRestore p \<Rightarrow> p)"

definition camera_swap :: "camera_use \<Rightarrow> swap_use" where
  "camera_swap use =
     (case use of CamReacquire \<Rightarrow> SwapReacquire | CamFlip _ \<Rightarrow> SwapFlip | CamRefresh _ \<Rightarrow> SwapRefresh
        | CamRestore _ \<Rightarrow> SwapShareStop)"

definition camera_failed :: "camera_use \<Rightarrow> local_act" where
  "camera_failed use =
     (case use of
        CamReacquire \<Rightarrow> upd (\<lambda>s. s\<lparr> lm_cameraRecovery := False \<rparr>)
      | CamFlip _ \<Rightarrow> skipS
      | CamRefresh _ \<Rightarrow> upd (\<lambda>s. s\<lparr> lm_cameraRecovery := False \<rparr>)
      | CamRestore prev \<Rightarrow> swapLocalVideoTrack None prev SwapShareStop)"

text \<open>Refused (\<open>None\<close>), or granted with or without a video track.\<close>

definition camera_answered :: "camera_use \<Rightarrow> bool \<Rightarrow> bool \<Rightarrow> bool option \<Rightarrow> local_act" where
  "camera_answered use first_try enabled answer =
     local_resume (KCamera use first_try enabled)
       (case answer of
          None \<Rightarrow>
            if first_try then seqS [local_tell (GetUserMedia AnyVideo False None), local_await (KCamera use False enabled)]
            else camera_failed use
        | Some False \<Rightarrow> camera_failed use
        | Some True \<Rightarrow>
            granted [(VideoTrack, None)] (\<lambda>ids. let t = hd ids in
              seqS [upd_track t (\<lambda>tr. tr\<lparr> tr_enabled := enabled \<rparr>),
                    swapLocalVideoTrack (Some t) (camera_previous use) (camera_swap use)]))"

definition releaseVideoTrack :: local_act where
  "releaseVideoTrack =
     ifS isLegacyScreenSharing skipS
       (letS (\<lambda>s. first_track s VideoTrack) (\<lambda>current. case current of
          None \<Rightarrow> skipS | Some i \<Rightarrow> swapLocalVideoTrack None (Some i) SwapRelease))"

definition reacquireVideoTrack :: local_act where
  "reacquireVideoTrack =
     ifS (\<lambda>s. \<not> mu_captureSupported (lm_setup s) \<or> isLegacyScreenSharing s \<or> first_track s VideoTrack \<noteq> None \<or>
              lm_cameraRecovery s \<or> lm_requesting s) skipS
       (seqS [upd (\<lambda>s. s\<lparr> lm_cameraRecovery := True \<rparr>), acquireCameraTrack CamReacquire True])"

definition track_enabled :: "local_media \<Rightarrow> nat option \<Rightarrow> bool" where
  "track_enabled s i = (case i of None \<Rightarrow> True | Some j \<Rightarrow> tr_enabled (lm_tracks s j))"

definition flipCamera :: local_act where
  "flipCamera =
     ifS (\<lambda>s. isLegacyScreenSharing s \<or> \<not> lm_multipleCameras s) skipS
       (seqS
         [upd (\<lambda>s. s\<lparr> lm_facing := (case lm_facing s of UserFacing \<Rightarrow> EnvironmentFacing | EnvironmentFacing \<Rightarrow> UserFacing) \<rparr>),
          ifS (\<lambda>s. lm_stream s = None) local_notify
            (letS (\<lambda>s. (first_track s VideoTrack, track_enabled s (first_track s VideoTrack))) (\<lambda>(old, enabled).
               acquireCameraTrack (CamFlip old) enabled))])"

definition refreshLocalVideoTrack :: "bool \<Rightarrow> local_act" where
  "refreshLocalVideoTrack forceRefresh =
     letS (\<lambda>s. first_track s VideoTrack) (\<lambda>current.
     ifS (\<lambda>s. \<not> shouldRecoverLocalVideo (current \<noteq> None) (isLegacyScreenSharing s)
                 (map_option (\<lambda>i. if tr_live (lm_tracks s i) then TrackLive else TrackEnded) current)
                 (case current of None \<Rightarrow> False | Some i \<Rightarrow> tr_muted (lm_tracks s i)) forceRefresh \<or>
              lm_cameraRecovery s \<or> lm_requesting s) skipS
       (letS (\<lambda>s. track_enabled s current) (\<lambda>enabled.
        seqS [upd (\<lambda>s. s\<lparr> lm_cameraRecovery := True \<rparr>), acquireCameraTrack (CamRefresh current) enabled])))"

section \<open>Screen sharing\<close>

definition drop_handler :: "nat option \<Rightarrow> local_act" where
  "drop_handler i = (case i of None \<Rightarrow> skipS | Some j \<Rightarrow> upd (\<lambda>s. s\<lparr> lm_onended := removeAll j (lm_onended s) \<rparr>))"

definition startScreenShare :: local_act where
  "startScreenShare =
     ifS (\<lambda>s. lm_sharing s \<or> \<not> mu_displayMedia (lm_setup s) \<or> \<not> mu_videoMediaEnabled (lm_setup s)) skipS
       (ifS (\<lambda>s. mu_independentContent (lm_setup s))
         (seqS [local_tell GetDisplayMedia, local_await KDisplayContent])
         (ifS (\<lambda>s. lm_stream s = None) skipS
           (seqS [local_tell GetDisplayMedia, local_await KDisplayLegacy])))"

text \<open>Without a stream \<open>this.localStream.getVideoTracks()\<close> throws, and the display track is forgotten.\<close>

definition legacy_share_landed :: "nat \<Rightarrow> local_act" where
  "legacy_share_landed t =
     ifS (\<lambda>s. lm_stream s = None) (upd (\<lambda>s. s\<lparr> lm_restoreVideo := None \<rparr>))
       (letS (\<lambda>s. first_track s VideoTrack) (\<lambda>prev.
        seqS
          [upd (\<lambda>s. s\<lparr> lm_restoreVideo := map_option (\<lambda>i. tr_enabled (lm_tracks s i)) prev \<rparr>),
           upd_track t (\<lambda>tr. tr\<lparr> tr_enabled := True \<rparr>),
           letS lm_screenTrack drop_handler,
           upd (\<lambda>s. s\<lparr> lm_screenTrack := Some t, lm_onended := t # lm_onended s \<rparr>),
           swapLocalVideoTrack (Some t) prev SwapShareStart]))"

definition display_legacy :: "bool option \<Rightarrow> local_act" where
  "display_legacy answer =
     local_resume KDisplayLegacy
       (if answer = Some True then granted [(VideoTrack, None)] (\<lambda>ids. legacy_share_landed (hd ids))
        else upd (\<lambda>s. s\<lparr> lm_restoreVideo := None \<rparr>))"

definition stopScreenShareLegacy :: local_act where
  "stopScreenShareLegacy =
     ifS (\<lambda>s. \<not> lm_sharing s) skipS
       (ifS (\<lambda>s. lm_stream s = None) share_stopped
         (seqS
           [letS lm_screenTrack drop_handler, upd (\<lambda>s. s\<lparr> lm_screenTrack := None \<rparr>),
            letS (\<lambda>s. (first_track s VideoTrack, lm_restoreVideo s)) (\<lambda>(prev, restore). case restore of
              None \<Rightarrow> swapLocalVideoTrack None prev SwapShareStop
            | Some enabled \<Rightarrow> acquireCameraTrack (CamRestore prev) enabled)]))"

definition releaseLocalContentTrack :: local_act where
  "releaseLocalContentTrack =
     seqS
       [letS lm_screenTrack drop_handler,
        letS lm_contentTrack (\<lambda>c. case c of None \<Rightarrow> skipS | Some i \<Rightarrow> stop_track i),
        upd (\<lambda>s. s\<lparr> lm_contentTrack := None, lm_screenTrack := None \<rparr>)]"

definition display_content :: "bool option \<Rightarrow> local_act" where
  "display_content answer =
     local_resume KDisplayContent
       (if answer = Some True then
          granted [(VideoTrack, None)] (\<lambda>ids. let t = hd ids in
            seqS
              [upd_track t (\<lambda>tr. tr\<lparr> tr_enabled := True \<rparr>),
               upd (\<lambda>s. s\<lparr> lm_contentTrack := Some t, lm_screenTrack := Some t, lm_stopInFlight := False,
                           lm_onended := t # lm_onended s, lm_sharing := True \<rparr>),
               local_tell (AttachContent t), local_await KContentAttached])
        else skipS)"

text \<open>The attempts on the peers are over: how many carry the track, how many will, and how many peers there are.\<close>

definition content_attached :: "nat \<Rightarrow> nat \<Rightarrow> nat \<Rightarrow> local_act" where
  "content_attached attached pending peers =
     local_resume KContentAttached
       (if attached = 0 \<and> pending = 0 \<and> 0 < peers
        then seqS [releaseLocalContentTrack, upd (\<lambda>s. s\<lparr> lm_sharing := False \<rparr>), local_notify]
        else seqS [local_tell (ShareState True), local_notify])"

definition stopScreenShareIndependent :: local_act where
  "stopScreenShareIndependent =
     ifS (\<lambda>s. \<not> lm_sharing s \<and> lm_contentTrack s = None) skipS
       (ifS lm_stopInFlight skipS
         (seqS
           [upd (\<lambda>s. s\<lparr> lm_stopInFlight := True \<rparr>), local_tell DetachContent, local_await KContentDetached]))"

definition content_detached :: local_act where
  "content_detached =
     local_resume KContentDetached
       (seqS
         [upd (\<lambda>s. s\<lparr> lm_sharing := False \<rparr>), local_tell (ShareState False), releaseLocalContentTrack, local_notify,
          upd (\<lambda>s. s\<lparr> lm_stopInFlight := False \<rparr>)])"

definition stopScreenShare :: local_act where
  "stopScreenShare = ifS (\<lambda>s. mu_independentContent (lm_setup s)) stopScreenShareIndependent stopScreenShareLegacy"

section \<open>Stopping\<close>

definition stopLocalMedia :: local_act where
  "stopLocalMedia =
     seqS
       [upd (\<lambda>s. s\<lparr> lm_requestId := lm_requestId s + 1, lm_starting := None \<rparr>),
        letS lm_screenTrack drop_handler, upd (\<lambda>s. s\<lparr> lm_screenTrack := None \<rparr>),
        letS lm_contentTrack (\<lambda>c. case c of None \<Rightarrow> skipS | Some i \<Rightarrow> stop_track i),
        upd (\<lambda>s. s\<lparr> lm_contentTrack := None, lm_stopInFlight := False, lm_restoreVideo := None \<rparr>),
        letS lm_stream (\<lambda>stream. case stream of
          None \<Rightarrow> skipS
        | Some ids \<Rightarrow> seqS [forS ids stop_track, upd (\<lambda>s. s\<lparr> lm_stream := None \<rparr>)]),
        upd (\<lambda>s. s\<lparr> lm_sharing := False, lm_requesting := False \<rparr>), local_notify]"

text \<open>\<open>destroy\<close>, as far as local media are concerned: the listeners are removed with it.\<close>

definition destroy_local :: local_act where
  "destroy_local =
     seqS [upd (\<lambda>s. s\<lparr> lm_destroyed := True \<rparr>), stopLocalMedia, upd (\<lambda>s. s\<lparr> lm_settleTimer := False \<rparr>)]"

section \<open>Listeners\<close>

definition refreshDevicesAfterChange :: local_act where
  "refreshDevicesAfterChange = seqS [local_tell EnumerateDevices, local_await KDevices]"

definition handleDeviceChange :: local_act where
  "handleDeviceChange = seqS [refreshDevicesAfterChange, upd (\<lambda>s. s\<lparr> lm_settleTimer := True \<rparr>)]"

definition settle_fired :: local_act where
  "settle_fired = whenS lm_settleTimer (seqS [upd (\<lambda>s. s\<lparr> lm_settleTimer := False \<rparr>), refreshDevicesAfterChange])"

definition devices_answered :: "media_device list option \<Rightarrow> local_act" where
  "devices_answered devices = local_resume KDevices (seqS [detectCameras devices, refreshLocalAudioTrack devices None])"

definition cameras_detected :: "media_device list option \<Rightarrow> local_act" where
  "cameras_detected devices = local_resume KDetect (detectCameras devices)"

definition consumeHiddenDuration :: "int \<Rightarrow> (int option \<Rightarrow> local_act) \<Rightarrow> local_act" where
  "consumeHiddenDuration now k =
     letS (\<lambda>s. map_option (\<lambda>since. now - since) (lm_hiddenAt s)) (\<lambda>hidden.
       seqS [upd (\<lambda>s. s\<lparr> lm_hiddenAt := None, lm_heartbeatAt := now \<rparr>), k hidden])"

definition visibility_changed :: "bool \<Rightarrow> int \<Rightarrow> local_act" where
  "visibility_changed hidden now =
     (if hidden then upd (\<lambda>s. s\<lparr> lm_hiddenAt := Some now, lm_heartbeatAt := now \<rparr>)
      else consumeHiddenDuration now (\<lambda>hiddenDurationMs.
        refreshLocalVideoTrack (shouldForceLocalVideoRefresh hiddenDurationMs None LOCAL_VIDEO_RESUME_GAP_MS)))"

definition page_shown :: "bool \<Rightarrow> int \<Rightarrow> local_act" where
  "page_shown persisted now =
     consumeHiddenDuration now (\<lambda>hiddenDurationMs.
       refreshLocalVideoTrack
         (persisted \<or> shouldForceLocalVideoRefresh hiddenDurationMs None LOCAL_VIDEO_RESUME_GAP_MS))"

definition heartbeat :: "bool \<Rightarrow> int \<Rightarrow> local_act" where
  "heartbeat hidden now =
     letS (\<lambda>s. now - lm_heartbeatAt s) (\<lambda>sleepGapMs.
       seqS
         [upd (\<lambda>s. s\<lparr> lm_heartbeatAt := now \<rparr>),
          (if hidden \<or> \<not> shouldForceLocalVideoRefresh None (Some sleepGapMs) LOCAL_VIDEO_RESUME_GAP_MS then skipS
           else refreshLocalVideoTrack True)])"

text \<open>A track ends by itself: the \<open>ended\<close> event of a display track stops the share.\<close>

definition track_ended :: "nat \<Rightarrow> local_act" where
  "track_ended i =
     seqS [upd_track i (\<lambda>t. t\<lparr> tr_live := False \<rparr>), whenS (\<lambda>s. i \<in> set (lm_onended s)) stopScreenShare]"

section \<open>Local media as a state machine\<close>

datatype local_event =
    LStart | LStop | LDestroy | LRelease | LReacquire | LFlip | LStartShare | LStopShare
  | LDeviceChange | LSettled | LVisibility bool int | LPageShow bool int | LHeartbeat bool int
  | LTrackEnded nat | LTrackMuted nat bool | LTrackEnabled nat bool
  | LStartDevices nat "media_device list option"
  | LInitial nat video_request "string option" "string option" "(string \<times> string) + (string option option \<times> bool)"
  | LPostDevices nat "media_device list option" bool
  | LMicrophone nat "nat option" bool "string option" "nat option" "string option option option"
  | LMicrophoneReplaced "nat option" nat "nat option"
  | LCamera camera_use bool bool "bool option"
  | LSwapped "nat option" "nat option" swap_use
  | LDisplayLegacy "bool option" | LDisplayContent "bool option"
  | LContentAttached nat nat nat | LContentDetached
  | LDevices "media_device list option" | LDetected "media_device list option"

fun local_step :: "local_event \<Rightarrow> local_act" where
  "local_step LStart = startLocalMediaInternal"
| "local_step LStop = stopLocalMedia"
| "local_step LDestroy = destroy_local"
| "local_step LRelease = releaseVideoTrack"
| "local_step LReacquire = reacquireVideoTrack"
| "local_step LFlip = flipCamera"
| "local_step LStartShare = startScreenShare"
| "local_step LStopShare = stopScreenShare"
| "local_step LDeviceChange = ifS lm_destroyed skipS handleDeviceChange"
| "local_step LSettled = settle_fired"
| "local_step (LVisibility hidden now) = ifS lm_destroyed skipS (visibility_changed hidden now)"
| "local_step (LPageShow persisted now) = ifS lm_destroyed skipS (page_shown persisted now)"
| "local_step (LHeartbeat hidden now) = ifS lm_destroyed skipS (heartbeat hidden now)"
| "local_step (LTrackEnded i) = track_ended i"
| "local_step (LTrackMuted i b) = upd_track i (\<lambda>t. t\<lparr> tr_muted := b \<rparr>)"
| "local_step (LTrackEnabled i b) = upd_track i (\<lambda>t. t\<lparr> tr_enabled := b \<rparr>)"
| "local_step (LStartDevices r devices) = start_devices r devices"
| "local_step (LInitial r spec preferred device answer) = initial_answered r spec preferred device answer"
| "local_step (LPostDevices r devices joined) = post_devices r devices joined"
| "local_step (LMicrophone r current enabled device after answer) = microphone_answered r current enabled device after answer"
| "local_step (LMicrophoneReplaced current t after) = microphone_replaced current t after"
| "local_step (LCamera use first_try enabled answer) = camera_answered use first_try enabled answer"
| "local_step (LSwapped nx prev use) = local_video_swapped nx prev use"
| "local_step (LDisplayLegacy answer) = display_legacy answer"
| "local_step (LDisplayContent answer) = display_content answer"
| "local_step (LContentAttached attached pending peers) = content_attached attached pending peers"
| "local_step LContentDetached = content_detached"
| "local_step (LDevices devices) = devices_answered devices"
| "local_step (LDetected devices) = cameras_detected devices"

definition local_event_step :: "local_media \<Rightarrow> local_event \<Rightarrow> local_media \<times> local_effect list" where
  "local_event_step s e = local_step e s"

text \<open>The constructor: the cameras are being detected.\<close>

definition new_local_media :: "media_setup \<Rightarrow> facing_mode \<Rightarrow> int \<Rightarrow> int option \<Rightarrow> local_media" where
  "new_local_media setup facing now hiddenAt =
     \<lparr> lm_setup = setup,
       lm_tracks = (\<lambda>_. \<lparr> tr_kind = VideoTrack, tr_live = False, tr_enabled = False, tr_muted = False, tr_group = None \<rparr>),
       lm_next = 0, lm_stream = None, lm_requestId = 0, lm_requesting = False, lm_starting = None, lm_error = None,
       lm_destroyed = False, lm_cameraRecovery = False, lm_audioRecovery = False, lm_screenTrack = None,
       lm_restoreVideo = None, lm_contentTrack = None, lm_onended = [], lm_stopInFlight = False, lm_sharing = False,
       lm_facing = facing, lm_multipleCameras = False, lm_settleTimer = False, lm_heartbeatAt = now,
       lm_hiddenAt = hiddenAt, lm_pending = [KDetect] \<rparr>"

end
