(* ===== verification/Local_Media_Proofs.thy ===== *)
theory Local_Media_Proofs
  imports Local_Media
begin

text \<open>
  Who holds the microphone: every open microphone of the engine is in its stream, or is the one that a running
  replacement is about to stop. What the engine does with cameras that are granted late.
\<close>

section \<open>The invariant of the microphone\<close>

abbreviation held_ids :: "local_media \<Rightarrow> nat list" where
  "held_ids s \<equiv> default [] (lm_stream s)"

fun audio_cont :: "local_continuation \<Rightarrow> bool" where
  "audio_cont (KMicrophone _ _ _ _ _) = True"
| "audio_cont (KMicrophoneReplaced _ _ _) = True"
| "audio_cont _ = False"

fun start_cont :: "local_continuation \<Rightarrow> nat option" where
  "start_cont (KStartDevices r) = Some r"
| "start_cont (KInitial r _ _ _) = Some r"
| "start_cont _ = None"

definition mic_relevant :: "local_continuation \<Rightarrow> bool" where
  "mic_relevant k = (audio_cont k \<or> start_cont k \<noteq> None)"

definition audio_conts :: "local_media \<Rightarrow> local_continuation list" where
  "audio_conts s = filter audio_cont (lm_pending s)"

definition start_conts :: "local_media \<Rightarrow> local_continuation list" where
  "start_conts s = filter (\<lambda>k. start_cont k = Some (lm_requestId s)) (lm_pending s)"

text \<open>The live microphones, and those that a running replacement will stop.\<close>

definition open_microphones :: "local_media \<Rightarrow> nat set" where
  "open_microphones s = {i. tr_live (lm_tracks s i) \<and> is_kind s AudioTrack i}"

definition being_replaced :: "local_media \<Rightarrow> nat set" where
  "being_replaced s = {i. \<exists>t after. KMicrophoneReplaced (Some i) t after \<in> set (lm_pending s)}"

text \<open>What the microphone operation that may land relies on: \<open>r\<close> is its request, \<open>cur\<close> the track it replaces.\<close>

definition mic_current :: "nat \<Rightarrow> nat option \<Rightarrow> local_media \<Rightarrow> bool" where
  "mic_current r cur s =
     (r \<le> lm_requestId s \<and>
      (r = lm_requestId s \<longrightarrow> lm_stream s \<noteq> None \<and> first_track s AudioTrack = cur))"

text \<open>The invariant; the microphones \<open>X\<close> are in the hands of the running statement.\<close>

definition mic_inv :: "nat set \<Rightarrow> local_media \<Rightarrow> bool" where
  "mic_inv X s =
     ((\<forall>i \<in> set (held_ids s). i < lm_next s) \<and>
      length (filter (is_kind s AudioTrack) (held_ids s)) \<le> 1 \<and>
      open_microphones s \<subseteq> X \<union> set (held_ids s) \<union> being_replaced s \<and>
      length (audio_conts s) \<le> 1 \<and> (audio_conts s \<noteq> [] \<longrightarrow> lm_audioRecovery s) \<and>
      (\<forall>k \<in> set (lm_pending s). \<forall>r. start_cont k = Some r \<longrightarrow> r \<le> lm_requestId s) \<and>
      (\<forall>r cur e d after. KMicrophone r cur e d after \<in> set (lm_pending s) \<longrightarrow> mic_current r cur s) \<and>
      (\<forall>t after. KMicrophoneReplaced (Some t) t after \<notin> set (lm_pending s)) \<and>
      length (start_conts s) \<le> 1 \<and> (start_conts s \<noteq> [] \<longrightarrow> lm_stream s = None) \<and>
      (lm_destroyed s \<longrightarrow> lm_stream s = None))"

section \<open>Frames\<close>

text \<open>What the invariant reads.\<close>

definition mic_view where
  "mic_view s = ((\<lambda>i. tr_kind (lm_tracks s i)), (\<lambda>i. tr_live (lm_tracks s i)), lm_next s, lm_stream s, lm_requestId s,
     lm_destroyed s, lm_audioRecovery s, filter mic_relevant (lm_pending s))"

lemma relevant_mem: "mic_relevant k \<Longrightarrow> k \<in> set ks \<longleftrightarrow> k \<in> set (filter mic_relevant ks)"
  by simp

lemma relevant_filters:
  "filter audio_cont ks = filter audio_cont (filter mic_relevant ks)"
  "filter (\<lambda>k. start_cont k = Some r) ks = filter (\<lambda>k. start_cont k = Some r) (filter mic_relevant ks)"
  by (auto simp: mic_relevant_def intro: filter_cong)

lemma mic_inv_view:
  assumes v: "mic_view s' = mic_view s" and i: "mic_inv X s"
  shows "mic_inv X s'"
proof -
  have f: "filter mic_relevant (lm_pending s') = filter mic_relevant (lm_pending s)"
    and t: "\<And>i. tr_kind (lm_tracks s' i) = tr_kind (lm_tracks s i)" "\<And>i. tr_live (lm_tracks s' i) = tr_live (lm_tracks s i)"
    and e: "lm_next s' = lm_next s" "lm_stream s' = lm_stream s" "lm_requestId s' = lm_requestId s"
      "lm_destroyed s' = lm_destroyed s" "lm_audioRecovery s' = lm_audioRecovery s"
    using v by (auto simp: mic_view_def fun_eq_iff)
  have m: "k \<in> set (lm_pending s') \<longleftrightarrow> k \<in> set (lm_pending s)" if "mic_relevant k" for k
    using f relevant_mem [OF that] by metis
  have k: "is_kind s' = is_kind s" by (simp add: is_kind_def fun_eq_iff t)
  have a: "audio_conts s' = audio_conts s" "start_conts s' = start_conts s"
    unfolding audio_conts_def start_conts_def e by (metis relevant_filters(1) f, metis relevant_filters(2) f)
  have o: "open_microphones s' = open_microphones s" by (simp add: open_microphones_def t k)
  have b: "being_replaced s' = being_replaced s" by (simp add: being_replaced_def m mic_relevant_def)
  have c: "mic_current r cur s' = mic_current r cur s" for r cur
    by (simp add: mic_current_def first_track_def e k)
  have st: "(\<forall>k \<in> set (lm_pending s'). \<forall>r. start_cont k = Some r \<longrightarrow> r \<le> lm_requestId s)"
    using i m unfolding mic_inv_def by (metis mic_relevant_def option.distinct(1))
  have mr: "KMicrophoneReplaced cur t after \<in> set (lm_pending s') \<longleftrightarrow> KMicrophoneReplaced cur t after \<in> set (lm_pending s)" for cur t after
    by (rule m) (simp add: mic_relevant_def)
  have mc: "KMicrophone r cur e d after \<in> set (lm_pending s') \<longleftrightarrow> KMicrophone r cur e d after \<in> set (lm_pending s)" for r cur e d after
    by (rule m) (simp add: mic_relevant_def)
  show ?thesis using i st unfolding mic_inv_def e k a o b c mc mr by blast
qed

lemma mic_upd: "(\<And>s. mic_view (f s) = mic_view s) \<Longrightarrow> keeping (mic_inv X) (upd f)"
  by (auto intro: keeping_upd mic_inv_view)

lemma mic_await: "\<not> mic_relevant k \<Longrightarrow> keeping (mic_inv X) (local_await k)"
  unfolding local_await_def by (rule mic_upd) (simp add: mic_view_def)

lemma filter_remove1_irrelevant: "\<not> P k \<Longrightarrow> filter P (remove1 k ks) = filter P ks"
  by (induction ks) auto

lemma mic_resume:
  assumes "\<not> mic_relevant k" "keeping (mic_inv X) a"
  shows "keeping (mic_inv X) (local_resume k a)"
  unfolding local_resume_def seqS.simps
  by (intro keeping_whenS keeping_thenS keeping_skipS mic_upd assms(2))
    (simp add: mic_view_def filter_remove1_irrelevant assms(1))

lemma mic_notify: "keeping (mic_inv X) local_notify" "keeping (mic_inv X) (local_tell e)"
  by (rule keeping_out)+

lemma mic_flag: "(\<And>t. tr_kind (f t) = tr_kind t) \<Longrightarrow> (\<And>t. tr_live (f t) = tr_live t) \<Longrightarrow> keeping (mic_inv X) (upd_track i f)"
  unfolding upd_track_def by (rule mic_upd) (simp add: mic_view_def fun_eq_iff)

text \<open>A track that is no longer live no longer has to be accounted for.\<close>

lemma mic_dead:
  assumes "mic_inv X s"
  shows "mic_inv (X - {i}) (s\<lparr> lm_tracks := (lm_tracks s)(i := (lm_tracks s i)\<lparr> tr_live := False \<rparr>) \<rparr>)" (is "mic_inv _ ?t")
proof -
  have k: "is_kind ?t = is_kind s" by (simp add: is_kind_def fun_eq_iff)
  have o: "open_microphones ?t = open_microphones s - {i}" by (auto simp: open_microphones_def k)
  have r: "being_replaced ?t = being_replaced s" "audio_conts ?t = audio_conts s" "start_conts ?t = start_conts s"
    by (simp_all add: being_replaced_def audio_conts_def start_conts_def)
  have c: "mic_current r cur ?t = mic_current r cur s" for r cur by (simp add: mic_current_def first_track_def k)
  show ?thesis using assms unfolding mic_inv_def k o r c by auto
qed

lemma mic_widen: "mic_inv X s \<Longrightarrow> X \<subseteq> Y \<Longrightarrow> mic_inv Y s"
  unfolding mic_inv_def by blast

lemma stop_leads: "leads (mic_inv X) (stop_track i) (mic_inv (X - {i}))"
  unfolding stop_track_def upd_track_def seqS.simps
  by (rule leads_then [OF leads_upd [where Q = "mic_inv (X - {i})"]])
    (auto intro!: leads_then [OF leads_out [where Q = "mic_inv (X - {i})"]] leads_skip mic_dead)

lemma mic_stop: "keeping (mic_inv X) (stop_track i)"
  by (rule keeping_leads) (use stop_leads [of X i] in \<open>auto simp: leads_def intro: mic_widen\<close>)

lemma mic_ended: "keeping (mic_inv X) (upd_track i (\<lambda>t. t\<lparr> tr_live := False \<rparr>))"
  unfolding upd_track_def by (auto intro!: keeping_upd intro: mic_widen [OF mic_dead])

lemma stop_all_leads: "leads (mic_inv X) (forS ids stop_track) (mic_inv (X - set ids))"
proof (induction ids arbitrary: X)
  case Nil
  then show ?case by (simp add: forS_def leads_skip)
next
  case (Cons i ids)
  have "X - set (i # ids) = X - {i} - set ids" by auto
  then show ?case using leads_then [OF stop_leads [of X i] Cons.IH [of "X - {i}"]] by (simp add: forS_def)
qed

lemma mic_previous: "keeping (mic_inv X) (stop_previous prev nx)"
  unfolding stop_previous_def by (auto intro: mic_stop keeping_skipS split: option.split)

section \<open>The camera and the display leave the microphone alone\<close>

definition video_track :: "local_media \<Rightarrow> nat option \<Rightarrow> bool" where
  "video_track s nx = (case nx of None \<Rightarrow> True | Some t \<Rightarrow> t < lm_next s \<and> is_kind s VideoTrack t)"

lemma put_first_mem: "i \<in> set (put_first k t ids) \<Longrightarrow> i = t \<or> i \<in> set ids"
  by (induction ids) (auto split: if_splits)

lemma put_first_filter: "(\<And>i. a i \<Longrightarrow> \<not> k i) \<Longrightarrow> \<not> a t \<Longrightarrow> filter a (put_first k t ids) = filter a ids"
  by (induction ids) (auto intro!: filter_cong)

lemma find_filter: "find p ids = (case filter p ids of [] \<Rightarrow> None | i # _ \<Rightarrow> Some i)"
  by (induction ids) auto

lemma next_video_filter:
  assumes "video_track s nx"
  shows "filter (is_kind s AudioTrack) (next_stream (is_kind s VideoTrack) nx ids) = filter (is_kind s AudioTrack) ids"
proof (cases nx)
  case None
  then show ?thesis by (auto simp: next_stream_def is_kind_def intro!: filter_cong)
next
  case (Some t)
  then have "\<not> is_kind s AudioTrack t" using assms by (simp add: video_track_def is_kind_def)
  then show ?thesis unfolding Some next_stream_def option.case by (rule put_first_filter [rotated]) (simp add: is_kind_def)
qed

lemma next_stream_mem: "i \<in> set (next_stream k nx ids) \<Longrightarrow> Some i = nx \<or> i \<in> set ids"
  by (auto simp: next_stream_def dest: put_first_mem split: option.splits)

lemma mic_set_video:
  assumes i: "mic_inv X s" and v: "video_track s nx"
  shows "mic_inv X (s\<lparr> lm_stream := map_option (next_stream (is_kind s VideoTrack) nx) (lm_stream s) \<rparr>)" (is "mic_inv X ?t")
proof (cases "lm_stream s")
  case None
  show ?thesis by (rule mic_inv_view [OF _ i]) (simp add: mic_view_def None)
next
  case (Some ids)
  have k: "is_kind ?t = is_kind s" by (simp add: is_kind_def fun_eq_iff)
  have h: "held_ids s = ids" "held_ids ?t = next_stream (is_kind s VideoTrack) nx ids" using Some by simp_all
  note f = next_video_filter [OF v, of ids]
  have first: "first_track ?t AudioTrack = first_track s AudioTrack"
    unfolding first_track_def find_filter k h f by (rule refl)
  have o: "open_microphones ?t = open_microphones s" "being_replaced ?t = being_replaced s"
    "audio_conts ?t = audio_conts s" "start_conts ?t = start_conts s"
    by (simp_all add: open_microphones_def being_replaced_def audio_conts_def start_conts_def k)
  have c: "mic_current r cur ?t = mic_current r cur s" for r cur
    unfolding mic_current_def first by (simp add: Some)
  have kept: "i \<in> set (held_ids ?t)" if "i \<in> set ids" "is_kind s AudioTrack i" for i
    using that arg_cong [OF f, of set] unfolding h by auto
  have sub: "open_microphones s \<subseteq> X \<union> set (held_ids ?t) \<union> being_replaced s"
    using i kept h unfolding mic_inv_def open_microphones_def by blast
  have below: "\<forall>i \<in> set (held_ids ?t). i < lm_next s"
    using i v h unfolding mic_inv_def video_track_def by (auto dest!: next_stream_mem split: option.splits)
  have e: "lm_next ?t = lm_next s" "lm_pending ?t = lm_pending s" "lm_requestId ?t = lm_requestId s"
    "lm_audioRecovery ?t = lm_audioRecovery s" "lm_destroyed ?t = lm_destroyed s" "lm_stream ?t = None \<longleftrightarrow> lm_stream s = None"
    by (simp_all add: Some)
  show ?thesis
    using i sub below unfolding mic_inv_def e o c k unfolding h f by blast
qed

lemma mic_swap: "leads (\<lambda>s. mic_inv X s \<and> video_track s nx) (swapLocalVideoTrack nx prev use) (mic_inv X)"
proof -
  have after: "keeping (mic_inv X) (after_swap use)"
    unfolding after_swap_def share_stopped_def seqS.simps
    by (auto intro!: keeps mic_upd simp: mic_view_def split: swap_use.split)
  have k: "\<not> mic_relevant (KSwap nx prev use)" by (simp add: mic_relevant_def)
  show ?thesis
    unfolding swapLocalVideoTrack_def set_stream_def seqS.simps
    by (intro leads_if leads_then [OF leads_upd [of _ "mic_inv X"]])
      (auto intro!: leads_keeping [of "mic_inv X"] keeping_thenS keeping_skipS keeping_out mic_previous after mic_await k
        mic_set_video)
qed

text \<open>New tracks: the microphones among them are in the hands of the statement that asked for them.\<close>

definition with_granted :: "(track_kind \<times> string option) list \<Rightarrow> local_media \<Rightarrow> local_media" where
  "with_granted kinds s =
     s\<lparr> lm_next := lm_next s + length kinds,
        lm_tracks := (\<lambda>i. if lm_next s \<le> i \<and> i < lm_next s + length kinds
          then \<lparr> tr_kind = fst (kinds ! (i - lm_next s)), tr_live = True, tr_enabled = True, tr_muted = False,
                 tr_group = snd (kinds ! (i - lm_next s)) \<rparr>
          else lm_tracks s i) \<rparr>"

definition new_microphones :: "(track_kind \<times> string option) list \<Rightarrow> nat \<Rightarrow> nat set" where
  "new_microphones kinds n = {i. n \<le> i \<and> i < n + length kinds \<and> fst (kinds ! (i - n)) = AudioTrack}"

lemma granted_kind:
  "i < lm_next s \<Longrightarrow> is_kind (with_granted kinds s) k i = is_kind s k i"
  "lm_next s \<le> i \<Longrightarrow> i < lm_next s + length kinds \<Longrightarrow>
    is_kind (with_granted kinds s) k i = (fst (kinds ! (i - lm_next s)) = k)"
  by (simp_all add: with_granted_def is_kind_def)

lemma held_filter:
  "mic_inv X s \<Longrightarrow> filter (is_kind (with_granted kinds s) k) (held_ids s) = filter (is_kind s k) (held_ids s)"
  by (rule filter_cong) (auto simp: mic_inv_def granted_kind)

lemma granted_first: "mic_inv X s \<Longrightarrow> first_track (with_granted kinds s) k = first_track s k"
  using held_filter [of X s kinds k] unfolding first_track_def find_filter by (simp add: with_granted_def)

lemma mic_granted:
  assumes i: "mic_inv X s"
  shows "mic_inv (X \<union> new_microphones kinds (lm_next s)) (with_granted kinds s)" (is "mic_inv _ ?t")
proof -
  have e: "lm_pending ?t = lm_pending s" "lm_requestId ?t = lm_requestId s" "lm_stream ?t = lm_stream s"
    "lm_audioRecovery ?t = lm_audioRecovery s" "lm_destroyed ?t = lm_destroyed s" "lm_next s \<le> lm_next ?t"
    by (simp_all add: with_granted_def)
  have o: "being_replaced ?t = being_replaced s" "audio_conts ?t = audio_conts s" "start_conts ?t = start_conts s"
    by (simp_all add: being_replaced_def audio_conts_def start_conts_def e)
  have c: "mic_current r cur ?t = mic_current r cur s" for r cur
    unfolding mic_current_def granted_first [OF i] e by (rule refl)
  have op: "open_microphones ?t \<subseteq> open_microphones s \<union> new_microphones kinds (lm_next s)"
    by (auto simp: open_microphones_def new_microphones_def with_granted_def is_kind_def split: if_splits)
  have below: "\<forall>i \<in> set (held_ids s). i < lm_next ?t" using i e(6) unfolding mic_inv_def by fastforce
  show ?thesis using i op below unfolding mic_inv_def e o c held_filter [OF i] by blast
qed

lemma granted_leads:
  assumes "\<And>n s. mic_inv X s \<Longrightarrow> P s \<Longrightarrow> lm_next s = n \<Longrightarrow> R n (with_granted kinds s)"
    and "\<And>n. leads (R n) (k [n..<n + length kinds]) Q"
  shows "leads (\<lambda>s. mic_inv X s \<and> P s) (granted kinds k) Q"
  unfolding granted_def seqS.simps
proof (rule leads_let)
  fix n
  define G where "G s = s\<lparr>lm_next := n + length kinds, lm_tracks := \<lambda>i. if n \<le> i \<and> i < n + length kinds
      then \<lparr>tr_kind = fst (kinds ! (i - n)), tr_live = True, tr_enabled = True, tr_muted = False, tr_group = snd (kinds ! (i - n))\<rparr>
      else lm_tracks s i\<rparr>" for s :: local_media
  have G: "R n (G s)" if "(mic_inv X s \<and> P s) \<and> n = lm_next s" for s
  proof -
    have n: "n = lm_next s" using that by simp
    show ?thesis using assms(1) [of s n] that unfolding G_def n by (simp add: with_granted_def)
  qed
  have "leads (\<lambda>s. (mic_inv X s \<and> P s) \<and> n = lm_next s) (thenS (upd G) (thenS (k [n..<n + length kinds]) skipS)) Q"
    by (rule leads_then [OF leads_upd [where Q = "R n", OF G] leads_then [OF assms(2) leads_skip]])
  then show "leads (\<lambda>s. (mic_inv X s \<and> P s) \<and> n = lm_next s)
      (thenS (upd (\<lambda>s. s\<lparr>lm_next := n + length kinds, lm_tracks := \<lambda>i. if n \<le> i \<and> i < n + length kinds
         then \<lparr>tr_kind = fst (kinds ! (i - n)), tr_live = True, tr_enabled = True, tr_muted = False, tr_group = snd (kinds ! (i - n))\<rparr>
         else lm_tracks s i\<rparr>)) (thenS (k [n..<n + length kinds]) skipS)) Q"
    unfolding G_def .
qed

lemma video_granted:
  assumes "\<And>n. leads (\<lambda>s. mic_inv X s \<and> video_track s (Some n)) (k [n]) (mic_inv X)"
  shows "keeping (mic_inv X) (granted [(VideoTrack, g)] k)"
proof -
  have "leads (\<lambda>s. mic_inv X s \<and> True) (granted [(VideoTrack, g)] k) (mic_inv X)"
  proof (rule granted_leads)
    fix n s
    assume "mic_inv X s" "lm_next s = n"
    moreover have "new_microphones [(VideoTrack, g)] n = {}" by (auto simp: new_microphones_def)
    ultimately have "mic_inv X (with_granted [(VideoTrack, g)] s)" using mic_granted [of X s "[(VideoTrack, g)]"] by simp
    moreover have "video_track (with_granted [(VideoTrack, g)] s) (Some n)"
      using \<open>lm_next s = n\<close> by (simp add: video_track_def granted_kind) (simp add: with_granted_def)
    ultimately show "mic_inv X (with_granted [(VideoTrack, g)] s) \<and> video_track (with_granted [(VideoTrack, g)] s) (Some n)" ..
  next
    fix n
    show "leads (\<lambda>s. mic_inv X s \<and> video_track s (Some n)) (k [n..<n + length [(VideoTrack, g)]]) (mic_inv X)"
      using assms [of n] by simp
  qed
  then show ?thesis by (simp add: keeping_leads)
qed

text \<open>Statements that leave the track and its kind alone.\<close>

lemma video_flag:
  "leads (\<lambda>s. mic_inv X s \<and> video_track s nx) (upd_track i (\<lambda>t. t\<lparr> tr_enabled := b \<rparr>)) (\<lambda>s. mic_inv X s \<and> video_track s nx)"
proof (rule leadsI)
  fix s
  assume s: "mic_inv X s \<and> video_track s nx"
  have "mic_inv X (fst (upd_track i (\<lambda>t. t\<lparr> tr_enabled := b \<rparr>) s))" by (rule keepingD [OF mic_flag]) (use s in simp_all)
  then show "mic_inv X (fst (upd_track i (\<lambda>t. t\<lparr> tr_enabled := b \<rparr>) s)) \<and>
      video_track (fst (upd_track i (\<lambda>t. t\<lparr> tr_enabled := b \<rparr>) s)) nx"
    using s by (auto simp: video_track_def upd_track_def upd_def is_kind_def split: option.splits)
qed

lemma mic_swap_none: "keeping (mic_inv X) (swapLocalVideoTrack None prev use)"
  by (rule keeping_leads) (rule leads_pre [OF mic_swap], simp add: video_track_def)

lemma mic_swapped: "keeping (mic_inv X) (local_video_swapped nx prev use)"
  unfolding local_video_swapped_def after_swap_def share_stopped_def seqS.simps
  by (auto intro!: keeps mic_resume mic_previous mic_upd simp: mic_relevant_def mic_view_def split: swap_use.split)

lemmas mic_rules =
  keeping_skipS keeping_thenS keeping_letS keeping_ifS keeping_whenS keeping_out keeping_forS
  mic_await mic_resume mic_previous mic_stop mic_ended mic_swap_none mic_upd mic_flag

lemma mic_acquire: "keeping (mic_inv X) (acquireCameraTrack use enabled)"
  unfolding acquireCameraTrack_def seqS.simps by (auto intro!: mic_rules simp: mic_relevant_def)

lemma mic_camera: "keeping (mic_inv X) (camera_answered use first_try enabled answer)"
proof -
  have failed: "keeping (mic_inv X) (camera_failed use)"
    unfolding camera_failed_def by (auto intro!: mic_rules simp: mic_view_def split: camera_use.split)
  have landed: "keeping (mic_inv X) (granted [(VideoTrack, None)] (\<lambda>ids. let t = hd ids in
      seqS [upd_track t (\<lambda>tr. tr\<lparr> tr_enabled := enabled \<rparr>),
            swapLocalVideoTrack (Some t) (camera_previous use) (camera_swap use)]))"
    unfolding Let_def seqS.simps
    by (rule video_granted) (auto intro!: leads_then [OF video_flag] leads_then [OF mic_swap] leads_skip)
  show ?thesis
    unfolding camera_answered_def
    by (auto intro!: mic_rules failed landed [unfolded seqS.simps] simp: mic_relevant_def split: option.split bool.split)
qed

lemma mic_handler: "keeping (mic_inv X) (drop_handler i)"
  unfolding drop_handler_def by (auto intro!: mic_rules simp: mic_view_def split: option.split)

lemma mic_cameras: "keeping (mic_inv X) releaseVideoTrack" "keeping (mic_inv X) reacquireVideoTrack"
  "keeping (mic_inv X) flipCamera" "keeping (mic_inv X) (refreshLocalVideoTrack b)"
  unfolding releaseVideoTrack_def reacquireVideoTrack_def flipCamera_def refreshLocalVideoTrack_def seqS.simps
  by (auto intro!: mic_rules mic_acquire simp: mic_view_def split: option.split)

lemma mic_display_legacy: "keeping (mic_inv X) (display_legacy answer)"
proof -
  have landed: "leads (\<lambda>s. mic_inv X s \<and> video_track s (Some n)) (legacy_share_landed n) (mic_inv X)" for n
  proof -
    define V where "V = (\<lambda>s. mic_inv X s \<and> video_track s (Some n))"
    have u: "leads V (upd f) V" if "\<And>s. mic_view (f s) = mic_view s" for f :: "local_media \<Rightarrow> local_media"
    proof (rule leadsI)
      fix s
      assume s: "V s"
      have v: "mic_view (f s) = mic_view s" by (rule that)
      then have "video_track (f s) (Some n)"
        using s by (auto simp: V_def video_track_def is_kind_def mic_view_def fun_eq_iff)
      then show "V (fst (upd f s))" using s mic_inv_view [OF v] by (simp add: V_def upd_def)
    qed
    have d: "leads V (letS lm_screenTrack drop_handler) V"
      unfolding drop_handler_def
      by (auto intro!: leads_let leads_skip u [THEN leads_pre] simp: mic_view_def split: option.split)
    have "leads V (legacy_share_landed n) (mic_inv X)"
      unfolding legacy_share_landed_def seqS.simps
      apply (intro leads_if leads_let)
       apply (auto intro!: leads_keeping mic_rules simp: mic_view_def V_def) [1]
      apply (rule leads_then [OF leads_pre [OF u]], simp add: mic_view_def, simp)
      apply (rule leads_then [OF leads_pre [OF video_flag [of X "Some n"]]], simp add: V_def)
      apply (rule leads_then [OF leads_pre [OF d]], simp add: V_def)
      apply (rule leads_then [OF u], simp add: mic_view_def)
      apply (rule leads_then [OF leads_pre [OF mic_swap [of X]]], simp add: V_def)
      apply (rule leads_skip, assumption)
      done
    then show ?thesis by (simp add: V_def)
  qed
  have "keeping (mic_inv X) (granted [(VideoTrack, None)] (\<lambda>ids. legacy_share_landed (hd ids)))"
    by (rule video_granted) (simp add: landed)
  then show ?thesis
    unfolding display_legacy_def by (auto intro!: mic_rules simp: mic_relevant_def mic_view_def)
qed

lemma mic_release: "keeping (mic_inv X) releaseLocalContentTrack"
  unfolding releaseLocalContentTrack_def seqS.simps
  by (auto intro!: mic_rules mic_handler simp: mic_view_def split: option.split)

lemma mic_display_content: "keeping (mic_inv X) (display_content answer)"
proof -
  have "keeping (mic_inv X) (granted [(VideoTrack, None)] (\<lambda>ids. let t = hd ids in
      thenS (upd_track t (\<lambda>tr. tr\<lparr> tr_enabled := True \<rparr>))
       (thenS (upd (\<lambda>s. s\<lparr> lm_contentTrack := Some t, lm_screenTrack := Some t, lm_stopInFlight := False,
           lm_onended := t # lm_onended s, lm_sharing := True \<rparr>))
        (thenS (local_tell (AttachContent t)) (thenS (local_await KContentAttached) skipS)))))"
    unfolding Let_def
    by (rule video_granted) (auto intro!: leads_keeping mic_rules simp: mic_view_def mic_relevant_def)
  then show ?thesis
    unfolding display_content_def by (auto intro!: mic_rules simp: mic_relevant_def)
qed

lemma mic_shares: "keeping (mic_inv X) startScreenShare" "keeping (mic_inv X) stopScreenShare"
  "keeping (mic_inv X) (content_attached a p n)" "keeping (mic_inv X) content_detached"
  unfolding startScreenShare_def stopScreenShare_def stopScreenShareLegacy_def stopScreenShareIndependent_def
    content_attached_def content_detached_def share_stopped_def seqS.simps
  by (auto intro!: mic_rules mic_release mic_handler mic_acquire simp: mic_view_def mic_relevant_def split: option.split)

section \<open>Stopping and starting\<close>

text \<open>The tracks of the set \<open>D\<close> are stopped.\<close>

definition stopped :: "nat set \<Rightarrow> (nat \<Rightarrow> local_track) \<Rightarrow> nat \<Rightarrow> local_track" where
  "stopped D tracks i = (if i \<in> D then (tracks i)\<lparr> tr_live := False \<rparr> else tracks i)"

lemma stop_all_state: "fst (forS ids stop_track s) = s\<lparr> lm_tracks := stopped (set ids) (lm_tracks s) \<rparr>"
  by (induction ids arbitrary: s)
    (simp_all add: forS_def stop_track_def upd_track_def act_eval fun_eq_iff fun_upd_def stopped_def)

lemma mic_invD:
  assumes "mic_inv X s"
  shows "KMicrophone r cur e d after \<in> set (lm_pending s) \<Longrightarrow> mic_current r cur s"
    and "k \<in> set (lm_pending s) \<Longrightarrow> start_cont k = Some r \<Longrightarrow> r \<le> lm_requestId s"
    and "k \<in> set (lm_pending s) \<Longrightarrow> start_cont k = Some (lm_requestId s) \<Longrightarrow> lm_stream s = None"
    and "k \<in> set (lm_pending s) \<Longrightarrow> audio_cont k \<Longrightarrow> lm_audioRecovery s"
  using assms unfolding mic_inv_def audio_conts_def start_conts_def by (blast, blast, auto simp: filter_empty_conv)

lemma mic_halt:
  assumes "mic_inv X s" "set (held_ids s) \<subseteq> D"
  shows "mic_inv X (s\<lparr> lm_requestId := lm_requestId s + 1, lm_tracks := stopped D (lm_tracks s), lm_stream := None,
    lm_destroyed := b \<rparr>)" (is "mic_inv X ?t")
proof -
  have n: "start_conts ?t = []"
    using assms(1) unfolding start_conts_def mic_inv_def by (force simp: filter_empty_conv)
  have k: "is_kind ?t = is_kind s" by (simp add: is_kind_def fun_eq_iff stopped_def)
  have o: "open_microphones ?t = open_microphones s - D" unfolding open_microphones_def k by (auto simp: stopped_def)
  have a: "being_replaced ?t = being_replaced s" "audio_conts ?t = audio_conts s"
    by (simp_all add: being_replaced_def audio_conts_def)
  have m: "mic_current r cur ?t" if "KMicrophone r cur e d after \<in> set (lm_pending s)" for r cur e d after
    using mic_invD(1) [OF assms(1) that] by (simp add: mic_current_def)
  have le: "\<forall>k \<in> set (lm_pending s). \<forall>r. start_cont k = Some r \<longrightarrow> r \<le> lm_requestId s + 1"
    using mic_invD(2) [OF assms(1)] le_SucI by fastforce
  have op: "open_microphones s - D \<subseteq> X \<union> being_replaced s" using assms unfolding mic_inv_def by blast
  have e: "lm_stream ?t = None" "lm_pending ?t = lm_pending s" "lm_requestId ?t = lm_requestId s + 1"
    "lm_audioRecovery ?t = lm_audioRecovery s" by simp_all
  show ?thesis
    using assms(1) m le op unfolding mic_inv_def o n a k e by simp
qed

lemma stop_view:
  "\<exists>D. set (held_ids s) \<subseteq> D \<and>
     mic_view (fst (stopLocalMedia s)) =
       mic_view (s\<lparr> lm_requestId := lm_requestId s + 1, lm_tracks := stopped D (lm_tracks s), lm_stream := None,
                   lm_destroyed := lm_destroyed s \<rparr>)"
  by (rule exI [of _ "set (held_ids s) \<union> set_option (lm_contentTrack s)"])
    (auto simp: stopLocalMedia_def drop_handler_def act_eval stop_all_state [unfolded act_eval] mic_view_def stopped_def
       stop_track_def upd_track_def fun_eq_iff split: option.splits)

lemma destroy_view: "mic_view (fst (destroy_local s)) = mic_view (fst (stopLocalMedia (s\<lparr> lm_destroyed := True \<rparr>)))"
  by (simp add: destroy_local_def thenS_def upd_def skipS_def mic_view_def Let_def)

lemma mic_stop_media: "keeping (mic_inv X) stopLocalMedia"
proof (rule keepingI)
  fix s
  assume "mic_inv X s"
  moreover obtain D where "set (held_ids s) \<subseteq> D" and v: "mic_view (fst (stopLocalMedia s)) =
       mic_view (s\<lparr> lm_requestId := lm_requestId s + 1, lm_tracks := stopped D (lm_tracks s), lm_stream := None,
                   lm_destroyed := lm_destroyed s \<rparr>)"
    using stop_view by blast
  ultimately show "mic_inv X (fst (stopLocalMedia s))" by (intro mic_inv_view [OF v] mic_halt)
qed

lemma mic_destroy: "keeping (mic_inv X) destroy_local"
proof (rule keepingI)
  fix s
  assume i: "mic_inv X s"
  let ?s = "s\<lparr> lm_destroyed := True \<rparr>"
  obtain D where d: "set (held_ids ?s) \<subseteq> D" and v: "mic_view (fst (stopLocalMedia ?s)) =
       mic_view (?s\<lparr> lm_requestId := lm_requestId ?s + 1, lm_tracks := stopped D (lm_tracks ?s), lm_stream := None,
                   lm_destroyed := lm_destroyed ?s \<rparr>)"
    using stop_view by blast
  have "mic_view (fst (destroy_local s)) =
      mic_view (s\<lparr> lm_requestId := lm_requestId s + 1, lm_tracks := stopped D (lm_tracks s), lm_stream := None,
        lm_destroyed := True \<rparr>)"
    unfolding destroy_view v by (simp add: mic_view_def)
  then show "mic_inv X (fst (destroy_local s))" using mic_halt [OF i, of D True] d by (auto intro: mic_inv_view)
qed

lemma mic_tail: "keeping (mic_inv X) (finish_start r ok)" "keeping (mic_inv X) (start_tail r)"
  "keeping (mic_inv X) (after_microphone after)" "keeping (mic_inv X) (detectCameras ds)"
  unfolding after_microphone_def start_tail_def finish_start_def detectCameras_def seqS.simps
  by (auto intro!: mic_rules simp: mic_view_def split: option.split)

text \<open>A continuation is resumed; one of the start may land if its request is still the last one.\<close>

definition start_ready :: "nat \<Rightarrow> local_media \<Rightarrow> bool" where
  "start_ready r s = (r \<le> lm_requestId s \<and> (r = lm_requestId s \<longrightarrow> start_conts s = [] \<and> lm_stream s = None))"

lemma filter_remove1: "filter P (remove1 k ks) = (if P k then remove1 k (filter P ks) else filter P ks)"
  by (induction ks) auto

lemma remove1_short: "length xs \<le> 1 \<Longrightarrow> k \<in> set xs \<Longrightarrow> remove1 k xs = []"
  by (cases xs) auto

lemma resume_leads:
  assumes "\<And>s. mic_inv X s \<Longrightarrow> k \<in> set (lm_pending s) \<Longrightarrow> R (s\<lparr> lm_pending := remove1 k (lm_pending s) \<rparr>)"
    and "leads R a (mic_inv X)"
  shows "keeping (mic_inv X) (local_resume k a)"
  unfolding local_resume_def seqS.simps
  by (intro keeping_leads leads_when leads_then [OF leads_upd leads_then [OF assms(2) leads_skip]]) (auto simp: assms(1))

lemma mic_removed:
  assumes "mic_inv X s" "k \<in> set (lm_pending s)"
  defines "t \<equiv> s\<lparr> lm_pending := remove1 k (lm_pending s) \<rparr>"
  shows "mic_inv (X \<union> {i. \<exists>n after. k = KMicrophoneReplaced (Some i) n after}) t"
    and "audio_cont k \<Longrightarrow> audio_conts t = []" and "audio_cont k \<Longrightarrow> lm_audioRecovery t"
    and "start_cont k = Some r \<Longrightarrow> start_ready r t"
proof -
  have sub: "k' \<in> set (lm_pending t) \<Longrightarrow> k' \<in> set (lm_pending s)" for k' using notin_set_remove1 unfolding t_def by fastforce
  have mem: "k' \<in> set (lm_pending s) \<Longrightarrow> k' = k \<or> k' \<in> set (lm_pending t)" for k'
    unfolding t_def by (cases "k' = k") (simp_all add: in_set_remove1)
  have k: "is_kind t = is_kind s" by (simp add: is_kind_def fun_eq_iff t_def)
  have o: "open_microphones t = open_microphones s" unfolding open_microphones_def k by (simp add: t_def)
  have c: "mic_current r cur t = mic_current r cur s" for r cur
    unfolding mic_current_def first_track_def k by (simp add: t_def)
  have a: "audio_conts t = (if audio_cont k then remove1 k (audio_conts s) else audio_conts s)"
    by (simp add: audio_conts_def t_def filter_remove1)
  have st: "start_conts t = (if start_cont k = Some (lm_requestId s) then remove1 k (start_conts s) else start_conts s)"
    by (simp add: start_conts_def t_def filter_remove1)
  have e: "lm_next t = lm_next s" "lm_stream t = lm_stream s" "lm_requestId t = lm_requestId s"
    "lm_destroyed t = lm_destroyed s" "lm_audioRecovery t = lm_audioRecovery s" by (simp_all add: t_def)
  have rep: "being_replaced s \<subseteq> {i. \<exists>n after. k = KMicrophoneReplaced (Some i) n after} \<union> being_replaced t"
    using mem unfolding being_replaced_def by blast
  have le: "length (audio_conts t) \<le> 1" "length (start_conts t) \<le> 1" "audio_conts t \<noteq> [] \<Longrightarrow> audio_conts s \<noteq> []"
    "start_conts t \<noteq> [] \<Longrightarrow> start_conts s \<noteq> []"
    using assms(1) length_remove1 [of k] unfolding a st mic_inv_def by (auto simp: length_remove1 split: if_splits)
  have op: "open_microphones s \<subseteq> X \<union> {i. \<exists>n after. k = KMicrophoneReplaced (Some i) n after} \<union> set (held_ids s) \<union> being_replaced t"
    using assms(1) rep unfolding mic_inv_def by blast
  show "mic_inv (X \<union> {i. \<exists>n after. k = KMicrophoneReplaced (Some i) n after}) t"
    using assms(1) sub le op unfolding mic_inv_def o c k e by blast
  show "audio_cont k \<Longrightarrow> audio_conts t = []"
    unfolding a using assms(1,2) remove1_short [of "audio_conts s" k] unfolding mic_inv_def audio_conts_def by simp
  show "audio_cont k \<Longrightarrow> lm_audioRecovery t"
    using mic_invD(4) [OF assms(1,2)] by (simp add: e)
  show "start_ready r t" if "start_cont k = Some r"
  proof -
    have "start_conts t = []" if r: "r = lm_requestId s"
    proof -
      have "k \<in> set (start_conts s)" "length (start_conts s) \<le> 1"
        using assms(1,2) \<open>start_cont k = Some r\<close> r by (simp_all add: start_conts_def mic_inv_def)
      then show ?thesis unfolding st using \<open>start_cont k = Some r\<close> r by (simp add: remove1_short)
    qed
    then show ?thesis
      using mic_invD(2,3) [OF assms(1,2)] that unfolding start_ready_def e by blast
  qed
qed

text \<open>A continuation is added.\<close>

lemma pending_added:
  fixes s :: local_media
  defines "t k \<equiv> s\<lparr> lm_pending := lm_pending s @ [k] \<rparr>"
  shows "is_kind (t k) = is_kind s" "open_microphones (t k) = open_microphones s" "mic_current r cur (t k) = mic_current r cur s"
    "audio_conts (t k) = audio_conts s @ (if audio_cont k then [k] else [])"
    "start_conts (t k) = start_conts s @ (if start_cont k = Some (lm_requestId s) then [k] else [])"
    "being_replaced (t k) = being_replaced s \<union> {i. \<exists>n after. k = KMicrophoneReplaced (Some i) n after}"
proof -
  show k: "is_kind (t k) = is_kind s" by (simp add: is_kind_def fun_eq_iff t_def)
  show "open_microphones (t k) = open_microphones s" unfolding open_microphones_def k by (simp add: t_def)
  show "mic_current r cur (t k) = mic_current r cur s" unfolding mic_current_def first_track_def k by (simp add: t_def)
  show "audio_conts (t k) = audio_conts s @ (if audio_cont k then [k] else [])" by (simp add: audio_conts_def t_def)
  show "start_conts (t k) = start_conts s @ (if start_cont k = Some (lm_requestId s) then [k] else [])"
    by (simp add: start_conts_def t_def)
  show "being_replaced (t k) = being_replaced s \<union> {i. \<exists>n after. k = KMicrophoneReplaced (Some i) n after}"
    by (auto simp: being_replaced_def t_def)
qed

lemma mic_added:
  assumes i: "mic_inv (X \<union> {i. \<exists>n after. k = KMicrophoneReplaced (Some i) n after}) s"
    and a: "audio_cont k \<Longrightarrow> audio_conts s = [] \<and> lm_audioRecovery s"
    and st: "\<And>r. start_cont k = Some r \<Longrightarrow> start_ready r s"
    and m: "\<And>r cur e d after. k = KMicrophone r cur e d after \<Longrightarrow> mic_current r cur s"
    and r: "\<And>t after. k \<noteq> KMicrophoneReplaced (Some t) t after"
  shows "mic_inv X (s\<lparr> lm_pending := lm_pending s @ [k] \<rparr>)" (is "mic_inv X ?t")
proof -
  have e: "lm_next ?t = lm_next s" "lm_stream ?t = lm_stream s" "lm_requestId ?t = lm_requestId s"
    "lm_destroyed ?t = lm_destroyed s" "lm_audioRecovery ?t = lm_audioRecovery s"
    "set (lm_pending ?t) = insert k (set (lm_pending s))" by simp_all
  have le: "length (audio_conts ?t) \<le> 1" "audio_conts ?t \<noteq> [] \<Longrightarrow> lm_audioRecovery s"
    using i a unfolding pending_added mic_inv_def by (auto split: if_splits)
  have sl: "length (start_conts ?t) \<le> 1" "start_conts ?t \<noteq> [] \<Longrightarrow> lm_stream s = None"
    using i st [of "lm_requestId s"] unfolding pending_added mic_inv_def start_ready_def by (auto split: if_splits)
  have sr: "start_cont k = Some r \<Longrightarrow> r \<le> lm_requestId s" for r using st unfolding start_ready_def by blast
  have op: "open_microphones s \<subseteq> X \<union> set (held_ids s) \<union> being_replaced ?t"
    using i unfolding mic_inv_def pending_added by blast
  have mk: "\<forall>r cur e d after. KMicrophone r cur e d after \<in> set (lm_pending ?t) \<longrightarrow> mic_current r cur s"
    using i m unfolding mic_inv_def e by blast
  have rk: "\<forall>t after. KMicrophoneReplaced (Some t) t after \<notin> set (lm_pending ?t)"
  proof (intro allI notI)
    fix n after
    assume "KMicrophoneReplaced (Some n) n after \<in> set (lm_pending ?t)"
    then have "KMicrophoneReplaced (Some n) n after \<in> set (lm_pending s)" using r [of n after] by auto
    then show False using i unfolding mic_inv_def by blast
  qed
  have sk: "\<forall>k \<in> set (lm_pending ?t). \<forall>r. start_cont k = Some r \<longrightarrow> r \<le> lm_requestId s"
    using i sr unfolding mic_inv_def e by blast
  have old: "\<forall>i \<in> set (held_ids s). i < lm_next s" "length (filter (is_kind s AudioTrack) (held_ids s)) \<le> 1"
    "lm_destroyed s \<longrightarrow> lm_stream s = None"
    using i unfolding mic_inv_def by blast+
  show ?thesis
    unfolding mic_inv_def pending_added(1-3) e(1-5) using old le sl mk rk sk op by simp
qed

lemma await_start:
  assumes "start_cont k = Some r"
  shows "leads (\<lambda>s. mic_inv X s \<and> start_ready r s) (local_await k) (mic_inv X)"
proof -
  have k: "\<not> audio_cont k" "{i. \<exists>n after. k = KMicrophoneReplaced (Some i) n after} = {}"
    using assms by (cases k; simp)+
  show ?thesis
    unfolding local_await_def
    by (rule leads_upd, rule mic_added) (use assms k in \<open>auto simp: k(2)\<close>)
qed

lemma await_microphone:
  "leads (\<lambda>s. mic_inv X s \<and> audio_conts s = [] \<and> lm_audioRecovery s \<and> mic_current r cur s)
     (local_await (KMicrophone r cur e d after)) (mic_inv X)"
  unfolding local_await_def by (rule leads_upd, rule mic_added) simp_all

lemma await_replaced:
  assumes "cur \<noteq> Some t"
  shows "leads (\<lambda>s. mic_inv (X \<union> set_option cur) s \<and> audio_conts s = [] \<and> lm_audioRecovery s)
     (local_await (KMicrophoneReplaced cur t after)) (mic_inv X)"
proof -
  have "{i. cur = Some i} = set_option cur" by auto
  then show ?thesis
    unfolding local_await_def by (rule_tac leads_upd, rule_tac mic_added) (use assms in auto)
qed

section \<open>Operations of the start\<close>

lemma acquire_initial: "leads (\<lambda>s. mic_inv X s \<and> start_ready r s) (acquireInitialMedia r spec preferred device) (mic_inv X)"
  unfolding acquireInitialMedia_def seqS.simps
  by (intro leads_then [OF leads_out leads_then [OF await_start leads_skip]]) auto

lemma resume_start:
  assumes "start_cont k = Some r" "leads (\<lambda>s. mic_inv X s \<and> start_ready r s) a (mic_inv X)"
  shows "keeping (mic_inv X) (local_resume k a)"
proof (rule resume_leads [OF _ assms(2)])
  fix s
  assume s: "mic_inv X s" "k \<in> set (lm_pending s)"
  have k: "{i. \<exists>n after. k = KMicrophoneReplaced (Some i) n after} = {}" using assms(1) by (cases k) auto
  show "mic_inv X (s\<lparr>lm_pending := remove1 k (lm_pending s)\<rparr>) \<and> start_ready r (s\<lparr>lm_pending := remove1 k (lm_pending s)\<rparr>)"
    using mic_removed(1) [OF s] mic_removed(4) [OF s assms(1)] unfolding k by simp
qed

lemma mic_start: "keeping (mic_inv X) startLocalMediaInternal"
proof -
  define new where "new = (\<lambda>s::local_media. s\<lparr> lm_requestId := lm_requestId s + 1, lm_starting := Some (lm_requestId s + 1),
    lm_requesting := True, lm_error := None \<rparr>)"
  have new: "mic_inv X (new s)" "start_ready (lm_requestId s + 1) (new s)" if s: "mic_inv X s" "lm_stream s = None" for s
  proof -
    have v: "mic_view (new s) = mic_view (s\<lparr> lm_requestId := lm_requestId s + 1, lm_tracks := stopped {} (lm_tracks s),
        lm_stream := None, lm_destroyed := lm_destroyed s \<rparr>)"
      using s(2) by (simp add: new_def mic_view_def stopped_def)
    show "mic_inv X (new s)" by (rule mic_inv_view [OF v mic_halt [OF s(1)]]) (simp add: s(2))
    have "start_conts (new s) = []"
      using mic_invD(2) [OF s(1)] unfolding start_conts_def new_def by (force simp: filter_empty_conv)
    then show "start_ready (lm_requestId s + 1) (new s)" by (simp add: start_ready_def new_def s(2))
  qed
  show ?thesis
    unfolding startLocalMediaInternal_def seqS.simps
  proof (intro keeping_leads leads_if leads_let)
    fix r
    let ?P = "\<lambda>s. mic_inv X s \<and> start_ready r s"
    let ?a = "ifS (\<lambda>s. \<not> mu_userMedia (lm_setup s))
        (thenS (upd (\<lambda>s. s\<lparr> lm_requesting := False,
             lm_error := Some (''NotSupportedError'', ''getUserMedia is not supported'') \<rparr>))
          (thenS (finish_start r False) skipS))
        (thenS (local_tell EnumerateDevices) (thenS (local_await (KStartDevices r)) skipS))"
    have rest: "leads ?P ?a (mic_inv X)"
    proof (rule leads_if)
      show "leads (\<lambda>s. ?P s \<and> \<not> mu_userMedia (lm_setup s)) (thenS (upd (\<lambda>s. s\<lparr> lm_requesting := False,
             lm_error := Some (''NotSupportedError'', ''getUserMedia is not supported'') \<rparr>))
          (thenS (finish_start r False) skipS)) (mic_inv X)"
        by (rule leads_keeping) (auto intro!: mic_rules mic_tail simp: mic_view_def)
      show "leads (\<lambda>s. ?P s \<and> \<not> \<not> mu_userMedia (lm_setup s))
          (thenS (local_tell EnumerateDevices) (thenS (local_await (KStartDevices r)) skipS)) (mic_inv X)"
        by (intro leads_then [OF leads_out leads_then [OF await_start leads_skip]]) auto
    qed
    show "leads (\<lambda>s. (mic_inv X s \<and> \<not> (lm_stream s \<noteq> None \<or> lm_starting s \<noteq> None)) \<and> r = lm_requestId s + 1)
       (thenS (upd (\<lambda>s. s\<lparr>lm_requestId := r, lm_starting := Some r, lm_requesting := True, lm_error := None\<rparr>))
         (thenS ?a skipS)) (mic_inv X)"
      by (rule leads_then [OF leads_upd [where Q = ?P] leads_then [OF rest leads_skip]])
        (auto simp: new [unfolded new_def, simplified])
  qed (auto intro: leads_skip)
qed

lemma mic_start_devices: "keeping (mic_inv X) (start_devices r devices)"
  unfolding start_devices_def Let_def
  by (rule resume_start [of _ r]) (auto intro!: leads_let leads_pre [OF acquire_initial])

lemma stream_kinds: "length (filter (\<lambda>k. fst k = AudioTrack) (stream_tracks microphone camera)) \<le> 1"
  by (auto simp: stream_tracks_def split: option.split)

text \<open>The tracks of an acquired stream, when it becomes the local stream.\<close>

lemma mic_landed:
  fixes microphone :: "string option option" and camera :: bool
  assumes i: "mic_inv X s" and r: "start_ready (lm_requestId s) s" and d: "\<not> lm_destroyed s"
  defines "t \<equiv> with_granted (stream_tracks microphone camera) s"
  shows "mic_inv X (t\<lparr> lm_stream := Some [lm_next s..<lm_next t] \<rparr>)" (is "mic_inv X ?u")
proof -
  let ?ks = "stream_tracks microphone camera"
  have n: "lm_next t = lm_next s + length ?ks" by (simp add: t_def with_granted_def)
  have st: "lm_stream s = None" "start_conts s = []" using r by (simp_all add: start_ready_def)
  have k: "is_kind ?u = is_kind t" by (simp add: is_kind_def fun_eq_iff)
  have up: "[m..<Suc (Suc m)] = [m, Suc m]" for m :: nat by (simp add: upt_conv_Cons)
  have l: "[lm_next s..<lm_next s + length ?ks] =
      (case microphone of None \<Rightarrow> [] | Some _ \<Rightarrow> [lm_next s]) @
      (if camera then [lm_next s + (case microphone of None \<Rightarrow> 0 | Some _ \<Rightarrow> 1)] else [])"
    by (auto simp: stream_tracks_def up split: option.split)
  have one: "length (filter (is_kind t AudioTrack) [lm_next s..<lm_next t]) \<le> 1"
    unfolding n l unfolding t_def by (auto simp: stream_tracks_def granted_kind split: option.splits)
  have o: "open_microphones ?u = open_microphones t" "being_replaced ?u = being_replaced s" "audio_conts ?u = audio_conts s"
    "start_conts ?u = start_conts s"
    by (simp_all add: open_microphones_def being_replaced_def audio_conts_def start_conts_def t_def with_granted_def is_kind_def)
  have e: "lm_pending ?u = lm_pending s" "lm_requestId ?u = lm_requestId s" "lm_audioRecovery ?u = lm_audioRecovery s"
    "lm_destroyed ?u = lm_destroyed s" "lm_next ?u = lm_next t" "held_ids ?u = [lm_next s..<lm_next t]"
    by (simp_all add: t_def with_granted_def)
  have "new_microphones ?ks (lm_next s) \<subseteq> set [lm_next s..<lm_next t]" by (auto simp: new_microphones_def n)
  moreover have "mic_inv (X \<union> new_microphones ?ks (lm_next s)) t" unfolding t_def by (rule mic_granted [OF i])
  moreover have "lm_stream t = None" "being_replaced t = being_replaced s"
    by (simp_all add: t_def with_granted_def st being_replaced_def)
  ultimately have op: "open_microphones t \<subseteq> X \<union> set [lm_next s..<lm_next t] \<union> being_replaced s"
    unfolding mic_inv_def by auto
  have m: "mic_current q cur ?u" if "KMicrophone q cur en dv af \<in> set (lm_pending s)" for q cur en dv af
    using mic_invD(1) [OF i that] by (simp add: mic_current_def e(2) st(1))
  show ?thesis
    using i m one op d unfolding mic_inv_def e o k by (simp add: st)
qed

lemma mic_initial: "keeping (mic_inv X) (initial_answered r spec preferred device answer)"
proof -
  define L where "L = (\<lambda>ids. ifS (\<lambda>s. lm_destroyed s \<or> lm_requestId s \<noteq> r)
      (thenS (forS ids stop_track) (thenS (finish_start r False) skipS))
      (thenS (upd (\<lambda>s. s\<lparr> lm_stream := Some ids \<rparr>))
        (thenS (local_tell EnumerateDevices) (thenS (local_await (KPostDevices r)) skipS))))"
  have "leads (\<lambda>s. mic_inv X s \<and> start_ready r s) (granted (stream_tracks microphone camera) L) (mic_inv X)" for microphone camera
  proof (rule granted_leads)
    let ?ks = "stream_tracks microphone camera"
    let ?R = "\<lambda>n t. \<exists>s. mic_inv X s \<and> start_ready r s \<and> lm_next s = n \<and> t = with_granted ?ks s"
    show "?R n (with_granted ?ks s)" if "mic_inv X s" "start_ready r s" "lm_next s = n" for n s
      using that by blast
    show "leads (?R n) (L [n..<n + length ?ks]) (mic_inv X)" for n
      unfolding L_def
    proof (rule leads_if)
      have new: "new_microphones ?ks n \<subseteq> set [n..<n + length ?ks]" by (auto simp: new_microphones_def)
      have held: "mic_inv (X \<union> new_microphones ?ks n) t" if "?R n t" for t using that mic_granted by blast
      have halt: "leads (?R n) (forS [n..<n + length ?ks] stop_track) (mic_inv X)"
      proof (rule leadsI)
        fix t
        assume "?R n t"
        then have "mic_inv (X \<union> new_microphones ?ks n - set [n..<n + length ?ks]) (fst (forS [n..<n + length ?ks] stop_track t))"
          by (rule leadsD [OF stop_all_leads held])
        then show "mic_inv X (fst (forS [n..<n + length ?ks] stop_track t))" by (rule mic_widen) (use new in blast)
      qed
      show "leads (\<lambda>s. ?R n s \<and> (lm_destroyed s \<or> lm_requestId s \<noteq> r))
          (thenS (forS [n..<n + length ?ks] stop_track) (thenS (finish_start r False) skipS)) (mic_inv X)"
        by (rule leads_then [OF leads_pre [OF halt]], simp)
          (auto intro!: leads_keeping [of "mic_inv X"] mic_rules mic_tail)
      have land: "mic_inv X (t\<lparr> lm_stream := Some [n..<n + length ?ks] \<rparr>)"
        if t: "?R n t" "\<not> (lm_destroyed t \<or> lm_requestId t \<noteq> r)" for t
      proof -
        obtain s where s: "mic_inv X s" "start_ready r s" "lm_next s = n" "t = with_granted ?ks s" using t by blast
        have "\<not> lm_destroyed s" "lm_requestId s = r" "lm_next t = n + length ?ks"
          using t(2) s(3,4) by (simp_all add: with_granted_def)
        then show ?thesis using mic_landed [of X s microphone camera] s by simp
      qed
      show "leads (\<lambda>s. ?R n s \<and> \<not> (lm_destroyed s \<or> lm_requestId s \<noteq> r))
          (thenS (upd (\<lambda>s. s\<lparr> lm_stream := Some [n..<n + length ?ks] \<rparr>))
            (thenS (local_tell EnumerateDevices) (thenS (local_await (KPostDevices r)) skipS))) (mic_inv X)"
        by (rule leads_then [OF leads_upd [where Q = "mic_inv X"]])
          (use land in \<open>auto intro!: leads_keeping [of "mic_inv X"] mic_rules simp: mic_relevant_def\<close>)
    qed
  qed
  then show ?thesis
    unfolding initial_answered_def seqS.simps
    by (intro resume_start [of _ r])
      (auto simp: L_def intro!: acquire_initial leads_keeping [of "mic_inv X"] mic_rules mic_tail
         simp: mic_view_def split: sum.split video_request.split)
qed

section \<open>Operations of the microphone\<close>

lemma acquire_microphone:
  "leads (\<lambda>s. mic_inv X s \<and> audio_conts s = [] \<and> lm_audioRecovery s \<and> mic_current r cur s)
     (acquireAudioTrack r cur enabled device after) (mic_inv X)"
  unfolding acquireAudioTrack_def seqS.simps
  by (intro leads_then [OF leads_out leads_then [OF await_microphone leads_skip]]) auto

lemma microphone_is_done: "leads (\<lambda>s. mic_inv X s \<and> audio_conts s = []) (microphone_done after) (mic_inv X)"
  unfolding microphone_done_def seqS.simps
proof (rule leads_then [OF leads_upd leads_keeping [OF keeping_thenS]])
  fix s
  assume s: "mic_inv X s \<and> audio_conts s = []"
  let ?t = "s\<lparr> lm_audioRecovery := False \<rparr>"
  have k: "is_kind ?t = is_kind s" by (simp add: is_kind_def fun_eq_iff)
  have e: "open_microphones ?t = open_microphones s" "being_replaced ?t = being_replaced s" "audio_conts ?t = []"
    "start_conts ?t = start_conts s"
    unfolding open_microphones_def k using s by (simp_all add: being_replaced_def audio_conts_def start_conts_def)
  have c: "mic_current r cur ?t = mic_current r cur s" for r cur unfolding mic_current_def first_track_def k by simp
  show "mic_inv X ?t" using s unfolding mic_inv_def k e c by simp
qed (auto intro: mic_tail keeping_skipS)

lemma mic_refresh: "keeping (mic_inv X) (refreshLocalAudioTrack devices after)"
proof -
  define Q where "Q r cur s = (mic_inv X s \<and> audio_conts s = [] \<and> mic_current r cur s)" for r cur s
  have flag: "leads (Q r cur) (upd (\<lambda>s. s\<lparr> lm_audioRecovery := True \<rparr>))
      (\<lambda>s. mic_inv X s \<and> audio_conts s = [] \<and> lm_audioRecovery s \<and> mic_current r cur s)" for r cur
  proof (rule leads_upd)
    fix s
    assume s: "Q r cur s"
    let ?t = "s\<lparr> lm_audioRecovery := True \<rparr>"
    have k: "is_kind ?t = is_kind s" by (simp add: is_kind_def fun_eq_iff)
    have e: "open_microphones ?t = open_microphones s" "being_replaced ?t = being_replaced s"
      "audio_conts ?t = audio_conts s" "start_conts ?t = start_conts s"
      unfolding open_microphones_def k by (simp_all add: being_replaced_def audio_conts_def start_conts_def)
    have c: "mic_current r cur ?t = mic_current r cur s" for r cur unfolding mic_current_def first_track_def k by simp
    show "mic_inv X ?t \<and> audio_conts ?t = [] \<and> lm_audioRecovery ?t \<and> mic_current r cur ?t"
      using s unfolding Q_def mic_inv_def k e c by simp
  qed
  have free: "audio_conts s = []" if "mic_inv X s" "\<not> lm_audioRecovery s" for s using that unfolding mic_inv_def by blast
  have acquire: "leads (\<lambda>s. (mic_inv X s \<and> cur = first_track s AudioTrack) \<and>
        \<not> (lm_stream s = None \<or> lm_requesting s \<or> lm_audioRecovery s))
      (letS (\<lambda>s. (lm_requestId s, case cur of None \<Rightarrow> True | Some i \<Rightarrow> tr_enabled (lm_tracks s i)))
         (\<lambda>(r, enabled). thenS (upd (\<lambda>s. s\<lparr> lm_audioRecovery := True \<rparr>))
            (thenS (acquireAudioTrack r cur enabled d after) skipS))) (mic_inv X)" for cur d
    by (rule leads_let)
      (auto intro!: leads_then [OF leads_pre [OF flag] leads_then [OF acquire_microphone leads_skip]]
         simp: Q_def free mic_current_def)
  show ?thesis
    unfolding refreshLocalAudioTrack_def seqS.simps
    apply (intro keeping_leads leads_let leads_if)
     apply (rule leads_keeping [OF mic_tail(3)], simp)
    apply (auto intro!: leads_keeping [OF mic_tail(3)] leads_pre [OF acquire] split: option.split)
    done
qed

text \<open>The new microphone takes the place of the current one in the stream.\<close>

lemma put_first_set: "j \<in> set ids \<Longrightarrow> \<not> k j \<Longrightarrow> j \<in> set (put_first k t ids)" "t \<in> set (put_first k t ids)"
  by (induction ids) auto

lemma put_first_kind: "k t \<Longrightarrow> filter k (put_first k t ids) = [t]"
  by (induction ids) (auto simp: filter_empty_conv)

lemma first_only: "length (filter k ids) \<le> 1 \<Longrightarrow> i \<in> set ids \<Longrightarrow> k i \<Longrightarrow> find k ids = Some i"
  by (induction ids) (auto simp: filter_empty_conv)

lemma mic_taken:
  assumes i: "mic_inv (insert t X) s" and a: "audio_conts s = []" and c: "mic_current (lm_requestId s) cur s"
    and t: "t < lm_next s" "is_kind s AudioTrack t"
  shows "mic_inv (X \<union> set_option cur)
    (s\<lparr> lm_stream := map_option (next_stream (is_kind s AudioTrack) (Some t)) (lm_stream s) \<rparr>)" (is "mic_inv _ ?u")
proof -
  obtain ids where ids: "lm_stream s = Some ids" "find (is_kind s AudioTrack) ids = cur"
    using c by (auto simp: mic_current_def first_track_def)
  let ?new = "put_first (is_kind s AudioTrack) t ids"
  have k: "is_kind ?u = is_kind s" by (simp add: is_kind_def fun_eq_iff)
  have h: "held_ids ?u = ?new" by (simp add: ids next_stream_def)
  have o: "open_microphones ?u = open_microphones s" unfolding open_microphones_def k by simp
  have b: "being_replaced ?u = being_replaced s" "audio_conts ?u = audio_conts s" "start_conts ?u = start_conts s"
    by (simp_all add: being_replaced_def audio_conts_def start_conts_def)
  have one: "length (filter (is_kind s AudioTrack) ids) \<le> 1" and below: "\<forall>i \<in> set ids. i < lm_next s"
    and st: "start_conts s = []" and sub: "open_microphones s \<subseteq> insert t X \<union> set ids \<union> being_replaced s"
    and d: "\<not> lm_destroyed s"
    using i ids(1) unfolding mic_inv_def by auto
  have "j \<in> set_option cur" if "j \<in> set ids" "is_kind s AudioTrack j" for j
    using first_only [OF one that] ids(2) by simp
  then have op: "open_microphones s \<subseteq> X \<union> set_option cur \<union> set ?new \<union> being_replaced s"
    using sub put_first_set(2) [of t "is_kind s AudioTrack" ids] unfolding open_microphones_def by blast
  have new_below: "\<forall>i \<in> set ?new. i < lm_next s" using below t(1) by (auto dest: put_first_mem)
  have none: "KMicrophone r cur' en dv af \<notin> set (lm_pending s)" for r cur' en dv af
    using a by (auto simp: audio_conts_def filter_empty_conv)
  have e: "lm_next ?u = lm_next s" "lm_requestId ?u = lm_requestId s" "lm_pending ?u = lm_pending s"
    "lm_destroyed ?u = lm_destroyed s" "lm_audioRecovery ?u = lm_audioRecovery s" by simp_all
  show ?thesis
    using i op new_below unfolding mic_inv_def k o b e h
    by (simp add: none put_first_kind [of "is_kind s AudioTrack", OF t(2)] st d)
qed

text \<open>A new microphone \<open>t\<close> has been handed out.\<close>

definition handed :: "nat set \<Rightarrow> nat \<Rightarrow> nat option \<Rightarrow> nat \<Rightarrow> local_media \<Rightarrow> bool" where
  "handed X r cur t s =
     (mic_inv (insert t X) s \<and> audio_conts s = [] \<and> lm_audioRecovery s \<and> mic_current r cur s \<and> t < lm_next s \<and>
      is_kind s AudioTrack t \<and> t \<notin> set (held_ids s))"

lemma handed_granted:
  assumes i: "mic_inv X s" and a: "audio_conts s = []" "lm_audioRecovery s" and c: "mic_current r cur s"
  shows "handed X r cur (lm_next s) (with_granted [(AudioTrack, g)] s)"
proof -
  have "new_microphones [(AudioTrack, g)] n = {n}" for n by (auto simp: new_microphones_def)
  then have "mic_inv (insert (lm_next s) X) (with_granted [(AudioTrack, g)] s)"
    using mic_granted [OF i, of "[(AudioTrack, g)]"] by simp
  moreover have "mic_current r cur (with_granted [(AudioTrack, g)] s)"
    using c unfolding mic_current_def granted_first [OF i] by (simp add: with_granted_def)
  moreover have "lm_next s \<notin> set (held_ids s)" using i unfolding mic_inv_def by blast
  ultimately show ?thesis
    using a unfolding handed_def audio_conts_def by (simp add: granted_kind) (simp add: with_granted_def)
qed

lemma handed_flag: "leads (handed X r cur t) (upd_track i (\<lambda>tr. tr\<lparr> tr_enabled := b \<rparr>)) (handed X r cur t)"
proof (rule leadsI)
  fix s
  assume s: "handed X r cur t s"
  let ?u = "fst (upd_track i (\<lambda>tr. tr\<lparr> tr_enabled := b \<rparr>) s)"
  have "mic_inv (insert t X) ?u" by (rule keepingD [OF mic_flag]) (use s in \<open>simp_all add: handed_def\<close>)
  moreover have k: "is_kind ?u = is_kind s" by (simp add: is_kind_def fun_eq_iff upd_track_def upd_def)
  moreover have "mic_current r cur ?u = mic_current r cur s"
    unfolding mic_current_def first_track_def k by (simp add: upd_track_def upd_def)
  ultimately show "handed X r cur t ?u"
    using s unfolding handed_def by (simp add: upd_track_def upd_def audio_conts_def)
qed

lemma stop_audio_conts: "audio_conts (fst (stop_track i s)) = audio_conts s"
  by (simp add: stop_track_def upd_track_def act_eval audio_conts_def)

lemma handed_stop: "leads (handed X r cur t) (stop_track t) (\<lambda>s. mic_inv X s \<and> audio_conts s = [])"
proof (rule leadsI)
  fix s
  assume s: "handed X r cur t s"
  then have "mic_inv (insert t X - {t}) (fst (stop_track t s))" by (intro leadsD [OF stop_leads]) (simp add: handed_def)
  then show "mic_inv X (fst (stop_track t s)) \<and> audio_conts (fst (stop_track t s)) = []"
    using s by (auto simp: stop_audio_conts handed_def intro: mic_widen)
qed

lemma handed_taken:
  "leads (\<lambda>s. handed X r cur t s \<and> lm_requestId s = r) (set_stream AudioTrack (Some t))
    (\<lambda>s. cur \<noteq> Some t \<and> mic_inv (X \<union> set_option cur) s \<and> audio_conts s = [] \<and> lm_audioRecovery s)"
  unfolding set_stream_def
proof (rule leads_upd)
  fix s
  assume s: "handed X r cur t s \<and> lm_requestId s = r"
  then have h: "mic_inv (insert t X) s" "audio_conts s = []" "mic_current (lm_requestId s) cur s" "t < lm_next s"
    "is_kind s AudioTrack t" "t \<notin> set (held_ids s)" "lm_audioRecovery s"
    by (auto simp: handed_def)
  have "cur \<noteq> Some t"
    using h(3,6) by (auto simp: mic_current_def first_track_def find_Some_iff)
  then show "cur \<noteq> Some t \<and>
      mic_inv (X \<union> set_option cur) (s\<lparr> lm_stream := map_option (next_stream (is_kind s AudioTrack) (Some t)) (lm_stream s) \<rparr>) \<and>
      audio_conts (s\<lparr> lm_stream := map_option (next_stream (is_kind s AudioTrack) (Some t)) (lm_stream s) \<rparr>) = [] \<and>
      lm_audioRecovery (s\<lparr> lm_stream := map_option (next_stream (is_kind s AudioTrack) (Some t)) (lm_stream s) \<rparr>)"
    using mic_taken [OF h(1-5)] h(2,7) by (simp add: audio_conts_def)
qed

lemma mic_microphone: "keeping (mic_inv X) (microphone_answered r cur enabled device after answer)"
proof -
  define R where "R = (\<lambda>s. mic_inv X s \<and> audio_conts s = [] \<and> lm_audioRecovery s \<and> mic_current r cur s)"
  define L where "L t = ifS (\<lambda>s. lm_destroyed s \<or> lm_stream s = None \<or> lm_requestId s \<noteq> r)
      (thenS (stop_track t) (thenS (microphone_done after) skipS))
      (thenS (set_stream AudioTrack (Some t))
        (thenS (local_tell (ReplaceAudio t)) (thenS (local_await (KMicrophoneReplaced cur t after)) skipS)))" for t
  have land: "leads (handed X r cur t) (L t) (mic_inv X)" for t
    unfolding L_def
  proof (rule leads_if)
    show "leads (\<lambda>s. handed X r cur t s \<and> (lm_destroyed s \<or> lm_stream s = None \<or> lm_requestId s \<noteq> r))
        (thenS (stop_track t) (thenS (microphone_done after) skipS)) (mic_inv X)"
      by (rule leads_then [OF leads_pre [OF handed_stop] leads_then [OF microphone_is_done leads_skip]]) auto
    show "leads (\<lambda>s. handed X r cur t s \<and> \<not> (lm_destroyed s \<or> lm_stream s = None \<or> lm_requestId s \<noteq> r))
        (thenS (set_stream AudioTrack (Some t))
          (thenS (local_tell (ReplaceAudio t)) (thenS (local_await (KMicrophoneReplaced cur t after)) skipS))) (mic_inv X)"
    proof (rule leads_then [OF leads_pre [OF handed_taken [where X = X and r = r and cur = cur and t = t]]])
      show "leads (\<lambda>s. cur \<noteq> Some t \<and> mic_inv (X \<union> set_option cur) s \<and> audio_conts s = [] \<and> lm_audioRecovery s)
          (thenS (local_tell (ReplaceAudio t)) (thenS (local_await (KMicrophoneReplaced cur t after)) skipS)) (mic_inv X)"
      proof (cases "cur = Some t")
        case False
        show ?thesis
          by (rule leads_then [OF leads_out leads_then [OF await_replaced [OF False] leads_skip]]) auto
      qed (simp add: leads_def)
    qed simp
  qed
  have granted: "leads R (granted [(AudioTrack, g)] (\<lambda>ids. let t = hd ids in
      thenS (upd_track t (\<lambda>tr. tr\<lparr> tr_enabled := enabled \<rparr>)) (thenS (L t) skipS))) (mic_inv X)" for g
    unfolding R_def Let_def
  proof (rule granted_leads [where R = "\<lambda>n. handed X r cur n"])
    show "handed X r cur n (with_granted [(AudioTrack, g)] s)"
      if "mic_inv X s" "audio_conts s = [] \<and> lm_audioRecovery s \<and> mic_current r cur s" "lm_next s = n" for n s
      using handed_granted [of X s r cur g] that by simp
    show "leads (handed X r cur n)
        (thenS (upd_track (hd [n..<n + length [(AudioTrack, g)]]) (\<lambda>tr. tr\<lparr> tr_enabled := enabled \<rparr>))
          (thenS (L (hd [n..<n + length [(AudioTrack, g)]])) skipS)) (mic_inv X)" for n
      by simp (intro leads_then [OF handed_flag leads_then [OF land leads_skip]])
  qed
  have "keeping (mic_inv X) (local_resume (KMicrophone r cur enabled device after)
      (case answer of None \<Rightarrow> if device \<noteq> None then acquireAudioTrack r cur enabled None after else microphone_done after
       | Some None \<Rightarrow> microphone_done after
       | Some (Some g) \<Rightarrow> granted [(AudioTrack, g)] (\<lambda>ids. let t = hd ids in
           thenS (upd_track t (\<lambda>tr. tr\<lparr> tr_enabled := enabled \<rparr>)) (thenS (L t) skipS))))"
  proof (rule resume_leads)
    fix s
    assume s: "mic_inv X s" "KMicrophone r cur enabled device after \<in> set (lm_pending s)"
    show "R (s\<lparr>lm_pending := remove1 (KMicrophone r cur enabled device after) (lm_pending s)\<rparr>)"
      using mic_removed(1-3) [OF s] mic_invD(1) [OF s] unfolding R_def
      by (simp add: mic_current_def first_track_def is_kind_def [abs_def])
  next
    show "leads R (case answer of None \<Rightarrow> if device \<noteq> None then acquireAudioTrack r cur enabled None after else microphone_done after
       | Some None \<Rightarrow> microphone_done after
       | Some (Some g) \<Rightarrow> granted [(AudioTrack, g)] (\<lambda>ids. let t = hd ids in
           thenS (upd_track t (\<lambda>tr. tr\<lparr> tr_enabled := enabled \<rparr>)) (thenS (L t) skipS))) (mic_inv X)"
      by (auto intro!: granted leads_pre [OF microphone_is_done] leads_pre [OF acquire_microphone]
          simp: R_def [THEN fun_cong] split: option.split)
  qed
  then show ?thesis unfolding microphone_answered_def L_def Let_def seqS.simps .
qed

lemma mic_replaced: "keeping (mic_inv X) (microphone_replaced cur t after)"
proof -
  have sp: "leads (\<lambda>s. mic_inv (X \<union> set_option cur) s \<and> audio_conts s = [] \<and> cur \<noteq> Some t)
      (stop_previous cur (Some t)) (\<lambda>s. mic_inv X s \<and> audio_conts s = [])"
  proof (rule leadsI)
    fix s
    assume s: "mic_inv (X \<union> set_option cur) s \<and> audio_conts s = [] \<and> cur \<noteq> Some t"
    show "mic_inv X (fst (stop_previous cur (Some t) s)) \<and> audio_conts (fst (stop_previous cur (Some t) s)) = []"
    proof (cases cur)
      case None
      then show ?thesis using s by (simp add: stop_previous_def skipS_def)
    next
      case (Some p)
      have "mic_inv (X \<union> set_option cur - {p}) (fst (stop_track p s))" by (rule leadsD [OF stop_leads]) (use s in blast)
      then have "mic_inv X (fst (stop_track p s))" by (rule mic_widen) (use Some in auto)
      then show ?thesis using s Some by (auto simp: stop_previous_def stop_audio_conts)
    qed
  qed
  have rest: "leads (\<lambda>s. mic_inv (X \<union> set_option cur) s \<and> audio_conts s = [] \<and> cur \<noteq> Some t)
      (thenS (stop_previous cur (Some t)) (thenS local_notify (thenS (microphone_done after) skipS))) (mic_inv X)"
    by (rule leads_then [OF sp leads_then [OF leads_out leads_then [OF microphone_is_done leads_skip]]])
  show ?thesis
    unfolding microphone_replaced_def seqS.simps
  proof (rule resume_leads [OF _ rest])
    fix s
    assume s: "mic_inv X s" "KMicrophoneReplaced cur t after \<in> set (lm_pending s)"
    have "{i. \<exists>n a. KMicrophoneReplaced cur t after = KMicrophoneReplaced (Some i) n a} = set_option cur" by auto
    moreover have "cur \<noteq> Some t" using s unfolding mic_inv_def by blast
    ultimately show "mic_inv (X \<union> set_option cur) (s\<lparr>lm_pending := remove1 (KMicrophoneReplaced cur t after) (lm_pending s)\<rparr>) \<and>
        audio_conts (s\<lparr>lm_pending := remove1 (KMicrophoneReplaced cur t after) (lm_pending s)\<rparr>) = [] \<and> cur \<noteq> Some t"
      using mic_removed(1,2) [OF s] by simp
  qed
qed

section \<open>Every event\<close>

lemma mic_listeners: "keeping (mic_inv X) handleDeviceChange" "keeping (mic_inv X) settle_fired"
  "keeping (mic_inv X) (devices_answered ds)" "keeping (mic_inv X) (cameras_detected ds)"
  "keeping (mic_inv X) (post_devices r ds joined)"
  unfolding handleDeviceChange_def settle_fired_def devices_answered_def cameras_detected_def refreshDevicesAfterChange_def
    post_devices_def seqS.simps
  by (auto intro!: mic_rules mic_tail mic_refresh simp: mic_view_def mic_relevant_def)

lemma mic_video_listeners: "keeping (mic_inv X) (visibility_changed h now)" "keeping (mic_inv X) (page_shown h now)"
  "keeping (mic_inv X) (heartbeat h now)"
  unfolding visibility_changed_def page_shown_def heartbeat_def consumeHiddenDuration_def seqS.simps
  by (auto intro!: mic_rules mic_cameras simp: mic_view_def)

lemma mic_track_ended: "keeping (mic_inv X) (track_ended i)"
  unfolding track_ended_def seqS.simps by (auto intro!: mic_rules mic_shares)

lemma mic_event: "keeping (mic_inv X) (local_step e)"
  by (cases e)
    (auto intro!: keeping_ifS keeping_skipS mic_start mic_stop_media mic_destroy mic_cameras mic_shares mic_listeners
       mic_video_listeners mic_track_ended mic_flag mic_start_devices mic_initial mic_microphone mic_replaced mic_camera
       mic_swapped mic_display_legacy mic_display_content)

lemma mic_new: "mic_inv {} (new_local_media setup facing now hiddenAt)"
  by (simp add: mic_inv_def new_local_media_def open_microphones_def audio_conts_def start_conts_def)

interpretation local_media: reactive local_event_step "mic_inv {}"
  by unfold_locales (auto simp: local_event_step_def intro: keepingD mic_event)

end
