(* ===== verification/Track_References.thy ===== *)
theory Track_References
  imports Local_Media_Proofs
begin

text \<open>
  Which tracks the engine still knows: a track is referenced by the local stream, by the fields of the screen
  share, by an \<open>onended\<close> handler or by a waiting continuation. The engine makes no reference to a track that is not
  referenced already, except to the tracks that the browser grants.
\<close>

section \<open>References\<close>

fun cont_refs :: "local_continuation \<Rightarrow> nat set" where
  "cont_refs (KMicrophone _ current _ _ _) = set_option current"
| "cont_refs (KMicrophoneReplaced current t _) = insert t (set_option current)"
| "cont_refs (KCamera use _ _) = set_option (camera_previous use)"
| "cont_refs (KSwap nx prev _) = set_option nx \<union> set_option prev"
| "cont_refs _ = {}"

fun effect_refs :: "local_effect \<Rightarrow> nat set" where
  "effect_refs (StopTrack i) = {i}"
| "effect_refs (AttachLocalTracks ids) = set ids"
| "effect_refs (ReplaceVideo nx) = set_option nx"
| "effect_refs (ReplaceAudio i) = {i}"
| "effect_refs (AttachContent i) = {i}"
| "effect_refs _ = {}"

definition track_refs :: "local_media \<Rightarrow> nat set" where
  "track_refs s =
     set (default [] (lm_stream s)) \<union> set_option (lm_screenTrack s) \<union> set_option (lm_contentTrack s) \<union>
     set (lm_onended s) \<union> (\<Union>k \<in> set (lm_pending s). cont_refs k)"

text \<open>The tracks \<open>T\<close> are live cameras that nothing refers to; the running statement holds the tracks \<open>X\<close>, none of
  them in \<open>T\<close>. Every track that is referred to was granted.\<close>

definition apart :: "nat set \<Rightarrow> nat set \<Rightarrow> local_media \<Rightarrow> bool" where
  "apart T X s =
     ((\<forall>i \<in> track_refs s \<union> X. i < lm_next s \<and> i \<notin> T) \<and>
      (\<forall>i \<in> T. i < lm_next s \<and> tr_live (lm_tracks s i) \<and> tr_kind (lm_tracks s i) = VideoTrack))"

abbreviation ignoring :: "nat set \<Rightarrow> nat set \<Rightarrow> local_act \<Rightarrow> bool" where
  "ignoring T X \<equiv> confined (apart T X) (\<lambda>e. effect_refs e \<inter> T = {})"

lemma apart_weaken: "apart T X s \<Longrightarrow> Y \<subseteq> X \<Longrightarrow> apart T Y s"
  unfolding apart_def by blast

lemma apart_held: "apart T X s \<Longrightarrow> Y \<subseteq> X \<union> track_refs s \<Longrightarrow> apart T (X \<union> Y) s"
  unfolding apart_def by blast

lemma apart_mono:
  assumes "apart T X s" and "track_refs s' \<subseteq> track_refs s \<union> X" and "lm_next s' = lm_next s"
    and "\<And>i. i \<in> T \<Longrightarrow> tr_live (lm_tracks s' i) = tr_live (lm_tracks s i)"
    and "\<And>i. i \<in> T \<Longrightarrow> tr_kind (lm_tracks s' i) = tr_kind (lm_tracks s i)"
  shows "apart T X s'"
proof -
  have a: "track_refs s' \<union> X \<subseteq> track_refs s \<union> X" using assms(2) by simp
  show ?thesis using subsetD [OF a] assms(1,3-5) by (simp add: apart_def)
qed

section \<open>Statements\<close>

lemma ignoring_upd:
  assumes "\<And>s. track_refs (f s) \<subseteq> track_refs s \<union> X" and "\<And>s. lm_next (f s) = lm_next s"
    and "\<And>s. lm_tracks (f s) = lm_tracks s"
  shows "ignoring T X (upd f)"
  by (rule confined_upd) (erule apart_mono, simp_all add: assms)

lemma ignoring_tell: "effect_refs e \<subseteq> X \<Longrightarrow> ignoring T X (local_tell e)"
  by (rule confined_out) (auto simp: apart_def)

lemma ignoring_media: "ignoring T X (out (\<lambda>s. GetUserMedia (spec s) a d))"
  by (rule confined_out) simp

lemma ignoring_await: "cont_refs k \<subseteq> X \<Longrightarrow> ignoring T X (local_await k)"
  unfolding local_await_def by (rule ignoring_upd) (auto simp: track_refs_def)

lemma ignoring_letS:
  assumes "\<And>x. ignoring T (X \<union> ids x) (k x)" and "\<And>s. ids (e s) \<subseteq> track_refs s \<union> X"
  shows "ignoring T X (letS e k)"
proof (rule confinedI)
  fix s
  assume s: "apart T X s"
  have "apart T (X \<union> ids (e s)) s" by (rule apart_held [OF s]) (use assms(2) [of s] in blast)
  from confinedD [OF assms(1) this]
  show "apart T X (fst (letS e k s)) \<and> list_all (\<lambda>e. effect_refs e \<inter> T = {}) (snd (letS e k s))"
    by (auto simp: letS_def intro: apart_weaken)
qed

lemma ignoring_resume:
  assumes "ignoring T (X \<union> cont_refs k) a"
  shows "ignoring T X (local_resume k a)"
proof (rule confinedI)
  fix s
  assume s: "apart T X s"
  let ?t = "s\<lparr> lm_pending := remove1 k (lm_pending s) \<rparr>"
  show "apart T X (fst (local_resume k a s)) \<and> list_all (\<lambda>e. effect_refs e \<inter> T = {}) (snd (local_resume k a s))"
  proof (cases "k \<in> set (lm_pending s)")
    case True
    have "cont_refs k \<subseteq> X \<union> track_refs s" using True unfolding track_refs_def by blast
    then have h: "apart T (X \<union> cont_refs k) s" by (rule apart_held [OF s])
    have "track_refs ?t \<subseteq> track_refs s" using set_remove1_subset [of k "lm_pending s"] unfolding track_refs_def by auto
    then have t: "apart T (X \<union> cont_refs k) ?t" by (intro apart_mono [OF h]) auto
    have "local_resume k a s = a ?t" using True by (simp add: local_resume_def act_eval)
    then show ?thesis using confinedD [OF assms t] by (metis Un_upper1 apart_weaken)
  qed (use s in \<open>simp add: local_resume_def act_eval\<close>)
qed

lemma ignoring_track: "i \<in> X \<Longrightarrow> ignoring T X (upd_track i f)"
  unfolding upd_track_def
proof (rule confined_upd)
  fix s
  assume i: "i \<in> X" and s: "apart T X s"
  then have "i \<notin> T" by (auto simp: apart_def)
  then show "apart T X (s\<lparr> lm_tracks := (lm_tracks s)(i := f (lm_tracks s i)) \<rparr>)"
    by (intro apart_mono [OF s]) (auto simp: track_refs_def)
qed

lemma ignoring_flag:
  "(\<And>t. tr_kind (f t) = tr_kind t) \<Longrightarrow> (\<And>t. tr_live (f t) = tr_live t) \<Longrightarrow> ignoring T X (upd_track i f)"
  unfolding upd_track_def by (rule confined_upd) (erule apart_mono, auto simp: track_refs_def)

lemma ignoring_stop: "i \<in> X \<Longrightarrow> ignoring T X (stop_track i)"
  unfolding stop_track_def seqS.simps
  by (intro confined_thenS confined_skipS ignoring_track ignoring_tell) auto

lemma ignoring_stop_all: "set ids \<subseteq> X \<Longrightarrow> ignoring T X (forS ids stop_track)"
  by (rule confined_forS) (auto intro: ignoring_stop)

lemma ignoring_previous: "set_option prev \<subseteq> X \<Longrightarrow> ignoring T X (stop_previous prev nx)"
  unfolding stop_previous_def by (auto intro: ignoring_stop confined_skipS split: option.split)

lemma stream_refs: "set (default [] (map_option (next_stream k nx) stream)) \<subseteq> set_option nx \<union> set (default [] stream)"
  by (cases stream) (auto dest!: next_stream_mem)

lemma ignoring_stream: "set_option nx \<subseteq> X \<Longrightarrow> ignoring T X (set_stream kind nx)"
  unfolding set_stream_def
  by (rule ignoring_upd) (use stream_refs in \<open>fastforce simp: track_refs_def\<close>)+

lemma ignoring_handler: "ignoring T X (drop_handler i)"
  unfolding drop_handler_def
  by (cases i) (auto intro!: confined_skipS ignoring_upd simp: track_refs_def)

lemma ignoring_granted:
  assumes "\<And>n. ignoring T (X \<union> {n..<n + length kinds}) (k [n..<n + length kinds])"
  shows "ignoring T X (granted kinds k)"
proof (rule confinedI)
  fix s
  assume s: "apart T X s"
  let ?n = "lm_next s"
  have g: "granted kinds k s = k [?n..<?n + length kinds] (with_granted kinds s)"
    unfolding granted_def with_granted_def by (simp add: act_eval)
  have r: "track_refs (with_granted kinds s) = track_refs s" by (simp add: track_refs_def with_granted_def)
  have "apart T (X \<union> {?n..<?n + length kinds}) (with_granted kinds s)"
    using s unfolding apart_def r by (auto simp: with_granted_def intro: trans_less_add1)
  from confinedD [OF assms this] show "apart T X (fst (granted kinds k s)) \<and>
      list_all (\<lambda>e. effect_refs e \<inter> T = {}) (snd (granted kinds k s))"
    unfolding g by (auto intro: apart_weaken)
qed

lemma first_ref: "set_option (first_track s kind) \<subseteq> track_refs s"
  by (auto simp: first_track_def track_refs_def find_Some_iff)

lemma ignoring_first:
  assumes "\<And>x. ignoring T (X \<union> set_option x) (k x)"
  shows "ignoring T X (letS (\<lambda>s. first_track s kind) k)"
  by (rule ignoring_letS [where ids = set_option, OF assms]) (use first_ref in blast)

lemma ignoring_first_with:
  assumes "\<And>x y. ignoring T (X \<union> set_option x) (k (x, y))"
  shows "ignoring T X (letS (\<lambda>s. (first_track s kind, g s)) k)"
  by (rule ignoring_letS [where ids = "\<lambda>p. set_option (fst p)"]) (use assms first_ref [THEN subsetD] in auto)

lemmas ignoring_rules =
  confined_skipS confined_thenS confined_ifS confined_whenS ignoring_resume ignoring_await ignoring_tell ignoring_media
  ignoring_stop ignoring_stop_all ignoring_previous ignoring_stream ignoring_handler ignoring_first ignoring_first_with
  ignoring_upd ignoring_granted

section \<open>Operations\<close>

lemma ignoring_swap:
  assumes "set_option nx \<subseteq> X" and "set_option prev \<subseteq> X"
  shows "ignoring T X (swapLocalVideoTrack nx prev use)"
proof -
  have after: "ignoring T X (after_swap use)"
    unfolding after_swap_def share_stopped_def seqS.simps
    by (auto intro!: ignoring_rules simp: track_refs_def split: swap_use.split)
  show ?thesis
    unfolding swapLocalVideoTrack_def seqS.simps using assms by (intro ignoring_rules after) simp_all
qed

lemma ignoring_swapped: "ignoring T X (local_video_swapped nx prev use)"
  unfolding local_video_swapped_def after_swap_def share_stopped_def seqS.simps
  by (auto intro!: ignoring_rules simp: track_refs_def split: swap_use.split)

lemma ignoring_acquire: "set_option (camera_previous use) \<subseteq> X \<Longrightarrow> ignoring T X (acquireCameraTrack use enabled)"
  unfolding acquireCameraTrack_def seqS.simps by (intro ignoring_rules) simp_all

lemma ignoring_camera_failed: "set_option (camera_previous use) \<subseteq> X \<Longrightarrow> ignoring T X (camera_failed use)"
  unfolding camera_failed_def
  by (cases use) (auto intro!: ignoring_rules ignoring_swap simp: track_refs_def camera_previous_def)

lemma ignoring_camera: "ignoring T X (camera_answered use first_try enabled answer)"
  unfolding camera_answered_def Let_def seqS.simps
  by (rule ignoring_resume)
    (auto intro!: ignoring_camera_failed ignoring_rules ignoring_flag ignoring_swap split: option.split bool.split)

lemma ignoring_refresh: "ignoring T X (refreshLocalVideoTrack b)"
  unfolding refreshLocalVideoTrack_def seqS.simps
  by (intro ignoring_first confined_ifS confined_skipS confined_letS confined_thenS ignoring_upd ignoring_acquire)
    (auto simp: track_refs_def camera_previous_def)

lemma ignoring_cameras: "ignoring T X releaseVideoTrack" "ignoring T X reacquireVideoTrack" "ignoring T X flipCamera"
  unfolding releaseVideoTrack_def reacquireVideoTrack_def flipCamera_def seqS.simps
  by (auto intro!: ignoring_rules ignoring_swap ignoring_acquire simp: track_refs_def camera_previous_def split: option.split)

lemma ignoring_release: "ignoring T X releaseLocalContentTrack"
  unfolding releaseLocalContentTrack_def seqS.simps
proof (intro confined_thenS confined_skipS)
  show "ignoring T X (letS lm_contentTrack (\<lambda>c. case c of None \<Rightarrow> skipS | Some i \<Rightarrow> stop_track i))"
    by (rule ignoring_letS [where ids = set_option])
      (auto intro!: ignoring_rules simp: track_refs_def split: option.split)
qed (auto intro!: ignoring_rules confined_letS simp: track_refs_def)

lemma ignoring_display_legacy: "ignoring T X (display_legacy answer)"
proof -
  have landed: "ignoring T X (legacy_share_landed t)" if "t \<in> X" for t X
    unfolding legacy_share_landed_def seqS.simps using that
    by (intro confined_ifS ignoring_first confined_thenS confined_skipS ignoring_track ignoring_swap ignoring_upd
        confined_letS ignoring_handler) (auto simp: track_refs_def)
  show ?thesis
    unfolding display_legacy_def by (auto intro!: ignoring_rules landed simp: track_refs_def)
qed

lemma ignoring_display_content: "ignoring T X (display_content answer)"
  unfolding display_content_def Let_def seqS.simps
  by (auto intro!: ignoring_rules ignoring_flag simp: track_refs_def)

lemma ignoring_shares: "ignoring T X startScreenShare" "ignoring T X stopScreenShare"
  "ignoring T X (content_attached a p n)" "ignoring T X content_detached"
  unfolding startScreenShare_def stopScreenShare_def stopScreenShareLegacy_def stopScreenShareIndependent_def
    content_attached_def content_detached_def share_stopped_def seqS.simps
  by (auto intro!: ignoring_rules ignoring_release ignoring_swap ignoring_acquire confined_letS [where e = lm_screenTrack]
      simp: track_refs_def camera_previous_def split: option.split)

section \<open>Starting and stopping\<close>

lemma ignoring_finish: "ignoring T X (finish_start r ok)"
  unfolding finish_start_def seqS.simps by (auto intro!: ignoring_rules simp: track_refs_def)

lemma ignoring_tail: "ignoring T X (start_tail r)"
  unfolding start_tail_def seqS.simps
  by (rule ignoring_letS [where ids = "\<lambda>stream. set (default [] stream)"])
    (auto intro!: ignoring_rules ignoring_finish simp: track_refs_def split: option.split)

lemma ignoring_start: "ignoring T X startLocalMediaInternal"
  unfolding startLocalMediaInternal_def seqS.simps
  by (auto intro!: ignoring_rules ignoring_finish confined_letS simp: track_refs_def)

lemma ignoring_start_devices: "ignoring T X (start_devices r devices)"
  unfolding start_devices_def acquireInitialMedia_def Let_def seqS.simps
  by (auto intro!: ignoring_rules confined_letS)

lemma ignoring_initial: "ignoring T X (initial_answered r spec preferred device answer)"
proof -
  have landed: "ignoring T Y (ifS (\<lambda>s. lm_destroyed s \<or> lm_requestId s \<noteq> r)
      (seqS [forS ids stop_track, finish_start r False])
      (seqS [upd (\<lambda>s. s\<lparr> lm_stream := Some ids \<rparr>), local_tell EnumerateDevices, local_await (KPostDevices r)]))"
    if "set ids \<subseteq> Y" for ids Y
    unfolding seqS.simps using that by (auto intro!: ignoring_rules ignoring_finish simp: track_refs_def)
  show ?thesis
    unfolding initial_answered_def acquireInitialMedia_def
    by (auto intro!: ignoring_rules ignoring_finish landed simp: track_refs_def
        split: sum.split option.split video_request.split)
qed

lemma ignoring_after: "ignoring T X (after_microphone after)" "ignoring T X (microphone_done after)"
  unfolding after_microphone_def microphone_done_def seqS.simps
  by (auto intro!: ignoring_rules ignoring_tail simp: track_refs_def split: option.split)

lemma ignoring_acquire_audio: "set_option current \<subseteq> X \<Longrightarrow> ignoring T X (acquireAudioTrack r current enabled device after)"
  unfolding acquireAudioTrack_def seqS.simps by (intro ignoring_rules) simp_all

lemma ignoring_refresh_audio: "ignoring T X (refreshLocalAudioTrack devices after)"
  unfolding refreshLocalAudioTrack_def seqS.simps
  by (rule ignoring_first)
    (auto intro!: confined_ifS confined_letS confined_thenS confined_skipS ignoring_upd ignoring_after
       ignoring_acquire_audio simp: track_refs_def split: option.split)

lemma ignoring_microphone: "ignoring T X (microphone_answered r current enabled device after answer)"
  unfolding microphone_answered_def Let_def seqS.simps
  by (rule ignoring_resume)
    (auto intro!: ignoring_rules ignoring_flag ignoring_after ignoring_acquire_audio split: option.split)

lemma ignoring_replaced: "ignoring T X (microphone_replaced current t after)"
  unfolding microphone_replaced_def seqS.simps by (auto intro!: ignoring_rules ignoring_after)

lemma ignoring_stop_media: "ignoring T X stopLocalMedia"
proof -
  have content: "ignoring T X (letS lm_contentTrack (\<lambda>c. case c of None \<Rightarrow> skipS | Some i \<Rightarrow> stop_track i))"
    by (rule ignoring_letS [where ids = set_option]) (auto intro!: ignoring_rules simp: track_refs_def split: option.split)
  have stream: "ignoring T X (letS lm_stream (\<lambda>stream. case stream of None \<Rightarrow> skipS
      | Some ids \<Rightarrow> seqS [forS ids stop_track, upd (\<lambda>s. s\<lparr> lm_stream := None \<rparr>)]))"
    unfolding seqS.simps
    by (rule ignoring_letS [where ids = "\<lambda>stream. set (default [] stream)"])
      (auto intro!: ignoring_rules simp: track_refs_def split: option.split)
  show ?thesis
    unfolding stopLocalMedia_def seqS.simps
    by (intro confined_thenS confined_skipS content stream [unfolded seqS.simps] confined_letS ignoring_handler ignoring_upd
        ignoring_tell) (auto simp: track_refs_def)
qed

section \<open>Every event\<close>

lemma ignoring_listeners: "ignoring T X handleDeviceChange" "ignoring T X settle_fired"
  "ignoring T X (devices_answered ds)" "ignoring T X (cameras_detected ds)" "ignoring T X (post_devices r ds joined)"
  unfolding handleDeviceChange_def settle_fired_def devices_answered_def cameras_detected_def refreshDevicesAfterChange_def
    post_devices_def detectCameras_def seqS.simps
  by (auto intro!: ignoring_rules ignoring_refresh_audio ignoring_tail simp: track_refs_def split: option.split)

lemma ignoring_video_listeners: "ignoring T X (visibility_changed h now)" "ignoring T X (page_shown h now)"
  "ignoring T X (heartbeat h now)"
  unfolding visibility_changed_def page_shown_def heartbeat_def consumeHiddenDuration_def seqS.simps
  by (auto intro!: confined_thenS confined_skipS confined_letS ignoring_upd ignoring_refresh simp: track_refs_def)

lemma ignoring_ended: "i \<notin> T \<Longrightarrow> ignoring T X (track_ended i)"
proof -
  assume i: "i \<notin> T"
  have "ignoring T X (upd_track i (\<lambda>t. t\<lparr> tr_live := False \<rparr>))"
    unfolding upd_track_def by (rule confined_upd) (erule apart_mono, use i in \<open>auto simp: track_refs_def\<close>)
  then show ?thesis
    unfolding track_ended_def seqS.simps by (intro confined_thenS confined_skipS confined_whenS ignoring_shares)
qed

text \<open>No event but the end of a track itself changes what the engine knows of it.\<close>

lemma ignoring_event:
  assumes "\<And>i. e = LTrackEnded i \<Longrightarrow> i \<notin> T"
  shows "ignoring T X (local_step e)"
  using assms
  by (cases e)
    (auto intro!: confined_ifS confined_skipS ignoring_start ignoring_stop_media ignoring_cameras ignoring_shares
       ignoring_listeners ignoring_video_listeners ignoring_ended ignoring_flag ignoring_start_devices ignoring_initial
       ignoring_microphone ignoring_replaced ignoring_camera ignoring_swapped ignoring_display_legacy
       ignoring_display_content confined_thenS ignoring_upd simp: destroy_local_def track_refs_def)

lemma ignoring_run:
  assumes "apart T {} s" and "\<And>i. i \<in> T \<Longrightarrow> LTrackEnded i \<notin> set es"
  shows "apart T {} (fst (run local_event_step s es)) \<and>
    list_all (\<lambda>e. effect_refs e \<inter> T = {}) (snd (run local_event_step s es))"
  using assms
proof (induction es arbitrary: s)
  case (Cons e es)
  have "ignoring T {} (local_step e)" by (rule ignoring_event) (use Cons.prems(2) in auto)
  from confinedD [OF this Cons.prems(1)] have h: "apart T {} (fst (local_event_step s e))"
    "list_all (\<lambda>e. effect_refs e \<inter> T = {}) (snd (local_event_step s e))"
    by (simp_all add: local_event_step_def)
  from Cons.IH [OF h(1)] Cons.prems(2) h(2) show ?case by (simp add: Let_def)
qed simp

interpretation granted_tracks: reactive local_event_step "apart {} {}"
  by unfold_locales (use ignoring_event [of _ "{}" "{}"] in \<open>auto simp: local_event_step_def dest: confinedD\<close>)

end
