(* ===== verification/Local_Media_Claims.thy ===== *)
theory Local_Media_Claims
  imports Track_References
begin

text \<open>
  The guarantees of local media: every open microphone is accounted for, a destroyed engine listens to nothing,
  and what happens to a camera that is granted late.
\<close>

section \<open>Open microphones\<close>

text \<open>The engine after a run of events from its construction.\<close>

definition local_run :: "media_setup \<Rightarrow> facing_mode \<Rightarrow> local_event list \<Rightarrow> local_media" where
  "local_run options facing es = fst (run local_event_step (new_local_media options facing 0 None) es)"

lemma local_run_inv: "mic_inv {} (local_run options facing es)"
  unfolding local_run_def by (rule local_media.run_inv [OF mic_new])

text \<open>C17: No microphone leaks: whatever happens, and in whatever order the requests for microphones are answered,
  every microphone that is open is in the local stream, or is the one that a replacement still running stops
  when it ends.\<close>

theorem microphones_accounted_for:
  "open_microphones (local_run options facing es)
    \<subseteq> set (default [] (lm_stream (local_run options facing es))) \<union> being_replaced (local_run options facing es)"
  using local_run_inv [of options facing es] unfolding mic_inv_def by blast

text \<open>At most two microphones are open at any time, and two only while one is being replaced.\<close>

theorem at_most_one_microphone:
  "card (open_microphones (local_run options facing es) - being_replaced (local_run options facing es)) \<le> 1"
proof -
  let ?s = "local_run options facing es"
  have i: "mic_inv {} ?s" by (rule local_run_inv)
  have "open_microphones ?s - being_replaced ?s \<subseteq> set (filter (is_kind ?s AudioTrack) (held_ids ?s))"
    using i unfolding mic_inv_def open_microphones_def by auto
  then have "card (open_microphones ?s - being_replaced ?s) \<le> length (filter (is_kind ?s AudioTrack) (held_ids ?s))"
    by (meson List.finite_set card_length card_mono le_trans)
  also have "\<dots> \<le> 1" using i unfolding mic_inv_def by blast
  finally show ?thesis .
qed

text \<open>C18: A destroyed engine is deaf: once the engine has been destroyed and no replacement is running, no
  microphone is open, however late a request for one is granted.\<close>

theorem destroyed_engine_is_deaf:
  assumes "lm_destroyed (local_run options facing es)" and "being_replaced (local_run options facing es) = {}"
  shows "open_microphones (local_run options facing es) = {}"
  using local_run_inv [of options facing es] assms unfolding mic_inv_def by auto

definition plain_setup :: media_setup where
  "plain_setup = \<lparr> mu_captureSupported = True, mu_initialVideoEnabled = True, mu_videoMediaEnabled = True,
     mu_independentContent = False, mu_userMedia = True, mu_displayMedia = True \<rparr>"

text \<open>The microphone is granted after the engine was destroyed.\<close>

definition late_start :: "local_event list" where
  "late_start = [LStart, LStartDevices 1 None, LDestroy,
     LInitial 1 (FacingVideo UserFacing) None None (Inr (Some (Some ''g''), True))]"

lemmas camera_eval = camera_answered_def camera_failed_def camera_previous_def camera_swap_def swapLocalVideoTrack_def
  set_stream_def next_stream_def stop_previous_def after_swap_def share_stopped_def is_kind_def stop_track_def upd_track_def
  local_await_def local_resume_def

lemma late_start_state:
  "lm_destroyed (local_run plain_setup UserFacing late_start)"
  "being_replaced (local_run plain_setup UserFacing late_start) = {}"
  "lm_next (local_run plain_setup UserFacing late_start) = 2"
proof -
  have "lm_pending (local_run plain_setup UserFacing late_start) = [KDetect]" by code_simp
  then show "being_replaced (local_run plain_setup UserFacing late_start) = {}" by (simp add: being_replaced_def)
qed code_simp+

theorem destroyed_engine_is_deaf_witness: "open_microphones (local_run plain_setup UserFacing late_start) = {}"
  by (rule destroyed_engine_is_deaf [OF late_start_state(1,2)])

section \<open>Cameras that are granted late\<close>

text \<open>The grant itself: the camera that came too late is known to nobody.\<close>

lemma late_camera_apart:
  assumes k: "KCamera use first_try enabled \<in> set (lm_pending s)" and none: "lm_stream s = None" and s: "apart {} {} s"
  shows "let r = local_event_step s (LCamera use first_try enabled (Some True)) in
    apart {lm_next s} {} (fst r) \<and> list_all (\<lambda>e. effect_refs e \<inter> {lm_next s} = {}) (snd r)"
proof -
  let ?r = "local_event_step s (LCamera use first_try enabled (Some True))"
  have sub: "set (remove1 c ks) \<subseteq> set ks" for c :: local_continuation and ks by (rule set_remove1_subset)
  have prev: "i < lm_next s" if "camera_previous use = Some i" for i
    using s k that by (force simp: apart_def track_refs_def)
  have live: "lm_next (fst ?r) = lm_next s + 1" "tr_live (lm_tracks (fst ?r) (lm_next s))"
    "tr_kind (lm_tracks (fst ?r) (lm_next s)) = VideoTrack"
    using k none prev
    by (cases use; force simp: local_event_step_def camera_eval granted_def act_eval split: option.split)+
  have fields: "lm_stream (fst ?r) = None" "lm_screenTrack (fst ?r) = lm_screenTrack s"
    "lm_contentTrack (fst ?r) = lm_contentTrack s" "lm_onended (fst ?r) = lm_onended s"
    "lm_pending (fst ?r) = remove1 (KCamera use first_try enabled) (lm_pending s)"
    using k none
    by (cases use; simp add: local_event_step_def camera_eval granted_def act_eval split: option.split)+
  have refs: "track_refs (fst ?r) \<subseteq> track_refs s" unfolding track_refs_def fields using none sub by auto
  have "list_all (\<lambda>e. effect_refs e \<inter> {lm_next s} = {}) (snd ?r)"
    using k none prev
    by (cases use; force simp: local_event_step_def camera_eval granted_def act_eval split: option.split)
  then show ?thesis using s refs live unfolding apart_def by (auto simp: Let_def less_Suc_eq)
qed

text \<open>C38: A camera granted after the media were stopped stays on: when the stream is gone by the time a requested
  camera is granted, then, whatever happens afterwards, short of the track ending by itself, the new track is a
  live camera for ever. No stream, field, \<open>onended\<close> handler or waiting continuation refers to it, and it is never
  stopped, nor put on a connection: no call the engine makes names it.\<close>

theorem late_camera_stays_on:
  assumes "KCamera use first_try enabled \<in> set (lm_pending (local_run options facing es))"
    and "lm_stream (local_run options facing es) = None"
    and "LTrackEnded (lm_next (local_run options facing es)) \<notin> set fs"
  shows "let camera = lm_next (local_run options facing es);
      r = run local_event_step (local_run options facing es) (LCamera use first_try enabled (Some True) # fs) in
    tr_live (lm_tracks (fst r) camera) \<and> tr_kind (lm_tracks (fst r) camera) = VideoTrack \<and>
    camera \<notin> track_refs (fst r) \<and> StopTrack camera \<notin> set (snd r) \<and> list_all (\<lambda>e. camera \<notin> effect_refs e) (snd r)"
proof -
  let ?s = "local_run options facing es" and ?g = "LCamera use first_try enabled (Some True)"
  have "apart {} {} ?s"
    unfolding local_run_def by (rule granted_tracks.run_inv) (simp add: apart_def track_refs_def new_local_media_def)
  note g = late_camera_apart [OF assms(1,2) this, unfolded Let_def]
  have "apart {lm_next ?s} {} (fst (run local_event_step (fst (local_event_step ?s ?g)) fs)) \<and>
      list_all (\<lambda>e. effect_refs e \<inter> {lm_next ?s} = {}) (snd (run local_event_step (fst (local_event_step ?s ?g)) fs))"
    by (rule ignoring_run) (use g assms(3) in auto)
  then show ?thesis using g by (force simp: Let_def apart_def list_all_iff)
qed

text \<open>The camera is turned off and on again, the engine is destroyed, and then the camera is granted; a new start,
  its microphone and a stop follow.\<close>

definition late_camera :: "local_event list" where
  "late_camera = [LStart, LStartDevices 1 None, LInitial 1 (FacingVideo UserFacing) None None (Inr (Some None, False)),
     LPostDevices 1 None False, LReacquire, LDestroy]"

definition later_calls :: "local_event list" where
  "later_calls = [LRelease, LStart, LStartDevices 3 None, LStop, LDestroy]"

theorem late_camera_stays_on_witness:
  "let camera = lm_next (local_run plain_setup UserFacing late_camera);
      r = run local_event_step (local_run plain_setup UserFacing late_camera)
        (LCamera CamReacquire True True (Some True) # later_calls) in
    tr_live (lm_tracks (fst r) camera) \<and> tr_kind (lm_tracks (fst r) camera) = VideoTrack \<and>
    camera \<notin> track_refs (fst r) \<and> StopTrack camera \<notin> set (snd r) \<and> list_all (\<lambda>e. camera \<notin> effect_refs e) (snd r)"
proof -
  have "KCamera CamReacquire True True \<in> set (lm_pending (local_run plain_setup UserFacing late_camera))"
    "lm_stream (local_run plain_setup UserFacing late_camera) = None"
    by code_simp+
  then show ?thesis by (rule late_camera_stays_on) (simp add: later_calls_def)
qed

lemma put_first_none: "(\<And>i. i \<in> set ids \<Longrightarrow> \<not> k i) \<Longrightarrow> put_first k t ids = ids @ [t]"
  by (induction ids) auto

lemma find_appended: "(\<And>i. i \<in> set ids \<Longrightarrow> \<not> k i) \<Longrightarrow> k t \<Longrightarrow> find k (ids @ [t]) = Some t"
  by (induction ids) auto

text \<open>Turning the camera off while it is being turned on again is lost: as long as the camera that was asked for
  has not been granted there is no video track, so releasing it does nothing at all, and when it is granted the
  camera is live in the stream.\<close>

theorem camera_off_is_lost:
  assumes "KCamera CamReacquire first_try enabled \<in> set (lm_pending s)" and "lm_stream s = Some ids"
    and "first_track s VideoTrack = None" and "\<forall>i \<in> set ids. i < lm_next s"
  shows "local_step LRelease s = (s, []) \<and>
    (let t = fst (local_step (LCamera CamReacquire first_try enabled (Some True)) (fst (local_step LRelease s))) in
       first_track t VideoTrack = Some (lm_next s) \<and> tr_live (lm_tracks t (lm_next s)))"
proof -
  have none: "\<not> is_kind s VideoTrack i" if "i \<in> set ids" for i
    using assms(2,3) that by (auto simp: first_track_def find_None_iff)
  have off: "local_step LRelease s = (s, [])"
    using assms(3) by (simp add: releaseVideoTrack_def ifS_def skipS_def letS_def)
  define t where "t = fst (local_step (LCamera CamReacquire first_try enabled (Some True)) s)"
  have old: "lm_tracks t i = lm_tracks s i" if "i < lm_next s" for i
    using assms(1,2) that by (simp add: t_def camera_eval granted_def act_eval)
  have new: "tr_kind (lm_tracks t (lm_next s)) = VideoTrack" "tr_live (lm_tracks t (lm_next s))"
    using assms(1,2) by (simp_all add: t_def camera_eval granted_def act_eval)
  have k: "\<not> is_kind t VideoTrack i" if "i \<in> set ids" for i
    using none [OF that] assms(4) that old by (simp add: is_kind_def)
  have "lm_stream t = Some (put_first (is_kind t VideoTrack) (lm_next s) ids)"
    using assms(1,2) by (simp add: t_def camera_eval granted_def act_eval is_kind_def [abs_def])
  then have "lm_stream t = Some (ids @ [lm_next s])" using put_first_none [of ids "is_kind t VideoTrack"] k by simp
  then have "first_track t VideoTrack = Some (lm_next s)"
    unfolding first_track_def using find_appended [of ids "is_kind t VideoTrack"] k new(1) by (simp add: is_kind_def)
  then show ?thesis using off new(2) by (simp add: t_def)
qed

definition camera_off_on :: "local_event list" where
  "camera_off_on = [LStart, LStartDevices 1 None, LInitial 1 (FacingVideo UserFacing) None None (Inr (Some None, True)),
     LPostDevices 1 None False, LRelease, LSwapped None (Some 1) SwapRelease, LReacquire]"

theorem camera_off_is_lost_witness:
  "local_step LRelease (local_run plain_setup UserFacing camera_off_on) = (local_run plain_setup UserFacing camera_off_on, []) \<and>
   (let s = local_run plain_setup UserFacing camera_off_on;
        t = fst (local_step (LCamera CamReacquire True True (Some True)) (fst (local_step LRelease s))) in
      first_track t VideoTrack = Some (lm_next s) \<and> tr_live (lm_tracks t (lm_next s)))"
proof -
  let ?s = "local_run plain_setup UserFacing camera_off_on"
  have "KCamera CamReacquire True True \<in> set (lm_pending ?s)" "lm_stream ?s = Some [0]" "first_track ?s VideoTrack = None"
    "\<forall>i \<in> set [0]. i < lm_next ?s"
    by code_simp+
  from camera_off_is_lost [OF this] show ?thesis unfolding Let_def .
qed

text \<open>When no camera is being acquired, releasing it does switch it off.\<close>

theorem released_camera_is_off:
  assumes "\<not> isLegacyScreenSharing s" and "lm_stream s = Some ids" and "first_track s VideoTrack = Some i"
    and "KSwap None (Some i) SwapRelease \<notin> set (lm_pending s)"
  shows "let r = run local_event_step s [LRelease, LSwapped None (Some i) SwapRelease] in
    \<not> tr_live (lm_tracks (fst r) i) \<and> first_track (fst r) VideoTrack = None \<and>
    snd r = [ReplaceVideo None, StopTrack i, LocalChange]"
proof -
  have "find (\<lambda>j. tr_kind (lm_tracks s j) = VideoTrack) (filter (\<lambda>j. tr_kind (lm_tracks s j) \<noteq> VideoTrack) ids) = None"
    by (simp add: find_None_iff)
  moreover have "first_track s VideoTrack = Some i" by (rule assms(3))
  ultimately show ?thesis
    using assms
    by (auto simp: local_event_step_def releaseVideoTrack_def swapLocalVideoTrack_def set_stream_def next_stream_def
       local_await_def local_video_swapped_def local_resume_def stop_previous_def after_swap_def stop_track_def
       upd_track_def first_track_def is_kind_def [abs_def] act_eval find_None_iff)
qed

end
