(* ===== verification/Media_Wire.thy ===== *)
theory Media_Wire
  imports Media_Engine
begin

text \<open>
  The tracks on the wire, \<^verbatim>\<open>client/packages/core/src/media/MediaEngine.ts\<close>: the transceivers of one peer connection,
  which of them carry the camera and the shared content, how local tracks get onto them, and which streams the
  remote tracks make up.

  A transceiver is known by its position in \<open>getTransceivers()\<close>: they are created, never removed. Replacing the
  track of a sender is a request of the browser: what the code does with its outcome waits in \<open>wi_pending\<close>, and the
  outcome is the event \<open>WReplaced\<close>. The local tracks and what the engine knows of the room come with each event.
\<close>

section \<open>Numbers in strings\<close>

text \<open>The value \<open>Number(s)\<close> of a string: a decimal literal or a prefixed integer between spaces, zero without one.\<close>

definition exponent_of :: "string \<Rightarrow> int option" where
  "exponent_of s =
     (case s of
        [] \<Rightarrow> Some 0
      | e # r \<Rightarrow>
          if e \<noteq> CHR ''e'' \<and> e \<noteq> CHR ''E'' then None
          else let (sign, ds) = (case r of c # r' \<Rightarrow> if c = CHR ''-'' then (-1, r') else if c = CHR ''+'' then (1, r') else (1, r)
                                 | [] \<Rightarrow> (1, r))
               in if ds = [] \<or> \<not> list_all is_digit ds then None else Some (sign * int (digits_value ds)))"

definition pow10 :: "int \<Rightarrow> rat" where
  "pow10 e = (if 0 \<le> e then 10 ^ nat e else 1 / 10 ^ nat (- e))"

definition decimal_literal :: "string \<Rightarrow> rat option" where
  "decimal_literal s =
     (let ip = takeWhile is_digit s; r = dropWhile is_digit s;
          (fp, r') = (case r of c # t \<Rightarrow> if c = CHR ''.'' then (takeWhile is_digit t, dropWhile is_digit t) else ([], r)
                      | [] \<Rightarrow> ([], r))
      in if ip = [] \<and> fp = [] then None
         else map_option (\<lambda>e. of_nat (digits_value (ip @ fp)) * pow10 (e - int (length fp))) (exponent_of r'))"

definition base_digit :: "char \<Rightarrow> nat option" where
  "base_digit c =
     (let n = (of_char c :: nat) in
      if 48 \<le> n \<and> n \<le> 57 then Some (n - 48)
      else if 97 \<le> n \<and> n \<le> 102 then Some (n - 87)
      else if 65 \<le> n \<and> n \<le> 70 then Some (n - 55) else None)"

definition base_literal :: "nat \<Rightarrow> string \<Rightarrow> rat option" where
  "base_literal b ds =
     (if ds = [] \<or> \<not> list_all (\<lambda>c. case base_digit c of Some d \<Rightarrow> d < b | None \<Rightarrow> False) ds then None
      else Some (of_nat (foldl (\<lambda>n c. b * n + default 0 (base_digit c)) 0 ds)))"

definition js_number_of :: "string \<Rightarrow> jsnum" where
  "js_number_of raw =
     (let s = js_trim raw; num = (\<lambda>r. case r of Some x \<Rightarrow> Fin x | None \<Rightarrow> NaN) in
      case s of
        [] \<Rightarrow> Fin 0
      | c # r \<Rightarrow>
          if c = CHR ''-'' then (if r = ''Infinity'' then NegInf else num (map_option uminus (decimal_literal r)))
          else if c = CHR ''+'' then (if r = ''Infinity'' then PosInf else num (decimal_literal r))
          else if s = ''Infinity'' then PosInf
          else if c = CHR ''0'' \<and> r \<noteq> [] \<and> hd r \<in> set ''xX'' then num (base_literal 16 (tl r))
          else if c = CHR ''0'' \<and> r \<noteq> [] \<and> hd r \<in> set ''oO'' then num (base_literal 8 (tl r))
          else if c = CHR ''0'' \<and> r \<noteq> [] \<and> hd r \<in> set ''bB'' then num (base_literal 2 (tl r))
          else num (decimal_literal s))"

text \<open>\<open>compareMids(a, b) < 0\<close> is \<open>mid_before a b\<close>: numbers by value, other mids by their text, none last.\<close>

definition mid_before :: "string option \<Rightarrow> string option \<Rightarrow> bool" where
  "mid_before a b =
     (if a = b then False
      else case (a, b) of
        (None, _) \<Rightarrow> False
      | (_, None) \<Rightarrow> True
      | (Some x, Some y) \<Rightarrow>
          (case (js_number_of x, js_number_of y) of
             (Fin m, Fin n) \<Rightarrow> if m \<noteq> n then m < n else x < y
           | _ \<Rightarrow> x < y))"

section \<open>State\<close>

record transceiver =
  tx_mid :: "string option"
  tx_receiver :: "track_kind option"
  tx_direction :: direction
  tx_current :: "direction option"
  tx_sender :: "nat option"

datatype video_role = CameraRole | ContentRole

text \<open>What waits for the replacement of a track; for a share that starts, the outcome is counted.\<close>

datatype replace_use =
    ForRole video_role bool
  | ForAudio
  | ForSwap bool
  | ForRestore
  | ForReject
  | ForCamera
  | ForMicrophone
  | ForStale "nat list" nat nat "nat list" bool
  | ForAttach nat "nat list" bool

datatype wire_continuation = KReplace nat "nat option" replace_use | KLocalMedia

datatype share_outcome = ShareAttached | SharePending | ShareFailed

record wire =
  wi_capable :: bool
  wi_trans :: "transceiver list"
  wi_audio :: "nat option"
  wi_camera :: "nat option"
  wi_content :: "nat option"
  wi_pendingContent :: bool
  wi_pendingNegotiation :: bool
  wi_remoteStream :: "nat list option"
  wi_stream :: "nat list option"
  wi_cameraStream :: "nat list option"
  wi_contentStream :: "nat list option"
  wi_pending :: "wire_continuation list"

record wire_env =
  we_videoMedia :: bool
  we_independent :: bool
  we_capture :: bool
  we_stream :: "nat list option"
  we_contentTrack :: "nat option"
  we_sharing :: bool
  we_kind :: "nat \<Rightarrow> track_kind"
  we_live :: "nat \<Rightarrow> bool"
  we_enabled :: "nat \<Rightarrow> bool"
  we_offers :: bool
  we_connected :: bool
  we_signaling :: sig_state

datatype wire_effect =
    ReplaceTrack nat "nat option"
  | ContentEncoding nat
  | CameraEncoding nat
  | AudioParameters
  | ScheduleNegotiation
  | CreateOffer
  | RequestOffer
  | ShareCounted share_outcome
  | StartLocalMedia
  | WireChange

type_synonym wire_act = "(wire, wire_effect) act"

definition new_wire :: "bool \<Rightarrow> wire" where
  "new_wire capable =
     \<lparr> wi_capable = capable, wi_trans = [], wi_audio = None, wi_camera = None, wi_content = None,
       wi_pendingContent = False, wi_pendingNegotiation = False, wi_remoteStream = None, wi_stream = None,
       wi_cameraStream = None, wi_contentStream = None, wi_pending = [] \<rparr>"

abbreviation wire_tell :: "wire_effect \<Rightarrow> wire_act" where
  "wire_tell e \<equiv> out (\<lambda>_. e)"

text \<open>The first local track of a kind: \<open>getAudioTracks()[0]\<close> and \<open>localCameraTrack\<close>.\<close>

definition local_of_kind :: "wire_env \<Rightarrow> track_kind \<Rightarrow> nat option" where
  "local_of_kind env kind = find (\<lambda>t. we_kind env t = kind) (default [] (we_stream env))"

definition live_local :: "wire_env \<Rightarrow> nat option \<Rightarrow> bool" where
  "live_local env t = (case t of None \<Rightarrow> False | Some i \<Rightarrow> we_live env i)"

definition tx :: "wire \<Rightarrow> nat \<Rightarrow> transceiver" where
  "tx w i = wi_trans w ! i"

definition upd_tx :: "nat \<Rightarrow> (transceiver \<Rightarrow> transceiver) \<Rightarrow> wire_act" where
  "upd_tx i f = upd (\<lambda>w. w\<lparr> wi_trans := (wi_trans w)[i := f (wi_trans w ! i)] \<rparr>)"

section \<open>Transceivers\<close>

definition sender_kind :: "wire_env \<Rightarrow> transceiver \<Rightarrow> track_kind option" where
  "sender_kind env t = map_option (we_kind env) (tx_sender t)"

definition isTransceiverKind :: "wire_env \<Rightarrow> transceiver \<Rightarrow> track_kind \<Rightarrow> bool" where
  "isTransceiverKind env t kind = (tx_receiver t = Some kind \<or> sender_kind env t = Some kind)"

definition findTransceiver :: "wire_env \<Rightarrow> wire \<Rightarrow> track_kind \<Rightarrow> nat option" where
  "findTransceiver env w kind =
     (let is = filter (\<lambda>i. isTransceiverKind env (tx w i) kind) [0..<length (wi_trans w)] in
      case find (\<lambda>i. tx_mid (tx w i) \<noteq> None) is of
        Some i \<Rightarrow> Some i
      | None \<Rightarrow> (case is of [] \<Rightarrow> None | i # _ \<Rightarrow> Some i))"

text \<open>\<open>getSenders().some(sender => sender.track?.kind === kind)\<close>.\<close>

definition sends_kind :: "wire_env \<Rightarrow> wire \<Rightarrow> track_kind \<Rightarrow> bool" where
  "sends_kind env w kind = list_ex (\<lambda>t. sender_kind env t = Some kind) (wi_trans w)"

definition add_transceiver :: "track_kind \<Rightarrow> nat option \<Rightarrow> direction \<Rightarrow> wire_act" where
  "add_transceiver kind track dir =
     upd (\<lambda>w. w\<lparr> wi_trans := wi_trans w @
       [\<lparr> tx_mid = None, tx_receiver = Some kind, tx_direction = dir, tx_current = None, tx_sender = track \<rparr>] \<rparr>)"

text \<open>\<open>pc.addTrack\<close>, where no transceiver of the kind could be reused.\<close>

definition add_track :: "wire_env \<Rightarrow> nat \<Rightarrow> wire_act" where
  "add_track env t = add_transceiver (we_kind env t) (Some t) SendRecv"

definition replace_track :: "nat \<Rightarrow> nat option \<Rightarrow> replace_use \<Rightarrow> wire_act" where
  "replace_track i track use =
     seqS [wire_tell (ReplaceTrack i track), upd (\<lambda>w. w\<lparr> wi_pending := wi_pending w @ [KReplace i track use] \<rparr>)]"

definition getRoleForTransceiver :: "wire \<Rightarrow> nat \<Rightarrow> video_role option" where
  "getRoleForTransceiver w i =
     (if wi_camera w = Some i then Some CameraRole else if wi_content w = Some i then Some ContentRole else None)"

definition role_of :: "wire \<Rightarrow> video_role \<Rightarrow> nat option" where
  "role_of w role = (case role of CameraRole \<Rightarrow> wi_camera w | ContentRole \<Rightarrow> wi_content w)"

definition open_direction :: "direction \<Rightarrow> bool" where
  "open_direction d = (d \<noteq> SendRecv \<and> d \<noteq> StoppedDir)"

definition send_recv :: "nat \<Rightarrow> wire_act" where
  "send_recv i =
     whenS (\<lambda>w. open_direction (tx_direction (tx w i))) (upd_tx i (\<lambda>t. t\<lparr> tx_direction := SendRecv \<rparr>))"

definition ensureRoleSendCapable :: "wire_env \<Rightarrow> nat \<Rightarrow> wire_act" where
  "ensureRoleSendCapable env i = whenS (\<lambda>_. we_videoMedia env) (send_recv i)"

definition deactivate :: "nat \<Rightarrow> wire_act" where
  "deactivate i =
     whenS (\<lambda>w. tx_direction (tx w i) \<noteq> InactiveDir \<and> tx_direction (tx w i) \<noteq> StoppedDir)
       (upd_tx i (\<lambda>t. t\<lparr> tx_direction := InactiveDir \<rparr>))"

definition wire_needsNegotiation :: "wire_env \<Rightarrow> wire \<Rightarrow> nat \<Rightarrow> bool" where
  "wire_needsNegotiation env w i =
     (case tx_sender (tx w i) of
        None \<Rightarrow> False
      | Some t \<Rightarrow> we_live env t \<and> we_enabled env t \<and>
          tx_current (tx w i) \<noteq> Some SendRecv \<and> tx_current (tx w i) \<noteq> Some SendOnly)"

section \<open>Tracks on role senders\<close>

definition forceStructuralRenegotiation :: "wire_env \<Rightarrow> wire_act" where
  "forceStructuralRenegotiation env =
     (if \<not> we_connected env \<or> we_signaling env \<noteq> Stable then upd (\<lambda>w. w\<lparr> wi_pendingNegotiation := True \<rparr>)
      else wire_tell (if we_offers env then CreateOffer else RequestOffer))"

text \<open>To the await; \<open>starting\<close> when a share that starts counts the outcome.\<close>

definition replaceRoleTrack :: "video_role \<Rightarrow> nat option \<Rightarrow> bool \<Rightarrow> wire_act" where
  "replaceRoleTrack role track starting =
     letS (\<lambda>w. role_of w role) (\<lambda>r. case r of
       None \<Rightarrow> skipS
     | Some i \<Rightarrow> replace_track i track (ForRole role starting))"

definition role_replaced :: "wire_env \<Rightarrow> nat \<Rightarrow> nat option \<Rightarrow> video_role \<Rightarrow> bool \<Rightarrow> bool \<Rightarrow> wire_act" where
  "role_replaced env i track role starting ok =
     seqS
       [whenS (\<lambda>_. track \<noteq> None) (ensureRoleSendCapable env i),
        (if ok then skipS
         else seqS
           [whenS (\<lambda>_. role = ContentRole \<and> track \<noteq> None) (upd (\<lambda>w. w\<lparr> wi_pendingContent := True \<rparr>)),
            forceStructuralRenegotiation env]),
        whenS (\<lambda>_. starting) (wire_tell (ShareCounted (if ok then ShareAttached else SharePending)))]"

definition attach_camera :: "wire_env \<Rightarrow> wire_act" where
  "attach_camera env =
     letS wi_camera (\<lambda>c. case c of
       None \<Rightarrow> skipS
     | Some i \<Rightarrow>
         whenS (\<lambda>w. live_local env (local_of_kind env VideoTrack) \<and> tx_sender (tx w i) \<noteq> local_of_kind env VideoTrack)
           (replaceRoleTrack CameraRole (local_of_kind env VideoTrack) False))"

definition wantsContent :: "wire_env \<Rightarrow> wire \<Rightarrow> bool" where
  "wantsContent env w = (wi_pendingContent w \<or> we_sharing env \<and> live_local env (we_contentTrack env))"

definition attach_content :: "wire_env \<Rightarrow> wire_act" where
  "attach_content env =
     letS wi_content (\<lambda>c. case (c, we_contentTrack env) of
       (Some i, Some t) \<Rightarrow>
         ifS (\<lambda>w. tx_sender (tx w i) = Some t) (upd (\<lambda>w. w\<lparr> wi_pendingContent := False \<rparr>))
           (whenS (wantsContent env)
             (seqS [upd (\<lambda>w. w\<lparr> wi_pendingContent := False \<rparr>), replaceRoleTrack ContentRole (Some t) False]))
     | _ \<Rightarrow> skipS)"

definition attachPendingLocalTracks :: "wire_env \<Rightarrow> wire_act" where
  "attachPendingLocalTracks env = seqS [attach_camera env, attach_content env]"

section \<open>Binding the roles\<close>

text \<open>The offer owner creates the camera, then the content.\<close>

definition ensureOwnerVideoTransceivers :: "wire_env \<Rightarrow> wire_act" where
  "ensureOwnerVideoTransceivers env =
     seqS
       [whenS (\<lambda>w. wi_camera w = None)
          (letS (\<lambda>w. length (wi_trans w)) (\<lambda>i. seqS
             [add_transceiver VideoTrack
                (if live_local env (local_of_kind env VideoTrack) then local_of_kind env VideoTrack else None) SendRecv,
              upd (\<lambda>w. w\<lparr> wi_camera := Some i \<rparr>)])),
        whenS (\<lambda>w. wi_content w = None)
          (letS (\<lambda>w. length (wi_trans w)) (\<lambda>i. seqS
             [add_transceiver VideoTrack None SendRecv, upd (\<lambda>w. w\<lparr> wi_content := Some i \<rparr>), wire_tell (ContentEncoding i),
              whenS (\<lambda>_. we_contentTrack env \<noteq> None) (upd (\<lambda>w. w\<lparr> wi_pendingContent := True \<rparr>))])),
        attachPendingLocalTracks env]"

definition setupIndependentPeerTracks :: "wire_env \<Rightarrow> wire_act" where
  "setupIndependentPeerTracks env =
     (if \<not> we_offers env then skipS
      else seqS
        [(case local_of_kind env AudioTrack of
            Some a \<Rightarrow>
              seqS
                [whenS (\<lambda>w. \<not> sends_kind env w AudioTrack)
                   (letS (\<lambda>w. length (wi_trans w)) (\<lambda>i. seqS
                      [add_transceiver AudioTrack (Some a) SendRecv, upd (\<lambda>w. w\<lparr> wi_audio := Some i \<rparr>)])),
                 wire_tell AudioParameters]
          | None \<Rightarrow>
              whenS (\<lambda>w. findTransceiver env w AudioTrack = None \<and> \<not> sends_kind env w AudioTrack)
                (letS (\<lambda>w. length (wi_trans w)) (\<lambda>i. seqS
                   [add_transceiver AudioTrack None RecvOnly, upd (\<lambda>w. w\<lparr> wi_audio := Some i \<rparr>)]))),
         ensureOwnerVideoTransceivers env])"

text \<open>The order of \<open>sort\<close>, which is stable.\<close>

fun insert_mid :: "(nat \<Rightarrow> string option) \<Rightarrow> nat \<Rightarrow> nat list \<Rightarrow> nat list" where
  "insert_mid mid i [] = [i]"
| "insert_mid mid i (j # js) = (if mid_before (mid j) (mid i) then j # insert_mid mid i js else i # j # js)"

definition sort_mids :: "(nat \<Rightarrow> string option) \<Rightarrow> nat list \<Rightarrow> nat list" where
  "sort_mids mid is = foldr (insert_mid mid) is []"

definition video_transceivers :: "wire_env \<Rightarrow> wire \<Rightarrow> nat list" where
  "video_transceivers env w =
     sort_mids (\<lambda>i. tx_mid (tx w i))
       (filter (\<lambda>i. isTransceiverKind env (tx w i) VideoTrack \<and> tx_current (tx w i) \<noteq> Some StoppedDir)
         [0..<length (wi_trans w)])"

text \<open>One round of the loop. A transceiver occurs once, so what this loop has bound is not met again.\<close>

definition bind_role :: "wire_env \<Rightarrow> nat \<Rightarrow> wire_act" where
  "bind_role env i =
     ifS (\<lambda>w. wi_camera w = Some i \<or> wi_content w = Some i) skipS
       (ifS (\<lambda>w. wi_camera w = None)
         (seqS [upd (\<lambda>w. w\<lparr> wi_camera := Some i \<rparr>), ensureRoleSendCapable env i])
         (ifS (\<lambda>w. wi_content w = None)
           (seqS [upd (\<lambda>w. w\<lparr> wi_content := Some i \<rparr>), ensureRoleSendCapable env i, wire_tell (ContentEncoding i)])
           (deactivate i)))"

definition assignRemoteVideoRoles :: "wire_env \<Rightarrow> wire_act" where
  "assignRemoteVideoRoles env =
     letS (video_transceivers env) (\<lambda>is. seqS [forS is (bind_role env), attachPendingLocalTracks env])"

section \<open>Audio and local media\<close>

definition attachAudioTrackToIndependentPeer :: "wire_env \<Rightarrow> wire_act" where
  "attachAudioTrackToIndependentPeer env =
     (case local_of_kind env AudioTrack of
        None \<Rightarrow> skipS
      | Some a \<Rightarrow>
          if \<not> we_live env a then skipS
          else letS (\<lambda>w. coalesce (wi_audio w) (coalesce (findTransceiver env w AudioTrack)
                   (find (\<lambda>i. sender_kind env (tx w i) = Some AudioTrack) [0..<length (wi_trans w)]))) (\<lambda>t. case t of
            None \<Rightarrow> skipS
          | Some i \<Rightarrow> seqS
              [upd (\<lambda>w. w\<lparr> wi_audio := Some i \<rparr>),
               whenS (\<lambda>w. tx_sender (tx w i) \<noteq> Some a) (replace_track i (Some a) ForAudio),
               send_recv i]))"

definition attachLocalTracksToIndependentPeer :: "wire_env \<Rightarrow> wire_act" where
  "attachLocalTracksToIndependentPeer env =
     seqS
       [attachAudioTrackToIndependentPeer env,
        (if we_offers env then ensureOwnerVideoTransceivers env else skipS),
        attachPendingLocalTracks env]"

section \<open>Legacy peers\<close>

definition ensureMediaTransceivers :: "wire_env \<Rightarrow> wire_act" where
  "ensureMediaTransceivers env =
     seqS
       [whenS (\<lambda>w. findTransceiver env w AudioTrack = None \<and> \<not> sends_kind env w AudioTrack)
          (add_transceiver AudioTrack None RecvOnly),
        whenS (\<lambda>w. we_videoMedia env \<and> findTransceiver env w VideoTrack = None \<and> \<not> sends_kind env w VideoTrack)
          (add_transceiver VideoTrack None (if we_capture env then SendRecv else RecvOnly))]"

definition rejectRemoteVideoTransceivers :: "wire_env \<Rightarrow> wire_act" where
  "rejectRemoteVideoTransceivers env =
     letS (\<lambda>w. filter (\<lambda>i. isTransceiverKind env (tx w i) VideoTrack) [0..<length (wi_trans w)]) (\<lambda>is.
       forS is (\<lambda>i. seqS
         [deactivate i,
          whenS (\<lambda>w. sender_kind env (tx w i) = Some VideoTrack) (replace_track i None ForReject)]))"

definition applyLegacyContentSenderEncoding :: "wire_env \<Rightarrow> nat \<Rightarrow> wire_act" where
  "applyLegacyContentSenderEncoding env i =
     (if \<not> we_independent env \<or> \<not> we_sharing env then skipS else wire_tell (ContentEncoding i))"

text \<open>To the await; \<open>starting\<close> when a share that starts counts the outcome.\<close>

definition swapLegacyPeerVideoTrack :: "wire_env \<Rightarrow> nat \<Rightarrow> bool \<Rightarrow> wire_act" where
  "swapLegacyPeerVideoTrack env track starting =
     letS (\<lambda>w. findTransceiver env w VideoTrack) (\<lambda>t. case t of
       Some i \<Rightarrow> replace_track i (Some track) (ForSwap starting)
     | None \<Rightarrow>
         if we_stream env = None then whenS (\<lambda>_. starting) (wire_tell (ShareCounted ShareFailed))
         else letS (\<lambda>w. length (wi_trans w)) (\<lambda>i. seqS
           [add_track env track, applyLegacyContentSenderEncoding env i, wire_tell ScheduleNegotiation,
            whenS (\<lambda>_. starting) (wire_tell (ShareCounted ShareAttached))]))"

definition legacy_swapped :: "wire_env \<Rightarrow> nat \<Rightarrow> bool \<Rightarrow> bool \<Rightarrow> wire_act" where
  "legacy_swapped env i starting ok =
     (if ok then
        seqS
          [applyLegacyContentSenderEncoding env i,
           letS (\<lambda>w. open_direction (tx_direction (tx w i))) (\<lambda>needsNegotiation. seqS
             [ensureRoleSendCapable env i, whenS (\<lambda>_. needsNegotiation) (wire_tell ScheduleNegotiation)]),
           whenS (\<lambda>_. starting) (wire_tell (ShareCounted ShareAttached))]
      else whenS (\<lambda>_. starting) (wire_tell (ShareCounted ShareFailed)))"

definition attachActiveShareToLegacyPeer :: "wire_env \<Rightarrow> wire_act" where
  "attachActiveShareToLegacyPeer env =
     (if \<not> we_independent env \<or> \<not> we_sharing env then skipS
      else case we_contentTrack env of
        None \<Rightarrow> skipS
      | Some t \<Rightarrow> if we_live env t then swapLegacyPeerVideoTrack env t False else skipS)"

definition restoreLegacyPeerCameraTrack :: "wire_env \<Rightarrow> wire_act" where
  "restoreLegacyPeerCameraTrack env =
     letS (\<lambda>w. findTransceiver env w VideoTrack) (\<lambda>t. case t of
       None \<Rightarrow> skipS
     | Some i \<Rightarrow>
         replace_track i (if live_local env (local_of_kind env VideoTrack) then local_of_kind env VideoTrack else None) ForRestore)"

section \<open>Attaching the local tracks to a legacy peer\<close>

text \<open>The senders that still carry a track of the kind of \<open>t\<close> are detached first, one after the other.\<close>

definition detach_next :: "wire_env \<Rightarrow> nat list \<Rightarrow> nat \<Rightarrow> nat \<Rightarrow> nat list \<Rightarrow> bool \<Rightarrow> wire_act" where
  "detach_next env senders i t todo needed =
     letS (\<lambda>w. dropWhile (\<lambda>j. j = i \<or> sender_kind env (tx w j) \<noteq> Some (we_kind env t)) senders) (\<lambda>rest. case rest of
       j # js \<Rightarrow> replace_track j None (ForStale js i t todo needed)
     | [] \<Rightarrow> replace_track i (Some t) (ForAttach t todo needed))"

fun attach_tracks :: "wire_env \<Rightarrow> nat list \<Rightarrow> bool \<Rightarrow> wire_act" where
  "attach_tracks env [] needed = whenS (\<lambda>_. needed) (wire_tell ScheduleNegotiation)"
| "attach_tracks env (t # todo) needed =
     letS (\<lambda>w. findTransceiver env w (we_kind env t)) (\<lambda>found. case found of
       Some i \<Rightarrow>
         ifS (\<lambda>w. sender_kind env (tx w i) = Some (we_kind env t))
           (letS (\<lambda>w. wire_needsNegotiation env w i) (\<lambda>n. attach_tracks env todo (n \<or> needed)))
           (letS (\<lambda>w. [0..<length (wi_trans w)]) (\<lambda>senders. detach_next env senders i t todo needed))
     | None \<Rightarrow>
         ifS (\<lambda>w. sends_kind env w (we_kind env t)) (attach_tracks env todo needed)
           (seqS [add_track env t, attach_tracks env todo True]))"

definition attachLocalTracksToPeer :: "wire_env \<Rightarrow> wire_act" where
  "attachLocalTracksToPeer env = attach_tracks env (default [] (we_stream env)) False"

definition track_attached :: "wire_env \<Rightarrow> nat \<Rightarrow> nat list \<Rightarrow> bool \<Rightarrow> bool \<Rightarrow> wire_act" where
  "track_attached env i todo needed ok =
     (if \<not> ok then attach_tracks env todo needed
      else letS (\<lambda>w. wire_needsNegotiation env w i \<or> open_direction (tx_direction (tx w i))) (\<lambda>n. seqS
        [send_recv i, attach_tracks env todo (n \<or> needed)]))"

section \<open>A peer is set up, local tracks change\<close>

definition setup_legacy_peer :: "wire_env \<Rightarrow> wire_act" where
  "setup_legacy_peer env =
     seqS
       [(case we_stream env of
           None \<Rightarrow> skipS
         | Some ts \<Rightarrow> seqS [forS ts (add_track env), wire_tell AudioParameters]),
        ensureMediaTransceivers env,
        attachActiveShareToLegacyPeer env]"

text \<open>The bodies of the loops of \<open>replaceVideoTrackOnAllPeers\<close> and \<open>replaceAudioTrackOnAllPeers\<close>.\<close>

definition replace_video :: "wire_env \<Rightarrow> nat option \<Rightarrow> wire_act" where
  "replace_video env newTrack =
     ifS wi_capable
       (ifS (\<lambda>w. wi_camera w \<noteq> None) (replaceRoleTrack CameraRole newTrack False)
         (if newTrack \<noteq> None \<and> we_offers env
          then seqS [ensureOwnerVideoTransceivers env, wire_tell ScheduleNegotiation] else skipS))
       (if we_independent env \<and> we_sharing env then skipS
        else letS (\<lambda>w. findTransceiver env w VideoTrack) (\<lambda>t. case t of
          Some i \<Rightarrow> replace_track i newTrack ForCamera
        | None \<Rightarrow> (case newTrack of
            None \<Rightarrow> skipS
          | Some n \<Rightarrow> if we_stream env = None then skipS else seqS [add_track env n, wire_tell ScheduleNegotiation])))"

definition video_replaced :: "wire_env \<Rightarrow> nat \<Rightarrow> nat option \<Rightarrow> bool \<Rightarrow> wire_act" where
  "video_replaced env i newTrack ok =
     (if \<not> ok \<or> newTrack = None then skipS
      else seqS
        [whenS (\<lambda>_. we_videoMedia env) (send_recv i),
         whenS (\<lambda>w. wire_needsNegotiation env w i) (wire_tell ScheduleNegotiation)])"

definition replace_audio :: "wire_env \<Rightarrow> nat \<Rightarrow> wire_act" where
  "replace_audio env newTrack =
     letS (\<lambda>w. findTransceiver env w AudioTrack) (\<lambda>t. case t of
       Some i \<Rightarrow> replace_track i (Some newTrack) ForMicrophone
     | None \<Rightarrow> seqS [add_track env newTrack, wire_tell ScheduleNegotiation])"

definition audio_replaced :: "wire_env \<Rightarrow> nat \<Rightarrow> bool \<Rightarrow> wire_act" where
  "audio_replaced env i ok =
     (if \<not> ok then skipS
      else letS (\<lambda>w. wire_needsNegotiation env w i \<or> open_direction (tx_direction (tx w i))) (\<lambda>n. seqS
        [send_recv i, whenS (\<lambda>_. n) (wire_tell ScheduleNegotiation)]))"

text \<open>The bodies of the loops of \<open>startScreenShareIndependent\<close> and \<open>stopScreenShareIndependent\<close>.\<close>

definition start_share_on_peer :: "wire_env \<Rightarrow> nat \<Rightarrow> wire_act" where
  "start_share_on_peer env displayTrack =
     ifS wi_capable
       (ifS (\<lambda>w. wi_content w \<noteq> None) (replaceRoleTrack ContentRole (Some displayTrack) True)
         (seqS [upd (\<lambda>w. w\<lparr> wi_pendingContent := True \<rparr>), wire_tell (ShareCounted SharePending)]))
       (swapLegacyPeerVideoTrack env displayTrack True)"

definition stop_share_on_peer :: "wire_env \<Rightarrow> wire_act" where
  "stop_share_on_peer env =
     ifS wi_capable
       (seqS
         [upd (\<lambda>w. w\<lparr> wi_pendingContent := False \<rparr>),
          whenS (\<lambda>w. wi_content w \<noteq> None) (replaceRoleTrack ContentRole None False)])
       (restoreLegacyPeerCameraTrack env)"

section \<open>Remote tracks\<close>

text \<open>A stream is the list of its tracks; a track is added to it once.\<close>

definition with_track :: "nat \<Rightarrow> nat list option \<Rightarrow> nat list" where
  "with_track t stream = (let ts = default [] stream in if t \<in> set ts then ts else ts @ [t])"

definition route_video :: "nat \<Rightarrow> nat list option \<Rightarrow> video_role \<Rightarrow> wire_act" where
  "route_video track stream role =
     seqS
       [(case role of
           ContentRole \<Rightarrow> upd (\<lambda>w. w\<lparr> wi_contentStream := Some (default [track] stream) \<rparr>)
         | CameraRole \<Rightarrow>
             seqS
               [upd (\<lambda>w. w\<lparr> wi_cameraStream := Some (default [track] stream) \<rparr>),
                letS (\<lambda>w. with_track track (wi_remoteStream w)) (\<lambda>aggregate.
                  upd (\<lambda>w. w\<lparr> wi_remoteStream := Some aggregate, wi_stream := Some aggregate \<rparr>))]),
        wire_tell WireChange]"

definition handleIndependentRemoteVideoTrack :: "wire_env \<Rightarrow> nat \<Rightarrow> nat \<Rightarrow> nat list option \<Rightarrow> wire_act" where
  "handleIndependentRemoteVideoTrack env i track stream =
     letS (\<lambda>w. getRoleForTransceiver w i) (\<lambda>role. case role of
       Some r \<Rightarrow> route_video track stream r
     | None \<Rightarrow>
         seqS
           [assignRemoteVideoRoles env,
            letS (\<lambda>w. getRoleForTransceiver w i) (\<lambda>role. case role of
              Some r \<Rightarrow> route_video track stream r | None \<Rightarrow> skipS)])"

text \<open>\<open>ontrack\<close>: the transceiver, the track, its kind, and the tracks of the first stream it comes with.\<close>

definition on_track :: "wire_env \<Rightarrow> nat \<Rightarrow> nat \<Rightarrow> track_kind \<Rightarrow> nat list option \<Rightarrow> wire_act" where
  "on_track env i track kind stream =
     ifS (\<lambda>w. kind = VideoTrack \<and> \<not> we_videoMedia env) skipS
       (ifS (\<lambda>w. wi_capable w \<and> kind = VideoTrack) (handleIndependentRemoteVideoTrack env i track stream)
         (letS (\<lambda>w. case stream of Some ts \<Rightarrow> ts | None \<Rightarrow> with_track track (wi_remoteStream w)) (\<lambda>remote. seqS
           [upd (\<lambda>w. w\<lparr> wi_remoteStream := Some remote, wi_stream := Some remote \<rparr>), wire_tell WireChange])))"

definition getRemoteCameraStream :: "wire \<Rightarrow> nat list option" where
  "getRemoteCameraStream w = coalesce (wi_cameraStream w) (wi_stream w)"

section \<open>Sender encodings\<close>

text \<open>The encodings of a sender: the two limits the code sets and the other members. Reading them can fail, and a sender
  may not have them at all; then nothing is set.\<close>

record encoding =
  en_maxBitrate :: "rat option"
  en_maxFramerate :: "rat option"
  en_members :: "(string \<times> json) list"

definition CONTENT_MAX_BITRATE :: rat where "CONTENT_MAX_BITRATE = 1500000"
definition CONTENT_MAX_FRAMERATE :: rat where "CONTENT_MAX_FRAMERATE = 5"

text \<open>What the calls pass to \<open>setParameters\<close>, if anything, given what \<open>getParameters\<close> returned.\<close>

definition override_first :: "(encoding \<Rightarrow> encoding) \<Rightarrow> encoding list \<Rightarrow> encoding list" where
  "override_first f encodings =
     (case (if encodings = [] then [\<lparr> en_maxBitrate = None, en_maxFramerate = None, en_members = [] \<rparr>] else encodings) of
        [] \<Rightarrow> [] | e # rest \<Rightarrow> f e # rest)"

definition setSenderVideoEncoding :: "rat option \<Rightarrow> rat option \<Rightarrow> encoding list option \<Rightarrow> encoding list option" where
  "setSenderVideoEncoding bitrate framerate params =
     map_option (override_first (\<lambda>e. e\<lparr> en_maxBitrate := bitrate, en_maxFramerate := framerate \<rparr>)) params"

definition restoreLegacySenderCameraEncoding :: "encoding list option \<Rightarrow> encoding list option" where
  "restoreLegacySenderCameraEncoding params = setSenderVideoEncoding None None params"

definition applyContentSenderEncoding :: "encoding list option \<Rightarrow> encoding list option" where
  "applyContentSenderEncoding params =
     map_option
       (override_first (\<lambda>e. e\<lparr> en_maxBitrate := Some CONTENT_MAX_BITRATE, en_maxFramerate := Some CONTENT_MAX_FRAMERATE \<rparr>))
       params"

definition applyAudioSenderParameters :: "encoding list option \<Rightarrow> encoding list option" where
  "applyAudioSenderParameters params =
     Option.bind params (\<lambda>encodings. case encodings of
        [] \<Rightarrow> None
      | e # rest \<Rightarrow> if en_maxBitrate e = Some 32000 then None else Some (e\<lparr> en_maxBitrate := Some 32000 \<rparr> # rest))"

section \<open>The wire as a state machine\<close>

text \<open>After a description was applied, as the part of \<open>applyRemoteOffer\<close> up to the answer does.\<close>

definition bind_if_capable :: "wire_env \<Rightarrow> wire_act" where
  "bind_if_capable env = whenS (\<lambda>w. wi_capable w \<and> we_videoMedia env) (assignRemoteVideoRoles env)"

definition remote_applied :: "wire_env \<Rightarrow> wire_act" where
  "remote_applied env =
     seqS
       [(if we_videoMedia env then skipS else rejectRemoteVideoTransceivers env),
        (if we_stream env = None
         then seqS [wire_tell StartLocalMedia, upd (\<lambda>w. w\<lparr> wi_pending := wi_pending w @ [KLocalMedia] \<rparr>)]
         else seqS
           [ifS (\<lambda>w. wi_capable w \<and> we_videoMedia env) (attachAudioTrackToIndependentPeer env) (attachLocalTracksToPeer env),
            bind_if_capable env])]"

definition remote_media_started :: "wire_env \<Rightarrow> wire_act" where
  "remote_media_started env =
     whenS (\<lambda>w. KLocalMedia \<in> set (wi_pending w))
       (seqS [upd (\<lambda>w. w\<lparr> wi_pending := remove1 KLocalMedia (wi_pending w) \<rparr>), bind_if_capable env])"

definition replaced :: "wire_env \<Rightarrow> nat \<Rightarrow> nat option \<Rightarrow> replace_use \<Rightarrow> bool \<Rightarrow> wire_act" where
  "replaced env i track use ok =
     whenS (\<lambda>w. KReplace i track use \<in> set (wi_pending w))
       (seqS
         [upd (\<lambda>w. w\<lparr> wi_pending := remove1 (KReplace i track use) (wi_pending w) \<rparr>),
          whenS (\<lambda>_. ok) (upd_tx i (\<lambda>t. t\<lparr> tx_sender := track \<rparr>)),
          (case use of
             ForRole role starting \<Rightarrow> role_replaced env i track role starting ok
           | ForAudio \<Rightarrow> skipS
           | ForSwap starting \<Rightarrow> legacy_swapped env i starting ok
           | ForRestore \<Rightarrow> whenS (\<lambda>_. ok) (wire_tell (CameraEncoding i))
           | ForReject \<Rightarrow> skipS
           | ForCamera \<Rightarrow> video_replaced env i track ok
           | ForMicrophone \<Rightarrow> audio_replaced env i ok
           | ForStale rest j t todo needed \<Rightarrow> detach_next env rest j t todo needed
           | ForAttach t todo needed \<Rightarrow> track_attached env i todo needed ok)])"

text \<open>
  What the browser may do to the transceivers when a description is applied: those there are keep their place,
  their kind and their sender, and new ones are added; mids and directions change.
\<close>

definition same_object :: "transceiver \<Rightarrow> transceiver \<Rightarrow> bool" where
  "same_object t t' = (tx_receiver t' = tx_receiver t \<and> tx_sender t' = tx_sender t)"

definition browser_update :: "transceiver list \<Rightarrow> transceiver list \<Rightarrow> bool" where
  "browser_update ts ts' =
     (length ts \<le> length ts' \<and> list_all2 same_object ts (take (length ts) ts') \<and>
      list_all (\<lambda>t. tx_sender t = None \<and> tx_receiver t \<noteq> None) (drop (length ts) ts'))"

datatype wire_event =
    WSetup
  | WDescription "transceiver list"
  | WRemoteApplied
  | WRemoteMediaStarted
  | WLocalMedia
  | WReplaceVideo "nat option"
  | WReplaceAudio nat
  | WStartShare nat
  | WStopShare
  | WTrack nat nat track_kind "nat list option"
  | WReplaced nat "nat option" replace_use bool

fun wire_step :: "wire_env \<Rightarrow> wire_event \<Rightarrow> wire_act" where
  "wire_step env WSetup = ifS wi_capable (setupIndependentPeerTracks env) (setup_legacy_peer env)"
| "wire_step env (WDescription ts) = whenS (\<lambda>w. browser_update (wi_trans w) ts) (upd (\<lambda>w. w\<lparr> wi_trans := ts \<rparr>))"
| "wire_step env WRemoteApplied = remote_applied env"
| "wire_step env WRemoteMediaStarted = remote_media_started env"
| "wire_step env WLocalMedia =
     seqS
       [ifS wi_capable (attachLocalTracksToIndependentPeer env)
          (if we_stream env = None then skipS else attachLocalTracksToPeer env),
        wire_tell AudioParameters]"
| "wire_step env (WReplaceVideo t) = replace_video env t"
| "wire_step env (WReplaceAudio t) = replace_audio env t"
| "wire_step env (WStartShare t) = start_share_on_peer env t"
| "wire_step env WStopShare = stop_share_on_peer env"
| "wire_step env (WTrack i track kind stream) = on_track env i track kind stream"
| "wire_step env (WReplaced i track use ok) = replaced env i track use ok"

definition wire_event_step :: "wire \<Rightarrow> wire_env \<times> wire_event \<Rightarrow> wire \<times> wire_effect list" where
  "wire_event_step w e = wire_step (fst e) (snd e) w"

end
