(* ===== verification/Media_Wire_Claims.thy ===== *)
theory Media_Wire_Claims
  imports Media_Wire
begin

text \<open>
  The guarantees of the wire: the roles of the transceivers are bound once, both ends of a connection agree on
  them, a share whose track was rejected is tried again, and video that arrives does not drop the audio.
\<close>

section \<open>Roles are bound once\<close>

text \<open>The invariant, with the roles \<open>c\<close> and \<open>d\<close> bound before and at least \<open>n\<close> transceivers.\<close>

definition wire_inv :: "nat option \<Rightarrow> nat option \<Rightarrow> nat \<Rightarrow> wire \<Rightarrow> bool" where
  "wire_inv c d n w =
     (n \<le> length (wi_trans w) \<and>
      (\<forall>i. wi_camera w = Some i \<longrightarrow> i < length (wi_trans w) \<and> wi_content w \<noteq> Some i) \<and>
      (\<forall>i. wi_content w = Some i \<longrightarrow> i < length (wi_trans w)) \<and>
      (\<not> wi_capable w \<longrightarrow> wi_camera w = None \<and> wi_content w = None) \<and>
      (c \<noteq> None \<longrightarrow> wi_camera w = c) \<and> (d \<noteq> None \<longrightarrow> wi_content w = d))"

definition wire_view :: "wire \<Rightarrow> bool \<times> nat \<times> nat option \<times> nat option" where
  "wire_view w = (wi_capable w, length (wi_trans w), wi_camera w, wi_content w)"

lemma wire_inv_view: "wire_view w' = wire_view w \<Longrightarrow> wire_inv c d n w \<Longrightarrow> wire_inv c d n w'"
  unfolding wire_inv_def wire_view_def by auto

text \<open>\<open>Q\<close> is what a capable wire may rely on besides.\<close>

definition wire_capable :: "nat option \<Rightarrow> nat option \<Rightarrow> nat \<Rightarrow> wire \<Rightarrow> bool" where
  "wire_capable c d n w = (wire_inv c d n w \<and> wi_capable w)"

lemma wire_upd: "(\<And>w. wire_view (f w) = wire_view w) \<Longrightarrow> keeping (wire_inv c d n) (upd f)"
  by (auto intro: keeping_upd wire_inv_view)

lemma wire_tx: "keeping (wire_inv c d n) (upd_tx i f)"
  unfolding upd_tx_def by (rule wire_upd) (simp add: wire_view_def)

lemma wire_add: "keeping (wire_inv c d n) (add_transceiver kind t dir)" "keeping (wire_inv c d n) (add_track env k)"
  unfolding add_track_def add_transceiver_def by (auto intro!: keeping_upd simp: wire_inv_def)

lemma wire_replace: "keeping (wire_inv c d n) (replace_track i t use)"
  unfolding replace_track_def seqS.simps by (auto intro!: keeps wire_upd simp: wire_view_def)

lemmas wire_rules = keeping_skipS keeping_thenS keeping_letS keeping_ifS keeping_whenS keeping_out keeping_forS
  wire_tx wire_add wire_replace wire_upd

lemma wire_directions: "keeping (wire_inv c d n) (send_recv i)" "keeping (wire_inv c d n) (ensureRoleSendCapable env i)"
  "keeping (wire_inv c d n) (deactivate i)"
  unfolding send_recv_def ensureRoleSendCapable_def deactivate_def by (auto intro!: wire_rules)

lemma wire_force: "keeping (wire_inv c d n) (forceStructuralRenegotiation env)"
  unfolding forceStructuralRenegotiation_def by (auto intro!: wire_rules simp: wire_view_def)

lemma wire_role: "keeping (wire_inv c d n) (replaceRoleTrack role t b)"
  "keeping (wire_inv c d n) (role_replaced env i t role b ok)"
  unfolding replaceRoleTrack_def role_replaced_def seqS.simps
  by (auto intro!: wire_rules wire_force wire_directions simp: wire_view_def split: option.split)

lemma wire_pending: "keeping (wire_inv c d n) (attachPendingLocalTracks env)"
  unfolding attachPendingLocalTracks_def attach_camera_def attach_content_def seqS.simps
  by (auto intro!: wire_rules wire_role simp: wire_view_def split: option.split)

lemma wire_audio: "keeping (wire_inv c d n) (attachAudioTrackToIndependentPeer env)"
  unfolding attachAudioTrackToIndependentPeer_def seqS.simps
  by (auto intro!: wire_rules wire_directions simp: wire_view_def split: option.split)

text \<open>Only a capable wire binds roles; being capable is for life.\<close>

lemma capable_upd: "(\<And>w. wire_view (f w) = wire_view w) \<Longrightarrow> keeping (wire_capable c d n) (upd f)"
  by (rule keeping_upd) (use wire_inv_view in \<open>auto simp: wire_capable_def wire_view_def\<close>)

lemma capable_leads: "keeping (wire_inv c d n) a \<Longrightarrow> leads (wire_capable c d n) a (wire_inv c d n)"
  by (rule leads_keeping) (simp_all add: wire_capable_def)

lemma bind_camera_leads:
  "leads (\<lambda>w. wire_capable c d n w \<and> i < length (wi_trans w) \<and> wi_camera w = None \<and> wi_content w \<noteq> Some i)
    (upd (\<lambda>w. w\<lparr> wi_camera := Some i \<rparr>)) (wire_capable c d n)"
  by (rule leads_upd) (auto simp: wire_capable_def wire_inv_def)

lemma bind_content_leads:
  "leads (\<lambda>w. wire_capable c d n w \<and> i < length (wi_trans w) \<and> wi_content w = None \<and> wi_camera w \<noteq> Some i)
    (upd (\<lambda>w. w\<lparr> wi_content := Some i \<rparr>)) (wire_capable c d n)"
  by (rule leads_upd) (auto simp: wire_capable_def wire_inv_def)

lemma add_leads:
  "leads (\<lambda>w. (wire_capable c d n w \<and> P (wi_camera w) (wi_content w)) \<and> i = length (wi_trans w)) (add_transceiver kind t dir)
    (\<lambda>w. wire_capable c d n w \<and> i < length (wi_trans w) \<and> wi_camera w \<noteq> Some i \<and> wi_content w \<noteq> Some i \<and>
       P (wi_camera w) (wi_content w))"
  unfolding add_transceiver_def by (rule leads_upd) (fastforce simp: wire_capable_def wire_inv_def)

lemma capable_tx: "keeping (wire_capable c d n) (upd_tx i f)"
  unfolding upd_tx_def by (rule capable_upd) (simp add: wire_view_def)

lemma capable_replace: "keeping (wire_capable c d n) (replace_track i t use)"
  unfolding replace_track_def seqS.simps by (auto intro!: keeps capable_upd simp: wire_view_def)

lemma capable_send: "keeping (wire_capable c d n) (ensureRoleSendCapable env i)" "keeping (wire_capable c d n) (deactivate i)"
  unfolding send_recv_def ensureRoleSendCapable_def deactivate_def by (auto intro!: keeps capable_tx)

lemma capable_role: "keeping (wire_capable c d n) (replaceRoleTrack role t b)"
  unfolding replaceRoleTrack_def by (auto intro!: keeps capable_replace split: option.split)

lemma capable_pending: "keeping (wire_capable c d n) (attachPendingLocalTracks env)"
  unfolding attachPendingLocalTracks_def attach_camera_def attach_content_def seqS.simps
  by (auto intro!: keeping_skipS keeping_thenS keeping_letS keeping_ifS keeping_whenS capable_role capable_upd
      simp: wire_view_def split: option.split)

lemma capable_owner: "keeping (wire_capable c d n) (ensureOwnerVideoTransceivers env)"
proof -
  have cam: "leads (\<lambda>w. wire_capable c d n w \<and> wi_camera w = None)
      (letS (\<lambda>w. length (wi_trans w)) (\<lambda>i. thenS (add_transceiver VideoTrack t SendRecv)
         (thenS (upd (\<lambda>w. w\<lparr> wi_camera := Some i \<rparr>)) skipS))) (wire_capable c d n)" for t
    by (rule leads_let)
      (rule leads_then [OF leads_pre [OF add_leads [where P = "\<lambda>a b. a = None"]]
         leads_then [OF leads_pre [OF bind_camera_leads] leads_skip]], auto)
  have con: "leads (\<lambda>w. wire_capable c d n w \<and> wi_content w = None)
      (letS (\<lambda>w. length (wi_trans w)) (\<lambda>i. thenS (add_transceiver VideoTrack None SendRecv)
         (thenS (upd (\<lambda>w. w\<lparr> wi_content := Some i \<rparr>)) (thenS (wire_tell (ContentEncoding i))
           (thenS (whenS (\<lambda>_. we_contentTrack env \<noteq> None) (upd (\<lambda>w. w\<lparr> wi_pendingContent := True \<rparr>))) skipS)))))
      (wire_capable c d n)"
    by (rule leads_let)
      (rule leads_then [OF leads_pre [OF add_leads [where P = "\<lambda>a b. b = None"]]
         leads_then [OF leads_pre [OF bind_content_leads]
           leads_keeping [of "wire_capable c d n"]]],
       auto intro!: keeping_thenS keeping_out keeping_whenS capable_upd keeping_skipS simp: wire_view_def)
  show ?thesis
    unfolding ensureOwnerVideoTransceivers_def seqS.simps
    by (intro keeping_thenS capable_pending keeping_skipS keeping_leads leads_when cam con)
qed

lemma capable_bind:
  "leads (\<lambda>w. wire_capable c d n w \<and> (\<forall>i \<in> set is. i < length (wi_trans w))) (forS is (bind_role env)) (wire_capable c d n)"
proof (induction "is")
  case Nil
  then show ?case by (simp add: forS_def leads_skip)
next
  case (Cons i "is")
  define m where "m = max n (Suc (Max (insert i (set is))))"
  let ?L = "\<lambda>w. wire_capable c d n w \<and> (\<forall>j \<in> set (i # is). j < length (wi_trans w))"
  have L: "?L = wire_capable c d m"
  proof
    fix w :: wire
    have "(\<forall>j \<in> set (i # is). j < length (wi_trans w)) \<longleftrightarrow> Suc (Max (insert i (set is))) \<le> length (wi_trans w)"
      by (auto simp: less_eq_Suc_le [symmetric])
    then show "?L w = wire_capable c d m w" by (auto simp: wire_capable_def wire_inv_def m_def)
  qed
  have "i \<le> Max (insert i (set is))" by (rule Max_ge) simp_all
  then have i: "i < m" unfolding m_def by linarith
  have "keeping (wire_capable c d m) (bind_role env i)"
    unfolding bind_role_def seqS.simps
  proof (intro keeping_leads leads_if)
    show "leads (\<lambda>w. ((wire_capable c d m w \<and> \<not> (wi_camera w = Some i \<or> wi_content w = Some i)) \<and> wi_camera w = None))
        (thenS (upd (\<lambda>w. w\<lparr> wi_camera := Some i \<rparr>)) (thenS (ensureRoleSendCapable env i) skipS)) (wire_capable c d m)"
      by (rule leads_then [OF leads_pre [OF bind_camera_leads] leads_keeping [OF keeping_thenS]])
        (use i in \<open>auto simp: wire_capable_def wire_inv_def intro: capable_send keeping_skipS\<close>)
    show "leads (\<lambda>w. ((wire_capable c d m w \<and> \<not> (wi_camera w = Some i \<or> wi_content w = Some i)) \<and> wi_camera w \<noteq> None) \<and>
          wi_content w = None)
        (thenS (upd (\<lambda>w. w\<lparr> wi_content := Some i \<rparr>)) (thenS (ensureRoleSendCapable env i)
          (thenS (wire_tell (ContentEncoding i)) skipS))) (wire_capable c d m)"
      by (rule leads_then [OF leads_pre [OF bind_content_leads] leads_keeping [OF keeping_thenS [OF _ keeping_thenS]]])
        (use i in \<open>auto simp: wire_capable_def wire_inv_def intro: capable_send keeping_skipS keeping_out\<close>)
  qed (auto intro: leads_skip leads_keeping capable_send)
  then have "leads ?L (bind_role env i) ?L" unfolding L by (simp add: keeping_def leads_def)
  then have "leads ?L (thenS (bind_role env i) (forS is (bind_role env))) (wire_capable c d n)"
    by (rule leads_then) (rule leads_pre [OF Cons.IH], simp)
  then show ?case by (simp add: forS_def)
qed

lemma set_sort_mids [simp]: "set (sort_mids mid js) = set js"
proof -
  have "set (insert_mid mid i js) = insert i (set js)" for i js by (induction js) auto
  then show ?thesis unfolding sort_mids_def by (induction js) auto
qed

lemma capable_assign: "keeping (wire_capable c d n) (assignRemoteVideoRoles env)"
proof -
  have mem: "i < length (wi_trans w)" if "i \<in> set (video_transceivers env w)" for i w
    using that by (simp add: video_transceivers_def)
  show ?thesis
    unfolding assignRemoteVideoRoles_def seqS.simps
    by (intro keeping_leads leads_let leads_then [OF leads_pre [OF capable_bind]] leads_keeping [OF keeping_thenS])
      (auto intro: mem leads_keeping capable_pending leads_skip)
qed

text \<open>The statements that may bind roles are guarded by the capability of the peer.\<close>

lemma wire_guarded:
  assumes "keeping (wire_capable c d n) a"
  shows "leads (\<lambda>w. wire_inv c d n w \<and> wi_capable w) a (wire_inv c d n)"
  using assms by (auto simp: leads_def keeping_def wire_capable_def)

lemma if_capable: "keeping (wire_capable c d n) a \<Longrightarrow> keeping (wire_inv c d n) b \<Longrightarrow> keeping (wire_inv c d n) (ifS wi_capable a b)"
  by (intro keeping_leads leads_if wire_guarded) (auto simp: leads_def keeping_def)

lemma wire_bind: "keeping (wire_inv c d n) (bind_if_capable env)"
  unfolding bind_if_capable_def
  by (intro keeping_leads leads_when leads_pre [OF wire_guarded [OF capable_assign]]) auto

lemma capable_setup: "keeping (wire_capable c d n) (setupIndependentPeerTracks env)"
proof -
  have add: "keeping (wire_capable c d n) (add_transceiver kind t dir)" for kind t dir
    unfolding add_transceiver_def by (auto intro!: keeping_upd simp: wire_capable_def wire_inv_def)
  show ?thesis
    unfolding setupIndependentPeerTracks_def seqS.simps
    by (auto intro!: keeps add capable_owner capable_upd simp: wire_view_def split: option.split)
qed

lemma capable_local: "keeping (wire_capable c d n) (attachLocalTracksToIndependentPeer env)"
proof -
  have "keeping (wire_capable c d n) (attachAudioTrackToIndependentPeer env)"
    unfolding attachAudioTrackToIndependentPeer_def send_recv_def seqS.simps
    by (auto intro!: keeps capable_replace capable_tx capable_upd simp: wire_view_def split: option.split)
  then show ?thesis
    unfolding attachLocalTracksToIndependentPeer_def seqS.simps
    by (auto intro!: keeps capable_owner capable_pending)
qed

section \<open>Every event\<close>

lemma wire_detach: "keeping (wire_inv c d n) (detach_next env js i t todo needed)"
  unfolding detach_next_def by (auto intro!: wire_rules split: list.split)

lemma wire_attach: "keeping (wire_inv c d n) (attach_tracks env todo needed)"
  by (induction todo arbitrary: needed) (auto intro!: wire_rules wire_detach split: option.split)

lemma wire_swap: "keeping (wire_inv c d n) (swapLegacyPeerVideoTrack env t b)"
  "keeping (wire_inv c d n) (applyLegacyContentSenderEncoding env i)"
  unfolding swapLegacyPeerVideoTrack_def applyLegacyContentSenderEncoding_def seqS.simps
  by (auto intro!: wire_rules split: option.split)

lemma wire_legacy: "keeping (wire_inv c d n) (setup_legacy_peer env)" "keeping (wire_inv c d n) (rejectRemoteVideoTransceivers env)"
  "keeping (wire_inv c d n) (restoreLegacyPeerCameraTrack env)" "keeping (wire_inv c d n) (attachLocalTracksToPeer env)"
  unfolding setup_legacy_peer_def ensureMediaTransceivers_def attachActiveShareToLegacyPeer_def
    rejectRemoteVideoTransceivers_def restoreLegacyPeerCameraTrack_def attachLocalTracksToPeer_def seqS.simps
  by (auto intro!: wire_rules wire_swap wire_attach wire_directions split: option.split)

lemma wire_calls: "keeping (wire_inv c d n) (replace_video env t)" "keeping (wire_inv c d n) (replace_audio env a)"
  "keeping (wire_inv c d n) (start_share_on_peer env s)" "keeping (wire_inv c d n) (stop_share_on_peer env)"
proof -
  have v: "keeping (wire_capable c d n) (ifS (\<lambda>w. wi_camera w \<noteq> None) (replaceRoleTrack CameraRole t False)
       (if t \<noteq> None \<and> we_offers env then thenS (ensureOwnerVideoTransceivers env) (thenS (wire_tell ScheduleNegotiation) skipS)
        else skipS))"
    by (auto intro!: keeps capable_role capable_owner)
  show "keeping (wire_inv c d n) (replace_video env t)"
    unfolding replace_video_def seqS.simps by (rule if_capable [OF v]) (auto intro!: wire_rules split: option.split)
  show "keeping (wire_inv c d n) (replace_audio env a)"
    unfolding replace_audio_def seqS.simps by (auto intro!: wire_rules split: option.split)
  show "keeping (wire_inv c d n) (start_share_on_peer env s)"
    unfolding start_share_on_peer_def seqS.simps
    by (auto intro!: wire_rules wire_swap wire_role simp: wire_view_def)
  show "keeping (wire_inv c d n) (stop_share_on_peer env)"
    unfolding stop_share_on_peer_def seqS.simps
    by (auto intro!: wire_rules wire_legacy wire_role simp: wire_view_def)
qed

lemma wire_track: "keeping (wire_inv c d n) (on_track env i t kind stream)"
proof -
  have r: "keeping (wire_inv c d n) (route_video t stream role)" for role
    unfolding route_video_def seqS.simps by (auto intro!: wire_rules simp: wire_view_def split: video_role.split)
  have h: "leads (\<lambda>w. wire_inv c d n w \<and> wi_capable w) (handleIndependentRemoteVideoTrack env i t stream) (wire_inv c d n)"
    unfolding handleIndependentRemoteVideoTrack_def seqS.simps
  proof (rule leads_let)
    fix role
    show "leads (\<lambda>w. (wire_inv c d n w \<and> wi_capable w) \<and> role = getRoleForTransceiver w i)
        (case role of None \<Rightarrow> thenS (assignRemoteVideoRoles env) (thenS (letS (\<lambda>w. getRoleForTransceiver w i)
             (\<lambda>role. case role of None \<Rightarrow> skipS | Some r \<Rightarrow> route_video t stream r)) skipS)
         | Some r \<Rightarrow> route_video t stream r) (wire_inv c d n)"
    proof (cases role)
      case None
      show ?thesis
        unfolding None option.case
        by (rule leads_then [OF leads_pre [OF wire_guarded [OF capable_assign]] leads_keeping])
          (auto intro!: wire_rules r split: option.split)
    next
      case (Some x)
      show ?thesis unfolding Some option.case by (rule leads_keeping [OF r]) simp
    qed
  qed
  show ?thesis
    unfolding on_track_def seqS.simps
    by (intro keeping_leads leads_if leads_pre [OF h] leads_skip)
      (auto intro!: leads_keeping [of "wire_inv c d n"] wire_rules simp: wire_view_def)
qed

lemma wire_replaced: "keeping (wire_inv c d n) (replaced env i t use ok)"
proof -
  have "keeping (wire_inv c d n) (case use of
             ForRole role starting \<Rightarrow> role_replaced env i t role starting ok
           | ForAudio \<Rightarrow> skipS
           | ForSwap starting \<Rightarrow> legacy_swapped env i starting ok
           | ForRestore \<Rightarrow> whenS (\<lambda>_. ok) (wire_tell (CameraEncoding i))
           | ForReject \<Rightarrow> skipS
           | ForCamera \<Rightarrow> video_replaced env i t ok
           | ForMicrophone \<Rightarrow> audio_replaced env i ok
           | ForStale rest j t todo needed \<Rightarrow> detach_next env rest j t todo needed
           | ForAttach t todo needed \<Rightarrow> track_attached env i todo needed ok)"
    unfolding legacy_swapped_def video_replaced_def audio_replaced_def track_attached_def seqS.simps
    by (auto intro!: wire_rules wire_role wire_swap wire_directions wire_detach wire_attach split: replace_use.split)
  then show ?thesis
    unfolding replaced_def seqS.simps by (auto intro!: wire_rules simp: wire_view_def)
qed

lemma wire_event: "keeping (wire_inv c d n) (wire_step env e)"
proof (cases e)
  case (WDescription ts)
  have "keeping (wire_inv c d n) (whenS (\<lambda>w. browser_update (wi_trans w) ts) (upd (\<lambda>w. w\<lparr> wi_trans := ts \<rparr>)))"
    by (auto simp: keeping_def whenS_def ifS_def upd_def skipS_def wire_inv_def browser_update_def)
  then show ?thesis by (simp add: WDescription)
next
  case WRemoteApplied
  then show ?thesis
    unfolding remote_applied_def wire_step.simps seqS.simps
    by (auto intro!: wire_rules wire_bind wire_audio wire_legacy simp: remote_applied_def wire_view_def)
next
  case WRemoteMediaStarted
  then show ?thesis
    by (auto intro!: wire_rules wire_bind simp: remote_media_started_def wire_view_def)
next
  case WLocalMedia
  then show ?thesis by (auto intro!: wire_rules if_capable capable_local wire_legacy)
next
  case WSetup
  then show ?thesis by (auto intro!: if_capable capable_setup wire_legacy)
qed (auto intro: wire_calls wire_track wire_replaced)

interpretation wire: reactive wire_event_step "wire_inv c d n" for c d n
  by unfold_locales (auto simp: wire_event_step_def intro: keepingD wire_event)

lemma wire_inv_new: "wire_inv None None 0 (new_wire capable)"
  by (simp add: wire_inv_def new_wire_def)

text \<open>What is bound stays bound, and the two roles are on different transceivers that exist.\<close>

definition roles_kept :: "wire \<Rightarrow> wire \<Rightarrow> bool" where
  "roles_kept w w' = (\<forall>role i. role_of w role = Some i \<longrightarrow> role_of w' role = Some i)"

definition roles_sound :: "wire \<Rightarrow> bool" where
  "roles_sound w =
     ((\<forall>role i. role_of w role = Some i \<longrightarrow> i < length (wi_trans w)) \<and>
      (\<forall>i. wi_camera w = Some i \<longrightarrow> wi_content w \<noteq> Some i) \<and>
      (\<not> wi_capable w \<longrightarrow> wi_camera w = None \<and> wi_content w = None))"

text \<open>C19: Roles are bound once: in every run of a connection, from any moment on, the transceiver that carries the camera
  and the one that carries the content stay what they are once they are bound; they are never the same one, and a
  legacy connection never has either.\<close>

theorem roles_bound_once:
  "let w = fst (run wire_event_step (new_wire capable) es); w' = fst (run wire_event_step w later)
   in roles_kept w w' \<and> roles_sound w'"
proof -
  define w where "w = fst (run wire_event_step (new_wire capable) es)"
  have "wire_inv None None 0 w" unfolding w_def by (rule wire.run_inv [OF wire_inv_new])
  then have "wire_inv (wi_camera w) (wi_content w) 0 w" by (simp add: wire_inv_def)
  then have "wire_inv (wi_camera w) (wi_content w) 0 (fst (run wire_event_step w later))" by (rule wire.run_inv)
  then have "roles_kept w (fst (run wire_event_step w later)) \<and> roles_sound (fst (run wire_event_step w later))"
    unfolding roles_kept_def roles_sound_def wire_inv_def role_of_def by (auto split: video_role.splits)
  then show ?thesis by (simp add: w_def Let_def)
qed

section \<open>Both ends agree\<close>

lemma mid_before_asym: "mid_before a b \<Longrightarrow> \<not> mid_before b a"
proof (cases a; cases b)
  fix x y
  assume ab: "a = Some x" "b = Some y" and lt: "mid_before a b"
  then have "x \<noteq> y" by (auto simp: mid_before_def)
  then show ?thesis
    using lt unfolding ab mid_before_def by (cases "js_number_of x"; cases "js_number_of y") auto
qed (auto simp: mid_before_def)

lemma sort_first:
  assumes "distinct js" "c \<in> set js" "\<And>k. k \<in> set js \<Longrightarrow> k \<noteq> c \<Longrightarrow> mid_before (mid c) (mid k)"
  shows "sort_mids mid js = c # sort_mids mid (filter (\<lambda>k. k \<noteq> c) js)"
  using assms
proof (induction js)
  case (Cons i js)
  have set: "set (foldr (insert_mid mid) js []) = set js" for js using set_sort_mids [of mid js] by (simp add: sort_mids_def)
  show ?case
  proof (cases "i = c")
    case True
    have "insert_mid mid c (sort_mids mid js) = c # sort_mids mid js"
      using Cons.prems True set [of js] mid_before_asym unfolding sort_mids_def
      by (cases "foldr (insert_mid mid) js []") auto
    moreover have "filter (\<lambda>k. k \<noteq> c) js = js" using Cons.prems True by (auto simp: filter_id_conv)
    ultimately show ?thesis using True by (simp add: sort_mids_def)
  next
    case False
    then have "sort_mids mid js = c # sort_mids mid (filter (\<lambda>k. k \<noteq> c) js)" using Cons by auto
    then show ?thesis using False Cons.prems(3) [of i] by (simp add: sort_mids_def)
  qed
qed simp

text \<open>The lines of a description: as many transceivers, with the mids and kinds of the other end.\<close>

definition same_lines :: "transceiver list \<Rightarrow> transceiver list \<Rightarrow> bool" where
  "same_lines = list_all2 (\<lambda>t u. tx_mid u = tx_mid t \<and> tx_receiver u = tx_receiver t)"

definition video_line :: "wire \<Rightarrow> nat \<Rightarrow> bool" where
  "video_line w k = (k < length (wi_trans w) \<and> tx_receiver (wi_trans w ! k) = Some VideoTrack)"

definition mid_of :: "wire \<Rightarrow> nat \<Rightarrow> string option" where
  "mid_of w k = tx_mid (wi_trans w ! k)"

text \<open>The camera and the content come first among the video lines, in this order.\<close>

definition lines_in_order :: "wire \<Rightarrow> nat \<Rightarrow> nat \<Rightarrow> bool" where
  "lines_in_order w c d =
     (video_line w c \<and> video_line w d \<and> mid_before (mid_of w c) (mid_of w d) \<and>
      (\<forall>k. video_line w k \<and> k \<noteq> c \<and> k \<noteq> d \<longrightarrow> mid_before (mid_of w c) (mid_of w k) \<and> mid_before (mid_of w d) (mid_of w k)))"

text \<open>An end that has bound nothing yet and has attached no track.\<close>

definition fresh_end :: "wire \<Rightarrow> bool" where
  "fresh_end w = (wi_capable w \<and> wi_camera w = None \<and> wi_content w = None \<and>
     list_all (\<lambda>t. tx_sender t = None \<and> tx_current t \<noteq> Some StoppedDir) (wi_trans w))"

lemma bind_first:
  assumes "lines_in_order w c d" "fresh_end w"
  shows "\<exists>ks. video_transceivers env w = c # d # ks \<and> (\<forall>k \<in> set ks. k < length (wi_trans w))"
proof -
  let ?is = "filter (\<lambda>i. isTransceiverKind env (tx w i) VideoTrack \<and> tx_current (tx w i) \<noteq> Some StoppedDir)
      [0..<length (wi_trans w)]"
  let ?mid = "\<lambda>i. tx_mid (tx w i)"
  have mem: "k \<in> set ?is \<longleftrightarrow> video_line w k" for k
    using assms(2) by (auto simp: fresh_end_def list_all_length video_line_def isTransceiverKind_def sender_kind_def tx_def)
  have l: "video_line w c" "video_line w d" "mid_before (?mid c) (?mid d)"
    "\<And>k. video_line w k \<Longrightarrow> k \<noteq> c \<Longrightarrow> k \<noteq> d \<Longrightarrow> mid_before (?mid c) (?mid k) \<and> mid_before (?mid d) (?mid k)"
    using assms(1) by (auto simp: lines_in_order_def mid_of_def tx_def)
  have cd: "c \<noteq> d" using l(3) mid_before_asym by blast
  have "sort_mids ?mid ?is = c # sort_mids ?mid (filter (\<lambda>k. k \<noteq> c) ?is)"
  proof (rule sort_first)
    show "distinct ?is" by simp
    show "c \<in> set ?is" unfolding mem by (rule l)
    show "mid_before (?mid c) (?mid k)" if "k \<in> set ?is" "k \<noteq> c" for k using that l(3,4) unfolding mem by (cases "k = d") auto
  qed
  moreover have "sort_mids ?mid (filter (\<lambda>k. k \<noteq> c) ?is) = d # sort_mids ?mid (filter (\<lambda>k. k \<noteq> d) (filter (\<lambda>k. k \<noteq> c) ?is))"
  proof (rule sort_first)
    show "distinct (filter (\<lambda>k. k \<noteq> c) ?is)" by simp
    show "d \<in> set (filter (\<lambda>k. k \<noteq> c) ?is)" using l(2) cd mem [of d] by auto
    show "mid_before (?mid d) (?mid k)" if "k \<in> set (filter (\<lambda>k. k \<noteq> c) ?is)" "k \<noteq> d" for k
      using that l(4) mem [of k] by auto
  qed
  ultimately show ?thesis
    unfolding video_transceivers_def
    by (intro exI [of _ "sort_mids ?mid (filter (\<lambda>k. k \<noteq> d) (filter (\<lambda>k. k \<noteq> c) ?is))"]) auto
qed

lemma assign_binds:
  assumes l: "lines_in_order w c d" and f: "fresh_end w"
  shows "wi_camera (fst (assignRemoteVideoRoles env w)) = Some c" "wi_content (fst (assignRemoteVideoRoles env w)) = Some d"
proof -
  obtain ks where ks: "video_transceivers env w = c # d # ks" "\<forall>k \<in> set ks. k < length (wi_trans w)"
    using bind_first [OF l f] by blast
  have cd: "c < length (wi_trans w)" "d < length (wi_trans w)" "c \<noteq> d"
    using l mid_before_asym [of "mid_of w c" "mid_of w c"] by (auto simp: lines_in_order_def video_line_def)
  define w1 where "w1 = fst (bind_role env c w)"
  define w2 where "w2 = fst (bind_role env d w1)"
  have "wi_camera w1 = Some c \<and> wi_content w1 = None \<and> wi_capable w1 \<and> length (wi_trans w1) = length (wi_trans w)"
    using f by (simp add: w1_def bind_role_def act_eval ensureRoleSendCapable_def send_recv_def upd_tx_def fresh_end_def)
  then have "wi_camera w2 = Some c \<and> wi_content w2 = Some d \<and> wi_capable w2 \<and> length (wi_trans w2) = length (wi_trans w)"
    using cd(3) by (simp add: w2_def bind_role_def act_eval ensureRoleSendCapable_def send_recv_def upd_tx_def)
  then have "wire_capable (Some c) (Some d) 0 w2" using cd by (simp add: wire_capable_def wire_inv_def)
  moreover have "\<forall>k \<in> set ks. k < length (wi_trans w2)" using ks(2) \<open>_ \<and> _ \<and> _ \<and> length (wi_trans w2) = _\<close> by simp
  ultimately have "wire_capable (Some c) (Some d) 0 (fst (forS ks (bind_role env) w2))" by (intro leadsD [OF capable_bind]) simp
  then have "wire_capable (Some c) (Some d) 0 (fst (attachPendingLocalTracks env (fst (forS ks (bind_role env) w2))))"
    by (rule keepingD [OF capable_pending])
  moreover have "fst (assignRemoteVideoRoles env w) = fst (attachPendingLocalTracks env (fst (forS ks (bind_role env) w2)))"
    by (simp add: assignRemoteVideoRoles_def ks(1) letS_def forS_def thenS_def Let_def w1_def w2_def skipS_def)
  ultimately show "wi_camera (fst (assignRemoteVideoRoles env w)) = Some c" "wi_content (fst (assignRemoteVideoRoles env w)) = Some d"
    by (simp_all add: wire_capable_def wire_inv_def)
qed

lemma lines_transfer: "same_lines (wi_trans w) (wi_trans u) \<Longrightarrow> lines_in_order w c d \<Longrightarrow> lines_in_order u c d"
  unfolding same_lines_def lines_in_order_def video_line_def mid_of_def by (auto simp: list_all2_conv_all_nth)

lemma mids_kept: "keeping (\<lambda>w. map tx_mid (wi_trans w) = ms) (assignRemoteVideoRoles env)"
proof -
  have d: "keeping (\<lambda>w. map tx_mid (wi_trans w) = ms) (upd_tx i (\<lambda>t. t\<lparr> tx_direction := x \<rparr>))" for i x
    unfolding upd_tx_def
  proof (rule keeping_upd)
    fix w :: wire
    assume "map tx_mid (wi_trans w) = ms"
    then show "map tx_mid (wi_trans (w\<lparr> wi_trans := (wi_trans w)[i := (wi_trans w ! i)\<lparr> tx_direction := x \<rparr>] \<rparr>)) = ms"
      by (cases "i < length (wi_trans w)") (auto simp: map_update list_eq_iff_nth_eq nth_list_update)
  qed
  show ?thesis
    unfolding assignRemoteVideoRoles_def bind_role_def ensureRoleSendCapable_def send_recv_def deactivate_def
      attachPendingLocalTracks_def attach_camera_def attach_content_def replaceRoleTrack_def replace_track_def seqS.simps
    by (auto intro!: keeps d keeping_upd split: option.split)
qed

text \<open>C20: Both ends agree on the roles: when a connection has its camera and its content on its first two video lines, as
  the side that offers creates them, then the other side, binding its transceivers from the lines of the
  description, puts the camera and the content on the same lines.\<close>

theorem roles_agree:
  assumes "lines_in_order owner c d" and "wi_camera owner = Some c" and "wi_content owner = Some d"
    and "same_lines (wi_trans owner) (wi_trans answerer)" and "fresh_end answerer"
  shows "let bound = fst (assignRemoteVideoRoles env answerer) in
    map_option (mid_of bound) (wi_camera bound) = map_option (mid_of owner) (wi_camera owner) \<and>
    map_option (mid_of bound) (wi_content bound) = map_option (mid_of owner) (wi_content owner)"
proof -
  let ?b = "fst (assignRemoteVideoRoles env answerer)"
  have l: "lines_in_order answerer c d" by (rule lines_transfer [OF assms(4,1)])
  note roles = assign_binds [OF l assms(5)]
  have "map tx_mid (wi_trans ?b) = map tx_mid (wi_trans answerer)" by (rule keepingD [OF mids_kept]) (rule refl)
  then have mid: "mid_of ?b k = mid_of answerer k" if "k < length (wi_trans answerer)" for k
    using that unfolding mid_of_def by (metis length_map nth_map)
  have same: "mid_of answerer k = mid_of owner k" if "k < length (wi_trans owner)" for k
    using that assms(4) by (simp add: mid_of_def same_lines_def list_all2_conv_all_nth)
  have "length (wi_trans answerer) = length (wi_trans owner)" using assms(4) by (simp add: same_lines_def list_all2_lengthD)
  then have "mid_of ?b c = mid_of owner c" "mid_of ?b d = mid_of owner d"
    using mid same l assms(1) by (auto simp: lines_in_order_def video_line_def)
  then show ?thesis using roles [of env] assms(2,3) by (simp add: Let_def)
qed

definition line :: "string \<Rightarrow> track_kind \<Rightarrow> transceiver" where
  "line mid kind = \<lparr> tx_mid = Some mid, tx_receiver = Some kind, tx_direction = RecvOnly, tx_current = None, tx_sender = None \<rparr>"

definition three_lines :: wire where
  "three_lines = (new_wire True)\<lparr> wi_trans := [line ''0'' AudioTrack, line ''1'' VideoTrack, line ''2'' VideoTrack] \<rparr>"

definition bound_owner :: wire where
  "bound_owner = three_lines\<lparr> wi_camera := Some 1, wi_content := Some 2 \<rparr>"

lemma three_lines_in_order: "lines_in_order bound_owner 1 2"
proof -
  have "mid_before (Some ''1'') (Some ''2'')" by code_simp
  moreover have "k = 1 \<or> k = 2" if "video_line bound_owner k" for k
    using that by (auto simp: video_line_def bound_owner_def three_lines_def new_wire_def line_def less_Suc_eq)
  ultimately show ?thesis
    by (auto simp: lines_in_order_def mid_of_def video_line_def bound_owner_def three_lines_def new_wire_def line_def)
qed

definition answering :: wire_env where
  "answering = \<lparr> we_videoMedia = True, we_independent = True, we_capture = True, we_stream = Some [], we_contentTrack = None,
     we_sharing = False, we_kind = (\<lambda>_. VideoTrack), we_live = (\<lambda>_. True), we_enabled = (\<lambda>_. True), we_offers = False,
     we_connected = True, we_signaling = Stable \<rparr>"

theorem roles_agree_witness:
  "let bound = fst (assignRemoteVideoRoles answering three_lines) in
    map_option (mid_of bound) (wi_camera bound) = map_option (mid_of bound_owner) (wi_camera bound_owner) \<and>
    map_option (mid_of bound) (wi_content bound) = map_option (mid_of bound_owner) (wi_content bound_owner)"
  by (rule roles_agree [OF three_lines_in_order])
    (simp_all add: bound_owner_def three_lines_def new_wire_def same_lines_def fresh_end_def line_def)

section \<open>Shared content reaches the wire\<close>

text \<open>Nothing but the outcome of a replacement changes what the senders carry.\<close>

definition share_waits :: "nat \<Rightarrow> nat \<Rightarrow> wire \<Rightarrow> bool" where
  "share_waits i t w =
     (wi_pendingContent w \<and> wi_content w = Some i \<and> i < length (wi_trans w) \<and> tx_sender (wi_trans w ! i) \<noteq> Some t)"

lemma waits_direction: "keeping (share_waits i t) (upd_tx j (\<lambda>x. x\<lparr> tx_direction := d \<rparr>))"
  unfolding upd_tx_def by (rule keeping_upd) (cases "i = j"; simp add: share_waits_def)

lemma waits_upd:
  "(\<And>w. wi_pendingContent (f w) = wi_pendingContent w \<and> wi_content (f w) = wi_content w \<and> wi_trans (f w) = wi_trans w) \<Longrightarrow>
    keeping (share_waits i t) (upd f)"
  by (rule keeping_upd) (simp add: share_waits_def)

lemma waits_bind: "keeping (share_waits i t) (bind_role env j)"
proof -
  have cam: "keeping (share_waits i t) (upd (\<lambda>w. w\<lparr> wi_camera := Some j \<rparr>))" by (rule waits_upd) simp
  have dir: "keeping (share_waits i t) (ensureRoleSendCapable env j)" "keeping (share_waits i t) (deactivate j)"
    unfolding ensureRoleSendCapable_def send_recv_def deactivate_def by (auto intro!: keeps waits_direction)
  have con: "keeping (share_waits i t) (ifS (\<lambda>w. wi_content w = None) a b)" if b: "keeping (share_waits i t) b" for a b :: wire_act
    using b by (simp add: keeping_def ifS_def share_waits_def)
  show ?thesis
    unfolding bind_role_def seqS.simps
    by (rule keeping_ifS [OF keeping_skipS keeping_ifS [OF keeping_thenS [OF cam keeping_thenS [OF dir(1) keeping_skipS]]
      con [OF dir(2)]]])
qed

lemma waits_camera: "keeping (share_waits i t) (attach_camera env)"
  unfolding attach_camera_def replaceRoleTrack_def replace_track_def seqS.simps
  by (auto intro!: keeps waits_upd split: option.split)

lemma waiting_share_attaches:
  assumes "share_waits i t w" "we_contentTrack env = Some t"
  shows "ReplaceTrack i (Some t) \<in> set (snd (assignRemoteVideoRoles env w))"
proof -
  define w1 where "w1 = fst (forS (video_transceivers env w) (bind_role env) w)"
  define w2 where "w2 = fst (attach_camera env w1)"
  have "share_waits i t w1" unfolding w1_def by (rule keepingD [OF keeping_forS]) (auto intro: waits_bind assms(1))
  then have "share_waits i t w2" unfolding w2_def by (rule keepingD [OF waits_camera])
  then have "ReplaceTrack i (Some t) \<in> set (snd (attach_content env w2))"
    using assms(2)
    by (simp add: share_waits_def attach_content_def replaceRoleTrack_def replace_track_def role_of_def wantsContent_def
        tx_def act_eval)
  then show ?thesis
    by (simp add: assignRemoteVideoRoles_def attachPendingLocalTracks_def letS_def thenS_def Let_def skipS_def w1_def w2_def)
qed

text \<open>C21: A share whose track was rejected is tried again: when the browser refuses to put the content track on its sender,
  a negotiation is started, or remembered if it has to wait, and the next time the roles are bound the track is
  put on the sender again.\<close>

theorem rejected_share_is_retried:
  assumes "KReplace i (Some t) (ForRole ContentRole starting) \<in> set (wi_pending w)" and "wi_content w = Some i"
    and "i < length (wi_trans w)" and "tx_sender (wi_trans w ! i) \<noteq> Some t" and "we_contentTrack later = Some t"
  shows "let r = wire_step env (WReplaced i (Some t) (ForRole ContentRole starting) False) w in
    (CreateOffer \<in> set (snd r) \<or> RequestOffer \<in> set (snd r) \<or> wi_pendingNegotiation (fst r)) \<and>
    ReplaceTrack i (Some t) \<in> set (snd (assignRemoteVideoRoles later (fst r)))"
proof -
  let ?r = "wire_step env (WReplaced i (Some t) (ForRole ContentRole starting) False) w"
  have "share_waits i t (fst ?r)"
    using assms(1-4)
    by (simp add: share_waits_def replaced_def role_replaced_def forceStructuralRenegotiation_def ensureRoleSendCapable_def
        send_recv_def upd_tx_def act_eval)
  moreover have "CreateOffer \<in> set (snd ?r) \<or> RequestOffer \<in> set (snd ?r) \<or> wi_pendingNegotiation (fst ?r)"
    using assms(1)
    by (simp add: replaced_def role_replaced_def forceStructuralRenegotiation_def ensureRoleSendCapable_def send_recv_def
        upd_tx_def act_eval)
  ultimately show ?thesis using waiting_share_attaches [OF _ assms(5)] by (simp add: Let_def)
qed

definition refused_share :: wire where
  "refused_share = bound_owner\<lparr> wi_pending := [KReplace 2 (Some 7) (ForRole ContentRole True)] \<rparr>"

theorem rejected_share_is_retried_witness:
  "let r = wire_step answering (WReplaced 2 (Some 7) (ForRole ContentRole True) False) refused_share in
    (CreateOffer \<in> set (snd r) \<or> RequestOffer \<in> set (snd r) \<or> wi_pendingNegotiation (fst r)) \<and>
    ReplaceTrack 2 (Some 7) \<in> set (snd (assignRemoteVideoRoles (answering\<lparr> we_contentTrack := Some 7 \<rparr>) (fst r)))"
  by (rule rejected_share_is_retried) (simp_all add: refused_share_def bound_owner_def three_lines_def new_wire_def line_def)

section \<open>Remote streams\<close>

text \<open>Remote video does not drop the remote audio: a video track is added to the tracks that came before.\<close>

theorem video_keeps_remote_tracks:
  assumes "wi_capable w" "we_videoMedia env"
  shows "set (default [] (wi_remoteStream w)) \<subseteq> set (default [] (wi_remoteStream (fst (on_track env i t VideoTrack stream w))))"
proof -
  define R where "R = (\<lambda>v :: wire. set (default [] (wi_remoteStream w)) \<subseteq> set (default [] (wi_remoteStream v)))"
  have u: "keeping R (upd f)" if "\<And>v. wi_remoteStream (f v) = wi_remoteStream v" for f :: "wire \<Rightarrow> wire"
    by (rule keeping_upd) (simp add: R_def that)
  have assign: "keeping R (assignRemoteVideoRoles env)"
    unfolding assignRemoteVideoRoles_def bind_role_def ensureRoleSendCapable_def send_recv_def deactivate_def
      attachPendingLocalTracks_def attach_camera_def attach_content_def replaceRoleTrack_def replace_track_def upd_tx_def
      seqS.simps
    by (auto intro!: keeps u split: option.split)
  have route: "keeping R (route_video t stream role)" for role
    by (rule keepingI) (auto simp: route_video_def act_eval R_def with_track_def split: video_role.split)
  have "keeping R (handleIndependentRemoteVideoTrack env i t stream)"
    unfolding handleIndependentRemoteVideoTrack_def seqS.simps
    by (auto intro!: keeps assign route split: option.split)
  then show ?thesis
    using assms by (simp add: on_track_def ifS_def keeping_def R_def)
qed

section \<open>Sender encodings\<close>

text \<open>Sharing over a legacy sender and going back leaves no trace: the limits of the share are lifted, the rest is kept.\<close>

lemma share_encoding_restored:
  assumes "encodings \<noteq> []" and "en_maxBitrate (hd encodings) = None" and "en_maxFramerate (hd encodings) = None"
  shows "restoreLegacySenderCameraEncoding (applyContentSenderEncoding (Some encodings)) = Some encodings"
  using assms
  by (cases encodings)
    (simp_all add: restoreLegacySenderCameraEncoding_def applyContentSenderEncoding_def setSenderVideoEncoding_def
      override_first_def)

text \<open>The audio limit is set once.\<close>

lemma audio_limit_set_once:
  "applyAudioSenderParameters params = Some encodings \<Longrightarrow> applyAudioSenderParameters (Some encodings) = None"
  by (auto simp: applyAudioSenderParameters_def split: Option.bind_splits list.splits if_splits)

end
