(* ===== verification/Call_Stats.thy ===== *)
theory Call_Stats
  imports Quality_Tracker
begin

text \<open>
  The call statistics, \<^verbatim>\<open>client/packages/core/src/media/callStats.ts\<close>: the statistics reports of the peer
  connections are namespaced, scanned into totals per media kind, and turned into the published \<open>CallStats\<close>
  with rates against the previous poll. A report is a list of statistics with an id, a type and members, as
  the browser's \<open>RTCStatsReport\<close> iterates. A poll awaits its reports: what they hold, or that a query
  failed, is the event \<open>PollAnswered\<close>.
\<close>

section \<open>Reports\<close>

record rtc_stat =
  st_id :: string
  st_type :: string
  st_members :: "(string \<times> json) list"

definition stat_number :: "rtc_stat \<Rightarrow> string \<Rightarrow> rat option" where
  "stat_number stat key = (case map_of (st_members stat) key of Some (JNum (Fin r)) \<Rightarrow> Some r | _ \<Rightarrow> None)"

definition stat_string :: "rtc_stat \<Rightarrow> string \<Rightarrow> string option" where
  "stat_string stat key = as_string (map_of (st_members stat) key)"

definition stat_boolean :: "rtc_stat \<Rightarrow> string \<Rightarrow> bool option" where
  "stat_boolean stat key = as_bool (map_of (st_members stat) key)"

definition getMediaKind :: "rtc_stat \<Rightarrow> track_kind option" where
  "getMediaKind stat =
     (case coalesce (stat_string stat ''kind'') (stat_string stat ''mediaType'') of
        Some k \<Rightarrow> if k = ''audio'' then Some AudioTrack else if k = ''video'' then Some VideoTrack else None
      | None \<Rightarrow> None)"

definition calculateBitrateKbps :: "rat \<Rightarrow> rat \<Rightarrow> rat \<Rightarrow> rat option" where
  "calculateBitrateKbps previousBytes currentBytes elapsedSeconds =
     (if elapsedSeconds \<le> 0 \<or> currentBytes < previousBytes then None
      else Some ((currentBytes - previousBytes) * 8 / elapsedSeconds / 1000))"

definition ratioPercent :: "rat \<Rightarrow> rat \<Rightarrow> rat option" where
  "ratioPercent numerator denominator = (if denominator \<le> 0 then None else Some (numerator / denominator * 100))"

section \<open>Totals per media kind\<close>

record media_totals =
  mt_packetsReceived :: rat
  mt_packetsLost :: rat
  mt_bytes :: rat
  mt_jitterSum :: rat
  mt_jitterCount :: rat
  mt_jitterBufferDelay :: rat
  mt_jitterBufferEmitted :: rat
  mt_concealed :: rat
  mt_samples :: rat
  mt_fpsSum :: rat
  mt_fpsCount :: rat
  mt_frameWidth :: int
  mt_frameHeight :: int
  mt_framesDecoded :: rat
  mt_framesDropped :: rat
  mt_freezeCount :: rat
  mt_freezeDuration :: rat
  mt_packetsSent :: rat
  mt_bytesSent :: rat
  mt_retransmitted :: rat
  mt_remoteLost :: rat
  mt_inboundCount :: nat
  mt_sawReceived :: bool
  mt_sawLost :: bool
  mt_sawDecoded :: bool
  mt_sawDropped :: bool

definition createMediaTotals :: media_totals where
  "createMediaTotals =
     \<lparr> mt_packetsReceived = 0, mt_packetsLost = 0, mt_bytes = 0, mt_jitterSum = 0, mt_jitterCount = 0,
       mt_jitterBufferDelay = 0, mt_jitterBufferEmitted = 0, mt_concealed = 0, mt_samples = 0, mt_fpsSum = 0,
       mt_fpsCount = 0, mt_frameWidth = 0, mt_frameHeight = 0, mt_framesDecoded = 0, mt_framesDropped = 0,
       mt_freezeCount = 0, mt_freezeDuration = 0, mt_packetsSent = 0, mt_bytesSent = 0, mt_retransmitted = 0,
       mt_remoteLost = 0, mt_inboundCount = 0, mt_sawReceived = False, mt_sawLost = False,
       mt_sawDecoded = False, mt_sawDropped = False \<rparr>"

text \<open>\<open>getStatNumber(stat, key) ?? 0\<close> and \<open>value !== null\<close>.\<close>

definition num0 :: "rtc_stat \<Rightarrow> string \<Rightarrow> rat" where
  "num0 stat key = default 0 (stat_number stat key)"

definition has_number :: "rtc_stat \<Rightarrow> string \<Rightarrow> bool" where
  "has_number stat key = (stat_number stat key \<noteq> None)"

definition add_inbound :: "rtc_stat \<Rightarrow> media_totals \<Rightarrow> media_totals" where
  "add_inbound st b =
     b\<lparr> mt_inboundCount := mt_inboundCount b + 1,
        mt_packetsReceived := mt_packetsReceived b + num0 st ''packetsReceived'',
        mt_sawReceived := (mt_sawReceived b \<or> has_number st ''packetsReceived''),
        mt_packetsLost := mt_packetsLost b + max 0 (num0 st ''packetsLost''),
        mt_sawLost := (mt_sawLost b \<or> has_number st ''packetsLost''),
        mt_bytes := mt_bytes b + num0 st ''bytesReceived'',
        mt_jitterSum := mt_jitterSum b + num0 st ''jitter'',
        mt_jitterCount := mt_jitterCount b + (if has_number st ''jitter'' then 1 else 0),
        mt_jitterBufferDelay := mt_jitterBufferDelay b + num0 st ''jitterBufferDelay'',
        mt_jitterBufferEmitted := mt_jitterBufferEmitted b + num0 st ''jitterBufferEmittedCount'',
        mt_concealed := mt_concealed b + num0 st ''concealedSamples'',
        mt_samples := mt_samples b + num0 st ''totalSamplesReceived'',
        mt_fpsSum := mt_fpsSum b + num0 st ''framesPerSecond'',
        mt_fpsCount := mt_fpsCount b + (if has_number st ''framesPerSecond'' then 1 else 0),
        mt_frameWidth := max (mt_frameWidth b) (js_round (num0 st ''frameWidth'')),
        mt_frameHeight := max (mt_frameHeight b) (js_round (num0 st ''frameHeight'')),
        mt_framesDecoded := mt_framesDecoded b + num0 st ''framesDecoded'',
        mt_sawDecoded := (mt_sawDecoded b \<or> has_number st ''framesDecoded''),
        mt_framesDropped := mt_framesDropped b + num0 st ''framesDropped'',
        mt_sawDropped := (mt_sawDropped b \<or> has_number st ''framesDropped''),
        mt_freezeCount := mt_freezeCount b + num0 st ''freezeCount'',
        mt_freezeDuration := mt_freezeDuration b + num0 st ''totalFreezesDuration'' \<rparr>"

definition add_outbound :: "rtc_stat \<Rightarrow> media_totals \<Rightarrow> media_totals" where
  "add_outbound st b =
     b\<lparr> mt_packetsSent := mt_packetsSent b + num0 st ''packetsSent'',
        mt_bytesSent := mt_bytesSent b + num0 st ''bytesSent'',
        mt_retransmitted := mt_retransmitted b + num0 st ''retransmittedPacketsSent'' \<rparr>"

definition add_remote_inbound :: "rtc_stat \<Rightarrow> media_totals \<Rightarrow> media_totals" where
  "add_remote_inbound st b = b\<lparr> mt_remoteLost := mt_remoteLost b + max 0 (num0 st ''packetsLost'') \<rparr>"

section \<open>Scanning the reports\<close>

definition report_prefix :: "nat \<Rightarrow> string" where
  "report_prefix i = ''p'' @ decimal i @ '':''"

definition stats_by_id :: "rtc_stat list list \<Rightarrow> (string \<times> rtc_stat) list" where
  "stats_by_id reports =
     fold (\<lambda>(i, report). fold (\<lambda>st m. let nid = report_prefix i @ st_id st in AList.update nid (st\<lparr> st_id := nid \<rparr>) m) report)
       (enumerate 0 reports) []"

record stats_scan =
  sc_audio :: media_totals
  sc_video :: media_totals
  sc_selected :: "rtc_stat option"
  sc_fallback :: "rtc_stat option"
  sc_rttSum :: rat
  sc_rttCount :: rat

definition new_scan :: stats_scan where
  "new_scan = \<lparr> sc_audio = createMediaTotals, sc_video = createMediaTotals, sc_selected = None, sc_fallback = None,
                sc_rttSum = 0, sc_rttCount = 0 \<rparr>"

definition upd_bucket :: "track_kind \<Rightarrow> (media_totals \<Rightarrow> media_totals) \<Rightarrow> stats_scan \<Rightarrow> stats_scan" where
  "upd_bucket kind f sc =
     (case kind of AudioTrack \<Rightarrow> sc\<lparr> sc_audio := f (sc_audio sc) \<rparr> | VideoTrack \<Rightarrow> sc\<lparr> sc_video := f (sc_video sc) \<rparr>)"

definition scan_pair :: "rtc_stat \<Rightarrow> stats_scan \<Rightarrow> stats_scan" where
  "scan_pair st sc =
     (if stat_boolean st ''selected'' = Some True then sc\<lparr> sc_selected := Some st \<rparr>
      else if sc_fallback sc = None \<and> stat_boolean st ''nominated'' = Some True \<and> stat_string st ''state'' = Some ''succeeded''
      then sc\<lparr> sc_fallback := Some st \<rparr> else sc)"

definition scan_stat :: "rtc_stat \<Rightarrow> stats_scan \<Rightarrow> stats_scan" where
  "scan_stat st sc =
     (if st_type st = ''candidate-pair'' then scan_pair st sc
      else case getMediaKind st of
        None \<Rightarrow> sc
      | Some kind \<Rightarrow>
          if st_type st = ''inbound-rtp'' then upd_bucket kind (add_inbound st) sc
          else if st_type st = ''outbound-rtp'' then upd_bucket kind (add_outbound st) sc
          else if st_type st = ''remote-inbound-rtp''
          then (upd_bucket kind (add_remote_inbound st) sc)
                 \<lparr> sc_rttSum := sc_rttSum sc + num0 st ''roundTripTime'',
                   sc_rttCount := sc_rttCount sc + (if has_number st ''roundTripTime'' then 1 else 0) \<rparr>
          else sc)"

definition scan_all :: "(string \<times> rtc_stat) list \<Rightarrow> stats_scan" where
  "scan_all stats = fold (\<lambda>e. scan_stat (snd e)) stats new_scan"

section \<open>Published statistics\<close>

record call_stats =
  cs_transportPath :: "string option"
  cs_rttMs :: "rat option"
  cs_availableOutgoingKbps :: "rat option"
  cs_audioRxPacketLossPct :: "rat option"
  cs_audioTxPacketLossPct :: "rat option"
  cs_audioJitterMs :: "rat option"
  cs_audioPlayoutDelayMs :: "rat option"
  cs_audioConcealedPct :: "rat option"
  cs_audioRxKbps :: "rat option"
  cs_audioTxKbps :: "rat option"
  cs_videoRxPacketLossPct :: "rat option"
  cs_videoTxPacketLossPct :: "rat option"
  cs_videoRxKbps :: "rat option"
  cs_videoTxKbps :: "rat option"
  cs_videoFps :: "rat option"
  cs_videoResolution :: "string option"
  cs_videoFreezeCount60s :: "rat option"
  cs_videoFreezeDuration60s :: "rat option"
  cs_videoRetransmitPct :: "rat option"
  cs_videoFramesDecoded :: "rat option"
  cs_videoFramesDropped :: "rat option"
  cs_audioPacketsLost :: "rat option"
  cs_audioPacketsReceived :: "rat option"
  cs_updatedAtMs :: rat

record bytes_sample =
  bs_timestampMs :: rat
  bs_audioRxBytes :: rat
  bs_audioTxBytes :: rat
  bs_videoRxBytes :: rat
  bs_videoTxBytes :: rat
  bs_videoFramesDecoded :: rat

record freeze_sample =
  fz_timestampMs :: rat
  fz_count :: rat
  fz_duration :: rat

definition selected_pair :: "stats_scan \<Rightarrow> rtc_stat option" where
  "selected_pair sc = coalesce (sc_selected sc) (sc_fallback sc)"

text \<open>\<open>id.substring(0, id.indexOf(':') + 1)\<close>: the empty string without a colon.\<close>

definition pair_prefix :: "rtc_stat \<Rightarrow> string" where
  "pair_prefix st = (case index_of (st_id st) (CHR '':'') of Some i \<Rightarrow> take (i + 1) (st_id st) | None \<Rightarrow> [])"

definition pair_candidate :: "(string \<times> rtc_stat) list \<Rightarrow> rtc_stat option \<Rightarrow> string \<Rightarrow> rtc_stat option" where
  "pair_candidate stats pair key =
     (case pair of None \<Rightarrow> None | Some p \<Rightarrow> map_of stats (pair_prefix p @ default [] (stat_string p key)))"

definition transport_path :: "rtc_stat option \<Rightarrow> rtc_stat option \<Rightarrow> string option" where
  "transport_path local remote =
     (let localType = Option.bind local (\<lambda>c. stat_string c ''candidateType'');
          remoteType = Option.bind remote (\<lambda>c. stat_string c ''candidateType'');
          localProtocol = Option.bind local (\<lambda>c. stat_string c ''protocol'');
          remoteProtocol = Option.bind remote (\<lambda>c. stat_string c ''protocol'');
          isRelay = (localType = Some ''relay'' \<or> remoteType = Some ''relay'')
      in if (localType = None \<or> localType = Some []) \<and> (remoteType = None \<or> remoteType = Some []) then None
         else Some ((if isRelay then ''TURN relay'' else ''Direct'') @ '' ('' @ default ''n/a'' localType @ '' -> '' @
                    default ''n/a'' remoteType @ '', '' @ default (default ''n/a'' remoteProtocol) localProtocol @ '')''))"

definition video_fps :: "media_totals \<Rightarrow> bytes_sample option \<Rightarrow> rat \<Rightarrow> rat option" where
  "video_fps video previous elapsedSeconds =
     (if mt_fpsCount video > 0 then Some (mt_fpsSum video / mt_fpsCount video)
      else case previous of
        None \<Rightarrow> None
      | Some p \<Rightarrow>
          if 0 < elapsedSeconds \<and> bs_videoFramesDecoded p \<le> mt_framesDecoded video
          then Some ((mt_framesDecoded video - bs_videoFramesDecoded p) / elapsedSeconds) else None)"

definition freeze_window :: "rat \<Rightarrow> media_totals \<Rightarrow> freeze_sample list \<Rightarrow> freeze_sample list" where
  "freeze_window now video samples =
     filter (\<lambda>f. now - fz_timestampMs f \<le> 60000)
       (samples @ [\<lparr> fz_timestampMs = now, fz_count = mt_freezeCount video, fz_duration = mt_freezeDuration video \<rparr>])"

definition call_stats_of ::
  "rat \<Rightarrow> bytes_sample option \<Rightarrow> freeze_sample list \<Rightarrow> (string \<times> rtc_stat) list \<Rightarrow> call_stats" where
  "call_stats_of now previous window stats =
     (let sc = scan_all stats; audio = sc_audio sc; video = sc_video sc; pair = selected_pair sc;
          chosenRtt = coalesce (Option.bind pair (\<lambda>p. stat_number p ''currentRoundTripTime''))
            (if sc_rttCount sc > 0 then Some (sc_rttSum sc / sc_rttCount sc) else None);
          elapsed = (case previous of Some p \<Rightarrow> (now - bs_timestampMs p) / 1000 | None \<Rightarrow> 0);
          rate = (\<lambda>bytes current. Option.bind previous (\<lambda>p. calculateBitrateKbps (bytes p) current elapsed));
          base = (case window of [] \<Rightarrow> None | f # _ \<Rightarrow> Some f)
      in
      \<lparr> cs_transportPath = transport_path (pair_candidate stats pair ''localCandidateId'') (pair_candidate stats pair ''remoteCandidateId''),
        cs_rttMs = map_option (\<lambda>r. r * 1000) chosenRtt,
        cs_availableOutgoingKbps =
          map_option (\<lambda>b. b / 1000) (Option.bind pair (\<lambda>p. stat_number p ''availableOutgoingBitrate'')),
        cs_audioRxPacketLossPct = ratioPercent (mt_packetsLost audio) (mt_packetsReceived audio + mt_packetsLost audio),
        cs_audioTxPacketLossPct = ratioPercent (mt_remoteLost audio) (mt_packetsSent audio + mt_remoteLost audio),
        cs_audioJitterMs =
          (if mt_jitterCount audio > 0 then Some (mt_jitterSum audio / mt_jitterCount audio * 1000) else None),
        cs_audioPlayoutDelayMs =
          (if mt_jitterBufferEmitted audio > 0
           then Some (mt_jitterBufferDelay audio / mt_jitterBufferEmitted audio * 1000) else None),
        cs_audioConcealedPct = ratioPercent (mt_concealed audio) (mt_samples audio),
        cs_audioRxKbps = rate bs_audioRxBytes (mt_bytes audio),
        cs_audioTxKbps = rate bs_audioTxBytes (mt_bytesSent audio),
        cs_videoRxPacketLossPct = ratioPercent (mt_packetsLost video) (mt_packetsReceived video + mt_packetsLost video),
        cs_videoTxPacketLossPct = ratioPercent (mt_remoteLost video) (mt_packetsSent video + mt_remoteLost video),
        cs_videoRxKbps = rate bs_videoRxBytes (mt_bytes video),
        cs_videoTxKbps = rate bs_videoTxBytes (mt_bytesSent video),
        cs_videoFps = video_fps video previous elapsed,
        cs_videoResolution =
          (if 0 < mt_frameWidth video \<and> 0 < mt_frameHeight video
           then Some (decimal (nat (mt_frameWidth video)) @ ''x'' @ decimal (nat (mt_frameHeight video))) else None),
        cs_videoFreezeCount60s = map_option (\<lambda>f. max 0 (mt_freezeCount video - fz_count f)) base,
        cs_videoFreezeDuration60s = map_option (\<lambda>f. max 0 (mt_freezeDuration video - fz_duration f)) base,
        cs_videoRetransmitPct = ratioPercent (mt_retransmitted video) (mt_packetsSent video),
        cs_videoFramesDecoded = (if mt_sawDecoded video then Some (mt_framesDecoded video) else None),
        cs_videoFramesDropped = (if mt_sawDropped video then Some (mt_framesDropped video) else None),
        cs_audioPacketsLost = (if mt_sawLost audio then Some (mt_packetsLost audio) else None),
        cs_audioPacketsReceived = (if mt_sawReceived audio then Some (mt_packetsReceived audio) else None),
        cs_updatedAtMs = now \<rparr>)"

definition bytes_sample_of :: "rat \<Rightarrow> stats_scan \<Rightarrow> bytes_sample" where
  "bytes_sample_of now sc =
     \<lparr> bs_timestampMs = now, bs_audioRxBytes = mt_bytes (sc_audio sc), bs_audioTxBytes = mt_bytesSent (sc_audio sc),
       bs_videoRxBytes = mt_bytes (sc_video sc), bs_videoTxBytes = mt_bytesSent (sc_video sc),
       bs_videoFramesDecoded = mt_framesDecoded (sc_video sc) \<rparr>"

section \<open>The collector\<close>

record stats_collector =
  co_sample :: "bytes_sample option"
  co_freezes :: "freeze_sample list"
  co_timer :: bool
  co_stats :: "call_stats option"
  co_listening :: bool
  co_polls :: nat

datatype collector_effect = QueryStats nat | StatsChange

type_synonym collector_act = "(stats_collector, collector_effect) act"

definition new_collector :: stats_collector where
  "new_collector = \<lparr> co_sample = None, co_freezes = [], co_timer = False, co_stats = None, co_listening = False, co_polls = 0 \<rparr>"

definition stop_collector :: collector_act where
  "stop_collector = upd (\<lambda>c. c\<lparr> co_timer := False, co_stats := None, co_sample := None, co_freezes := [], co_listening := False \<rparr>)"

definition start_collector :: collector_act where
  "start_collector = seqS [stop_collector, upd (\<lambda>c. c\<lparr> co_listening := True, co_timer := True \<rparr>)]"

definition reset_collector :: collector_act where
  "reset_collector = upd (\<lambda>c. c\<lparr> co_sample := None, co_freezes := [] \<rparr>)"

text \<open>The interval: \<open>poll\<close> of the present peer connections, to its await.\<close>

definition poll_tick :: "nat \<Rightarrow> collector_act" where
  "poll_tick connections =
     whenS co_timer
       (if connections = 0 then upd (\<lambda>c. c\<lparr> co_stats := None \<rparr>)
        else seqS [out (\<lambda>_. QueryStats connections), upd (\<lambda>c. c\<lparr> co_polls := co_polls c + 1 \<rparr>)])"

definition poll_answered :: "rat \<Rightarrow> rtc_stat list list option \<Rightarrow> collector_act" where
  "poll_answered now outcome =
     whenS (\<lambda>c. co_polls c > 0)
       (seqS
         [upd (\<lambda>c. c\<lparr> co_polls := co_polls c - 1 \<rparr>),
          (case outcome of
             None \<Rightarrow> skipS
           | Some reports \<Rightarrow>
               let stats = stats_by_id reports; sc = scan_all stats in
               seqS
                 [upd (\<lambda>c. c\<lparr> co_freezes := freeze_window now (sc_video sc) (co_freezes c) \<rparr>),
                  upd (\<lambda>c. c\<lparr> co_stats := Some (call_stats_of now (co_sample c) (co_freezes c) stats) \<rparr>),
                  upd (\<lambda>c. c\<lparr> co_sample := Some (bytes_sample_of now sc) \<rparr>),
                  whenS co_listening (out (\<lambda>_. StatsChange))])])"

datatype collector_event = CStart | CStop | CReset | CTick nat | PollAnswered rat "rtc_stat list list option"

fun collector_step :: "stats_collector \<Rightarrow> collector_event \<Rightarrow> stats_collector \<times> collector_effect list" where
  "collector_step c CStart = start_collector c"
| "collector_step c CStop = stop_collector c"
| "collector_step c CReset = reset_collector c"
| "collector_step c (CTick n) = poll_tick n c"
| "collector_step c (PollAnswered now outcome) = poll_answered now outcome c"

text \<open>What the session hands to the quality tracker.\<close>

definition quality_of_stats :: "call_stats \<Rightarrow> quality_sample" where
  "quality_of_stats s =
     \<lparr> qs_rttMs = cs_rttMs s, qs_audioJitterMs = cs_audioJitterMs s, qs_audioPacketsLost = cs_audioPacketsLost s,
       qs_audioPacketsReceived = cs_audioPacketsReceived s \<rparr>"

section \<open>Published statistics are in range\<close>

text \<open>The members the code reads are counters and durations: not negative, but for \<open>packetsLost\<close>.\<close>

definition nonneg_stat :: "rtc_stat \<Rightarrow> bool" where
  "nonneg_stat st =
     (\<forall>e \<in> set (st_members st). case snd e of JNum (Fin r) \<Rightarrow> fst e = ''packetsLost'' \<or> 0 \<le> r | _ \<Rightarrow> True)"

fun polls_nonneg :: "collector_event \<Rightarrow> bool" where
  "polls_nonneg (PollAnswered now (Some reports)) = (\<forall>report \<in> set reports. \<forall>st \<in> set report. nonneg_stat st)"
| "polls_nonneg _ = True"

definition percentage :: "rat \<Rightarrow> bool" where
  "percentage r = (0 \<le> r \<and> r \<le> 100)"

definition call_stats_ok :: "call_stats \<Rightarrow> bool" where
  "call_stats_ok s =
     (pred_option percentage (cs_audioRxPacketLossPct s) \<and> pred_option percentage (cs_audioTxPacketLossPct s) \<and>
      pred_option percentage (cs_videoRxPacketLossPct s) \<and> pred_option percentage (cs_videoTxPacketLossPct s) \<and>
      (\<forall>r \<in> {cs_rttMs s, cs_availableOutgoingKbps s, cs_audioJitterMs s, cs_audioPlayoutDelayMs s, cs_audioConcealedPct s,
             cs_audioRxKbps s, cs_audioTxKbps s, cs_videoRxKbps s, cs_videoTxKbps s, cs_videoFps s,
             cs_videoFreezeCount60s s, cs_videoFreezeDuration60s s, cs_videoRetransmitPct s, cs_videoFramesDecoded s,
             cs_videoFramesDropped s, cs_audioPacketsLost s, cs_audioPacketsReceived s}. pred_option (\<lambda>x. 0 \<le> x) r))"

lemma nonneg_number: "nonneg_stat st \<Longrightarrow> stat_number st key = Some r \<Longrightarrow> key \<noteq> ''packetsLost'' \<Longrightarrow> 0 \<le> r"
  by (force simp: nonneg_stat_def stat_number_def dest: map_of_SomeD split: option.splits json.splits jsnum.splits)

lemma nonneg_num0: "nonneg_stat st \<Longrightarrow> key \<noteq> ''packetsLost'' \<Longrightarrow> 0 \<le> num0 st key"
  by (cases "stat_number st key") (simp_all add: num0_def nonneg_number)

definition totals_ok :: "media_totals \<Rightarrow> bool" where
  "totals_ok b =
     (0 \<le> mt_packetsReceived b \<and> 0 \<le> mt_packetsLost b \<and> 0 \<le> mt_jitterSum b \<and> 0 \<le> mt_jitterBufferDelay b \<and>
      0 \<le> mt_concealed b \<and> 0 \<le> mt_fpsSum b \<and> 0 \<le> mt_framesDecoded b \<and> 0 \<le> mt_framesDropped b \<and>
      0 \<le> mt_packetsSent b \<and> 0 \<le> mt_retransmitted b \<and> 0 \<le> mt_remoteLost b)"

lemma totals_kept:
  assumes "nonneg_stat st" "totals_ok b"
  shows "totals_ok (add_inbound st b)" "totals_ok (add_outbound st b)" "totals_ok (add_remote_inbound st b)"
  using assms by (simp_all add: totals_ok_def add_inbound_def add_outbound_def add_remote_inbound_def nonneg_num0)

definition scan_ok :: "stats_scan \<Rightarrow> bool" where
  "scan_ok sc =
     (totals_ok (sc_audio sc) \<and> totals_ok (sc_video sc) \<and> pred_option nonneg_stat (sc_selected sc) \<and>
      pred_option nonneg_stat (sc_fallback sc) \<and> 0 \<le> sc_rttSum sc \<and> 0 \<le> sc_rttCount sc)"

lemma scan_stat_ok: "nonneg_stat st \<Longrightarrow> scan_ok sc \<Longrightarrow> scan_ok (scan_stat st sc)"
  by (auto simp: scan_stat_def scan_pair_def scan_ok_def upd_bucket_def totals_kept nonneg_num0
      split: option.split track_kind.split)

lemma scan_all_ok: "\<forall>e \<in> set stats. nonneg_stat (snd e) \<Longrightarrow> scan_ok (scan_all stats)"
proof -
  assume "\<forall>e \<in> set stats. nonneg_stat (snd e)"
  then have "scan_ok sc \<Longrightarrow> scan_ok (fold (\<lambda>e. scan_stat (snd e)) stats sc)" for sc
    by (induction stats arbitrary: sc) (auto simp: scan_stat_ok)
  then show ?thesis by (simp add: scan_all_def new_scan_def scan_ok_def totals_ok_def createMediaTotals_def)
qed

lemma ratio_ok: "0 \<le> a \<Longrightarrow> 0 \<le> b \<Longrightarrow> pred_option percentage (ratioPercent a (b + a))"
  by (auto simp: ratioPercent_def percentage_def divide_le_eq)

lemma ratio_nonneg: "0 \<le> a \<Longrightarrow> pred_option (\<lambda>x. 0 \<le> x) (ratioPercent a b)"
  by (simp add: ratioPercent_def)

lemma bitrate_nonneg: "pred_option (\<lambda>x. 0 \<le> x) (calculateBitrateKbps a b e)"
  by (simp add: calculateBitrateKbps_def)

lemma rate_nonneg: "pred_option (\<lambda>x. 0 \<le> x) (Option.bind p (\<lambda>q. calculateBitrateKbps (f q) b e))"
  by (cases p) (simp_all add: bitrate_nonneg)

lemma fps_nonneg: "totals_ok v \<Longrightarrow> pred_option (\<lambda>x. 0 \<le> x) (video_fps v p e)"
  by (auto simp: video_fps_def totals_ok_def split: option.split)

lemma call_stats_of_ok:
  assumes "\<forall>e \<in> set stats. nonneg_stat (snd e)"
  shows "call_stats_ok (call_stats_of now previous window stats)"
proof -
  let ?sc = "scan_all stats"
  from assms have sc: "scan_ok ?sc" by (rule scan_all_ok)
  then have t: "totals_ok (sc_audio ?sc)" "totals_ok (sc_video ?sc)" by (simp_all add: scan_ok_def)
  have pair: "pred_option nonneg_stat (selected_pair ?sc)"
    using sc by (cases "sc_selected ?sc") (simp_all add: selected_pair_def scan_ok_def)
  have num: "pred_option (\<lambda>x. 0 \<le> x) (Option.bind (selected_pair ?sc) (\<lambda>p. stat_number p key))" if "key \<noteq> ''packetsLost''" for key
    using pair nonneg_number [OF _ _ that] by (cases "selected_pair ?sc") (auto simp: option.pred_set)
  have rtt: "pred_option (\<lambda>x. 0 \<le> x) (coalesce (Option.bind (selected_pair ?sc) (\<lambda>p. stat_number p ''currentRoundTripTime''))
      (if sc_rttCount ?sc > 0 then Some (sc_rttSum ?sc / sc_rttCount ?sc) else None))"
    using num [of "''currentRoundTripTime''"] sc
    by (cases "Option.bind (selected_pair ?sc) (\<lambda>p. stat_number p ''currentRoundTripTime'')") (auto simp: scan_ok_def)
  note parts = ratio_ok ratio_nonneg rate_nonneg fps_nonneg num rtt
  show ?thesis
    unfolding call_stats_ok_def call_stats_of_def Let_def using t parts
    by (auto simp: totals_ok_def option.pred_map o_def split: list.split)
qed

lemma by_id_ok:
  assumes "\<forall>report \<in> set reports. \<forall>st \<in> set report. nonneg_stat st"
  shows "\<forall>e \<in> set (stats_by_id reports). nonneg_stat (snd e)"
proof -
  have upd: "\<forall>e \<in> set (AList.update k v m). nonneg_stat (snd e)"
    if "\<forall>e \<in> set m. nonneg_stat (snd e)" "nonneg_stat v" for k v and m :: "(string \<times> rtc_stat) list"
    using that set_AList_update [of k v m] by fastforce
  let ?add = "\<lambda>i st m. let nid = report_prefix i @ st_id st in AList.update nid (st\<lparr> st_id := nid \<rparr>) m"
  have add: "\<forall>e \<in> set (?add i st m). nonneg_stat (snd e)" if "\<forall>e \<in> set m. nonneg_stat (snd e)" "nonneg_stat st" for i st m
    unfolding Let_def by (rule upd) (use that in \<open>auto simp: nonneg_stat_def\<close>)
  have report: "\<forall>e \<in> set (fold (?add i) r m). nonneg_stat (snd e)"
    if "\<forall>e \<in> set m. nonneg_stat (snd e)" "\<forall>st \<in> set r. nonneg_stat st" for i r m
    using that
  proof (induction r arbitrary: m)
    case (Cons st r)
    with add [of m st i] show ?case by simp
  qed simp
  have all: "\<forall>e \<in> set (fold (\<lambda>(i, r). fold (?add i) r) rs m). nonneg_stat (snd e)"
    if "\<forall>e \<in> set m. nonneg_stat (snd e)" "\<forall>p \<in> set rs. \<forall>st \<in> set (snd p). nonneg_stat st" for rs m
    using that
  proof (induction rs arbitrary: m)
    case (Cons p rs)
    with report [of m "snd p" "fst p"] show ?case by (simp add: case_prod_beta)
  qed simp
  have "snd p \<in> set reports" if "p \<in> set (enumerate 0 reports)" for p
    using imageI [OF that, of snd] by (simp flip: set_map)
  with assms show ?thesis unfolding stats_by_id_def by (intro all) auto
qed

lemma collector_step_ok:
  assumes "polls_nonneg e" "pred_option call_stats_ok (co_stats c)"
  shows "pred_option call_stats_ok (co_stats (fst (collector_step c e)))"
  using assms
proof (cases e)
  case (PollAnswered now outcome)
  have "call_stats_ok (call_stats_of now sample window (stats_by_id reports))" if "outcome = Some reports" for sample window reports
    using assms(1) that PollAnswered by (intro call_stats_of_ok by_id_ok) simp
  with assms(2) show ?thesis by (simp add: PollAnswered poll_answered_def act_simps split: option.split)
qed (simp_all add: start_collector_def stop_collector_def reset_collector_def poll_tick_def act_simps)

text \<open>C30: Published statistics are in range: as long as the counters in the reports are not negative (the number of lost
  packets may be), at every moment of every run of the collector each published packet loss is a percentage
  between 0 and 100, and each delay, bit rate, frame rate and counter is unknown or not negative.\<close>

theorem published_stats_in_range:
  assumes "list_all polls_nonneg es"
  shows "pred_option call_stats_ok (co_stats (fst (run collector_step new_collector es)))"
proof -
  have "pred_option call_stats_ok (co_stats c) \<Longrightarrow> pred_option call_stats_ok (co_stats (fst (run collector_step c es)))" for c
    using assms
  proof (induction es arbitrary: c)
    case (Cons e es)
    then show ?case using collector_step_ok [of e c] by (simp add: Let_def)
  qed simp
  then show ?thesis by (simp add: new_collector_def)
qed

definition lossy_audio :: rtc_stat where
  "lossy_audio = \<lparr> st_id = ''a'', st_type = ''inbound-rtp'', st_members =
     [(''kind'', JStr ''audio''), (''packetsReceived'', JNum (Fin 90)), (''packetsLost'', JNum (Fin 10))] \<rparr>"

theorem published_stats_in_range_witness:
  "pred_option call_stats_ok
     (co_stats (fst (run collector_step new_collector [CStart, CTick 1, PollAnswered 1000 (Some [[lossy_audio]])])))"
  by (rule published_stats_in_range) (simp add: lossy_audio_def nonneg_stat_def)

section \<open>Unknown counters stay unknown\<close>

text \<open>The values a counter has in the statistics of a kind and a type: the specification of the totals.\<close>

definition counter_values :: "string \<Rightarrow> track_kind \<Rightarrow> string \<Rightarrow> rtc_stat list \<Rightarrow> rat list" where
  "counter_values type kind key stats =
     List.map_filter (\<lambda>st. stat_number st key) (filter (\<lambda>st. st_type st = type \<and> getMediaKind st = Some kind) stats)"

definition counter_total :: "rat list \<Rightarrow> rat option" where
  "counter_total xs = (if xs = [] then None else Some (sum_list xs))"

lemma counter_values_Cons:
  "counter_values type kind key (st # stats) =
     (if st_type st = type \<and> getMediaKind st = Some kind
      then (case stat_number st key of None \<Rightarrow> [] | Some v \<Rightarrow> [v]) else []) @ counter_values type kind key stats"
  by (simp add: counter_values_def List.map_filter_def split: option.split)

definition inbound_totals :: "media_totals \<Rightarrow> (bool \<times> rat) list" where
  "inbound_totals b =
     [(mt_sawReceived b, mt_packetsReceived b), (mt_sawLost b, mt_packetsLost b), (mt_sawDecoded b, mt_framesDecoded b),
      (mt_sawDropped b, mt_framesDropped b)]"

definition spec_totals :: "track_kind \<Rightarrow> rtc_stat list \<Rightarrow> (bool \<times> rat) list \<Rightarrow> (bool \<times> rat) list" where
  "spec_totals kind stats base =
     (let values = (\<lambda>key. counter_values ''inbound-rtp'' kind key stats) in
      map2 (\<lambda>(saw, n) xs. (saw \<or> xs \<noteq> [], n + sum_list xs)) base
        [values ''packetsReceived'', map (max 0) (values ''packetsLost''), values ''framesDecoded'', values ''framesDropped''])"

lemma spec_totals_Nil: "spec_totals kind [] (inbound_totals b) = inbound_totals b"
  by (simp add: spec_totals_def inbound_totals_def counter_values_def List.map_filter_def)

lemma spec_totals_Cons:
  "spec_totals kind (st # stats) (inbound_totals b) =
     spec_totals kind stats (inbound_totals
       (if st_type st = ''inbound-rtp'' \<and> getMediaKind st = Some kind then add_inbound st b else b))"
  by (cases "stat_number st ''packetsReceived''"; cases "stat_number st ''packetsLost''";
      cases "stat_number st ''framesDecoded''"; cases "stat_number st ''framesDropped''")
    (simp_all add: spec_totals_def inbound_totals_def counter_values_Cons add_inbound_def num0_def has_number_def)

definition bucket :: "track_kind \<Rightarrow> stats_scan \<Rightarrow> media_totals" where
  "bucket kind sc = (case kind of AudioTrack \<Rightarrow> sc_audio sc | VideoTrack \<Rightarrow> sc_video sc)"

lemma scan_bucket:
  "inbound_totals (bucket kind (scan_stat st sc)) = inbound_totals
     (if st_type st = ''inbound-rtp'' \<and> getMediaKind st = Some kind then add_inbound st (bucket kind sc) else bucket kind sc)"
  by (auto simp: bucket_def scan_stat_def scan_pair_def upd_bucket_def inbound_totals_def add_outbound_def
      add_remote_inbound_def split: track_kind.split option.split)

lemma scan_totals:
  "inbound_totals (bucket kind (fold (\<lambda>e. scan_stat (snd e)) stats sc)) =
     spec_totals kind (map snd stats) (inbound_totals (bucket kind sc))"
proof (induction stats arbitrary: sc)
  case Nil
  then show ?case by (simp add: spec_totals_Nil)
next
  case (Cons e stats)
  then show ?case by (simp add: spec_totals_Cons scan_bucket)
qed

lemma scan_all_totals:
  "inbound_totals (bucket kind (scan_all stats)) =
     spec_totals kind (map snd stats) [(False, 0), (False, 0), (False, 0), (False, 0)]"
proof -
  have "inbound_totals (bucket kind new_scan) = [(False, 0), (False, 0), (False, 0), (False, 0)]"
    by (simp add: inbound_totals_def bucket_def new_scan_def createMediaTotals_def split: track_kind.split)
  then show ?thesis by (simp add: scan_all_def scan_totals)
qed

lemma published_counters:
  "let s = call_stats_of now previous window stats;
       values = (\<lambda>kind key. counter_values ''inbound-rtp'' kind key (map snd stats))
   in cs_audioPacketsReceived s = counter_total (values AudioTrack ''packetsReceived'') \<and>
      cs_audioPacketsLost s = counter_total (map (max 0) (values AudioTrack ''packetsLost'')) \<and>
      cs_videoFramesDecoded s = counter_total (values VideoTrack ''framesDecoded'') \<and>
      cs_videoFramesDropped s = counter_total (values VideoTrack ''framesDropped'')"
  using scan_all_totals [of AudioTrack stats] scan_all_totals [of VideoTrack stats]
  by (simp add: call_stats_of_def Let_def inbound_totals_def spec_totals_def bucket_def counter_total_def)

text \<open>Unknown counters stay unknown: each published counter is the sum of the values that the inbound statistics of
  its kind have for it (a negative number of lost packets counting as none), and is unknown, never zero, when
  no statistic has it.\<close>

theorem unknown_counters_stay_unknown:
  "let s = call_stats_of now previous window stats;
       values = (\<lambda>kind key. counter_values ''inbound-rtp'' kind key (map snd stats))
   in cs_audioPacketsReceived s = counter_total (values AudioTrack ''packetsReceived'') \<and>
      cs_audioPacketsLost s = counter_total (map (max 0) (values AudioTrack ''packetsLost'')) \<and>
      cs_videoFramesDecoded s = counter_total (values VideoTrack ''framesDecoded'') \<and>
      cs_videoFramesDropped s = counter_total (values VideoTrack ''framesDropped'')"
  by (rule published_counters)

text \<open>Into the quality tracker: a poll that does not know the lost or the received packets adds nothing to the loss.\<close>

theorem unknown_loss_not_counted:
  assumes "counter_values ''inbound-rtp'' AudioTrack ''packetsLost'' (map snd stats) = [] \<or>
    counter_values ''inbound-rtp'' AudioTrack ''packetsReceived'' (map snd stats) = []"
  shows "let t' = fst (onStatsSample (quality_of_stats (call_stats_of now previous window stats)) monoMs t)
    in qt_deltaLostTotal t' = qt_deltaLostTotal t \<and> qt_deltaReceivedTotal t' = qt_deltaReceivedTotal t"
proof -
  let ?q = "quality_of_stats (call_stats_of now previous window stats)"
  from assms have "qs_audioPacketsLost ?q = None \<or> qs_audioPacketsReceived ?q = None"
    using published_counters [of now previous window stats] by (auto simp: quality_of_stats_def counter_total_def Let_def)
  then show ?thesis
    by (auto simp: onStatsSample_def loss_sample_def recompute_def act_simps split: option.split prod.split)
qed

end
