(* ===== verification/Media_Stats.thy ===== *)
theory Media_Stats
  imports Call_Stats Media_Engine
begin

text \<open>
  What the media engine reads from the statistics of its peer connections, \<^verbatim>\<open>client/packages/core/src/media/MediaEngine.ts\<close>:
  what was sent, for the watchdog of stalled media; whether every path is direct, for the gate on refreshing TURN
  credentials; and whose media arrive, in total and per role, for the liveness reports.

  A report is a list of statistics with distinct ids. What \<open>getStats\<close> answers, or that it failed, is an input. A
  sampling of the inbound bytes visits one peer after the other; samplings do not overlap.
\<close>

section \<open>Reading a report\<close>

text \<open>\<open>getStatNumber\<close> of this file: zero when there is no finite number.\<close>

definition stat_count :: "rtc_stat \<Rightarrow> string \<Rightarrow> rat" where
  "stat_count stat key = default 0 (stat_number stat key)"

definition stat_kind :: "rtc_stat \<Rightarrow> string option" where
  "stat_kind stat = coalesce (stat_string stat ''kind'') (stat_string stat ''mediaType'')"

definition report_get :: "rtc_stat list \<Rightarrow> string \<Rightarrow> rtc_stat option" where
  "report_get report key = find (\<lambda>s. st_id s = key) report"

definition readOutboundMediaSample :: "rtc_stat list \<Rightarrow> outbound_sample" where
  "readOutboundMediaSample report =
     fold (\<lambda>stat s.
         if st_type stat \<noteq> ''outbound-rtp'' then s
         else if stat_kind stat = Some ''audio'' then s\<lparr> ob_audioBytes := ob_audioBytes s + stat_count stat ''bytesSent'' \<rparr>
         else if stat_kind stat = Some ''video''
         then s\<lparr> ob_videoBytes := ob_videoBytes s + stat_count stat ''bytesSent'',
                 ob_videoFrames := ob_videoFrames s + stat_count stat ''framesSent'' \<rparr>
         else s)
       report \<lparr> ob_audioBytes = 0, ob_videoBytes = 0, ob_videoFrames = 0 \<rparr>"

section \<open>Direct paths\<close>

definition selected_pair_id :: "rtc_stat list \<Rightarrow> string option" where
  "selected_pair_id report =
     Option.bind
       (find (\<lambda>s. st_type s = ''transport'' \<and> truthy_string (stat_string s ''selectedCandidatePairId'') \<noteq> None) report)
       (\<lambda>s. stat_string s ''selectedCandidatePairId'')"

definition active_pair :: "rtc_stat list \<Rightarrow> rtc_stat option" where
  "active_pair report =
     coalesce
       (Option.bind (selected_pair_id report) (\<lambda>key. case report_get report key of
          Some p \<Rightarrow> if st_type p = ''candidate-pair'' then Some p else None
        | None \<Rightarrow> None))
       (find (\<lambda>s. st_type s = ''candidate-pair'' \<and> stat_string s ''state'' = Some ''succeeded'' \<and>
                  json_truthy (map_of (st_members s) ''nominated'')) report)"

definition isPeerOnDirectPath :: "rtc_stat list \<Rightarrow> bool" where
  "isPeerOnDirectPath report =
     (case active_pair report of
        None \<Rightarrow> False
      | Some pair \<Rightarrow>
          (case truthy_string (stat_string pair ''localCandidateId'') of
             None \<Rightarrow> False
           | Some localId \<Rightarrow>
               (case report_get report localId of
                  None \<Rightarrow> False
                | Some local \<Rightarrow>
                    st_type local = ''local-candidate'' \<and>
                    default [] (stat_string local ''candidateType'') \<notin> {[], ''relay''})))"

text \<open>The peers with their connection states and what \<open>getStats\<close> answered.\<close>

definition arePeerPathsAllDirect :: "(pc_state \<times> rtc_stat list option) list \<Rightarrow> bool" where
  "arePeerPathsAllDirect peers =
     (let activePeers = filter (\<lambda>p. fst p \<noteq> PcClosed \<and> fst p \<noteq> PcFailed) peers in
      activePeers \<noteq> [] \<and> list_all (\<lambda>p. case snd p of None \<Rightarrow> False | Some report \<Rightarrow> isPeerOnDirectPath report) activePeers)"

section \<open>Inbound liveness\<close>

record role_bytes =
  rb_camera :: rat
  rb_content :: rat

record role_liveness =
  rl_camera :: bool
  rl_content :: bool

record inbound_state =
  ib_bytes :: "(string \<times> rat) list"
  ib_roles :: "(string \<times> role_bytes) list"
  ib_liveness :: "(string \<times> role_liveness) list"

text \<open>A peer that is sampled: its id, the track and the mid of its content receiver, and its report.\<close>

record sampled_peer =
  sm_cid :: string
  sm_contentTrack :: "string option"
  sm_contentMid :: "string option"
  sm_report :: "rtc_stat list option"

definition is_content_stat :: "string option \<Rightarrow> string option \<Rightarrow> rtc_stat \<Rightarrow> bool" where
  "is_content_stat contentTrackId contentMid stat =
     (let trackId = stat_string stat ''trackIdentifier''; mid = stat_string stat ''mid'' in
      contentTrackId \<noteq> None \<and> trackId = contentTrackId \<or> trackId = None \<and> contentMid \<noteq> None \<and> mid = contentMid)"

definition inbound_stats :: "rtc_stat list \<Rightarrow> rtc_stat list" where
  "inbound_stats report = filter (\<lambda>s. st_type s = ''inbound-rtp'') report"

definition received :: "rtc_stat list \<Rightarrow> rat" where
  "received stats = sum_list (map (\<lambda>s. stat_count s ''bytesReceived'') stats)"

definition role_bytes_of :: "string option \<Rightarrow> string option \<Rightarrow> rtc_stat list \<Rightarrow> role_bytes" where
  "role_bytes_of contentTrackId contentMid report =
     (let video = filter (\<lambda>s. stat_kind s = Some ''video'') (inbound_stats report) in
      \<lparr> rb_camera = received (filter (\<lambda>s. \<not> is_content_stat contentTrackId contentMid s) video),
        rb_content = received (filter (is_content_stat contentTrackId contentMid) video) \<rparr>)"

text \<open>One round of the loop: the flowing ids so far, and the state.\<close>

definition sample_peer :: "sampled_peer \<Rightarrow> string list \<times> inbound_state \<Rightarrow> string list \<times> inbound_state" where
  "sample_peer p acc =
     (case sm_report p of
        None \<Rightarrow> acc
      | Some report \<Rightarrow>
          let (flowing, st) = acc; cid = sm_cid p; bytes = received (inbound_stats report);
              roles = role_bytes_of (sm_contentTrack p) (sm_contentMid p) report;
              previous = map_of (ib_bytes st) cid; previousRole = map_of (ib_roles st) cid
          in (if (case previous of None \<Rightarrow> False | Some b \<Rightarrow> b < bytes) then flowing @ [cid] else flowing,
              \<lparr> ib_bytes = AList.update cid bytes (ib_bytes st),
                ib_roles = AList.update cid roles (ib_roles st),
                ib_liveness = AList.update cid
                  (case previousRole of
                     None \<Rightarrow> \<lparr> rl_camera = False, rl_content = False \<rparr>
                   | Some r \<Rightarrow> \<lparr> rl_camera = (rb_camera r < rb_camera roles), rl_content = (rb_content r < rb_content roles) \<rparr>)
                  (ib_liveness st) \<rparr>))"

definition forget_unseen :: "string set \<Rightarrow> inbound_state \<Rightarrow> inbound_state" where
  "forget_unseen seen st =
     \<lparr> ib_bytes = filter (\<lambda>e. fst e \<in> seen) (ib_bytes st),
       ib_roles = filter (\<lambda>e. fst e \<in> seen) (ib_roles st),
       ib_liveness = filter (\<lambda>e. fst e \<in> seen) (ib_liveness st) \<rparr>"

definition sampleInboundLiveness :: "sampled_peer list \<Rightarrow> inbound_state \<Rightarrow> string list \<times> inbound_state" where
  "sampleInboundLiveness peers st =
     (let (flowing, st') = fold sample_peer peers ([], st) in (flowing, forget_unseen (set (map sm_cid peers)) st'))"

text \<open>A peer that is removed is forgotten.\<close>

definition forget_peer :: "string \<Rightarrow> inbound_state \<Rightarrow> inbound_state" where
  "forget_peer cid st =
     \<lparr> ib_bytes = AList.delete cid (ib_bytes st), ib_roles = AList.delete cid (ib_roles st),
       ib_liveness = AList.delete cid (ib_liveness st) \<rparr>"

definition getRoleLiveness :: "inbound_state \<Rightarrow> string \<Rightarrow> role_liveness" where
  "getRoleLiveness st cid = default \<lparr> rl_camera = False, rl_content = False \<rparr> (map_of (ib_liveness st) cid)"

definition no_samples :: inbound_state where
  "no_samples = \<lparr> ib_bytes = [], ib_roles = [], ib_liveness = [] \<rparr>"

section \<open>Whose media arrive\<close>

text \<open>What happens to the engine's memory: samplings, and the removal of peers. The newest comes first.\<close>

datatype sampling_event = Sampling "sampled_peer list" | PeerRemoved string

fun sampling_step :: "sampling_event \<Rightarrow> inbound_state \<Rightarrow> inbound_state" where
  "sampling_step (Sampling peers) st = snd (sampleInboundLiveness peers st)"
| "sampling_step (PeerRemoved cid) st = forget_peer cid st"

definition sample_history :: "sampling_event list \<Rightarrow> inbound_state" where
  "sample_history history = foldr sampling_step history no_samples"

text \<open>The total that a sampling compares with: that of the last sampling that could read it, as long as the peer has been
  there ever since.\<close>

fun last_total :: "sampling_event list \<Rightarrow> string \<Rightarrow> rat option" where
  "last_total [] cid = None"
| "last_total (PeerRemoved gone # older) cid = (if gone = cid then None else last_total older cid)"
| "last_total (Sampling peers # older) cid =
     (case find (\<lambda>p. sm_cid p = cid) peers of
        None \<Rightarrow> None
      | Some p \<Rightarrow> (case sm_report p of None \<Rightarrow> last_total older cid | Some report \<Rightarrow> Some (received (inbound_stats report))))"

fun distinct_peers :: "sampling_event \<Rightarrow> bool" where
  "distinct_peers (Sampling peers) = distinct (map sm_cid peers)"
| "distinct_peers (PeerRemoved cid) = True"

lemma sample_peers:
  assumes "distinct (map sm_cid peers)"
  shows "map_of (ib_bytes (snd (fold sample_peer peers acc))) cid =
      (case Option.bind (find (\<lambda>p. sm_cid p = cid) peers) sm_report of
         None \<Rightarrow> map_of (ib_bytes (snd acc)) cid
       | Some report \<Rightarrow> Some (received (inbound_stats report)))" (is ?total)
    and "cid \<in> set (fst (fold sample_peer peers acc)) \<longleftrightarrow>
      cid \<in> set (fst acc) \<or>
      (\<exists>report b. Option.bind (find (\<lambda>p. sm_cid p = cid) peers) sm_report = Some report \<and>
         map_of (ib_bytes (snd acc)) cid = Some b \<and> b < received (inbound_stats report))" (is ?flowing)
proof -
  have "?total \<and> ?flowing"
    using assms
  proof (induction peers arbitrary: acc)
    case (Cons p peers)
    let ?acc = "sample_peer p acc"
    have step: "map_of (ib_bytes (snd ?acc)) c =
        (if sm_cid p = c \<and> sm_report p \<noteq> None then map_option (\<lambda>r. received (inbound_stats r)) (sm_report p)
         else map_of (ib_bytes (snd acc)) c)" for c
      by (cases acc; cases "sm_report p") (auto simp: sample_peer_def Let_def update_conv')
    have flow: "c \<in> set (fst ?acc) \<longleftrightarrow> c \<in> set (fst acc) \<or>
        (sm_cid p = c \<and> (\<exists>report b. sm_report p = Some report \<and> map_of (ib_bytes (snd acc)) c = Some b \<and>
           b < received (inbound_stats report)))" for c
      by (cases acc; cases "sm_report p") (auto simp: sample_peer_def Let_def split: option.splits)
    have none: "sm_cid p = cid \<Longrightarrow> find (\<lambda>q. sm_cid q = cid) peers = None"
      using Cons.prems by (force simp: find_None_iff image_iff)
    have IH: "map_of (ib_bytes (snd (fold sample_peer peers ?acc))) cid =
        (case Option.bind (find (\<lambda>p. sm_cid p = cid) peers) sm_report of
           None \<Rightarrow> map_of (ib_bytes (snd ?acc)) cid | Some report \<Rightarrow> Some (received (inbound_stats report)))"
      "cid \<in> set (fst (fold sample_peer peers ?acc)) \<longleftrightarrow> cid \<in> set (fst ?acc) \<or>
        (\<exists>report b. Option.bind (find (\<lambda>p. sm_cid p = cid) peers) sm_report = Some report \<and>
           map_of (ib_bytes (snd ?acc)) cid = Some b \<and> b < received (inbound_stats report))"
      using Cons.IH [of ?acc] Cons.prems by auto
    show ?case
    proof (cases "sm_cid p = cid")
      case True
      then show ?thesis using IH none step [of cid] flow [of cid] by (auto split: option.splits)
    next
      case False
      then show ?thesis using IH step [of cid] flow [of cid] by (auto split: option.splits)
    qed
  qed auto
  then show ?total ?flowing by blast+
qed

lemma filtered_map: "map_of (filter (\<lambda>e. fst e \<in> S) m) k = (if k \<in> S then map_of m k else None)"
  by (induction m) auto

lemma found_cid: "find (\<lambda>p. sm_cid p = cid) peers = None \<longleftrightarrow> cid \<notin> set (map sm_cid peers)"
  by (auto simp: find_None_iff)

lemma history_total:
  assumes "list_all distinct_peers history"
  shows "map_of (ib_bytes (sample_history history)) cid = last_total history cid"
  using assms
proof (induction history)
  case (Cons event older)
  show ?case
  proof (cases event)
    case (PeerRemoved gone)
    then show ?thesis using Cons by (simp add: sample_history_def forget_peer_def delete_conv')
  next
    case (Sampling peers)
    have h: "sample_history (event # older) =
        forget_unseen (set (map sm_cid peers)) (snd (fold sample_peer peers ([], sample_history older)))"
      by (simp add: Sampling sample_history_def sampleInboundLiveness_def case_prod_beta)
    have "map_of (ib_bytes (sample_history (event # older))) cid =
        (if cid \<in> set (map sm_cid peers)
         then map_of (ib_bytes (snd (fold sample_peer peers ([], sample_history older)))) cid else None)"
      unfolding h by (simp add: forget_unseen_def filtered_map)
    also have "\<dots> = last_total (event # older) cid"
      using Cons Sampling found_cid [of cid peers] sample_peers(1) [of peers "([], sample_history older)" cid]
      by (auto split: option.splits)
    finally show ?thesis .
  qed
qed (simp add: sample_history_def no_samples_def)

text \<open>C29: A participant is reported as sending exactly when its media advanced: after any samplings and removals of peers,
  the next sampling reports the peers whose received bytes it could read and that are more than in the last sampling
  that could read them; a peer seen for the first time, or again after it was gone, is not reported.\<close>

theorem flowing_iff_advanced:
  assumes "list_all distinct_peers (Sampling now # history)"
  shows "set (fst (sampleInboundLiveness now (sample_history history))) =
    {cid. \<exists>report b. Option.bind (find (\<lambda>p. sm_cid p = cid) now) sm_report = Some report \<and>
       last_total history cid = Some b \<and> b < received (inbound_stats report)}"
  using assms sample_peers(2) [of now _ "([], sample_history history)"] history_total [of history]
  by (auto simp: sampleInboundLiveness_def case_prod_beta)

definition audio_report :: "rat \<Rightarrow> rtc_stat list" where
  "audio_report n = [\<lparr> st_id = ''a'', st_type = ''inbound-rtp'', st_members = [(''bytesReceived'', JNum (Fin n))] \<rparr>]"

definition sampled :: "string \<Rightarrow> rat \<Rightarrow> sampled_peer" where
  "sampled cid n = \<lparr> sm_cid = cid, sm_contentTrack = None, sm_contentMid = None, sm_report = Some (audio_report n) \<rparr>"

definition two_samplings :: "sampling_event list" where
  "two_samplings = [Sampling [sampled ''a'' 4, sampled ''c'' 4], PeerRemoved ''b'', Sampling [sampled ''b'' 1]]"

theorem flowing_iff_advanced_witness:
  "set (fst (sampleInboundLiveness [sampled ''a'' 9, sampled ''b'' 5, sampled ''c'' 4] (sample_history two_samplings))) =
    {cid. \<exists>report b.
       Option.bind (find (\<lambda>p. sm_cid p = cid) [sampled ''a'' 9, sampled ''b'' 5, sampled ''c'' 4]) sm_report = Some report \<and>
       last_total two_samplings cid = Some b \<and> b < received (inbound_stats report)}"
  by (rule flowing_iff_advanced) (simp add: sampled_def two_samplings_def)

section \<open>Relayed media keep the credentials fresh\<close>

text \<open>The paths count as direct only if every connection in use is known to send from a candidate that is no relay.\<close>

theorem direct_paths_known:
  assumes "arePeerPathsAllDirect peers" and "(st, outcome) \<in> set peers" and "st \<noteq> PcClosed" and "st \<noteq> PcFailed"
  shows "\<exists>report pair local type. outcome = Some report \<and> active_pair report = Some pair \<and> local \<in> set report \<and>
    st_type local = ''local-candidate'' \<and> stat_string pair ''localCandidateId'' = Some (st_id local) \<and>
    stat_string local ''candidateType'' = Some type \<and> type \<noteq> ''relay''"
proof -
  have "case outcome of None \<Rightarrow> False | Some report \<Rightarrow> isPeerOnDirectPath report"
    using assms by (fastforce simp: arePeerPathsAllDirect_def Let_def list_all_iff)
  then obtain report where r: "outcome = Some report" "isPeerOnDirectPath report" by (cases outcome) auto
  then obtain pair key local where pair: "active_pair report = Some pair"
    and key: "truthy_string (stat_string pair ''localCandidateId'') = Some key" and local: "report_get report key = Some local"
    and kind: "st_type local = ''local-candidate''" "default [] (stat_string local ''candidateType'') \<notin> {[], ''relay''}"
    by (auto simp: isPeerOnDirectPath_def split: option.splits)
  then obtain type where "stat_string local ''candidateType'' = Some type" "type \<noteq> ''relay''"
    by (cases "stat_string local ''candidateType''") auto
  moreover have "local \<in> set report" "st_id local = key"
    using local by (auto simp: report_get_def find_Some_iff)
  moreover have "stat_string pair ''localCandidateId'' = Some key"
    using key by (auto simp: truthy_string_def split: option.splits if_splits)
  ultimately show ?thesis using r pair kind by blast
qed

end
