(* ===== verification/Session.thy ===== *)
theory Session
  imports Session_Room Quality_Tracker
begin

text \<open>
  The call session of \<^verbatim>\<open>client/packages/core/src/SerenadaSession.ts\<close>, as a state machine over the host's
  calls, the provider's events, the timers and the continuations after its awaits.

  The media engine, the statistics collector and the provider are called through effects. What the
  session reads of the media engine (its stream, its connection state, its screen share) is the
  \<open>media_view\<close> of the event: it is what those getters return while the event is handled. The host's
  state listeners are effects; a connection-event listener may call \<open>leave\<close> or \<open>destroy\<close> in the middle of
  a handler, which the environment decides (\<open>sv_host\<close>). An awaiting method leaves a continuation in
  \<open>ss_pending\<close> and goes on only when the matching answer arrives.
\<close>

section \<open>Published state\<close>

datatype published_camera = PubSelfie | PubWorld | PubScreenShare
datatype media_capability = NeedCamera | NeedMicrophone
datatype signaling_status = StatusActive | StatusSuspended

datatype signaling_view =
    SigConnected
  | SigReconnecting nat
  | SigSuspended rat rat
  | SigFailed call_error_code

record local_participant =
  lp_cid :: string
  lp_displayName :: "string option"
  lp_peerId :: "string option"
  lp_audioEnabled :: bool
  lp_videoEnabled :: bool
  lp_content :: "participant_content option"
  lp_cameraMode :: published_camera
  lp_availableCameraModes :: "camera_mode list"
  lp_isHost :: bool

record remote_participant =
  rm_cid :: string
  rm_displayName :: "string option"
  rm_peerId :: "string option"
  rm_audioEnabled :: bool
  rm_videoEnabled :: bool
  rm_content :: "participant_content option"
  rm_cameraReceiving :: bool
  rm_contentReceiving :: bool
  rm_connectionState :: pc_state
  rm_signalingStatus :: signaling_status
  rm_presumedLost :: bool

record call_state =
  st_phase :: call_phase
  st_localParticipant :: "local_participant option"
  st_remoteParticipants :: "remote_participant list"
  st_connectionStatus :: link_status
  st_signalingState :: signaling_view
  st_activeTransport :: "transport_kind option"
  st_requiredPermissions :: "media_capability list option"
  st_error :: "(call_error_code \<times> string) option"

section \<open>Configuration and environment\<close>

record session_config =
  scf_videoMediaEnabled :: "bool option"
  scf_cameraModes :: "camera_mode list option"
  scf_defaultVideoEnabled :: "bool option"
  scf_defaultAudioEnabled :: "bool option"
  scf_independentContentVideo :: "bool option"

text \<open>The getters of the media engine: tracks are given by their \<open>enabled\<close> flag, \<open>None\<close> without a track.\<close>

record media_view =
  mv_hasStream :: bool
  mv_audioTrack :: "bool option"
  mv_videoTrack :: "bool option"
  mv_isScreenSharing :: bool
  mv_facingUser :: bool
  mv_contentRevision :: jsnum
  mv_connectionStatus :: link_status
  mv_connectionState :: pc_state
  mv_liveness :: "string \<Rightarrow> bool \<times> bool"
  mv_error :: "(string \<times> string) option"
  mv_hasStats :: bool

datatype host_reaction = HostStays | HostLeaves | HostDestroys

record session_env =
  sv_now :: rat
  sv_mono :: rat
  sv_media :: media_view
  sv_host :: "connection_event \<Rightarrow> host_reaction"
  sv_permissionsApi :: bool

record session_join =
  sj_reconnectPeerId :: "string option"
  sj_displayName :: "string option"
  sj_appPeerId :: "string option"

record media_flags =
  mf_audioEnabled :: "bool option"
  mf_videoEnabled :: "bool option"

section \<open>State\<close>

datatype continuation =
    KResumeMedia
  | KCheckMedia
  | KPermissions bool
  | KVideoSwap
  | KShareStart bool
  | KShareStop bool
  | KIceWait nat "int list"
  | KIceFetch nat "int list"
  | KLiveness

record session =
  ss_config :: session_config
  ss_roomId :: string
  ss_handlesReconnection :: bool
  ss_displayName :: "string option"
  ss_appPeerId :: "string option"
  ss_state :: call_state
  ss_tracker :: quality_tracker
  ss_qualitySummary :: "quality_summary option"
  ss_lastConnectionStatus :: link_status
  ss_destroyed :: bool
  ss_permissionCheckDone :: bool
  ss_permissionCheckInFlight :: bool
  ss_endingTimer :: bool
  ss_joinTimeoutTimer :: bool
  ss_reconnectTimer :: "(nat \<times> int) option"
  ss_reconnectAttempts :: nat
  ss_pendingJoinOptions :: "session_join option"
  ss_joinInFlight :: bool
  ss_reconnectRecoveryPending :: bool
  ss_pendingResync :: bool
  ss_resyncTimer :: bool
  ss_iceGeneration :: nat
  ss_started :: bool
  ss_terminated :: bool
  ss_isConnected :: bool
  ss_activeTransport :: "transport_kind option"
  ss_clientId :: "string option"
  ss_roomState :: "room_state option"
  ss_error :: "(string \<times> string) option"
  ss_remoteMediaStates :: "(string \<times> media_flags) list"
  ss_remoteCapabilities :: "(string \<times> capabilities) list"
  ss_remoteMediaPolicies :: "(string \<times> media_policy) list"
  ss_remoteContentStates :: content_map
  ss_cameraModes :: "camera_mode list"
  ss_userPreferredVideo :: bool
  ss_localSuspendedSince :: "rat option"
  ss_suspensionTimers :: "string list"
  ss_presumedLost :: "string list"
  ss_livenessTimer :: bool
  ss_livenessInFlight :: bool
  ss_statsRunning :: bool
  ss_pending :: "continuation list"

datatype session_effect =
    SigConnect
  | SigDisconnect
  | SigJoinRoom string session_join
  | SigLeaveRoom
  | SigEndRoom
  | SigBroadcast string json
  | SigGetIceServers
  | MediaUpdateRoomState "room_state option" "string option"
  | MediaUpdateConnected bool
  | MediaSeedRevision "jsnum option"
  | MediaProcess signaling_message
  | MediaSetIceServers "ice_server list"
  | MediaSignalingReconnect
  | MediaDirtyPair string
  | MediaCleanupPeers
  | MediaStopLocal
  | MediaDestroy
  | MediaStartLocal
  | MediaReacquireVideo
  | MediaReleaseVideo
  | MediaSetAudio bool
  | MediaFlip
  | MediaStartShare
  | MediaStopShare
  | MediaSampleLiveness
  | StatsStart
  | StatsStop
  | QueryPermissions bool
  | PermissionsRequired "media_capability list"
  | WaitMs int
  | NotifyHost call_state
  | HostEvent connection_event
  | HostMessage peer_message

type_synonym session_act = "(session, session_effect) act"

definition isInactive :: "session \<Rightarrow> bool" where
  "isInactive s = (ss_destroyed s \<or> ss_terminated s)"

text \<open>\<open>if (this.isInactive) return\<close>.\<close>

definition active :: "session_act \<Rightarrow> session_act" where
  "active a = ifS isInactive skipS a"

abbreviation tell :: "session_effect \<Rightarrow> session_act" where
  "tell e \<equiv> out (\<lambda>_. e)"

definition notifyListeners :: session_act where
  "notifyListeners = out (\<lambda>s. NotifyHost (ss_state s))"

definition await :: "continuation \<Rightarrow> session_act" where
  "await k = upd (\<lambda>s. s\<lparr> ss_pending := ss_pending s @ [k] \<rparr>)"

definition resume :: "continuation \<Rightarrow> session_act \<Rightarrow> session_act" where
  "resume k a = whenS (\<lambda>s. k \<in> set (ss_pending s))
     (seqS [upd (\<lambda>s. s\<lparr> ss_pending := remove1 k (ss_pending s) \<rparr>), a])"

text \<open>The collector calls the session back between \<open>start\<close> and \<open>stop\<close>.\<close>

definition statsStart :: session_act where
  "statsStart = seqS [upd (\<lambda>s. s\<lparr> ss_statsRunning := True \<rparr>), tell StatsStart]"

definition statsStop :: session_act where
  "statsStop = seqS [upd (\<lambda>s. s\<lparr> ss_statsRunning := False \<rparr>), tell StatsStop]"

section \<open>Timers and tracking\<close>

definition clearReconnectTimer :: session_act where
  "clearReconnectTimer = upd (\<lambda>s. s\<lparr> ss_reconnectTimer := None \<rparr>)"

definition clearJoinTimeout :: session_act where
  "clearJoinTimeout = upd (\<lambda>s. s\<lparr> ss_joinTimeoutTimer := False \<rparr>)"

definition clearEndingTimer :: session_act where
  "clearEndingTimer = upd (\<lambda>s. s\<lparr> ss_endingTimer := False \<rparr>)"

definition cancelPostReconnectResync :: session_act where
  "cancelPostReconnectResync = upd (\<lambda>s. s\<lparr> ss_pendingResync := False, ss_resyncTimer := False \<rparr>)"

definition invalidateIceFetches :: session_act where
  "invalidateIceFetches = upd (\<lambda>s. s\<lparr> ss_iceGeneration := ss_iceGeneration s + 1 \<rparr>)"

definition clearAllRemoteSuspensionTracking :: session_act where
  "clearAllRemoteSuspensionTracking = upd (\<lambda>s. s\<lparr> ss_suspensionTimers := [], ss_presumedLost := [] \<rparr>)"

definition clearRemoteContentTracking :: session_act where
  "clearRemoteContentTracking =
     upd (\<lambda>s. s\<lparr> ss_remoteCapabilities := [], ss_remoteMediaPolicies := [], ss_remoteContentStates := [] \<rparr>)"

definition stopMediaLivenessTimer :: session_act where
  "stopMediaLivenessTimer = upd (\<lambda>s. s\<lparr> ss_livenessTimer := False \<rparr>)"

definition maybeStartMediaLivenessTimer :: session_act where
  "maybeStartMediaLivenessTimer =
     ifS ss_livenessTimer skipS
       (ifS (\<lambda>s. int (length (case ss_roomState s of Some r \<Rightarrow> rs_participants r | None \<Rightarrow> []))
                   - (if truthy_string (ss_clientId s) = None then 0 else 1) \<le> 0)
          skipS (upd (\<lambda>s. s\<lparr> ss_livenessTimer := True \<rparr>)))"

definition scheduleJoinTimeout :: session_act where
  "scheduleJoinTimeout = active (upd (\<lambda>s. s\<lparr> ss_joinTimeoutTimer := True \<rparr>))"

definition join_again :: "session \<Rightarrow> session_join" where
  "join_again s = \<lparr> sj_reconnectPeerId = ss_clientId s, sj_displayName = ss_displayName s, sj_appPeerId = ss_appPeerId s \<rparr>"

definition schedule_session_reconnect :: session_act where
  "schedule_session_reconnect =
     ifS (\<lambda>s. isInactive s \<or> ss_handlesReconnection s \<or> \<not> ss_started s) skipS
       (ifS (\<lambda>s. ss_pendingJoinOptions s = None \<and> ss_roomState s = None \<and> truthy_string (ss_clientId s) = None) skipS
         (ifS (\<lambda>s. ss_reconnectTimer s \<noteq> None) skipS
           (upd (\<lambda>s. let attempt = ss_reconnectAttempts s + 1 in
                    s\<lparr> ss_reconnectTimer := Some (attempt,
                         min (RECONNECT_BACKOFF_BASE_MS * 2 ^ (attempt - 1)) RECONNECT_BACKOFF_CAP_MS) \<rparr>))))"

definition armPostReconnectResync :: session_act where
  "armPostReconnectResync = upd (\<lambda>s. s\<lparr> ss_pendingResync := True, ss_resyncTimer := True \<rparr>)"

definition flushPostReconnectResync :: session_act where
  "flushPostReconnectResync =
     whenS ss_pendingResync (seqS [cancelPostReconnectResync, tell MediaSignalingReconnect])"

section \<open>Ending\<close>

definition finalizeQuality :: "session_env \<Rightarrow> session_act" where
  "finalizeQuality env =
     ifS (\<lambda>s. ss_qualitySummary s \<noteq> None) skipS
       (upd (\<lambda>s. let t = fst (finalizeTracker (sv_mono env) (ss_tracker s)) in
                s\<lparr> ss_tracker := t, ss_qualitySummary := qt_summary t \<rparr>))"

definition destroy_session :: "session_env \<Rightarrow> session_act" where
  "destroy_session env =
     ifS ss_destroyed skipS
       (seqS
         [upd (\<lambda>s. s\<lparr> ss_destroyed := True \<rparr>),
          finalizeQuality env, invalidateIceFetches, clearReconnectTimer, clearEndingTimer, clearJoinTimeout,
          cancelPostReconnectResync, clearAllRemoteSuspensionTracking, stopMediaLivenessTimer,
          statsStop, tell MediaDestroy, tell SigDisconnect])"

definition leave_session :: "session_env \<Rightarrow> session_act" where
  "leave_session env =
     active
       (seqS
         [finalizeQuality env, clearReconnectTimer, invalidateIceFetches,
          upd (\<lambda>s. s\<lparr> ss_pendingJoinOptions := None, ss_joinInFlight := False \<rparr>),
          tell SigLeaveRoom, tell MediaCleanupPeers, statsStop,
          upd (\<lambda>s. s\<lparr> ss_roomState := None, ss_remoteMediaStates := [] \<rparr>),
          clearRemoteContentTracking,
          upd (\<lambda>s. s\<lparr> ss_state := (ss_state s)\<lparr> st_phase := Idle \<rparr> \<rparr>),
          notifyListeners, destroy_session env])"

definition end_session :: "session_env \<Rightarrow> session_act" where
  "end_session env = active (seqS [tell SigEndRoom, leave_session env])"

definition cancelJoin :: "session_env \<Rightarrow> session_act" where
  "cancelJoin env =
     seqS
       [upd (\<lambda>s. s\<lparr> ss_permissionCheckDone := True,
                    ss_state := (ss_state s)\<lparr> st_phase := Idle, st_requiredPermissions := None \<rparr> \<rparr>),
        notifyListeners, destroy_session env]"

text \<open>A connection event reaches the host, whose listener may leave or destroy the session.\<close>

definition dispatchConnectionEvent :: "session_env \<Rightarrow> connection_event \<Rightarrow> session_act" where
  "dispatchConnectionEvent env e =
     seqS [tell (HostEvent e),
           (case sv_host env e of
              HostStays \<Rightarrow> skipS | HostLeaves \<Rightarrow> leave_session env | HostDestroys \<Rightarrow> destroy_session env)]"

definition call_tracker :: "session_env \<Rightarrow> tracker_act \<Rightarrow> session_act" where
  "call_tracker env a =
     letS (\<lambda>s. a (ss_tracker s)) (\<lambda>r.
     seqS [upd (\<lambda>s. s\<lparr> ss_tracker := fst r \<rparr>), forS (snd r) (dispatchConnectionEvent env)])"

definition reset_resources :: session_act where
  "reset_resources =
     upd (\<lambda>s. s\<lparr> ss_started := False, ss_isConnected := False, ss_activeTransport := None,
                 ss_pendingJoinOptions := None, ss_joinInFlight := False, ss_reconnectRecoveryPending := False,
                 ss_reconnectAttempts := 0, ss_localSuspendedSince := None, ss_roomState := None,
                 ss_clientId := None, ss_remoteMediaStates := [] \<rparr>)"

definition resetSessionResources :: session_act where
  "resetSessionResources =
     seqS
       [clearReconnectTimer, clearJoinTimeout, clearEndingTimer, cancelPostReconnectResync,
        clearAllRemoteSuspensionTracking, stopMediaLivenessTimer, invalidateIceFetches, statsStop,
        reset_resources, clearRemoteContentTracking,
        tell (MediaUpdateRoomState None None), tell (MediaUpdateConnected False), tell MediaCleanupPeers,
        tell MediaStopLocal, tell SigDisconnect]"

definition commitTerminalState :: "call_phase \<Rightarrow> (call_error_code \<times> string) option \<Rightarrow> session_act" where
  "commitTerminalState phase error =
     seqS
       [upd (\<lambda>s. s\<lparr> ss_state :=
          \<lparr> st_phase = phase, st_localParticipant = None, st_remoteParticipants = [],
            st_connectionStatus = LinkDisconnected,
            st_signalingState = (case error of Some (code, _) \<Rightarrow> SigFailed code
                                 | None \<Rightarrow> st_signalingState (ss_state s)),
            st_activeTransport = None, st_requiredPermissions = None, st_error = error \<rparr> \<rparr>),
        notifyListeners]"

definition cleanupCall :: "session_env \<Rightarrow> session_act" where
  "cleanupCall env =
     seqS
       [upd (\<lambda>s. s\<lparr> ss_terminated := True, ss_error := None \<rparr>),
        finalizeQuality env, resetSessionResources, commitTerminalState EndingPhase None,
        upd (\<lambda>s. s\<lparr> ss_endingTimer := True \<rparr>)]"

definition ending_fired :: session_act where
  "ending_fired =
     whenS ss_endingTimer
       (seqS [upd (\<lambda>s. s\<lparr> ss_endingTimer := False \<rparr>),
              ifS ss_destroyed skipS (commitTerminalState Idle None)])"

definition failWithError :: "session_env \<Rightarrow> string \<Rightarrow> string \<Rightarrow> session_act" where
  "failWithError env code message =
     seqS
       [upd (\<lambda>s. s\<lparr> ss_terminated := True, ss_error := Some (code, message) \<rparr>),
        whenS (\<lambda>s. qt_inCallStartedAtMs (ss_tracker s) \<noteq> None)
          (case reconnectFailedReasonForCode code of
             None \<Rightarrow> skipS | Some r \<Rightarrow> call_tracker env (reportReconnectFailed r)),
        finalizeQuality env, resetSessionResources,
        commitTerminalState ErrorPhase (Some (mapErrorCode code, message))]"

definition failOnLocalMediaError :: "session_env \<Rightarrow> session_act" where
  "failOnLocalMediaError env =
     (case mv_error (sv_media env) of
        None \<Rightarrow> skipS
      | Some (name, message) \<Rightarrow>
          failWithError env
            (if name \<in> {''NotAllowedError'', ''PermissionDeniedError'', ''SecurityError''} then ''PERMISSION_DENIED''
             else if name = ''NotSupportedError'' then ''MEDIA_UNSUPPORTED'' else ''LOCAL_MEDIA_FAILED'') message)"

section \<open>Rebuilding the published state\<close>

definition current_participants :: "session \<Rightarrow> room_participant list" where
  "current_participants s = (case ss_roomState s of Some r \<Rightarrow> rs_participants r | None \<Rightarrow> [])"

definition next_phase :: "session \<Rightarrow> call_phase" where
  "next_phase s =
     (if ss_error s \<noteq> None then ErrorPhase
      else case ss_roomState s of
             None \<Rightarrow> st_phase (ss_state s)
           | Some r \<Rightarrow> if 1 < length (rs_participants r) then InCall else WaitingPhase)"

definition local_video :: "media_view \<Rightarrow> session \<Rightarrow> bool" where
  "local_video v s = (if mv_hasStream v then mv_videoTrack v = Some True else ss_userPreferredVideo s)"

definition local_audio :: "media_view \<Rightarrow> session \<Rightarrow> bool" where
  "local_audio v s = default (scf_defaultAudioEnabled (ss_config s) \<noteq> Some False)
     (if mv_hasStream v then mv_audioTrack v else None)"

definition buildLocalContent :: "media_view \<Rightarrow> participant_content option" where
  "buildLocalContent v =
     (if mv_isScreenSharing v
      then Some \<lparr> pc_active = True, pc_type = ''screenShare'', pc_revision = mv_contentRevision v \<rparr> else None)"

definition published_local :: "media_view \<Rightarrow> session \<Rightarrow> local_participant option" where
  "published_local v s =
     map_option (\<lambda>cid.
       \<lparr> lp_cid = cid, lp_displayName = ss_displayName s, lp_peerId = ss_appPeerId s,
         lp_audioEnabled = local_audio v s, lp_videoEnabled = local_video v s,
         lp_content = buildLocalContent v,
         lp_cameraMode = (if scf_independentContentVideo (ss_config s) \<noteq> Some True \<and> mv_isScreenSharing v
                          then PubScreenShare else if mv_facingUser v then PubSelfie else PubWorld),
         lp_availableCameraModes = ss_cameraModes s,
         lp_isHost = (Option.bind (ss_roomState s) rs_hostCid = Some cid) \<rparr>)
       (truthy_string (ss_clientId s))"

definition published_remote :: "media_view \<Rightarrow> session \<Rightarrow> room_participant \<Rightarrow> remote_participant" where
  "published_remote v s p =
     (let peerState = map_of (ss_remoteMediaStates s) (rp_cid p);
          status = (if rp_connectionStatus p = Some Suspended then StatusSuspended else StatusActive);
          tracked = map_option trk_content (map_of (ss_remoteContentStates s) (rp_cid p))
      in \<lparr> rm_cid = rp_cid p, rm_displayName = rp_displayName p, rm_peerId = rp_peerId p,
           rm_audioEnabled = default True (coalesce (Option.bind peerState mf_audioEnabled) (rp_audioEnabled p)),
           rm_videoEnabled = default True (coalesce (Option.bind peerState mf_videoEnabled) (rp_videoEnabled p)),
           rm_content = (case tracked of Some c \<Rightarrow> if pc_active c then Some c else None | None \<Rightarrow> None),
           rm_cameraReceiving = fst (mv_liveness v (rp_cid p)), rm_contentReceiving = snd (mv_liveness v (rp_cid p)),
           rm_connectionState = mv_connectionState v, rm_signalingStatus = status,
           rm_presumedLost = (status = StatusSuspended \<and> rp_cid p \<in> set (ss_presumedLost s)) \<rparr>)"

definition computeSignalingState :: "session \<Rightarrow> (call_error_code \<times> string) option \<Rightarrow> signaling_view" where
  "computeSignalingState s error =
     (case error of
        Some (code, _) \<Rightarrow> SigFailed code
      | None \<Rightarrow>
          if ss_isConnected s then SigConnected
          else case ss_localSuspendedSince s of
                 Some since \<Rightarrow> SigSuspended since (since + of_int SUSPEND_HARD_EVICTION_TIMEOUT_MS)
               | None \<Rightarrow> SigReconnecting (ss_reconnectAttempts s))"

definition is_remote :: "session \<Rightarrow> room_participant \<Rightarrow> bool" where
  "is_remote s p = (Some (rp_cid p) \<noteq> ss_clientId s)"

definition clear_suspension :: "string \<Rightarrow> session \<Rightarrow> session" where
  "clear_suspension cid s =
     s\<lparr> ss_suspensionTimers := removeAll cid (ss_suspensionTimers s),
        ss_presumedLost := removeAll cid (ss_presumedLost s) \<rparr>"

text \<open>The loop body of \<open>reconcileRemoteSuspensionTimers\<close> for a remote participant.\<close>

definition reconcile_suspension :: "room_participant \<Rightarrow> session \<Rightarrow> session" where
  "reconcile_suspension p s =
     (if rp_connectionStatus p = Some Suspended
      then (if rp_cid p \<notin> set (ss_suspensionTimers s) \<and> rp_cid p \<notin> set (ss_presumedLost s)
            then s\<lparr> ss_suspensionTimers := ss_suspensionTimers s @ [rp_cid p] \<rparr> else s)
      else clear_suspension (rp_cid p) s)"

definition reconcileRemoteSuspensionTimers :: "session \<Rightarrow> session" where
  "reconcileRemoteSuspensionTimers s =
     (let remotes = filter (is_remote s) (current_participants s);
          s1 = fold reconcile_suspension remotes s
      in fold (\<lambda>cid s. if cid \<in> set (map rp_cid remotes) then s else clear_suspension cid s)
           (ss_suspensionTimers s1 @ ss_presumedLost s1) s1)"

definition set_or_delete :: "string \<Rightarrow> 'a option \<Rightarrow> (string \<times> 'a) list \<Rightarrow> (string \<times> 'a) list" where
  "set_or_delete k v m = (case v of Some x \<Rightarrow> AList.update k x m | None \<Rightarrow> AList.delete k m)"

definition reconcile_capability :: "room_participant \<Rightarrow> session \<Rightarrow> session" where
  "reconcile_capability p s =
     s\<lparr> ss_remoteCapabilities := set_or_delete (rp_cid p) (rp_capabilities p) (ss_remoteCapabilities s),
        ss_remoteMediaPolicies := set_or_delete (rp_cid p) (rp_mediaPolicy p) (ss_remoteMediaPolicies s),
        ss_remoteContentStates :=
          (case rp_contentState p of
             None \<Rightarrow> ss_remoteContentStates s
           | Some c \<Rightarrow> fst (applyRemoteContentState (rp_cid p) None (cs_active c) (cs_contentType c)
                             (cs_revision c) True (ss_remoteContentStates s))) \<rparr>"

definition restrict_keys :: "string list \<Rightarrow> (string \<times> 'a) list \<Rightarrow> (string \<times> 'a) list" where
  "restrict_keys cids m = fold AList.delete (filter (\<lambda>k. k \<notin> set cids) (map_keys m)) m"

definition reconcileRemoteCapabilityStorage :: "session \<Rightarrow> session" where
  "reconcileRemoteCapabilityStorage s =
     (let remotes = filter (is_remote s) (current_participants s);
          cids = map rp_cid remotes;
          s1 = fold reconcile_capability remotes s
      in s1\<lparr> ss_remoteCapabilities := restrict_keys cids (ss_remoteCapabilities s1),
             ss_remoteMediaPolicies := restrict_keys cids (ss_remoteMediaPolicies s1),
             ss_remoteContentStates := restrict_keys cids (ss_remoteContentStates s1) \<rparr>)"

definition getRemoteIndependentContentVideo :: "string \<Rightarrow> session \<Rightarrow> bool" where
  "getRemoteIndependentContentVideo cid s =
     (Option.bind (map_of (ss_remoteCapabilities s) cid) cap_independentContentVideo = Some True)"

definition getRemoteVideoMediaEnabled :: "string \<Rightarrow> session \<Rightarrow> bool" where
  "getRemoteVideoMediaEnabled cid s =
     (Option.bind (map_of (ss_remoteMediaPolicies s) cid) mp_videoMediaEnabled \<noteq> Some False)"

definition ensureStatsCollection :: "session_env \<Rightarrow> session_act" where
  "ensureStatsCollection env = (if mv_hasStats (sv_media env) then skipS else statsStart)"

definition startLocalMedia :: "continuation \<Rightarrow> session_act" where
  "startLocalMedia k = seqS [tell MediaStartLocal, await k]"

definition checkPermissionsAndStartMedia :: "session_env \<Rightarrow> session_act" where
  "checkPermissionsAndStartMedia env =
     ifS (\<lambda>s. ss_permissionCheckDone s \<or> ss_permissionCheckInFlight s) skipS
       (seqS
         [upd (\<lambda>s. s\<lparr> ss_permissionCheckInFlight := True \<rparr>),
          letS (\<lambda>s. ss_cameraModes s \<noteq> [] \<and> ss_userPreferredVideo s) (\<lambda>needsCamera.
            if sv_permissionsApi env
            then seqS [tell (QueryPermissions needsCamera), await (KPermissions needsCamera)]
            else seqS
              [upd (\<lambda>s. s\<lparr> ss_permissionCheckDone := True, ss_permissionCheckInFlight := False \<rparr>),
               startLocalMedia KCheckMedia])])"

text \<open>Phase and connection status for the quality tracker.\<close>

definition feedQualityTracker :: "session_env \<Rightarrow> call_phase \<Rightarrow> call_phase \<Rightarrow> link_status \<Rightarrow> session_act" where
  "feedQualityTracker env previousPhase nextPhase nextStatus =
     seqS
       [(if nextPhase \<noteq> previousPhase then call_tracker env (onPhaseTransition nextPhase (sv_mono env)) else skipS),
        whenS (\<lambda>s. nextStatus \<noteq> ss_lastConnectionStatus s)
          (letS (\<lambda>s. if ss_isConnected s then UnknownTrigger else NetworkLost) (\<lambda>trigger.
            seqS
              [call_tracker env (onConnectionStatusTransition nextStatus trigger (sv_mono env)),
               upd (\<lambda>s. s\<lparr> ss_lastConnectionStatus := nextStatus \<rparr>)]))]"

definition rebuildState :: "session_env \<Rightarrow> session_act" where
  "rebuildState env =
     active
       (letS (\<lambda>s. (st_phase (ss_state s), next_phase s)) (\<lambda>(previousPhase, phase).
        seqS
          [whenS (\<lambda>s. ss_error s = None \<and> ss_roomState s \<noteq> None)
             (seqS
               [whenS (\<lambda>s. 1 < length (current_participants s)) (ensureStatsCollection env),
                whenS (\<lambda>s. \<not> ss_permissionCheckDone s \<and> \<not> mv_hasStream (sv_media env))
                  (checkPermissionsAndStartMedia env)]),
           letS (published_local (sv_media env)) (\<lambda>localParticipant.
           seqS
             [upd reconcileRemoteSuspensionTimers,
              upd reconcileRemoteCapabilityStorage,
              letS (\<lambda>s. map (published_remote (sv_media env) s) (filter (is_remote s) (current_participants s)))
                (\<lambda>remoteParticipants.
              letS (\<lambda>s. map_option (\<lambda>(code, message). (mapErrorCode code, message)) (ss_error s)) (\<lambda>errorPayload.
              seqS
                [feedQualityTracker env previousPhase phase (mv_connectionStatus (sv_media env)),
                 active
                   (seqS
                     [upd (\<lambda>s. s\<lparr> ss_state :=
                        \<lparr> st_phase = phase, st_localParticipant = localParticipant,
                          st_remoteParticipants = remoteParticipants,
                          st_connectionStatus = mv_connectionStatus (sv_media env),
                          st_signalingState = computeSignalingState s errorPayload,
                          st_activeTransport = ss_activeTransport s,
                          st_requiredPermissions = st_requiredPermissions (ss_state s),
                          st_error = errorPayload \<rparr> \<rparr>),
                      notifyListeners])]))])]))"

definition broadcastLocalMediaState :: "media_view \<Rightarrow> session_act" where
  "broadcastLocalMediaState v =
     out (\<lambda>s. SigBroadcast ''participant_media_state''
       (JObj [(''audioEnabled'', JBool (local_audio v s)), (''videoEnabled'', JBool (local_video v s))]))"

section \<open>Fetching the ICE servers\<close>

definition isCurrentIceFetch :: "nat \<Rightarrow> session \<Rightarrow> bool" where
  "isCurrentIceFetch generation s = (\<not> ss_destroyed s \<and> generation = ss_iceGeneration s)"

definition ice_fetch :: "nat \<Rightarrow> int list \<Rightarrow> session_act" where
  "ice_fetch generation rest =
     ifS (isCurrentIceFetch generation) (seqS [await (KIceFetch generation rest), tell SigGetIceServers]) skipS"

definition ice_next :: "session_env \<Rightarrow> nat \<Rightarrow> string \<Rightarrow> int list \<Rightarrow> session_act" where
  "ice_next env generation lastError delays =
     (case delays of
        [] \<Rightarrow> ifS (isCurrentIceFetch generation) (failWithError env ''ICE_SERVER_FETCH_FAILED'' lastError) skipS
      | delayMs # rest \<Rightarrow>
          if 0 < delayMs then seqS [await (KIceWait generation rest), tell (WaitMs delayMs)]
          else ice_fetch generation rest)"

definition fetchInitialIceServers :: "session_env \<Rightarrow> session_act" where
  "fetchInitialIceServers env =
     seqS
       [upd (\<lambda>s. s\<lparr> ss_iceGeneration := ss_iceGeneration s + 1 \<rparr>),
        letS ss_iceGeneration (\<lambda>generation. ice_next env generation ''null'' ICE_FETCH_RETRY_DELAYS_MS)]"

text \<open>The answer of \<open>getIceServers\<close>: the servers, or the text of the error it threw.\<close>

definition ice_answered :: "session_env \<Rightarrow> nat \<Rightarrow> int list \<Rightarrow> string + ice_server list \<Rightarrow> session_act" where
  "ice_answered env generation rest answer =
     resume (KIceFetch generation rest)
       (case answer of
          Inr iceServers \<Rightarrow> ifS (isCurrentIceFetch generation) (tell (MediaSetIceServers iceServers)) skipS
        | Inl lastError \<Rightarrow> ice_next env generation lastError rest)"

section \<open>Provider events\<close>

definition seedLocalContentRevisionFromSnapshot :: session_act where
  "seedLocalContentRevisionFromSnapshot =
     letS (\<lambda>s. (truthy_string (ss_clientId s), ss_roomState s)) (\<lambda>x. case x of
       (Some cid, Some r) \<Rightarrow>
         tell (MediaSeedRevision (Option.bind (find (\<lambda>p. rp_cid p = cid) (rs_participants r))
           (\<lambda>p. Option.bind (rp_contentState p) cs_revision)))
     | _ \<Rightarrow> skipS)"

definition push_room_state :: session_act where
  "push_room_state = out (\<lambda>s. MediaUpdateRoomState (ss_roomState s) (ss_clientId s))"

definition handleConnected :: "session_env \<Rightarrow> transport_kind option \<Rightarrow> session_act" where
  "handleConnected env transport =
     active
       (letS ss_isConnected (\<lambda>wasConnected.
        seqS
          [upd (\<lambda>s. s\<lparr> ss_isConnected := True, ss_activeTransport := transport, ss_localSuspendedSince := None \<rparr>),
           clearReconnectTimer,
           upd (\<lambda>s. s\<lparr> ss_reconnectAttempts := 0 \<rparr>),
           tell (MediaUpdateConnected True),
           ifS (\<lambda>s. ss_pendingJoinOptions s \<noteq> None \<and> \<not> ss_joinInFlight s)
             (seqS [upd (\<lambda>s. s\<lparr> ss_joinInFlight := True \<rparr>),
                    out (\<lambda>s. SigJoinRoom (ss_roomId s) (the (ss_pendingJoinOptions s)))])
             (whenS (\<lambda>s. \<not> wasConnected \<and> ss_handlesReconnection s \<and> ss_reconnectRecoveryPending s
                       \<and> ss_roomState s \<noteq> None)
               (seqS [upd (\<lambda>s. s\<lparr> ss_reconnectRecoveryPending := False \<rparr>), armPostReconnectResync])),
           rebuildState env]))"

definition handleDisconnected :: "session_env \<Rightarrow> session_act" where
  "handleDisconnected env =
     active
       (letS (\<lambda>s. ss_roomState s \<noteq> None) (\<lambda>hadRoomState.
        seqS
          [upd (\<lambda>s. s\<lparr> ss_isConnected := False, ss_activeTransport := None, ss_joinInFlight := False \<rparr>),
           whenS (\<lambda>s. hadRoomState \<and> ss_localSuspendedSince s = None)
             (upd (\<lambda>s. s\<lparr> ss_localSuspendedSince := Some (sv_now env) \<rparr>)),
           tell (MediaUpdateConnected False),
           ifS ss_handlesReconnection
             (upd (\<lambda>s. s\<lparr> ss_reconnectRecoveryPending := hadRoomState \<rparr>))
             (seqS [upd (\<lambda>s. s\<lparr> ss_pendingJoinOptions := Some (join_again s) \<rparr>), schedule_session_reconnect]),
           rebuildState env]))"

definition session_joined :: "session_env \<Rightarrow> joined_event \<Rightarrow> session_act" where
  "session_joined env event =
     active
       (seqS
         [upd (\<lambda>s. s\<lparr> ss_joinInFlight := False, ss_pendingJoinOptions := None, ss_reconnectRecoveryPending := False \<rparr>),
          clearJoinTimeout,
          upd (\<lambda>s. s\<lparr> ss_error := None, ss_clientId := Some (je_peerId event),
                      ss_roomState := Some (buildRoomState (je_participants event) (je_hostPeerId event)
                        (je_maxParticipants event) None (Some (je_peerId event))) \<rparr>),
          seedLocalContentRevisionFromSnapshot, push_room_state, maybeStartMediaLivenessTimer,
          rebuildState env, broadcastLocalMediaState (sv_media env), fetchInitialIceServers env])"

definition handleRoomStateUpdated :: "session_env \<Rightarrow> room_state_event \<Rightarrow> session_act" where
  "handleRoomStateUpdated env event =
     active
       (seqS
         [upd (\<lambda>s. s\<lparr> ss_error := None,
                      ss_roomState := Some (buildRoomState (re_participants event) (re_hostPeerId event)
                        (re_maxParticipants event) (Option.bind (ss_roomState s) rs_hostCid) (ss_clientId s)) \<rparr>),
          seedLocalContentRevisionFromSnapshot, push_room_state, maybeStartMediaLivenessTimer,
          flushPostReconnectResync, rebuildState env])"

definition handlePeerJoined :: "session_env \<Rightarrow> provider_participant \<Rightarrow> session_act" where
  "handlePeerJoined env event =
     active
       (seqS
         [upd (\<lambda>s. s\<lparr> ss_error := None, ss_roomState := upsertParticipant (ss_roomState s) event (ss_clientId s) \<rparr>),
          push_room_state, maybeStartMediaLivenessTimer, rebuildState env, broadcastLocalMediaState (sv_media env)])"

definition handlePeerLeft :: "session_env \<Rightarrow> string \<Rightarrow> session_act" where
  "handlePeerLeft env peerId =
     active
       (seqS
         [upd (\<lambda>s. s\<lparr> ss_remoteMediaStates := AList.delete peerId (ss_remoteMediaStates s),
                      ss_remoteCapabilities := AList.delete peerId (ss_remoteCapabilities s),
                      ss_remoteMediaPolicies := AList.delete peerId (ss_remoteMediaPolicies s),
                      ss_remoteContentStates := AList.delete peerId (ss_remoteContentStates s),
                      ss_roomState := removeParticipant (ss_roomState s) peerId (ss_clientId s) \<rparr>),
          push_room_state, rebuildState env])"

definition flags_after :: "json \<Rightarrow> media_flags option \<Rightarrow> media_flags" where
  "flags_after payload existing =
     \<lparr> mf_audioEnabled = coalesce (as_bool (field (Some payload) ''audioEnabled'')) (Option.bind existing mf_audioEnabled),
       mf_videoEnabled = coalesce (as_bool (field (Some payload) ''videoEnabled'')) (Option.bind existing mf_videoEnabled) \<rparr>"

definition handleRemoteMediaState :: "session_env \<Rightarrow> peer_message \<Rightarrow> session_act" where
  "handleRemoteMediaState env message =
     (if \<not> json_truthy (Some (pm_payload message)) then skipS
      else seqS
        [upd (\<lambda>s. s\<lparr> ss_remoteMediaStates := AList.update (pm_from message)
             (flags_after (pm_payload message) (map_of (ss_remoteMediaStates s) (pm_from message)))
             (ss_remoteMediaStates s) \<rparr>),
         rebuildState env])"

definition handleRemoteContentState :: "session_env \<Rightarrow> peer_message \<Rightarrow> session_act" where
  "handleRemoteContentState env message =
     (let payload = Some (pm_payload message) in
      case as_bool (field payload ''active'') of
        None \<Rightarrow> skipS
      | Some active_flag \<Rightarrow>
          letS (\<lambda>s. applyRemoteContentState (pm_from message) (pm_sid message) active_flag
                       (as_nonempty (field payload ''contentType'')) (parseContentRevision (field payload ''revision''))
                       False (ss_remoteContentStates s)) (\<lambda>(states, changed).
          seqS [upd (\<lambda>s. s\<lparr> ss_remoteContentStates := states \<rparr>), (if changed then rebuildState env else skipS)]))"

definition handlePeerMessage :: "session_env \<Rightarrow> peer_message \<Rightarrow> session_act" where
  "handlePeerMessage env message =
     active
       (seqS
         [(if isMediaSignalingMessageType (pm_type message)
           then tell (MediaProcess (toMediaSignalingMessage message)) else skipS),
          (if pm_type message = ''participant_media_state'' then handleRemoteMediaState env message else skipS),
          (if pm_type message = ''content_state'' then handleRemoteContentState env message else skipS),
          tell (HostMessage message)])"

definition handleError :: "session_env \<Rightarrow> error_payload \<Rightarrow> session_act" where
  "handleError env event =
     active (if ep_code event = ''TURN_REFRESH_FAILED'' then skipS
             else failWithError env (ep_code event) (ep_message event))"

fun on_provider_event :: "session_env \<Rightarrow> provider_event \<Rightarrow> session_act" where
  "on_provider_event env (EvConnected t) = handleConnected env t"
| "on_provider_event env EvDisconnected = handleDisconnected env"
| "on_provider_event env (EvJoined e) = session_joined env e"
| "on_provider_event env (EvRoomStateUpdated e) = handleRoomStateUpdated env e"
| "on_provider_event env (EvPeerJoined p) = handlePeerJoined env p"
| "on_provider_event env (EvPeerLeft p) = handlePeerLeft env (pp_peerId p)"
| "on_provider_event env (EvMessage m) = handlePeerMessage env m"
| "on_provider_event env (EvRoomEnded _ _) = active (cleanupCall env)"
| "on_provider_event env (EvError e) = handleError env e"
| "on_provider_event env (EvIceServersChanged servers) = active (tell (MediaSetIceServers servers))"
| "on_provider_event env (EvNegotiationDirty cid) = active (tell (MediaDirtyPair cid))"
| "on_provider_event env (EvRelayFailed _) = skipS"

section \<open>The host's calls\<close>

definition start_session :: session_act where
  "start_session =
     ifS ss_started skipS
       (seqS
         [upd (\<lambda>s. s\<lparr> ss_started := True,
                      ss_pendingJoinOptions := Some \<lparr> sj_reconnectPeerId = None, sj_displayName = ss_displayName s,
                                                      sj_appPeerId = ss_appPeerId s \<rparr> \<rparr>),
          scheduleJoinTimeout, tell SigConnect])"

definition resumeJoin :: session_act where
  "resumeJoin = active (seqS [upd (\<lambda>s. s\<lparr> ss_permissionCheckDone := True \<rparr>), startLocalMedia KResumeMedia])"

text \<open>The continuations of \<open>resumeJoin\<close> and of the permission check, once local media started or failed.\<close>

definition media_started :: "session_env \<Rightarrow> bool \<Rightarrow> bool \<Rightarrow> session_act" where
  "media_started env resumed gotStream =
     resume (if resumed then KResumeMedia else KCheckMedia)
       (active
         (if \<not> gotStream then failOnLocalMediaError env
          else if resumed then seqS [broadcastLocalMediaState (sv_media env), rebuildState env]
          else rebuildState env))"

definition require_permissions :: "media_capability list \<Rightarrow> session_act" where
  "require_permissions required =
     seqS
       [upd (\<lambda>s. s\<lparr> ss_permissionCheckInFlight := False,
                    ss_state := (ss_state s)\<lparr> st_phase := AwaitingPermissions,
                                              st_requiredPermissions := Some required \<rparr> \<rparr>),
        notifyListeners, tell (PermissionsRequired required)]"

datatype permission = Granted | Denied | Prompt | Unqueried

definition capabilities_that_are :: "permission \<Rightarrow> permission \<Rightarrow> permission \<Rightarrow> media_capability list" where
  "capabilities_that_are p camera mic =
     (if camera = p then [NeedCamera] else []) @ (if mic = p then [NeedMicrophone] else [])"

text \<open>The answer of the permission query; it goes on even when the session has ended meanwhile.\<close>

definition permissions_answered :: "session_env \<Rightarrow> bool \<Rightarrow> permission \<Rightarrow> permission \<Rightarrow> session_act" where
  "permissions_answered env needsCamera cameraAnswer mic =
     (let camera = (if needsCamera then cameraAnswer else Unqueried) in
      resume (KPermissions needsCamera)
        (if capabilities_that_are Prompt camera mic \<noteq> []
         then require_permissions (capabilities_that_are Prompt camera mic)
         else if capabilities_that_are Denied camera mic \<noteq> []
         then require_permissions (capabilities_that_are Denied camera mic)
         else seqS
           [upd (\<lambda>s. s\<lparr> ss_permissionCheckDone := True, ss_permissionCheckInFlight := False \<rparr>),
            startLocalMedia KCheckMedia]))"

definition permissions_threw :: "bool \<Rightarrow> session_act" where
  "permissions_threw needsCamera =
     resume (KPermissions needsCamera)
       (require_permissions (if needsCamera then [NeedCamera, NeedMicrophone] else [NeedMicrophone]))"

definition set_video :: "session_env \<Rightarrow> bool option \<Rightarrow> session_act" where
  "set_video env enabled =
     whenS (\<lambda>s. mv_hasStream (sv_media env) \<and> ss_cameraModes s \<noteq> [])
       (letS (\<lambda>s. default (\<not> default (ss_userPreferredVideo s) (mv_videoTrack (sv_media env))) enabled) (\<lambda>newEnabled.
        seqS
          [upd (\<lambda>s. s\<lparr> ss_userPreferredVideo := newEnabled \<rparr>),
           tell (if newEnabled then MediaReacquireVideo else MediaReleaseVideo),
           await KVideoSwap, rebuildState env]))"

definition video_swapped :: "session_env \<Rightarrow> session_act" where
  "video_swapped env =
     resume KVideoSwap (active (seqS [broadcastLocalMediaState (sv_media env), rebuildState env]))"

text \<open>The audio track is toggled in place: what follows reads its new state.\<close>

definition set_audio :: "session_env \<Rightarrow> bool option \<Rightarrow> session_act" where
  "set_audio env enabled =
     (let v = sv_media env in
      if \<not> mv_hasStream v then skipS
      else case mv_audioTrack v of
             None \<Rightarrow> seqS [broadcastLocalMediaState v, rebuildState env]
           | Some now \<Rightarrow>
               (let b = default (\<not> now) enabled; v' = v\<lparr> mv_audioTrack := Some b \<rparr> in
                seqS [tell (MediaSetAudio b), broadcastLocalMediaState v', rebuildState (env\<lparr> sv_media := v' \<rparr>)]))"

definition setCameraMode :: "session_env \<Rightarrow> camera_mode option \<Rightarrow> session_act" where
  "setCameraMode env mode =
     (case mode of
        Some Selfie \<Rightarrow> whenS (\<lambda>s. Selfie \<in> set (ss_cameraModes s) \<and> \<not> mv_facingUser (sv_media env)) (tell MediaFlip)
      | Some World \<Rightarrow> whenS (\<lambda>s. World \<in> set (ss_cameraModes s) \<and> mv_facingUser (sv_media env)) (tell MediaFlip)
      | _ \<Rightarrow> skipS)"

definition flipCamera_session :: session_act where
  "flipCamera_session = ifS (\<lambda>s. length (ss_cameraModes s) \<le> 1) skipS (tell MediaFlip)"

definition startScreenShare_session :: "session_env \<Rightarrow> session_act" where
  "startScreenShare_session env =
     ifS (\<lambda>s. scf_videoMediaEnabled (ss_config s) = Some False) skipS
       (seqS [tell MediaStartShare, await (KShareStart (mv_isScreenSharing (sv_media env)))])"

definition stopScreenShare_session :: "session_env \<Rightarrow> session_act" where
  "stopScreenShare_session env =
     seqS [tell MediaStopShare, await (KShareStop (mv_isScreenSharing (sv_media env)))]"

definition share_done :: "session_env \<Rightarrow> continuation \<Rightarrow> session_act" where
  "share_done env k =
     (let changed = (case k of
            KShareStart was \<Rightarrow> \<not> was \<and> mv_isScreenSharing (sv_media env)
          | KShareStop was \<Rightarrow> was \<and> \<not> mv_isScreenSharing (sv_media env)
          | _ \<Rightarrow> False)
      in resume k (if changed then active (seqS [broadcastLocalMediaState (sv_media env), rebuildState env]) else skipS))"

text \<open>The guards of \<open>captureSnapshot\<close>: the message of the \<open>streamNotActive\<close> error, or \<open>None\<close> to go on.\<close>

datatype snapshot_source = SnapLocal | SnapRemote string

definition snapshot_refused :: "snapshot_source \<Rightarrow> session \<Rightarrow> string option" where
  "snapshot_refused source s =
     (if isInactive s then Some ''Session is not active''
      else case source of
             SnapLocal \<Rightarrow>
               if map_option lp_videoEnabled (st_localParticipant (ss_state s)) \<noteq> Some True
               then Some ''Local video is not enabled'' else None
           | SnapRemote cid \<Rightarrow>
               (case find (\<lambda>p. rm_cid p = cid) (st_remoteParticipants (ss_state s)) of
                  None \<Rightarrow> Some (''Remote participant '' @ cid @ '' is not joined'')
                | Some p \<Rightarrow> if rm_videoEnabled p then None
                            else Some (''Remote participant '' @ cid @ '' has video off'')))"

section \<open>Timers\<close>

definition join_timeout_fired :: "session_env \<Rightarrow> session_act" where
  "join_timeout_fired env =
     whenS ss_joinTimeoutTimer
       (seqS
         [clearJoinTimeout,
          ifS (\<lambda>s. isInactive s \<or> ss_roomState s \<noteq> None \<or> ss_error s \<noteq> None \<or> ss_pendingJoinOptions s = None)
            skipS (failWithError env ''JOIN_TIMEOUT'' ''Join timed out'')])"

definition session_reconnect_fired :: "session_env \<Rightarrow> session_act" where
  "session_reconnect_fired env =
     letS ss_reconnectTimer (\<lambda>timer. case timer of
       None \<Rightarrow> skipS
     | Some (attempt, _) \<Rightarrow>
         seqS
           [upd (\<lambda>s. s\<lparr> ss_reconnectTimer := None, ss_reconnectAttempts := attempt \<rparr>),
            active
              (seqS
                [upd (\<lambda>s. s\<lparr> ss_pendingJoinOptions := Some (join_again s) \<rparr>), tell SigConnect, rebuildState env])])"

definition resync_timeout_fired :: session_act where
  "resync_timeout_fired =
     whenS ss_resyncTimer (seqS [upd (\<lambda>s. s\<lparr> ss_resyncTimer := False \<rparr>), flushPostReconnectResync])"

definition suspension_fired :: "session_env \<Rightarrow> string \<Rightarrow> session_act" where
  "suspension_fired env cid =
     whenS (\<lambda>s. cid \<in> set (ss_suspensionTimers s))
       (active
         (seqS
           [upd (\<lambda>s. s\<lparr> ss_suspensionTimers := removeAll cid (ss_suspensionTimers s),
                        ss_presumedLost := set_add cid (ss_presumedLost s) \<rparr>),
            rebuildState env]))"

definition liveness_tick :: session_act where
  "liveness_tick =
     whenS ss_livenessTimer
       (ifS (\<lambda>s. isInactive s \<or> ss_livenessInFlight s \<or> \<not> ss_isConnected s \<or> ss_roomState s = None) skipS
         (seqS [upd (\<lambda>s. s\<lparr> ss_livenessInFlight := True \<rparr>), tell MediaSampleLiveness, await KLiveness]))"

text \<open>The continuation of \<open>emitMediaLiveness\<close>: the peers with flowing media, or a failed sample.\<close>

definition liveness_sampled :: "session_env \<Rightarrow> string list option \<Rightarrow> session_act" where
  "liveness_sampled env flowing =
     resume KLiveness
       (seqS
         [(case flowing of
             None \<Rightarrow> skipS
           | Some cids \<Rightarrow>
               active (seqS [rebuildState env,
                 tell (SigBroadcast ''media_liveness'' (JObj [(''cids'', JArr (map JStr cids))]))])),
          upd (\<lambda>s. s\<lparr> ss_livenessInFlight := False \<rparr>)])"

definition stats_changed :: "session_env \<Rightarrow> quality_sample option \<Rightarrow> session_act" where
  "stats_changed env sample =
     whenS ss_statsRunning
       (seqS
         [(case sample of None \<Rightarrow> skipS | Some q \<Rightarrow> call_tracker env (onStatsSample q (sv_mono env))),
          notifyListeners])"

section \<open>The session as a state machine\<close>

datatype session_event =
    HResumeJoin | HCancelJoin | HLeave | HEnd | HDestroy
  | HSetAudio "bool option" | HSetVideo "bool option" | HSetCameraMode "camera_mode option" | HFlip
  | HStartShare | HStopShare
  | FromProvider provider_event
  | MediaChanged
  | StatsChanged "quality_sample option"
  | JoinTimeoutFired | SessionReconnectFired | ResyncTimeoutFired | EndingFired
  | SuspensionFired string | LivenessTick
  | MediaStarted bool bool | PermissionsAnswered bool permission permission | PermissionsThrew bool
  | VideoSwapped | ShareDone continuation
  | IceSlept nat "int list" | IceAnswered nat "int list" "string + ice_server list"
  | LivenessSampled "string list option"

fun session_step :: "session_env \<Rightarrow> session_event \<Rightarrow> session_act" where
  "session_step env HResumeJoin = resumeJoin"
| "session_step env HCancelJoin = cancelJoin env"
| "session_step env HLeave = leave_session env"
| "session_step env HEnd = end_session env"
| "session_step env HDestroy = destroy_session env"
| "session_step env (HSetAudio b) = set_audio env b"
| "session_step env (HSetVideo b) = set_video env b"
| "session_step env (HSetCameraMode m) = setCameraMode env m"
| "session_step env HFlip = flipCamera_session"
| "session_step env HStartShare = startScreenShare_session env"
| "session_step env HStopShare = stopScreenShare_session env"
| "session_step env (FromProvider e) = ifS ss_destroyed skipS (on_provider_event env e)"
| "session_step env MediaChanged = active (rebuildState env)"
| "session_step env (StatsChanged q) = stats_changed env q"
| "session_step env JoinTimeoutFired = join_timeout_fired env"
| "session_step env SessionReconnectFired = session_reconnect_fired env"
| "session_step env ResyncTimeoutFired = resync_timeout_fired"
| "session_step env EndingFired = ending_fired"
| "session_step env (SuspensionFired cid) = suspension_fired env cid"
| "session_step env LivenessTick = liveness_tick"
| "session_step env (MediaStarted resumed ok) = media_started env resumed ok"
| "session_step env (PermissionsAnswered n c m) = permissions_answered env n c m"
| "session_step env (PermissionsThrew n) = permissions_threw n"
| "session_step env VideoSwapped = video_swapped env"
| "session_step env (ShareDone k) = share_done env k"
| "session_step env (IceSlept g rest) = resume (KIceWait g rest) (ice_fetch g rest)"
| "session_step env (IceAnswered g rest answer) = ice_answered env g rest answer"
| "session_step env (LivenessSampled flowing) = liveness_sampled env flowing"

definition session_event_step :: "session \<Rightarrow> session_env \<times> session_event \<Rightarrow> session \<times> session_effect list" where
  "session_event_step s e = session_step (fst e) (snd e) s"

definition new_session ::
  "session_config \<Rightarrow> string \<Rightarrow> bool \<Rightarrow> string option \<Rightarrow> string option \<Rightarrow> session" where
  "new_session cfg roomId handlesReconnection displayName appPeerId =
     (let modes = (if scf_videoMediaEnabled cfg \<noteq> Some False then resolveCameraModes (scf_cameraModes cfg) else []) in
      \<lparr> ss_config = cfg, ss_roomId = roomId, ss_handlesReconnection = handlesReconnection,
        ss_displayName = displayName, ss_appPeerId = appPeerId,
        ss_state = \<lparr> st_phase = Joining, st_localParticipant = None, st_remoteParticipants = [],
                     st_connectionStatus = LinkConnected, st_signalingState = SigConnected,
                     st_activeTransport = None, st_requiredPermissions = None, st_error = None \<rparr>,
        ss_tracker = new_tracker, ss_qualitySummary = None, ss_lastConnectionStatus = LinkConnected,
        ss_destroyed = False, ss_permissionCheckDone = False, ss_permissionCheckInFlight = False,
        ss_endingTimer = False, ss_joinTimeoutTimer = False, ss_reconnectTimer = None,
        ss_reconnectAttempts = 0, ss_pendingJoinOptions = None, ss_joinInFlight = False,
        ss_reconnectRecoveryPending = False, ss_pendingResync = False, ss_resyncTimer = False,
        ss_iceGeneration = 0, ss_started = False, ss_terminated = False, ss_isConnected = False,
        ss_activeTransport = None, ss_clientId = None, ss_roomState = None, ss_error = None,
        ss_remoteMediaStates = [], ss_remoteCapabilities = [], ss_remoteMediaPolicies = [],
        ss_remoteContentStates = [], ss_cameraModes = modes,
        ss_userPreferredVideo = (modes \<noteq> [] \<and> scf_defaultVideoEnabled cfg \<noteq> Some False),
        ss_localSuspendedSince = None, ss_suspensionTimers = [], ss_presumedLost = [],
        ss_livenessTimer = False, ss_livenessInFlight = False, ss_statsRunning = False, ss_pending = [] \<rparr>)"

end
