(* ===== verification/Session_Proofs.thy ===== *)
theory Session_Proofs
  imports Session
begin

text \<open>
  The invariant of the session and its properties. A session is live (not yet ended: its room state is
  sane and what it publishes mirrors the room) or over (ended: no timer of it is left and its quality
  summary is final); every event takes one to the other or keeps it.
\<close>

section \<open>Steps between predicates\<close>

definition takes :: "('s \<Rightarrow> bool) \<Rightarrow> ('s, 'o) act \<Rightarrow> ('s \<Rightarrow> bool) \<Rightarrow> bool" where
  "takes P a Q = (\<forall>s. P s \<longrightarrow> Q (fst (a s)))"

named_theorems taking \<open>statements between two predicates\<close>

lemma takesI: "(\<And>s. P s \<Longrightarrow> Q (fst (a s))) \<Longrightarrow> takes P a Q"
  by (simp add: takes_def)

lemma takesD: "takes P a Q \<Longrightarrow> P s \<Longrightarrow> Q (fst (a s))"
  by (simp add: takes_def)

lemma takes_weaken: "takes P a Q \<Longrightarrow> (\<And>s. P' s \<Longrightarrow> P s) \<Longrightarrow> (\<And>s. Q s \<Longrightarrow> Q' s) \<Longrightarrow> takes P' a Q'"
  by (simp add: takes_def)

lemma takes_keeping: "keeping P a \<Longrightarrow> takes P a P"
  by (simp add: takes_def keeping_def)

lemma takes_then: "takes P a Q \<Longrightarrow> takes Q b R \<Longrightarrow> takes P (thenS a b) R"
  by (simp add: takes_def thenS_def Let_def)

lemma takes_seq_Cons: "takes P a Q \<Longrightarrow> takes Q (seqS as) R \<Longrightarrow> takes P (seqS (a # as)) R"
  by (simp add: takes_then)

lemma takes_seq_one: "takes P a Q \<Longrightarrow> takes P (seqS [a]) Q"
  by (simp add: takes_def thenS_def skipS_def Let_def)

lemma takes_out: "takes P (out f) P"
  by (simp add: takes_def out_def)

lemma takes_skip: "takes P skipS P"
  by (simp add: takes_def skipS_def)

lemma takes_upd: "(\<And>s. P s \<Longrightarrow> Q (f s)) \<Longrightarrow> takes P (upd f) Q"
  by (simp add: takes_def upd_def)

lemma takes_if: "takes (\<lambda>s. P s \<and> c s) a Q \<Longrightarrow> takes (\<lambda>s. P s \<and> \<not> c s) b Q \<Longrightarrow> takes P (ifS c a b) Q"
  by (simp add: takes_def ifS_def)

lemma takes_let: "(\<And>x. takes P (k x) Q) \<Longrightarrow> takes P (letS e k) Q"
  by (simp add: takes_def letS_def)

section \<open>Predicates\<close>

definition core_ok :: "session \<Rightarrow> bool" where
  "core_ok s =
     (pred_option (room_sane (ss_clientId s)) (ss_roomState s) \<and> ss_error s = None \<and>
      ss_pendingResync s = ss_resyncTimer s \<and> \<not> ss_endingTimer s \<and>
      tracker_inv (ss_tracker s) \<and> \<not> qt_finalized (ss_tracker s) \<and> ss_qualitySummary s = None \<and>
      set (ss_suspensionTimers s) \<inter> set (ss_presumedLost s) = {})"

text \<open>A session in the middle of a handler.\<close>

definition mid :: "session \<Rightarrow> bool" where
  "mid s = (\<not> isInactive s \<and> core_ok s)"

definition remotes_of :: "session \<Rightarrow> room_participant list" where
  "remotes_of s = filter (is_remote s) (current_participants s)"

definition mirror :: "session \<Rightarrow> bool" where
  "mirror s =
     (map rm_cid (st_remoteParticipants (ss_state s)) = map rp_cid (remotes_of s) \<and>
      map_option lp_cid (st_localParticipant (ss_state s)) = truthy_string (ss_clientId s) \<and>
      set (ss_suspensionTimers s) \<union> set (ss_presumedLost s) =
        rp_cid ` {p \<in> set (remotes_of s). rp_connectionStatus p = Some Suspended} \<and>
      fst ` set (ss_remoteContentStates s) \<subseteq> rp_cid ` set (remotes_of s))"

definition live_session :: "session \<Rightarrow> bool" where
  "live_session s = (mid s \<and> mirror s)"

text \<open>What is left of an ended session.\<close>

definition over :: "session \<Rightarrow> bool" where
  "over s =
     (isInactive s \<and> \<not> ss_joinTimeoutTimer s \<and> ss_reconnectTimer s = None \<and>
      \<not> ss_pendingResync s \<and> \<not> ss_resyncTimer s \<and> \<not> ss_livenessTimer s \<and> \<not> ss_statsRunning s \<and>
      ss_suspensionTimers s = [] \<and> ss_presumedLost s = [] \<and>
      tracker_inv (ss_tracker s) \<and> qt_finalized (ss_tracker s) \<and>
      ss_qualitySummary s = qt_summary (ss_tracker s) \<and> \<not> (ss_endingTimer s \<and> ss_destroyed s))"

definition session_inv :: "session \<Rightarrow> bool" where
  "session_inv s = (live_session s \<or> over s)"

definition mid_or_over :: "session \<Rightarrow> bool" where
  "mid_or_over s = (mid s \<or> over s)"

lemma mid_active: "mid s \<Longrightarrow> \<not> isInactive s"
  by (simp add: mid_def)

lemma over_inactive: "over s \<Longrightarrow> isInactive s"
  by (simp add: over_def)

lemma inv_mid_or_over: "session_inv s \<Longrightarrow> mid_or_over s"
  by (auto simp: session_inv_def live_session_def mid_or_over_def)

text \<open>The fields that \<open>mid\<close> reads; an update of the others keeps it.\<close>

definition msum :: "session \<Rightarrow> _" where
  "msum s = (ss_destroyed s, ss_terminated s, ss_clientId s, ss_roomState s, ss_error s, ss_pendingResync s,
     ss_resyncTimer s, ss_endingTimer s, ss_tracker s, ss_qualitySummary s, ss_suspensionTimers s, ss_presumedLost s)"

lemma msum_inactive: "msum s' = msum s \<Longrightarrow> isInactive s' = isInactive s"
  unfolding msum_def prod.inject isInactive_def by simp

lemma msum_core: "msum s' = msum s \<Longrightarrow> core_ok s' = core_ok s"
  unfolding msum_def prod.inject core_ok_def by (elim conjE) metis

lemma mid_cong: "msum s' = msum s \<Longrightarrow> mid s' = mid s"
  unfolding mid_def by (simp only: msum_inactive [of s' s] msum_core [of s' s])

lemma mid_upd: "(\<And>s. msum (f s) = msum s) \<Longrightarrow> takes mid (upd f) mid"
  by (rule takes_upd) (blast intro: iffD2 [OF mid_cong])

section \<open>Ending\<close>

lemma fin_tracker:
  "tracker_inv t \<Longrightarrow> tracker_inv (fst (finalizeTracker now t)) \<and> qt_finalized (fst (finalizeTracker now t))"
  using keepingD [OF finalizeTracker_keeps]
  by (auto simp: finalizeTracker_def ifS_def thenS_def upd_def skipS_def whenS_def Let_def)

text \<open>From here on the session ends: only the tracker and the flag of ending timers matter.\<close>

definition ending :: "session \<Rightarrow> bool" where
  "ending s = (tracker_inv (ss_tracker s) \<and>
     (qt_finalized (ss_tracker s) \<and> ss_qualitySummary s = qt_summary (ss_tracker s) \<or> ss_qualitySummary s = None))"

definition ended :: "session \<Rightarrow> bool" where
  "ended s = (tracker_inv (ss_tracker s) \<and> qt_finalized (ss_tracker s) \<and> ss_qualitySummary s = qt_summary (ss_tracker s))"

lemma mid_ending: "mid s \<Longrightarrow> ending s"
  by (simp add: mid_def core_ok_def ending_def)

lemma over_ending: "over s \<Longrightarrow> ending s"
  by (simp add: over_def ending_def)

lemma finalizeQuality_ends: "ending s \<Longrightarrow> ended (fst (finalizeQuality env s))"
  using fin_tracker by (auto simp: ending_def ended_def finalizeQuality_def ifS_def upd_def skipS_def Let_def)

lemma finalizeQuality_frame:
  "\<exists>t q. fst (finalizeQuality env s) = s\<lparr> ss_tracker := t, ss_qualitySummary := q \<rparr>"
proof (cases "ss_qualitySummary s = None")
  case True
  then show ?thesis by (auto simp: finalizeQuality_def ifS_def upd_def Let_def)
next
  case False
  then have "fst (finalizeQuality env s) = s\<lparr> ss_tracker := ss_tracker s, ss_qualitySummary := ss_qualitySummary s \<rparr>"
    by (simp add: finalizeQuality_def ifS_def skipS_def)
  then show ?thesis by blast
qed

lemma finalizeQuality_fields [simp]:
  "ss_destroyed (fst (finalizeQuality env s)) = ss_destroyed s"
  "ss_terminated (fst (finalizeQuality env s)) = ss_terminated s"
  "ss_endingTimer (fst (finalizeQuality env s)) = ss_endingTimer s"
  using finalizeQuality_frame [of env s] by auto

lemmas clearing_defs =
  clearReconnectTimer_def clearEndingTimer_def clearJoinTimeout_def cancelPostReconnectResync_def
  clearAllRemoteSuspensionTracking_def stopMediaLivenessTimer_def invalidateIceFetches_def statsStop_def
  clearRemoteContentTracking_def

lemma destroy_over:
  assumes "if ss_destroyed s then over s else ending s"
  shows "over (fst (destroy_session env s))"
proof (cases "ss_destroyed s")
  case True
  with assms show ?thesis by (simp add: destroy_session_def ifS_def skipS_def)
next
  case False
  define f where "f = fst (finalizeQuality env (s\<lparr> ss_destroyed := True \<rparr>))"
  have "ending (s\<lparr> ss_destroyed := True \<rparr>)" using False assms by (simp add: ending_def)
  then have f: "ended f" "ss_destroyed f" by (simp_all add: f_def finalizeQuality_ends)
  have "fst (destroy_session env s) = fst (seqS [invalidateIceFetches, clearReconnectTimer, clearEndingTimer, clearJoinTimeout,
          cancelPostReconnectResync, clearAllRemoteSuspensionTracking, stopMediaLivenessTimer,
          statsStop, tell MediaDestroy, tell SigDisconnect] f)"
    using False by (simp add: destroy_session_def f_def ifS_def thenS_def upd_def Let_def)
  also have "over \<dots>"
    using f by (simp add: clearing_defs thenS_def upd_def out_def skipS_def Let_def over_def isInactive_def ended_def)
  finally show ?thesis .
qed

lemma destroy_ends: "ending s \<Longrightarrow> \<not> ss_destroyed s \<Longrightarrow> over (fst (destroy_session env s))"
  by (rule destroy_over) simp

lemma reset_over:
  assumes "ended s" "isInactive s"
  shows "over (fst (resetSessionResources s))"
  using assms
  by (simp add: resetSessionResources_def clearing_defs reset_resources_def thenS_def upd_def out_def skipS_def
      Let_def over_def isInactive_def ended_def)

lemma dying_over: "over s \<Longrightarrow> ending s \<and> isInactive s"
  by (simp add: over_ending over_inactive)

text \<open>A statement whose last steps end the session.\<close>

lemma leave_over:
  assumes "mid s"
  shows "over (fst (leave_session env s))"
proof -
  define f where "f = fst (finalizeQuality env s)"
  have f: "ended f" "\<not> ss_destroyed f" "\<not> isInactive s"
    using assms by (simp_all add: f_def finalizeQuality_ends mid_ending mid_def isInactive_def)
  have "fst (leave_session env s) = fst (destroy_session env (fst (seqS
         [clearReconnectTimer, invalidateIceFetches,
          upd (\<lambda>s. s\<lparr> ss_pendingJoinOptions := None, ss_joinInFlight := False \<rparr>),
          tell SigLeaveRoom, tell MediaCleanupPeers, statsStop,
          upd (\<lambda>s. s\<lparr> ss_roomState := None, ss_remoteMediaStates := [] \<rparr>),
          clearRemoteContentTracking,
          upd (\<lambda>s. s\<lparr> ss_state := (ss_state s)\<lparr> st_phase := Idle \<rparr> \<rparr>),
          notifyListeners] f)))"
    using f by (simp add: leave_session_def active_def f_def ifS_def thenS_def skipS_def Let_def)
  also have "over \<dots>"
  proof (rule destroy_ends)
  qed (use f in \<open>simp_all add: clearing_defs notifyListeners_def thenS_def upd_def out_def skipS_def Let_def
      ending_def ended_def\<close>)
  finally show ?thesis .
qed

lemma leave_inactive: "isInactive s \<Longrightarrow> leave_session env s = (s, [])"
  by (simp add: leave_session_def active_def ifS_def skipS_def)

lemma destroy_dying: "ending s \<and> isInactive s \<Longrightarrow> ending (fst (destroy_session env s)) \<and> isInactive (fst (destroy_session env s))"
  by (cases "ss_destroyed s")
    (simp add: destroy_session_def ifS_def skipS_def, metis destroy_ends dying_over)

lemma destroy_keeps_over: "over s \<Longrightarrow> over (fst (destroy_session env s))"
  by (rule destroy_over) (simp add: over_ending)

lemma dispatch_next:
  "fst (dispatchConnectionEvent env e s) =
     (case sv_host env e of HostStays \<Rightarrow> s | HostLeaves \<Rightarrow> fst (leave_session env s)
      | HostDestroys \<Rightarrow> fst (destroy_session env s))"
  by (simp add: dispatchConnectionEvent_def thenS_def out_def skipS_def Let_def split: host_reaction.split)

lemma destroy_mid: "mid s \<Longrightarrow> over (fst (destroy_session env s))"
  by (rule destroy_ends) (simp_all add: mid_ending mid_def isInactive_def)

lemma dispatch_keeps [keeps]:
  "keeping over (dispatchConnectionEvent env e)"
  "keeping mid_or_over (dispatchConnectionEvent env e)"
  "keeping (\<lambda>s. ending s \<and> isInactive s) (dispatchConnectionEvent env e)"
  by (rule keepingI; cases "sv_host env e";
      auto simp: dispatch_next mid_or_over_def leave_over destroy_mid destroy_keeps_over
        leave_inactive over_inactive dest: destroy_dying [simplified, OF conjI])+

text \<open>An operation of the tracker other than its finalisation.\<close>

definition tracker_op :: "tracker_act \<Rightarrow> bool" where
  "tracker_op a = (keeping tracker_inv a \<and>
     (\<forall>t. if qt_finalized t then a t = (t, []) else \<not> qt_finalized (fst (a t))))"

lemma unfinalized_frames:
  "\<not> qt_finalized t \<Longrightarrow> \<not> qt_finalized (fst (onStatsSample q now t))"
  "\<not> qt_finalized t \<Longrightarrow> \<not> qt_finalized (fst (onPhaseTransition ph now t))"
  "\<not> qt_finalized t \<Longrightarrow> \<not> qt_finalized (fst (onConnectionStatusTransition st trig now t))"
  "\<not> qt_finalized t \<Longrightarrow> \<not> qt_finalized (fst (reportReconnectFailed r t))"
  by (simp_all add: onStatsSample_def onPhaseTransition_def onConnectionStatusTransition_def
      reportReconnectFailed_def recompute_def closeDropoutSilently_def loss_sample_def act_simps
      split: option.splits)

lemma finalized_frames:
  "qt_finalized t \<Longrightarrow> onStatsSample q now t = (t, [])"
  "qt_finalized t \<Longrightarrow> onPhaseTransition ph now t = (t, [])"
  "qt_finalized t \<Longrightarrow> onConnectionStatusTransition st trig now t = (t, [])"
  "qt_finalized t \<Longrightarrow> reportReconnectFailed r t = (t, [])"
  by (simp_all add: onStatsSample_def onPhaseTransition_def onConnectionStatusTransition_def
      reportReconnectFailed_def act_simps)

lemma tracker_ops:
  "tracker_op (onStatsSample q now)" "tracker_op (onPhaseTransition ph now)"
  "tracker_op (onConnectionStatusTransition st trig now)" "tracker_op (reportReconnectFailed r)"
  by (simp_all add: tracker_op_def finalized_frames unfinalized_frames onStatsSample_keeps onPhaseTransition_keeps
      onConnectionStatusTransition_keeps reportReconnectFailed_keeps)

lemma inactive_tracker [simp]: "isInactive (s\<lparr> ss_tracker := t \<rparr>) = isInactive s"
  by (simp add: isInactive_def)

lemma call_tracker_keeping:
  assumes "\<And>s. P s \<Longrightarrow> P (s\<lparr> ss_tracker := fst (a (ss_tracker s)) \<rparr>)"
    and "\<And>e. keeping P (dispatchConnectionEvent env e)"
  shows "keeping P (call_tracker env a)"
proof -
  have "P (fst (call_tracker env a s))" if "P s" for s
  proof -
    have "fst (call_tracker env a s) =
        fst (forS (snd (a (ss_tracker s))) (dispatchConnectionEvent env) (s\<lparr> ss_tracker := fst (a (ss_tracker s)) \<rparr>))"
      by (simp add: call_tracker_def letS_def thenS_def upd_def skipS_def Let_def)
    also have "P \<dots>" by (rule keepingD [OF keeping_forS]) (use assms that in auto)
    finally show ?thesis .
  qed
  then show ?thesis by (rule keepingI)
qed

lemma tracked_frames:
  assumes "tracker_op a"
  shows "mid s \<Longrightarrow> mid (s\<lparr> ss_tracker := fst (a (ss_tracker s)) \<rparr>)"
    "over s \<Longrightarrow> s\<lparr> ss_tracker := fst (a (ss_tracker s)) \<rparr> = s"
    "ending s \<Longrightarrow> ending (s\<lparr> ss_tracker := fst (a (ss_tracker s)) \<rparr>)"
proof -
  have fin: "a (ss_tracker s) = (ss_tracker s, [])" if "qt_finalized (ss_tracker s)"
    using assms that unfolding tracker_op_def by metis
  have unfin: "\<not> qt_finalized (fst (a (ss_tracker s)))" if "\<not> qt_finalized (ss_tracker s)"
    using assms that unfolding tracker_op_def by metis
  have inv: "tracker_inv (fst (a (ss_tracker s)))" if "tracker_inv (ss_tracker s)"
    using assms that unfolding tracker_op_def by (blast dest: keepingD)
  show "mid s \<Longrightarrow> mid (s\<lparr> ss_tracker := fst (a (ss_tracker s)) \<rparr>)"
    using unfin inv by (simp add: mid_def core_ok_def isInactive_def)
  show "over s \<Longrightarrow> s\<lparr> ss_tracker := fst (a (ss_tracker s)) \<rparr> = s"
    using fin by (simp add: over_def)
  show "ending s \<Longrightarrow> ending (s\<lparr> ss_tracker := fst (a (ss_tracker s)) \<rparr>)"
    using fin unfin inv by (cases "qt_finalized (ss_tracker s)") (simp_all add: ending_def)
qed

lemma call_tracker_keeps:
  assumes "tracker_op a"
  shows "keeping over (call_tracker env a)" "keeping mid_or_over (call_tracker env a)"
    "keeping (\<lambda>s. ending s \<and> isInactive s) (call_tracker env a)"
  by (rule call_tracker_keeping; auto simp: mid_or_over_def tracked_frames [OF assms] intro: dispatch_keeps)+

lemma over_state [simp]: "over (s\<lparr> ss_state := st \<rparr>) = over s"
  by (simp add: over_def isInactive_def)

lemma commit_fields:
  "over s \<Longrightarrow> over (fst (commitTerminalState ph e s))"
  "ss_destroyed (fst (commitTerminalState ph e s)) = ss_destroyed s"
  by (simp_all add: commitTerminalState_def notifyListeners_def thenS_def upd_def out_def skipS_def Let_def)

lemma fail_over:
  assumes "ending s"
  shows "over (fst (failWithError env code message s))"
proof -
  let ?dying = "\<lambda>s. ending s \<and> isInactive s"
  define s1 where "s1 = s\<lparr> ss_terminated := True, ss_error := Some (code, message) \<rparr>"
  define report where "report =
    whenS (\<lambda>s. qt_inCallStartedAtMs (ss_tracker s) \<noteq> None)
      (case reconnectFailedReasonForCode code of
         None \<Rightarrow> skipS | Some r \<Rightarrow> call_tracker env (reportReconnectFailed r))"
  define s2 where "s2 = fst (report s1)"
  define s3 where "s3 = fst (finalizeQuality env s2)"
  have "?dying s1" using assms by (simp add: s1_def ending_def isInactive_def)
  moreover have "keeping ?dying report"
    unfolding report_def by (intro keeps) (auto split: option.split intro: keeps call_tracker_keeps tracker_ops)
  ultimately have "?dying s2" unfolding s2_def by (rule keepingD [rotated])
  then have s3: "ended s3" "isInactive s3" by (simp_all add: s3_def finalizeQuality_ends isInactive_def)
  have "fst (failWithError env code message s) =
      fst (commitTerminalState ErrorPhase (Some (mapErrorCode code, message)) (fst (resetSessionResources s3)))"
    unfolding failWithError_def report_def [symmetric]
    by (simp add: thenS_def upd_def skipS_def Let_def s1_def s2_def s3_def)
  then show ?thesis by (simp add: commit_fields reset_over [OF s3])
qed

lemma reset_alive: "ss_destroyed (fst (resetSessionResources s)) = ss_destroyed s"
  by (simp add: resetSessionResources_def clearing_defs reset_resources_def thenS_def upd_def out_def skipS_def Let_def)

lemma cleanup_over:
  assumes "mid s"
  shows "over (fst (cleanupCall env s))"
proof -
  define s2 where "s2 = fst (finalizeQuality env (s\<lparr> ss_terminated := True, ss_error := None \<rparr>))"
  define s4 where "s4 = fst (commitTerminalState EndingPhase None (fst (resetSessionResources s2)))"
  have "ending (s\<lparr> ss_terminated := True, ss_error := None \<rparr>)" using mid_ending [OF assms] by (simp add: ending_def)
  then have s2: "ended s2" "isInactive s2" "\<not> ss_destroyed s2"
    using assms by (simp_all add: s2_def finalizeQuality_ends isInactive_def mid_def)
  then have "over s4" "\<not> ss_destroyed s4" by (simp_all add: s4_def commit_fields reset_over reset_alive)
  then have "over (s4\<lparr> ss_endingTimer := True \<rparr>)" by (simp add: over_def isInactive_def)
  then show ?thesis by (simp add: cleanupCall_def thenS_def upd_def skipS_def Let_def s2_def s4_def)
qed

section \<open>Reconciling the tracking of the remote participants\<close>

definition tracked_cids :: "session \<Rightarrow> string set" where
  "tracked_cids s = set (ss_suspensionTimers s) \<union> set (ss_presumedLost s)"

definition susp_next :: "session \<Rightarrow> session \<Rightarrow> bool" where
  "susp_next s s' = (\<exists>a b. s' = s\<lparr> ss_suspensionTimers := a, ss_presumedLost := b \<rparr> \<and>
     (set (ss_suspensionTimers s) \<inter> set (ss_presumedLost s) = {} \<longrightarrow> set a \<inter> set b = {}))"

lemma susp_nextI:
  "s' = s\<lparr> ss_suspensionTimers := a, ss_presumedLost := b \<rparr> \<Longrightarrow>
   (set (ss_suspensionTimers s) \<inter> set (ss_presumedLost s) = {} \<Longrightarrow> set a \<inter> set b = {}) \<Longrightarrow> susp_next s s'"
  unfolding susp_next_def by blast

lemma susp_next_refl: "susp_next s s"
  by (rule susp_nextI [where a = "ss_suspensionTimers s" and b = "ss_presumedLost s"]) simp_all

lemma susp_next_trans:
  assumes "susp_next s s'" "susp_next s' s''"
  shows "susp_next s s''"
proof -
  from assms(1) obtain a b where s': "s' = s\<lparr> ss_suspensionTimers := a, ss_presumedLost := b \<rparr>"
    "set (ss_suspensionTimers s) \<inter> set (ss_presumedLost s) = {} \<longrightarrow> set a \<inter> set b = {}"
    unfolding susp_next_def by blast
  from assms(2) obtain c d where "s'' = s'\<lparr> ss_suspensionTimers := c, ss_presumedLost := d \<rparr>"
    "set (ss_suspensionTimers s') \<inter> set (ss_presumedLost s') = {} \<longrightarrow> set c \<inter> set d = {}"
    unfolding susp_next_def by blast
  with s' show ?thesis by (intro susp_nextI [where a = c and b = d]) simp_all
qed

lemma susp_next_fold: "(\<And>x s. susp_next s (f x s)) \<Longrightarrow> susp_next s (fold f xs s)"
  by (induction xs arbitrary: s) (auto intro: susp_next_refl susp_next_trans)

lemma clear_suspension_next: "susp_next s (clear_suspension cid s)"
  by (rule susp_nextI, unfold clear_suspension_def, rule refl) auto

lemma clear_suspension_tracked: "tracked_cids (clear_suspension cid s) = tracked_cids s - {cid}"
  by (auto simp: clear_suspension_def tracked_cids_def)

lemma start_suspension_next:
  "cid \<notin> set (ss_presumedLost s) \<Longrightarrow> susp_next s (s\<lparr> ss_suspensionTimers := ss_suspensionTimers s @ [cid] \<rparr>)"
  by (rule susp_nextI [where a = "ss_suspensionTimers s @ [cid]" and b = "ss_presumedLost s"]) auto

lemma reconcile_suspension_next: "susp_next s (reconcile_suspension p s)"
  by (simp add: reconcile_suspension_def start_suspension_next clear_suspension_next susp_next_refl)

lemma reconcile_suspension_tracked:
  "tracked_cids (reconcile_suspension p s) =
     (if rp_connectionStatus p = Some Suspended then insert (rp_cid p) (tracked_cids s) else tracked_cids s - {rp_cid p})"
  by (auto simp: reconcile_suspension_def clear_suspension_tracked) (auto simp: tracked_cids_def)

definition suspended_cids :: "room_participant list \<Rightarrow> string set" where
  "suspended_cids ps = rp_cid ` {p \<in> set ps. rp_connectionStatus p = Some Suspended}"

lemma reconcile_fold_tracked:
  "distinct (map rp_cid ps) \<Longrightarrow>
   tracked_cids (fold reconcile_suspension ps s) = tracked_cids s - rp_cid ` set ps \<union> suspended_cids ps"
proof (induction ps arbitrary: s)
  case (Cons p ps)
  then have "rp_cid p \<notin> suspended_cids ps" by (auto simp: suspended_cids_def)
  moreover have "suspended_cids (p # ps) =
      (if rp_connectionStatus p = Some Suspended then {rp_cid p} else {}) \<union> suspended_cids ps"
    by (auto simp: suspended_cids_def)
  ultimately show ?case using Cons by (auto simp: reconcile_suspension_tracked)
qed (simp add: suspended_cids_def)

lemma clear_fold_tracked:
  "tracked_cids (fold (\<lambda>cid s. if cid \<in> K then s else clear_suspension cid s) xs s) = tracked_cids s - (set xs - K)"
  by (induction xs arbitrary: s) (auto simp: clear_suspension_tracked)

lemma reconcile_timers_unfold:
  "reconcileRemoteSuspensionTimers s =
     (let s1 = fold reconcile_suspension (remotes_of s) s
      in fold (\<lambda>cid s'. if cid \<in> set (map rp_cid (remotes_of s)) then s' else clear_suspension cid s')
           (ss_suspensionTimers s1 @ ss_presumedLost s1) s1)"
  by (simp add: reconcileRemoteSuspensionTimers_def remotes_of_def Let_def)

lemma reconcile_timers_next: "susp_next s (reconcileRemoteSuspensionTimers s)"
  unfolding reconcile_timers_unfold Let_def
  by (rule susp_next_trans; rule susp_next_fold)
    (auto intro: reconcile_suspension_next clear_suspension_next susp_next_refl)

lemma reconcile_timers_tracked:
  assumes "distinct (map rp_cid (remotes_of s))"
  shows "tracked_cids (reconcileRemoteSuspensionTimers s) = suspended_cids (remotes_of s)"
proof -
  have "suspended_cids (remotes_of s) \<subseteq> set (map rp_cid (remotes_of s))" by (auto simp: suspended_cids_def)
  then show ?thesis
    unfolding reconcile_timers_unfold Let_def clear_fold_tracked reconcile_fold_tracked [OF assms]
    using reconcile_fold_tracked [OF assms, of s] by (auto simp: tracked_cids_def)
qed

lemma remotes_cong:
  "ss_clientId s' = ss_clientId s \<Longrightarrow> ss_roomState s' = ss_roomState s \<Longrightarrow> remotes_of s' = remotes_of s"
  by (simp add: remotes_of_def is_remote_def [abs_def] current_participants_def)

lemma remotes_distinct: "core_ok s \<Longrightarrow> distinct (map rp_cid (remotes_of s))"
  by (auto simp: core_ok_def remotes_of_def current_participants_def room_sane_def Let_def distinct_map_filter
      split: option.split)

lemma restrict_keys_sub: "fst ` set (restrict_keys cids m) \<subseteq> set cids"
proof -
  have "map_of (restrict_keys cids m) j = (if j \<in> set cids then map_of m j else None)" for j
    using js_map.retain_get [of "\<lambda>k. k \<in> set cids" m j] by (simp add: restrict_keys_def)
  then have "j \<in> set cids" if "j \<in> fst ` set (restrict_keys cids m)" for j
    using that by (metis map_of_eq_None_iff)
  then show ?thesis by blast
qed

definition cap_next :: "session \<Rightarrow> session \<Rightarrow> bool" where
  "cap_next s s' = (\<exists>a b c. s' = s\<lparr> ss_remoteCapabilities := a, ss_remoteMediaPolicies := b, ss_remoteContentStates := c \<rparr>)"

lemma cap_nextI: "s' = s\<lparr> ss_remoteCapabilities := a, ss_remoteMediaPolicies := b, ss_remoteContentStates := c \<rparr> \<Longrightarrow> cap_next s s'"
  unfolding cap_next_def by blast

lemma cap_next_fold:
  "(\<And>x s. cap_next s (f x s)) \<Longrightarrow> cap_next s (fold f xs s)"
proof (induction xs arbitrary: s)
  case Nil
  show ?case
    by (rule cap_nextI [where a = "ss_remoteCapabilities s" and b = "ss_remoteMediaPolicies s"
          and c = "ss_remoteContentStates s"]) simp
next
  case (Cons x xs)
  obtain a b c where 1: "f x s = s\<lparr> ss_remoteCapabilities := a, ss_remoteMediaPolicies := b, ss_remoteContentStates := c \<rparr>"
    using Cons.prems [of s x] unfolding cap_next_def by blast
  obtain a' b' c' where "fold f xs (f x s) =
      (f x s)\<lparr> ss_remoteCapabilities := a', ss_remoteMediaPolicies := b', ss_remoteContentStates := c' \<rparr>"
    using Cons unfolding cap_next_def by blast
  with 1 show ?case by (intro cap_nextI [where a = a' and b = b' and c = c']) simp
qed

lemma reconcile_capabilities:
  "cap_next s (reconcileRemoteCapabilityStorage s)"
  "fst ` set (ss_remoteContentStates (reconcileRemoteCapabilityStorage s)) \<subseteq> rp_cid ` set (remotes_of s)"
proof -
  have "cap_next s (fold reconcile_capability (remotes_of s) s)"
    by (rule cap_next_fold, rule cap_nextI, unfold reconcile_capability_def, rule refl)
  then obtain a b c where "fold reconcile_capability (remotes_of s) s =
      s\<lparr> ss_remoteCapabilities := a, ss_remoteMediaPolicies := b, ss_remoteContentStates := c \<rparr>"
    unfolding cap_next_def by blast
  then have "reconcileRemoteCapabilityStorage s =
      s\<lparr> ss_remoteCapabilities := restrict_keys (map rp_cid (remotes_of s)) a,
         ss_remoteMediaPolicies := restrict_keys (map rp_cid (remotes_of s)) b,
         ss_remoteContentStates := restrict_keys (map rp_cid (remotes_of s)) c \<rparr>"
    by (simp add: reconcileRemoteCapabilityStorage_def remotes_of_def Let_def)
  then show "cap_next s (reconcileRemoteCapabilityStorage s)"
    "fst ` set (ss_remoteContentStates (reconcileRemoteCapabilityStorage s)) \<subseteq> rp_cid ` set (remotes_of s)"
    using restrict_keys_sub [of "map rp_cid (remotes_of s)" c] by (auto intro: cap_nextI)
qed

section \<open>Rebuilding the published state\<close>

definition reconciled :: "session \<Rightarrow> session" where
  "reconciled s = reconcileRemoteCapabilityStorage (reconcileRemoteSuspensionTimers s)"

text \<open>The tracking of the remote participants agrees with the room.\<close>

definition tracking_ok :: "session \<Rightarrow> bool" where
  "tracking_ok s =
     (tracked_cids s = suspended_cids (remotes_of s) \<and>
      fst ` set (ss_remoteContentStates s) \<subseteq> rp_cid ` set (remotes_of s))"

lemma reconciled_ok:
  assumes "mid s"
  shows "mid (reconciled s) \<and> tracking_ok (reconciled s) \<and>
    ss_clientId (reconciled s) = ss_clientId s \<and> ss_roomState (reconciled s) = ss_roomState s \<and>
    ss_error (reconciled s) = None"
proof -
  let ?s1 = "reconcileRemoteSuspensionTimers s"
  have d: "distinct (map rp_cid (remotes_of s))" using assms by (simp add: mid_def remotes_distinct)
  obtain a b where s1: "?s1 = s\<lparr> ss_suspensionTimers := a, ss_presumedLost := b \<rparr>"
    "set (ss_suspensionTimers s) \<inter> set (ss_presumedLost s) = {} \<longrightarrow> set a \<inter> set b = {}"
    using reconcile_timers_next [of s] unfolding susp_next_def by blast
  have m1: "mid ?s1" using assms s1 by (simp add: mid_def core_ok_def isInactive_def)
  have r1: "remotes_of ?s1 = remotes_of s" by (rule remotes_cong) (simp_all add: s1)
  obtain c d e where s2: "reconciled s =
      ?s1\<lparr> ss_remoteCapabilities := c, ss_remoteMediaPolicies := d, ss_remoteContentStates := e \<rparr>"
    using reconcile_capabilities(1) [of ?s1] unfolding cap_next_def reconciled_def by blast
  have m2: "mid (reconciled s)" using m1 s2 by (simp add: mid_def core_ok_def isInactive_def)
  have r2: "remotes_of (reconciled s) = remotes_of s" using r1 s2 remotes_cong [of "reconciled s" ?s1] by simp
  have "tracked_cids (reconciled s) = tracked_cids ?s1" using s2 by (simp add: tracked_cids_def)
  with reconcile_timers_tracked [OF d] reconcile_capabilities(2) [of ?s1] r1 r2 m2 s1(1) s2
  show ?thesis by (simp add: tracking_ok_def reconciled_def mid_def core_ok_def)
qed

text \<open>What stays put while the quality tracker is fed: the host may end the session, nothing else changes.\<close>

definition settled :: "session \<Rightarrow> session \<Rightarrow> bool" where
  "settled r s = (mid s \<and> ss_clientId s = ss_clientId r \<and> ss_roomState s = ss_roomState r \<and>
     ss_suspensionTimers s = ss_suspensionTimers r \<and> ss_presumedLost s = ss_presumedLost r \<and>
     ss_remoteContentStates s = ss_remoteContentStates r)"

definition settled_or_over :: "session \<Rightarrow> session \<Rightarrow> bool" where
  "settled_or_over r s = (settled r s \<or> over s)"

lemma dispatch_settled [keeps]: "keeping (settled_or_over r) (dispatchConnectionEvent env e)"
  by (rule keepingI, cases "sv_host env e")
    (auto simp: dispatch_next settled_or_over_def settled_def leave_over destroy_mid destroy_keeps_over
      leave_inactive over_inactive)

lemma call_tracker_settled: "tracker_op a \<Longrightarrow> keeping (settled_or_over r) (call_tracker env a)"
  by (rule call_tracker_keeping)
    (auto simp: settled_or_over_def settled_def tracked_frames intro: dispatch_settled)

lemma feed_settled: "keeping (settled_or_over r) (feedQualityTracker env p n st)"
proof -
  have "keeping (settled_or_over r) (upd (\<lambda>s. s\<lparr> ss_lastConnectionStatus := st \<rparr>))"
    by (rule keeping_upd) (auto simp: settled_or_over_def settled_def mid_def core_ok_def isInactive_def over_def)
  then show ?thesis
    unfolding feedQualityTracker_def
    by (auto intro!: keeping_thenS keeping_whenS keeping_letS call_tracker_settled tracker_ops keeping_skipS)
qed

definition gather_media :: "session_env \<Rightarrow> session_act" where
  "gather_media env =
     whenS (\<lambda>s. ss_error s = None \<and> ss_roomState s \<noteq> None)
       (seqS
         [whenS (\<lambda>s. 1 < length (current_participants s)) (ensureStatsCollection env),
          whenS (\<lambda>s. \<not> ss_permissionCheckDone s \<and> \<not> mv_hasStream (sv_media env))
            (checkPermissionsAndStartMedia env)])"

lemma keeping_mid_upd: "(\<And>s. msum (f s) = msum s) \<Longrightarrow> keeping mid (upd f)"
  using mid_upd [of f] by (simp add: takes_def keeping_def)

lemma gather_mid: "keeping mid (gather_media env)"
  unfolding gather_media_def ensureStatsCollection_def statsStart_def checkPermissionsAndStartMedia_def
    await_def startLocalMedia_def
  by (auto intro!: keeping_thenS keeping_whenS keeping_letS keeping_ifS keeping_skipS keeping_out keeping_mid_upd
      simp: msum_def)

definition publish :: "session_env \<Rightarrow> call_phase \<Rightarrow> local_participant option \<Rightarrow> remote_participant list
    \<Rightarrow> (call_error_code \<times> string) option \<Rightarrow> session_act" where
  "publish env phase localParticipant remoteParticipants errorPayload =
     active
       (seqS
         [upd (\<lambda>s. s\<lparr> ss_state :=
            \<lparr> st_phase = phase, st_localParticipant = localParticipant,
              st_remoteParticipants = remoteParticipants,
              st_connectionStatus = mv_connectionStatus (sv_media env),
              st_signalingState = computeSignalingState s errorPayload,
              st_activeTransport = ss_activeTransport s,
              st_requiredPermissions = st_requiredPermissions (ss_state s),
              st_error = errorPayload \<rparr> \<rparr>),
          notifyListeners])"

lemma rebuild_unfold:
  fixes env :: session_env
  assumes "\<not> isInactive s"
  defines "s1 \<equiv> fst (gather_media env s)"
  defines "s2 \<equiv> reconciled s1"
  defines "s3 \<equiv> fst (feedQualityTracker env (st_phase (ss_state s)) (next_phase s) (mv_connectionStatus (sv_media env)) s2)"
  shows "fst (rebuildState env s) =
    fst (publish env (next_phase s) (published_local (sv_media env) s1)
      (map (published_remote (sv_media env) s2) (remotes_of s2))
      (map_option (\<lambda>(code, message). (mapErrorCode code, message)) (ss_error s2)) s3)"
  unfolding rebuildState_def gather_media_def [symmetric] publish_def [symmetric]
  using assms(1)
  by (simp add: active_def ifS_def letS_def thenS_def upd_def skipS_def Let_def s1_def s2_def s3_def
      reconciled_def remotes_of_def)

lemma tracking_cong:
  "ss_clientId s' = ss_clientId s \<Longrightarrow> ss_roomState s' = ss_roomState s \<Longrightarrow>
   ss_suspensionTimers s' = ss_suspensionTimers s \<Longrightarrow> ss_presumedLost s' = ss_presumedLost s \<Longrightarrow>
   ss_remoteContentStates s' = ss_remoteContentStates s \<Longrightarrow> tracking_ok s' = tracking_ok s"
  using remotes_cong [of s' s] by (simp add: tracking_ok_def tracked_cids_def)

lemma mirrorI:
  "tracking_ok s \<Longrightarrow> map rm_cid (st_remoteParticipants (ss_state s)) = map rp_cid (remotes_of s) \<Longrightarrow>
   map_option lp_cid (st_localParticipant (ss_state s)) = truthy_string (ss_clientId s) \<Longrightarrow> mirror s"
  by (simp add: mirror_def tracking_ok_def tracked_cids_def suspended_cids_def)

lemma publish_live:
  assumes "settled r s" "tracking_ok r"
    and "map rm_cid rps = map rp_cid (remotes_of r)" "map_option lp_cid lp = truthy_string (ss_clientId r)"
  shows "live_session (fst (publish env ph lp rps e s))"
proof -
  let ?s = "fst (publish env ph lp rps e s)"
  have act: "\<not> isInactive s" using assms(1) by (simp add: settled_def mid_def)
  obtain st where e: "?s = s\<lparr> ss_state := st \<rparr>" "st_remoteParticipants st = rps" "st_localParticipant st = lp"
    using act by (simp add: publish_def active_def ifS_def thenS_def upd_def notifyListeners_def out_def skipS_def Let_def)
  have r: "remotes_of ?s = remotes_of r" and t: "tracking_ok ?s"
    using remotes_cong [of ?s r] tracking_cong [of ?s r] assms(1,2) by (simp_all add: e(1) settled_def)
  have "mid s" using assms(1) by (simp add: settled_def)
  then have "mid ?s" by (simp add: e(1) mid_def core_ok_def isInactive_def)
  moreover have "mirror ?s"
    by (rule mirrorI [OF t]) (use assms r e in \<open>simp_all add: settled_def\<close>)
  ultimately show ?thesis by (simp add: live_session_def)
qed

lemma published_ids:
  "rm_cid (published_remote v s p) = rp_cid p"
  "map_option lp_cid (published_local v s) = truthy_string (ss_clientId s)"
  by (simp_all add: published_remote_def published_local_def Let_def option.map_comp comp_def option.map_ident)

lemma rebuild_inv: "mid s \<Longrightarrow> session_inv (fst (rebuildState env s))"
proof -
  assume m: "mid s"
  then have act: "\<not> isInactive s" by (simp add: mid_def)
  define s1 where "s1 = fst (gather_media env s)"
  define s2 where "s2 = reconciled s1"
  define s3 where "s3 = fst (feedQualityTracker env (st_phase (ss_state s)) (next_phase s) (mv_connectionStatus (sv_media env)) s2)"
  have m1: "mid s1" unfolding s1_def by (rule keepingD [OF gather_mid m])
  note r = reconciled_ok [OF m1, folded s2_def]
  have "settled_or_over s2 s2" using r by (simp add: settled_or_over_def settled_def)
  then have "settled_or_over s2 s3" unfolding s3_def by (rule keepingD [OF feed_settled])
  then consider "settled s2 s3" | "over s3" unfolding settled_or_over_def by blast
  then show ?thesis
  proof cases
    case 1
    then show ?thesis
      unfolding rebuild_unfold [OF act] s1_def [symmetric] s2_def [symmetric] s3_def [symmetric] session_inv_def
      using r by (intro disjI1 publish_live [OF 1]) (simp_all add: published_ids comp_def)
  next
    case 2
    then show ?thesis
      unfolding rebuild_unfold [OF act] s1_def [symmetric] s2_def [symmetric] s3_def [symmetric] session_inv_def
      by (simp add: publish_def active_def ifS_def skipS_def over_inactive)
  qed
qed

lemma rebuild_keeps_over: "over s \<Longrightarrow> fst (rebuildState env s) = s"
  by (simp add: rebuildState_def active_def ifS_def skipS_def over_inactive)

lemma rebuild_takes: "takes mid_or_over (rebuildState env) session_inv"
  by (rule takesI) (auto simp: mid_or_over_def session_inv_def rebuild_keeps_over dest: rebuild_inv)

section \<open>Every event keeps the invariant\<close>

text \<open>What the invariant reads beside \<open>msum\<close>.\<close>

definition osum :: "session \<Rightarrow> _" where
  "osum s = (ss_joinTimeoutTimer s, ss_reconnectTimer s, ss_livenessTimer s, ss_statsRunning s)"

definition vsum :: "session \<Rightarrow> _" where
  "vsum s = (st_remoteParticipants (ss_state s), st_localParticipant (ss_state s), ss_remoteContentStates s)"

definition neutral :: "(session \<Rightarrow> session) \<Rightarrow> bool" where
  "neutral f = (\<forall>s. msum (f s) = msum s \<and> osum (f s) = osum s \<and> vsum (f s) = vsum s)"

lemma over_cong: "msum s' = msum s \<Longrightarrow> osum s' = osum s \<Longrightarrow> over s' = over s"
  unfolding msum_def osum_def prod.inject over_def isInactive_def by (elim conjE) metis

lemma mirror_cong:
  assumes "msum s' = msum s" "vsum s' = vsum s"
  shows "mirror s' = mirror s"
proof -
  have e: "ss_clientId s' = ss_clientId s" "ss_roomState s' = ss_roomState s"
    "ss_suspensionTimers s' = ss_suspensionTimers s" "ss_presumedLost s' = ss_presumedLost s"
    "ss_remoteContentStates s' = ss_remoteContentStates s"
    "st_remoteParticipants (ss_state s') = st_remoteParticipants (ss_state s)"
    "st_localParticipant (ss_state s') = st_localParticipant (ss_state s)"
    using assms unfolding msum_def vsum_def prod.inject by blast+
  show ?thesis unfolding mirror_def remotes_cong [OF e(1,2)] e by (rule refl)
qed

lemma inv_cong: "msum s' = msum s \<Longrightarrow> osum s' = osum s \<Longrightarrow> vsum s' = vsum s \<Longrightarrow> session_inv s' = session_inv s"
  unfolding session_inv_def live_session_def by (simp only: over_cong [of s' s] mirror_cong [of s' s] mid_cong [of s' s])

lemma neutral_keeps: "neutral f \<Longrightarrow> keeping session_inv (upd f)"
  unfolding neutral_def by (rule keeping_upd) (blast intro: iffD2 [OF inv_cong])

lemmas neutralI = neutral_def msum_def osum_def vsum_def

lemma active_inv: "takes mid a session_inv \<Longrightarrow> keeping session_inv (active a)"
  by (rule keepingI) (auto simp: active_def ifS_def skipS_def session_inv_def live_session_def mid_def over_def dest: takesD)

lemma active_keeps [keeps]: "keeping P a \<Longrightarrow> keeping P (active a)"
  by (simp add: active_def keeping_ifS keeping_skipS)

lemma resume_keeps: "keeping session_inv a \<Longrightarrow> keeping session_inv (resume k a)"
  unfolding resume_def
  by (intro keeping_whenS) (auto intro!: keeping_thenS neutral_keeps keeping_skipS simp: neutralI)

lemma await_keeps [keeps]: "keeping session_inv (await k)"
  unfolding await_def by (rule neutral_keeps) (simp add: neutralI)

lemma rebuild_keeps [keeps]: "keeping session_inv (rebuildState env)"
  using rebuild_takes by (auto simp: keeping_def takes_def inv_mid_or_over)

lemma fail_keeps [keeps]: "keeping session_inv (failWithError env code message)"
  by (rule keepingI) (auto simp: session_inv_def live_session_def intro: fail_over mid_ending over_ending)

lemma destroy_keeps_inv [keeps]: "keeping session_inv (destroy_session env)"
  by (rule keepingI) (auto simp: session_inv_def live_session_def destroy_mid destroy_keeps_over)

lemma leave_keeps_inv [keeps]: "keeping session_inv (leave_session env)"
  by (rule keepingI) (auto simp: session_inv_def live_session_def leave_over leave_inactive over_inactive)

lemma mirror_tracker: "mirror (s\<lparr> ss_tracker := t \<rparr>) = mirror s"
  by (simp add: mirror_def remotes_cong [of "s\<lparr> ss_tracker := t \<rparr>" s])

lemma tracker_inv_frame:
  "tracker_op a \<Longrightarrow> session_inv s \<Longrightarrow> session_inv (s\<lparr> ss_tracker := fst (a (ss_tracker s)) \<rparr>)"
  by (auto simp: session_inv_def live_session_def tracked_frames mirror_tracker)

lemma dispatch_inv [keeps]: "keeping session_inv (dispatchConnectionEvent env e)"
  unfolding dispatchConnectionEvent_def
  by (auto intro!: keeping_thenS keeping_out keeping_skipS split: host_reaction.split intro: keeps)

lemma call_tracker_inv: "tracker_op a \<Longrightarrow> keeping session_inv (call_tracker env a)"
  by (rule call_tracker_keeping) (auto intro: tracker_inv_frame dispatch_inv)

lemma require_permissions_inv: "keeping session_inv (require_permissions r)"
  unfolding require_permissions_def notifyListeners_def
  by (auto intro!: keeping_thenS neutral_keeps keeping_out keeping_skipS simp: neutralI)

lemma notify_keeps [keeps]: "keeping P notifyListeners"
  unfolding notifyListeners_def by (rule keeping_out)

lemma broadcast_keeps [keeps]: "keeping P (broadcastLocalMediaState v)"
  unfolding broadcastLocalMediaState_def by (rule keeping_out)

lemma ice_fetch_inv [keeps]: "keeping session_inv (ice_fetch g rest)"
  unfolding ice_fetch_def by (auto intro!: keeping_ifS keeping_thenS keeping_out keeping_skipS await_keeps)

lemma ice_next_inv [keeps]: "keeping session_inv (ice_next env g err ds)"
  unfolding ice_next_def
  by (auto split: list.split intro!: keeping_ifS keeping_thenS keeping_out keeping_skipS await_keeps fail_keeps ice_fetch_inv)

lemma fetchInitial_inv [keeps]: "keeping session_inv (fetchInitialIceServers env)"
  unfolding fetchInitialIceServers_def
  by (auto intro!: keeping_thenS keeping_letS keeping_skipS ice_next_inv neutral_keeps simp: neutralI)

lemma startLocalMedia_inv [keeps]: "keeping session_inv (startLocalMedia k)"
  unfolding startLocalMedia_def by (auto intro!: keeping_thenS keeping_out keeping_skipS await_keeps)

lemma failMedia_inv [keeps]: "keeping session_inv (failOnLocalMediaError env)"
  unfolding failOnLocalMediaError_def by (auto split: option.split intro!: keeping_skipS fail_keeps)

lemma rebuild_then: "keeping session_inv b \<Longrightarrow> takes mid (thenS (rebuildState env) b) session_inv"
  by (rule takes_then [where Q = session_inv])
    (auto intro: takes_weaken [OF rebuild_takes] takes_keeping simp: mid_or_over_def)

lemma mid_then: "keeping mid a \<Longrightarrow> takes mid b session_inv \<Longrightarrow> takes mid (thenS a b) session_inv"
  by (rule takes_then [OF takes_keeping])

lemma keeping_mid_core:
  "(\<And>s. core_ok s \<Longrightarrow> core_ok (f s)) \<Longrightarrow> (\<And>s. isInactive (f s) = isInactive s) \<Longrightarrow> keeping mid (upd f)"
  by (rule keeping_upd) (simp add: mid_def)

lemmas mid_neutral = keeping_mid_upd [unfolded msum_def]

lemma mid_timers:
  "keeping mid clearReconnectTimer" "keeping mid clearJoinTimeout" "keeping mid maybeStartMediaLivenessTimer"
  "keeping mid cancelPostReconnectResync" "keeping mid armPostReconnectResync"
  "keeping mid schedule_session_reconnect"
proof -
  show "keeping mid clearReconnectTimer" unfolding clearReconnectTimer_def by (rule mid_neutral) simp
  show "keeping mid clearJoinTimeout" unfolding clearJoinTimeout_def by (rule mid_neutral) simp
  show "keeping mid maybeStartMediaLivenessTimer" unfolding maybeStartMediaLivenessTimer_def
    by (intro keeping_ifS keeping_skipS mid_neutral) simp
  show "keeping mid cancelPostReconnectResync" unfolding cancelPostReconnectResync_def
    by (rule keeping_mid_core) (simp_all add: core_ok_def isInactive_def)
  show "keeping mid armPostReconnectResync" unfolding armPostReconnectResync_def
    by (rule keeping_mid_core) (simp_all add: core_ok_def isInactive_def)
  show "keeping mid schedule_session_reconnect" unfolding schedule_session_reconnect_def
    by (intro keeping_ifS keeping_skipS mid_neutral) (simp add: Let_def)
qed

lemma mid_flush: "keeping mid flushPostReconnectResync"
  unfolding flushPostReconnectResync_def by (auto intro!: keeping_whenS keeping_thenS keeping_out keeping_skipS mid_timers)

lemma mid_outs: "keeping P push_room_state" "keeping P seedLocalContentRevisionFromSnapshot"
  unfolding push_room_state_def seedLocalContentRevisionFromSnapshot_def
  by (auto intro!: keeping_letS keeping_out keeping_skipS split: option.split)

lemma connected_inv: "keeping session_inv (handleConnected env t)"
  unfolding handleConnected_def seqS.simps
  by (intro active_inv takes_let)
    (rule rebuild_then mid_then | intro keeping_ifS keeping_whenS keeping_thenS keeping_out keeping_skipS mid_timers
      | rule mid_neutral; simp; fail)+

lemma disconnected_inv: "keeping session_inv (handleDisconnected env)"
  unfolding handleDisconnected_def seqS.simps
  by (intro active_inv takes_let)
    (rule rebuild_then mid_then | intro keeping_ifS keeping_whenS keeping_thenS keeping_out keeping_skipS mid_timers
      | rule mid_neutral; simp; fail)+

lemma built_room_mid:
  "keeping mid (upd (\<lambda>s. s\<lparr> ss_error := None, ss_clientId := Some pid,
     ss_roomState := Some (buildRoomState ps h mx None (Some pid)) \<rparr>))"
  "keeping mid (upd (\<lambda>s. s\<lparr> ss_error := None,
     ss_roomState := Some (buildRoomState ps h mx (Option.bind (ss_roomState s) rs_hostCid) (ss_clientId s)) \<rparr>))"
  "keeping mid (upd (\<lambda>s. s\<lparr> ss_error := None, ss_roomState := upsertParticipant (ss_roomState s) ev (ss_clientId s) \<rparr>))"
  "keeping mid (upd (\<lambda>s. s\<lparr> ss_remoteMediaStates := AList.delete pid (ss_remoteMediaStates s),
     ss_remoteCapabilities := AList.delete pid (ss_remoteCapabilities s),
     ss_remoteMediaPolicies := AList.delete pid (ss_remoteMediaPolicies s),
     ss_remoteContentStates := AList.delete pid (ss_remoteContentStates s),
     ss_roomState := removeParticipant (ss_roomState s) pid (ss_clientId s) \<rparr>))"
  by (rule keeping_mid_core;
      auto simp: core_ok_def isInactive_def room_builders_sane option.pred_set
        dest!: room_builders_sane(2) room_builders_sane(3) split: option.splits)+

lemmas after_rebuild =
  keeping_thenS keeping_skipS keeping_out keeping_letS keeping_ifS keeping_whenS broadcast_keeps fetchInitial_inv notify_keeps
  await_keeps rebuild_keeps

lemma joined_inv: "keeping session_inv (session_joined env e)"
  unfolding session_joined_def seqS.simps
  by (intro active_inv)
    (rule rebuild_then mid_then | intro mid_timers mid_outs built_room_mid after_rebuild | rule mid_neutral; simp; fail)+

lemma room_updated_inv: "keeping session_inv (handleRoomStateUpdated env e)"
  unfolding handleRoomStateUpdated_def seqS.simps
  by (intro active_inv)
    (rule rebuild_then mid_then | intro mid_timers mid_outs mid_flush built_room_mid after_rebuild)+

lemma peer_joined_inv: "keeping session_inv (handlePeerJoined env p)"
  unfolding handlePeerJoined_def seqS.simps
  by (intro active_inv)
    (rule rebuild_then mid_then | intro mid_timers mid_outs built_room_mid after_rebuild)+

lemma peer_left_inv: "keeping session_inv (handlePeerLeft env pid)"
  unfolding handlePeerLeft_def seqS.simps
  by (intro active_inv)
    (rule rebuild_then mid_then | intro mid_timers mid_outs built_room_mid after_rebuild)+

lemma unchanged_content:
  "\<not> snd (applyRemoteContentState c sid b t r snap m) \<Longrightarrow> fst (applyRemoteContentState c sid b t r snap m) = m"
  by (auto simp: applyRemoteContentState_def Let_def split: if_splits)

lemma content_update_inv:
  assumes "session_inv s"
  shows "mid_or_over (s\<lparr> ss_remoteContentStates := m \<rparr>)"
  using assms by (auto simp: session_inv_def live_session_def mid_or_over_def mid_def core_ok_def isInactive_def over_def)

lemma media_state_inv: "keeping session_inv (handleRemoteMediaState env m)"
  unfolding handleRemoteMediaState_def seqS.simps
  by (auto intro!: after_rebuild neutral_keeps simp: neutralI)

lemma content_stored_inv:
  assumes "session_inv s" "changed \<or> states = ss_remoteContentStates s"
  shows "session_inv (fst (seqS [upd (\<lambda>s. s\<lparr> ss_remoteContentStates := states \<rparr>), (if changed then rebuildState env else skipS)] s))"
proof (cases changed)
  case True
  then show ?thesis
    using takesD [OF rebuild_takes content_update_inv [OF assms(1), of states]]
    by (simp add: thenS_def upd_def skipS_def Let_def)
qed (use assms in \<open>simp add: thenS_def upd_def skipS_def Let_def\<close>)

lemma content_state_inv: "keeping session_inv (handleRemoteContentState env m)"
proof (cases "as_bool (field (Some (pm_payload m)) ''active'')")
  case None
  then show ?thesis by (simp add: handleRemoteContentState_def keeping_skipS)
next
  case (Some b)
  show ?thesis
    unfolding handleRemoteContentState_def Let_def Some option.case letS_def case_prod_beta
    by (rule keepingI, rule content_stored_inv, assumption) (blast intro: unchanged_content)
qed

lemma message_inv: "keeping session_inv (handlePeerMessage env m)"
  unfolding handlePeerMessage_def seqS.simps
  by (auto intro!: active_keeps after_rebuild media_state_inv content_state_inv)

lemma error_inv: "keeping session_inv (handleError env e)"
  unfolding handleError_def by (auto intro!: active_keeps keeping_skipS fail_keeps)

lemma cleanup_inv: "keeping session_inv (active (cleanupCall env))"
  by (rule active_inv, rule takesI) (simp add: session_inv_def cleanup_over)

lemma provider_event_inv: "keeping session_inv (on_provider_event env e)"
  by (cases e) (auto intro!: connected_inv disconnected_inv joined_inv room_updated_inv peer_joined_inv peer_left_inv
      message_inv error_inv cleanup_inv active_keeps keeping_out keeping_skipS)

lemma resume_join_inv: "keeping session_inv resumeJoin"
  unfolding resumeJoin_def seqS.simps
  by (auto intro!: active_keeps keeping_thenS keeping_skipS startLocalMedia_inv neutral_keeps simp: neutralI)

lemma cancel_over: "session_inv s \<Longrightarrow> over (fst (cancelJoin env s))"
proof -
  assume i: "session_inv s"
  define s1 where "s1 = s\<lparr> ss_permissionCheckDone := True,
    ss_state := (ss_state s)\<lparr> st_phase := Idle, st_requiredPermissions := None \<rparr> \<rparr>"
  have "mid s1 \<or> over s1" using i
    by (auto simp: s1_def session_inv_def live_session_def mid_def core_ok_def isInactive_def over_def)
  moreover have "fst (cancelJoin env s) = fst (destroy_session env s1)"
    by (simp add: cancelJoin_def notifyListeners_def thenS_def upd_def out_def skipS_def Let_def s1_def)
  ultimately show ?thesis by (auto simp: destroy_mid destroy_keeps_over)
qed

lemma set_audio_inv: "keeping session_inv (set_audio env b)"
  unfolding set_audio_def by (auto intro!: after_rebuild split: option.split simp: Let_def)

lemma set_video_inv: "keeping session_inv (set_video env b)"
  unfolding set_video_def by (auto intro!: after_rebuild neutral_keeps simp: neutralI)

lemma camera_inv: "keeping session_inv (setCameraMode env m)" "keeping session_inv flipCamera_session"
  unfolding setCameraMode_def flipCamera_session_def
  by (auto intro!: after_rebuild split: option.split camera_mode.split)

lemma share_inv: "keeping session_inv (startScreenShare_session env)" "keeping session_inv (stopScreenShare_session env)"
  "keeping session_inv (share_done env k)"
  unfolding startScreenShare_session_def stopScreenShare_session_def share_done_def
  by (auto intro!: after_rebuild active_keeps resume_keeps split: continuation.split simp: Let_def)

lemma media_started_inv: "keeping session_inv (media_started env resumed ok)"
  unfolding media_started_def by (auto intro!: resume_keeps active_keeps failMedia_inv after_rebuild)

lemma permissions_inv: "keeping session_inv (permissions_answered env n c m)" "keeping session_inv (permissions_threw n)"
  unfolding permissions_answered_def permissions_threw_def Let_def
  by (auto intro!: resume_keeps require_permissions_inv startLocalMedia_inv keeping_thenS keeping_skipS neutral_keeps
      simp: neutralI)

lemma video_swapped_inv: "keeping session_inv (video_swapped env)"
  unfolding video_swapped_def by (auto intro!: resume_keeps active_keeps after_rebuild)

lemma join_timeout_inv: "keeping session_inv (join_timeout_fired env)"
proof -
  have "keeping session_inv clearJoinTimeout"
    unfolding clearJoinTimeout_def
    by (rule keeping_upd) (auto simp: session_inv_def live_session_def mid_def core_ok_def isInactive_def over_def
        mirror_def remotes_of_def is_remote_def [abs_def] current_participants_def)
  then show ?thesis unfolding join_timeout_fired_def by (auto intro!: after_rebuild fail_keeps)
qed

lemma reconnect_inv: "keeping session_inv (session_reconnect_fired env)"
proof (rule keepingI)
  fix s assume i: "session_inv s"
  show "session_inv (fst (session_reconnect_fired env s))"
  proof (cases "ss_reconnectTimer s")
    case (Some t)
    with i have "mid s" by (auto simp: session_inv_def live_session_def over_def)
    let ?s = "s\<lparr> ss_reconnectTimer := None, ss_reconnectAttempts := fst t \<rparr>"
    let ?t = "?s\<lparr> ss_pendingJoinOptions := Some (join_again ?s) \<rparr>"
    have act: "\<not> isInactive ?s" and "mid ?t"
      using \<open>mid s\<close> by (simp_all add: mid_def core_ok_def isInactive_def)
    then have "session_inv (fst (rebuildState env ?t))" by (simp add: rebuild_inv)
    with Some act show ?thesis
      by (simp add: session_reconnect_fired_def letS_def active_def ifS_def thenS_def upd_def out_def skipS_def Let_def
          case_prod_beta)
  qed (simp add: session_reconnect_fired_def letS_def skipS_def i)
qed

lemma resync_inv: "keeping session_inv resync_timeout_fired"
  by (rule keepingI)
    (auto simp: resync_timeout_fired_def flushPostReconnectResync_def cancelPostReconnectResync_def act_simps
      session_inv_def live_session_def mid_def core_ok_def isInactive_def over_def
      mirror_def remotes_of_def is_remote_def [abs_def] current_participants_def)

lemma ending_inv: "keeping session_inv ending_fired"
proof (rule keepingI)
  fix s assume i: "session_inv s"
  show "session_inv (fst (ending_fired s))"
  proof (cases "ss_endingTimer s")
    case True
    with i have "over s" by (auto simp: session_inv_def live_session_def mid_def core_ok_def)
    then have "over (s\<lparr> ss_endingTimer := False \<rparr>)" by (simp add: over_def isInactive_def)
    then show ?thesis using True
      by (simp add: ending_fired_def whenS_def ifS_def thenS_def upd_def skipS_def Let_def session_inv_def commit_fields)
  qed (simp add: ending_fired_def whenS_def ifS_def skipS_def i)
qed

lemma suspension_inv: "keeping session_inv (suspension_fired env cid)"
proof -
  have "keeping mid (upd (\<lambda>s. s\<lparr> ss_suspensionTimers := removeAll cid (ss_suspensionTimers s),
                        ss_presumedLost := set_add cid (ss_presumedLost s) \<rparr>))"
    by (rule keeping_mid_core) (auto simp: core_ok_def isInactive_def set_add_def)
  then show ?thesis
    unfolding suspension_fired_def seqS.simps
    by (intro keeping_whenS active_inv mid_then rebuild_then keeping_skipS)
qed

lemma liveness_inv: "keeping session_inv liveness_tick" "keeping session_inv (liveness_sampled env f)"
  unfolding liveness_tick_def liveness_sampled_def
  by (auto intro!: after_rebuild resume_keeps active_keeps neutral_keeps simp: neutralI split: option.split)

lemma stats_inv: "keeping session_inv (stats_changed env q)"
  unfolding stats_changed_def
  by (auto intro!: after_rebuild call_tracker_inv tracker_ops split: option.split)

lemma session_step_inv: "keeping session_inv (session_step env e)"
proof (cases e)
  case HCancelJoin
  then show ?thesis by (auto intro!: keepingI simp: session_inv_def [of "fst _"] cancel_over)
qed (auto intro!: resume_join_inv leave_keeps_inv destroy_keeps_inv set_audio_inv set_video_inv camera_inv share_inv
    keeping_ifS keeping_skipS provider_event_inv active_keeps rebuild_keeps stats_inv join_timeout_inv reconnect_inv
    resync_inv ending_inv suspension_inv liveness_inv media_started_inv permissions_inv video_swapped_inv
    resume_keeps ice_fetch_inv ice_next_inv keeping_out keeping_thenS
    simp: end_session_def ice_answered_def split: sum.split)

interpretation session: reactive session_event_step session_inv
  by unfold_locales (simp add: session_event_step_def keepingD [OF session_step_inv])

end
