(* ===== verification/Session_Conduct.thy ===== *)
theory Session_Conduct
  imports Session_Proofs
begin

text \<open>
  How the statements of a session behave, stated once as a contract: \<open>session_basics\<close> covers what never asks for ICE
  servers, fails, or arms an ICE restart, and \<open>session_conduct\<close> adds those operations and covers the events. The
  interpretations are the properties that hold for every statement: what is asked of the media engine, which requests
  for ICE servers are still current, when a restart is armed.
\<close>

section \<open>The contract\<close>

fun ice_generation :: "continuation \<Rightarrow> nat option" where
  "ice_generation (KIceWait g _) = Some g"
| "ice_generation (KIceFetch g _) = Some g"
| "ice_generation _ = None"

fun is_wait :: "session_effect \<Rightarrow> bool" where
  "is_wait (WaitMs _) = True"
| "is_wait _ = False"

text \<open>Effects that neither restart ICE nor belong to the retries of the ICE servers.\<close>

definition plain_tell :: "session_effect \<Rightarrow> bool" where
  "plain_tell e \<longleftrightarrow> e \<noteq> MediaSignalingReconnect \<and> e \<noteq> SigGetIceServers \<and> \<not> is_wait e"

text \<open>Updates that ask for nothing, arm nothing and revive nothing.\<close>

definition lowers :: "session \<Rightarrow> session \<Rightarrow> bool" where
  "lowers s s' \<longleftrightarrow> ss_pending s' = ss_pending s \<and> ss_iceGeneration s \<le> ss_iceGeneration s' \<and>
     ss_terminated s' = ss_terminated s \<and> (ss_destroyed s \<longrightarrow> ss_destroyed s') \<and>
     (ss_pendingResync s' \<longrightarrow> ss_pendingResync s) \<and> (ss_reconnectRecoveryPending s' \<longrightarrow> ss_reconnectRecoveryPending s) \<and>
     (ss_endingTimer s' \<longrightarrow> ss_endingTimer s)"

lemma reconciled_lowers:
  "lowers s (reconcileRemoteSuspensionTimers s)" "lowers s (reconcileRemoteCapabilityStorage s)"
  using reconcile_timers_next [of s] reconcile_capabilities(1) [of s]
  by (auto simp: susp_next_def cap_next_def lowers_def)

locale session_basics =
  fixes ok :: "session_act \<Rightarrow> bool"
  assumes ok_skip: "ok skipS"
    and ok_then: "ok a \<Longrightarrow> ok b \<Longrightarrow> ok (thenS a b)"
    and ok_pointwise: "(\<And>s. \<exists>b. ok b \<and> a s = b s) \<Longrightarrow> ok a"
    and ok_upd: "(\<And>s. lowers s (f s)) \<Longrightarrow> ok (upd f)"
    and ok_out: "(\<And>s. plain_tell (g s)) \<Longrightarrow> ok (out g)"
    and ok_await: "ice_generation k = None \<Longrightarrow> ok (await k)"
    and ok_resume: "ice_generation k = None \<Longrightarrow> ok a \<Longrightarrow> ok (resume k a)"
    and ok_drop: "ok (resume k skipS)"
begin

lemma ok_let: "(\<And>x. ok (k x)) \<Longrightarrow> ok (letS e k)"
  by (rule ok_pointwise) (auto simp: letS_def)

lemma ok_if: "ok a \<Longrightarrow> ok b \<Longrightarrow> ok (ifS c a b)"
  by (rule ok_pointwise) (auto simp: ifS_def)

lemma ok_when: "ok a \<Longrightarrow> ok (whenS c a)"
  unfolding whenS_def by (intro ok_if ok_skip)

lemma ok_for: "(\<And>x. ok (body x)) \<Longrightarrow> ok (forS xs body)"
  by (induction xs) (auto simp: forS_def intro: ok_skip ok_then)

lemma ok_active: "ok a \<Longrightarrow> ok (active a)"
  unfolding active_def by (intro ok_if ok_skip)

lemmas ok_rules = ok_skip ok_then ok_let ok_if ok_when ok_for ok_active ok_upd ok_out ok_await ok_resume

lemma ok_end:
  "ok (finalizeQuality env)" "ok (destroy_session env)" "ok (leave_session env)" "ok (commitTerminalState ph err)"
  "ok resetSessionResources" "ok (end_session env)" "ok (cancelJoin env)" "ok ending_fired"
proof -
  show fin: "ok (finalizeQuality env)"
    unfolding finalizeQuality_def by (auto intro!: ok_rules simp: lowers_def Let_def)
  show des: "ok (destroy_session env)"
    unfolding destroy_session_def clearing_defs seqS.simps by (auto intro!: ok_rules fin simp: lowers_def plain_tell_def)
  show leave: "ok (leave_session env)"
    unfolding leave_session_def clearing_defs notifyListeners_def seqS.simps
    by (auto intro!: ok_rules fin des simp: lowers_def plain_tell_def)
  show commit: "ok (commitTerminalState ph err)" for ph err
    unfolding commitTerminalState_def notifyListeners_def seqS.simps by (auto intro!: ok_rules simp: lowers_def plain_tell_def)
  show "ok resetSessionResources"
    unfolding resetSessionResources_def clearing_defs reset_resources_def seqS.simps
    by (auto intro!: ok_rules simp: lowers_def plain_tell_def)
  show "ok (end_session env)" "ok (cancelJoin env)" "ok ending_fired"
    unfolding end_session_def cancelJoin_def ending_fired_def notifyListeners_def seqS.simps
    by (auto intro!: ok_rules leave des commit simp: lowers_def plain_tell_def)
qed

lemma ok_tracker: "ok (call_tracker env a)"
proof -
  have "ok (dispatchConnectionEvent env e)" for e
    unfolding dispatchConnectionEvent_def seqS.simps
    by (auto intro!: ok_rules ok_end simp: plain_tell_def split: host_reaction.split)
  then show ?thesis
    unfolding call_tracker_def seqS.simps by (auto intro!: ok_rules simp: lowers_def)
qed

lemma ok_rebuild: "ok (rebuildState env)"
  unfolding rebuildState_def ensureStatsCollection_def statsStart_def checkPermissionsAndStartMedia_def
    startLocalMedia_def feedQualityTracker_def notifyListeners_def seqS.simps
  by (auto intro!: ok_rules ok_tracker reconciled_lowers simp: lowers_def plain_tell_def split: prod.split)

lemma ok_timers:
  "ok clearReconnectTimer" "ok clearJoinTimeout" "ok maybeStartMediaLivenessTimer" "ok schedule_session_reconnect"
  "ok push_room_state" "ok seedLocalContentRevisionFromSnapshot" "ok (broadcastLocalMediaState v)"
  "ok cancelPostReconnectResync" "ok invalidateIceFetches" "ok notifyListeners" "ok (startLocalMedia KResumeMedia)"
  "ok (startLocalMedia KCheckMedia)"
  unfolding clearing_defs maybeStartMediaLivenessTimer_def schedule_session_reconnect_def push_room_state_def
    seedLocalContentRevisionFromSnapshot_def broadcastLocalMediaState_def notifyListeners_def startLocalMedia_def seqS.simps
  by (auto intro!: ok_rules simp: lowers_def plain_tell_def Let_def split: option.split)

lemma ok_peers:
  "ok (handlePeerJoined env p)" "ok (handlePeerLeft env pid)" "ok (handlePeerMessage env m)"
  unfolding handlePeerJoined_def handlePeerLeft_def handlePeerMessage_def handleRemoteMediaState_def
    handleRemoteContentState_def seqS.simps Let_def
  by (auto intro!: ok_rules ok_timers ok_rebuild simp: lowers_def plain_tell_def split: option.split prod.split)

lemma ok_calls:
  "ok resumeJoin" "ok (set_audio env b)" "ok (set_video env b)" "ok (setCameraMode env cm)" "ok flipCamera_session"
  "ok (startScreenShare_session env)" "ok (stopScreenShare_session env)" "ok (video_swapped env)"
  unfolding resumeJoin_def set_audio_def set_video_def setCameraMode_def flipCamera_session_def
    startScreenShare_session_def stopScreenShare_session_def video_swapped_def seqS.simps Let_def
  by (auto intro!: ok_rules ok_timers ok_rebuild simp: lowers_def plain_tell_def split: option.split camera_mode.split)

lemma ok_share: "ok (share_done env k)"
proof (cases "ice_generation k")
  case None
  then show ?thesis
    unfolding share_done_def seqS.simps Let_def by (auto intro!: ok_rules ok_timers ok_rebuild)
next
  case (Some g)
  then show ?thesis using ok_drop unfolding share_done_def by (cases k) simp_all
qed

end

text \<open>Events that are neither a (re)connection, a loss, a join or a room state, nor the timeout of an armed restart.\<close>

fun steady :: "session_event \<Rightarrow> bool" where
  "steady (FromProvider (EvConnected _)) = False"
| "steady (FromProvider EvDisconnected) = False"
| "steady (FromProvider (EvJoined _)) = False"
| "steady (FromProvider (EvRoomStateUpdated _)) = False"
| "steady ResyncTimeoutFired = False"
| "steady _ = True"

locale session_conduct = session_basics +
  fixes env :: session_env
  assumes ok_fail: "ok (failWithError env code message)"
    and ok_cleanup: "ok (active (cleanupCall env))"
    and ok_ice_answered: "ok (ice_answered env g rest answer)"
    and ok_ice_slept: "ok (resume (KIceWait g rest) (ice_fetch g rest))"
begin

lemma ok_answers:
  "ok (media_started env resumed gotStream)" "ok (permissions_answered env needsCamera camera mic)"
  "ok (permissions_threw needsCamera)" "ok (liveness_sampled env flowing)" "ok (stats_changed env q)"
  unfolding media_started_def failOnLocalMediaError_def permissions_answered_def permissions_threw_def
    require_permissions_def liveness_sampled_def stats_changed_def notifyListeners_def seqS.simps Let_def
  by (auto intro!: ok_rules ok_timers ok_rebuild ok_fail ok_tracker simp: lowers_def plain_tell_def
      split: option.split prod.split)

lemma ok_fired:
  "ok (join_timeout_fired env)" "ok (session_reconnect_fired env)" "ok (suspension_fired env cid)" "ok liveness_tick"
  unfolding join_timeout_fired_def session_reconnect_fired_def suspension_fired_def liveness_tick_def seqS.simps
  by (auto intro!: ok_rules ok_timers ok_rebuild ok_fail simp: lowers_def plain_tell_def split: option.split prod.split)

lemma ok_told:
  "ok (active (cleanupCall env))" "ok (handleError env err)" "ok (active (tell (MediaSetIceServers servers)))"
  "ok (active (tell (MediaDirtyPair cid)))"
  unfolding handleError_def by (auto intro!: ok_rules ok_cleanup ok_fail simp: plain_tell_def)

lemma ok_step: "steady e \<Longrightarrow> ok (session_step env e)"
proof (cases e)
  case (FromProvider pe)
  moreover assume "steady e"
  ultimately show ?thesis
    by (cases pe) (auto intro!: ok_if ok_skip ok_peers ok_told)
qed (auto intro!: ok_calls ok_share ok_answers ok_fired ok_end ok_active ok_rebuild ok_ice_answered ok_ice_slept)

end

section \<open>Restarts\<close>

text \<open>The gate of the ICE restart: with it closed nothing opens it, and no statement but a room state and its timeout
  restarts ICE.\<close>

definition resync_gate :: "bool \<Rightarrow> session \<Rightarrow> bool" where
  "resync_gate armed s = (armed \<or> \<not> ss_pendingResync s)"

abbreviation restartless :: "bool \<Rightarrow> session_act \<Rightarrow> bool" where
  "restartless armed \<equiv> confined (resync_gate armed) (\<lambda>e. e \<noteq> MediaSignalingReconnect)"

lemma keeping_pointwise: "(\<And>s. \<exists>b. keeping P b \<and> a s = b s) \<Longrightarrow> keeping P a"
  unfolding keeping_def by metis

lemma confined_keeping: "confined P Q a \<Longrightarrow> keeping P a"
  by (simp add: confined_def keeping_def)

lemmas restartless_rules =
  confined_skipS confined_thenS confined_letS confined_ifS confined_whenS confined_forS confined_upd confined_out

interpretation restartless_basics: session_basics "restartless armed" for armed
proof
  show "restartless armed (upd f)" if "\<And>s. lowers s (f s)" for f
    using that by (intro confined_upd) (auto simp: resync_gate_def lowers_def)
  show "restartless armed (resume k a)" if "restartless armed a" for k a
    unfolding resume_def seqS.simps using that by (auto intro!: restartless_rules simp: resync_gate_def)
  show "restartless armed (resume k skipS)" for k
    unfolding resume_def seqS.simps by (auto intro!: restartless_rules simp: resync_gate_def)
  show "restartless armed (await k)" for k
    unfolding await_def by (auto intro!: restartless_rules simp: resync_gate_def)
qed (auto intro: confined_skipS confined_thenS confined_pointwise confined_out simp: plain_tell_def)

interpretation restartless: session_conduct "restartless armed" env for armed env
proof
  show fail: "restartless armed (failWithError env code message)" for code message
    unfolding failWithError_def seqS.simps
    by (intro restartless_rules restartless_basics.ok_end)
      (auto intro!: restartless_rules restartless_basics.ok_tracker simp: resync_gate_def split: option.split)
  show "restartless armed (active (cleanupCall env))"
    unfolding cleanupCall_def active_def seqS.simps
    by (auto intro!: restartless_rules restartless_basics.ok_end simp: resync_gate_def)
  have wait: "restartless armed (await k)" for k
    unfolding await_def by (auto intro!: restartless_rules simp: resync_gate_def)
  have fetch: "restartless armed (ice_fetch g rest)" for g rest
    unfolding ice_fetch_def seqS.simps by (auto intro!: restartless_rules wait)
  have resume: "restartless armed a \<Longrightarrow> restartless armed (resume k a)" for a k
    unfolding resume_def seqS.simps by (auto intro!: restartless_rules simp: resync_gate_def)
  show "restartless armed (resume (KIceWait g rest) (ice_fetch g rest))" for g rest
    by (rule resume [OF fetch])
  show "restartless armed (ice_answered env g rest answer)" for g rest answer
    unfolding ice_answered_def ice_next_def seqS.simps
    by (auto intro!: resume restartless_rules fetch fail wait split: sum.split list.split)
qed

section \<open>Reconnections\<close>

text \<open>Only a loss of the connection in a room asks for the recovery.\<close>

abbreviation unrecovering :: "session_act \<Rightarrow> bool" where
  "unrecovering \<equiv> keeping (\<lambda>s. \<not> ss_reconnectRecoveryPending s)"

lemmas keeping_rules =
  keeping_skipS keeping_thenS keeping_letS keeping_ifS keeping_whenS keeping_forS keeping_upd keeping_out

interpretation unrecovering_basics: session_basics unrecovering
proof
  show "unrecovering (upd f)" if "\<And>s. lowers s (f s)" for f
    using that by (intro keeping_upd) (auto simp: lowers_def)
  show "unrecovering (resume k a)" if "unrecovering a" for k a
    unfolding resume_def seqS.simps using that by (auto intro!: keeping_rules)
  show "unrecovering (resume k skipS)" for k
    unfolding resume_def seqS.simps by (auto intro!: keeping_rules)
  show "unrecovering (await k)" for k
    unfolding await_def by (auto intro!: keeping_rules)
qed (auto intro: keeping_skipS keeping_thenS keeping_pointwise keeping_out)

lemma unrecovering_ice:
  "unrecovering (await k)" "unrecovering (failWithError env code message)" "unrecovering (ice_fetch g rest)"
  "unrecovering (ice_next env g err ds)" "unrecovering (fetchInitialIceServers env)"
proof -
  show wait: "unrecovering (await k)" for k unfolding await_def by (auto intro!: keeping_rules)
  show fail: "unrecovering (failWithError env code message)" for code message
    unfolding failWithError_def seqS.simps
    by (intro keeping_rules unrecovering_basics.ok_end)
      (auto intro!: keeping_rules unrecovering_basics.ok_tracker split: option.split)
  show fetch: "unrecovering (ice_fetch g rest)" for g rest
    unfolding ice_fetch_def seqS.simps by (auto intro!: keeping_rules wait)
  show nextS: "unrecovering (ice_next env g err ds)" for g err ds
    unfolding ice_next_def seqS.simps by (auto intro!: keeping_rules wait fetch fail split: list.split)
  show "unrecovering (fetchInitialIceServers env)"
    unfolding fetchInitialIceServers_def seqS.simps by (auto intro!: keeping_rules nextS)
qed

interpretation unrecovering: session_conduct unrecovering env for env
proof
  have resume: "unrecovering a \<Longrightarrow> unrecovering (resume k a)" for a k
    unfolding resume_def seqS.simps by (auto intro!: keeping_rules)
  show "unrecovering (failWithError env code message)" for code message by (rule unrecovering_ice)
  show "unrecovering (active (cleanupCall env))"
    unfolding cleanupCall_def active_def seqS.simps by (auto intro!: keeping_rules unrecovering_basics.ok_end)
  show "unrecovering (resume (KIceWait g rest) (ice_fetch g rest))" for g rest
    by (rule resume [OF unrecovering_ice(3)])
  show "unrecovering (ice_answered env g rest answer)" for g rest answer
    unfolding ice_answered_def by (auto intro!: resume keeping_rules unrecovering_ice split: sum.split)
qed

section \<open>Requests for ICE servers\<close>

text \<open>A session that failed or whose room ended, and is not destroyed yet.\<close>

definition failed :: "session \<Rightarrow> bool" where
  "failed s \<longleftrightarrow> ss_terminated s \<and> \<not> ss_destroyed s"

definition ice_upto :: "nat \<Rightarrow> session \<Rightarrow> bool" where
  "ice_upto n s = list_all (\<lambda>k. pred_option (\<lambda>g. g < n) (ice_generation k)) (ss_pending s)"

text \<open>Open requests and retry waits belong to generations seen so far; those of a failed session to earlier ones. The
  mode says what else is known: nothing, that the session has not failed, or that its requests are stale if it has.\<close>

datatype ice_mode = AnyState | Unfailed | Staled

definition icy :: "ice_mode \<Rightarrow> session \<Rightarrow> bool" where
  "icy m s \<longleftrightarrow> ice_upto (ss_iceGeneration s + 1) s \<and>
     (case m of AnyState \<Rightarrow> True | Unfailed \<Rightarrow> \<not> failed s | Staled \<Rightarrow> failed s \<longrightarrow> ice_upto (ss_iceGeneration s) s)"

abbreviation icily :: "ice_mode \<Rightarrow> session_act \<Rightarrow> bool" where
  "icily m \<equiv> keeping (icy m)"

lemma ice_upto_mono: "ice_upto n s \<Longrightarrow> n \<le> m \<Longrightarrow> ss_pending s' = ss_pending s \<Longrightarrow> ice_upto m s'"
  by (auto simp: ice_upto_def list_all_iff pred_option_def)

lemma icy_lowers: "lowers s s' \<Longrightarrow> icy m s \<Longrightarrow> icy m s'"
  by (cases m) (auto simp: icy_def lowers_def failed_def intro: ice_upto_mono)

lemma icily_upd: "(\<And>s. ss_pending (f s) = ss_pending s) \<Longrightarrow> (\<And>s. ss_iceGeneration (f s) = ss_iceGeneration s) \<Longrightarrow>
  (\<And>s. ss_terminated (f s) = ss_terminated s) \<Longrightarrow> (\<And>s. ss_destroyed (f s) = ss_destroyed s) \<Longrightarrow> icily m (upd f)"
  by (rule keeping_upd) (cases m; simp add: icy_def failed_def ice_upto_def)

lemma icily_await: "ice_generation k = None \<Longrightarrow> icily m (await k)"
  unfolding await_def by (rule keeping_upd) (cases m; simp add: icy_def failed_def ice_upto_def)

lemma icy_dropped: "icy m s \<Longrightarrow> icy m (s\<lparr> ss_pending := remove1 k (ss_pending s) \<rparr>)"
  by (cases m) (auto simp: icy_def failed_def ice_upto_def list_all_iff dest: set_remove1_subset [THEN subsetD])

lemma icily_resume: "icily m a \<Longrightarrow> icily m (resume k a)"
  unfolding resume_def seqS.simps by (auto intro!: keeping_rules icy_dropped)

interpretation icily: session_basics "icily m" for m
proof
  show "icily m (upd f)" if "\<And>s. lowers s (f s)" for f
    using that icy_lowers by (intro keeping_upd) blast
qed (auto intro: keeping_skipS keeping_thenS keeping_pointwise keeping_out icily_resume icily_await)

text \<open>Releasing the resources makes every request stale.\<close>

lemma reset_stale: "icy AnyState s \<Longrightarrow> icy Staled (fst (resetSessionResources s))"
  by (auto simp: resetSessionResources_def clearing_defs reset_resources_def act_simps icy_def failed_def
      intro: ice_upto_mono)

lemma terminate_icy: "icy Staled s \<Longrightarrow> icy AnyState (s\<lparr> ss_terminated := True, ss_error := e \<rparr>)"
  by (simp add: icy_def ice_upto_def)

lemma icily_failures: "icily Staled (failWithError env code message)" "icily Staled (cleanupCall env)"
proof -
  have report: "icily AnyState (whenS (\<lambda>s. qt_inCallStartedAtMs (ss_tracker s) \<noteq> None)
      (case reconnectFailedReasonForCode code of
         None \<Rightarrow> skipS | Some r \<Rightarrow> call_tracker env (reportReconnectFailed r)))"
    by (auto intro!: keeping_rules icily.ok_tracker split: option.split)
  have fin: "icily AnyState (finalizeQuality env)" by (rule icily.ok_end)
  have commit: "icily Staled (commitTerminalState ph err)" for ph err by (rule icily.ok_end)
  have ending: "icily Staled (upd (\<lambda>s. s\<lparr> ss_endingTimer := True \<rparr>))" by (rule icily_upd) simp_all
  have last: "icily m (seqS [])" for m by (simp add: keeping_skipS)
  have reset: "leads (icy AnyState) resetSessionResources (icy Staled)"
    by (simp add: leads_def reset_stale)
  have terminate: "leads (icy Staled) (upd (\<lambda>s. s\<lparr> ss_terminated := True, ss_error := e \<rparr>)) (icy AnyState)" for e
    by (simp add: leads_def upd_def terminate_icy)
  show "icily Staled (failWithError env code message)"
    unfolding failWithError_def seqS.simps
    by (rule keeping_leads, rule leads_then [OF terminate], rule leads_then [OF leads_keeping [OF report]], assumption,
        rule leads_then [OF leads_keeping [OF fin]], assumption, rule leads_then [OF reset],
        rule leads_keeping [OF keeping_thenS [OF commit keeping_skipS]], assumption)
  show "icily Staled (cleanupCall env)"
    unfolding cleanupCall_def seqS.simps
    by (rule keeping_leads, rule leads_then [OF terminate], rule leads_then [OF leads_keeping [OF fin]], assumption,
        rule leads_then [OF reset],
        rule leads_keeping [OF keeping_thenS [OF commit keeping_thenS [OF ending keeping_skipS]]], assumption)
qed

lemma open_generation:
  assumes "icy Staled s" "k \<in> set (ss_pending s)" "ice_generation k = Some g"
  shows "g < ss_iceGeneration s + 1" "failed s \<Longrightarrow> g < ss_iceGeneration s"
  using assms by (auto simp: icy_def ice_upto_def list_all_iff)

lemma fetch_icy:
  assumes "icy Staled s" "failed s \<Longrightarrow> g < ss_iceGeneration s"
  shows "icy Staled (fst (ice_fetch g rest s))"
  using assms by (auto simp: ice_fetch_def await_def isCurrentIceFetch_def act_simps icy_def failed_def ice_upto_def)

lemma next_icy:
  assumes "icy Staled s" "g < ss_iceGeneration s + 1" "failed s \<Longrightarrow> g < ss_iceGeneration s"
  shows "icy Staled (fst (ice_next env g err ds s))"
proof (cases ds)
  case Nil
  with assms(1) icily_failures(1) show ?thesis
    by (simp add: ice_next_def ifS_def skipS_def keepingD)
next
  case (Cons d rest)
  have "icy Staled (s\<lparr> ss_pending := ss_pending s @ [KIceWait g rest] \<rparr>)"
    using assms by (auto simp: icy_def failed_def ice_upto_def)
  with Cons fetch_icy [OF assms(1,3)] show ?thesis
    by (simp add: ice_next_def await_def act_simps)
qed

lemma resumed_icy:
  assumes "ice_generation k = Some g"
    and a: "\<And>s. icy Staled s \<Longrightarrow> g < ss_iceGeneration s + 1 \<Longrightarrow> (failed s \<Longrightarrow> g < ss_iceGeneration s) \<Longrightarrow> icy Staled (fst (a s))"
  shows "icily Staled (resume k a)"
proof (rule keepingI)
  fix s assume s: "icy Staled s"
  show "icy Staled (fst (resume k a s))"
  proof (cases "k \<in> set (ss_pending s)")
    case True
    let ?s = "s\<lparr> ss_pending := remove1 k (ss_pending s) \<rparr>"
    have "icy Staled (fst (a ?s))"
      using open_generation [OF s True assms(1)] icy_dropped [OF s] by (intro a) (simp_all add: failed_def)
    with True show ?thesis by (simp add: resume_def act_simps)
  qed (use s in \<open>simp add: resume_def act_simps\<close>)
qed

interpretation icily_all: session_conduct "icily Staled" env for env
proof
  show "icily Staled (failWithError env code message)" "icily Staled (active (cleanupCall env))" for code message
    by (auto intro: icily_failures icily.ok_active)
  show "icily Staled (resume (KIceWait g rest) (ice_fetch g rest))" for g rest
    by (rule resumed_icy [where g = g]) (auto intro: fetch_icy)
  have told: "icily Staled (ifS (isCurrentIceFetch g) (tell (MediaSetIceServers servers)) skipS)" for g servers
    by (auto intro!: keeping_rules)
  show "icily Staled (ice_answered env g rest answer)" for g rest answer
    unfolding ice_answered_def
    by (cases answer) (auto intro!: resumed_icy [where g = g] next_icy intro: keepingD [OF told])
qed

text \<open>An active session that joins has not failed, and its first request is current.\<close>

lemma initial_icy: "leads (icy Unfailed) (fetchInitialIceServers env) (icy Staled)"
  by (rule leadsI)
    (auto simp: fetchInitialIceServers_def ice_next_def ice_fetch_def await_def isCurrentIceFetch_def
      ICE_FETCH_RETRY_DELAYS_MS_def act_simps icy_def failed_def intro: ice_upto_mono,
     auto simp: ice_upto_def list_all_iff pred_option_def)

lemma joined_icy: "icily Staled (session_joined env je)"
proof -
  have body: "icily Unfailed (seqS
         [upd (\<lambda>s. s\<lparr> ss_joinInFlight := False, ss_pendingJoinOptions := None, ss_reconnectRecoveryPending := False \<rparr>),
          clearJoinTimeout,
          upd (\<lambda>s. s\<lparr> ss_error := None, ss_clientId := Some (je_peerId je),
                      ss_roomState := Some (buildRoomState (je_participants je) (je_hostPeerId je)
                        (je_maxParticipants je) None (Some (je_peerId je))) \<rparr>),
          seedLocalContentRevisionFromSnapshot, push_room_state, maybeStartMediaLivenessTimer,
          rebuildState env, broadcastLocalMediaState (sv_media env)])"
    unfolding seqS.simps by (auto intro!: icily.ok_rules icily.ok_timers icily.ok_rebuild simp: lowers_def)
  show ?thesis
  proof (rule keepingI)
    fix s assume s: "icy Staled s"
    show "icy Staled (fst (session_joined env je s))"
    proof (cases "isInactive s")
      case False
      then have "icy Unfailed s" using s by (simp add: icy_def failed_def isInactive_def)
      from leadsD [OF initial_icy keepingD [OF body this]] False show ?thesis
        by (simp add: session_joined_def active_def ifS_def thenS_def skipS_def Let_def)
    qed (use s in \<open>simp add: session_joined_def active_def ifS_def skipS_def\<close>)
  qed
qed

lemma unsteady_icy:
  "icily Staled (handleConnected env t)" "icily Staled (handleDisconnected env)"
  "icily Staled (handleRoomStateUpdated env ev)" "icily Staled resync_timeout_fired"
proof -
  have flush: "icily Staled flushPostReconnectResync"
    unfolding flushPostReconnectResync_def seqS.simps by (auto intro!: keeping_rules icily.ok_timers)
  have arm: "icily Staled armPostReconnectResync"
    unfolding armPostReconnectResync_def by (rule icily_upd) simp_all
  have lost: "icily Staled (upd (\<lambda>s. s\<lparr> ss_reconnectRecoveryPending := b \<rparr>))" for b by (rule icily_upd) simp_all
  show "icily Staled (handleConnected env t)" "icily Staled (handleDisconnected env)"
    "icily Staled (handleRoomStateUpdated env ev)" "icily Staled resync_timeout_fired"
    unfolding handleConnected_def handleDisconnected_def handleRoomStateUpdated_def resync_timeout_fired_def seqS.simps
    by (auto intro!: icily.ok_active icily.ok_let icily.ok_then icily.ok_if icily.ok_when icily.ok_skip icily.ok_timers
        icily.ok_rebuild icily.ok_out flush arm lost icily.ok_upd simp: lowers_def plain_tell_def)
qed

lemma icily_step: "icily Staled (session_step env e)"
proof (cases "steady e")
  case False
  then show ?thesis
    by (cases e rule: steady.cases) (auto intro!: unsteady_icy joined_icy keeping_ifS keeping_skipS)
qed (rule icily_all.ok_step)

interpretation requests: reactive session_event_step "icy Staled"
  by unfold_locales (simp add: session_event_step_def keepingD [OF icily_step])

section \<open>Ended sessions ask for nothing\<close>

fun is_request :: "continuation \<Rightarrow> bool" where
  "is_request (KIceFetch _ _) = True"
| "is_request _ = False"

text \<open>The retry waits that were started, with the requests still open.\<close>

definition retries :: "session \<times> session_effect list \<Rightarrow> nat" where
  "retries r = length (filter is_wait (snd r)) + length (filter is_request (ss_pending (fst r)))"

definition retires :: "session \<Rightarrow> session \<times> session_effect list \<Rightarrow> bool" where
  "retires s r \<longleftrightarrow> isInactive (fst r) \<and> icy Staled (fst r) \<and> SigGetIceServers \<notin> set (snd r) \<and>
     MediaSignalingReconnect \<notin> set (snd r) \<and> retries r \<le> retries (s, []) \<and> (ss_endingTimer (fst r) \<longrightarrow> ss_endingTimer s)"

definition retiring :: "session_act \<Rightarrow> bool" where
  "retiring a \<longleftrightarrow> (\<forall>s. isInactive s \<and> icy Staled s \<longrightarrow> retires s (a s))"

lemma retires_refl: "isInactive s \<Longrightarrow> icy Staled s \<Longrightarrow> retires s (s, [])"
  by (simp add: retires_def)

lemma retires_trans:
  "retires s (s', es) \<Longrightarrow> retires s' (s'', fs) \<Longrightarrow> retires s (s'', es @ fs)"
  by (auto simp: retires_def retries_def)

lemma retiring_then: "retiring a \<Longrightarrow> retiring b \<Longrightarrow> retiring (thenS a b)"
proof -
  assume a: "retiring a" "retiring b"
  have "retires s (thenS a b s)" if s: "isInactive s" "icy Staled s" for s
  proof -
    have 1: "retires s (fst (a s), snd (a s))" using a(1) s by (simp add: retiring_def)
    then have "retires (fst (a s)) (fst (b (fst (a s))), snd (b (fst (a s))))"
      using a(2) by (simp add: retiring_def retires_def [of s])
    from retires_trans [OF 1 this] show ?thesis by (simp add: thenS_def Let_def)
  qed
  then show ?thesis by (simp add: retiring_def)
qed

lemma retiring_pointwise: "(\<And>s. \<exists>b. retiring b \<and> a s = b s) \<Longrightarrow> retiring a"
  unfolding retiring_def by metis

lemma retiring_upd:
  "(\<And>s. isInactive s \<Longrightarrow> isInactive (f s)) \<Longrightarrow> (\<And>s. icy Staled s \<Longrightarrow> isInactive s \<Longrightarrow> icy Staled (f s)) \<Longrightarrow>
   (\<And>s. length (filter is_request (ss_pending (f s))) \<le> length (filter is_request (ss_pending s))) \<Longrightarrow>
   (\<And>s. ss_endingTimer (f s) \<Longrightarrow> ss_endingTimer s) \<Longrightarrow> retiring (upd f)"
  by (simp add: retiring_def retires_def retries_def upd_def)

lemma request_less: "length (filter P (remove1 k ks)) \<le> length (filter P ks)"
  by (induction ks) auto

lemma request_removed: "k \<in> set ks \<Longrightarrow> P k \<Longrightarrow> Suc (length (filter P (remove1 k ks))) = length (filter P ks)"
  by (induction ks) auto

lemma retiring_skip: "retiring skipS"
  by (simp add: retiring_def skipS_def retires_refl)

lemma retiring_resume: "retiring a \<Longrightarrow> retiring (resume k a)"
proof -
  assume a: "retiring a"
  have "retiring (upd (\<lambda>s. s\<lparr> ss_pending := remove1 k (ss_pending s) \<rparr>))"
    by (rule retiring_upd) (simp_all add: isInactive_def icy_dropped request_less)
  then have "retiring (seqS [upd (\<lambda>s. s\<lparr> ss_pending := remove1 k (ss_pending s) \<rparr>), a])"
    using a by (simp add: retiring_then retiring_skip)
  with retiring_skip show ?thesis
    unfolding resume_def by (intro retiring_pointwise) (auto simp: whenS_def ifS_def)
qed

lemma retiring_await: "ice_generation k = None \<Longrightarrow> retiring (await k)"
  using keepingD [OF icily_await [of k Staled]]
  unfolding await_def by (intro retiring_upd) (cases k; auto simp: isInactive_def upd_def)+

interpretation retiring: session_basics retiring
proof
  show "retiring (upd f)" if l: "\<And>s. lowers s (f s)" for f
  proof (rule retiring_upd)
    fix s
    show "isInactive s \<Longrightarrow> isInactive (f s)" "ss_endingTimer (f s) \<Longrightarrow> ss_endingTimer s"
      "length (filter is_request (ss_pending (f s))) \<le> length (filter is_request (ss_pending s))"
      using l [of s] by (auto simp: lowers_def isInactive_def)
    show "icy Staled s \<Longrightarrow> isInactive s \<Longrightarrow> icy Staled (f s)" using icy_lowers [OF l] by blast
  qed
  show "retiring (out g)" if g: "\<And>s. plain_tell (g s)" for g
    using g by (auto simp: retiring_def retires_def retries_def out_def plain_tell_def)
      (use g in \<open>(metis plain_tell_def)+\<close>)
qed (auto intro: retiring_skip retiring_then retiring_pointwise retiring_resume retiring_await)

lemma retiring_fail: "retiring (failWithError env code message)"
proof -
  have terminate: "retiring (upd (\<lambda>s. s\<lparr> ss_terminated := True, ss_error := e \<rparr>))" for e
    by (rule retiring_upd) (auto simp: isInactive_def icy_def failed_def ice_upto_def)
  show ?thesis
    unfolding failWithError_def seqS.simps
    by (auto intro!: terminate retiring.ok_then retiring.ok_when retiring.ok_skip retiring.ok_tracker retiring.ok_end
        split: option.split)
qed

lemma retires_request:
  assumes s: "isInactive s" "icy Staled s" and k: "k \<in> set (ss_pending s)" "ice_generation k = Some g"
    and a: "a (s\<lparr> ss_pending := remove1 k (ss_pending s) \<rparr>) =
      (s\<lparr> ss_pending := remove1 k (ss_pending s) @ ks \<rparr>, es)"
    and ks: "\<forall>k' \<in> set ks. ice_generation k' = Some g" "list_all (\<lambda>k. \<not> is_request k) ks"
    and es: "SigGetIceServers \<notin> set es" "MediaSignalingReconnect \<notin> set es"
      "length (filter is_wait es) \<le> (if is_request k then 1 else 0)"
  shows "retires s (resume k a s)"
proof -
  have r: "resume k a s = (s\<lparr> ss_pending := remove1 k (ss_pending s) @ ks \<rparr>, es)"
    using k a by (simp add: resume_def act_simps)
  have "icy Staled (s\<lparr> ss_pending := remove1 k (ss_pending s) @ ks \<rparr>)"
    using icy_dropped [OF s(2), of k] open_generation [OF s(2) k] ks(1)
    by (auto simp: icy_def failed_def ice_upto_def list_all_iff)
  moreover have "filter is_request ks = []" using ks(2) by (simp add: list_all_iff filter_empty_conv)
  ultimately show ?thesis
    using s(1) es request_removed [OF k(1), of is_request] request_less [of is_request k "ss_pending s"]
    unfolding r by (cases "is_request k") (simp_all add: retires_def retries_def isInactive_def)
qed

lemma not_current:
  "isInactive s \<Longrightarrow> icy Staled s \<Longrightarrow> k \<in> set (ss_pending s) \<Longrightarrow> ice_generation k = Some g \<Longrightarrow>
   \<not> isCurrentIceFetch g (s\<lparr> ss_pending := ks \<rparr>)"
  using open_generation [of s k g] by (auto simp: isCurrentIceFetch_def failed_def isInactive_def)

lemma retires_unasked: "isInactive s \<Longrightarrow> icy Staled s \<Longrightarrow> k \<notin> set (ss_pending s) \<Longrightarrow> retires s (resume k a s)"
  by (simp add: resume_def whenS_def ifS_def skipS_def retires_refl)

lemma retiring_ice:
  "retiring (ice_answered env g rest answer)" "retiring (resume (KIceWait g rest) (ice_fetch g rest))"
proof -
  show "retiring (resume (KIceWait g rest) (ice_fetch g rest))"
    unfolding retiring_def
  proof (intro allI impI, elim conjE)
    fix s assume s: "isInactive s" "icy Staled s"
    show "retires s (resume (KIceWait g rest) (ice_fetch g rest) s)"
    proof (cases "KIceWait g rest \<in> set (ss_pending s)")
      case True
      from not_current [OF s True, of g] show ?thesis
        by (intro retires_request [OF s True, where ks = "[]" and es = "[]" and g = g])
          (simp_all add: ice_fetch_def ifS_def skipS_def)
    qed (rule retires_unasked [OF s])
  qed
  show "retiring (ice_answered env g rest answer)"
    unfolding retiring_def
  proof (intro allI impI, elim conjE)
    fix s assume s: "isInactive s" "icy Staled s"
    show "retires s (ice_answered env g rest answer s)"
    proof (cases "KIceFetch g rest \<in> set (ss_pending s)")
      case True
      note n = not_current [OF s True, of g]
      show ?thesis
      proof (cases "\<exists>e d ds. answer = Inl e \<and> rest = d # ds \<and> 0 < d")
        case waits: True
        then obtain d ds where d: "rest = d # ds" "0 < d" and e: "\<exists>e. answer = Inl e" by blast
        from e show ?thesis
          unfolding ice_answered_def
          by (intro retires_request [OF s True, where ks = "[KIceWait g ds]" and es = "[WaitMs d]" and g = g])
            (auto simp: d ice_next_def await_def act_simps)
      next
        case False
        then show ?thesis
          using n unfolding ice_answered_def
          by (intro retires_request [OF s True, where ks = "[]" and es = "[]" and g = g])
            (auto simp: ice_next_def ice_fetch_def ifS_def skipS_def split: sum.split list.split)
      qed
    qed (simp add: ice_answered_def retires_unasked [OF s])
  qed
qed

interpretation retiring_all: session_conduct retiring env for env
proof
  have "retiring (active a)" for a
    by (simp add: retiring_def active_def ifS_def skipS_def retires_refl)
  then show "retiring (active (cleanupCall env))" .
qed (rule retiring_fail retiring_ice)+

lemma over_retires:
  assumes "over s" "icy Staled s"
  shows "retires s (session_event_step s (env, e))"
proof (cases "steady e")
  case True
  from retiring_all.ok_step [OF this] show ?thesis
    using assms by (simp add: retiring_def session_event_step_def over_inactive)
next
  case False
  have i: "isInactive s" using assms(1) by (rule over_inactive)
  from False have "session_step env e s = (s, [])"
    using assms(1) i
    by (cases e rule: steady.cases)
      (simp_all add: handleConnected_def handleDisconnected_def session_joined_def handleRoomStateUpdated_def
        resync_timeout_fired_def active_def ifS_def skipS_def whenS_def over_def)
  with retires_refl [OF i assms(2)] show ?thesis by (simp add: session_event_step_def)
qed

end
