(* ===== verification/Session_Claims.thy ===== *)
theory Session_Claims
  imports Session_Conduct
begin

text \<open>
  What the session guarantees: what it publishes mirrors the room, an ended session is final and quiet,
  failures are terminal, ICE restarts wait for the room's snapshot, and the retries of the ICE servers end.
\<close>

section \<open>Runs\<close>

definition session_after ::
  "session_config \<Rightarrow> string \<Rightarrow> bool \<Rightarrow> string option \<Rightarrow> string option \<Rightarrow> (session_env \<times> session_event) list \<Rightarrow>
   session \<times> session_effect list" where
  "session_after cfg roomId handlesReconnection displayName appPeerId es =
     run session_event_step (fst (start_session (new_session cfg roomId handlesReconnection displayName appPeerId))) es"

lemma started_live: "live_session (fst (start_session (new_session cfg roomId hr name pid)))"
  using new_tracker_inv
  by (simp add: start_session_def scheduleJoinTimeout_def active_def new_session_def act_simps Let_def live_session_def
      mid_def core_ok_def isInactive_def mirror_def remotes_of_def current_participants_def new_tracker_def
      truthy_string_def)

lemma session_after_inv: "session_inv (fst (session_after cfg roomId hr name pid es))"
  unfolding session_after_def by (rule session.run_inv) (simp add: session_inv_def started_live)

lemma session_after_icy: "icy Staled (fst (session_after cfg roomId hr name pid es))"
  unfolding session_after_def
  by (rule requests.run_inv)
    (simp add: start_session_def scheduleJoinTimeout_def active_def new_session_def act_simps Let_def icy_def failed_def
      ice_upto_def isInactive_def)

text \<open>An open request for ICE servers, or a wait before the next one, whose answer the session ignores.\<close>

definition stale_request :: "session \<Rightarrow> continuation \<Rightarrow> bool" where
  "stale_request s k = (case ice_generation k of None \<Rightarrow> True | Some g \<Rightarrow> \<not> isCurrentIceFetch g s)"

lemma inactive_over: "session_inv s \<Longrightarrow> isInactive s \<Longrightarrow> over s"
  by (auto simp: session_inv_def live_session_def mid_def)

lemma inactive_stale: "icy Staled s \<Longrightarrow> isInactive s \<Longrightarrow> list_all (stale_request s) (ss_pending s)"
  by (force simp: icy_def failed_def isInactive_def ice_upto_def stale_request_def isCurrentIceFetch_def list_all_iff
      split: option.split)

text \<open>C6: What a session publishes mirrors its room: in every run a session is live or over. Live, its room
  state has distinct ids, none empty, its own among them and a host among them; the published remote
  participants are the others of the room, in order; a participant is tracked as suspended (its timer runs
  or it is presumed lost, never both) exactly if the room says so; shared content is kept only for those
  present; and no error is shown. Over, its timers for joining, reconnecting, the resync, the liveness of media and
  suspended participants are off and no statistics are collected; the timer that shows the end of the call may run, but not
  once the session is destroyed; the requests for ICE servers, and the waits before one is repeated, may
  still be open, but all are stale; and the quality summary is final.\<close>

theorem session_runs_sound:
  "let s = fst (session_after cfg roomId hr name pid es)
   in session_inv s \<and>
      (if isInactive s
       then \<not> ss_joinTimeoutTimer s \<and> ss_reconnectTimer s = None \<and> \<not> ss_resyncTimer s \<and> \<not> ss_pendingResync s \<and>
            \<not> ss_livenessTimer s \<and> ss_suspensionTimers s = [] \<and> ss_presumedLost s = [] \<and> \<not> ss_statsRunning s \<and>
            \<not> (ss_endingTimer s \<and> ss_destroyed s) \<and> list_all (stale_request s) (ss_pending s) \<and>
            qt_finalized (ss_tracker s) \<and> ss_qualitySummary s = qt_summary (ss_tracker s)
       else live_session s)"
proof -
  define s where "s = fst (session_after cfg roomId hr name pid es)"
  have "session_inv s" "icy Staled s" unfolding s_def by (rule session_after_inv session_after_icy)+
  then show ?thesis
    using inactive_over [of s] inactive_stale [of s] over_inactive [of s]
    unfolding Let_def s_def [symmetric] by (cases "isInactive s") (simp_all add: over_def session_inv_def)
qed

section \<open>Ended sessions stay ended\<close>

text \<open>An ended session with the tracker it ended with.\<close>

definition frozen :: "quality_tracker \<Rightarrow> session \<Rightarrow> bool" where
  "frozen t s = (isInactive s \<and> qt_finalized (ss_tracker s) \<and> ss_tracker s = t)"

lemma frozen_upd: "(\<And>s. frozen t s \<Longrightarrow> frozen t (f s)) \<Longrightarrow> keeping (frozen t) (upd f)"
  by (rule keeping_upd)




lemmas frozen_upds = frozen_upd [unfolded frozen_def isInactive_def]
















definition still_view :: media_view where
  "still_view =
     \<lparr> mv_hasStream = False, mv_audioTrack = None, mv_videoTrack = None, mv_isScreenSharing = False,
       mv_facingUser = True, mv_contentRevision = Fin 0, mv_connectionStatus = LinkConnected,
       mv_connectionState = PcNew, mv_liveness = (\<lambda>_. (False, False)), mv_error = None, mv_hasStats = True \<rparr>"

definition still_env :: session_env where
  "still_env = \<lparr> sv_now = 0, sv_mono = 0, sv_media = still_view, sv_host = (\<lambda>_. HostStays), sv_permissionsApi = True \<rparr>"

definition plain_config :: session_config where
  "plain_config =
     \<lparr> scf_videoMediaEnabled = None, scf_cameraModes = None, scf_defaultVideoEnabled = None,
       scf_defaultAudioEnabled = None, scf_independentContentVideo = None \<rparr>"





section \<open>A destroyed session is quiet\<close>

text \<open>Events that are not calls of the host and not the answer of a permission query.\<close>

fun quiet_event :: "session_event \<Rightarrow> bool" where
  "quiet_event HResumeJoin = True"
| "quiet_event HLeave = True"
| "quiet_event HEnd = True"
| "quiet_event HDestroy = True"
| "quiet_event HCancelJoin = False"
| "quiet_event (HSetAudio _) = False"
| "quiet_event (HSetVideo _) = False"
| "quiet_event (HSetCameraMode _) = False"
| "quiet_event HFlip = False"
| "quiet_event HStartShare = False"
| "quiet_event HStopShare = False"
| "quiet_event (PermissionsAnswered _ _ _) = False"
| "quiet_event (PermissionsThrew _) = False"
| "quiet_event _ = True"

lemma destroyed_quiet_step:
  assumes "over s" "ss_destroyed s" "quiet_event e"
  shows "ss_destroyed (fst (session_step env e s)) \<and> list_all is_wait (snd (session_step env e s))"
proof -
  have i: "isInactive s" using assms(2) by (simp add: isInactive_def)
  have cur: "\<not> isCurrentIceFetch g s" for g using assms(2) by (simp add: isCurrentIceFetch_def)
  show ?thesis
    using assms i cur
    by (cases e)
      (auto simp: resumeJoin_def leave_session_def end_session_def active_def destroy_session_def rebuildState_def
        stats_changed_def join_timeout_fired_def session_reconnect_fired_def resync_timeout_fired_def ending_fired_def
        suspension_fired_def liveness_tick_def liveness_sampled_def media_started_def video_swapped_def share_done_def
        resume_def ice_fetch_def ice_answered_def ice_next_def await_def act_simps over_def isInactive_def
        isCurrentIceFetch_def split: option.split continuation.split sum.split list.split)
qed

lemma destroyed_quiet_run:
  "over s \<Longrightarrow> ss_destroyed s \<Longrightarrow> list_all (\<lambda>(env, e). quiet_event e) fs \<Longrightarrow>
   list_all is_wait (snd (run session_event_step s fs))"
proof (induction fs arbitrary: s)
  case (Cons f fs)
  obtain env e where f: "f = (env, e)" by (cases f)
  let ?s = "fst (session_event_step s f)"
  have q: "ss_destroyed ?s" "list_all is_wait (snd (session_event_step s f))"
    using destroyed_quiet_step [of s e env] Cons.prems by (simp_all add: session_event_step_def f)
  then have "isInactive ?s" by (simp add: isInactive_def)
  moreover have "session_inv ?s" by (rule session.step_inv) (simp add: session_inv_def Cons.prems)
  ultimately have "over ?s" by (intro inactive_over)
  then have "list_all is_wait (snd (run session_event_step ?s fs))" using Cons q by simp
  with q show ?case by (simp add: Let_def)
qed simp

lemma destroyed_after_over:
  "over (fst (session_after cfg roomId hr name pid (es @ [(env, HDestroy)]))) \<and>
   ss_destroyed (fst (session_after cfg roomId hr name pid (es @ [(env, HDestroy)])))"
proof -
  define s where "s = fst (session_after cfg roomId hr name pid es)"
  have "session_inv s" unfolding s_def by (rule session_after_inv)
  then have "over (fst (destroy_session env s))"
    by (auto simp: session_inv_def live_session_def destroy_mid destroy_keeps_over)
  moreover have "ss_destroyed (fst (destroy_session env s))"
    by (simp add: destroy_session_def clearing_defs act_simps)
  ultimately show ?thesis by (simp add: session_after_def run_append session_event_step_def s_def Let_def)
qed

text \<open>A destroyed session is quiet: after destroy, no provider event, timer, media or statistics callback
  and no answer to a pending request (but that of the permission query) makes it call the provider,
  the media engine or the host's listeners; the retry loop of the ICE servers may finish one wait.\<close>

theorem destroyed_session_is_quiet:
  assumes "list_all (\<lambda>(env, e). quiet_event e) fs"
  shows "list_all is_wait
    (snd (run session_event_step (fst (session_after cfg roomId hr name pid (es @ [(env, HDestroy)]))) fs))"
  by (rule destroyed_quiet_run) (use destroyed_after_over assms in blast)+

theorem destroyed_session_is_quiet_witness:
  "list_all is_wait (snd (run session_event_step
     (fst (session_after plain_config ''r'' True None None ([(still_env, MediaChanged)] @ [(still_env, HDestroy)])))
     [(still_env, FromProvider EvDisconnected), (still_env, LivenessTick), (still_env, EndingFired)]))"
  by (rule destroyed_session_is_quiet) simp

section \<open>ICE restarts wait for the snapshot of the room\<close>





















section \<open>Failures are terminal\<close>

definition failed_with :: "string \<Rightarrow> string \<Rightarrow> session \<Rightarrow> bool" where
  "failed_with code message s =
     (ss_terminated s \<and> st_phase (ss_state s) = ErrorPhase \<and>
      st_error (ss_state s) = Some (mapErrorCode code, message) \<and>
      st_signalingState (ss_state s) = SigFailed (mapErrorCode code) \<and>
      st_localParticipant (ss_state s) = None \<and> st_remoteParticipants (ss_state s) = [] \<and>
      ss_roomState s = None \<and> ss_clientId s = None \<and> \<not> ss_isConnected s)"

lemma terminated_kept:
  "ss_terminated s \<Longrightarrow> ss_terminated (fst (destroy_session env s))"
  by (simp add: destroy_session_def clearing_defs act_simps)

lemma dispatch_terminated: "keeping ss_terminated (dispatchConnectionEvent env e)"
  by (rule keepingI, cases "sv_host env e")
    (simp_all add: dispatch_next terminated_kept leave_inactive isInactive_def)

lemma fail_result:
  "\<exists>s3 pre. ss_terminated s3 \<and> failWithError env code message s =
     (let r = resetSessionResources s3;
          k = commitTerminalState ErrorPhase (Some (mapErrorCode code, message)) (fst r)
      in (fst k, pre @ snd r @ snd k))"
proof -
  let ?report = "whenS (\<lambda>s. qt_inCallStartedAtMs (ss_tracker s) \<noteq> None)
      (case reconnectFailedReasonForCode code of
         None \<Rightarrow> skipS | Some r \<Rightarrow> call_tracker env (reportReconnectFailed r))"
  define s1 where "s1 = s\<lparr> ss_terminated := True, ss_error := Some (code, message) \<rparr>"
  have "keeping ss_terminated ?report"
    by (intro keeping_whenS)
      (auto split: option.split intro: keeping_skipS call_tracker_keeping dispatch_terminated)
  then have "ss_terminated (fst (?report s1))" by (rule keepingD) (simp add: s1_def)
  then have t: "ss_terminated (fst (finalizeQuality env (fst (?report s1))))" by simp
  have "failWithError env code message s =
     (let r = resetSessionResources (fst (finalizeQuality env (fst (?report s1))));
          k = commitTerminalState ErrorPhase (Some (mapErrorCode code, message)) (fst r)
      in (fst k, (snd (?report s1) @ snd (finalizeQuality env (fst (?report s1)))) @ snd r @ snd k))"
    by (simp add: failWithError_def s1_def thenS_def upd_def skipS_def Let_def)
  with t show ?thesis by blast
qed

lemma fail_failed:
  "failed_with code message (fst (failWithError env code message s))"
  "{MediaCleanupPeers, MediaStopLocal, SigDisconnect} \<subseteq> set (snd (failWithError env code message s))"
proof -
  obtain s3 pre where t: "ss_terminated s3" and e: "failWithError env code message s =
     (let r = resetSessionResources s3;
          k = commitTerminalState ErrorPhase (Some (mapErrorCode code, message)) (fst r)
      in (fst k, pre @ snd r @ snd k))"
    using fail_result by blast
  show "failed_with code message (fst (failWithError env code message s))"
    using t by (simp add: e Let_def failed_with_def commitTerminalState_def resetSessionResources_def clearing_defs
        reset_resources_def notifyListeners_def thenS_def upd_def out_def skipS_def)
  show "{MediaCleanupPeers, MediaStopLocal, SigDisconnect} \<subseteq> set (snd (failWithError env code message s))"
    by (simp add: e Let_def resetSessionResources_def clearing_defs reset_resources_def thenS_def upd_def out_def skipS_def)
qed

text \<open>C10: A failure is terminal and visible: when the provider reports an error to an active session, the session
  shows the error phase with the mapped code and the message and no participants, forgets its room and
  client id, and stops the media, the peers and the connection. Only a failed TURN refresh is ignored.\<close>

theorem failure_is_terminal:
  assumes "\<not> isInactive s"
  shows "if ep_code err = ''TURN_REFRESH_FAILED'' then session_event_step s (env, FromProvider (EvError err)) = (s, [])
    else let r = session_event_step s (env, FromProvider (EvError err))
         in failed_with (ep_code err) (ep_message err) (fst r) \<and> isInactive (fst r) \<and>
            {MediaCleanupPeers, MediaStopLocal, SigDisconnect} \<subseteq> set (snd r)"
  using assms fail_failed [where code = "ep_code err" and message = "ep_message err" and env = env and s = s]
  by (auto simp: session_event_step_def handleError_def active_def ifS_def skipS_def isInactive_def failed_with_def Let_def)

theorem failure_is_terminal_witness:
  "failed_with ''ROOM_FULL'' ''full'' (fst (session_event_step (new_session plain_config ''r'' True None None)
     (still_env, FromProvider (EvError \<lparr> ep_code = ''ROOM_FULL'', ep_message = ''full'', ep_reason = None \<rparr>))))"
proof -
  have "\<not> isInactive (new_session plain_config ''r'' True None None)"
    by (simp add: new_session_def isInactive_def Let_def)
  from failure_is_terminal [OF this, of "\<lparr> ep_code = ''ROOM_FULL'', ep_message = ''full'', ep_reason = None \<rparr>" still_env]
  show ?thesis by (simp add: Let_def)
qed

section \<open>The retries of the ICE servers\<close>

text \<open>Rounds in which every request of the servers fails, each with its own message.\<close>

fun failing_rounds :: "nat \<Rightarrow> int list \<Rightarrow> string list \<Rightarrow> session_event list" where
  "failing_rounds g (d # ds) (msg # msgs) = IceAnswered g (d # ds) (Inl msg) # IceSlept g ds # failing_rounds g ds msgs"
| "failing_rounds g _ _ = []"

definition fetching :: "nat \<Rightarrow> int list \<Rightarrow> session \<Rightarrow> bool" where
  "fetching g rest s = (\<not> isInactive s \<and> ss_iceGeneration s = g \<and> KIceFetch g rest \<in> set (ss_pending s))"

lemma failed_round:
  assumes "fetching g (d # ds) s" "0 < d"
  shows "let r = run session_event_step s [(env, IceAnswered g (d # ds) (Inl msg)), (env, IceSlept g ds)]
         in fetching g ds (fst r) \<and> snd r = [WaitMs d, SigGetIceServers]"
  using assms
  by (simp add: session_event_step_def ice_answered_def ice_next_def ice_fetch_def resume_def await_def
      isCurrentIceFetch_def fetching_def isInactive_def act_simps)

lemma failed_rounds:
  "fetching g rest s \<Longrightarrow> \<forall>d \<in> set rest. 0 < d \<Longrightarrow> length msgs = length rest \<Longrightarrow>
   (let r = run session_event_step s (map (Pair env) (failing_rounds g rest msgs))
    in fetching g [] (fst r) \<and> snd r = concat (map (\<lambda>d. [WaitMs d, SigGetIceServers]) rest))"
proof (induction rest arbitrary: s msgs)
  case (Cons d ds)
  then obtain msg ms where m: "msgs = msg # ms" "length ms = length ds" by (cases msgs) auto
  let ?es = "[(env, IceAnswered g (d # ds) (Inl msg)), (env, IceSlept g ds)]"
  have r: "fetching g ds (fst (run session_event_step s ?es))" "snd (run session_event_step s ?es) = [WaitMs d, SigGetIceServers]"
    using failed_round [OF Cons.prems(1)] Cons.prems(2) by (simp_all only: Let_def) simp_all
  have "map (Pair env) (failing_rounds g (d # ds) msgs) = ?es @ map (Pair env) (failing_rounds g ds ms)"
    by (simp add: m(1))
  with r Cons.IH [OF r(1)] m(2) Cons.prems(2) show ?case by (simp only: run_append Let_def) simp
qed simp

text \<open>C9: Fetching the ICE servers ends: if every request fails, each with a message of its own, an active session asks
  four times, waiting one, two and four seconds in between, and after the fourth refusal it fails with the message of that
  one; it does not keep retrying and does not fail earlier.\<close>

theorem ice_fetch_gives_up:
  assumes "\<not> isInactive s"
  shows "let start = fetchInitialIceServers env s;
             g = ss_iceGeneration (fst start);
             r = run session_event_step (fst start) (map (Pair env) (failing_rounds g [1000, 2000, 4000] [msg1, msg2, msg3]));
             last_answer = session_event_step (fst r) (env, IceAnswered g [] (Inl msg4))
         in snd start @ snd r =
              [SigGetIceServers, WaitMs 1000, SigGetIceServers, WaitMs 2000, SigGetIceServers, WaitMs 4000, SigGetIceServers] \<and>
            \<not> isInactive (fst r) \<and> failed_with ''ICE_SERVER_FETCH_FAILED'' msg4 (fst last_answer)"
proof -
  define start where "start = fetchInitialIceServers env s"
  define g where "g = ss_iceGeneration (fst start)"
  have start: "fetching g [1000, 2000, 4000] (fst start)" "snd start = [SigGetIceServers]"
    using assms
    by (simp_all add: start_def g_def fetchInitialIceServers_def ice_next_def ice_fetch_def await_def fetching_def
        isCurrentIceFetch_def isInactive_def ICE_FETCH_RETRY_DELAYS_MS_def act_simps)
  define r where "r = run session_event_step (fst start) (map (Pair env) (failing_rounds g [1000, 2000, 4000] [msg1, msg2, msg3]))"
  have r: "fetching g [] (fst r)"
    "snd r = concat (map (\<lambda>d. [WaitMs d, SigGetIceServers]) [1000, 2000, 4000])"
    using failed_rounds [OF start(1), of "[msg1, msg2, msg3]" env] by (simp_all only: r_def Let_def) simp_all
  let ?s = "(fst r)\<lparr> ss_pending := remove1 (KIceFetch g []) (ss_pending (fst r)) \<rparr>"
  have "fst (session_event_step (fst r) (env, IceAnswered g [] (Inl msg4))) =
      fst (failWithError env ''ICE_SERVER_FETCH_FAILED'' msg4 ?s)"
    using r(1)
    by (simp add: session_event_step_def ice_answered_def ice_next_def resume_def fetching_def isCurrentIceFetch_def
        isInactive_def whenS_def ifS_def thenS_def upd_def skipS_def Let_def)
  then have "failed_with ''ICE_SERVER_FETCH_FAILED'' msg4 (fst (session_event_step (fst r) (env, IceAnswered g [] (Inl msg4))))"
    by (simp add: fail_failed)
  with r start show ?thesis
    unfolding Let_def start_def [symmetric] g_def [symmetric] r_def [symmetric] by (simp add: fetching_def)
qed

theorem ice_fetch_gives_up_witness:
  "let start = fetchInitialIceServers still_env (new_session plain_config ''r'' True None None);
       g = ss_iceGeneration (fst start);
       r = run session_event_step (fst start) (map (Pair still_env) (failing_rounds g [1000, 2000, 4000] [''refused'', ''busy'', ''late'']));
       last_answer = session_event_step (fst r) (still_env, IceAnswered g [] (Inl ''gone''))
   in snd start @ snd r =
        [SigGetIceServers, WaitMs 1000, SigGetIceServers, WaitMs 2000, SigGetIceServers, WaitMs 4000, SigGetIceServers] \<and>
      \<not> isInactive (fst r) \<and> failed_with ''ICE_SERVER_FETCH_FAILED'' ''gone'' (fst last_answer)"
  by (rule ice_fetch_gives_up) (simp add: new_session_def isInactive_def Let_def)

section \<open>The permission query outlives the session\<close>

lemma permissions_reopen:
  assumes "KPermissions n \<in> set (ss_pending s)"
  shows "st_phase (ss_state (fst (session_event_step s (env, PermissionsAnswered n Prompt Prompt)))) = AwaitingPermissions \<and>
    list_ex (\<lambda>e. case e of NotifyHost _ \<Rightarrow> True | _ \<Rightarrow> False)
      (snd (session_event_step s (env, PermissionsAnswered n Prompt Prompt)))"
  using assms
  by (simp add: session_event_step_def permissions_answered_def capabilities_that_are_def resume_def
      require_permissions_def notifyListeners_def act_simps)

definition joined_alone :: session_event where
  "joined_alone = FromProvider (EvJoined \<lparr> je_peerId = ''me'', je_participants = [], je_hostPeerId = None, je_maxParticipants = None \<rparr>)"

lemma query_open:
  "KPermissions True \<in> set (ss_pending (fst (session_after plain_config ''r'' True None None
     [(still_env, joined_alone), (still_env, HDestroy)])))"
  by code_simp

text \<open>The answer of the permission query is not guarded: a session that is destroyed while the query is open
  still publishes the phase that awaits permissions when the answer arrives.\<close>

theorem permissions_reopen_destroyed_session:
  "let s = fst (session_after plain_config ''r'' True None None [(still_env, joined_alone), (still_env, HDestroy)]);
       r = session_event_step s (still_env, PermissionsAnswered True Prompt Prompt)
   in ss_destroyed s \<and> st_phase (ss_state (fst r)) = AwaitingPermissions \<and>
      list_ex (\<lambda>e. case e of NotifyHost _ \<Rightarrow> True | _ \<Rightarrow> False) (snd r)"
  using permissions_reopen [OF query_open, of still_env]
    destroyed_after_over [of plain_config "''r''" True None None "[(still_env, joined_alone)]" still_env]
  by (simp add: Let_def)

end
