(* ===== verification/Browser_Basics.thy ===== *)
theory Browser_Basics
  imports Prelude
begin

text \<open>
  What several components use of the browser: searching in strings, the answers of \<open>fetch\<close>, and the promises that a
  component makes around callbacks and a timer. Such a promise settles once: the first callback wins, the later ones
  find it settled, and the timer makes sure that there is a first one. The locale \<open>settles_once\<close> is that contract.
\<close>

section \<open>Strings\<close>

definition starts_with :: "string \<Rightarrow> string \<Rightarrow> bool" where
  "starts_with prefix s = (take (length prefix) s = prefix)"

fun contains :: "string \<Rightarrow> string \<Rightarrow> bool" where
  "contains w [] = (w = [])"
| "contains w (c # s) = (take (length w) (c # s) = w \<or> contains w s)"

lemma starts_with_append [simp]: "starts_with p (p @ s)"
  by (simp add: starts_with_def)

lemma contains_iff: "contains w s \<longleftrightarrow> (\<exists>a b. s = a @ w @ b)"
proof (induction s)
  case (Cons c s)
  have "take (length w) (c # s) = w \<longleftrightarrow> (\<exists>b. c # s = w @ b)"
    by (metis append_eq_conv_conj append_take_drop_id)
  moreover have "contains w s \<longleftrightarrow> (\<exists>a b. c # s = (c # a) @ w @ b)" using Cons.IH by simp
  ultimately show ?case by (auto simp: Cons_eq_append_conv)
qed auto

section \<open>Answers of \<open>fetch\<close>\<close>

text \<open>A request fails with a message, or it is answered with a status and a body that may not be JSON.\<close>

datatype fetch_answer = NoAnswer string | Answer int "json option"

definition answer_ok :: "int \<Rightarrow> bool" where
  "answer_ok status = (200 \<le> status \<and> status \<le> 299)"

section \<open>States and balances of statements\<close>

lemma fst_thenS: "fst (thenS a b s) = fst (b (fst (a s)))"
  by (simp add: thenS_def Let_def)

lemma fst_seqS: "fst (seqS [] s) = s" "fst (seqS (a # as) s) = fst (seqS as (fst (a s)))"
  by (simp_all add: skipS_def fst_thenS)

lemma fst_basic:
  "fst (skipS s) = s" "fst (upd f s) = f s" "fst (out g s) = s" "fst (letS e k s) = fst (k (e s) s)"
  "fst (ifS c a b s) = (if c s then fst (a s) else fst (b s))" "fst (whenS c a s) = (if c s then fst (a s) else s)"
  by (simp_all add: act_simps)

lemma fst_branch:
  "fst ((if test then a else b) s) = (if test then fst (a s) else fst (b s))"
  "fst ((case x of None \<Rightarrow> a | Some y \<Rightarrow> f y) s) = (case x of None \<Rightarrow> fst (a s) | Some y \<Rightarrow> fst (f y s))"
  by (simp_all split: option.split)

lemmas fst_acts = fst_thenS fst_seqS fst_basic

text \<open>What a state holds and what the effects gain and lose are in balance.\<close>

definition in_balance :: "('s \<Rightarrow> nat) \<Rightarrow> ('o \<Rightarrow> nat) \<Rightarrow> ('o \<Rightarrow> nat) \<Rightarrow> ('s, 'o) act \<Rightarrow> bool" where
  "in_balance held gain loss a \<longleftrightarrow>
     (\<forall>s. held s + sum_list (map gain (snd (a s))) = held (fst (a s)) + sum_list (map loss (snd (a s))))"

named_theorems balances \<open>in_balance statements\<close>

definition in_balance_at :: "('s \<Rightarrow> nat) \<Rightarrow> ('o \<Rightarrow> nat) \<Rightarrow> ('o \<Rightarrow> nat) \<Rightarrow> ('s, 'o) act \<Rightarrow> 's \<Rightarrow> bool" where
  "in_balance_at held gain loss a s \<longleftrightarrow>
     held s + sum_list (map gain (snd (a s))) = held (fst (a s)) + sum_list (map loss (snd (a s)))"

lemma in_balance_at_then:
  "in_balance_at held gain loss a s \<Longrightarrow> in_balance_at held gain loss b (fst (a s)) \<Longrightarrow> in_balance_at held gain loss (thenS a b) s"
  by (simp add: in_balance_at_def thenS_def Let_def)

lemma in_balance_at_seq:
  "in_balance_at held gain loss (seqS []) s"
  "in_balance_at held gain loss a s \<Longrightarrow> in_balance_at held gain loss (seqS as) (fst (a s)) \<Longrightarrow>
   in_balance_at held gain loss (seqS (a # as)) s"
  by (simp add: in_balance_at_def skipS_def) (simp add: in_balance_at_then)

lemma in_balance_at_let: "in_balance_at held gain loss (k (e s)) s \<Longrightarrow> in_balance_at held gain loss (letS e k) s"
  by (simp add: in_balance_at_def letS_def)

lemma in_balance_atI: "in_balance held gain loss a \<Longrightarrow> in_balance_at held gain loss a s"
  by (simp add: in_balance_def in_balance_at_def)

lemma in_balanceD:
  "in_balance held gain loss a \<Longrightarrow>
   held s + sum_list (map gain (snd (a s))) = held (fst (a s)) + sum_list (map loss (snd (a s)))"
  by (simp add: in_balance_def)

lemma in_balance_skip [balances]: "in_balance held gain loss skipS"
  by (simp add: in_balance_def skipS_def)

lemma in_balance_upd: "(\<And>s. held (f s) = held s) \<Longrightarrow> in_balance held gain loss (upd f)"
  by (simp add: in_balance_def upd_def)

lemma in_balance_out: "(\<And>s. gain (f s) = loss (f s)) \<Longrightarrow> in_balance held gain loss (out f)"
  by (simp add: in_balance_def out_def)

lemma in_balance_then [balances]:
  assumes "in_balance held gain loss a" and "in_balance held gain loss b"
  shows "in_balance held gain loss (thenS a b)"
  unfolding in_balance_def
proof
  fix s
  show "held s + sum_list (map gain (snd (thenS a b s))) = held (fst (thenS a b s)) + sum_list (map loss (snd (thenS a b s)))"
    using in_balanceD [OF assms(1), of s] in_balanceD [OF assms(2), of "fst (a s)"] by (simp add: thenS_def Let_def)
qed

lemma in_balance_seq [balances]: "(\<And>a. a \<in> set as \<Longrightarrow> in_balance held gain loss a) \<Longrightarrow> in_balance held gain loss (seqS as)"
  by (induction as) (auto intro: in_balance_then in_balance_skip)

lemma in_balance_if [balances]: "in_balance held gain loss a \<Longrightarrow> in_balance held gain loss b \<Longrightarrow> in_balance held gain loss (ifS c a b)"
  by (simp add: in_balance_def ifS_def)

lemma in_balance_when [balances]: "in_balance held gain loss a \<Longrightarrow> in_balance held gain loss (whenS c a)"
  by (simp add: whenS_def in_balance_if in_balance_skip)

lemma in_balance_let [balances]: "(\<And>x. in_balance held gain loss (k x)) \<Longrightarrow> in_balance held gain loss (letS e k)"
  by (simp add: in_balance_def letS_def)

lemma in_balance_cond [balances]: "(c \<Longrightarrow> in_balance held gain loss a) \<Longrightarrow> (\<not> c \<Longrightarrow> in_balance held gain loss b) \<Longrightarrow>
  in_balance held gain loss (if c then a else b)"
  by simp

lemma run_balanced:
  "(\<And>e. in_balance held gain loss (\<lambda>s. step s e)) \<Longrightarrow>
   held s + sum_list (map gain (snd (run step s es))) = held (fst (run step s es)) + sum_list (map loss (snd (run step s es)))"
proof (induction es arbitrary: s)
  case (Cons e es)
  show ?case
    using in_balanceD [OF Cons.prems, of s e] Cons.IH [OF Cons.prems, of "fst (step s e)"] by (simp add: Let_def)
qed simp

section \<open>Promises that settle once\<close>

locale settles_once = reactive step inv
  for step :: "'s \<Rightarrow> 'e \<Rightarrow> 's \<times> 'o list" and inv :: "'s \<Rightarrow> bool" +
  fixes result :: "'s \<Rightarrow> 'r option" and expire :: 'e and releases :: "'o \<Rightarrow> bool"
  assumes result_kept: "inv s \<Longrightarrow> result s = Some r \<Longrightarrow> result (fst (step s e)) = Some r"
    and expire_settles: "inv s \<Longrightarrow> result (fst (step s expire)) \<noteq> None"
    and released: "inv s \<Longrightarrow> length (filter releases (snd (step s e))) =
      (if result s = None \<and> result (fst (step s e)) \<noteq> None then 1 else 0)"
begin

lemma run_result_kept: "inv s \<Longrightarrow> result s = Some r \<Longrightarrow> result (fst (run step s es)) = Some r"
  by (induction es arbitrary: s) (simp_all add: Let_def step_inv result_kept)

lemma result_final: "inv s \<Longrightarrow> result (fst (run step s es)) = Some r \<Longrightarrow> result (fst (run step s (es @ fs))) = Some r"
  by (simp add: run_append Let_def run_result_kept run_inv)

lemma expired: "inv s \<Longrightarrow> expire \<in> set es \<Longrightarrow> \<exists>r. result (fst (run step s es)) = Some r"
proof (induction es arbitrary: s)
  case (Cons e es)
  show ?case
  proof (cases "e = expire")
    case True
    then obtain r where "result (fst (step s e)) = Some r" using expire_settles [OF Cons.prems(1)] by auto
    then show ?thesis using run_result_kept [OF step_inv [OF Cons.prems(1)]] by (auto simp: Let_def)
  next
    case False
    then show ?thesis using Cons.IH [OF step_inv [OF Cons.prems(1)]] Cons.prems(2) by (auto simp: Let_def)
  qed
qed simp

lemma settled_after_expire: "inv s \<Longrightarrow> \<exists>r. \<forall>fs. result (fst (run step s (es @ expire # fs))) = Some r"
proof -
  assume inv: "inv s"
  obtain r where "result (fst (run step s (es @ [expire]))) = Some r" using expired [OF inv, of "es @ [expire]"] by auto
  then have "result (fst (run step s ((es @ [expire]) @ fs))) = Some r" for fs by (rule result_final [OF inv])
  then show ?thesis by auto
qed

text \<open>What the promise holds - a socket, an element - is released exactly when it settles.\<close>

lemma released_once:
  "inv s \<Longrightarrow> length (filter releases (snd (run step s es))) =
     (if result s = None \<and> result (fst (run step s es)) \<noteq> None then 1 else 0)"
proof (induction es arbitrary: s)
  case (Cons e es)
  have step: "inv (fst (step s e))" using Cons.prems by (rule step_inv)
  show ?case
    using Cons.IH [OF step] released [OF Cons.prems, of e] result_kept [OF Cons.prems, of _ e] run_result_kept [OF step]
    by (cases "result s"; cases "result (fst (step s e))") (simp_all add: Let_def)
qed auto

end

end
