(* ===== verification/Stored_Data.thy ===== *)
theory Stored_Data
  imports Signaling_Engine Browser_Basics
begin

text \<open>
  What the clients keep in the storage of the browser: the list of saved rooms (\<^verbatim>\<open>src/client/src/utils/savedRooms.ts\<close>),
  the recent calls (\<^verbatim>\<open>callHistory.ts\<close>), the display name (\<^verbatim>\<open>displayName.ts\<close>), how remote video is fitted
  (\<^verbatim>\<open>src/client/packages/react-ui/src/utils/remoteVideoFit.ts\<close>), and the record that allows a reloaded page to rejoin its
  call (\<^verbatim>\<open>src/client/packages/core/src/recoveryStorage.ts\<close>).

  An item of the storage is what \<open>JSON.parse\<close> makes of its text. Reading the storage can throw, and so can writing,
  depending on what is written: both are inputs of an operation, with the clock. The parser of URLs is a parameter.
\<close>

section \<open>Items of the storage\<close>

text \<open>No text stands for a missing or empty item.\<close>

datatype stored = NoText | Unparsable | Parsed json

datatype write_outcome = Written | QuotaExceeded | WriteFailed

record url_parts =
  ur_hostname :: string
  ur_username :: string
  ur_password :: string
  ur_search :: string
  ur_hash :: string
  ur_pathname :: string
  ur_port :: string

record storage_env =
  sv_readable :: bool
  sv_write :: "json \<Rightarrow> write_outcome"
  sv_now :: rat
  sv_url :: "string \<Rightarrow> url_parts option"

text \<open>\<open>JSON.stringify\<close> writes numbers that are not finite as \<open>null\<close>.\<close>

fun written :: "json \<Rightarrow> json" where
  "written (JNum n) = (if js_is_finite n then JNum n else JNull)"
| "written (JArr xs) = JArr (map written xs)"
| "written (JObj kvs) = JObj (map (\<lambda>kv. (fst kv, written (snd kv))) kvs)"
| "written v = v"

text \<open>\<open>setItem\<close>: the new item and whether it threw.\<close>

definition set_item :: "storage_env \<Rightarrow> json \<Rightarrow> stored \<Rightarrow> stored \<times> write_outcome" where
  "set_item env v st = (if sv_write env (written v) = Written then (Parsed (written v), Written) else (st, sv_write env (written v)))"

lemma written_finite: "js_is_finite n \<Longrightarrow> written (JNum n) = JNum n"
  by simp

section \<open>Room ids\<close>

definition is_id_char :: "char \<Rightarrow> bool" where
  "is_id_char c = (let n = (of_char c :: nat) in
     (65 \<le> n \<and> n \<le> 90) \<or> (97 \<le> n \<and> n \<le> 122) \<or> (48 \<le> n \<and> n \<le> 57) \<or> n = 95 \<or> n = 45)"

definition isValidRoomId :: "string \<Rightarrow> bool" where
  "isValidRoomId roomId = (length roomId = 27 \<and> list_all is_id_char roomId)"

definition is_hex_char :: "char \<Rightarrow> bool" where
  "is_hex_char c = (let n = (of_char c :: nat) in (97 \<le> n \<and> n \<le> 102) \<or> (65 \<le> n \<and> n \<le> 70) \<or> (48 \<le> n \<and> n \<le> 57))"

definition isLegacyRoomId :: "string \<Rightarrow> bool" where
  "isLegacyRoomId roomId =
     (map length (split_on (CHR ''-'') roomId) = [8, 4, 4, 4, 12] \<and>
      list_all (list_all is_hex_char) (split_on (CHR ''-'') roomId))"

text \<open>What \<open>RegExp.test\<close> makes of a value that is not a string: an array of one element is the text of the element; the
  texts of the others have no form that the patterns accept.\<close>

fun id_text :: "json option \<Rightarrow> string option" where
  "id_text (Some (JStr s)) = Some s"
| "id_text (Some (JArr [v])) = id_text (Some v)"
| "id_text _ = None"

definition id_matches :: "(string \<Rightarrow> bool) \<Rightarrow> json option \<Rightarrow> bool" where
  "id_matches pattern v = (case id_text v of Some s \<Rightarrow> pattern s | None \<Rightarrow> False)"

section \<open>Saved rooms\<close>

record saved_room =
  sr_roomId :: string
  sr_name :: string
  sr_createdAt :: jsnum
  sr_host :: "string option"
  sr_lastJoinedAt :: "jsnum option"

datatype save_result = SaveOk | SaveQuotaExceeded | SaveError | SaveInvalidInput

definition MAX_SAVED_ROOMS :: nat where "MAX_SAVED_ROOMS = 50"
definition MAX_ROOM_NAME_LENGTH :: nat where "MAX_ROOM_NAME_LENGTH = 120"

definition normalizeName :: "string \<Rightarrow> string option" where
  "normalizeName name = (if js_trim name = [] then None else Some (take MAX_ROOM_NAME_LENGTH (js_trim name)))"

text \<open>\<open>parseInt(s, 10)\<close>, with \<open>None\<close> for NaN.\<close>

definition parse_int :: "string \<Rightarrow> int option" where
  "parse_int raw =
     (let s = dropWhile is_js_space raw;
          (sign, r) = (case s of [] \<Rightarrow> (1, s) | c # t \<Rightarrow> if c = CHR ''-'' then (- 1, t) else if c = CHR ''+'' then (1, t) else (1, s));
          ds = takeWhile is_digit r
      in if ds = [] then None else Some (sign * int (digits_value ds)))"

definition port_suffix :: "string \<Rightarrow> string \<Rightarrow> string option" where
  "port_suffix host portStr =
     (if portStr = [] then Some host
      else case parse_int portStr of
        None \<Rightarrow> None
      | Some port \<Rightarrow> if port \<le> 0 \<or> 65535 < port then None else Some (host @ CHR '':'' # decimal (nat port)))"

definition normalizeHost :: "(string \<Rightarrow> url_parts option) \<Rightarrow> string option \<Rightarrow> string option" where
  "normalizeHost parse_url hostInput =
     (case hostInput of
        None \<Rightarrow> None
      | Some input \<Rightarrow>
          let raw = js_trim input;
              withScheme = (if \<not> starts_with ''http://'' raw \<and> \<not> starts_with ''https://'' raw then ''https://'' @ raw else raw)
          in if raw = [] then None
             else case parse_url withScheme of
               None \<Rightarrow> None
             | Some url \<Rightarrow>
                 let host = js_lower (js_trim (ur_hostname url)) in
                 if host = [] then None
                 else if ur_username url \<noteq> [] \<or> ur_password url \<noteq> [] \<or> ur_search url \<noteq> [] \<or> ur_hash url \<noteq> [] then None
                 else if ur_pathname url \<noteq> [] \<and> ur_pathname url \<noteq> ''/'' then None
                 else port_suffix host (ur_port url))"

text \<open>One entry of the stored list: \<open>None\<close> when it throws, \<open>Some None\<close> when it is skipped. A member that is used as a
  string and is neither falsy nor a string throws.\<close>

definition text_member :: "json option \<Rightarrow> string option option" where
  "text_member v = (case v of Some (JStr s) \<Rightarrow> Some (Some s) | _ \<Rightarrow> if json_truthy v then None else Some None)"

definition stored_date :: "storage_env \<Rightarrow> json option \<Rightarrow> jsnum" where
  "stored_date env v = (case as_number v of Some n \<Rightarrow> js_max (Fin 1) n | None \<Rightarrow> Fin (sv_now env))"

definition stored_join :: "json option \<Rightarrow> jsnum option" where
  "stored_join v = (case as_number v of Some n \<Rightarrow> if js_lt (Fin 0) n then Some n else None | None \<Rightarrow> None)"

definition read_room :: "storage_env \<Rightarrow> string set \<Rightarrow> json \<Rightarrow> saved_room option option" where
  "read_room env seen item =
     (case as_string (field (Some item) ''roomId'') of
        None \<Rightarrow> Some None
      | Some roomId \<Rightarrow>
          if \<not> isValidRoomId roomId \<or> roomId \<in> seen then Some None
          else case text_member (field (Some item) ''name'') of
            None \<Rightarrow> None
          | Some name \<Rightarrow>
              (case normalizeName (default [] name) of
                 None \<Rightarrow> Some None
               | Some clean \<Rightarrow>
                   (case text_member (field (Some item) ''host'') of
                      None \<Rightarrow> None
                    | Some host \<Rightarrow> Some (Some
                        \<lparr> sr_roomId = roomId, sr_name = clean, sr_createdAt = stored_date env (field (Some item) ''createdAt''),
                          sr_host = normalizeHost (sv_url env) host,
                          sr_lastJoinedAt = stored_join (field (Some item) ''lastJoinedAt'') \<rparr>))))"

fun read_rooms :: "storage_env \<Rightarrow> json list \<Rightarrow> saved_room list \<Rightarrow> saved_room list option" where
  "read_rooms env [] rooms = Some rooms"
| "read_rooms env (item # items) rooms =
     (case read_room env (set (map sr_roomId rooms)) item of
        None \<Rightarrow> None
      | Some None \<Rightarrow> read_rooms env items rooms
      | Some (Some room) \<Rightarrow>
          if length (rooms @ [room]) \<ge> MAX_SAVED_ROOMS then Some (rooms @ [room])
          else read_rooms env items (rooms @ [room]))"

definition room_json :: "saved_room \<Rightarrow> json" where
  "room_json r =
     JObj ([(''roomId'', JStr (sr_roomId r)), (''name'', JStr (sr_name r)), (''createdAt'', JNum (sr_createdAt r))] @
       opt_member ''host'' JStr (sr_host r) @ opt_member ''lastJoinedAt'' JNum (sr_lastJoinedAt r))"

definition rooms_json :: "saved_room list \<Rightarrow> json" where
  "rooms_json rooms = JArr (map room_json rooms)"

definition getSavedRooms :: "storage_env \<Rightarrow> stored \<Rightarrow> stored \<times> saved_room list" where
  "getSavedRooms env st =
     (if \<not> sv_readable env then (st, [])
      else case st of
        Parsed (JArr items) \<Rightarrow>
          (case read_rooms env items [] of
             None \<Rightarrow> (st, [])
           | Some rooms \<Rightarrow>
               if length rooms = length items then (st, rooms)
               else (case set_item env (rooms_json rooms) st of
                       (st', Written) \<Rightarrow> (st', rooms)
                     | (st', _) \<Rightarrow> (st', [])))
      | _ \<Rightarrow> (st, []))"

definition truthy_date :: "jsnum option \<Rightarrow> jsnum option" where
  "truthy_date d = (case d of Some n \<Rightarrow> if js_truthy n then Some n else None | None \<Rightarrow> None)"

text \<open>The room that is stored: the entry given, with the last join of the entry it replaces if it has none.\<close>

definition new_saved_room :: "storage_env \<Rightarrow> saved_room \<Rightarrow> string \<Rightarrow> saved_room list \<Rightarrow> saved_room" where
  "new_saved_room env room cleanName rooms =
     \<lparr> sr_roomId = sr_roomId room, sr_name = cleanName, sr_createdAt = js_max (Fin 1) (sr_createdAt room),
       sr_host = normalizeHost (sv_url env) (sr_host room),
       sr_lastJoinedAt =
         truthy_date (coalesce (truthy_date (sr_lastJoinedAt room))
           (Option.bind (find (\<lambda>r. sr_roomId r = sr_roomId room) rooms) sr_lastJoinedAt)) \<rparr>"

definition other_rooms :: "string \<Rightarrow> saved_room list \<Rightarrow> saved_room list" where
  "other_rooms roomId rooms = filter (\<lambda>r. sr_roomId r \<noteq> roomId) rooms"

definition saveRoom :: "storage_env \<Rightarrow> saved_room \<Rightarrow> stored \<Rightarrow> stored \<times> save_result" where
  "saveRoom env room st =
     (if \<not> isValidRoomId (sr_roomId room) then (st, SaveInvalidInput)
      else case normalizeName (sr_name room) of
        None \<Rightarrow> (st, SaveInvalidInput)
      | Some cleanName \<Rightarrow>
          let (st1, rooms) = getSavedRooms env st;
              newest = take MAX_SAVED_ROOMS (new_saved_room env room cleanName rooms # other_rooms (sr_roomId room) rooms)
          in (case set_item env (rooms_json newest) st1 of
                (st2, Written) \<Rightarrow> (st2, SaveOk)
              | (st2, QuotaExceeded) \<Rightarrow> (st2, SaveQuotaExceeded)
              | (st2, WriteFailed) \<Rightarrow> (st2, SaveError)))"

definition removeRoom :: "storage_env \<Rightarrow> string \<Rightarrow> stored \<Rightarrow> stored" where
  "removeRoom env roomId st =
     (if is_blank roomId then st
      else let (st1, rooms) = getSavedRooms env st; filtered = other_rooms roomId rooms
           in if length rooms = length filtered then st1 else fst (set_item env (rooms_json filtered) st1))"

definition markRoomJoined :: "storage_env \<Rightarrow> string \<Rightarrow> jsnum \<Rightarrow> stored \<Rightarrow> stored \<times> bool" where
  "markRoomJoined env roomId joinedAt st =
     (if is_blank roomId then (st, False)
      else let (st1, rooms) = getSavedRooms env st; cleanJoinedAt = js_max (Fin 1) joinedAt in
        (case index_of (map sr_roomId rooms) roomId of
           None \<Rightarrow> (st1, False)
         | Some i \<Rightarrow>
             if (case sr_lastJoinedAt (rooms ! i) of Some n \<Rightarrow> js_eq n cleanJoinedAt | None \<Rightarrow> False) then (st1, False)
             else (case set_item env (rooms_json (rooms[i := (rooms ! i)\<lparr> sr_lastJoinedAt := Some cleanJoinedAt \<rparr>])) st1 of
                     (st2, Written) \<Rightarrow> (st2, True) | (st2, _) \<Rightarrow> (st2, False))))"

section \<open>Recent calls\<close>

record recent_call =
  rc_roomId :: string
  rc_startTime :: jsnum
  rc_duration :: jsnum

definition MAX_RECENT_CALLS :: nat where "MAX_RECENT_CALLS = 3"

definition call_json :: "recent_call \<Rightarrow> json" where
  "call_json c = JObj [(''roomId'', JStr (rc_roomId c)), (''startTime'', JNum (rc_startTime c)), (''duration'', JNum (rc_duration c))]"

text \<open>The parsed history, \<open>None\<close> if parsing throws. Filtering a value that is not an array throws, and so does reading a
  member of a \<open>null\<close> entry.\<close>

definition parsed_history :: "stored \<Rightarrow> json option" where
  "parsed_history st = (case st of NoText \<Rightarrow> Some (JArr []) | Unparsable \<Rightarrow> None | Parsed v \<Rightarrow> Some v)"

definition filter_history :: "(json option \<Rightarrow> bool) \<Rightarrow> json \<Rightarrow> json list option" where
  "filter_history keep history =
     (case history of
        JArr items \<Rightarrow> if JNull \<in> set items then None else Some (filter (\<lambda>v. keep (field (Some v) ''roomId'')) items)
      | _ \<Rightarrow> None)"

definition saveCall :: "storage_env \<Rightarrow> recent_call \<Rightarrow> stored \<Rightarrow> stored" where
  "saveCall env call st =
     (if \<not> isValidRoomId (rc_roomId call) \<or> \<not> sv_readable env then st
      else case Option.bind (parsed_history st) (filter_history (\<lambda>v. v \<noteq> Some (JStr (rc_roomId call)))) of
        None \<Rightarrow> st
      | Some others \<Rightarrow> fst (set_item env (JArr (take MAX_RECENT_CALLS (call_json call # others))) st))"

definition history_items :: "json \<Rightarrow> json list" where
  "history_items history = (case history of JArr items \<Rightarrow> items | _ \<Rightarrow> [])"

definition getRecentCalls :: "storage_env \<Rightarrow> stored \<Rightarrow> stored \<times> json list" where
  "getRecentCalls env st =
     (if \<not> sv_readable env then (st, [])
      else case parsed_history st of
        None \<Rightarrow> (st, [])
      | Some history \<Rightarrow>
          (case filter_history (id_matches isValidRoomId) history of
             None \<Rightarrow> (st, [])
           | Some filtered \<Rightarrow>
               if length filtered \<noteq> length (history_items history) \<or>
                  list_ex (\<lambda>v. id_matches isLegacyRoomId (field (Some v) ''roomId'')) (history_items history)
               then (case set_item env (JArr filtered) st of
                       (st', Written) \<Rightarrow> (st', filtered) | (st', _) \<Rightarrow> (st', []))
               else (st, filtered)))"

definition removeRecentCall :: "storage_env \<Rightarrow> string \<Rightarrow> stored \<Rightarrow> stored" where
  "removeRecentCall env roomId st =
     (if \<not> sv_readable env \<or> st = NoText then st
      else case Option.bind (parsed_history st) (filter_history (\<lambda>v. v \<noteq> Some (JStr roomId))) of
        None \<Rightarrow> st
      | Some filtered \<Rightarrow> fst (set_item env (JArr filtered) st))"

section \<open>Preferences\<close>

text \<open>An item that is kept as text: \<open>None\<close> when it is missing.\<close>

definition getDisplayName :: "bool \<Rightarrow> string option \<Rightarrow> string" where
  "getDisplayName readable item = (if readable then js_trim (default [] item) else [])"

definition setDisplayName :: "bool \<Rightarrow> string \<Rightarrow> string option \<Rightarrow> string option" where
  "setDisplayName writable name item =
     (if \<not> writable then item else if js_trim name \<noteq> [] then Some (js_trim name) else None)"

datatype video_fit = CoverFit | ContainFit

fun fit_text :: "video_fit \<Rightarrow> string" where
  "fit_text CoverFit = ''cover''"
| "fit_text ContainFit = ''contain''"

definition getPersistedRemoteVideoFit :: "bool \<Rightarrow> video_fit \<Rightarrow> string option \<Rightarrow> video_fit" where
  "getPersistedRemoteVideoFit readable defaultValue item =
     (if readable \<and> item = Some ''cover'' then CoverFit
      else if readable \<and> item = Some ''contain'' then ContainFit else defaultValue)"

definition persistRemoteVideoFit :: "bool \<Rightarrow> video_fit \<Rightarrow> string option \<Rightarrow> string option" where
  "persistRemoteVideoFit writable fit item = (if writable then Some (fit_text fit) else item)"

section \<open>The recovery record\<close>

definition recovery_json :: "recovery_record \<Rightarrow> json" where
  "recovery_json r =
     JObj [(''roomId'', JStr (rec_roomId r)), (''cid'', JStr (rec_cid r)), (''reconnectToken'', JStr (rec_reconnectToken r)),
           (''lastEpoch'', case rec_lastEpoch r of Some n \<Rightarrow> JNum n | None \<Rightarrow> JNull),
           (''sessionStartTs'', JNum (Fin (rec_sessionStartTs r))), (''expiresAtMs'', JNum (rec_expiresAtMs r))]"

definition store_recovery :: "storage_env \<Rightarrow> recovery_record \<Rightarrow> stored \<Rightarrow> stored" where
  "store_recovery env r st = fst (set_item env (recovery_json r) st)"

text \<open>A loaded record: the start of the session can be any number.\<close>

record loaded_record =
  ld_roomId :: string
  ld_cid :: string
  ld_reconnectToken :: string
  ld_lastEpoch :: "jsnum option"
  ld_sessionStartTs :: jsnum
  ld_expiresAtMs :: jsnum

definition recovery_of_json :: "json \<Rightarrow> loaded_record option" where
  "recovery_of_json v =
     (case (as_string (field (Some v) ''roomId''), as_string (field (Some v) ''cid''),
            as_string (field (Some v) ''reconnectToken''), as_number (field (Some v) ''sessionStartTs''),
            as_number (field (Some v) ''expiresAtMs'')) of
        (Some roomId, Some cid, Some token, Some start, Some expires) \<Rightarrow>
          Some \<lparr> ld_roomId = roomId, ld_cid = cid, ld_reconnectToken = token,
                 ld_lastEpoch = as_number (field (Some v) ''lastEpoch''), ld_sessionStartTs = start,
                 ld_expiresAtMs = expires \<rparr>
      | _ \<Rightarrow> None)"

text \<open>Whether removing the item succeeds is an input, too.\<close>

definition loadRecoveryRecord :: "storage_env \<Rightarrow> bool \<Rightarrow> stored \<Rightarrow> stored \<times> loaded_record option" where
  "loadRecoveryRecord env removable st =
     (let removed = (if removable then NoText else st) in
      if \<not> sv_readable env then (removed, None)
      else case st of
        NoText \<Rightarrow> (st, None)
      | Unparsable \<Rightarrow> (removed, None)
      | Parsed v \<Rightarrow>
          (case recovery_of_json v of
             None \<Rightarrow> (removed, None)
           | Some r \<Rightarrow> if js_lt (ld_expiresAtMs r) (Fin (sv_now env)) then (removed, None) else (st, Some r)))"

end
