(* ===== verification/Stored_Data_Claims.thy ===== *)
theory Stored_Data_Claims
  imports Stored_Data
begin

text \<open>
  Properties of the stored data: what is saved is read back, the lists stay small and free of duplicates, an expired call
  is not offered again; and what a failing write and a damaged item do.
\<close>

section \<open>Texts\<close>

lemma trim_front: "dropWhile is_js_space (js_trim s) = js_trim s"
proof (cases "js_trim s")
  case (Cons c t)
  have "set (js_trim s) \<subseteq> set (dropWhile is_js_space s)"
    unfolding js_trim_def by (metis set_dropWhileD set_rev subsetI)
  have "\<exists>u. dropWhile is_js_space s = js_trim s @ u"
    unfolding js_trim_def
    by (metis rev_append rev_rev_ident takeWhile_dropWhile_id)
  then obtain u where "dropWhile is_js_space s = c # t @ u" using Cons by auto
  then have "\<not> is_js_space c" by (metis hd_dropWhile list.distinct(1) list.sel(1))
  then show ?thesis by (simp add: Cons)
qed simp

lemma trim_trim [simp]: "js_trim (js_trim s) = js_trim s"
  by (simp add: js_trim_def [of "js_trim s"] trim_front) (simp add: js_trim_def dropWhile_idem)

lemma take_trim:
  assumes "js_trim s \<noteq> []" and "0 < n"
  shows "js_trim (take n (js_trim s)) \<noteq> []"
proof -
  obtain c t where t: "js_trim s = c # t" using assms(1) by (cases "js_trim s") auto
  then have c: "\<not> is_js_space c"
    using hd_dropWhile [of is_js_space "js_trim s"] trim_front [of s] by simp
  have "c \<in> set (take n (js_trim s))" using assms(2) t by (cases n) auto
  then have "\<not> is_blank (take n (js_trim s))" using c by (auto simp: is_blank_iff list_all_iff)
  then show ?thesis by (simp add: is_blank_def)
qed

section \<open>Saved rooms\<close>

text \<open>A room as it is read back after it was written: the name is trimmed again, which matters when it was cut after a
  space; numbers that are not finite were written as \<open>null\<close>; a last join counts only when it is positive.\<close>

definition reread :: "storage_env \<Rightarrow> saved_room \<Rightarrow> saved_room" where
  "reread env r =
     \<lparr> sr_roomId = sr_roomId r, sr_name = take MAX_ROOM_NAME_LENGTH (js_trim (sr_name r)),
       sr_createdAt = (if js_is_finite (sr_createdAt r) then js_max (Fin 1) (sr_createdAt r) else Fin (sv_now env)),
       sr_host = normalizeHost (sv_url env) (sr_host r),
       sr_lastJoinedAt = Option.bind (sr_lastJoinedAt r) (\<lambda>n. if js_is_finite n \<and> js_lt (Fin 0) n then Some n else None) \<rparr>"

definition room_ok :: "saved_room \<Rightarrow> bool" where
  "room_ok r = (isValidRoomId (sr_roomId r) \<and> js_trim (sr_name r) \<noteq> [] \<and> length (sr_name r) \<le> MAX_ROOM_NAME_LENGTH)"

definition rooms_ok :: "saved_room list \<Rightarrow> bool" where
  "rooms_ok rooms = (distinct (map sr_roomId rooms) \<and> length rooms \<le> MAX_SAVED_ROOMS \<and> list_all room_ok rooms)"

lemma map_of_written: "map_of (map (\<lambda>kv. (fst kv, written (snd kv))) kvs) k = map_option written (map_of kvs k)"
  by (induction kvs) auto

lemma field_written [simp]: "field (Some (written v)) k = map_option written (field (Some v) k)"
  by (cases v) (auto simp: field_def map_of_written)

lemma room_fields [simp]:
  "field (Some (room_json r)) ''roomId'' = Some (JStr (sr_roomId r))"
  "field (Some (room_json r)) ''name'' = Some (JStr (sr_name r))"
  "field (Some (room_json r)) ''createdAt'' = Some (JNum (sr_createdAt r))"
  "field (Some (room_json r)) ''host'' = map_option JStr (sr_host r)"
  "field (Some (room_json r)) ''lastJoinedAt'' = map_option JNum (sr_lastJoinedAt r)"
  by (simp_all add: room_json_def)

lemma name_ok: "normalizeName n = Some m \<Longrightarrow> js_trim m \<noteq> [] \<and> length m \<le> MAX_ROOM_NAME_LENGTH"
  using take_trim [of n MAX_ROOM_NAME_LENGTH]
  by (auto simp: normalizeName_def MAX_ROOM_NAME_LENGTH_def split: if_splits)

lemma read_room_ok:
  "read_room env seen item = Some (Some room) \<Longrightarrow> room_ok room \<and> sr_roomId room \<notin> seen"
  by (auto simp: read_room_def room_ok_def dest: name_ok split: option.splits if_splits)

lemma read_written_room:
  "room_ok r \<Longrightarrow> sr_roomId r \<notin> seen \<Longrightarrow> read_room env seen (written (room_json r)) = Some (Some (reread env r))"
  by (cases "sr_host r"; cases "sr_lastJoinedAt r")
    (simp_all add: read_room_def room_ok_def reread_def text_member_def normalizeName_def stored_date_def stored_join_def
      normalizeHost_def)

lemma read_rooms_ok:
  assumes "read_rooms env items rooms = Some result" and "rooms_ok rooms" and "length rooms < MAX_SAVED_ROOMS"
  shows "rooms_ok result"
  using assms
proof (induction env items rooms rule: read_rooms.induct)
  case (2 env item items rooms)
  show ?case
  proof (cases "read_room env (set (map sr_roomId rooms)) item")
    case (Some found)
    show ?thesis
    proof (cases found)
      case (Some room)
      have "rooms_ok (rooms @ [room])"
        using "2.prems"(2,3) read_room_ok [of env "set (map sr_roomId rooms)" item room]
          \<open>read_room env _ item = Some found\<close> Some
        by (auto simp: rooms_ok_def)
      then show ?thesis using 2 Some \<open>read_room env _ item = Some found\<close> by (auto split: if_splits)
    qed (use 2 Some in auto)
  qed (use 2 in auto)
qed simp

lemma get_rooms_ok: "rooms_ok (snd (getSavedRooms env st))"
proof -
  have nil: "rooms_ok []" by (simp add: rooms_ok_def)
  have "read_rooms env items [] = Some rooms \<Longrightarrow> rooms_ok rooms" for items rooms
    using read_rooms_ok [of env items "[]" rooms] nil by (simp add: MAX_SAVED_ROOMS_def)
  then show ?thesis
    using nil by (auto simp: getSavedRooms_def split: stored.split json.split option.split prod.split write_outcome.split)
qed

lemma reread_id [simp]: "sr_roomId (reread env r) = sr_roomId r"
  by (simp add: reread_def)

lemma read_written_rooms:
  assumes "distinct (map sr_roomId (rooms @ rs))" and "length (rooms @ rs) \<le> MAX_SAVED_ROOMS" and "list_all room_ok rs"
  shows "read_rooms env (map (\<lambda>r. written (room_json r)) rs) rooms = Some (rooms @ map (reread env) rs)"
  using assms
proof (induction rs arbitrary: rooms)
  case (Cons r rs)
  have r: "read_room env (set (map sr_roomId rooms)) (written (room_json r)) = Some (Some (reread env r))"
    using Cons.prems by (intro read_written_room) auto
  show ?case
  proof (cases "rs = []")
    case False
    then have short: "\<not> MAX_SAVED_ROOMS \<le> length (rooms @ [reread env r])"
      using Cons.prems(2) by (cases rs) auto
    have "read_rooms env (map (\<lambda>r. written (room_json r)) rs) (rooms @ [reread env r]) =
        Some ((rooms @ [reread env r]) @ map (reread env) rs)"
      using Cons.prems by (intro Cons.IH) auto
    then show ?thesis using short r by simp
  qed (use r in simp)
qed simp

lemma other_rooms_ok:
  assumes "rooms_ok rooms" and "room_ok room" and "sr_roomId room = roomId"
  shows "rooms_ok (take MAX_SAVED_ROOMS (room # other_rooms roomId rooms))"
proof -
  have "distinct (map sr_roomId (room # other_rooms roomId rooms))"
    using assms by (auto simp: rooms_ok_def other_rooms_def distinct_map_filter)
  moreover have "list_all room_ok (room # other_rooms roomId rooms)"
    using assms by (auto simp: rooms_ok_def other_rooms_def list_all_iff)
  ultimately show ?thesis
    unfolding rooms_ok_def
    by (metis distinct_take length_take list_all_iff min.cobounded2 set_take_subset subsetD take_map)
qed

lemma read_rooms_written:
  assumes "rooms_ok rooms" and "sv_readable env"
  shows "getSavedRooms env (Parsed (written (rooms_json rooms))) = (Parsed (written (rooms_json rooms)), map (reread env) rooms)"
  using assms read_written_rooms [of "[]" rooms env]
  by (simp add: rooms_ok_def getSavedRooms_def rooms_json_def comp_def)

lemma reread_same:
  assumes "js_trim (sr_name r) = sr_name r" and "room_ok r" and "js_is_finite (sr_createdAt r)" and "js_le (Fin 1) (sr_createdAt r)"
    and "sr_host r = None" and "pred_option (\<lambda>n. js_is_finite n \<and> js_lt (Fin 0) n) (sr_lastJoinedAt r)"
  shows "reread env r = r"
  using assms by (cases "sr_createdAt r"; cases "sr_lastJoinedAt r") (auto simp: reread_def room_ok_def normalizeHost_def)

lemma saved_then_read:
  assumes "saveRoom env room st = (st', SaveOk)" and "sv_readable later"
  shows "\<exists>name. normalizeName (sr_name room) = Some name \<and>
    getSavedRooms later st' =
      (st', map (reread later)
        (take MAX_SAVED_ROOMS
          (new_saved_room env room name (snd (getSavedRooms env st)) #
           other_rooms (sr_roomId room) (snd (getSavedRooms env st)))))"
proof -
  obtain st1 rooms where get: "getSavedRooms env st = (st1, rooms)" by (cases "getSavedRooms env st")
  have valid: "isValidRoomId (sr_roomId room)" using assms(1) by (auto simp: saveRoom_def split: if_splits)
  obtain name where name: "normalizeName (sr_name room) = Some name"
    using assms(1) by (auto simp: saveRoom_def split: if_splits option.splits)
  define kept where "kept = take MAX_SAVED_ROOMS (new_saved_room env room name rooms # other_rooms (sr_roomId room) rooms)"
  have "rooms_ok rooms" using get_rooms_ok [of env st] get by simp
  moreover have "room_ok (new_saved_room env room name rooms)"
    using valid name_ok [OF name] by (simp add: room_ok_def new_saved_room_def)
  ultimately have ok: "rooms_ok kept"
    unfolding kept_def by (rule other_rooms_ok) (simp add: new_saved_room_def)
  have "st' = Parsed (written (rooms_json kept))"
    using assms(1) valid name get
    by (auto simp: saveRoom_def kept_def set_item_def Let_def split: if_splits prod.splits write_outcome.splits)
  then show ?thesis using read_rooms_written [OF ok assms(2)] name get by (simp add: kept_def)
qed

text \<open>A join date that counts.\<close>

fun past_join :: "jsnum option \<Rightarrow> jsnum option" where
  "past_join (Some (Fin j)) = (if 0 < j then Some (Fin j) else None)"
| "past_join _ = None"

lemma trimmed_name: "length s \<le> n \<Longrightarrow> take n (js_trim s) = js_trim s"
proof -
  have "length (js_trim s) \<le> length s"
    using length_dropWhile_le [of is_js_space "rev (dropWhile is_js_space s)"] length_dropWhile_le [of is_js_space s]
    by (simp add: js_trim_def)
  then show "length s \<le> n \<Longrightarrow> take n (js_trim s) = js_trim s" by simp
qed

lemma reread_join:
  assumes "sr_lastJoinedAt room = map_option Fin given"
  shows "sr_lastJoinedAt (reread later (new_saved_room env room name rooms)) =
    (case given of
       None \<Rightarrow> past_join (Option.bind (find (\<lambda>r. sr_roomId r = sr_roomId room) rooms) sr_lastJoinedAt)
     | Some j \<Rightarrow>
         if j = 0 then past_join (Option.bind (find (\<lambda>r. sr_roomId r = sr_roomId room) rooms) sr_lastJoinedAt)
         else past_join (Some (Fin j)))"
proof -
  have past: "Option.bind (truthy_date d) (\<lambda>n. if js_is_finite n \<and> js_lt (Fin 0) n then Some n else None) = past_join d"
    for d by (cases d rule: past_join.cases) (auto simp: truthy_date_def)
  have date: "truthy_date None = None" "truthy_date (Some (Fin j)) = (if j = 0 then None else Some (Fin j))" for j
    by (simp_all add: truthy_date_def)
  show ?thesis
    using assms by (cases given) (auto simp: reread_def new_saved_room_def past date)
qed

text \<open>C39: A saved room is read back. After a save that reports success, and at any later time, reading the storage changes
  nothing and gives the saved room first: under its id, with its name trimmed and cut to 120 characters, the time it was created (1 at
  least), its host in normal form, and its last join, or that of the entry it replaced if it has none. Then come, in their order, the
  rooms under other ids that \<open>saveRoom\<close> had read just before, as the text of the storage preserves them, fifty rooms in all
  at most. (It had read none if the stored list could not be read or its tidied form not be written.)\<close>

theorem saved_room_read_back:
  assumes "saveRoom env room st = (st', SaveOk)" and "sv_readable later"
    and "sr_createdAt room = Fin created" and "sr_lastJoinedAt room = map_option Fin given"
  shows "let rooms = snd (getSavedRooms env st);
             previous = Option.bind (find (\<lambda>r. sr_roomId r = sr_roomId room) rooms) sr_lastJoinedAt
    in \<exists>saved. getSavedRooms later st' =
         (st', saved # map (reread later) (take 49 (filter (\<lambda>r. sr_roomId r \<noteq> sr_roomId room) rooms))) \<and>
       sr_roomId saved = sr_roomId room \<and>
       sr_name saved = js_trim (take 120 (js_trim (sr_name room))) \<and> sr_name saved \<noteq> [] \<and>
       sr_createdAt saved = Fin (max 1 created) \<and>
       sr_host saved = normalizeHost (sv_url later) (normalizeHost (sv_url env) (sr_host room)) \<and>
       sr_lastJoinedAt saved =
         (case given of None \<Rightarrow> past_join previous
          | Some j \<Rightarrow> if j = 0 then past_join previous else past_join (Some (Fin j)))"
proof -
  obtain name where name: "normalizeName (sr_name room) = Some name"
    and read: "getSavedRooms later st' = (st', map (reread later) (take MAX_SAVED_ROOMS
      (new_saved_room env room name (snd (getSavedRooms env st)) #
       other_rooms (sr_roomId room) (snd (getSavedRooms env st)))))"
    using saved_then_read [OF assms(1,2)] by blast
  let ?saved = "reread later (new_saved_room env room name (snd (getSavedRooms env st)))"
  have "name = take 120 (js_trim (sr_name room))"
    using name by (simp add: normalizeName_def MAX_ROOM_NAME_LENGTH_def split: if_splits)
  moreover have "sr_name ?saved = js_trim name" "js_trim name \<noteq> []"
    using name_ok [OF name] by (simp_all add: reread_def new_saved_room_def trimmed_name)
  moreover have "sr_roomId ?saved = sr_roomId room" "sr_createdAt ?saved = Fin (max 1 created)"
    "sr_host ?saved = normalizeHost (sv_url later) (normalizeHost (sv_url env) (sr_host room))"
    using assms(3) by (simp_all add: reread_def new_saved_room_def)
  ultimately show ?thesis
    using read reread_join [OF assms(4)] by (simp add: Let_def MAX_SAVED_ROOMS_def other_rooms_def)
qed

definition kept_room :: saved_room where
  "kept_room = \<lparr> sr_roomId = ''AAAAAAAAAAAAAAAAAAAAAAAAAAA'', sr_name = '' Den'', sr_createdAt = Fin 7, sr_host = None,
     sr_lastJoinedAt = None \<rparr>"

definition plain_storage :: storage_env where
  "plain_storage = \<lparr> sv_readable = True, sv_write = (\<lambda>_. Written), sv_now = 9, sv_url = (\<lambda>_. None) \<rparr>"

text \<open>A room saved over an entry that remembers its last join, beside another room.\<close>

definition earlier :: stored where
  "earlier = Parsed (JArr [room_json (kept_room\<lparr> sr_lastJoinedAt := Some (Fin 5) \<rparr>),
     room_json (kept_room\<lparr> sr_roomId := ''BBBBBBBBBBBBBBBBBBBBBBBBBBB'' \<rparr>)])"

theorem saved_room_read_back_witness:
  "\<exists>saved other. getSavedRooms plain_storage (fst (saveRoom plain_storage kept_room earlier)) =
      (fst (saveRoom plain_storage kept_room earlier), [saved, other]) \<and>
    sr_name saved = ''Den'' \<and> sr_createdAt saved = Fin 7 \<and> sr_lastJoinedAt saved = Some (Fin 5)"
proof -
  have save: "saveRoom plain_storage kept_room earlier = (fst (saveRoom plain_storage kept_room earlier), SaveOk)" by code_simp
  have read: "filter (\<lambda>r. sr_roomId r \<noteq> sr_roomId kept_room) (snd (getSavedRooms plain_storage earlier)) =
      [kept_room\<lparr> sr_roomId := ''BBBBBBBBBBBBBBBBBBBBBBBBBBB'', sr_name := ''Den'' \<rparr>]"
    "Option.bind (find (\<lambda>r. sr_roomId r = sr_roomId kept_room) (snd (getSavedRooms plain_storage earlier))) sr_lastJoinedAt =
      Some (Fin 5)"
    "js_trim (take 120 (js_trim (sr_name kept_room))) = ''Den''"
    by code_simp+
  have "sr_createdAt kept_room = Fin 7" "sr_lastJoinedAt kept_room = map_option Fin None" "sv_readable plain_storage"
    by (simp_all add: kept_room_def plain_storage_def)
  from saved_room_read_back [OF save this(3,1,2)] read show ?thesis by (auto simp: Let_def)
qed

text \<open>One failed write can cost every saved room: when the stored list has an entry that is dropped on reading and the
  tidied list cannot be written, the rooms that were read are not returned, and a save that follows writes the new
  room alone over them.\<close>

theorem failed_cleanup_loses_rooms:
  assumes "read_rooms env items [] = Some rooms" and "length rooms \<noteq> length items"
    and "sv_readable env" and "sv_write env (written (rooms_json rooms)) \<noteq> Written"
    and "isValidRoomId (sr_roomId room)" and "normalizeName (sr_name room) = Some name"
    and "sv_write env (written (rooms_json [new_saved_room env room name []])) = Written"
  shows "getSavedRooms env (Parsed (JArr items)) = (Parsed (JArr items), []) \<and>
    saveRoom env room (Parsed (JArr items)) = (Parsed (written (rooms_json [new_saved_room env room name []])), SaveOk)"
proof -
  have get: "getSavedRooms env (Parsed (JArr items)) = (Parsed (JArr items), [])"
    using assms(1-4) by (auto simp: getSavedRooms_def set_item_def split: write_outcome.split)
  have "other_rooms (sr_roomId room) [] = []" by (simp add: other_rooms_def)
  then show ?thesis
    using get assms(5-7) by (simp add: saveRoom_def set_item_def MAX_SAVED_ROOMS_def)
qed

text \<open>A storage with little room left: it takes one room, but not two.\<close>

definition full_storage :: storage_env where
  "full_storage = \<lparr> sv_readable = True,
     sv_write = (\<lambda>v. case v of JArr (_ # _ # _) \<Rightarrow> QuotaExceeded | _ \<Rightarrow> Written), sv_now = 9, sv_url = (\<lambda>_. None) \<rparr>"

definition other_room :: saved_room where
  "other_room = kept_room\<lparr> sr_roomId := ''BBBBBBBBBBBBBBBBBBBBBBBBBBB'' \<rparr>"

definition stale_items :: "json list" where
  "stale_items = [room_json kept_room, room_json other_room, JNull]"

theorem failed_cleanup_loses_rooms_witness:
  "let new = kept_room\<lparr> sr_roomId := ''CCCCCCCCCCCCCCCCCCCCCCCCCCC'' \<rparr> in
    getSavedRooms full_storage (Parsed (JArr stale_items)) = (Parsed (JArr stale_items), []) \<and>
    saveRoom full_storage new (Parsed (JArr stale_items)) =
      (Parsed (written (rooms_json [new_saved_room full_storage new ''Den'' []])), SaveOk)"
  unfolding Let_def
  by (rule failed_cleanup_loses_rooms [of full_storage stale_items "the (read_rooms full_storage stale_items [])"]) code_simp+

section \<open>Recent calls\<close>

datatype history_op = HSave recent_call | HGet | HRemove string

fun history_step :: "storage_env \<times> history_op \<Rightarrow> stored \<Rightarrow> stored" where
  "history_step (env, HSave call) st = saveCall env call st"
| "history_step (env, HGet) st = fst (getRecentCalls env st)"
| "history_step (env, HRemove roomId) st = removeRecentCall env roomId st"

text \<open>A history that cannot be filtered.\<close>

definition damaged :: "stored \<Rightarrow> bool" where
  "damaged st = (case st of NoText \<Rightarrow> False | Unparsable \<Rightarrow> True | Parsed (JArr items) \<Rightarrow> JNull \<in> set items | Parsed _ \<Rightarrow> True)"

text \<open>A damaged history of calls is never repaired: whatever is saved, read or removed, in whatever order, it stays as it
  is, and no call is ever shown.\<close>

theorem damaged_history_stays:
  assumes "damaged st"
  shows "fold history_step ops st = st \<and> getRecentCalls env st = (st, [])"
proof -
  have none: "Option.bind (parsed_history st) (filter_history keep) = None" for keep
    using assms by (auto simp: damaged_def parsed_history_def filter_history_def split: stored.splits json.splits)
  have get: "getRecentCalls env st = (st, [])" for env
    using none [of "id_matches isValidRoomId"] by (auto simp: getRecentCalls_def split: option.split)
  have "history_step op st = st" for op
    by (cases "(op, st)" rule: history_step.cases) (simp_all add: saveCall_def removeRecentCall_def none get)
  then have "fold history_step ops st = st" by (induction ops) simp_all
  then show ?thesis using get by blast
qed

theorem damaged_history_stays_witness:
  "fold history_step [(plain_storage, HSave \<lparr> rc_roomId = ''AAAAAAAAAAAAAAAAAAAAAAAAAAA'', rc_startTime = Fin 1, rc_duration = Fin 2 \<rparr>)]
     (Parsed (JArr [JNull])) = Parsed (JArr [JNull]) \<and>
   getRecentCalls plain_storage (Parsed (JArr [JNull])) = (Parsed (JArr [JNull]), [])"
  by (rule damaged_history_stays) (simp add: damaged_def)

text \<open>A history that only the application wrote: at most three calls, with valid and distinct room ids.\<close>

definition call_id :: "json \<Rightarrow> string option" where
  "call_id v = as_string (field (Some v) ''roomId'')"

definition sane_calls :: "json list \<Rightarrow> bool" where
  "sane_calls items =
     (length items \<le> MAX_RECENT_CALLS \<and> distinct (map call_id items) \<and>
      list_all (\<lambda>v. written v = v \<and> pred_option isValidRoomId (call_id v) \<and> call_id v \<noteq> None) items)"

fun sane_history :: "stored \<Rightarrow> bool" where
  "sane_history NoText = True"
| "sane_history (Parsed (JArr items)) = sane_calls items"
| "sane_history _ = False"

lemma sane_parsed:
  "sane_history st \<Longrightarrow> \<exists>items. parsed_history st = Some (JArr items) \<and> sane_calls items \<and> (st = NoText \<and> items = [] \<or> st = Parsed (JArr items))"
  by (cases st rule: sane_history.cases) (auto simp: parsed_history_def sane_calls_def)

lemma sane_filter: "sane_calls items \<Longrightarrow> filter_history keep (JArr items) = Some (filter (\<lambda>v. keep (field (Some v) ''roomId'')) items)"
  by (force simp: filter_history_def sane_calls_def list_all_iff call_id_def field_def)

lemma sane_filtered: "sane_calls items \<Longrightarrow> sane_calls (filter P items)"
  by (auto simp: sane_calls_def list_all_iff distinct_map_filter intro: order_trans [OF length_filter_le])

lemma written_all: "list_all (\<lambda>v. written v = v) items \<Longrightarrow> map written items = items"
  by (simp add: list_all_iff map_idI)

lemma sane_set_item:
  assumes "sane_history st" and "sane_calls items"
  shows "sane_history (fst (set_item env (JArr items) st))"
proof -
  have "map written items = items"
    using assms(2) by (intro written_all) (auto simp: sane_calls_def list_all_iff)
  then show ?thesis using assms by (simp add: set_item_def)
qed

lemma written_idem [simp]: "written (written v) = written v"
  by (induction v) auto

lemma call_id_call [simp]: "call_id (call_json c) = Some (rc_roomId c)"
  by (simp add: call_id_def call_json_def)

lemma call_id_written [simp]: "call_id (written v) = call_id v"
  by (cases "field (Some v) ''roomId''" rule: as_string.cases) (simp_all add: call_id_def)

lemma set_item_written: "set_item env (JArr (v # vs)) st = set_item env (JArr (written v # vs)) st"
  by (simp add: set_item_def)

lemma split_length: "length s = sum_list (map length (split_on c s)) + length (split_on c s) - 1"
proof (induction s)
  case (Cons x xs)
  then show ?case by (cases "split_on c xs") auto
qed simp

lemma legacy_length: "isLegacyRoomId s \<Longrightarrow> length s = 36"
proof -
  assume "isLegacyRoomId s"
  then have m: "map length (split_on (CHR ''-'') s) = [8, 4, 4, 4, 12]" by (simp add: isLegacyRoomId_def)
  then have "length (split_on (CHR ''-'') s) = 5" by (simp add: arg_cong [OF m, of length, simplified])
  then show "length s = 36" using split_length [of s "CHR ''-''"] m by simp
qed

lemma sane_shown:
  assumes "sane_calls items" and "v \<in> set items"
  shows "id_matches isValidRoomId (field (Some v) ''roomId'')" and "\<not> id_matches isLegacyRoomId (field (Some v) ''roomId'')"
proof -
  obtain roomId where r: "field (Some v) ''roomId'' = Some (JStr roomId)" "isValidRoomId roomId"
    using assms by (auto simp: sane_calls_def list_all_iff call_id_def as_string_Some)
  then show "id_matches isValidRoomId (field (Some v) ''roomId'')" by (simp add: id_matches_def)
  have "\<not> isLegacyRoomId roomId"
  proof
    assume "isLegacyRoomId roomId"
    then have "length roomId = 36"
      by (rule legacy_length)
    then show False using r(2) by (simp add: isValidRoomId_def)
  qed
  then show "\<not> id_matches isLegacyRoomId (field (Some v) ''roomId'')" using r by (simp add: id_matches_def)
qed

lemma sane_read: "sane_history st \<Longrightarrow> getRecentCalls env st = (st, if sv_readable env then history_items (the (parsed_history st)) else [])"
proof -
  assume "sane_history st"
  then obtain items where i: "parsed_history st = Some (JArr items)" "sane_calls items" using sane_parsed by blast
  have "filter (\<lambda>v. id_matches isValidRoomId (field (Some v) ''roomId'')) items = items"
    using sane_shown(1) [OF i(2)] by (simp add: filter_id_conv)
  moreover have "\<not> list_ex (\<lambda>v. id_matches isLegacyRoomId (field (Some v) ''roomId'')) items"
    using sane_shown(2) [OF i(2)] by (auto simp: list_ex_iff)
  ultimately show ?thesis using i by (simp add: getRecentCalls_def sane_filter history_items_def)
qed

lemma sane_new_call:
  assumes "sane_calls items" and "isValidRoomId (rc_roomId call)"
  shows "sane_calls (written (call_json call) #
    take 2 (filter (\<lambda>v. field (Some v) ''roomId'' \<noteq> Some (JStr (rc_roomId call))) items))" (is "sane_calls (_ # take 2 ?others)")
proof -
  have "call_id v \<noteq> Some (rc_roomId call)" if "v \<in> set ?others" for v
    using that by (auto simp: call_id_def as_string_Some)
  then have "call_id v \<noteq> Some (rc_roomId call)" if "v \<in> set (take 2 ?others)" for v
    using that by (meson in_set_takeD)
  then have "Some (rc_roomId call) \<notin> set (map call_id (take 2 ?others))" by (metis (no_types, lifting) image_iff list.set_map)
  moreover have "distinct (map call_id (take 2 ?others))"
    unfolding take_map [symmetric]
    using sane_filtered [OF assms(1)] by (intro distinct_take) (simp add: sane_calls_def)
  ultimately have "distinct (map call_id (written (call_json call) # take 2 ?others))" by simp
  then show ?thesis
    using assms sane_filtered [OF assms(1)]
    by (auto simp: sane_calls_def list_all_iff MAX_RECENT_CALLS_def dest: in_set_takeD)
qed

lemma sane_save:
  assumes "sane_history st" and "isValidRoomId (rc_roomId call)" and "sv_readable env"
  shows "\<exists>items. parsed_history st = Some (JArr items) \<and> sane_calls items \<and>
    saveCall env call st = fst (set_item env (JArr (written (call_json call) #
      take 2 (filter (\<lambda>v. field (Some v) ''roomId'' \<noteq> Some (JStr (rc_roomId call))) items))) st)"
proof -
  obtain items where i: "parsed_history st = Some (JArr items)" "sane_calls items" using sane_parsed assms(1) by blast
  show ?thesis
    using assms i set_item_written [of env "call_json call"]
    by (intro exI [of _ items]) (simp add: saveCall_def sane_filter MAX_RECENT_CALLS_def numeral_3_eq_3 numeral_2_eq_2)
qed

lemma sane_step: "sane_history st \<Longrightarrow> sane_history (history_step op st)"
proof (cases "(op, st)" rule: history_step.cases)
  case (1 env call st')
  assume st: "sane_history st"
  show ?thesis
  proof (cases "isValidRoomId (rc_roomId call) \<and> sv_readable env")
    case True
    then show ?thesis
      using sane_save [OF st, of call env] sane_new_call [of _ call] sane_set_item [OF st] 1 by auto
  qed (use 1 st in \<open>auto simp: saveCall_def\<close>)
next
  case (2 env st')
  assume "sane_history st"
  then show ?thesis using 2 by (simp add: sane_read)
next
  case (3 env roomId st')
  assume st: "sane_history st"
  then obtain items where "parsed_history st = Some (JArr items)" "sane_calls items" using sane_parsed by blast
  then show ?thesis using 3 st sane_set_item [OF st sane_filtered] by (simp add: removeRecentCall_def sane_filter)
qed

text \<open>The history of calls stays sound: from an empty storage, whatever is saved, read and removed and whichever writes
  fail, at most three calls are kept, their rooms are valid and distinct, reading returns exactly them, and a call
  that is saved and written comes first, before the others in their order.\<close>

theorem recent_calls_sound:
  "let st = fold history_step ops NoText in
    sane_history st \<and>
    snd (getRecentCalls env st) = (if sv_readable env then history_items (the (parsed_history st)) else []) \<and>
    (\<forall>call. if isValidRoomId (rc_roomId call) \<and> sv_readable env \<and> saveCall env call st \<noteq> st
      then snd (getRecentCalls env (saveCall env call st)) = written (call_json call) #
        take 2 (filter (\<lambda>v. field (Some v) ''roomId'' \<noteq> Some (JStr (rc_roomId call))) (history_items (the (parsed_history st))))
      else True)"
proof -
  define st where "st = fold history_step ops NoText"
  have "sane_history (fold history_step ops s)" if "sane_history s" for s
    using that by (induction ops arbitrary: s) (simp_all add: sane_step)
  then have st: "sane_history st" by (simp add: st_def)
  have first: "snd (getRecentCalls env (saveCall env call st)) = written (call_json call) #
      take 2 (filter (\<lambda>v. field (Some v) ''roomId'' \<noteq> Some (JStr (rc_roomId call))) (history_items (the (parsed_history st))))"
    if c: "isValidRoomId (rc_roomId call)" "sv_readable env" "saveCall env call st \<noteq> st" for call
  proof -
    obtain items where i: "parsed_history st = Some (JArr items)" "sane_calls items"
      "saveCall env call st = fst (set_item env (JArr (written (call_json call) #
        take 2 (filter (\<lambda>v. field (Some v) ''roomId'' \<noteq> Some (JStr (rc_roomId call))) items))) st)"
      using sane_save [OF st c(1,2)] by blast
    define now where "now = written (call_json call) # take 2 (filter (\<lambda>v. field (Some v) ''roomId'' \<noteq> Some (JStr (rc_roomId call))) items)"
    have sane: "sane_calls now" unfolding now_def by (rule sane_new_call [OF i(2) c(1)])
    then have "map written now = now" by (intro written_all) (auto simp: sane_calls_def list_all_iff)
    then have "saveCall env call st = Parsed (JArr now)"
      using i(3) c(3) by (simp add: now_def [symmetric] set_item_def split: if_splits)
    then show ?thesis
      using sane_read [of "Parsed (JArr now)" env] sane c(2) i(1) by (simp add: parsed_history_def history_items_def now_def)
  qed
  show ?thesis unfolding st_def [symmetric] Let_def using st first sane_read [OF st, of env] by simp
qed

theorem recent_calls_sound_witness:
  "let c = \<lparr> rc_roomId = ''AAAAAAAAAAAAAAAAAAAAAAAAAAA'', rc_startTime = Fin 1, rc_duration = Fin 2 \<rparr>;
       st = fold history_step [(plain_storage, HSave c)] NoText
   in sane_history st \<and>
    snd (getRecentCalls plain_storage st) = (if sv_readable plain_storage then history_items (the (parsed_history st)) else []) \<and>
    (\<forall>call. if isValidRoomId (rc_roomId call) \<and> sv_readable plain_storage \<and> saveCall plain_storage call st \<noteq> st
      then snd (getRecentCalls plain_storage (saveCall plain_storage call st)) = written (call_json call) #
        take 2 (filter (\<lambda>v. field (Some v) ''roomId'' \<noteq> Some (JStr (rc_roomId call))) (history_items (the (parsed_history st))))
      else True)"
  unfolding Let_def by (rule recent_calls_sound [unfolded Let_def])

section \<open>Rejoining after a reload\<close>

definition loaded_of :: "recovery_record \<Rightarrow> loaded_record" where
  "loaded_of r =
     \<lparr> ld_roomId = rec_roomId r, ld_cid = rec_cid r, ld_reconnectToken = rec_reconnectToken r,
       ld_lastEpoch = rec_lastEpoch r, ld_sessionStartTs = Fin (rec_sessionStartTs r), ld_expiresAtMs = rec_expiresAtMs r \<rparr>"

text \<open>A call can be rejoined until it expires: a record that was stored is loaded as it was at any time up to its
  expiry, and from then on it is not loaded but removed.\<close>

theorem recovery_offered_until_expiry:
  assumes "sv_write env (written (recovery_json r)) = Written" and "sv_readable later"
    and "js_is_finite (rec_expiresAtMs r)" and "pred_option js_is_finite (rec_lastEpoch r)"
  shows "loadRecoveryRecord later removable (store_recovery env r st) =
    (if js_lt (rec_expiresAtMs r) (Fin (sv_now later))
     then (if removable then NoText else store_recovery env r st, None)
     else (store_recovery env r st, Some (loaded_of r)))"
proof -
  have "store_recovery env r st = Parsed (written (recovery_json r))"
    using assms(1) by (simp add: store_recovery_def set_item_def)
  moreover have "recovery_of_json (written (recovery_json r)) = Some (loaded_of r)"
    using assms(3,4)
    by (cases "rec_lastEpoch r") (simp_all add: recovery_of_json_def recovery_json_def loaded_of_def)
  ultimately show ?thesis using assms(2) by (simp add: loadRecoveryRecord_def Let_def loaded_of_def)
qed

definition kept_record :: recovery_record where
  "kept_record = \<lparr> rec_roomId = ''r'', rec_cid = ''c'', rec_reconnectToken = ''t'', rec_lastEpoch = None,
     rec_sessionStartTs = 1, rec_expiresAtMs = Fin 5 \<rparr>"

theorem recovery_offered_until_expiry_witness:
  "loadRecoveryRecord plain_storage True (store_recovery plain_storage kept_record Unparsable) =
    (if js_lt (rec_expiresAtMs kept_record) (Fin (sv_now plain_storage))
     then (if True then NoText else store_recovery plain_storage kept_record Unparsable, None)
     else (store_recovery plain_storage kept_record Unparsable, Some (loaded_of kept_record)))"
  by (rule recovery_offered_until_expiry) (simp_all add: plain_storage_def kept_record_def)

section \<open>Preferences\<close>

lemma display_name_kept: "getDisplayName True (setDisplayName True name item) = js_trim name"
  using trim_trim [of name] by (cases "js_trim name") (simp_all add: getDisplayName_def setDisplayName_def js_trim_def [of "[]"])

lemma fit_kept: "getPersistedRemoteVideoFit True fallback (persistRemoteVideoFit True fit item) = fit"
  by (cases fit) (simp_all add: getPersistedRemoteVideoFit_def persistRemoteVideoFit_def)

end
