(* ===== verification/Call_View.thy ===== *)
theory Call_View
  imports Content_Rendering Call_Types Browser_Basics
begin

text \<open>
  The call view, \<^verbatim>\<open>src/client/packages/react-ui/src/SerenadaCallFlow.tsx\<close>: what it derives from the state of the session,
  the layout of its stage, and the state of its own - the connection badge, the waiting overlay, the controls that hide
  themselves, pins, the order of shares.

  The hooks are the fields of a record. What a render reads of its props and of the session is the record \<open>view_input\<close>.
  A render runs the effects whose dependencies changed since they ran last, in their order, with the values of the
  render; an effect that sets state causes another render. Effects whose dependencies are objects run at every render
  here, since they have no effect when nothing changed. A timer is a flag; requests that are awaited are listed in the
  state and their answers are events. The markup itself is not modelled.
\<close>

section \<open>What a render reads\<close>

record view_local =
  vl_cid :: string
  vl_cameraMode :: string
  vl_videoEnabled :: bool
  vl_cameraEnabled :: bool
  vl_audioEnabled :: bool
  vl_content :: "presence option"
  vl_modes :: nat
  vl_displayName :: "string option"

record view_remote =
  vr_cid :: string
  vr_presumedLost :: bool
  vr_videoEnabled :: bool
  vr_cameraEnabled :: bool
  vr_audioEnabled :: bool
  vr_content :: "presence option"
  vr_displayName :: "string option"

record track_settings =
  ts_aspectRatio :: "rat option"
  ts_width :: "rat option"
  ts_height :: "rat option"

text \<open>The handle of the session. \<open>sn_settings\<close> are the settings of the first video track of a remote stream.\<close>

record session_view =
  sn_localStream :: "media_stream option"
  sn_remoteStreams :: "(string \<times> media_stream) list"
  sn_remoteCamera :: "string \<Rightarrow> media_stream option"
  sn_remoteContent :: "string \<Rightarrow> media_stream option"
  sn_localContent :: "media_stream option"
  sn_independent :: bool
  sn_remoteIndependent :: "string \<Rightarrow> bool"
  sn_canScreenShare :: bool
  sn_hasMultipleCameras :: bool
  sn_settings :: "string \<Rightarrow> track_settings option"

datatype capability = CameraCapability | MicrophoneCapability

record view_input =
  vi_session :: "session_view option"
  vi_phase :: stage_phase
  vi_status :: link_status
  vi_local :: "view_local option"
  vi_remotes :: "view_remote list"
  vi_required :: "capability list option"
  vi_videoEnabledConfig :: bool
  vi_videoMediaEnabled :: bool
  vi_screenSharing :: bool
  vi_autoHide :: bool
  vi_snapshotEnabled :: bool
  vi_userAgent :: string

section \<open>What is derived at once\<close>

text \<open>The effective state: nothing without a session, and no participants that are presumed lost.\<close>

definition effective :: "view_input \<Rightarrow> view_input" where
  "effective i =
     (case vi_session i of
        None \<Rightarrow> i\<lparr> vi_phase := SpIdle, vi_status := LinkConnected, vi_local := None, vi_remotes := [], vi_required := None \<rparr>
      | Some s \<Rightarrow> i\<lparr> vi_remotes := filter (\<lambda>p. \<not> vr_presumedLost p) (vi_remotes i) \<rparr>)"

definition remote_streams :: "view_input \<Rightarrow> (string \<times> media_stream) list" where
  "remote_streams i = (case vi_session i of None \<Rightarrow> [] | Some s \<Rightarrow> sn_remoteStreams s)"

definition stream_cids :: "view_input \<Rightarrow> string list" where
  "stream_cids i = map fst (remote_streams i)"

definition local_cid :: "view_input \<Rightarrow> string option" where
  "local_cid i = map_option vl_cid (vi_local i)"

definition participantCount :: "view_input \<Rightarrow> nat" where
  "participantCount i = (if vi_local i = None then 0 else 1) + length (vi_remotes i)"

definition isMultiParty :: "view_input \<Rightarrow> bool" where
  "isMultiParty i = (length (remote_streams i) > 1)"

definition isScreenSharing :: "view_input \<Rightarrow> bool" where
  "isScreenSharing i = (map_option vl_cameraMode (vi_local i) = Some ''screenShare'')"

definition isSharingContent :: "view_input \<Rightarrow> bool" where
  "isSharingContent i =
     (isScreenSharing i \<or> (case vi_local i of None \<Rightarrow> False | Some l \<Rightarrow> is_active (vl_content l)))"

definition isCameraOff :: "view_input \<Rightarrow> bool" where
  "isCameraOff i = (case vi_local i of None \<Rightarrow> False | Some l \<Rightarrow> \<not> vl_videoEnabled l)"

definition isMuted :: "view_input \<Rightarrow> bool" where
  "isMuted i = (case vi_local i of None \<Rightarrow> False | Some l \<Rightarrow> \<not> vl_audioEnabled l)"

definition isMobileBrowser :: "view_input \<Rightarrow> bool" where
  "isMobileBrowser i =
     list_ex (\<lambda>w. contains w (js_lower (vi_userAgent i))) [''mobi'', ''android'', ''iphone'', ''ipad'', ''ipod'']"

definition canScreenShare :: "view_input \<Rightarrow> bool" where
  "canScreenShare i = ((case vi_session i of None \<Rightarrow> False | Some s \<Rightarrow> sn_canScreenShare s) \<and> \<not> isMobileBrowser i)"

definition camera_modes :: "view_input \<Rightarrow> nat" where
  "camera_modes i = (case vi_local i of None \<Rightarrow> 0 | Some l \<Rightarrow> vl_modes l)"

definition videoCaptureSupported :: "view_input \<Rightarrow> bool" where
  "videoCaptureSupported i = (vi_videoEnabledConfig i \<and> camera_modes i > 0)"

definition canFlipCamera :: "view_input \<Rightarrow> bool" where
  "canFlipCamera i =
     (vi_videoEnabledConfig i \<and> (case vi_session i of None \<Rightarrow> False | Some s \<Rightarrow> sn_hasMultipleCameras s) \<and>
      camera_modes i > 1 \<and> (case vi_local i of None \<Rightarrow> False | Some l \<Rightarrow> vl_videoEnabled l))"

definition showScreenShareControl :: "view_input \<Rightarrow> bool" where
  "showScreenShareControl i = (vi_screenSharing i \<and> canScreenShare i)"

definition shouldMirrorLocalVideo :: "view_input \<Rightarrow> bool" where
  "shouldMirrorLocalVideo i = (map_option vl_cameraMode (vi_local i) = Some ''selfie'' \<and> \<not> isScreenSharing i)"

definition callActive :: "view_input \<Rightarrow> bool" where
  "callActive i = (vi_phase i = SpWaiting \<or> vi_phase i = SpInCall)"

definition getStreamAspectRatio :: "track_settings option \<Rightarrow> rat option" where
  "getStreamAspectRatio track =
     (case track of
        None \<Rightarrow> None
      | Some settings \<Rightarrow>
          (case (ts_aspectRatio settings, ts_width settings, ts_height settings) of
             (Some ratio, w, h) \<Rightarrow> if ratio > 0 then Some ratio
                else (case (w, h) of (Some width, Some height) \<Rightarrow> if height > 0 then Some (width / height) else None | _ \<Rightarrow> None)
           | (None, Some width, Some height) \<Rightarrow> if height > 0 then Some (width / height) else None
           | _ \<Rightarrow> None))"

section \<open>The state of the view\<close>

datatype asked = ForResume | ForVideo

text \<open>The first part are the hooks, the second the references and the timers, the third what each effect depended on when it
  ran last (\<open>None\<close> before the first render). React compares a state by reference: setting a fresh array or object is a
  change although it equals the old one. \<open>cv_orderRef\<close> and \<open>cv_aspectsRef\<close> stand for the identities of the array of
  sharers and of the object of aspect ratios: a setter that does not return the previous one makes a new one.\<close>

record view =
  cv_input :: view_input
  cv_permissionDenied :: bool
  cv_localLarge :: bool
  cv_controlsVisible :: bool
  cv_showBadge :: bool
  cv_showWaiting :: bool
  cv_showDebug :: bool
  cv_fit :: fit
  cv_contentFitCover :: bool
  cv_pinned :: "string option"
  cv_pinnedTile :: "tile_key option"
  cv_remoteContent :: "legacy_signal option"
  cv_contentOrder :: "string list"
  cv_orderRef :: nat
  cv_aspects :: "(string \<times> rat) list"
  cv_aspectsRef :: nat
  cv_viewport :: "rat \<times> rat"
  cv_snapshotInFlight :: bool
  cv_lastCameraMode :: string
  cv_idleTimer :: bool
  cv_hiddenByIdle :: bool
  cv_autoHideEnabled :: bool
  cv_badgeTimer :: bool
  cv_waitingTimer :: bool
  cv_prevCount :: nat
  cv_debugTap :: rat
  cv_debugTimer :: bool
  cv_asked :: "asked list"
  cv_depsCamera :: "string option option"
  cv_depsBadge :: "(link_status \<times> stage_phase) option"
  cv_depsWaiting :: "(stage_phase \<times> nat \<times> bool) option"
  cv_depsCount :: "nat option"
  cv_depsControls :: "(bool \<times> stage_phase) option"

datatype shot_source = LocalSnapshot | RemoteSnapshot string

datatype view_effect =
    PlayChime
  | ToggleAudio
  | ToggleVideo
  | FlipCamera
  | StartShare
  | StopShare
  | AskPermissions "capability list"
  | ResumeJoin
  | CancelJoin
  | LeaveCall
  | EndCallCallback
  | DismissCallback
  | PersistFit fit
  | TakeSnapshot shot_source

type_synonym view_act = "(view, view_effect) act"

definition now_input :: "view \<Rightarrow> view_input" where
  "now_input v = effective (cv_input v)"

definition effectiveLocalLarge :: "view \<Rightarrow> bool" where
  "effectiveLocalLarge v = (cv_localLarge v \<and> \<not> isCameraOff (now_input v))"

definition showReconnecting :: "view \<Rightarrow> bool" where
  "showReconnecting v = (callActive (now_input v) \<and> vi_status (now_input v) \<noteq> LinkConnected \<and> cv_showBadge v)"

section \<open>Content and the stage\<close>

definition content_input :: "view \<Rightarrow> resolve_input" where
  "content_input v =
     (let i = now_input v; s = vi_session i in
      \<lparr> ri_local = map_option (\<lambda>l. \<lparr> cl_cid = vl_cid l, cl_cameraMode = Some (vl_cameraMode l), cl_content = vl_content l \<rparr>) (vi_local i),
        ri_localStream = Option.bind s sn_localStream,
        ri_remotes = map (\<lambda>p. \<lparr> cr_cid = vr_cid p, cr_content = vr_content p,
          cr_supportsIndependent = Some (case s of None \<Rightarrow> False | Some h \<Rightarrow> sn_remoteIndependent h (vr_cid p)) \<rparr>) (vi_remotes i),
        ri_remoteStreams = remote_streams i,
        ri_independentEnabled = (case s of None \<Rightarrow> False | Some h \<Rightarrow> sn_independent h),
        ri_legacy = cv_remoteContent v,
        ri_localContentStream = Option.bind s sn_localContent,
        ri_remoteContentStream = (\<lambda>cid. Option.bind s (\<lambda>h. sn_remoteContent h cid)),
        ri_localVideoMediaEnabled = vi_videoMediaEnabled i,
        ri_order = Some (cv_contentOrder v) \<rparr>)"

definition contentScene :: "view \<Rightarrow> content_scene" where
  "contentScene v = resolveContentScene (content_input v)"

definition contentSource :: "view \<Rightarrow> content_source option" where
  "contentSource v = resolveContentSource (cs_primary (contentScene v)) (isMultiParty (now_input v))"

definition streamKeyedStageActive :: "view \<Rightarrow> bool" where
  "streamKeyedStageActive v = list_ex (\<lambda>c. rc_mode c = Independent) (cs_all (contentScene v))"

definition useContentStageLayout :: "view \<Rightarrow> bool" where
  "useContentStageLayout v = (streamKeyedStageActive v \<or> isMultiParty (now_input v) \<or> contentSource v \<noteq> None)"

definition stage_cameras :: "view \<Rightarrow> string \<Rightarrow> camera_participant list" where
  "stage_cameras v localCid =
     map (\<lambda>cid. \<lparr> cp_cid = cid, cp_isLocal = False \<rparr>) (stream_cids (now_input v)) @ [\<lparr> cp_cid = localCid, cp_isLocal = True \<rparr>]"

text \<open>An empty id counts as none.\<close>

definition stageTiles :: "view \<Rightarrow> stage_tile_entry list" where
  "stageTiles v =
     (case local_cid (now_input v) of
        None \<Rightarrow> []
      | Some cid \<Rightarrow>
          if \<not> streamKeyedStageActive v \<or> cid = [] then []
          else deriveStageTiles (stage_cameras v cid) (cs_all (contentScene v)))"

definition stageSpotlightId :: "view \<Rightarrow> string option" where
  "stageSpotlightId v = pickStageSpotlightTileId (stageTiles v) (cv_pinnedTile v) (cs_primary (contentScene v))"

definition aspect_of :: "view \<Rightarrow> string \<Rightarrow> jsnum option" where
  "aspect_of v cid = map_option Fin (map_of (cv_aspects v) cid)"

definition no_insets :: insets where
  "no_insets = \<lparr> in_top = 0, in_bottom = 0, in_left = 0, in_right = 0 \<rparr>"

definition stage_scene :: "view \<Rightarrow> string \<Rightarrow> call_scene" where
  "stage_scene v spotlight =
     \<lparr> sc_viewportWidth = fst (cv_viewport v), sc_viewportHeight = snd (cv_viewport v), sc_safeAreaInsets = no_insets,
       sc_participants = map (\<lambda>t. \<lparr> pa_id = se_id t, pa_role = (if se_id t = spotlight then Local else Remote),
         pa_videoEnabled = True, pa_videoAspectRatio = (if se_kind t = CameraKind then aspect_of v (se_cid t) else None) \<rparr>)
         (stageTiles v),
       sc_localParticipantId = spotlight, sc_activeSpeakerId = None, sc_pinnedParticipantId = Some spotlight,
       sc_contentSource = None, sc_swapped = False, sc_dominantFit = cv_fit v \<rparr>"

definition lone_tile :: "view \<Rightarrow> string \<Rightarrow> layout_result" where
  "lone_tile v spotlight =
     \<lparr> lr_mode = Focus,
       lr_tiles = [\<lparr> tl_id = spotlight, tl_type = ParticipantTile,
         tl_frame = \<lparr> r_x = 0, r_y = 0, r_width = fst (cv_viewport v), r_height = snd (cv_viewport v) \<rparr>,
         tl_fit = cv_fit v, tl_cornerRadius = 0, tl_zOrder = 0 \<rparr>],
       lr_localPip = None \<rparr>"

definition legacy_scene :: "view \<Rightarrow> string \<Rightarrow> call_scene" where
  "legacy_scene v localCid =
     \<lparr> sc_viewportWidth = fst (cv_viewport v), sc_viewportHeight = snd (cv_viewport v), sc_safeAreaInsets = no_insets,
       sc_participants =
         map (\<lambda>cid. \<lparr> pa_id = cid, pa_role = Remote, pa_videoEnabled = True, pa_videoAspectRatio = aspect_of v cid \<rparr>)
           (stream_cids (now_input v)) @
         [\<lparr> pa_id = localCid, pa_role = Local, pa_videoEnabled = \<not> isCameraOff (now_input v), pa_videoAspectRatio = None \<rparr>],
       sc_localParticipantId = localCid, sc_activeSpeakerId = None,
       sc_pinnedParticipantId = (if contentSource v \<noteq> None then None else cv_pinned v),
       sc_contentSource = contentSource v, sc_swapped = False, sc_dominantFit = cv_fit v \<rparr>"

definition has_cid :: "string option \<Rightarrow> bool" where
  "has_cid x = (case x of None \<Rightarrow> False | Some cid \<Rightarrow> cid \<noteq> [])"

definition computedLayout :: "view \<Rightarrow> layout_result option" where
  "computedLayout v =
     (case local_cid (now_input v) of
        None \<Rightarrow> None
      | Some cid \<Rightarrow>
          if \<not> useContentStageLayout v \<or> cid = [] then None
          else if streamKeyedStageActive v then
            (case stageSpotlightId v of
               None \<Rightarrow> None
             | Some spotlight \<Rightarrow>
                 if stageTiles v = [] then None
                 else if length (stageTiles v) = 1 then Some (lone_tile v spotlight)
                 else Some (computeLayout (stage_scene v spotlight)))
          else if \<not> has_cid (cv_pinned v) \<and> contentSource v = None then None
          else Some (computeLayout (legacy_scene v cid)))"

definition renderContentStage :: "view \<Rightarrow> bool" where
  "renderContentStage v =
     shouldRenderContentStage (vi_phase (now_input v)) (isMultiParty (now_input v)) (computedLayout v \<noteq> None)"

definition STAGE_TILE_GAP_PX :: rat where "STAGE_TILE_GAP_PX = 12"

definition remoteStageTiles :: "view \<Rightarrow> stage_tile_spec list" where
  "remoteStageTiles v =
     map (\<lambda>cid. \<lparr> sts_cid = cid,
       sts_aspectRatio = default
         (clampStageTileAspectRatio (map_option Fin (getStreamAspectRatio
            (Option.bind (vi_session (now_input v)) (\<lambda>s. sn_settings s cid)))))
         (map_of (cv_aspects v) cid) \<rparr>) (stream_cids (now_input v))"

definition remoteStageLayout :: "view \<Rightarrow> stage_row list" where
  "remoteStageLayout v = computeStageLayout (remoteStageTiles v) (fst (cv_viewport v)) (snd (cv_viewport v)) STAGE_TILE_GAP_PX"

section \<open>Snapshots\<close>

definition find_remote :: "view \<Rightarrow> string \<Rightarrow> view_remote option" where
  "find_remote v cid = find (\<lambda>p. vr_cid p = cid) (vi_remotes (now_input v))"

definition snapshot_of :: "view \<Rightarrow> string \<Rightarrow> shot_source option" where
  "snapshot_of v cid =
     (if local_cid (now_input v) = Some cid then (if isCameraOff (now_input v) then None else Some LocalSnapshot)
      else case find_remote v cid of
        None \<Rightarrow> None
      | Some p \<Rightarrow> if vr_videoEnabled p then Some (RemoteSnapshot (vr_cid p)) else None)"

definition primarySnapshotSource :: "view \<Rightarrow> shot_source option" where
  "primarySnapshotSource v =
     (if \<not> vi_snapshotEnabled (now_input v) then None
      else case cv_pinnedTile v of
        Some key \<Rightarrow> if tk_kind key = ContentKind then None else snapshot_of v (tk_cid key)
      | None \<Rightarrow>
          if isMultiParty (now_input v)
          then (case cv_pinned v of None \<Rightarrow> None | Some cid \<Rightarrow> if cid = [] then None else snapshot_of v cid)
          else if effectiveLocalLarge v then Some LocalSnapshot
          else (case stream_cids (now_input v) of
                  [] \<Rightarrow> None
                | cid # _ \<Rightarrow>
                    if cid = [] then None
                    else (case find_remote v cid of
                            Some p \<Rightarrow> if vr_videoEnabled p then Some (RemoteSnapshot cid) else None
                          | None \<Rightarrow> Some (RemoteSnapshot cid))))"

section \<open>What a tile shows\<close>

datatype tile_view =
    Connecting bool
  | Picture media_stream bool bool bool

text \<open>A tile of the stage: nothing, a tile that waits for its content (with a badge while the local share waits for
  participants), or a stream with whether it is mirrored, its camera is on, and its audio is muted.\<close>

definition find_content :: "view \<Rightarrow> string \<Rightarrow> resolved_content option" where
  "find_content v cid = find (\<lambda>c. rc_ownerId c = cid) (cs_all (contentScene v))"

definition stage_tile_view :: "view \<Rightarrow> string \<Rightarrow> tile_view option" where
  "stage_tile_view v tileId =
     (case parseStageTileId tileId of
        None \<Rightarrow> None
      | Some key \<Rightarrow>
          let i = now_input v; s = vi_session i; cid = tk_cid key;
              isContentTile = (tk_kind key = ContentKind); isLocalTile = (local_cid i = Some cid);
              owner = (if isContentTile then find_content v cid else None);
              stream = (if isContentTile then Option.bind owner rc_stream
                        else if isLocalTile then Option.bind s sn_localStream
                        else Option.bind s (\<lambda>h. sn_remoteCamera h cid));
              remote = (if isLocalTile then None else find_remote v cid)
          in (case stream of
                None \<Rightarrow> if isContentTile
                  then Some (Connecting (case owner of None \<Rightarrow> False | Some c \<Rightarrow> rc_isLocal c \<and> rc_waiting c)) else None
              | Some st \<Rightarrow> Some (Picture st
                  (isLocalTile \<and> \<not> isContentTile \<and> shouldMirrorLocalVideo i)
                  (if isContentTile then True
                   else if isLocalTile then (case vi_local i of None \<Rightarrow> True | Some l \<Rightarrow> vl_cameraEnabled l)
                   else (case remote of None \<Rightarrow> True | Some p \<Rightarrow> vr_cameraEnabled p))
                  (if isContentTile then False
                   else if isLocalTile then isMuted i
                   else (case remote of None \<Rightarrow> False | Some p \<Rightarrow> \<not> vr_audioEnabled p)))))"

section \<open>Effects\<close>

abbreviation view_tell :: "view_effect \<Rightarrow> view_act" where
  "view_tell e \<equiv> out (\<lambda>_. e)"

text \<open>Each effect gets the view as it was rendered.\<close>

definition camera_mode_effect :: "view \<Rightarrow> view_act" where
  "camera_mode_effect r =
     (let mode = map_option vl_cameraMode (vi_local (now_input r)) in
      whenS (\<lambda>v. cv_depsCamera v \<noteq> Some mode)
        (seqS
          [upd (\<lambda>v. v\<lparr> cv_depsCamera := Some mode \<rparr>),
           whenS (\<lambda>v. mode \<noteq> Some (cv_lastCameraMode v))
             (seqS
               [(if mode = Some ''world'' then upd (\<lambda>v. v\<lparr> cv_localLarge := True \<rparr>)
                 else if mode = Some ''selfie'' then upd (\<lambda>v. v\<lparr> cv_localLarge := False \<rparr>) else skipS),
                upd (\<lambda>v. v\<lparr> cv_lastCameraMode := default ''selfie'' mode \<rparr>)])]))"

definition badge_effect :: "view \<Rightarrow> view_act" where
  "badge_effect r =
     (let i = now_input r in
      whenS (\<lambda>v. cv_depsBadge v \<noteq> Some (vi_status i, vi_phase i))
        (seqS
          [upd (\<lambda>v. v\<lparr> cv_depsBadge := Some (vi_status i, vi_phase i), cv_badgeTimer := False \<rparr>),
           (if \<not> callActive i \<or> vi_status i = LinkConnected then upd (\<lambda>v. v\<lparr> cv_showBadge := False \<rparr>)
            else upd (\<lambda>v. v\<lparr> cv_badgeTimer := True \<rparr>))]))"

definition waiting_effect :: "view \<Rightarrow> view_act" where
  "waiting_effect r =
     (let i = now_input r; deps = (vi_phase i, length (remote_streams i), showReconnecting r) in
      whenS (\<lambda>v. cv_depsWaiting v \<noteq> Some deps)
        (seqS
          [upd (\<lambda>v. v\<lparr> cv_depsWaiting := Some deps, cv_waitingTimer := False \<rparr>),
           (if \<not> callActive i then upd (\<lambda>v. v\<lparr> cv_showWaiting := True \<rparr>)
            else if remote_streams i \<noteq> [] then upd (\<lambda>v. v\<lparr> cv_showWaiting := False \<rparr>)
            else if showReconnecting r then upd (\<lambda>v. v\<lparr> cv_showWaiting := False, cv_waitingTimer := True \<rparr>)
            else upd (\<lambda>v. v\<lparr> cv_showWaiting := True \<rparr>))]))"

definition chime_effect :: "view \<Rightarrow> view_act" where
  "chime_effect r =
     (let n = participantCount (now_input r) in
      whenS (\<lambda>v. cv_depsCount v \<noteq> Some n)
        (seqS
          [upd (\<lambda>v. v\<lparr> cv_depsCount := Some n \<rparr>),
           whenS (\<lambda>v. n > cv_prevCount v \<and> cv_prevCount v > 0 \<and> n > 1) (view_tell PlayChime),
           upd (\<lambda>v. v\<lparr> cv_prevCount := n \<rparr>)]))"

definition prune_effect :: "view \<Rightarrow> view_act" where
  "prune_effect r =
     (let cids = stream_cids (now_input r) in
      seqS
        [upd (\<lambda>v. let kept = filter (\<lambda>e. fst e \<in> set cids) (cv_aspects v) in
           if length kept = length (cv_aspects v) then v
           else v\<lparr> cv_aspects := kept, cv_aspectsRef := Suc (cv_aspectsRef v) \<rparr>),
         (case cv_pinned r of
            None \<Rightarrow> skipS
          | Some p \<Rightarrow>
              if p \<noteq> [] \<and> local_cid (now_input r) \<noteq> Some p \<and> p \<notin> set cids then upd (\<lambda>v. v\<lparr> cv_pinned := None \<rparr>) else skipS),
         (case cv_remoteContent r of
            None \<Rightarrow> skipS
          | Some c \<Rightarrow> if lg_cid c \<notin> set cids then upd (\<lambda>v. v\<lparr> cv_remoteContent := None \<rparr>) else skipS)])"

definition clearIdleHide :: view_act where
  "clearIdleHide = upd (\<lambda>v. v\<lparr> cv_idleTimer := False \<rparr>)"

definition scheduleIdleHide :: view_act where
  "scheduleIdleHide = whenS cv_autoHideEnabled (upd (\<lambda>v. v\<lparr> cv_idleTimer := True \<rparr>))"

definition show_controls :: view_act where
  "show_controls = upd (\<lambda>v. v\<lparr> cv_controlsVisible := True \<rparr>)"

definition controls_effect :: "view \<Rightarrow> view_act" where
  "controls_effect r =
     (let i = now_input r in
      whenS (\<lambda>v. cv_depsControls v \<noteq> Some (vi_autoHide i, vi_phase i))
        (seqS
          [upd (\<lambda>v. v\<lparr> cv_depsControls := Some (vi_autoHide i, vi_phase i) \<rparr>), clearIdleHide,
           (if \<not> callActive i then show_controls
            else seqS
              [upd (\<lambda>v. v\<lparr> cv_autoHideEnabled := vi_autoHide i, cv_hiddenByIdle := False \<rparr>), show_controls,
               scheduleIdleHide])]))"

definition next_order :: "string list \<Rightarrow> string list \<Rightarrow> string list" where
  "next_order active prev =
     (let kept = filter (\<lambda>c. c \<in> set active) prev in kept @ filter (\<lambda>c. c \<notin> set kept) active)"

text \<open>\<open>next.length === prev.length && next.every((cid, i) => cid === prev[i])\<close>.\<close>

definition order_unchanged :: "string list \<Rightarrow> string list \<Rightarrow> bool" where
  "order_unchanged nx prev = (length nx = length prev \<and> list_all (\<lambda>(cid, old). cid = old) (zip nx prev))"

definition order_effect :: "view \<Rightarrow> view_act" where
  "order_effect r =
     (let active = map rc_ownerId (cs_remotes (contentScene r)) in
      upd (\<lambda>v. let nx = next_order active (cv_contentOrder v) in
        if order_unchanged nx (cv_contentOrder v) then v
        else v\<lparr> cv_contentOrder := nx, cv_orderRef := Suc (cv_orderRef v) \<rparr>))"

definition stale_pin_effect :: "view \<Rightarrow> view_act" where
  "stale_pin_effect r =
     (case cv_pinnedTile r of
        None \<Rightarrow> skipS
      | Some key \<Rightarrow> if has_tile (stageTiles r) (stageTileId key) then skipS else upd (\<lambda>v. v\<lparr> cv_pinnedTile := None \<rparr>))"

definition commit :: view_act where
  "commit =
     letS (\<lambda>r. r) (\<lambda>r. seqS
       [camera_mode_effect r, badge_effect r, waiting_effect r, chime_effect r, prune_effect r, controls_effect r,
        order_effect r, stale_pin_effect r])"

text \<open>Until a render sets no state any more: three renders suffice (theorem \<open>renders_settle\<close>).\<close>

definition settle :: view_act where
  "settle = seqS [commit, commit, commit]"

section \<open>Handlers\<close>

definition handleControlsInteraction :: view_act where
  "handleControlsInteraction =
     seqS
       [show_controls,
        ifS cv_hiddenByIdle
          (seqS [upd (\<lambda>v. v\<lparr> cv_autoHideEnabled := False, cv_hiddenByIdle := False \<rparr>), clearIdleHide])
          scheduleIdleHide]"

definition handleScreenTap :: view_act where
  "handleScreenTap =
     ifS (\<lambda>v. \<not> vi_autoHide (now_input v)) (seqS [show_controls, clearIdleHide])
       (ifS cv_controlsVisible
         (seqS [upd (\<lambda>v. v\<lparr> cv_controlsVisible := False, cv_hiddenByIdle := False \<rparr>), clearIdleHide])
         (seqS
           [show_controls,
            ifS cv_hiddenByIdle
              (seqS [upd (\<lambda>v. v\<lparr> cv_autoHideEnabled := False, cv_hiddenByIdle := False \<rparr>), clearIdleHide])
              scheduleIdleHide]))"

definition has_session :: "view \<Rightarrow> bool" where
  "has_session v = (vi_session (cv_input v) \<noteq> None)"

definition ask :: "asked \<Rightarrow> capability list \<Rightarrow> view_act" where
  "ask use capabilities = seqS [view_tell (AskPermissions capabilities), upd (\<lambda>v. v\<lparr> cv_asked := cv_asked v @ [use] \<rparr>)]"

definition handleGrantPermissions :: view_act where
  "handleGrantPermissions =
     whenS has_session
       (letS (\<lambda>v. default [CameraCapability, MicrophoneCapability] (vi_required (now_input v))) (\<lambda>ps. ask ForResume ps))"

definition handleToggleVideo :: view_act where
  "handleToggleVideo =
     whenS has_session
       (ifS (\<lambda>v. isCameraOff (now_input v)) (ask ForVideo [CameraCapability])
         (seqS [view_tell ToggleVideo, handleControlsInteraction]))"

definition permission_answered :: "asked \<Rightarrow> bool \<Rightarrow> view_act" where
  "permission_answered use granted =
     whenS (\<lambda>v. use \<in> set (cv_asked v))
       (seqS
         [upd (\<lambda>v. v\<lparr> cv_asked := remove1 use (cv_asked v), cv_permissionDenied := \<not> granted \<rparr>),
          (case use of
             ForResume \<Rightarrow> if granted then view_tell ResumeJoin else skipS
           | ForVideo \<Rightarrow> seqS [(if granted then view_tell ToggleVideo else skipS), handleControlsInteraction])])"

definition handleLeave :: "bool \<Rightarrow> view_act" where
  "handleLeave hasOnEndCall =
     (if hasOnEndCall then view_tell EndCallCallback
      else seqS [whenS has_session (view_tell LeaveCall), view_tell DismissCallback])"

definition handleCancel :: view_act where
  "handleCancel = seqS [whenS has_session (view_tell CancelJoin), view_tell DismissCallback]"

definition handleToggleAudio :: view_act where
  "handleToggleAudio = seqS [whenS has_session (view_tell ToggleAudio), handleControlsInteraction]"

definition handleFlipCamera :: view_act where
  "handleFlipCamera = seqS [handleControlsInteraction, whenS has_session (view_tell FlipCamera)]"

definition handleToggleScreenShare :: view_act where
  "handleToggleScreenShare =
     whenS has_session
       (seqS [handleControlsInteraction,
              ifS (\<lambda>v. isSharingContent (now_input v)) (view_tell StopShare) (view_tell StartShare)])"

definition toggleRemoteFit :: view_act where
  "toggleRemoteFit =
     seqS
       [handleControlsInteraction,
        letS (\<lambda>v. if cv_fit v = Cover then Contain else Cover) (\<lambda>fit.
          seqS [upd (\<lambda>v. v\<lparr> cv_fit := fit \<rparr>), view_tell (PersistFit fit)])]"

definition toggleContentFit :: view_act where
  "toggleContentFit = seqS [handleControlsInteraction, upd (\<lambda>v. v\<lparr> cv_contentFitCover := \<not> cv_contentFitCover v \<rparr>)]"

definition handleSnapshot :: view_act where
  "handleSnapshot =
     seqS
       [handleControlsInteraction,
        letS primarySnapshotSource (\<lambda>source. case source of
          None \<Rightarrow> skipS
        | Some src \<Rightarrow> whenS has_session (seqS [upd (\<lambda>v. v\<lparr> cv_snapshotInFlight := True \<rparr>), view_tell (TakeSnapshot src)]))]"

definition togglePin :: "tile_key \<Rightarrow> view_act" where
  "togglePin key =
     upd (\<lambda>v. v\<lparr> cv_pinnedTile := (if stageTileKeyEquals (cv_pinnedTile v) (Some key) then None else Some key) \<rparr>)"

definition toggle_pinned :: "string \<Rightarrow> view_act" where
  "toggle_pinned cid = upd (\<lambda>v. v\<lparr> cv_pinned := (if cv_pinned v = Some cid then None else Some cid) \<rparr>)"

text \<open>A message of a peer about its content; \<open>None\<close> for a type that is none of the three.\<close>

definition content_message :: "string \<Rightarrow> bool \<Rightarrow> source_type option \<Rightarrow> view_act" where
  "content_message from active contentType =
     (case contentType of
        Some t \<Rightarrow>
          if active then upd (\<lambda>v. v\<lparr> cv_remoteContent := Some \<lparr> lg_cid = from, lg_contentType = t \<rparr> \<rparr>)
          else upd (\<lambda>v. if map_option lg_cid (cv_remoteContent v) = Some from then v\<lparr> cv_remoteContent := None \<rparr> else v)
      | None \<Rightarrow> upd (\<lambda>v. if map_option lg_cid (cv_remoteContent v) = Some from then v\<lparr> cv_remoteContent := None \<rparr> else v))"

definition debug_tap :: "rat \<Rightarrow> view_act" where
  "debug_tap now =
     seqS
       [upd (\<lambda>v. v\<lparr> cv_debugTimer := False \<rparr>),
        ifS (\<lambda>v. now - cv_debugTap v < 450)
          (upd (\<lambda>v. v\<lparr> cv_debugTap := 0, cv_showDebug := \<not> cv_showDebug v \<rparr>))
          (upd (\<lambda>v. v\<lparr> cv_debugTap := now, cv_debugTimer := True \<rparr>))]"

section \<open>The view as a state machine\<close>

datatype view_event =
    VRender view_input
  | VBadgeTimer
  | VWaitingTimer
  | VIdleTimer
  | VDebugTimer
  | VTap
  | VControls
  | VGrant
  | VAnswer asked bool
  | VCancel
  | VLeave bool
  | VAudio
  | VVideo
  | VFlip
  | VShare
  | VRemoteFit
  | VContentFit
  | VSnapshot
  | VSnapshotDone
  | VPinTile tile_key
  | VPin string
  | VPinInGrid string
  | VSwap bool
  | VAspect string rat
  | VViewport rat rat
  | VContentMessage string bool "source_type option"
  | VDebugTap rat

definition handle_view :: "view_event \<Rightarrow> view_act" where
  "handle_view e =
     (case e of
        VRender i \<Rightarrow> upd (\<lambda>v. v\<lparr> cv_input := i \<rparr>)
      | VBadgeTimer \<Rightarrow> whenS cv_badgeTimer (upd (\<lambda>v. v\<lparr> cv_badgeTimer := False, cv_showBadge := True \<rparr>))
      | VWaitingTimer \<Rightarrow> whenS cv_waitingTimer (upd (\<lambda>v. v\<lparr> cv_waitingTimer := False, cv_showWaiting := True \<rparr>))
      | VIdleTimer \<Rightarrow> whenS cv_idleTimer
          (upd (\<lambda>v. v\<lparr> cv_idleTimer := False, cv_hiddenByIdle := True, cv_controlsVisible := False \<rparr>))
      | VDebugTimer \<Rightarrow> whenS cv_debugTimer (upd (\<lambda>v. v\<lparr> cv_debugTimer := False, cv_debugTap := 0 \<rparr>))
      | VTap \<Rightarrow> handleScreenTap
      | VControls \<Rightarrow> handleControlsInteraction
      | VGrant \<Rightarrow> handleGrantPermissions
      | VAnswer use granted \<Rightarrow> permission_answered use granted
      | VCancel \<Rightarrow> handleCancel
      | VLeave hasOnEndCall \<Rightarrow> handleLeave hasOnEndCall
      | VAudio \<Rightarrow> handleToggleAudio
      | VVideo \<Rightarrow> handleToggleVideo
      | VFlip \<Rightarrow> handleFlipCamera
      | VShare \<Rightarrow> handleToggleScreenShare
      | VRemoteFit \<Rightarrow> toggleRemoteFit
      | VContentFit \<Rightarrow> toggleContentFit
      | VSnapshot \<Rightarrow> handleSnapshot
      | VSnapshotDone \<Rightarrow> upd (\<lambda>v. v\<lparr> cv_snapshotInFlight := False \<rparr>)
      | VPinTile key \<Rightarrow> togglePin key
      | VPin cid \<Rightarrow> toggle_pinned cid
      | VPinInGrid cid \<Rightarrow> upd (\<lambda>v. v\<lparr> cv_pinned := Some cid \<rparr>)
      | VSwap large \<Rightarrow> seqS [handleControlsInteraction, upd (\<lambda>v. v\<lparr> cv_localLarge := large \<rparr>)]
      | VAspect cid ratio \<Rightarrow> upd (\<lambda>v. if map_of (cv_aspects v) cid = Some ratio then v
          else v\<lparr> cv_aspects := AList.update cid ratio (cv_aspects v), cv_aspectsRef := Suc (cv_aspectsRef v) \<rparr>)
      | VViewport w h \<Rightarrow> upd (\<lambda>v. v\<lparr> cv_viewport := (max 0 (of_int \<lfloor>w\<rfloor>), max 0 (of_int \<lfloor>h\<rfloor>)) \<rparr>)
      | VContentMessage from active contentType \<Rightarrow> content_message from active contentType
      | VDebugTap now \<Rightarrow> debug_tap now)"

definition view_step :: "view \<Rightarrow> view_event \<Rightarrow> view \<times> view_effect list" where
  "view_step v e = seqS [handle_view e, settle] v"

text \<open>The first render.\<close>

definition mounted :: "view_input \<Rightarrow> fit \<Rightarrow> rat \<times> rat \<Rightarrow> view" where
  "mounted i persisted window = fst (settle
     \<lparr> cv_input = i, cv_permissionDenied = False, cv_localLarge = False, cv_controlsVisible = True, cv_showBadge = False,
       cv_showWaiting = True, cv_showDebug = False, cv_fit = persisted, cv_contentFitCover = False, cv_pinned = None,
       cv_pinnedTile = None, cv_remoteContent = None, cv_contentOrder = [], cv_orderRef = 0,
       cv_aspects = [], cv_aspectsRef = 0, cv_viewport = window,
       cv_snapshotInFlight = False,
       cv_lastCameraMode = default ''selfie'' (map_option vl_cameraMode (vi_local (effective i))),
       cv_idleTimer = False, cv_hiddenByIdle = False, cv_autoHideEnabled = True, cv_badgeTimer = False,
       cv_waitingTimer = False, cv_prevCount = 0, cv_debugTap = 0, cv_debugTimer = False, cv_asked = [],
       cv_depsCamera = None, cv_depsBadge = None, cv_depsWaiting = None, cv_depsCount = None, cv_depsControls = None \<rparr>)"

end
