(* ===== verification/Call_View_Claims.thy ===== *)
theory Call_View_Claims
  imports Call_View "HOL-Library.Multiset"
begin

text \<open>
  Properties of the call view: rendering settles, what is pinned and ordered exists, and the stage shows every stream
  once with the spotlight first - the composition of content resolution, stage tiles and layout.
\<close>

section \<open>What the effects change\<close>

lemmas effect_defs = camera_mode_effect_def badge_effect_def waiting_effect_def chime_effect_def prune_effect_def
  controls_effect_def order_effect_def stale_pin_effect_def

lemma now_input_input: "cv_input v = cv_input r \<Longrightarrow> now_input v = now_input r"
  by (simp add: now_input_def)

lemma camera_frame [simp]:
  "cv_input (fst (camera_mode_effect r v)) = cv_input v"
  "cv_showBadge (fst (camera_mode_effect r v)) = cv_showBadge v"
  "cv_showWaiting (fst (camera_mode_effect r v)) = cv_showWaiting v"
  "cv_pinned (fst (camera_mode_effect r v)) = cv_pinned v"
  "cv_pinnedTile (fst (camera_mode_effect r v)) = cv_pinnedTile v"
  "cv_remoteContent (fst (camera_mode_effect r v)) = cv_remoteContent v"
  "cv_contentOrder (fst (camera_mode_effect r v)) = cv_contentOrder v"
  "cv_aspects (fst (camera_mode_effect r v)) = cv_aspects v"
  "cv_badgeTimer (fst (camera_mode_effect r v)) = cv_badgeTimer v"
  "cv_waitingTimer (fst (camera_mode_effect r v)) = cv_waitingTimer v"
  "cv_idleTimer (fst (camera_mode_effect r v)) = cv_idleTimer v"
  "cv_autoHideEnabled (fst (camera_mode_effect r v)) = cv_autoHideEnabled v"
  "cv_depsCamera (fst (camera_mode_effect r v)) = Some (map_option vl_cameraMode (vi_local (now_input r)))"
  "cv_depsBadge (fst (camera_mode_effect r v)) = cv_depsBadge v"
  "cv_depsWaiting (fst (camera_mode_effect r v)) = cv_depsWaiting v"
  "cv_depsCount (fst (camera_mode_effect r v)) = cv_depsCount v"
  "cv_depsControls (fst (camera_mode_effect r v)) = cv_depsControls v"
  by (simp_all add: camera_mode_effect_def act_eval)

lemma badge_frame [simp]:
  "cv_input (fst (badge_effect r v)) = cv_input v"
  "cv_showWaiting (fst (badge_effect r v)) = cv_showWaiting v"
  "cv_pinned (fst (badge_effect r v)) = cv_pinned v"
  "cv_pinnedTile (fst (badge_effect r v)) = cv_pinnedTile v"
  "cv_remoteContent (fst (badge_effect r v)) = cv_remoteContent v"
  "cv_contentOrder (fst (badge_effect r v)) = cv_contentOrder v"
  "cv_aspects (fst (badge_effect r v)) = cv_aspects v"
  "cv_waitingTimer (fst (badge_effect r v)) = cv_waitingTimer v"
  "cv_idleTimer (fst (badge_effect r v)) = cv_idleTimer v"
  "cv_autoHideEnabled (fst (badge_effect r v)) = cv_autoHideEnabled v"
  "cv_depsCamera (fst (badge_effect r v)) = cv_depsCamera v"
  "cv_depsBadge (fst (badge_effect r v)) = Some (vi_status (now_input r), vi_phase (now_input r))"
  "cv_depsWaiting (fst (badge_effect r v)) = cv_depsWaiting v"
  "cv_depsCount (fst (badge_effect r v)) = cv_depsCount v"
  "cv_depsControls (fst (badge_effect r v)) = cv_depsControls v"
  by (simp_all add: badge_effect_def act_eval)

lemma waiting_frame [simp]:
  "cv_input (fst (waiting_effect r v)) = cv_input v"
  "cv_showBadge (fst (waiting_effect r v)) = cv_showBadge v"
  "cv_pinned (fst (waiting_effect r v)) = cv_pinned v"
  "cv_pinnedTile (fst (waiting_effect r v)) = cv_pinnedTile v"
  "cv_remoteContent (fst (waiting_effect r v)) = cv_remoteContent v"
  "cv_contentOrder (fst (waiting_effect r v)) = cv_contentOrder v"
  "cv_aspects (fst (waiting_effect r v)) = cv_aspects v"
  "cv_badgeTimer (fst (waiting_effect r v)) = cv_badgeTimer v"
  "cv_idleTimer (fst (waiting_effect r v)) = cv_idleTimer v"
  "cv_autoHideEnabled (fst (waiting_effect r v)) = cv_autoHideEnabled v"
  "cv_depsCamera (fst (waiting_effect r v)) = cv_depsCamera v"
  "cv_depsBadge (fst (waiting_effect r v)) = cv_depsBadge v"
  "cv_depsWaiting (fst (waiting_effect r v)) = Some (vi_phase (now_input r), length (remote_streams (now_input r)), showReconnecting r)"
  "cv_depsCount (fst (waiting_effect r v)) = cv_depsCount v"
  "cv_depsControls (fst (waiting_effect r v)) = cv_depsControls v"
  by (simp_all add: waiting_effect_def act_eval)

lemma chime_frame [simp]:
  "cv_input (fst (chime_effect r v)) = cv_input v"
  "cv_showBadge (fst (chime_effect r v)) = cv_showBadge v"
  "cv_showWaiting (fst (chime_effect r v)) = cv_showWaiting v"
  "cv_pinned (fst (chime_effect r v)) = cv_pinned v"
  "cv_pinnedTile (fst (chime_effect r v)) = cv_pinnedTile v"
  "cv_remoteContent (fst (chime_effect r v)) = cv_remoteContent v"
  "cv_contentOrder (fst (chime_effect r v)) = cv_contentOrder v"
  "cv_aspects (fst (chime_effect r v)) = cv_aspects v"
  "cv_badgeTimer (fst (chime_effect r v)) = cv_badgeTimer v"
  "cv_waitingTimer (fst (chime_effect r v)) = cv_waitingTimer v"
  "cv_idleTimer (fst (chime_effect r v)) = cv_idleTimer v"
  "cv_autoHideEnabled (fst (chime_effect r v)) = cv_autoHideEnabled v"
  "cv_depsCamera (fst (chime_effect r v)) = cv_depsCamera v"
  "cv_depsBadge (fst (chime_effect r v)) = cv_depsBadge v"
  "cv_depsWaiting (fst (chime_effect r v)) = cv_depsWaiting v"
  "cv_depsCount (fst (chime_effect r v)) = Some (participantCount (now_input r))"
  "cv_depsControls (fst (chime_effect r v)) = cv_depsControls v"
  by (simp_all add: chime_effect_def act_eval)

definition pruned_pin :: "view_input \<Rightarrow> string option \<Rightarrow> string option" where
  "pruned_pin i pin =
     (case pin of None \<Rightarrow> None
      | Some p \<Rightarrow> if p \<noteq> [] \<and> local_cid i \<noteq> Some p \<and> p \<notin> set (stream_cids i) then None else Some p)"

definition pruned_content :: "view_input \<Rightarrow> legacy_signal option \<Rightarrow> legacy_signal option" where
  "pruned_content i c = (case c of None \<Rightarrow> None | Some l \<Rightarrow> if lg_cid l \<notin> set (stream_cids i) then None else Some l)"

lemma filter_same_length: "length (filter P xs) = length xs \<Longrightarrow> filter P xs = xs"
  using length_filter_less [of _ xs P] by (fastforce simp: filter_id_conv)

definition aspects_ref :: "string list \<Rightarrow> view \<Rightarrow> nat" where
  "aspects_ref cids v = (if length (filter (\<lambda>e. fst e \<in> set cids) (cv_aspects v)) = length (cv_aspects v)
     then cv_aspectsRef v else Suc (cv_aspectsRef v))"

lemma pruned_aspects:
  "(let kept = filter (\<lambda>e. fst e \<in> set cids) (cv_aspects v) in
     if length kept = length (cv_aspects v) then v
     else v\<lparr> cv_aspects := kept, cv_aspectsRef := Suc (cv_aspectsRef v) \<rparr>) =
   v\<lparr> cv_aspects := filter (\<lambda>e. fst e \<in> set cids) (cv_aspects v), cv_aspectsRef := aspects_ref cids v \<rparr>"
proof (cases "filter (\<lambda>e. fst e \<in> set cids) (cv_aspects v) = cv_aspects v")
  case False
  then have "length (filter (\<lambda>e. fst e \<in> set cids) (cv_aspects v)) \<noteq> length (cv_aspects v)" using filter_same_length by blast
  then show ?thesis by (simp add: aspects_ref_def Let_def)
qed (simp add: aspects_ref_def)

lemma prune_frame [simp]:
  "cv_input (fst (prune_effect r v)) = cv_input v"
  "cv_showBadge (fst (prune_effect r v)) = cv_showBadge v"
  "cv_showWaiting (fst (prune_effect r v)) = cv_showWaiting v"
  "cv_pinnedTile (fst (prune_effect r v)) = cv_pinnedTile v"
  "cv_contentOrder (fst (prune_effect r v)) = cv_contentOrder v"
  "cv_aspects (fst (prune_effect r v)) = filter (\<lambda>e. fst e \<in> set (stream_cids (now_input r))) (cv_aspects v)"
  "cv_badgeTimer (fst (prune_effect r v)) = cv_badgeTimer v"
  "cv_waitingTimer (fst (prune_effect r v)) = cv_waitingTimer v"
  "cv_idleTimer (fst (prune_effect r v)) = cv_idleTimer v"
  "cv_autoHideEnabled (fst (prune_effect r v)) = cv_autoHideEnabled v"
  "cv_depsCamera (fst (prune_effect r v)) = cv_depsCamera v"
  "cv_depsBadge (fst (prune_effect r v)) = cv_depsBadge v"
  "cv_depsWaiting (fst (prune_effect r v)) = cv_depsWaiting v"
  "cv_depsCount (fst (prune_effect r v)) = cv_depsCount v"
  "cv_depsControls (fst (prune_effect r v)) = cv_depsControls v"
  "cv_pinned v = cv_pinned r \<Longrightarrow> cv_pinned (fst (prune_effect r v)) = pruned_pin (now_input r) (cv_pinned r)"
  "cv_remoteContent v = cv_remoteContent r \<Longrightarrow>
     cv_remoteContent (fst (prune_effect r v)) = pruned_content (now_input r) (cv_remoteContent r)"
  unfolding prune_effect_def pruned_aspects
  by (simp_all add: pruned_pin_def pruned_content_def act_eval split: option.split)

lemma controls_frame [simp]:
  "cv_input (fst (controls_effect r v)) = cv_input v"
  "cv_showBadge (fst (controls_effect r v)) = cv_showBadge v"
  "cv_showWaiting (fst (controls_effect r v)) = cv_showWaiting v"
  "cv_pinned (fst (controls_effect r v)) = cv_pinned v"
  "cv_pinnedTile (fst (controls_effect r v)) = cv_pinnedTile v"
  "cv_remoteContent (fst (controls_effect r v)) = cv_remoteContent v"
  "cv_contentOrder (fst (controls_effect r v)) = cv_contentOrder v"
  "cv_aspects (fst (controls_effect r v)) = cv_aspects v"
  "cv_badgeTimer (fst (controls_effect r v)) = cv_badgeTimer v"
  "cv_waitingTimer (fst (controls_effect r v)) = cv_waitingTimer v"
  "cv_depsCamera (fst (controls_effect r v)) = cv_depsCamera v"
  "cv_depsBadge (fst (controls_effect r v)) = cv_depsBadge v"
  "cv_depsWaiting (fst (controls_effect r v)) = cv_depsWaiting v"
  "cv_depsCount (fst (controls_effect r v)) = cv_depsCount v"
  "cv_depsControls (fst (controls_effect r v)) = Some (vi_autoHide (now_input r), vi_phase (now_input r))"
  by (simp_all add: controls_effect_def clearIdleHide_def show_controls_def scheduleIdleHide_def act_eval)

lemma order_unchanged_eq: "order_unchanged nx prev \<longleftrightarrow> nx = prev"
  by (auto simp: order_unchanged_def list_all_length intro: nth_equalityI)

definition order_ref :: "view \<Rightarrow> view \<Rightarrow> nat" where
  "order_ref r v = (if next_order (map rc_ownerId (cs_remotes (contentScene r))) (cv_contentOrder v) = cv_contentOrder v
     then cv_orderRef v else Suc (cv_orderRef v))"

lemma order_frame [simp]:
  "fst (order_effect r v) = v\<lparr> cv_contentOrder := next_order (map rc_ownerId (cs_remotes (contentScene r))) (cv_contentOrder v),
     cv_orderRef := order_ref r v \<rparr>"
  by (simp add: order_effect_def order_ref_def order_unchanged_eq act_eval)

definition kept_tile :: "view \<Rightarrow> tile_key option \<Rightarrow> tile_key option" where
  "kept_tile r pin = (case pin of None \<Rightarrow> None | Some key \<Rightarrow> if has_tile (stageTiles r) (stageTileId key) then Some key else None)"

lemma stale_frame [simp]:
  "cv_pinnedTile v = cv_pinnedTile r \<Longrightarrow> fst (stale_pin_effect r v) = v\<lparr> cv_pinnedTile := kept_tile r (cv_pinnedTile r) \<rparr>"
  by (simp add: stale_pin_effect_def kept_tile_def act_eval split: option.split)

lemma commit_fst:
  "fst (commit r) = fst (stale_pin_effect r (fst (order_effect r (fst (controls_effect r (fst (prune_effect r (fst (chime_effect r
     (fst (waiting_effect r (fst (badge_effect r (fst (camera_mode_effect r r)))))))))))))))"
  unfolding commit_def letS_def fst_seqS ..

lemma committed [simp]:
  "cv_input (fst (commit r)) = cv_input r"
  "cv_depsCamera (fst (commit r)) = Some (map_option vl_cameraMode (vi_local (now_input r)))"
  "cv_depsBadge (fst (commit r)) = Some (vi_status (now_input r), vi_phase (now_input r))"
  "cv_depsWaiting (fst (commit r)) = Some (vi_phase (now_input r), length (remote_streams (now_input r)), showReconnecting r)"
  "cv_depsCount (fst (commit r)) = Some (participantCount (now_input r))"
  "cv_depsControls (fst (commit r)) = Some (vi_autoHide (now_input r), vi_phase (now_input r))"
  "cv_aspects (fst (commit r)) = filter (\<lambda>e. fst e \<in> set (stream_cids (now_input r))) (cv_aspects r)"
  "cv_pinned (fst (commit r)) = pruned_pin (now_input r) (cv_pinned r)"
  "cv_remoteContent (fst (commit r)) = pruned_content (now_input r) (cv_remoteContent r)"
  "cv_contentOrder (fst (commit r)) = next_order (map rc_ownerId (cs_remotes (contentScene r))) (cv_contentOrder r)"
  "cv_pinnedTile (fst (commit r)) = kept_tile r (cv_pinnedTile r)"
  "cv_showBadge (fst (commit r)) = cv_showBadge (fst (badge_effect r (fst (camera_mode_effect r r))))"
  by (simp_all add: commit_fst)

section \<open>Rendering settles\<close>

definition stable :: "view \<Rightarrow> bool" where
  "stable r =
     (cv_depsCamera r = Some (map_option vl_cameraMode (vi_local (now_input r))) \<and>
      cv_depsBadge r = Some (vi_status (now_input r), vi_phase (now_input r)) \<and>
      cv_depsWaiting r = Some (vi_phase (now_input r), length (remote_streams (now_input r)), showReconnecting r) \<and>
      cv_depsCount r = Some (participantCount (now_input r)) \<and>
      cv_depsControls r = Some (vi_autoHide (now_input r), vi_phase (now_input r)) \<and>
      filter (\<lambda>e. fst e \<in> set (stream_cids (now_input r))) (cv_aspects r) = cv_aspects r \<and>
      pruned_pin (now_input r) (cv_pinned r) = cv_pinned r \<and>
      pruned_content (now_input r) (cv_remoteContent r) = cv_remoteContent r \<and>
      next_order (map rc_ownerId (cs_remotes (contentScene r))) (cv_contentOrder r) = cv_contentOrder r \<and>
      kept_tile r (cv_pinnedTile r) = cv_pinnedTile r)"

lemma thenS_nothing: "a s = (s, []) \<Longrightarrow> thenS a b s = b s"
  by (simp add: thenS_def Let_def)

lemma seqS_nothing: "seqS [] s = (s, [])" "a s = (s, []) \<Longrightarrow> seqS (a # as) s = seqS as s"
  by (simp_all add: skipS_def thenS_nothing)

lemma stable_effects:
  assumes "stable r"
  shows "camera_mode_effect r r = (r, [])" "badge_effect r r = (r, [])" "waiting_effect r r = (r, [])"
    "chime_effect r r = (r, [])" "prune_effect r r = (r, [])" "controls_effect r r = (r, [])"
    "order_effect r r = (r, [])" "stale_pin_effect r r = (r, [])"
proof -
  show "camera_mode_effect r r = (r, [])" "badge_effect r r = (r, [])" "waiting_effect r r = (r, [])"
    "chime_effect r r = (r, [])" "controls_effect r r = (r, [])"
    using assms by (simp_all add: stable_def effect_defs whenS_def ifS_def skipS_def Let_def)
  have aspects: "filter (\<lambda>e. fst e \<in> set (stream_cids (now_input r))) (cv_aspects r) = cv_aspects r"
    and pin: "pruned_pin (now_input r) (cv_pinned r) = cv_pinned r"
    and content: "pruned_content (now_input r) (cv_remoteContent r) = cv_remoteContent r"
    using assms by (simp_all add: stable_def)
  show "prune_effect r r = (r, [])"
    unfolding prune_effect_def Let_def
  proof (subst seqS_nothing(2), goal_cases)
    case 1
    show ?case unfolding upd_def aspects by simp
  next
    case 2
    show ?case
    proof (subst seqS_nothing(2), goal_cases)
      case 1
      show ?case using pin by (cases "cv_pinned r") (auto simp: pruned_pin_def skipS_def)
    next
      case 2
      show ?case
        using content by (subst seqS_nothing(2)) (cases "cv_remoteContent r", auto simp: pruned_content_def skipS_def)
    qed
  qed
  show "order_effect r r = (r, [])"
    using assms by (simp add: stable_def order_effect_def order_unchanged_eq upd_def Let_def)
  show "stale_pin_effect r r = (r, [])"
    using assms by (auto simp: stable_def stale_pin_effect_def kept_tile_def act_eval split: option.splits if_splits)
qed

lemma stable_commit: "stable r \<Longrightarrow> commit r = (r, [])"
  unfolding commit_def letS_def by (simp only: stable_effects seqS_nothing)

lemma reconnecting_committed: "showReconnecting (fst (commit r)) = showReconnecting r"
  by (auto simp: showReconnecting_def now_input_def badge_effect_def act_eval)

lemma scene_order:
  "cs_remotes (resolveContentScene (i\<lparr> ri_order := o1 \<rparr>)) = cs_remotes (resolveContentScene i)"
  "cs_all (resolveContentScene (i\<lparr> ri_order := o1 \<rparr>)) = cs_all (resolveContentScene i)"
proof -
  have "resolve_remote (i\<lparr> ri_order := o1 \<rparr>) = resolve_remote i"
    by (rule ext) (simp add: resolve_remote_def Let_def)
  then have "resolveRemoteContents (i\<lparr> ri_order := o1 \<rparr>) = resolveRemoteContents i"
    by (simp add: resolveRemoteContents_def)
  moreover have "resolveLocalContent (i\<lparr> ri_order := o1 \<rparr>) = resolveLocalContent i"
    by (cases "ri_local i") (simp_all add: resolveLocalContent_def Let_def)
  ultimately show "cs_remotes (resolveContentScene (i\<lparr> ri_order := o1 \<rparr>)) = cs_remotes (resolveContentScene i)"
    "cs_all (resolveContentScene (i\<lparr> ri_order := o1 \<rparr>)) = cs_all (resolveContentScene i)"
    by (simp_all add: resolveContentScene_def Let_def)
qed

lemma scene_same:
  assumes "cv_input v = cv_input r" and "cv_remoteContent v = cv_remoteContent r"
  shows "cs_remotes (contentScene v) = cs_remotes (contentScene r)" "cs_all (contentScene v) = cs_all (contentScene r)"
    "stageTiles v = stageTiles r"
proof -
  have "content_input v = (content_input r)\<lparr> ri_order := Some (cv_contentOrder v) \<rparr>"
    using assms by (simp add: content_input_def now_input_def Let_def)
  then show "cs_remotes (contentScene v) = cs_remotes (contentScene r)" "cs_all (contentScene v) = cs_all (contentScene r)"
    by (simp_all add: contentScene_def scene_order)
  then show "stageTiles v = stageTiles r"
    using assms
    by (cases "local_cid (effective (cv_input r))")
      (simp_all add: stageTiles_def streamKeyedStageActive_def stage_cameras_def now_input_def)
qed

lemma next_order_idem: "next_order active (next_order active prev) = next_order active prev"
  by (auto simp: next_order_def Let_def filter_empty_conv intro!: filter_cong)

lemma set_next_order: "set (next_order active prev) = set active"
  by (auto simp: next_order_def Let_def)

lemma pruned_idem: "pruned_pin i (pruned_pin i p) = pruned_pin i p" "pruned_content i (pruned_content i c) = pruned_content i c"
  by (simp_all add: pruned_pin_def pruned_content_def split: option.split)

lemma twice_stable: "stable (fst (commit (fst (commit r))))"
proof -
  let ?a = "fst (commit r)" and ?b = "fst (commit (fst (commit r)))"
  have now: "now_input ?a = now_input r" "now_input ?b = now_input r" by (simp_all add: now_input_def)
  have rec: "showReconnecting ?b = showReconnecting ?a" by (rule reconnecting_committed)
  have rc: "cv_remoteContent ?b = cv_remoteContent ?a" using now by (simp add: pruned_idem)
  have same: "cs_remotes (contentScene ?b) = cs_remotes (contentScene ?a)" "stageTiles ?b = stageTiles ?a"
    using scene_same [of ?b ?a] rc by simp_all
  have tile: "kept_tile ?b (kept_tile ?a x) = kept_tile ?a x" for x
    using same(2) by (simp add: kept_tile_def split: option.split)
  show ?thesis
    unfolding stable_def using now rec same tile by (simp add: next_order_idem pruned_idem)
qed

text \<open>C26: Rendering settles: whatever the view was, after two renders a further render sets no state and acts no more, and it
  makes no new array or object either, so React has nothing left to render and no sequence of events makes the view
  render without end.\<close>

theorem renders_settle:
  "commit (fst (commit (fst (commit v)))) = (fst (commit (fst (commit v))), []) \<and>
   commit (fst (view_step v e)) = (fst (view_step v e), [])"
proof -
  have two: "commit (fst (commit (fst (commit v)))) = (fst (commit (fst (commit v))), [])" for v
    by (rule stable_commit [OF twice_stable])
  have three: "fst (settle v) = fst (commit (fst (commit v)))" for v
    by (simp only: settle_def fst_seqS two fst_conv)
  have "fst (view_step v e) = fst (settle (fst (handle_view e v)))"
    by (simp only: view_step_def fst_seqS)
  then show ?thesis using two three by simp
qed

section \<open>Timers, badges and pins\<close>

definition active_phase :: "stage_phase \<Rightarrow> bool" where
  "active_phase p = (p = SpWaiting \<or> p = SpInCall)"

text \<open>What timers and the badge rely on, in terms of what the effects saw last.\<close>

definition timers_grounded :: "view \<Rightarrow> bool" where
  "timers_grounded v =
     ((cv_showBadge v \<or> cv_badgeTimer v \<longrightarrow>
        (case cv_depsBadge v of None \<Rightarrow> False | Some (st, p) \<Rightarrow> active_phase p \<and> st \<noteq> LinkConnected)) \<and>
      (cv_waitingTimer v \<longrightarrow> (case cv_depsWaiting v of None \<Rightarrow> False | Some (p, n, rec) \<Rightarrow> n = 0 \<and> rec)) \<and>
      (cv_idleTimer v \<longrightarrow> cv_autoHideEnabled v))"

lemma effects_grounded [keeps]:
  "keeping timers_grounded (camera_mode_effect r)" "keeping timers_grounded (badge_effect r)"
  "keeping timers_grounded (waiting_effect r)" "keeping timers_grounded (chime_effect r)"
  "keeping timers_grounded (prune_effect r)" "keeping timers_grounded (controls_effect r)"
  "keeping timers_grounded (order_effect r)" "keeping timers_grounded (stale_pin_effect r)"
proof -
  show "keeping timers_grounded (camera_mode_effect r)" "keeping timers_grounded (chime_effect r)"
    "keeping timers_grounded (prune_effect r)" "keeping timers_grounded (order_effect r)"
    by (rule keepingI, simp add: timers_grounded_def)+
  show "keeping timers_grounded (badge_effect r)"
    by (rule keepingI) (auto simp: timers_grounded_def badge_effect_def act_eval callActive_def active_phase_def)
  show "keeping timers_grounded (waiting_effect r)"
    by (rule keepingI) (auto simp: timers_grounded_def waiting_effect_def act_eval)
  show "keeping timers_grounded (controls_effect r)"
    by (rule keepingI)
      (auto simp: timers_grounded_def controls_effect_def clearIdleHide_def show_controls_def scheduleIdleHide_def act_eval)
  show "keeping timers_grounded (stale_pin_effect r)"
    by (rule keepingI) (auto simp: timers_grounded_def stale_pin_effect_def act_eval split: option.split)
qed

lemma commit_grounded [keeps]: "keeping timers_grounded commit"
  unfolding commit_def by (intro keeping_letS keeping_seqS) (auto intro: keeps)

lemma controls_grounded [keeps]:
  "keeping timers_grounded handleControlsInteraction" "keeping timers_grounded handleScreenTap"
  by (rule keepingI, auto simp: timers_grounded_def handleControlsInteraction_def handleScreenTap_def clearIdleHide_def
      show_controls_def scheduleIdleHide_def act_eval)+

text \<open>A statement that changes none of the fields in question.\<close>

definition grounds :: "view \<Rightarrow> bool \<times> bool \<times> bool \<times> bool \<times> bool" where
  "grounds v = (cv_showBadge v, cv_badgeTimer v, cv_waitingTimer v, cv_idleTimer v, cv_autoHideEnabled v)"

lemma grounded_upd:
  assumes "\<And>v. grounds (f v) = grounds v" "\<And>v. cv_depsBadge (f v) = cv_depsBadge v" "\<And>v. cv_depsWaiting (f v) = cv_depsWaiting v"
  shows "keeping timers_grounded (upd f)"
  using assms by (intro keeping_upd) (simp add: timers_grounded_def grounds_def)

lemmas statement_keeps = keeping_thenS keeping_whenS keeping_ifS keeping_letS keeping_skipS keeping_out

lemma ask_grounded [keeps]: "keeping timers_grounded (ask use cs)"
  unfolding ask_def seqS.simps by (intro statement_keeps grounded_upd) (simp_all add: grounds_def)

lemma handlers_keep [keeps]:
  "keeping timers_grounded handleGrantPermissions" "keeping timers_grounded handleToggleVideo"
  "keeping timers_grounded (handleLeave b)" "keeping timers_grounded handleCancel" "keeping timers_grounded handleToggleAudio"
  "keeping timers_grounded handleFlipCamera" "keeping timers_grounded handleToggleScreenShare"
  unfolding handleGrantPermissions_def handleToggleVideo_def handleLeave_def handleCancel_def handleToggleAudio_def
    handleFlipCamera_def handleToggleScreenShare_def seqS.simps
  by (auto intro!: statement_keeps ask_grounded controls_grounded)

lemma answer_grounded [keeps]: "keeping timers_grounded (permission_answered use granted)"
  unfolding permission_answered_def seqS.simps
  by (cases use; cases granted; simp only: asked.case if_True if_False;
      intro statement_keeps controls_grounded grounded_upd; simp add: grounds_def)

lemma toggles_keep [keeps]:
  "keeping timers_grounded toggleRemoteFit" "keeping timers_grounded toggleContentFit" "keeping timers_grounded (togglePin key)"
  "keeping timers_grounded (toggle_pinned cid)" "keeping timers_grounded (debug_tap now)"
  unfolding toggleRemoteFit_def toggleContentFit_def togglePin_def toggle_pinned_def debug_tap_def seqS.simps
  by (intro statement_keeps controls_grounded grounded_upd; simp add: grounds_def)+

lemma snapshot_grounded [keeps]: "keeping timers_grounded handleSnapshot"
proof -
  have "keeping timers_grounded (case source of None \<Rightarrow> skipS
      | Some src \<Rightarrow> whenS has_session (seqS [upd (\<lambda>v. v\<lparr> cv_snapshotInFlight := True \<rparr>), view_tell (TakeSnapshot src)]))" for source
    unfolding seqS.simps
    by (cases source; simp only: option.case; intro statement_keeps grounded_upd; simp add: grounds_def)
  then show ?thesis unfolding handleSnapshot_def seqS.simps by (intro statement_keeps controls_grounded)
qed

lemma message_grounded [keeps]: "keeping timers_grounded (content_message from active contentType)"
  unfolding content_message_def
  by (cases contentType; cases active; simp only: option.case if_True if_False; rule grounded_upd; simp add: grounds_def)

lemma timers_keep: "e \<in> {VBadgeTimer, VWaitingTimer, VIdleTimer} \<Longrightarrow> keeping timers_grounded (handle_view e)"
proof -
  have "keeping timers_grounded (handle_view VBadgeTimer)" "keeping timers_grounded (handle_view VWaitingTimer)"
    "keeping timers_grounded (handle_view VIdleTimer)"
    by (rule keepingI, simp add: handle_view_def timers_grounded_def whenS_def ifS_def upd_def skipS_def)+
  then show "e \<in> {VBadgeTimer, VWaitingTimer, VIdleTimer} \<Longrightarrow> keeping timers_grounded (handle_view e)" by blast
qed

lemma updates_keep:
  "keeping timers_grounded (upd (\<lambda>v. v\<lparr> cv_input := i \<rparr>))"
  "keeping timers_grounded (upd (\<lambda>v. v\<lparr> cv_debugTimer := False, cv_debugTap := 0 \<rparr>))"
  "keeping timers_grounded (upd (\<lambda>v. v\<lparr> cv_snapshotInFlight := False \<rparr>))"
  "keeping timers_grounded (upd (\<lambda>v. v\<lparr> cv_pinned := Some cid \<rparr>))"
  "keeping timers_grounded (upd (\<lambda>v. v\<lparr> cv_localLarge := large \<rparr>))"
  "keeping timers_grounded (upd (\<lambda>v. if map_of (cv_aspects v) cid = Some ratio then v
     else v\<lparr> cv_aspects := AList.update cid ratio (cv_aspects v), cv_aspectsRef := Suc (cv_aspectsRef v) \<rparr>))"
  "keeping timers_grounded (upd (\<lambda>v. v\<lparr> cv_viewport := (w, h) \<rparr>))"
  by (rule grounded_upd; simp add: grounds_def)+

lemma handlers_grounded: "keeping timers_grounded (handle_view e)"
proof (cases "e \<in> {VBadgeTimer, VWaitingTimer, VIdleTimer}")
  case False
  show ?thesis
  proof (cases e)
    case (VSwap large)
    show ?thesis
      unfolding VSwap handle_view_def view_event.case seqS.simps
      by (intro keeping_thenS keeping_skipS controls_grounded updates_keep)
  qed (use False in \<open>simp_all add: handle_view_def controls_grounded ask_grounded handlers_keep answer_grounded toggles_keep
      snapshot_grounded message_grounded updates_keep keeping_whenS\<close>)
qed (rule timers_keep)

lemma step_grounded: "timers_grounded v \<Longrightarrow> timers_grounded (fst (view_step v e))"
proof -
  have "keeping timers_grounded (seqS [handle_view e, settle])"
    unfolding settle_def by (intro keeping_seqS) (auto intro!: keeps keeping_seqS handlers_grounded)
  then show "timers_grounded v \<Longrightarrow> timers_grounded (fst (view_step v e))" by (simp add: keepingD view_step_def)
qed

lemma mounted_grounded: "timers_grounded (mounted i persisted window)"
proof -
  have "keeping timers_grounded settle" unfolding settle_def by (intro keeping_seqS) (auto intro!: keeps)
  then show ?thesis unfolding mounted_def by (rule keepingD) (simp add: timers_grounded_def)
qed

interpretation call_view: reactive view_step "\<lambda>v. timers_grounded v \<and> stable v"
proof
  fix v e
  have "stable (fst (settle w))" for w
    using twice_stable [of w] stable_commit [OF twice_stable [of w]] by (simp only: settle_def fst_seqS fst_conv)
  then have "stable (fst (view_step v e))" by (simp only: view_step_def fst_seqS)
  then show "timers_grounded v \<and> stable v \<Longrightarrow> timers_grounded (fst (view_step v e)) \<and> stable (fst (view_step v e))"
    using step_grounded by blast
qed

definition view_after :: "view_input \<Rightarrow> fit \<Rightarrow> rat \<times> rat \<Rightarrow> view_event list \<Rightarrow> view" where
  "view_after i persisted window es = fst (run view_step (mounted i persisted window) es)"

lemma view_after_inv: "timers_grounded (view_after i p w es) \<and> stable (view_after i p w es)"
  unfolding view_after_def
proof (rule call_view.run_inv)
  have "stable (fst (settle v))" for v
    using twice_stable [of v] stable_commit [OF twice_stable [of v]] by (simp only: settle_def fst_seqS fst_conv)
  then show "timers_grounded (mounted i p w) \<and> stable (mounted i p w)" using mounted_grounded by (simp add: mounted_def)
qed

lemma kept_present: "kept_tile r t = t \<Longrightarrow> pred_option (\<lambda>key. has_tile (stageTiles r) (stageTileId key)) t"
  by (cases t) (auto simp: kept_tile_def split: if_splits)

lemma pinned_present: "pruned_pin i p = p \<Longrightarrow> pred_option (\<lambda>p. p = [] \<or> local_cid i = Some p \<or> p \<in> set (stream_cids i)) p"
  by (cases p) (auto simp: pruned_pin_def split: if_splits)

lemma kept_keys: "filter (\<lambda>e. fst e \<in> S) m = m \<Longrightarrow> fst ` set m \<subseteq> S"
  by (auto simp: filter_id_conv)

lemma signalled_present: "pruned_content i c = c \<Longrightarrow> pred_option (\<lambda>c. lg_cid c \<in> set (stream_cids i)) c"
  by (cases c) (auto simp: pruned_content_def split: if_splits)

text \<open>What a settled view shows is there: pins, signals and the order of shares.\<close>

definition view_consistent :: "view \<Rightarrow> bool" where
  "view_consistent v =
     (pred_option (\<lambda>key. has_tile (stageTiles v) (stageTileId key)) (cv_pinnedTile v) \<and>
      pred_option (\<lambda>p. p = [] \<or> local_cid (now_input v) = Some p \<or> p \<in> set (stream_cids (now_input v))) (cv_pinned v) \<and>
      pred_option (\<lambda>c. lg_cid c \<in> set (stream_cids (now_input v))) (cv_remoteContent v) \<and>
      set (cv_contentOrder v) = rc_ownerId ` set (cs_remotes (contentScene v)) \<and>
      fst ` set (cv_aspects v) \<subseteq> set (stream_cids (now_input v)) \<and>
      (cv_showBadge v \<or> cv_badgeTimer v \<longrightarrow> callActive (now_input v) \<and> vi_status (now_input v) \<noteq> LinkConnected) \<and>
      (cv_waitingTimer v \<longrightarrow> showReconnecting v \<and> remote_streams (now_input v) = []) \<and>
      (cv_idleTimer v \<longrightarrow> cv_autoHideEnabled v))"

text \<open>C25: The state of the call view fits what it shows: after any renders, timers, gestures, messages and answers, a pinned
  tile is on the stage, a pinned participant and a signalled sharer have a stream, the order of shares lists exactly
  the remote sharers, the connection badge shows or is about to show only in a call that is not connected, and the
  overlay's timer runs only while the view is reconnecting with nobody there.\<close>

theorem call_view_consistent: "view_consistent (view_after i persisted window es)"
proof -
  define v where "v = view_after i persisted window es"
  have inv: "timers_grounded v" "stable v" unfolding v_def using view_after_inv by blast+
  have facts: "kept_tile v (cv_pinnedTile v) = cv_pinnedTile v" "pruned_pin (now_input v) (cv_pinned v) = cv_pinned v"
    "pruned_content (now_input v) (cv_remoteContent v) = cv_remoteContent v"
    "next_order (map rc_ownerId (cs_remotes (contentScene v))) (cv_contentOrder v) = cv_contentOrder v"
    "filter (\<lambda>e. fst e \<in> set (stream_cids (now_input v))) (cv_aspects v) = cv_aspects v"
    using inv(2) unfolding stable_def by blast+
  have "set (cv_contentOrder v) = rc_ownerId ` set (cs_remotes (contentScene v))"
    using set_next_order [of "map rc_ownerId (cs_remotes (contentScene v))" "cv_contentOrder v"] facts(4) by simp
  moreover have "fst ` set (cv_aspects v) \<subseteq> set (stream_cids (now_input v))" by (rule kept_keys [OF facts(5)])
  moreover have "cv_showBadge v \<or> cv_badgeTimer v \<longrightarrow> callActive (now_input v) \<and> vi_status (now_input v) \<noteq> LinkConnected"
    using inv by (auto simp: timers_grounded_def stable_def callActive_def active_phase_def)
  moreover have "cv_waitingTimer v \<longrightarrow> showReconnecting v \<and> remote_streams (now_input v) = []"
    using inv by (auto simp: timers_grounded_def stable_def)
  moreover have "cv_idleTimer v \<longrightarrow> cv_autoHideEnabled v" using inv(1) by (simp add: timers_grounded_def)
  ultimately show ?thesis
    unfolding v_def [symmetric] view_consistent_def
    using kept_present [OF facts(1)] pinned_present [OF facts(2)] signalled_present [OF facts(3)] by blast
qed

section \<open>The stage shows every stream\<close>

text \<open>What the session guarantees of ids: they are not empty, and nobody is listed twice.\<close>

definition view_sane :: "view_input \<Rightarrow> bool" where
  "view_sane i =
     (distinct (stream_cids i) \<and> distinct (map vr_cid (vi_remotes i)) \<and>
      list_all (\<lambda>c. c \<noteq> []) (stream_cids i @ map vr_cid (vi_remotes i)) \<and>
      (case vi_local i of None \<Rightarrow> True
       | Some l \<Rightarrow> vl_cid l \<noteq> [] \<and> vl_cid l \<notin> set (stream_cids i) \<and> vl_cid l \<notin> set (map vr_cid (vi_remotes i))))"

lemma resolved_owner: "resolve_remote input r = Some c \<Longrightarrow> rc_ownerId c = cr_cid r"
  by (auto simp: resolve_remote_def Let_def split: if_splits)

lemma resolved_local_owner: "resolveLocalContent input = Some c \<Longrightarrow> map_option cl_cid (ri_local input) = Some (rc_ownerId c)"
  using local_owner [of input "rc_ownerId c"] by auto

lemma distinct_owners:
  assumes "distinct (map cr_cid rs)"
  shows "distinct (map rc_ownerId (List.map_filter (resolve_remote input) rs))"
  using assms
proof (induction rs)
  case (Cons r rs)
  have "rc_ownerId ` set (List.map_filter (resolve_remote input) rs) \<subseteq> cr_cid ` set rs"
    by (force simp: set_map_filter dest: resolved_owner)
  moreover have "cr_cid r \<notin> cr_cid ` set rs" using Cons.prems by simp
  ultimately have "cr_cid r \<notin> rc_ownerId ` set (List.map_filter (resolve_remote input) rs)" by blast
  then show ?case
    using Cons by (cases "resolve_remote input r") (auto simp: List.map_filter_simps dest: resolved_owner)
qed (simp add: List.map_filter_simps)

lemma scene_owners:
  "cs_all (contentScene v) = resolveRemoteContents (content_input v) @
     (case resolveLocalContent (content_input v) of None \<Rightarrow> [] | Some l \<Rightarrow> [l])"
  by (simp add: contentScene_def resolveContentScene_def Let_def split: option.split)

lemma stage_owners_distinct:
  assumes "view_sane (now_input v)" and "local_cid (now_input v) = Some cid"
  shows "owners_distinct (stage_cameras v cid) (cs_all (contentScene v))"
proof -
  let ?i = "now_input v" and ?c = "content_input v"
  obtain l where l: "vi_local ?i = Some l" "vl_cid l = cid" using assms(2) by (auto simp: local_cid_def)
  have cids: "map cr_cid (ri_remotes ?c) = map vr_cid (vi_remotes ?i)" by (simp add: content_input_def Let_def o_def)
  have remote: "rc_ownerId r \<in> set (map vr_cid (vi_remotes ?i))" if "r \<in> set (resolveRemoteContents ?c)" for r
    using that resolved_owner unfolding cids [symmetric] in_remote_contents by fastforce
  have own: "rc_ownerId r = cid" if "resolveLocalContent ?c = Some r" for r
    using resolved_local_owner [OF that] l by (simp add: content_input_def Let_def)
  have "distinct (map rc_ownerId (resolveRemoteContents ?c))"
    using assms(1) distinct_owners [of "ri_remotes ?c" ?c] cids by (simp add: resolveRemoteContents_def view_sane_def)
  moreover have "cid \<notin> set (map vr_cid (vi_remotes ?i))" using assms(1) l by (simp add: view_sane_def)
  then have "cid \<notin> rc_ownerId ` set (resolveRemoteContents ?c)" using remote by blast
  ultimately have "distinct (map rc_ownerId (cs_all (contentScene v)))"
    using own by (cases "resolveLocalContent ?c") (simp_all add: scene_owners)
  moreover have "distinct (map cp_cid (stage_cameras v cid))" "list_all (\<lambda>c. cp_cid c \<noteq> []) (stage_cameras v cid)"
    using assms(1) l by (simp_all add: stage_cameras_def view_sane_def o_def list_all_iff)
  moreover have "rc_ownerId r \<noteq> []" if "r \<in> set (cs_all (contentScene v))" for r
  proof (cases "r \<in> set (resolveRemoteContents ?c)")
    case True
    then have "rc_ownerId r \<in> set (map vr_cid (vi_remotes ?i))" by (rule remote)
    then show ?thesis using assms(1) by (auto simp: view_sane_def list_all_iff)
  next
    case False
    then have "rc_ownerId r = cid" using that own by (cases "resolveLocalContent ?c") (auto simp: scene_owners)
    then show ?thesis using assms(1) l by (simp add: view_sane_def)
  qed
  ultimately show ?thesis by (simp add: owners_distinct_def list_all_iff)
qed

text \<open>The tiles a stage should have: a camera for everybody with a stream and for oneself, a share for every sharer of an
  independent stream.\<close>

definition stage_ids :: "view \<Rightarrow> string \<Rightarrow> string set" where
  "stage_ids v cid =
     (\<lambda>c. stageTileId \<lparr> tk_cid = c, tk_kind = CameraKind \<rparr>) ` insert cid (set (stream_cids (now_input v))) \<union>
     (\<lambda>c. stageTileId \<lparr> tk_cid = rc_ownerId c, tk_kind = ContentKind \<rparr>) `
       {c \<in> set (cs_all (contentScene v)). rc_mode c = Independent}"

lemma derived_ids:
  "se_id ` set (deriveStageTiles (stage_cameras v cid) (cs_all (contentScene v))) = stage_ids v cid"
  by (auto simp: deriveStageTiles_def stage_cameras_def stage_ids_def image_Un image_image)

lemma stage_distinct:
  assumes "owners_distinct cameras content"
  shows "distinct (map se_id (deriveStageTiles cameras content))"
proof -
  have d: "distinct (map cp_cid (filter c cameras))" "distinct (map rc_ownerId (filter i content))" for c i
    using assms by (simp_all add: owners_distinct_def distinct_map_filter)
  have "cp_cid x \<noteq> cp_cid y" if "x \<in> set cameras" "y \<in> set cameras" "cp_isLocal x \<noteq> cp_isLocal y" for x y
    using assms that by (auto simp: owners_distinct_def distinct_map inj_on_def)
  then show ?thesis using d by (auto simp: deriveStageTiles_def o_def distinct_entry_ids stageTileId_inj)
qed

lemma focus_layout:
  assumes "length (stageTiles v) \<ge> 2" and "has_tile (stageTiles v) spotlight"
  shows "\<exists>ps :: scene_participant list. lr_localPip (computeLayout (stage_scene v spotlight)) = None \<and>
    map tl_id (lr_tiles (computeLayout (stage_scene v spotlight))) = spotlight # map pa_id ps \<and>
    mset (map pa_id ps) = mset (filter (\<lambda>i. i \<noteq> spotlight) (map se_id (stageTiles v)))"
proof -
  let ?s = "stage_scene v spotlight"
  have ids: "map pa_id (sc_participants ?s) = map se_id (stageTiles v)" by (simp add: stage_scene_def o_def)
  have mode: "deriveMode ?s = Focus" using assms(1) by (simp add: deriveMode_def stage_scene_def)
  obtain p where p: "find (\<lambda>p. Some (pa_id p) = sc_pinnedParticipantId ?s) (sc_participants ?s) = Some p" "pa_id p = spotlight"
  proof -
    have "spotlight \<in> set (map pa_id (sc_participants ?s))" unfolding ids using assms(2) by (auto simp: has_tile_def list_ex_iff)
    then have "find (\<lambda>p. pa_id p = spotlight) (sc_participants ?s) \<noteq> None" by (auto simp: find_None_iff)
    then show ?thesis using that by (auto simp: stage_scene_def find_Some_iff)
  qed
  define rest where "rest = filter (\<lambda>p. pa_id p \<noteq> spotlight) (sc_participants ?s)"
  have rest: "map pa_id rest = filter (\<lambda>i. i \<noteq> spotlight) (map se_id (stageTiles v))"
    unfolding rest_def ids [symmetric] by (simp add: filter_map o_def)
  define ps where "ps = participantsStableOrder rest (sc_localParticipantId ?s)"
  have layout: "computeLayout ?s = layout_filmstrip ?s Focus spotlight ParticipantTile spotlight
      (deviceGroup (sc_viewportWidth ?s) (sc_viewportHeight ?s))"
    by (subst computeLayout.simps) (simp add: mode p Let_def)
  have "map tl_id (lr_tiles (computeLayout ?s)) = spotlight # map pa_id ps"
    unfolding layout layout_filmstrip_def ps_def rest_def by (simp add: filmstrip_ids)
  moreover have "mset (map pa_id ps) = mset (map pa_id rest)"
    unfolding ps_def participantsStableOrder_def mset_map by (simp add: union_commute)
  moreover have "lr_localPip (computeLayout ?s) = None" unfolding layout by (simp add: layout_filmstrip_def)
  ultimately show ?thesis unfolding rest [symmetric] by (intro exI [of _ ps] conjI)
qed

lemma tiles_of_stage:
  assumes "local_cid (now_input v) = Some cid" and "cid \<noteq> []" and "streamKeyedStageActive v"
  shows "stageTiles v = deriveStageTiles (stage_cameras v cid) (cs_all (contentScene v))"
  using assms by (simp add: stageTiles_def)

lemma stage_not_trivial:
  assumes "streamKeyedStageActive v" and "local_cid (now_input v) = Some cid" and "cid \<noteq> []"
  shows "length (stageTiles v) \<ge> 2"
proof -
  obtain c where "c \<in> set (cs_all (contentScene v))" "rc_mode c = Independent"
    using assms(1) by (auto simp: streamKeyedStageActive_def list_ex_iff)
  then have "filter (\<lambda>c. rc_mode c = Independent) (cs_all (contentScene v)) \<noteq> []" by (auto simp: filter_empty_conv)
  then have "length (filter (\<lambda>c. rc_mode c = Independent) (cs_all (contentScene v))) \<ge> 1"
    by (cases "filter (\<lambda>c. rc_mode c = Independent) (cs_all (contentScene v))") simp_all
  then show ?thesis
    unfolding tiles_of_stage [OF assms(2,3,1)] by (simp add: deriveStageTiles_def stage_cameras_def)
qed

text \<open>C24: The stage shows every stream once: whenever somebody shares a stream of its own, the layout consists of one tile
  for the camera of each participant with a stream, one for the local camera, and one for each such share, each
  exactly once and nothing else, and the first tile, the large one, is the spotlight - the pinned tile if there is
  one on the stage.\<close>

theorem stage_shows_every_stream:
  assumes "view_sane (now_input v)" and "local_cid (now_input v) = Some cid" and "streamKeyedStageActive v"
  shows "\<exists>layout spotlight rest. computedLayout v = Some layout \<and> stageSpotlightId v = Some spotlight \<and>
    map tl_id (lr_tiles layout) = spotlight # rest \<and> lr_localPip layout = None \<and>
    distinct (spotlight # rest) \<and> set (spotlight # rest) = stage_ids v cid \<and>
    (case cv_pinnedTile v of None \<Rightarrow> True
     | Some key \<Rightarrow> spotlight = stageTileId key \<or> stageTileId key \<notin> stage_ids v cid)"
proof -
  have cid: "cid \<noteq> []" using assms(1,2) by (auto simp: view_sane_def local_cid_def)
  note tiles = tiles_of_stage [OF assms(2) cid assms(3)]
  have ids: "se_id ` set (stageTiles v) = stage_ids v cid" unfolding tiles by (rule derived_ids)
  have distinct: "distinct (map se_id (stageTiles v))"
    unfolding tiles by (rule stage_distinct [OF stage_owners_distinct [OF assms(1,2)]])
  have two: "length (stageTiles v) \<ge> 2" by (rule stage_not_trivial [OF assms(3,2) cid])
  then have "stageTiles v \<noteq> []" by auto
  then obtain spotlight where spot: "stageSpotlightId v = Some spotlight"
    by (cases "stageSpotlightId v") (auto simp: stageSpotlightId_def pickStageSpotlightTileId_def Let_def)
  have present: "has_tile (stageTiles v) spotlight"
    using spotlight_present [of "stageTiles v" "cv_pinnedTile v" "cs_primary (contentScene v)"] spot
    by (simp add: stageSpotlightId_def)
  from focus_layout [OF two present] obtain ps :: "scene_participant list" where ps: "lr_localPip (computeLayout (stage_scene v spotlight)) = None"
    "map tl_id (lr_tiles (computeLayout (stage_scene v spotlight))) = spotlight # map pa_id ps"
    "mset (map pa_id ps) = mset (filter (\<lambda>i. i \<noteq> spotlight) (map se_id (stageTiles v)))" by (elim exE conjE)
  have "computedLayout v = Some (computeLayout (stage_scene v spotlight))"
    using assms(2,3) cid spot two \<open>stageTiles v \<noteq> []\<close> by (simp add: computedLayout_def useContentStageLayout_def)
  moreover have "set (map pa_id ps) = set (filter (\<lambda>i. i \<noteq> spotlight) (map se_id (stageTiles v)))"
    by (rule mset_eq_setD [OF ps(3)])
  then have "set (spotlight # map pa_id ps) = stage_ids v cid"
    using present ids by (auto simp: has_tile_def list_ex_iff)
  moreover have "distinct (map pa_id ps)" using mset_eq_imp_distinct_iff [OF ps(3)] distinct by simp
  then have "distinct (spotlight # map pa_id ps)"
    using \<open>set (map pa_id ps) = _\<close> by auto
  moreover have "spotlight = stageTileId key \<or> stageTileId key \<notin> stage_ids v cid" if "cv_pinnedTile v = Some key" for key
  proof (cases "has_tile (stageTiles v) (stageTileId key)")
    case True
    then have "stageSpotlightId v = Some (stageTileId key)"
      unfolding stageSpotlightId_def that by (rule spotlight_pinned)
    then show ?thesis using spot by simp
  next
    case False
    then have "stageTileId key \<notin> se_id ` set (stageTiles v)" by (auto simp: has_tile_def list_ex_iff)
    then show ?thesis unfolding ids by simp
  qed
  ultimately show ?thesis
    using ps(1,2) spot by (intro exI [of _ "computeLayout (stage_scene v spotlight)"] exI [of _ spotlight] exI [of _ "map pa_id ps"])
      (auto split: option.split)
qed

definition sharing_view :: view where
  "sharing_view = mounted
     \<lparr> vi_session = Some
         \<lparr> sn_localStream = None, sn_remoteStreams = [(''a'', \<lparr> ms_id = 1, ms_videoTracks = [] \<rparr>)], sn_remoteCamera = (\<lambda>_. None),
           sn_remoteContent = (\<lambda>_. None), sn_localContent = None, sn_independent = True, sn_remoteIndependent = (\<lambda>_. True),
           sn_canScreenShare = True, sn_hasMultipleCameras = False, sn_settings = (\<lambda>_. None) \<rparr>,
       vi_phase = SpInCall, vi_status = LinkConnected,
       vi_local = Some \<lparr> vl_cid = ''me'', vl_cameraMode = ''selfie'', vl_videoEnabled = True, vl_cameraEnabled = True,
         vl_audioEnabled = True, vl_content = None, vl_modes = 2, vl_displayName = None \<rparr>,
       vi_remotes = [\<lparr> vr_cid = ''a'', vr_presumedLost = False, vr_videoEnabled = True, vr_cameraEnabled = True,
         vr_audioEnabled = True,
         vr_content = Some \<lparr> pr_active = True, pr_type = ''screenShare'', pr_revision = Fin 1 \<rparr>, vr_displayName = None \<rparr>],
       vi_required = None, vi_videoEnabledConfig = True, vi_videoMediaEnabled = True, vi_screenSharing = True,
       vi_autoHide = True, vi_snapshotEnabled = True, vi_userAgent = [] \<rparr> Cover (800, 600)"

theorem stage_shows_every_stream_witness:
  "\<exists>layout spotlight rest. computedLayout sharing_view = Some layout \<and> stageSpotlightId sharing_view = Some spotlight \<and>
    map tl_id (lr_tiles layout) = spotlight # rest \<and> lr_localPip layout = None \<and>
    distinct (spotlight # rest) \<and> set (spotlight # rest) = stage_ids sharing_view ''me'' \<and>
    (case cv_pinnedTile sharing_view of None \<Rightarrow> True
     | Some key \<Rightarrow> spotlight = stageTileId key \<or> stageTileId key \<notin> stage_ids sharing_view ''me'')"
  by (rule stage_shows_every_stream) code_simp+

section \<open>Participants that are presumed lost\<close>

text \<open>The view leaves participants that are presumed lost out of the effective state, but it takes its tiles from the
  streams: as long as the session keeps the stream, the tile stays, in the grid, on a legacy stage and on a
  stream-keyed stage; only its name and its camera state are gone.\<close>

theorem lost_remote_still_shown:
  assumes "vi_session (cv_input v) \<noteq> None" and "p \<in> set (vi_remotes (cv_input v))" and "vr_presumedLost p"
    and "vr_cid p \<in> set (stream_cids (now_input v))" and "distinct (map vr_cid (vi_remotes (cv_input v)))"
  shows "vr_cid p \<in> sts_cid ` set (remoteStageTiles v) \<and>
    vr_cid p \<in> pa_id ` set (sc_participants (legacy_scene v cid)) \<and>
    stageTileId \<lparr> tk_cid = vr_cid p, tk_kind = CameraKind \<rparr> \<in> stage_ids v cid \<and> find_remote v (vr_cid p) = None"
proof -
  have "vr_presumedLost q" if "q \<in> set (vi_remotes (cv_input v))" "vr_cid q = vr_cid p" for q
    using assms(2,3,5) that by (metis distinct_map inj_onD)
  then have "find_remote v (vr_cid p) = None"
    using assms(1) by (auto simp: find_remote_def find_None_iff now_input_def effective_def split: option.splits)
  then show ?thesis using assms(4) by (simp add: remoteStageTiles_def legacy_scene_def stage_ids_def image_image)
qed

end
