(* ===== verification/Server_Access.thy ===== *)
theory Server_Access
  imports Session Server_Provider Browser_Basics
begin

text \<open>
  How a host application reaches a server and a room: \<^verbatim>\<open>serverUrls.ts\<close>, \<^verbatim>\<open>api/roomApi.ts\<close> and \<^verbatim>\<open>SerenadaCore.ts\<close>. The
  parser of URLs belongs to the browser and is a parameter; so are the location of the page and the answers of the
  server. A function that throws returns \<open>None\<close> or an error.
\<close>

section \<open>URLs of the server\<close>

text \<open>What the code reads of a parsed URL; \<open>wu_host\<close> has the port, \<open>wu_hostname\<close> has not.\<close>

record web_url =
  wu_protocol :: string
  wu_host :: string
  wu_hostname :: string
  wu_origin :: string
  wu_pathname :: string

type_synonym url_parser = "string \<Rightarrow> web_url option"

text \<open>Host and protocol of the page, \<open>None\<close> outside a browser.\<close>

type_synonym page_location = "(string \<times> string) option"

definition getHostname :: "url_parser \<Rightarrow> string \<Rightarrow> string option" where
  "getHostname parse serverHost =
     map_option wu_hostname (parse (if contains ''://'' serverHost then serverHost else ''http://'' @ serverHost))"

definition drop_brackets :: "string \<Rightarrow> string" where
  "drop_brackets s =
     (let t = (case s of c # r \<Rightarrow> if c = CHR ''['' then r else s | [] \<Rightarrow> [])
      in if t \<noteq> [] \<and> last t = CHR '']'' then butlast t else t)"

definition isLoopbackHost :: "url_parser \<Rightarrow> string \<Rightarrow> bool" where
  "isLoopbackHost parse serverHost =
     (case getHostname parse serverHost of
        None \<Rightarrow> False
      | Some h \<Rightarrow> let hostname = drop_brackets h in hostname = ''localhost'' \<or> hostname = ''::1'' \<or> starts_with ''127.'' hostname)"

definition getCurrentPageProtocol :: "page_location \<Rightarrow> string \<Rightarrow> string option" where
  "getCurrentPageProtocol page serverHost =
     (case page of
        None \<Rightarrow> None
      | Some (host, protocol) \<Rightarrow>
          if host \<noteq> serverHost then None
          else if protocol = ''http:'' \<or> protocol = ''https:'' then Some protocol else None)"

definition drop_slashes :: "string \<Rightarrow> string" where
  "drop_slashes s = rev (dropWhile (\<lambda>c. c = CHR ''/'') (rev s))"

definition bare_base :: "url_parser \<Rightarrow> page_location \<Rightarrow> string \<Rightarrow> string" where
  "bare_base parse page trimmed =
     (let host = drop_slashes trimmed;
          protocol = default (if isLoopbackHost parse host then ''http:'' else ''https:'') (getCurrentPageProtocol page host)
      in protocol @ ''//'' @ host)"

text \<open>Setting the protocol of a socket URL keeps its host; the origin is made of both.\<close>

definition resolveServerBaseUrl :: "url_parser \<Rightarrow> page_location \<Rightarrow> string \<Rightarrow> string option" where
  "resolveServerBaseUrl parse page serverHost =
     (let trimmed = js_trim serverHost
      in if trimmed = [] then None
         else case parse trimmed of
           None \<Rightarrow> Some (bare_base parse page trimmed)
         | Some parsed \<Rightarrow>
             if wu_protocol parsed = ''http:'' \<or> wu_protocol parsed = ''https:'' then Some (wu_origin parsed)
             else if wu_protocol parsed = ''ws:'' then Some (''http:'' @ ''//'' @ wu_host parsed)
             else if wu_protocol parsed = ''wss:'' then Some (''https:'' @ ''//'' @ wu_host parsed)
             else Some (bare_base parse page trimmed))"

record server_urls =
  su_wsUrl :: string
  su_httpBaseUrl :: string

definition resolveServerUrls :: "url_parser \<Rightarrow> page_location \<Rightarrow> string \<Rightarrow> server_urls option" where
  "resolveServerUrls parse page serverHost =
     Option.bind (resolveServerBaseUrl parse page serverHost) (\<lambda>httpBaseUrl.
     map_option (\<lambda>baseUrl. let wsProtocol = (if wu_protocol baseUrl = ''http:'' then ''ws:'' else ''wss:'') in
       \<lparr> su_wsUrl = wsProtocol @ ''//'' @ wu_host baseUrl @ ''/ws'', su_httpBaseUrl = httpBaseUrl \<rparr>)
       (parse httpBaseUrl))"

definition buildApiUrl :: "url_parser \<Rightarrow> page_location \<Rightarrow> string \<Rightarrow> string \<Rightarrow> string option" where
  "buildApiUrl parse page serverHost path =
     map_option (\<lambda>base. base @ (if starts_with ''/'' path then path else ''/'' @ path)) (resolveServerBaseUrl parse page serverHost)"

definition buildRoomUrl :: "url_parser \<Rightarrow> page_location \<Rightarrow> string \<Rightarrow> string \<Rightarrow> string option" where
  "buildRoomUrl parse page serverHost roomId =
     map_option (\<lambda>base. base @ ''/call/'' @ roomId) (resolveServerBaseUrl parse page serverHost)"

section \<open>Asking for a room\<close>

datatype access_error =
    ConfigError config_error
  | ServerHostRequired
  | RequestFailed string
  | StatusRefused int
  | BadBody
  | RoomIdMissing

text \<open>The text of a value in a template; how numbers are written is a parameter.\<close>

fun js_text :: "(jsnum \<Rightarrow> string) \<Rightarrow> json \<Rightarrow> string" where
  "js_text num (JStr s) = s"
| "js_text num (JNum n) = num n"
| "js_text num (JBool b) = (if b then ''true'' else ''false'')"
| "js_text num JNull = ''null''"
| "js_text num (JObj kvs) = ''[object Object]''"
| "js_text num (JArr xs) = join_with (CHR '','') (map (\<lambda>v. if v = JNull then [] else js_text num v) xs)"

definition requestRoomId :: "string option \<Rightarrow> (string \<Rightarrow> fetch_answer) \<Rightarrow> access_error + json" where
  "requestRoomId apiUrl server =
     (case apiUrl of
        None \<Rightarrow> Inl ServerHostRequired
      | Some url \<Rightarrow>
          (case server url of
             NoAnswer e \<Rightarrow> Inl (RequestFailed e)
           | Answer status body \<Rightarrow>
               if \<not> answer_ok status then Inl (StatusRefused status)
               else (case body of
                       None \<Rightarrow> Inl BadBody
                     | Some data \<Rightarrow>
                         (case field (Some data) ''roomId'' of
                            Some v \<Rightarrow> if json_truthy (Some v) then Inr v else Inl RoomIdMissing
                          | None \<Rightarrow> Inl RoomIdMissing))))"

section \<open>The entry point\<close>

datatype core_provider = ServerProvider provider string | HostProvider provider_ref

record sdk_core =
  co_config :: serenada_config
  co_session :: session_config
  co_transports :: "transport_kind list option"
  co_serverHost :: "string option"
  co_provider :: "provider_ref option"

definition new_core :: "serenada_config \<Rightarrow> session_config \<Rightarrow> transport_kind list option \<Rightarrow> config_error + sdk_core" where
  "new_core config scfg transports =
     (case resolveSerenadaConfig config of
        Inl e \<Rightarrow> Inl e
      | Inr (host, provider) \<Rightarrow>
          Inr \<lparr> co_config = config, co_session = scfg, co_transports = transports, co_serverHost = host, co_provider = provider \<rparr>)"

text \<open>\<open>None\<close> stands for the missing provider that the constructor rules out.\<close>

definition createSignalingProvider :: "sdk_core \<Rightarrow> core_provider option" where
  "createSignalingProvider c =
     (case co_serverHost c of
        Some host \<Rightarrow> Some (ServerProvider
          (new_provider \<lparr> ec_transports = co_transports c, ec_videoMediaEnabled = scf_videoMediaEnabled (co_session c),
             ec_independentContentVideo = scf_independentContentVideo (co_session c) \<rparr>) host)
      | None \<Rightarrow> map_option HostProvider (co_provider c))"

definition parseRoomIdFromUrl :: "url_parser \<Rightarrow> string \<Rightarrow> string" where
  "parseRoomIdFromUrl parse url =
     (case parse url of
        None \<Rightarrow> url
      | Some parsed \<Rightarrow>
          let parts = split_on (CHR ''/'') (wu_pathname parsed); lastPart = (if last parts \<noteq> [] then last parts else url)
          in (case index_of parts ''call'' of
                None \<Rightarrow> lastPart
              | Some i \<Rightarrow>
                  if i + 1 < length parts \<and> parts ! (i + 1) \<noteq> [] then parts ! (i + 1) else lastPart))"

definition unsupported_state :: call_state where
  "unsupported_state =
     \<lparr> st_phase = ErrorPhase, st_localParticipant = None, st_remoteParticipants = [], st_connectionStatus = LinkConnected,
       st_signalingState = SigFailed WebrtcUnavailable, st_activeTransport = None, st_requiredPermissions = None,
       st_error = Some (WebrtcUnavailable, ''WebRTC is not supported in this browser'') \<rparr>"

datatype join_target = JoinUrl string | JoinRoom string

datatype joined = Unsupported call_state | Joined session "string option" "core_provider option"

text \<open>Whether the provider reconnects by itself is a property of its object; the server provider does. \<open>None\<close> when a URL
  cannot be built.\<close>

definition handles_reconnection :: "(provider_ref \<Rightarrow> bool) \<Rightarrow> core_provider option \<Rightarrow> bool" where
  "handles_reconnection able p = (case p of Some (ServerProvider _ _) \<Rightarrow> True | Some (HostProvider r) \<Rightarrow> able r | None \<Rightarrow> False)"

definition join ::
  "url_parser \<Rightarrow> page_location \<Rightarrow> (provider_ref \<Rightarrow> bool) \<Rightarrow> bool \<Rightarrow> sdk_core \<Rightarrow> join_target \<Rightarrow> string option \<Rightarrow> string option \<Rightarrow> joined option" where
  "join parse page able supported c target displayName peerId =
     (if \<not> supported then Some (Unsupported unsupported_state)
      else let provider = createSignalingProvider c;
               enter = (\<lambda>roomId. new_session (co_session c) roomId (handles_reconnection able provider) displayName peerId)
        in case target of
          JoinUrl url \<Rightarrow> Some (Joined (enter (parseRoomIdFromUrl parse url)) (Some url) provider)
        | JoinRoom roomId \<Rightarrow>
            (case co_serverHost c of
               None \<Rightarrow> Some (Joined (enter roomId) None provider)
             | Some host \<Rightarrow>
                 map_option (\<lambda>url. Joined (enter roomId) (Some url) provider) (buildRoomUrl parse page host roomId)))"

record created_room =
  cm_url :: string
  cm_roomId :: json

definition createRoom ::
  "url_parser \<Rightarrow> page_location \<Rightarrow> (jsnum \<Rightarrow> string) \<Rightarrow> (string \<Rightarrow> fetch_answer) \<Rightarrow> sdk_core \<Rightarrow> access_error + created_room" where
  "createRoom parse page num server c =
     (case requireServerHost (co_config c) of
        Inl e \<Rightarrow> Inl (ConfigError e)
      | Inr host \<Rightarrow>
          (case requestRoomId (buildApiUrl parse page host ''/api/room-id'') server of
             Inl e \<Rightarrow> Inl e
           | Inr roomId \<Rightarrow>
               (case buildRoomUrl parse page host (js_text num roomId) of
                  None \<Rightarrow> Inl ServerHostRequired
                | Some url \<Rightarrow> Inr \<lparr> cm_url = url, cm_roomId = roomId \<rparr>)))"

end
