(* ===== verification/Server_Access_Claims.thy ===== *)
theory Server_Access_Claims
  imports Server_Access
begin

text \<open>
  The link of a room leads back to the room, and connections are as secure as the address of the server says. What is
  assumed of the parser of URLs is documented behaviour of browsers: an origin followed by a path of unreserved
  characters is a URL with that path, and the scheme of a base URL is its protocol.
\<close>

section \<open>The link of a room\<close>

definition path_safe :: "string \<Rightarrow> bool" where
  "path_safe s = (s \<noteq> [] \<and> CHR ''/'' \<notin> set s \<and> list_all (\<lambda>c. c \<in> set ''ABCDEFGHIJKLMNOPQRSTUVWXYZabcdefghijklmnopqrstuvwxyz0123456789-_'') s)"

lemma call_path:
  assumes "CHR ''/'' \<notin> set r"
  shows "split_on (CHR ''/'') (''/call/'' @ r) = [[], ''call'', r]"
proof -
  have "split_on (CHR ''/'') (''call'' @ CHR ''/'' # r) = ''call'' # split_on (CHR ''/'') r"
    by (rule split_on_append) simp
  then show ?thesis using split_on_append [of "CHR ''/''" "[]" "''call/'' @ r"] split_on_piece [OF assms] by simp
qed

lemma parse_room_link:
  assumes "parse url = Some q" and "wu_pathname q = ''/call/'' @ r" and "r \<noteq> []" and "CHR ''/'' \<notin> set r"
  shows "parseRoomIdFromUrl parse url = r"
  using assms call_path [OF assms(4)] by (simp add: parseRoomIdFromUrl_def Let_def)

text \<open>C40: A room can be joined by the link of its creation: if the server answers the request for a room with an id made
  of the characters of ids, then \<open>createRoom\<close> gives a link, and joining by that link starts a session in the room
  with that id - for every address of the server whose base URL is an origin.\<close>

theorem room_link_joins_room:
  assumes "new_core config scfg transports = Inr c" and "co_serverHost c = Some host"
    and "resolveServerBaseUrl parse page host = Some base"
    and "server (base @ ''/api/room-id'') = Answer 200 (Some (JObj [(''roomId'', JStr r)]))" and "path_safe r"
    and origin: "\<And>r. path_safe r \<Longrightarrow> \<exists>q. parse (base @ ''/call/'' @ r) = Some q \<and> wu_pathname q = ''/call/'' @ r"
  shows "\<exists>link s p. createRoom parse page num server c = Inr \<lparr> cm_url = link, cm_roomId = JStr r \<rparr> \<and>
    join parse page able True c (JoinUrl link) name pid = Some (Joined s (Some link) p) \<and> ss_roomId s = r \<and>
    (\<exists>s'. join parse page able True c (JoinRoom r) name pid = Some (Joined s' (Some link) p) \<and> ss_roomId s' = r)"
proof -
  have host: "requireServerHost (co_config c) = Inr host"
    using assms(1,2) by (auto simp: new_core_def requireServerHost_def split: sum.splits prod.splits option.splits)
  have api: "buildApiUrl parse page host ''/api/room-id'' = Some (base @ ''/api/room-id'')"
    using assms(3) by (simp add: buildApiUrl_def starts_with_def)
  have link: "buildRoomUrl parse page host r = Some (base @ ''/call/'' @ r)" using assms(3) by (simp add: buildRoomUrl_def)
  have r: "r \<noteq> []" "CHR ''/'' \<notin> set r" using assms(5) by (simp_all add: path_safe_def)
  obtain q where "parse (base @ ''/call/'' @ r) = Some q" "wu_pathname q = ''/call/'' @ r" using origin [OF assms(5)] by blast
  then have "parseRoomIdFromUrl parse (base @ ''/call/'' @ r) = r" by (rule parse_room_link [OF _ _ r])
  then show ?thesis
    using host api link assms(2,4) r(1)
    by (simp add: createRoom_def requestRoomId_def answer_ok_def join_def new_session_def Let_def)
qed

section \<open>A parser of plain URLs\<close>

text \<open>URLs of a scheme, a host and a path, as the witnesses use them.\<close>

definition after_scheme :: "string \<Rightarrow> string \<Rightarrow> web_url" where
  "after_scheme scheme s =
     (let host = takeWhile (\<lambda>c. c \<noteq> CHR ''/'') s; path = dropWhile (\<lambda>c. c \<noteq> CHR ''/'') s
      in \<lparr> wu_protocol = scheme, wu_host = host, wu_hostname = takeWhile (\<lambda>c. c \<noteq> CHR '':'') host,
           wu_origin = scheme @ ''//'' @ host, wu_pathname = (if path = [] then ''/'' else path) \<rparr>)"

definition plain_url :: url_parser where
  "plain_url s =
     (case filter (\<lambda>scheme. starts_with (scheme @ ''//'') s) [''http:'', ''https:'', ''ws:'', ''wss:''] of
        [] \<Rightarrow> None
      | scheme # _ \<Rightarrow> Some (after_scheme scheme (drop (length scheme + 2) s)))"

definition plain_session :: session_config where
  "plain_session = \<lparr> scf_videoMediaEnabled = None, scf_cameraModes = None, scf_defaultVideoEnabled = None,
     scf_defaultAudioEnabled = None, scf_independentContentVideo = None \<rparr>"

theorem room_link_joins_room_witness:
  "\<exists>c link s p. new_core \<lparr> cfg_serverHost = Some ''calls.example'', cfg_signalingProvider = None \<rparr> plain_session None = Inr c \<and>
    createRoom plain_url None (\<lambda>_. []) (\<lambda>_. Answer 200 (Some (JObj [(''roomId'', JStr ''room_1'')]))) c =
      Inr \<lparr> cm_url = link, cm_roomId = JStr ''room_1'' \<rparr> \<and>
    join plain_url None (\<lambda>_. False) True c (JoinUrl link) None None = Some (Joined s (Some link) p) \<and> ss_roomId s = ''room_1''"
proof -
  let ?config = "\<lparr> cfg_serverHost = Some ''calls.example'', cfg_signalingProvider = None \<rparr>"
  obtain c where c: "new_core ?config plain_session None = Inr c" "co_serverHost c = Some ''calls.example''"
    by (simp add: new_core_def resolveSerenadaConfig_def js_trim_def is_js_space_def)
  have "resolveServerBaseUrl plain_url None ''calls.example'' = Some ''https://calls.example''" by code_simp
  moreover have "\<exists>q. plain_url (''https://calls.example'' @ ''/call/'' @ r) = Some q \<and> wu_pathname q = ''/call/'' @ r" for r
    by (simp add: plain_url_def starts_with_def after_scheme_def Let_def)
  moreover have "path_safe ''room_1''" by code_simp
  ultimately show ?thesis
    using room_link_joins_room [OF c, of plain_url None "''https://calls.example''"
      "\<lambda>_. Answer 200 (Some (JObj [(''roomId'', JStr ''room_1'')]))" "''room_1''" "\<lambda>_. []" "\<lambda>_. False" None None] c(1)
    by metis
qed

section \<open>Schemes\<close>

text \<open>Documented behaviour of the parser: the scheme in front is the protocol, and the origin of a web URL is its protocol
  and its host.\<close>

definition scheme_law :: "url_parser \<Rightarrow> bool" where
  "scheme_law parse \<longleftrightarrow>
     (\<forall>u q. parse (''https://'' @ u) = Some q \<longrightarrow> wu_protocol q = ''https:'') \<and>
     (\<forall>u q. parse (''http://'' @ u) = Some q \<longrightarrow> wu_protocol q = ''http:'') \<and>
     (\<forall>u q. parse u = Some q \<longrightarrow> wu_protocol q = ''http:'' \<or> wu_protocol q = ''https:'' \<longrightarrow>
       wu_origin q = wu_protocol q @ ''//'' @ wu_host q)"

lemma base_scheme:
  assumes "scheme_law parse" and "resolveServerBaseUrl parse page host = Some base"
  shows "\<exists>u. base = ''https://'' @ u \<or> base = ''http://'' @ u"
proof -
  have bare: "\<exists>u. bare_base parse page t = ''https://'' @ u \<or> bare_base parse page t = ''http://'' @ u" for t
    by (auto simp: bare_base_def Let_def getCurrentPageProtocol_def split: option.splits prod.splits)
  show ?thesis
  proof (cases "parse (js_trim host)")
    case None
    then show ?thesis using assms(2) bare by (auto simp: resolveServerBaseUrl_def Let_def split: if_splits)
  next
    case (Some q)
    have "\<exists>u. wu_origin q = ''https://'' @ u \<or> wu_origin q = ''http://'' @ u"
      if "wu_protocol q = ''http:'' \<or> wu_protocol q = ''https:''"
      using that assms(1) Some unfolding scheme_law_def by fastforce
    then show ?thesis using assms(2) bare Some by (auto simp: resolveServerBaseUrl_def Let_def split: if_splits)
  qed
qed

text \<open>Connections are as secure as the address says: the socket of the signaling is encrypted exactly when the requests
  are, and both are for every bare host that is neither this machine nor the host of a page that was itself loaded
  without encryption.\<close>

theorem schemes_agree:
  assumes "scheme_law parse" and "resolveServerUrls parse page host = Some urls"
  shows "(starts_with ''wss://'' (su_wsUrl urls) \<longleftrightarrow> starts_with ''https://'' (su_httpBaseUrl urls)) \<and>
    (parse (js_trim host) = None \<and> \<not> isLoopbackHost parse (drop_slashes (js_trim host)) \<and>
     page \<noteq> Some (drop_slashes (js_trim host), ''http:'') \<longrightarrow> starts_with ''wss://'' (su_wsUrl urls))"
proof -
  obtain base q where base: "resolveServerBaseUrl parse page host = Some base" "parse base = Some q"
    and urls: "urls = \<lparr> su_wsUrl = (if wu_protocol q = ''http:'' then ''ws:'' else ''wss:'') @ ''//'' @ wu_host q @ ''/ws'',
      su_httpBaseUrl = base \<rparr>"
    using assms(2) by (auto simp: resolveServerUrls_def Let_def bind_eq_Some_conv)
  obtain u where u: "base = ''https://'' @ u \<or> base = ''http://'' @ u" using base_scheme [OF assms(1) base(1)] by blast
  then have protocol: "base = ''https://'' @ u \<and> wu_protocol q = ''https:'' \<or> base = ''http://'' @ u \<and> wu_protocol q = ''http:''"
    using assms(1) base(2) unfolding scheme_law_def by blast
  then have agree: "starts_with ''wss://'' (su_wsUrl urls) \<longleftrightarrow> starts_with ''https://'' (su_httpBaseUrl urls)"
    by (auto simp: urls starts_with_def)
  moreover have "starts_with ''https://'' base"
    if "parse (js_trim host) = None" "\<not> isLoopbackHost parse (drop_slashes (js_trim host))"
      "page \<noteq> Some (drop_slashes (js_trim host), ''http:'')"
    using base(1) that
    by (auto simp: resolveServerBaseUrl_def bare_base_def Let_def getCurrentPageProtocol_def starts_with_def
        split: if_splits option.splits prod.splits)
  ultimately show ?thesis by (simp add: urls)
qed

theorem schemes_agree_witness:
  "starts_with ''wss://'' ''wss://calls.example/ws''"
proof -
  have law: "scheme_law plain_url"
    by (auto simp: scheme_law_def plain_url_def starts_with_def after_scheme_def Let_def split: list.splits)
  have "resolveServerUrls plain_url (Some (''app.example'', ''http:'')) ''calls.example'' =
    Some \<lparr> su_wsUrl = ''wss://calls.example/ws'', su_httpBaseUrl = ''https://calls.example'' \<rparr>" by code_simp
  from schemes_agree [OF law this] show ?thesis by (simp add: starts_with_def)
qed

end
