(* ===== verification/Diagnostics.thy ===== *)
theory Diagnostics
  imports Server_Access Media_Engine
begin

text \<open>
  The checks before a call, \<^verbatim>\<open>SerenadaDiagnostics.ts\<close>: devices, network, signaling and TURN, the connectivity report and
  the ICE probe. Answers of the server, of the browser and of the clock are inputs; requests that time out are answers
  without a response. The checks of a socket, of an event stream and of ICE are promises around callbacks, modelled
  as state machines over the events of the browser.
\<close>

section \<open>Devices and network\<close>

datatype check_result = Available | Unavailable string | NotAuthorized | Skipped string

datatype listed_kind = VideoInput | AudioInput | AudioOutput

record listed_device =
  ld_kind :: listed_kind
  ld_label :: string

definition checkMediaCapability :: "listed_device list \<Rightarrow> listed_kind \<Rightarrow> string \<Rightarrow> check_result" where
  "checkMediaCapability devices kind notFoundMsg =
     (let matching = filter (\<lambda>d. ld_kind d = kind) devices
      in if length matching > 0 \<and> list_all (\<lambda>d. ld_label d = []) matching then NotAuthorized
         else if length matching = 0 then Unavailable notFoundMsg else Available)"

definition checkDeviceAvailability :: "listed_device list \<Rightarrow> listed_kind \<Rightarrow> string \<Rightarrow> check_result" where
  "checkDeviceAvailability devices kind notFoundMsg =
     (if filter (\<lambda>d. ld_kind d = kind) devices = [] then Unavailable notFoundMsg else Available)"

text \<open>\<open>None\<close> when the browser cannot list devices or fails to.\<close>

definition enumerateDevices :: "listed_device list option \<Rightarrow> listed_device list" where
  "enumerateDevices answer = default [] answer"

text \<open>\<open>Inl\<close> when reading \<open>navigator.onLine\<close> throws.\<close>

definition checkNetwork :: "string + bool \<Rightarrow> check_result" where
  "checkNetwork onLine =
     (case onLine of
        Inl err \<Rightarrow> Skipped err
      | Inr up \<Rightarrow> if up then Available else Unavailable ''Browser reports offline'')"

section \<open>Requests\<close>

datatype diag_error =
    HostMissing
  | FetchError string
  | BadStatus int
  | NotJson string
  | IdMissing
  | TokenMissing
  | InvalidTurn
  | ProviderFailed string
  | SocketUnavailable
  | SocketTimeout
  | SocketFailed
  | StreamUnavailable
  | StreamTimeout
  | StreamFailed
  | PingRefused int
  | BodyThrew string

text \<open>\<open>String(err)\<close> of an error is \<open>''Error: ''\<close> before the message, \<open>formatError\<close> the message alone; numbers in decimal.\<close>

definition status_text :: "int \<Rightarrow> string" where
  "status_text n = (if n < 0 then ''-'' @ decimal (nat (- n)) else decimal (nat n))"

fun message_of :: "diag_error \<Rightarrow> string" where
  "message_of HostMissing = ''requires serverHost''"
| "message_of (FetchError e) = e"
| "message_of (BadStatus n) = ''Request failed: '' @ status_text n"
| "message_of (NotJson e) = e"
| "message_of IdMissing = ''Room ID missing''"
| "message_of TokenMissing = ''Diagnostic token missing''"
| "message_of InvalidTurn = ''Invalid TURN credentials''"
| "message_of (ProviderFailed e) = e"
| "message_of SocketUnavailable = ''WebSocket not available''"
| "message_of SocketTimeout = ''WebSocket timeout''"
| "message_of SocketFailed = ''WebSocket failed''"
| "message_of StreamUnavailable = ''EventSource not available''"
| "message_of StreamTimeout = ''SSE timeout''"
| "message_of StreamFailed = ''SSE connection failed''"
| "message_of (PingRefused n) = ''SSE ping failed: '' @ status_text n"
| "message_of (BodyThrew e) = e"

text \<open>Reading a member of \<open>null\<close> throws; the JSON of an answer is never \<open>undefined\<close>.\<close>

definition fetchJson :: "fetch_answer \<Rightarrow> diag_error + json" where
  "fetchJson answer =
     (case answer of
        NoAnswer e \<Rightarrow> Inl (FetchError e)
      | Answer status body \<Rightarrow>
          if \<not> answer_ok status then Inl (BadStatus status)
          else (case body of
                  None \<Rightarrow> Inl (NotJson ''Unexpected token'')
                | Some JNull \<Rightarrow> Inl (BodyThrew ''Cannot read properties of null'')
                | Some v \<Rightarrow> Inr v))"

definition room_id_answer :: "fetch_answer \<Rightarrow> diag_error + string" where
  "room_id_answer answer =
     (case fetchJson answer of
        Inl e \<Rightarrow> Inl e
      | Inr response \<Rightarrow>
          (case as_nonblank (field (Some response) ''roomId'') of None \<Rightarrow> Inl IdMissing | Some roomId \<Rightarrow> Inr roomId))"

text \<open>A token that is neither text nor missing has no \<open>trim\<close>; \<open>null\<close> counts as missing.\<close>

definition fetchDiagnosticToken :: "fetch_answer \<Rightarrow> diag_error + string" where
  "fetchDiagnosticToken answer =
     (case fetchJson answer of
        Inl e \<Rightarrow> Inl e
      | Inr response \<Rightarrow>
          (case field (Some response) ''token'' of
             None \<Rightarrow> Inl TokenMissing
           | Some JNull \<Rightarrow> Inl TokenMissing
           | Some (JStr token) \<Rightarrow> if js_trim token = [] then Inl TokenMissing else Inr (js_trim token)
           | Some _ \<Rightarrow> Inl (BodyThrew ''response.token?.trim is not a function'')))"

record turn_credentials =
  tc_username :: string
  tc_password :: string
  tc_uris :: "json list"

definition fetchTurnCredentials :: "fetch_answer \<Rightarrow> diag_error + turn_credentials" where
  "fetchTurnCredentials answer =
     (case fetchJson answer of
        Inl e \<Rightarrow> Inl e
      | Inr response \<Rightarrow>
          (case (as_nonblank (field (Some response) ''username''), as_nonblank (field (Some response) ''password''),
                 field (Some response) ''uris'') of
             (Some username, Some password, Some (JArr uris)) \<Rightarrow>
               if uris = [] then Inl InvalidTurn
               else Inr \<lparr> tc_username = username, tc_password = password, tc_uris = uris \<rparr>
           | _ \<Rightarrow> Inl InvalidTurn))"

definition validateServerHost :: "string option \<Rightarrow> string option \<Rightarrow> (string \<Rightarrow> fetch_answer) \<Rightarrow> diag_error + unit" where
  "validateServerHost host configured ask =
     (case (case host of Some h \<Rightarrow> if h = [] then configured else Some h | None \<Rightarrow> configured) of
        None \<Rightarrow> Inl HostMissing
      | Some h \<Rightarrow> (case room_id_answer (ask h) of Inl e \<Rightarrow> Inl e | Inr _ \<Rightarrow> Inr ()))"

section \<open>Signaling and TURN\<close>

text \<open>An available result always names the transport \<open>ws\<close>.\<close>

definition checkSignaling :: "string option \<Rightarrow> fetch_answer \<Rightarrow> check_result" where
  "checkSignaling serverHost answer =
     (case serverHost of
        None \<Rightarrow> Skipped ''requires serverHost''
      | Some _ \<Rightarrow>
          (case answer of
             NoAnswer err \<Rightarrow> Unavailable err
           | Answer status _ \<Rightarrow>
               if answer_ok status \<or> status = 405 then Available
               else Unavailable (''Server returned '' @ status_text status)))"

text \<open>Without a server the servers of the provider are asked for; with one, the answer to a request with a token that is
  not valid. The latency is reported with the result.\<close>

definition checkTurn :: "string option \<Rightarrow> string + ice_server list \<Rightarrow> fetch_answer \<Rightarrow> rat \<Rightarrow> check_result \<times> rat option" where
  "checkTurn serverHost provided answer latency =
     (case serverHost of
        None \<Rightarrow> (case provided of Inl err \<Rightarrow> (Unavailable err, None) | Inr _ \<Rightarrow> (Available, None))
      | Some _ \<Rightarrow>
          (case answer of
             NoAnswer err \<Rightarrow> (Unavailable err, None)
           | Answer status _ \<Rightarrow>
               if answer_ok status then (Available, Some latency)
               else if status = 401 \<or> status = 403 then (Available, Some latency)
               else (Unavailable (''TURN endpoint returned '' @ status_text status), None)))"

record diagnostics_report =
  dr_camera :: check_result
  dr_microphone :: check_result
  dr_speaker :: check_result
  dr_network :: check_result
  dr_signaling :: check_result
  dr_turn :: "check_result \<times> rat option"
  dr_devices :: "listed_device list"

record diag_world =
  dw_devices :: "listed_device list option"
  dw_onLine :: "string + bool"
  dw_signaling :: fetch_answer
  dw_provided :: "string + ice_server list"
  dw_turnProbe :: fetch_answer
  dw_turnLatency :: rat

definition runAll :: "string option \<Rightarrow> diag_world \<Rightarrow> diagnostics_report" where
  "runAll serverHost w =
     (let devices = enumerateDevices (dw_devices w)
      in \<lparr> dr_camera = checkMediaCapability devices VideoInput ''No camera found'',
           dr_microphone = checkMediaCapability devices AudioInput ''No microphone found'',
           dr_speaker = checkDeviceAvailability devices AudioOutput ''No speaker found'',
           dr_network = checkNetwork (dw_onLine w), dr_signaling = checkSignaling serverHost (dw_signaling w),
           dr_turn = checkTurn serverHost (dw_provided w) (dw_turnProbe w) (dw_turnLatency w), dr_devices = devices \<rparr>)"

section \<open>The connectivity report\<close>

datatype check_outcome = NotRun | Passed rat | Failed string

definition runTimedCheck :: "rat \<Rightarrow> diag_error + 'a \<Rightarrow> check_outcome" where
  "runTimedCheck latency block = (case block of Inl err \<Rightarrow> Failed (message_of err) | Inr _ \<Rightarrow> Passed latency)"

record connectivity_world =
  cw_room :: fetch_answer
  cw_socket :: "diag_error + unit"
  cw_stream :: "diag_error + unit"
  cw_token :: fetch_answer
  cw_tokenAgain :: fetch_answer
  cw_turn :: "string \<Rightarrow> fetch_answer"
  cw_latency :: "nat \<Rightarrow> rat"

record connectivity_report =
  cc_roomApi :: check_outcome
  cc_webSocket :: check_outcome
  cc_sse :: check_outcome
  cc_diagnosticToken :: check_outcome
  cc_turnCredentials :: check_outcome

text \<open>The token of the parallel check is used again; without one it is asked for once more. The second component says
  whether it was.\<close>

definition token_for_turn :: "connectivity_world \<Rightarrow> (diag_error + string) \<times> bool" where
  "token_for_turn w =
     (case fetchDiagnosticToken (cw_token w) of
        Inr token \<Rightarrow> (Inr token, False)
      | Inl _ \<Rightarrow> (fetchDiagnosticToken (cw_tokenAgain w), True))"

definition turn_check :: "connectivity_world \<Rightarrow> diag_error + turn_credentials" where
  "turn_check w =
     (case fst (token_for_turn w) of Inl e \<Rightarrow> Inl e | Inr token \<Rightarrow> fetchTurnCredentials (cw_turn w token))"

definition runConnectivityChecks :: "string option \<Rightarrow> connectivity_world \<Rightarrow> diag_error + connectivity_report" where
  "runConnectivityChecks serverHost w =
     (case serverHost of
        None \<Rightarrow> Inl HostMissing
      | Some _ \<Rightarrow> Inr
          \<lparr> cc_roomApi = runTimedCheck (cw_latency w 0) (room_id_answer (cw_room w)),
            cc_webSocket = runTimedCheck (cw_latency w 1) (cw_socket w),
            cc_sse = runTimedCheck (cw_latency w 2) (cw_stream w),
            cc_diagnosticToken = runTimedCheck (cw_latency w 3) (fetchDiagnosticToken (cw_token w)),
            cc_turnCredentials = runTimedCheck (cw_latency w 4) (turn_check w) \<rparr>)"

section \<open>The check of the WebSocket\<close>

text \<open>The promise, the timer, whether the callbacks of the socket are set.\<close>

record socket_probe =
  wp_result :: "(diag_error + unit) option"
  wp_timer :: bool
  wp_listening :: bool

datatype socket_event = WsOpen | WsError | WsTimeout

datatype probe_effect = CloseResource | SendPing

definition finish_socket :: "diag_error + unit \<Rightarrow> (socket_probe, probe_effect) act" where
  "finish_socket outcome =
     whenS (\<lambda>s. wp_result s = None)
       (seqS
         [upd (\<lambda>s. s\<lparr> wp_timer := False, wp_listening := False, wp_result := Some outcome \<rparr>), out (\<lambda>_. CloseResource)])"

definition socket_step :: "socket_probe \<Rightarrow> socket_event \<Rightarrow> socket_probe \<times> probe_effect list" where
  "socket_step s e =
     (case e of
        WsOpen \<Rightarrow> whenS wp_listening (finish_socket (Inr ()))
      | WsError \<Rightarrow> whenS wp_listening (finish_socket (Inl SocketFailed))
      | WsTimeout \<Rightarrow> whenS wp_timer (seqS [upd (\<lambda>s. s\<lparr> wp_timer := False \<rparr>), finish_socket (Inl SocketTimeout)])) s"

definition testWebSocket :: socket_probe where
  "testWebSocket = \<lparr> wp_result = None, wp_timer = True, wp_listening = True \<rparr>"

section \<open>The check of the event stream\<close>

text \<open>Its callbacks stay set, but a closed event stream raises no events. \<open>ssp_pings\<close> counts the requests that are open.\<close>

record stream_probe =
  ssp_result :: "(diag_error + unit) option"
  ssp_timer :: bool
  ssp_open :: bool
  ssp_pings :: nat

datatype stream_event = StreamOpened | StreamError | StreamTimedOut | PingAnswered fetch_answer

definition finish_stream :: "diag_error + unit \<Rightarrow> (stream_probe, probe_effect) act" where
  "finish_stream outcome =
     whenS (\<lambda>s. ssp_result s = None)
       (seqS [upd (\<lambda>s. s\<lparr> ssp_timer := False, ssp_open := False, ssp_result := Some outcome \<rparr>), out (\<lambda>_. CloseResource)])"

definition ping_outcome :: "fetch_answer \<Rightarrow> diag_error + unit" where
  "ping_outcome answer =
     (case answer of
        NoAnswer e \<Rightarrow> Inl (FetchError e)
      | Answer status _ \<Rightarrow> if answer_ok status then Inr () else Inl (PingRefused status))"

definition stream_step :: "stream_probe \<Rightarrow> stream_event \<Rightarrow> stream_probe \<times> probe_effect list" where
  "stream_step s e =
     (case e of
        StreamOpened \<Rightarrow> whenS ssp_open (seqS [upd (\<lambda>s. s\<lparr> ssp_pings := ssp_pings s + 1 \<rparr>), out (\<lambda>_. SendPing)])
      | StreamError \<Rightarrow> whenS ssp_open (finish_stream (Inl StreamFailed))
      | StreamTimedOut \<Rightarrow> whenS ssp_timer (seqS [upd (\<lambda>s. s\<lparr> ssp_timer := False \<rparr>), finish_stream (Inl StreamTimeout)])
      | PingAnswered answer \<Rightarrow>
          whenS (\<lambda>s. ssp_pings s > 0)
            (seqS [upd (\<lambda>s. s\<lparr> ssp_pings := ssp_pings s - 1 \<rparr>), finish_stream (ping_outcome answer)])) s"

definition testSse :: stream_probe where
  "testSse = \<lparr> ssp_result = None, ssp_timer = True, ssp_open = True, ssp_pings = 0 \<rparr>"

section \<open>The ICE probe\<close>

text \<open>The logs are one array: the report refers to it, so what is logged after the report is in it too. \<open>ip_offering\<close> says
  that the offer has not been made yet; its failure is logged whether or not the probe has settled.\<close>

record ice_probe =
  ip_result :: "(bool \<times> bool) option"
  ip_timer :: bool
  ip_listening :: bool
  ip_stun :: bool
  ip_turn :: bool
  ip_logs :: "string list"
  ip_offering :: bool

datatype ice_event =
    IceCandidate "string option"
  | IceCandidateError string
  | IceGathering bool
  | IceTimeout
  | OfferMade
  | OfferFailed string

definition ice_log :: "string \<Rightarrow> (ice_probe, probe_effect) act" where
  "ice_log message = upd (\<lambda>s. s\<lparr> ip_logs := ip_logs s @ [message] \<rparr>)"

definition finish_ice :: "(ice_probe, probe_effect) act" where
  "finish_ice =
     whenS (\<lambda>s. ip_result s = None)
       (seqS
         [upd (\<lambda>s. s\<lparr> ip_timer := False, ip_listening := False, ip_result := Some (ip_stun s, ip_turn s) \<rparr>),
          out (\<lambda>_. CloseResource)])"

definition on_candidate :: "string option \<Rightarrow> (ice_probe, probe_effect) act" where
  "on_candidate candidate =
     (case candidate of
        None \<Rightarrow> finish_ice
      | Some c \<Rightarrow>
          if c = [] then finish_ice
          else seqS
            [ice_log c,
             (if contains '' typ srflx '' c then upd (\<lambda>s. s\<lparr> ip_stun := True \<rparr>) else skipS),
             (if contains '' typ relay '' c then upd (\<lambda>s. s\<lparr> ip_turn := True \<rparr>) else skipS)])"

definition ice_step :: "ice_probe \<Rightarrow> ice_event \<Rightarrow> ice_probe \<times> probe_effect list" where
  "ice_step s e =
     (case e of
        IceCandidate candidate \<Rightarrow> whenS ip_listening (on_candidate candidate)
      | IceCandidateError reason \<Rightarrow> whenS ip_listening (ice_log (''ICE candidate error: '' @ reason))
      | IceGathering over \<Rightarrow> whenS ip_listening (if over then finish_ice else skipS)
      | IceTimeout \<Rightarrow> whenS ip_timer (seqS [upd (\<lambda>s. s\<lparr> ip_timer := False \<rparr>), ice_log ''ICE gathering timed out'', finish_ice])
      | OfferMade \<Rightarrow> upd (\<lambda>s. s\<lparr> ip_offering := False \<rparr>)
      | OfferFailed err \<Rightarrow>
          whenS ip_offering
            (seqS [upd (\<lambda>s. s\<lparr> ip_offering := False \<rparr>), ice_log (''ICE probe failed: '' @ err), finish_ice])) s"

definition new_ice_probe :: ice_probe where
  "new_ice_probe =
     \<lparr> ip_result = None, ip_timer = True, ip_listening = True, ip_stun = False, ip_turn = False, ip_logs = [], ip_offering = True \<rparr>"

record ice_report =
  ir_stunPassed :: bool
  ir_turnPassed :: bool
  ir_logs :: "string list"
  ir_summary :: "string option"

definition failed_report :: "string \<Rightarrow> ice_report" where
  "failed_report reason = \<lparr> ir_stunPassed = False, ir_turnPassed = False, ir_logs = [reason], ir_summary = None \<rparr>"

fun comma_joined :: "string list \<Rightarrow> string" where
  "comma_joined [] = []"
| "comma_joined [s] = s"
| "comma_joined (s # ss) = s @ '', '' @ comma_joined ss"

text \<open>The report as it reads after the events; \<open>None\<close> while the promise is open.\<close>

definition gatherIceCandidates :: "bool \<Rightarrow> ice_server list \<Rightarrow> bool \<Rightarrow> ice_event list \<Rightarrow> ice_report option" where
  "gatherIceCandidates webrtc iceServers turnsOnly es =
     (let servers = normalizeIceServers iceServers turnsOnly; s = fst (run ice_step new_ice_probe es)
      in if \<not> webrtc then Some (failed_report ''WebRTC not available'')
         else if servers = [] then Some (failed_report ''No ICE servers'')
         else map_option (\<lambda>(stun, turn). \<lparr> ir_stunPassed = stun, ir_turnPassed = turn, ir_logs = ip_logs s,
           ir_summary = Some (comma_joined (concat (map is_urls servers))) \<rparr>) (ip_result s))"

text \<open>Entries of the list of URIs that are no text are dropped by \<open>normalizeIceServers\<close>; here they are left out at once.\<close>

definition resolveIceServers ::
  "string option \<Rightarrow> fetch_answer \<Rightarrow> (string \<Rightarrow> fetch_answer) \<Rightarrow> diag_error + ice_server list \<Rightarrow> diag_error + ice_server list" where
  "resolveIceServers serverHost token_answer turn_answer provided =
     (case serverHost of
        None \<Rightarrow> provided
      | Some _ \<Rightarrow>
          (case fetchDiagnosticToken token_answer of
             Inl e \<Rightarrow> Inl e
           | Inr token \<Rightarrow>
               (case fetchTurnCredentials (turn_answer token) of
                  Inl e \<Rightarrow> Inl e
                | Inr credentials \<Rightarrow> Inr
                    [\<lparr> is_urls = List.map_filter (\<lambda>v. as_string (Some v)) (tc_uris credentials),
                       is_username = Some (tc_username credentials), is_credential = Some (tc_password credentials) \<rparr>])))"

definition runTurnProbe :: "diag_error + ice_server list \<Rightarrow> bool \<Rightarrow> bool \<Rightarrow> ice_event list \<Rightarrow> ice_report option" where
  "runTurnProbe resolved webrtc turnsOnly es =
     (case resolved of
        Inl err \<Rightarrow> Some (failed_report (message_of err))
      | Inr servers \<Rightarrow> gatherIceCandidates webrtc servers turnsOnly es)"

end
