(* ===== verification/Diagnostics_Claims.thy ===== *)
theory Diagnostics_Claims
  imports Diagnostics
begin

text \<open>
  Every probe ends and reports once, what it held is released with that, and the report of the ICE probe says what was
  gathered until then. The three promises are interpretations of the locale \<open>settles_once\<close>.
\<close>

section \<open>The probes settle once\<close>

lemmas probe_defs = socket_step_def finish_socket_def stream_step_def finish_stream_def ice_step_def finish_ice_def
  on_candidate_def ice_log_def

definition socket_inv :: "socket_probe \<Rightarrow> bool" where
  "socket_inv s \<longleftrightarrow> (wp_result s = None \<longleftrightarrow> wp_timer s) \<and> (wp_listening s \<longleftrightarrow> wp_timer s)"

definition stream_inv :: "stream_probe \<Rightarrow> bool" where
  "stream_inv s \<longleftrightarrow> (ssp_result s = None \<longleftrightarrow> ssp_timer s) \<and> (ssp_open s \<longleftrightarrow> ssp_timer s)"

definition ice_inv :: "ice_probe \<Rightarrow> bool" where
  "ice_inv s \<longleftrightarrow> (ip_result s = None \<longleftrightarrow> ip_timer s) \<and> (ip_listening s \<longleftrightarrow> ip_timer s)"

interpretation socket_probe: settles_once socket_step socket_inv wp_result WsTimeout "\<lambda>e. e = CloseResource"
proof
  fix s e r
  show "socket_inv (fst (socket_step s e))" if "socket_inv s"
    using that by (cases e) (auto simp: socket_inv_def probe_defs act_simps)
  show "wp_result (fst (socket_step s e)) = Some r" if "socket_inv s" "wp_result s = Some r"
    using that by (cases e) (auto simp: socket_inv_def probe_defs act_simps)
  show "wp_result (fst (socket_step s WsTimeout)) \<noteq> None" if "socket_inv s"
    using that by (auto simp: socket_inv_def probe_defs act_simps)
  show "length (filter (\<lambda>e. e = CloseResource) (snd (socket_step s e))) =
    (if wp_result s = None \<and> wp_result (fst (socket_step s e)) \<noteq> None then 1 else 0)" if "socket_inv s"
    using that by (cases e) (auto simp: socket_inv_def probe_defs act_simps)
qed

interpretation stream_probe: settles_once stream_step stream_inv ssp_result StreamTimedOut "\<lambda>e. e = CloseResource"
proof
  fix s e r
  show "stream_inv (fst (stream_step s e))" if "stream_inv s"
    using that by (cases e) (auto simp: stream_inv_def probe_defs act_simps)
  show "ssp_result (fst (stream_step s e)) = Some r" if "stream_inv s" "ssp_result s = Some r"
    using that by (cases e) (auto simp: stream_inv_def probe_defs act_simps)
  show "ssp_result (fst (stream_step s StreamTimedOut)) \<noteq> None" if "stream_inv s"
    using that by (auto simp: stream_inv_def probe_defs act_simps)
  show "length (filter (\<lambda>e. e = CloseResource) (snd (stream_step s e))) =
    (if ssp_result s = None \<and> ssp_result (fst (stream_step s e)) \<noteq> None then 1 else 0)" if "stream_inv s"
    using that by (cases e) (auto simp: stream_inv_def probe_defs act_simps)
qed

interpretation ice_probe: settles_once ice_step ice_inv ip_result IceTimeout "\<lambda>e. e = CloseResource"
proof
  fix s e r
  show "ice_inv (fst (ice_step s e))" if "ice_inv s"
    using that by (cases e) (auto simp: ice_inv_def probe_defs act_simps split: option.splits)
  show "ip_result (fst (ice_step s e)) = Some r" if "ice_inv s" "ip_result s = Some r"
    using that by (cases e) (auto simp: ice_inv_def probe_defs act_simps split: option.splits)
  show "ip_result (fst (ice_step s IceTimeout)) \<noteq> None" if "ice_inv s"
    using that by (auto simp: ice_inv_def probe_defs act_simps)
  show "length (filter (\<lambda>e. e = CloseResource) (snd (ice_step s e))) =
    (if ip_result s = None \<and> ip_result (fst (ice_step s e)) \<noteq> None then 1 else 0)" if "ice_inv s"
    using that by (cases e) (auto simp: ice_inv_def probe_defs act_simps split: option.splits)
qed

lemma probes_start: "socket_inv testWebSocket" "stream_inv testSse" "ice_inv new_ice_probe"
  by (simp_all add: socket_inv_def stream_inv_def ice_inv_def testWebSocket_def testSse_def new_ice_probe_def)

text \<open>Every probe ends, and reports once: whatever events a socket, an event stream or a peer connection raises, in
  whatever order, the probe has a result once its timer has fired, no later event changes that result, and the
  socket, the stream or the connection is closed exactly once, with the result.\<close>

theorem probes_settle_once:
  "(\<exists>r. \<forall>fs. wp_result (fst (run socket_step testWebSocket (es @ WsTimeout # fs))) = Some r) \<and>
   (\<exists>r. \<forall>fs. ssp_result (fst (run stream_step testSse (gs @ StreamTimedOut # fs))) = Some r) \<and>
   (\<exists>r. \<forall>fs. ip_result (fst (run ice_step new_ice_probe (hs @ IceTimeout # fs))) = Some r) \<and>
   length (filter (\<lambda>e. e = CloseResource) (snd (run socket_step testWebSocket es))) =
     (if wp_result (fst (run socket_step testWebSocket es)) = None then 0 else 1) \<and>
   length (filter (\<lambda>e. e = CloseResource) (snd (run stream_step testSse gs))) =
     (if ssp_result (fst (run stream_step testSse gs)) = None then 0 else 1) \<and>
   length (filter (\<lambda>e. e = CloseResource) (snd (run ice_step new_ice_probe hs))) =
     (if ip_result (fst (run ice_step new_ice_probe hs)) = None then 0 else 1)"
  using socket_probe.settled_after_expire [OF probes_start(1)] stream_probe.settled_after_expire [OF probes_start(2)]
    ice_probe.settled_after_expire [OF probes_start(3)]
  by (simp add: socket_probe.released_once probes_start stream_probe.released_once ice_probe.released_once)
    (simp add: testWebSocket_def testSse_def new_ice_probe_def)

section \<open>What the ICE probe reports\<close>

text \<open>The candidates until gathering ends; the flag is the one of the pending offer.\<close>

fun heard :: "bool \<Rightarrow> ice_event list \<Rightarrow> string list" where
  "heard offering [] = []"
| "heard offering (IceCandidate None # es) = []"
| "heard offering (IceCandidate (Some c) # es) = (if c = [] then [] else c # heard offering es)"
| "heard offering (IceCandidateError reason # es) = heard offering es"
| "heard offering (IceGathering over # es) = (if over then [] else heard offering es)"
| "heard offering (IceTimeout # es) = []"
| "heard offering (OfferMade # es) = heard False es"
| "heard offering (OfferFailed err # es) = (if offering then [] else heard offering es)"

text \<open>A step either ends the gathering or adds what it heard.\<close>

lemma step_ends:
  assumes "ice_inv s" and "ip_result s = None" and "ip_result (fst (ice_step s e)) = Some r"
  shows "r = (ip_stun s, ip_turn s) \<and> heard (ip_offering s) (e # es) = []"
  using assms by (cases e) (auto simp: ice_inv_def probe_defs act_simps split: option.splits if_splits)

lemma step_goes_on:
  assumes "ice_inv s" and "ip_result s = None" and "ip_result (fst (ice_step s e)) = None"
  shows "e \<noteq> IceTimeout \<and> (\<exists>new. heard (ip_offering s) (e # es) = new @ heard (ip_offering (fst (ice_step s e))) es \<and>
    (ip_stun (fst (ice_step s e)) \<longleftrightarrow> ip_stun s \<or> list_ex (contains '' typ srflx '') new) \<and>
    (ip_turn (fst (ice_step s e)) \<longleftrightarrow> ip_turn s \<or> list_ex (contains '' typ relay '') new))"
proof (cases e)
  case (IceCandidate candidate)
  then show ?thesis using assms
    by (cases candidate) (auto simp: ice_inv_def probe_defs act_simps split: if_splits intro: exI [of _ "[the candidate]"])
qed (use assms in \<open>auto simp: ice_inv_def probe_defs act_simps split: if_splits\<close>)

lemma ice_run_result:
  assumes "ip_result s = None" and "ice_inv s" and "IceTimeout \<in> set es"
  shows "ip_result (fst (run ice_step s es)) =
    Some (ip_stun s \<or> list_ex (contains '' typ srflx '') (heard (ip_offering s) es),
          ip_turn s \<or> list_ex (contains '' typ relay '') (heard (ip_offering s) es))"
  using assms
proof (induction es arbitrary: s)
  case (Cons e es)
  have inv: "ice_inv (fst (ice_step s e))" by (rule ice_probe.step_inv [OF Cons.prems(2)])
  show ?case
  proof (cases "ip_result (fst (ice_step s e))")
    case None
    note on = step_goes_on [OF Cons.prems(2,1) None, of es]
    from on obtain new where "heard (ip_offering s) (e # es) = new @ heard (ip_offering (fst (ice_step s e))) es"
      "ip_stun (fst (ice_step s e)) \<longleftrightarrow> ip_stun s \<or> list_ex (contains '' typ srflx '') new"
      "ip_turn (fst (ice_step s e)) \<longleftrightarrow> ip_turn s \<or> list_ex (contains '' typ relay '') new" by blast
    then show ?thesis using Cons.IH [OF None inv] Cons.prems(3) on by (auto simp: Let_def)
  next
    case (Some r)
    have "ip_result (fst (run ice_step (fst (ice_step s e)) es)) = Some r" by (rule ice_probe.run_result_kept [OF inv Some])
    then show ?thesis using step_ends [OF Cons.prems(2,1) Some, of es] by (simp add: Let_def)
  qed
qed simp

text \<open>C33: The ICE probe reports what was gathered: once its timer has fired, STUN passed exactly if a server-reflexive
  candidate came before gathering ended - by the end of candidates, completion, a failed offer or the timer - and TURN
  exactly if a relay candidate did; later candidates do not count.\<close>

theorem probe_reports_what_it_heard:
  assumes "IceTimeout \<in> set es" and "webrtc" and "normalizeIceServers servers turnsOnly \<noteq> []"
  shows "\<exists>report. runTurnProbe (Inr servers) webrtc turnsOnly es = Some report \<and>
    (ir_stunPassed report \<longleftrightarrow> (\<exists>c \<in> set (heard True es). contains '' typ srflx '' c)) \<and>
    (ir_turnPassed report \<longleftrightarrow> (\<exists>c \<in> set (heard True es). contains '' typ relay '' c))"
  using ice_run_result [of new_ice_probe es] assms probes_start(3)
  by (simp add: runTurnProbe_def gatherIceCandidates_def Let_def new_ice_probe_def list_ex_iff)

theorem probe_reports_what_it_heard_witness:
  "\<exists>report. runTurnProbe (Inr [\<lparr> is_urls = [''turns:relay''], is_username = None, is_credential = None \<rparr>]) True True
     [OfferMade, IceCandidate (Some ''candidate:1 typ relay raddr''), IceTimeout] = Some report \<and> ir_turnPassed report"
proof -
  let ?es = "[OfferMade, IceCandidate (Some ''candidate:1 typ relay raddr''), IceTimeout]"
  let ?servers = "[\<lparr> is_urls = [''turns:relay''], is_username = None, is_credential = None \<rparr>]"
  have "normalizeIceServers ?servers True \<noteq> []" by code_simp
  moreover have "\<exists>c \<in> set (heard True ?es). contains '' typ relay '' c" by code_simp
  ultimately show ?thesis using probe_reports_what_it_heard [of ?es True ?servers True] by auto
qed

text \<open>The report refers to the array of the logs, so an offer that fails after the report adds to it.\<close>

theorem late_failure_is_logged:
  "gatherIceCandidates True [\<lparr> is_urls = [''stun:a''], is_username = None, is_credential = None \<rparr>] False [IceTimeout, OfferFailed e] =
   Some \<lparr> ir_stunPassed = False, ir_turnPassed = False,
     ir_logs = [''ICE gathering timed out'', ''ICE probe failed: '' @ e], ir_summary = Some ''stun:a'' \<rparr>"
  by (simp add: gatherIceCandidates_def normalizeIceServers_def new_ice_probe_def probe_defs act_simps)

section \<open>Connectivity\<close>

text \<open>TURN credentials are checked with a token whenever one of two requests gives one; a passed check means a user name, a
  password and at least one address.\<close>

theorem turn_check_passes_iff:
  assumes "runConnectivityChecks (Some host) w = Inr report"
  shows "(\<exists>l. cc_turnCredentials report = Passed l) \<longleftrightarrow>
    (\<exists>token credentials. (fetchDiagnosticToken (cw_token w) = Inr token \<or>
       (\<forall>t. fetchDiagnosticToken (cw_token w) \<noteq> Inr t) \<and> fetchDiagnosticToken (cw_tokenAgain w) = Inr token) \<and>
       fetchTurnCredentials (cw_turn w token) = Inr credentials \<and>
       \<not> is_blank (tc_username credentials) \<and> \<not> is_blank (tc_password credentials) \<and> tc_uris credentials \<noteq> [])"
proof -
  have valid: "\<not> is_blank (tc_username c) \<and> \<not> is_blank (tc_password c) \<and> tc_uris c \<noteq> []"
    if "fetchTurnCredentials a = Inr c" for a c
    using that by (auto simp: fetchTurnCredentials_def split: sum.splits option.splits json.splits if_splits)
  have "cc_turnCredentials report = runTimedCheck (cw_latency w 4) (turn_check w)"
    using assms by (auto simp: runConnectivityChecks_def)
  then show ?thesis
    using valid by (auto simp: runTimedCheck_def turn_check_def token_for_turn_def split: sum.splits)
qed

definition flaky_world :: connectivity_world where
  "flaky_world = \<lparr> cw_room = NoAnswer [], cw_socket = Inl SocketTimeout, cw_stream = Inl StreamFailed, cw_token = Answer 500 None,
     cw_tokenAgain = Answer 200 (Some (JObj [(''token'', JStr '' t '')])),
     cw_turn = (\<lambda>t. if t = ''t'' then Answer 200 (Some (JObj [(''username'', JStr ''u''), (''password'', JStr ''p''),
       (''uris'', JArr [JStr ''turn:a''])])) else NoAnswer []), cw_latency = (\<lambda>_. 1) \<rparr>"

theorem turn_check_passes_iff_witness:
  "\<exists>report l. runConnectivityChecks (Some ''h'') flaky_world = Inr report \<and> cc_diagnosticToken report = Failed ''Request failed: 500'' \<and>
     cc_turnCredentials report = Passed l"
proof -
  have five_hundred: "decimal 500 = ''500''" by code_simp
  obtain report where report: "runConnectivityChecks (Some ''h'') flaky_world = Inr report"
      "cc_diagnosticToken report = Failed ''Request failed: 500''"
    using five_hundred by (simp add: runConnectivityChecks_def flaky_world_def runTimedCheck_def fetchDiagnosticToken_def
        fetchJson_def answer_ok_def status_text_def)
  have "fetchDiagnosticToken (cw_tokenAgain flaky_world) = Inr ''t''" by code_simp
  moreover have "fetchTurnCredentials (cw_turn flaky_world ''t'') =
    Inr \<lparr> tc_username = ''u'', tc_password = ''p'', tc_uris = [JStr ''turn:a''] \<rparr>" by code_simp
  moreover have "fetchDiagnosticToken (cw_token flaky_world) \<noteq> Inr t" for t
    by (simp add: flaky_world_def fetchDiagnosticToken_def fetchJson_def answer_ok_def)
  moreover have "\<not> is_blank ''u''" "\<not> is_blank ''p''" by code_simp+
  ultimately show ?thesis using turn_check_passes_iff [OF report(1)] report by fastforce
qed

end
