(* ===== verification/Snapshots.thy ===== *)
theory Snapshots
  imports Session Browser_Basics
begin

text \<open>
  Still pictures of a stream, \<^verbatim>\<open>media/captureSnapshot.ts\<close>, with the guards of \<open>captureSnapshot\<close> in \<^verbatim>\<open>SerenadaSession.ts\<close>.
  The video element and the canvas belong to the browser: what they report is an input, and the wait for the first
  frame is a state machine over their events.
\<close>

section \<open>Errors and streams\<close>

datatype snapshot_code = StreamNotActive | NoVideoTrack | CaptureTimeout | CaptureFailed | UnsupportedSource

type_synonym snapshot_error = "snapshot_code \<times> string"

record camera_track =
  ct_live :: bool
  ct_enabled :: bool

text \<open>A stream is known by its number; the argument that has no such kind is not a value of the type.\<close>

definition resolveSnapshotStream ::
  "snapshot_source \<Rightarrow> nat option \<Rightarrow> (string \<times> nat) list \<Rightarrow> snapshot_error + nat" where
  "resolveSnapshotStream source localStream remoteStreams =
     (case source of
        SnapLocal \<Rightarrow>
          (case localStream of None \<Rightarrow> Inl (StreamNotActive, ''Local stream is not active'') | Some stream \<Rightarrow> Inr stream)
      | SnapRemote cid \<Rightarrow>
          (case map_of remoteStreams cid of
             None \<Rightarrow> Inl (StreamNotActive, ''Remote stream for cid '' @ cid @ '' is not active'')
           | Some stream \<Rightarrow> Inr stream))"

section \<open>Waiting for the first frame\<close>

text \<open>The promise, the timer, whether the two listeners are attached, whether a frame callback is requested, the deferred
  checks, and the size the element reports. \<open>fw_supportsRvfc\<close> says whether the element has frame callbacks.\<close>

record frame_wait =
  fw_result :: "(snapshot_error + unit) option"
  fw_timer :: bool
  fw_listening :: bool
  fw_rvfc :: bool
  fw_deferred :: nat
  fw_size :: "nat \<times> nat"
  fw_supportsRvfc :: bool

datatype frame_event =
    FrameSize nat nat
  | FrameMetadata
  | FrameDeferred
  | FramePresented
  | FrameError
  | FrameTimeout

datatype frame_effect = CancelFrameCallback | RemoveListeners

type_synonym frame_act = "(frame_wait, frame_effect) act"

text \<open>An element that has frame callbacks can cancel them.\<close>

definition frame_cleanup :: frame_act where
  "frame_cleanup =
     seqS
       [upd (\<lambda>s. s\<lparr> fw_timer := False \<rparr>),
        whenS fw_rvfc (seqS [out (\<lambda>_. CancelFrameCallback), upd (\<lambda>s. s\<lparr> fw_rvfc := False \<rparr>)]),
        upd (\<lambda>s. s\<lparr> fw_listening := False \<rparr>), out (\<lambda>_. RemoveListeners)]"

definition settle_frame :: "snapshot_error + unit \<Rightarrow> frame_act" where
  "settle_frame outcome =
     whenS (\<lambda>s. fw_result s = None) (seqS [upd (\<lambda>s. s\<lparr> fw_result := Some outcome \<rparr>), frame_cleanup])"

definition settleSuccess :: frame_act where
  "settleSuccess =
     whenS (\<lambda>s. fw_result s = None) (whenS (\<lambda>s. fst (fw_size s) > 0 \<and> snd (fw_size s) > 0) (settle_frame (Inr ())))"

definition onMetadata :: frame_act where
  "onMetadata =
     ifS (\<lambda>s. fw_supportsRvfc s \<or> fw_result s \<noteq> None) skipS (upd (\<lambda>s. s\<lparr> fw_deferred := fw_deferred s + 1 \<rparr>))"

text \<open>The default timeout; nobody passes another one.\<close>

definition SNAPSHOT_FRAME_TIMEOUT_MS :: nat where "SNAPSHOT_FRAME_TIMEOUT_MS = 2000"

definition frame_timeout_text :: string where
  "frame_timeout_text = ''No frame within '' @ decimal SNAPSHOT_FRAME_TIMEOUT_MS @ ''ms''"

definition frame_step :: "frame_wait \<Rightarrow> frame_event \<Rightarrow> frame_wait \<times> frame_effect list" where
  "frame_step s e =
     (case e of
        FrameSize w h \<Rightarrow> upd (\<lambda>s. s\<lparr> fw_size := (w, h) \<rparr>)
      | FrameMetadata \<Rightarrow> whenS fw_listening onMetadata
      | FrameDeferred \<Rightarrow>
          whenS (\<lambda>s. fw_deferred s > 0) (seqS [upd (\<lambda>s. s\<lparr> fw_deferred := fw_deferred s - 1 \<rparr>), settleSuccess])
      | FramePresented \<Rightarrow> whenS fw_rvfc (seqS [upd (\<lambda>s. s\<lparr> fw_rvfc := False \<rparr>), settleSuccess])
      | FrameError \<Rightarrow> whenS fw_listening (settle_frame (Inl (CaptureFailed, ''Video element reported error'')))
      | FrameTimeout \<Rightarrow>
          whenS fw_timer
            (seqS [upd (\<lambda>s. s\<lparr> fw_timer := False \<rparr>), settle_frame (Inl (CaptureTimeout, frame_timeout_text))])) s"

definition waitForFirstFrame :: "bool \<Rightarrow> nat \<times> nat \<Rightarrow> frame_wait" where
  "waitForFirstFrame supportsRvfc dims =
     \<lparr> fw_result = None, fw_timer = True, fw_listening = True, fw_rvfc = supportsRvfc, fw_deferred = 0, fw_size = dims,
       fw_supportsRvfc = supportsRvfc \<rparr>"

section \<open>Capturing\<close>

text \<open>Whether there is a document, the video tracks, the error of binding the stream, frame callbacks, and whether the canvas
  has a context.\<close>

record capture_world =
  cp_document :: bool
  cp_tracks :: "camera_track list"
  cp_bindError :: "string option"
  cp_supportsRvfc :: bool
  cp_context :: bool

text \<open>A blob is known by its number.\<close>

record captured_frame =
  cf_blob :: nat
  cf_width :: nat
  cf_height :: nat

text \<open>The wait for the frame (none if the capture was refused before it), the size of the drawn picture while the canvas
  encodes it, and the result once there is one.\<close>

record capture =
  cx_wait :: "frame_wait option"
  cx_encoding :: "(nat \<times> nat) option"
  cx_result :: "(snapshot_error + captured_frame) option"

datatype capture_event = Frame frame_event | Encoded "nat option"

datatype capture_effect = BindVideo | OnFrame frame_effect | DrawImage nat nat | PauseVideo | UnbindVideo

type_synonym capture_act = "(capture, capture_effect) act"

text \<open>What is refused before a video element is bound.\<close>

definition capture_refused :: "capture_world \<Rightarrow> snapshot_error option" where
  "capture_refused w =
     (if \<not> cp_document w then Some (CaptureFailed, ''No document available for canvas'')
      else if cp_tracks w = [] then Some (NoVideoTrack, ''Stream has no video track'')
      else if \<not> list_ex (\<lambda>t. ct_live t \<and> ct_enabled t) (cp_tracks w)
      then Some (StreamNotActive, ''Stream has no enabled live video track'')
      else map_option (\<lambda>e. (CaptureFailed, ''Cannot bind stream: '' @ e)) (cp_bindError w))"

text \<open>The \<open>finally\<close> block, after the picture is returned or the error thrown.\<close>

definition capture_finish :: "snapshot_error + captured_frame \<Rightarrow> capture_act" where
  "capture_finish outcome =
     seqS
       [upd (\<lambda>s. s\<lparr> cx_encoding := None, cx_result := Some outcome \<rparr>), out (\<lambda>_. PauseVideo), out (\<lambda>_. UnbindVideo)]"

text \<open>The frame is there: the size is read now, and the canvas encodes what is drawn.\<close>

definition draw_frame :: "capture_world \<Rightarrow> nat \<times> nat \<Rightarrow> capture_act" where
  "draw_frame w dims =
     (if fst dims = 0 \<or> snd dims = 0 then capture_finish (Inl (CaptureFailed, ''Video dimensions are zero''))
      else if \<not> cp_context w then capture_finish (Inl (CaptureFailed, ''Cannot get 2D canvas context''))
      else seqS [out (\<lambda>_. DrawImage (fst dims) (snd dims)), upd (\<lambda>s. s\<lparr> cx_encoding := Some dims \<rparr>)])"

text \<open>The rest of \<open>captureFrameFromStream\<close> when the wait settles, which it does once.\<close>

definition frame_awaited :: "capture_world \<Rightarrow> frame_wait \<Rightarrow> frame_wait \<Rightarrow> capture_act" where
  "frame_awaited w before after =
     (case fw_result before of
        Some _ \<Rightarrow> skipS
      | None \<Rightarrow>
          (case fw_result after of
             None \<Rightarrow> skipS
           | Some (Inl e) \<Rightarrow> capture_finish (Inl e)
           | Some (Inr _) \<Rightarrow> draw_frame w (fw_size after)))"

text \<open>The canvas is encoded, or could not be.\<close>

definition frame_encoded :: "nat option \<Rightarrow> capture_act" where
  "frame_encoded outcome =
     letS cx_encoding (\<lambda>encoding. case encoding of
       None \<Rightarrow> skipS
     | Some dims \<Rightarrow> capture_finish (case outcome of
           None \<Rightarrow> Inl (CaptureFailed, ''Canvas encode returned null'')
         | Some blob \<Rightarrow> Inr \<lparr> cf_blob = blob, cf_width = fst dims, cf_height = snd dims \<rparr>))"

definition capture_step :: "capture_world \<Rightarrow> capture \<Rightarrow> capture_event \<Rightarrow> capture \<times> capture_effect list" where
  "capture_step w s e =
     (case e of
        Frame fe \<Rightarrow>
          letS cx_wait (\<lambda>waiting. case waiting of
            None \<Rightarrow> skipS
          | Some before \<Rightarrow>
              (let r = frame_step before fe in seqS
                [upd (\<lambda>s. s\<lparr> cx_wait := Some (fst r) \<rparr>), outs (\<lambda>_. map OnFrame (snd r)), frame_awaited w before (fst r)]))
      | Encoded outcome \<Rightarrow> frame_encoded outcome) s"

definition captureFrameFromStream :: "capture_world \<Rightarrow> capture \<times> capture_effect list" where
  "captureFrameFromStream w =
     (case capture_refused w of
        Some e \<Rightarrow> (\<lparr> cx_wait = None, cx_encoding = None, cx_result = Some (Inl e) \<rparr>, [])
      | None \<Rightarrow>
          (\<lparr> cx_wait = Some (waitForFirstFrame (cp_supportsRvfc w) (0, 0)), cx_encoding = None, cx_result = None \<rparr>, [BindVideo]))"

text \<open>The capture a session offers: its own guards first, then the stream, then the frame, with the time it was taken.\<close>

definition captureSnapshot ::
  "snapshot_source \<Rightarrow> session \<Rightarrow> nat option \<Rightarrow> (string \<times> nat) list \<Rightarrow> (nat \<Rightarrow> capture_world) \<Rightarrow>
   snapshot_error + (capture \<times> capture_effect list)" where
  "captureSnapshot source s localStream remoteStreams world =
     (case snapshot_refused source s of
        Some message \<Rightarrow> Inl (StreamNotActive, message)
      | None \<Rightarrow>
          (case resolveSnapshotStream source localStream remoteStreams of
             Inl e \<Rightarrow> Inl e
           | Inr stream \<Rightarrow> Inr (captureFrameFromStream (world stream))))"

record snapshot_result =
  sr_blob :: nat
  sr_width :: nat
  sr_height :: nat
  sr_timestampMs :: nat
  sr_source :: snapshot_source

definition snapshot_taken :: "snapshot_source \<Rightarrow> nat \<Rightarrow> captured_frame \<Rightarrow> snapshot_result" where
  "snapshot_taken source now frame =
     \<lparr> sr_blob = cf_blob frame, sr_width = cf_width frame, sr_height = cf_height frame, sr_timestampMs = now,
       sr_source = source \<rparr>"

section \<open>Data URLs\<close>

text \<open>The decoders \<open>atob\<close> and \<open>decodeURIComponent\<close> are parameters; \<open>None\<close> when they throw.\<close>

record typed_blob =
  tb_bytes :: string
  tb_type :: string

definition before_comma :: "string \<Rightarrow> string option" where
  "before_comma s = (if CHR '','' \<in> set s then Some (takeWhile (\<lambda>c. c \<noteq> CHR '','') s) else None)"

text \<open>The first match of \<open>data:([^;]+)\<close>.\<close>

fun data_type :: "string \<Rightarrow> string option" where
  "data_type [] = None"
| "data_type (c # s) =
     (let found = takeWhile (\<lambda>x. x \<noteq> CHR '';'') (drop 5 (c # s))
      in if starts_with ''data:'' (c # s) \<and> found \<noteq> [] then Some found else data_type s)"

definition dataUrlToBlob :: "(string \<Rightarrow> string option) \<Rightarrow> (string \<Rightarrow> string option) \<Rightarrow> string \<Rightarrow> typed_blob option" where
  "dataUrlToBlob atob decode dataUrl =
     Option.bind (before_comma dataUrl) (\<lambda>meta.
       let body = drop (length meta + 1) dataUrl; mime = default ''application/octet-stream'' (data_type meta)
       in map_option (\<lambda>bytes. \<lparr> tb_bytes = bytes, tb_type = mime \<rparr>)
            (if contains '';base64'' meta then atob body else decode body))"

text \<open>The canvas encodes by itself if it can; otherwise as a data URL, which may throw.\<close>

definition canvasToBlob ::
  "(string \<Rightarrow> string option) \<Rightarrow> (string \<Rightarrow> string option) \<Rightarrow> typed_blob option option \<Rightarrow> string option \<Rightarrow> typed_blob option" where
  "canvasToBlob atob decode toBlob dataUrl =
     (case toBlob of
        Some blob \<Rightarrow> blob
      | None \<Rightarrow> Option.bind dataUrl (dataUrlToBlob atob decode))"

section \<open>The frame wait settles once\<close>

lemmas frame_defs = frame_step_def settle_frame_def settleSuccess_def frame_cleanup_def onMetadata_def

definition frame_inv :: "frame_wait \<Rightarrow> bool" where
  "frame_inv s \<longleftrightarrow> (fw_result s = None \<longleftrightarrow> fw_timer s) \<and> (fw_listening s \<longleftrightarrow> fw_timer s) \<and>
     (fw_rvfc s \<longrightarrow> fw_timer s)"

interpretation frame_wait: settles_once frame_step frame_inv fw_result FrameTimeout "\<lambda>e. e = RemoveListeners"
proof
  fix s e r
  show "frame_inv (fst (frame_step s e))" if "frame_inv s"
    using that by (cases e) (auto simp: frame_inv_def frame_defs act_simps)
  show "fw_result (fst (frame_step s e)) = Some r" if "frame_inv s" "fw_result s = Some r"
    using that by (cases e) (auto simp: frame_inv_def frame_defs act_simps)
  show "fw_result (fst (frame_step s FrameTimeout)) \<noteq> None" if "frame_inv s"
    using that by (auto simp: frame_inv_def frame_defs act_simps)
  show "length (filter (\<lambda>e. e = RemoveListeners) (snd (frame_step s e))) =
    (if fw_result s = None \<and> fw_result (fst (frame_step s e)) \<noteq> None then 1 else 0)" if "frame_inv s"
    using that by (cases e) (auto simp: frame_inv_def frame_defs act_simps)
qed

lemma frame_starts: "frame_inv (waitForFirstFrame r dims)"
  by (simp add: frame_inv_def waitForFirstFrame_def)

section \<open>A capture in every run\<close>

text \<open>What was done to the element and drawn so far, in order.\<close>

definition element_log :: "capture_effect list \<Rightarrow> capture_effect list" where
  "element_log es = filter (\<lambda>e. case e of OnFrame _ \<Rightarrow> False | _ \<Rightarrow> True) es"

text \<open>A capture is refused, waits for the frame, encodes a drawn frame, or is over.\<close>

definition capture_inv :: "capture_world \<Rightarrow> capture \<Rightarrow> capture_effect list \<Rightarrow> bool" where
  "capture_inv w s acts =
     (case cx_wait s of
        None \<Rightarrow> capture_refused w \<noteq> None \<and> cx_encoding s = None \<and> cx_result s \<noteq> None \<and> (\<forall>f. cx_result s \<noteq> Some (Inr f)) \<and> acts = []
      | Some fw \<Rightarrow>
          capture_refused w = None \<and> frame_inv fw \<and>
          (if fw_result fw = None then cx_encoding s = None \<and> cx_result s = None \<and> acts = [BindVideo]
           else case cx_encoding s of
             Some dims \<Rightarrow> cx_result s = None \<and> 0 < fst dims \<and> 0 < snd dims \<and> acts = [BindVideo, DrawImage (fst dims) (snd dims)]
           | None \<Rightarrow>
               (case cx_result s of
                  None \<Rightarrow> False
                | Some (Inl e) \<Rightarrow> \<exists>drawn. acts = BindVideo # drawn @ [PauseVideo, UnbindVideo] \<and> length drawn \<le> 1
                | Some (Inr f) \<Rightarrow> 0 < cf_width f \<and> 0 < cf_height f \<and>
                    acts = [BindVideo, DrawImage (cf_width f) (cf_height f), PauseVideo, UnbindVideo])))"

lemma element_log_simps [simp]:
  "element_log [] = []" "element_log (map OnFrame es) = []" "element_log (xs @ ys) = element_log xs @ element_log ys"
  "element_log (BindVideo # xs) = BindVideo # element_log xs" "element_log (PauseVideo # xs) = PauseVideo # element_log xs"
  "element_log (UnbindVideo # xs) = UnbindVideo # element_log xs"
  "element_log (DrawImage x y # xs) = DrawImage x y # element_log xs"
  by (simp_all add: element_log_def)

lemma capture_starts:
  "capture_inv w (fst (captureFrameFromStream w)) (element_log (snd (captureFrameFromStream w)))"
  using frame_starts by (simp add: captureFrameFromStream_def capture_inv_def waitForFirstFrame_def split: option.split)

lemma frame_event_log:
  assumes "capture_inv w s acts" "cx_wait s = Some fw"
  shows "capture_inv w (fst (capture_step w s (Frame fe))) (acts @ element_log (snd (capture_step w s (Frame fe))))"
proof -
  have i: "frame_inv fw" "frame_inv (fst (frame_step fw fe))"
    using assms frame_wait.step_inv by (auto simp: capture_inv_def)
  show ?thesis
  proof (cases "fw_result fw")
    case None
    with assms have s: "cx_encoding s = None" "cx_result s = None" "acts = [BindVideo]" "capture_refused w = None" by (auto simp: capture_inv_def)
    show ?thesis
      using assms(2) None i(2) s
      by (cases "fw_result (fst (frame_step fw fe))")
        (auto simp: capture_step_def frame_awaited_def draw_frame_def capture_finish_def capture_inv_def act_simps
          split: sum.split)
  next
    case (Some r)
    with i(1) have "fw_result (fst (frame_step fw fe)) = Some r" by (rule frame_wait.result_kept)
    with assms Some i show ?thesis
      by (auto simp: capture_step_def frame_awaited_def capture_inv_def act_simps split: option.splits)
  qed
qed

lemma encoded_log:
  assumes "capture_inv w s acts"
  shows "capture_inv w (fst (capture_step w s (Encoded b))) (acts @ element_log (snd (capture_step w s (Encoded b))))"
proof (cases "cx_encoding s")
  case None
  then show ?thesis using assms by (simp add: capture_step_def frame_encoded_def act_simps)
next
  case (Some dims)
  then obtain fw where fw: "cx_wait s = Some fw" using assms by (auto simp: capture_inv_def split: option.splits)
  with assms Some have "fw_result fw \<noteq> None" "frame_inv fw" "0 < fst dims" "0 < snd dims"
    "capture_refused w = None" "acts = [BindVideo, DrawImage (fst dims) (snd dims)]"
    by (auto simp: capture_inv_def split: if_splits)
  with fw Some show ?thesis
    by (cases b) (simp_all add: capture_step_def frame_encoded_def capture_finish_def capture_inv_def act_simps)
qed

lemma capture_step_log:
  assumes "capture_inv w s acts"
  shows "capture_inv w (fst (capture_step w s e)) (acts @ element_log (snd (capture_step w s e)))"
proof (cases e)
  case (Frame fe)
  show ?thesis
  proof (cases "cx_wait s")
    case None
    with assms Frame show ?thesis by (simp add: capture_step_def act_simps)
  next
    case (Some fw)
    with frame_event_log [OF assms] Frame show ?thesis by simp
  qed
qed (use encoded_log [OF assms] in simp)

lemma capture_run_log:
  "capture_inv w s acts \<Longrightarrow>
   capture_inv w (fst (run (capture_step w) s es)) (acts @ element_log (snd (run (capture_step w) s es)))"
proof (induction es arbitrary: s acts)
  case (Cons e es)
  from Cons.IH [OF capture_step_log [OF Cons.prems, of e]] show ?case by (simp add: Let_def)
qed simp

definition waited :: "capture \<Rightarrow> bool" where
  "waited s = (case cx_wait s of None \<Rightarrow> True | Some fw \<Rightarrow> fw_result fw \<noteq> None)"

lemma waited_step:
  assumes "capture_inv w s acts" "waited s \<or> e = Frame FrameTimeout"
  shows "waited (fst (capture_step w s e))"
proof (cases "cx_wait s")
  case None
  with assms(1) show ?thesis
    by (cases e) (auto simp: capture_step_def frame_encoded_def waited_def capture_inv_def act_simps)
next
  case (Some fw)
  then have i: "frame_inv fw" using assms(1) by (simp add: capture_inv_def)
  have step: "map_option fw_result (cx_wait (fst (capture_step w s (Frame fe)))) = Some (fw_result (fst (frame_step fw fe)))" for fe
    using Some by (auto simp: capture_step_def frame_awaited_def draw_frame_def capture_finish_def act_simps
        split: option.split sum.split)
  have keep: "cx_wait (fst (capture_step w s (Encoded b))) = Some fw" for b
    using Some by (auto simp: capture_step_def frame_encoded_def capture_finish_def act_simps split: option.split)
  show ?thesis
  proof (cases e)
    case (Frame fe)
    have "fw_result (fst (frame_step fw fe)) \<noteq> None"
    proof (cases "fw_result fw")
      case None
      with assms(2) Some Frame have "fe = FrameTimeout" by (simp add: waited_def)
      with frame_wait.expire_settles [OF i] show ?thesis by simp
    qed (use frame_wait.result_kept [OF i] in simp)
    with step [of fe] Frame show ?thesis by (auto simp: waited_def)
  next
    case (Encoded b)
    with keep assms(2) Some show ?thesis by (simp add: waited_def)
  qed
qed

lemma result_step:
  assumes "capture_inv w s acts" "cx_result s = Some r"
  shows "cx_result (fst (capture_step w s e)) = Some r"
proof (cases "cx_wait s")
  case None
  with assms show ?thesis
    by (cases e) (auto simp: capture_step_def frame_encoded_def capture_inv_def act_simps)
next
  case (Some fw)
  with assms have "fw_result fw \<noteq> None" "cx_encoding s = None"
    by (auto simp: capture_inv_def split: if_splits option.splits)
  with assms Some show ?thesis
    by (cases e) (auto simp: capture_step_def frame_encoded_def frame_awaited_def act_simps)
qed

lemma result_kept:
  "capture_inv w s acts \<Longrightarrow> cx_result s = Some r \<Longrightarrow> cx_result (fst (run (capture_step w) s fs)) = Some r"
proof (induction fs arbitrary: s acts)
  case (Cons e fs)
  from Cons.IH [OF capture_step_log [OF Cons.prems(1)] result_step [OF Cons.prems]] show ?case by (simp add: Let_def)
qed simp

lemma picture_step:
  assumes "capture_inv w s acts" "cx_result (fst (capture_step w s e)) = Some (Inr f)"
  shows "cx_result s = Some (Inr f) \<or> e = Encoded (Some (cf_blob f))"
proof (cases e)
  case (Frame fe)
  with assms show ?thesis
    by (auto simp: capture_step_def frame_awaited_def draw_frame_def capture_finish_def act_simps
        split: option.splits sum.splits if_splits)
next
  case (Encoded b)
  with assms show ?thesis
    by (cases b) (auto simp: capture_step_def frame_encoded_def capture_finish_def act_simps split: option.splits)
qed

lemma encoding_ends:
  "cx_encoding s = Some dims \<Longrightarrow> cx_result (fst (capture_step w s (Encoded b))) \<noteq> None"
  by (simp add: capture_step_def frame_encoded_def capture_finish_def act_simps)

lemma capture_run_facts:
  assumes "capture_inv w s acts" "cx_result s = None \<or> (\<exists>e. cx_result s = Some (Inl e))"
  shows "(Frame FrameTimeout \<in> set es \<longrightarrow> waited (fst (run (capture_step w) s es))) \<and>
    (\<forall>f. cx_result (fst (run (capture_step w) s es)) = Some (Inr f) \<longrightarrow> Encoded (Some (cf_blob f)) \<in> set es)"
proof (induction es rule: rev_induct)
  case Nil
  with assms(2) show ?case by auto
next
  case (snoc e es)
  have last: "fst (run (capture_step w) s (es @ [e])) = fst (capture_step w (fst (run (capture_step w) s es)) e)"
    by (simp add: run_append Let_def)
  note inv = capture_run_log [OF assms(1), of es]
  show ?case
    unfolding last using snoc.IH waited_step [OF inv, of e] picture_step [OF inv, of e] by auto
qed

text \<open>C36: A snapshot cleans up, and only its encoding is not bounded by its timer. In every run of a capture: the element is
  bound at most once, and paused and unbound exactly when there is a result; a wait that is over left no timer,
  listener or frame callback behind; once the timer fired, the wait is over: there is a result, or a frame was drawn and
  is being encoded, and then the next answer of the encoder ends the capture, whatever it is; a result
  never changes; and a picture is the encoder's, has the positive size at which the frame was drawn, whatever size the
  element reports later, and comes from a live enabled track.\<close>

theorem snapshot_ends_clean:
  "let start = captureFrameFromStream w; q = run (capture_step w) (fst start) es; s = fst q;
       acts = element_log (snd start @ snd q)
   in (if capture_refused w \<noteq> None then acts = [] \<and> cx_result s \<noteq> None
       else if cx_result s \<noteq> None then \<exists>drawn. acts = BindVideo # drawn @ [PauseVideo, UnbindVideo] \<and> length drawn \<le> 1
       else \<exists>drawn. acts = BindVideo # drawn \<and> PauseVideo \<notin> set drawn \<and> UnbindVideo \<notin> set drawn \<and> length drawn \<le> 1) \<and>
      (case cx_wait s of
         None \<Rightarrow> True
       | Some fw \<Rightarrow> if fw_result fw = None then fw_timer fw \<and> fw_listening fw
                    else \<not> fw_timer fw \<and> \<not> fw_listening fw \<and> \<not> fw_rvfc fw) \<and>
      (if Frame FrameTimeout \<in> set es \<and> cx_encoding s = None then cx_result s \<noteq> None else True) \<and>
      (if cx_encoding s \<noteq> None then cx_result s = None \<and> (\<forall>b. cx_result (fst (capture_step w s (Encoded b))) \<noteq> None) else True) \<and>
      (case cx_result s of None \<Rightarrow> True | Some r \<Rightarrow> \<forall>fs. cx_result (fst (run (capture_step w) s fs)) = Some r) \<and>
      (case cx_result s of
         Some (Inr frame) \<Rightarrow>
           0 < cf_width frame \<and> 0 < cf_height frame \<and>
           acts = [BindVideo, DrawImage (cf_width frame) (cf_height frame), PauseVideo, UnbindVideo] \<and>
           Encoded (Some (cf_blob frame)) \<in> set es \<and> list_ex (\<lambda>t. ct_live t \<and> ct_enabled t) (cp_tracks w)
       | _ \<Rightarrow> True)"
proof -
  define s where "s = fst (run (capture_step w) (fst (captureFrameFromStream w)) es)"
  define acts where
    "acts = element_log (snd (captureFrameFromStream w) @ snd (run (capture_step w) (fst (captureFrameFromStream w)) es))"
  have inv: "capture_inv w s acts"
    using capture_run_log [OF capture_starts, of w es] by (simp add: s_def acts_def)
  have early: "cx_result (fst (captureFrameFromStream w)) = None \<or> (\<exists>e. cx_result (fst (captureFrameFromStream w)) = Some (Inl e))"
    by (simp add: captureFrameFromStream_def split: option.split)
  note facts = capture_run_facts [OF capture_starts early, of es, folded s_def]
  have 1: "if capture_refused w \<noteq> None then acts = [] \<and> cx_result s \<noteq> None
       else if cx_result s \<noteq> None then \<exists>drawn. acts = BindVideo # drawn @ [PauseVideo, UnbindVideo] \<and> length drawn \<le> 1
       else \<exists>drawn. acts = BindVideo # drawn \<and> PauseVideo \<notin> set drawn \<and> UnbindVideo \<notin> set drawn \<and> length drawn \<le> 1"
    using inv by (cases "cx_wait s"; cases "cx_encoding s")
      (auto simp: capture_inv_def split: option.splits sum.splits if_splits)
  have 2: "case cx_wait s of None \<Rightarrow> True
       | Some fw \<Rightarrow> if fw_result fw = None then fw_timer fw \<and> fw_listening fw
                    else \<not> fw_timer fw \<and> \<not> fw_listening fw \<and> \<not> fw_rvfc fw"
    using inv by (auto simp: capture_inv_def frame_inv_def split: option.split)
  have 3: "cx_result s \<noteq> None" if "waited s" "cx_encoding s = None"
    using inv that by (auto simp: capture_inv_def waited_def split: option.splits if_splits)
  have 4: "cx_result s = None" if "cx_encoding s \<noteq> None"
    using inv that by (auto simp: capture_inv_def split: option.splits if_splits)
  have 5: "0 < cf_width f \<and> 0 < cf_height f \<and>
      acts = [BindVideo, DrawImage (cf_width f) (cf_height f), PauseVideo, UnbindVideo] \<and> capture_refused w = None"
    if "cx_result s = Some (Inr f)" for f
    using inv that by (auto simp: capture_inv_def split: option.splits if_splits)
  have 6: "list_ex (\<lambda>t. ct_live t \<and> ct_enabled t) (cp_tracks w)" if "capture_refused w = None"
    using that by (simp add: capture_refused_def split: if_splits)
  show ?thesis
    unfolding Let_def s_def [symmetric] acts_def [symmetric]
    using 1 2 3 4 5 6 facts encoding_ends [of s _ w] result_kept [OF inv]
    by (auto split: option.split sum.split)
qed

text \<open>A frame callback that comes before the element knows its size is used up: with frame callbacks, metadata and later
  frames do not help, and the capture times out.\<close>

theorem early_frame_is_lost:
  "let w = \<lparr> cp_document = True, cp_tracks = [\<lparr> ct_live = True, ct_enabled = True \<rparr>], cp_bindError = None,
             cp_supportsRvfc = True, cp_context = True \<rparr>
   in cx_result (fst (run (capture_step w) (fst (captureFrameFromStream w))
        (map Frame [FramePresented, FrameSize 640 480, FrameMetadata, FramePresented, FrameDeferred, FrameTimeout]))) =
      Some (Inl (CaptureTimeout, frame_timeout_text))"
  by code_simp

text \<open>A picture, and a size that the element reports while the canvas encodes.\<close>

theorem later_size_is_ignored:
  "let w = \<lparr> cp_document = True, cp_tracks = [\<lparr> ct_live = True, ct_enabled = True \<rparr>], cp_bindError = None,
             cp_supportsRvfc = True, cp_context = True \<rparr>
   in cx_result (fst (run (capture_step w) (fst (captureFrameFromStream w))
        [Frame (FrameSize 640 480), Frame FramePresented, Frame (FrameSize 0 0), Encoded (Some 7)])) =
      Some (Inr \<lparr> cf_blob = 7, cf_width = 640, cf_height = 480 \<rparr>)"
  by code_simp

end
