(* ===== verification/Audio_Level.thy ===== *)
theory Audio_Level
  imports Complex_Main Prelude
begin

text \<open>
  The level of an audio stream, \<^verbatim>\<open>media/AudioLevelMonitor.ts\<close>. Levels are real numbers, since they come from a root and a
  logarithm. The nodes of the audio graph are flags with effects for what is done to them; how far the constructor
  gets, the state of the context and the samples are inputs. Subscribers are numbers.
\<close>

section \<open>The monitor\<close>

definition NOISE_FLOOR_DB :: real where "NOISE_FLOOR_DB = - 60"
definition SPEECH_PEAK_DB :: real where "SPEECH_PEAK_DB = - 15"
definition ATTACK_SMOOTHING :: real where "ATTACK_SMOOTHING = 4 / 10"
definition RELEASE_SMOOTHING :: real where "RELEASE_SMOOTHING = 7 / 10"

lemmas audio_constants = NOISE_FLOOR_DB_def SPEECH_PEAK_DB_def ATTACK_SMOOTHING_def RELEASE_SMOOTHING_def

record monitor =
  am_context :: bool
  am_analyser :: bool
  am_source :: bool
  am_buffer :: bool
  am_timer :: bool
  am_subscribers :: "nat list"
  am_level :: real
  am_disposed :: bool
  am_ownsContext :: bool

datatype monitor_effect =
    OpenContext
  | CloseContext
  | ResumeContext
  | DisconnectNode
  | StartInterval
  | StopInterval
  | LevelTo nat real

type_synonym monitor_act = "(monitor, monitor_effect) act"

definition startLoop :: monitor_act where
  "startLoop = whenS (\<lambda>m. \<not> am_timer m) (seqS [out (\<lambda>_. StartInterval), upd (\<lambda>m. m\<lparr> am_timer := True \<rparr>)])"

definition stopLoop :: monitor_act where
  "stopLoop = whenS am_timer (seqS [out (\<lambda>_. StopInterval), upd (\<lambda>m. m\<lparr> am_timer := False \<rparr>)])"

definition cleanup_monitor :: monitor_act where
  "cleanup_monitor =
     seqS
       [stopLoop,
        whenS am_source (seqS [out (\<lambda>_. DisconnectNode), upd (\<lambda>m. m\<lparr> am_source := False \<rparr>)]),
        whenS am_analyser (seqS [out (\<lambda>_. DisconnectNode), upd (\<lambda>m. m\<lparr> am_analyser := False \<rparr>)]),
        whenS (\<lambda>m. am_context m \<and> am_ownsContext m) (out (\<lambda>_. CloseContext)),
        upd (\<lambda>m. m\<lparr> am_context := False, am_buffer := False, am_subscribers := [] \<rparr>)]"

text \<open>Attaching to the stream: the number of steps that succeed (the context, the analyser, its settings, the source, the
  connection with the buffer), and whether the context was created suspended.\<close>

definition attach_monitor :: "nat \<Rightarrow> bool \<Rightarrow> monitor_act" where
  "attach_monitor works suspended =
     seqS
       [(if works \<ge> 1 then seqS [whenS am_ownsContext (out (\<lambda>_. OpenContext)), upd (\<lambda>m. m\<lparr> am_context := True \<rparr>)] else skipS),
        (if works \<ge> 2 then upd (\<lambda>m. m\<lparr> am_analyser := True \<rparr>) else skipS),
        (if works \<ge> 4 then upd (\<lambda>m. m\<lparr> am_source := True \<rparr>) else skipS),
        (if works \<ge> 5 then seqS [upd (\<lambda>m. m\<lparr> am_buffer := True \<rparr>), (if suspended then out (\<lambda>_. ResumeContext) else skipS)]
         else cleanup_monitor)]"

definition new_monitor :: "bool \<Rightarrow> bool \<Rightarrow> bool \<Rightarrow> nat \<Rightarrow> bool \<Rightarrow> monitor \<times> monitor_effect list" where
  "new_monitor givenContext hasContextClass hasAudio works suspended =
     (if (\<not> hasContextClass \<and> \<not> givenContext) \<or> \<not> hasAudio then skipS else attach_monitor works suspended)
     \<lparr> am_context = False, am_analyser = False, am_source = False, am_buffer = False, am_timer = False, am_subscribers = [],
       am_level = 0, am_disposed = False, am_ownsContext = \<not> givenContext \<rparr>"

definition subscribe_level :: "nat \<Rightarrow> monitor_act" where
  "subscribe_level callback =
     ifS am_disposed (out (\<lambda>_. LevelTo callback 0))
       (seqS
         [upd (\<lambda>m. m\<lparr> am_subscribers := set_add callback (am_subscribers m) \<rparr>),
          out (\<lambda>m. LevelTo callback (am_level m)),
          whenS (\<lambda>m. am_analyser m \<and> length (am_subscribers m) = 1) startLoop])"

definition unsubscribe_level :: "nat \<Rightarrow> monitor_act" where
  "unsubscribe_level callback =
     seqS
       [upd (\<lambda>m. m\<lparr> am_subscribers := removeAll callback (am_subscribers m) \<rparr>),
        whenS (\<lambda>m. am_subscribers m = []) stopLoop]"

definition dispose_monitor :: monitor_act where
  "dispose_monitor = whenS (\<lambda>m. \<not> am_disposed m) (seqS [upd (\<lambda>m. m\<lparr> am_disposed := True \<rparr>), cleanup_monitor])"

definition rms_of :: "nat list \<Rightarrow> real" where
  "rms_of buffer = sqrt (sum_list (map (\<lambda>b. ((real b - 128) / 128) * ((real b - 128) / 128)) buffer) / real (length buffer))"

definition target_of :: "nat list \<Rightarrow> real" where
  "target_of buffer =
     (let rms = rms_of buffer; dbfs = (if rms > 0 then 20 * log 10 rms else NOISE_FLOOR_DB)
      in max 0 (min 1 ((dbfs - NOISE_FLOOR_DB) / (SPEECH_PEAK_DB - NOISE_FLOOR_DB))))"

definition smoothed :: "real \<Rightarrow> real \<Rightarrow> real" where
  "smoothed current target =
     (let smoothing = (if target > current then ATTACK_SMOOTHING else RELEASE_SMOOTHING)
      in current * smoothing + target * (1 - smoothing))"

definition tick_monitor :: "bool \<Rightarrow> nat list \<Rightarrow> monitor_act" where
  "tick_monitor suspended buffer =
     ifS (\<lambda>m. am_disposed m \<or> \<not> am_analyser m \<or> \<not> am_buffer m) skipS
       (seqS
         [(if suspended then whenS am_context (out (\<lambda>_. ResumeContext)) else skipS),
          upd (\<lambda>m. m\<lparr> am_level := smoothed (am_level m) (target_of buffer) \<rparr>),
          letS am_subscribers (\<lambda>cbs. forS cbs (\<lambda>cb. out (\<lambda>m. LevelTo cb (am_level m))))])"

datatype monitor_event = Subscribe nat | Unsubscribe nat | Dispose | Tick bool "nat list"

text \<open>A tick comes from the interval only.\<close>

definition monitor_step :: "monitor \<Rightarrow> monitor_event \<Rightarrow> monitor \<times> monitor_effect list" where
  "monitor_step m e =
     (case e of
        Subscribe callback \<Rightarrow> subscribe_level callback
      | Unsubscribe callback \<Rightarrow> unsubscribe_level callback
      | Dispose \<Rightarrow> dispose_monitor
      | Tick suspended buffer \<Rightarrow> whenS am_timer (tick_monitor suspended buffer)) m"

section \<open>Levels\<close>

lemma target_range: "0 \<le> target_of buffer" "target_of buffer \<le> 1"
  by (simp_all add: target_of_def Let_def)

lemma smoothed_range:
  assumes "0 \<le> a" "a \<le> 1" "0 \<le> t" "t \<le> 1"
  shows "0 \<le> smoothed a t" "smoothed a t \<le> 1"
  using assms by (auto simp: smoothed_def audio_constants Let_def)

text \<open>The level moves towards the target and never past it, so a louder input never gives a lower level.\<close>

lemma smoothed_between: "min a t \<le> smoothed a t \<and> smoothed a t \<le> max a t"
  by (auto simp: smoothed_def audio_constants Let_def min_def max_def)

lemma silent_target:
  assumes "set buffer \<subseteq> {128}"
  shows "target_of buffer = 0"
proof -
  have "map (\<lambda>b. ((real b - 128) / 128) * ((real b - 128) / 128)) buffer = map (\<lambda>b. 0) buffer"
    using assms by (intro map_cong) auto
  then have "rms_of buffer = 0" unfolding rms_of_def by (simp only:) simp
  then show ?thesis by (simp add: target_of_def audio_constants)
qed

text \<open>Full scale is louder than the speech peak: the root mean square of full deflection is 1, which is 0 dB.\<close>

lemma full_target:
  assumes "buffer \<noteq> []" and "set buffer \<subseteq> {0}"
  shows "target_of buffer = 1"
proof -
  have "map (\<lambda>b. ((real b - 128) / 128) * ((real b - 128) / 128)) buffer = replicate (length buffer) 1"
    using assms(2) by (intro replicate_eqI) auto
  then have "rms_of buffer = 1" using assms(1) unfolding rms_of_def by (simp only:) (simp add: sum_list_replicate)
  then show ?thesis by (simp add: target_of_def audio_constants)
qed

section \<open>Runs\<close>

definition monitor_inv :: "monitor \<Rightarrow> bool" where
  "monitor_inv m \<longleftrightarrow> 0 \<le> am_level m \<and> am_level m \<le> 1 \<and> distinct (am_subscribers m) \<and>
     (am_timer m \<longleftrightarrow> am_analyser m \<and> am_subscribers m \<noteq> []) \<and>
     (am_analyser m \<longleftrightarrow> am_context m) \<and> (am_source m \<longleftrightarrow> am_context m) \<and> (am_buffer m \<longleftrightarrow> am_context m) \<and>
     (am_disposed m \<longrightarrow> \<not> am_context m \<and> am_subscribers m = [])"

lemmas monitor_defs = monitor_step_def subscribe_level_def unsubscribe_level_def dispose_monitor_def tick_monitor_def
  startLoop_def stopLoop_def cleanup_monitor_def

lemma fst_forS_out [simp]: "fst (forS xs (\<lambda>x. out (f x)) m) = m"
  by (induction xs arbitrary: m) (simp_all add: forS_def act_simps)

lemma monitor_keeps: "monitor_inv m \<Longrightarrow> monitor_inv (fst (monitor_step m e))"
proof (cases e)
  case (Tick suspended buffer)
  assume inv: "monitor_inv m"
  have "fst (monitor_step m e) = (if am_timer m \<and> \<not> am_disposed m \<and> am_analyser m \<and> am_buffer m
    then m\<lparr> am_level := smoothed (am_level m) (target_of buffer) \<rparr> else m)"
    by (simp add: Tick monitor_step_def tick_monitor_def whenS_def ifS_def thenS_def letS_def upd_def skipS_def out_def Let_def)
  then show ?thesis using inv smoothed_range target_range by (simp add: monitor_inv_def)
next
  case (Subscribe cb)
  assume "monitor_inv m"
  then show ?thesis
    using Subscribe by (cases "am_subscribers m") (auto simp: monitor_inv_def monitor_defs act_simps set_add_def)
qed (auto simp: monitor_inv_def monitor_defs act_simps distinct_removeAll)

lemma new_monitor_inv: "monitor_inv (fst (new_monitor given cls audio works suspended))"
  by (auto simp: monitor_inv_def new_monitor_def attach_monitor_def cleanup_monitor_def stopLoop_def act_simps)

interpretation audio_monitor: reactive monitor_step monitor_inv
  by unfold_locales (rule monitor_keeps)

text \<open>Contexts the monitor owns are closed as often as they are opened, up to the one in use.\<close>

definition opened :: "monitor_effect list \<Rightarrow> nat" where
  "opened os = length (filter (\<lambda>e. e = OpenContext) os)"

definition closed_contexts :: "monitor_effect list \<Rightarrow> nat" where
  "closed_contexts os = length (filter (\<lambda>e. e = CloseContext) os)"

definition held :: "monitor \<Rightarrow> nat" where
  "held m = (if am_context m \<and> am_ownsContext m then 1 else 0)"

lemma counts_append [simp]:
  "opened (xs @ ys) = opened xs + opened ys" "closed_contexts (xs @ ys) = closed_contexts xs + closed_contexts ys"
  by (simp_all add: opened_def closed_contexts_def)

lemma level_outputs [simp]:
  "opened (snd (forS xs (\<lambda>x. out (\<lambda>m. LevelTo x (f m))) m)) = 0"
  "closed_contexts (snd (forS xs (\<lambda>x. out (\<lambda>m. LevelTo x (f m))) m)) = 0"
  by (induction xs arbitrary: m) (simp_all add: forS_def act_simps opened_def closed_contexts_def)

lemma step_balance:
  "held m + opened (snd (monitor_step m e)) = held (fst (monitor_step m e)) + closed_contexts (snd (monitor_step m e))"
proof (cases e)
  case (Tick suspended buffer)
  then show ?thesis
    by (simp add: held_def monitor_step_def tick_monitor_def whenS_def ifS_def thenS_def letS_def upd_def skipS_def out_def Let_def)
      (simp add: opened_def closed_contexts_def)
qed (auto simp: held_def monitor_defs act_simps opened_def closed_contexts_def)

lemma run_balance:
  "held m + opened (snd (run monitor_step m es)) = held (fst (run monitor_step m es)) + closed_contexts (snd (run monitor_step m es))"
proof (induction es arbitrary: m)
  case (Cons e es)
  then show ?case using step_balance [of m e] by (simp add: Let_def) (metis add.assoc add.commute add.left_commute)
qed (simp add: opened_def closed_contexts_def)

lemma new_balance:
  "opened (snd (new_monitor given cls audio works suspended)) =
   held (fst (new_monitor given cls audio works suspended)) + closed_contexts (snd (new_monitor given cls audio works suspended))"
  by (auto simp: held_def new_monitor_def attach_monitor_def cleanup_monitor_def stopLoop_def act_simps opened_def closed_contexts_def)

lemma disposed_stays: "am_disposed m \<Longrightarrow> am_disposed (fst (monitor_step m e))"
  by (cases e) (auto simp: monitor_defs act_simps)

lemma disposed_run:
  "am_disposed m \<or> Dispose \<in> set es \<Longrightarrow> am_disposed (fst (run monitor_step m es))"
proof (induction es arbitrary: m)
  case (Cons e es)
  have "am_disposed (fst (monitor_step m e)) \<or> Dispose \<in> set es"
    using Cons.prems disposed_stays by (auto simp: monitor_defs act_simps)
  then show ?case using Cons.IH by (simp add: Let_def)
qed simp

definition monitor_life :: "bool \<Rightarrow> bool \<Rightarrow> bool \<Rightarrow> nat \<Rightarrow> bool \<Rightarrow> monitor_event list \<Rightarrow> monitor \<times> monitor_effect list" where
  "monitor_life given cls audio works suspended es =
     (let start = new_monitor given cls audio works suspended; r = run monitor_step (fst start) es in (fst r, snd start @ snd r))"

text \<open>In every life of an audio level monitor, however far its construction got, the level stays between 0 and 1, the
  analysis runs exactly while there are subscribers and an audio graph, and no audio context of its own leaks: contexts
  opened are those closed and the one in use, and none is in use after \<open>dispose\<close>.\<close>

theorem audio_monitor_sound:
  "let (m, os) = monitor_life given cls audio works suspended es
   in 0 \<le> am_level m \<and> am_level m \<le> 1 \<and> (am_timer m = (am_analyser m \<and> am_subscribers m \<noteq> [])) \<and>
      opened os = held m + closed_contexts os \<and> (Dispose \<notin> set es \<or> held m = 0 \<and> \<not> am_timer m)"
proof -
  define start where "start = new_monitor given cls audio works suspended"
  let ?m = "fst (run monitor_step (fst start) es)"
  have inv: "monitor_inv ?m" unfolding start_def by (rule audio_monitor.run_inv [OF new_monitor_inv])
  have "opened (snd start @ snd (run monitor_step (fst start) es)) =
    held ?m + closed_contexts (snd start @ snd (run monitor_step (fst start) es))"
    using run_balance [of "fst start" es] new_balance [of given cls audio works suspended] by (simp add: start_def)
  moreover have "Dispose \<notin> set es \<or> held ?m = 0 \<and> \<not> am_timer ?m"
    using disposed_run [of "fst start" es] inv by (auto simp: monitor_inv_def held_def)
  ultimately show ?thesis using inv by (simp add: monitor_inv_def monitor_life_def start_def [symmetric] Let_def)
qed

text \<open>In silence the level falls by three tenths with every tick.\<close>

theorem silence_decays:
  assumes "am_timer m" and "monitor_inv m"
  shows "am_level (fst (run monitor_step m (replicate n (Tick s (replicate k 128))))) = (7 / 10) ^ n * am_level m"
  using assms
proof (induction n arbitrary: m)
  case (Suc n)
  have on: "\<not> am_disposed m" "am_analyser m" "am_buffer m" using Suc.prems by (auto simp: monitor_inv_def)
  have "target_of (replicate k 128) = 0" by (rule silent_target) auto
  then have "smoothed (am_level m) (target_of (replicate k 128)) = 7 / 10 * am_level m"
    using Suc.prems(2) by (simp add: smoothed_def audio_constants monitor_inv_def)
  then have step: "fst (monitor_step m (Tick s (replicate k 128))) = m\<lparr> am_level := 7 / 10 * am_level m \<rparr>"
    using on Suc.prems(1)
    by (simp add: monitor_step_def tick_monitor_def whenS_def ifS_def thenS_def letS_def upd_def skipS_def out_def Let_def)
  have "am_timer (m\<lparr> am_level := 7 / 10 * am_level m \<rparr>)" "monitor_inv (m\<lparr> am_level := 7 / 10 * am_level m \<rparr>)"
    using Suc.prems monitor_keeps [OF Suc.prems(2), of "Tick s (replicate k 128)"] unfolding step by simp_all
  from Suc.IH [OF this] show ?case by (simp add: Let_def step)
qed simp

theorem silence_decays_witness:
  "let m = fst (run monitor_step (fst (new_monitor False True True 5 False)) [Subscribe 1, Tick False [0]])
   in am_level (fst (run monitor_step m [Tick False [128], Tick False [128]])) = 3 / 5 * (49 / 100)"
proof -
  let ?m = "fst (run monitor_step (fst (new_monitor False True True 5 False)) [Subscribe 1, Tick False [0]])"
  have inv: "monitor_inv ?m" by (rule audio_monitor.run_inv [OF new_monitor_inv])
  have "target_of [0] = 1" by (rule full_target) simp_all
  then have m: "am_timer ?m" "am_level ?m = 3 / 5"
    by (simp_all add: new_monitor_def attach_monitor_def monitor_defs act_simps set_add_def smoothed_def audio_constants)
  have "[Tick False [128], Tick False [128]] = replicate 2 (Tick False (replicate 1 128))" by (simp add: numeral_2_eq_2)
  then show ?thesis using silence_decays [OF m(1) inv, of 2 False 1] m(2) by (simp add: Let_def power2_eq_square)
qed

end
