(* ===== verification/Call_Page.thy ===== *)
theory Call_Page
  imports Stored_Data Config_Policies Call_Types
begin

text \<open>
  The page of a call in the web client, \<^verbatim>\<open>src/client/src/pages/CallRoom.tsx\<close>: the preview before joining, the session, the
  record of the call in the history, the notification of the room's subscribers, invitations and the push subscription.

  As in the call view the hooks are the fields of a record, and an effect runs when its dependencies changed since it
  ran last: first the cleanups of all such effects, then the effects, each with the values of the render. Streams and
  sessions are numbers. The two storage items are those of \<open>Stored_Data\<close>, and every event comes with the storage
  environment and its clock. Requests to the push server, what they contain, and the markup are not modelled.
\<close>

section \<open>State\<close>

text \<open>The room id is empty when the route has none; \<open>rt_url\<close> is the whole address, which holds path, query and hash.\<close>

record page_route =
  rt_roomId :: string
  rt_url :: string
  rt_name :: "string option"
  rt_turnsOnly :: "string option"

text \<open>The first part are the hooks and references, the second the pending requests, the current run of the preview effect with
  its stream, the session the current run of the session effect created, the session that is subscribed to, and what
  each effect depended on when it ran last. \<open>pg_open\<close> are the preview streams whose tracks are live.\<close>

record page =
  pg_route :: page_route
  pg_shouldJoin :: bool
  pg_session :: "nat option"
  pg_preview :: "nat option"
  pg_isSubscribed :: bool
  pg_pushSupported :: bool
  pg_vapidKey :: bool
  pg_isInviting :: bool
  pg_displayName :: string
  pg_callStart :: "rat option"
  pg_notifySent :: bool
  pg_mounted :: bool
  pg_invites :: nat
  pg_toggles :: "bool list"
  pg_asked :: "nat list"
  pg_previewRun :: "nat option"
  pg_active :: "nat option"
  pg_created :: "nat option"
  pg_listening :: "nat option"
  pg_next :: nat
  pg_open :: "nat list"
  pg_depsPreview :: "(string \<times> bool) option"
  pg_depsSession :: "(string \<times> string \<times> bool) option"
  pg_depsNotify :: "(string \<times> nat option) option"
  pg_depsRecord :: "string option"
  pg_history :: stored
  pg_rooms :: stored
  pg_nameItem :: "string option"

datatype page_effect =
    AskPreview nat
  | StopStream nat
  | CreateSession nat string bool "string option"
  | DestroySession nat
  | LeaveSession nat
  | RecordCall recent_call
  | NotifyRoom string
  | SendInvite string
  | TogglePush bool
  | ShowToast bool
  | Navigate

type_synonym page_act = "(page, page_effect) act"

abbreviation page_tell :: "page_effect \<Rightarrow> page_act" where
  "page_tell e \<equiv> out (\<lambda>_. e)"

definition page_room :: "page \<Rightarrow> string" where
  "page_room p = rt_roomId (pg_route p)"

section \<open>The preview\<close>

definition stop_stream :: "nat option \<Rightarrow> page_act" where
  "stop_stream stream =
     (case stream of
        None \<Rightarrow> skipS
      | Some n \<Rightarrow> seqS [page_tell (StopStream n), upd (\<lambda>p. p\<lparr> pg_open := removeAll n (pg_open p) \<rparr>)])"

definition stopPreview :: page_act where
  "stopPreview = seqS [letS pg_preview stop_stream, upd (\<lambda>p. p\<lparr> pg_preview := None \<rparr>)]"

definition preview_effect :: page_act where
  "preview_effect =
     seqS
       [upd (\<lambda>p. p\<lparr> pg_depsPreview := Some (page_room p, pg_shouldJoin p) \<rparr>),
        ifS (\<lambda>p. page_room p = [] \<or> pg_shouldJoin p) stopPreview
          (letS pg_next (\<lambda>n. seqS
            [page_tell (AskPreview n),
             upd (\<lambda>p. p\<lparr> pg_next := n + 1, pg_previewRun := Some n, pg_active := None, pg_asked := pg_asked p @ [n] \<rparr>)]))]"

definition preview_cleanup :: page_act where
  "preview_cleanup =
     seqS [letS pg_active stop_stream, upd (\<lambda>p. p\<lparr> pg_previewRun := None, pg_active := None \<rparr>)]"

text \<open>The request of a run is known by the number of the run, and so is the stream that it gives. A request that fails is
  only logged.\<close>

definition preview_granted :: "nat \<Rightarrow> page_act" where
  "preview_granted n =
     whenS (\<lambda>p. n \<in> set (pg_asked p))
       (seqS
         [upd (\<lambda>p. p\<lparr> pg_asked := removeAll n (pg_asked p), pg_open := pg_open p @ [n] \<rparr>),
          ifS (\<lambda>p. pg_previewRun p \<noteq> Some n) (stop_stream (Some n))
            (upd (\<lambda>p. p\<lparr> pg_active := Some n, pg_preview := Some n \<rparr>))])"

definition preview_denied :: "nat \<Rightarrow> page_act" where
  "preview_denied n = upd (\<lambda>p. p\<lparr> pg_asked := removeAll n (pg_asked p) \<rparr>)"

section \<open>The session\<close>

definition js_now :: "storage_env \<Rightarrow> jsnum" where
  "js_now env = Fin (sv_now env)"

definition join_effect :: "storage_env \<Rightarrow> page_act" where
  "join_effect env =
     seqS
       [upd (\<lambda>p. p\<lparr> pg_depsSession := Some (rt_url (pg_route p), page_room p, pg_shouldJoin p) \<rparr>),
        ifS (\<lambda>p. page_room p = [] \<or> \<not> pg_shouldJoin p) skipS
          (letS pg_next (\<lambda>n. seqS
            [out (\<lambda>p. CreateSession n (rt_url (pg_route p)) (parseTurnsOnly (rt_turnsOnly (pg_route p)))
               (let name = js_trim (pg_displayName p) in if name = [] then None else Some name)),
             upd (\<lambda>p. p\<lparr> pg_next := n + 1, pg_callStart := Some (sv_now env), pg_created := Some n, pg_session := Some n \<rparr>)]))]"

definition session_cleanup :: page_act where
  "session_cleanup =
     letS pg_created (\<lambda>created. case created of
       None \<Rightarrow> skipS
     | Some n \<Rightarrow> seqS [page_tell (DestroySession n), upd (\<lambda>p. p\<lparr> pg_created := None, pg_session := None \<rparr>)])"

section \<open>The record of the call\<close>

definition call_duration :: "rat \<Rightarrow> rat \<Rightarrow> rat" where
  "call_duration now start = (let duration = of_int \<lfloor>(now - start) / 1000\<rfloor> in if duration > 0 then duration else 0)"

definition record_call :: "storage_env \<Rightarrow> string \<Rightarrow> page_act" where
  "record_call env roomId =
     letS pg_callStart (\<lambda>start. case start of
       None \<Rightarrow> skipS
     | Some t \<Rightarrow>
         if roomId = [] \<or> t = 0 then skipS
         else
           let call = \<lparr> rc_roomId = roomId, rc_startTime = Fin t, rc_duration = Fin (call_duration (sv_now env) t) \<rparr>
           in seqS
             [page_tell (RecordCall call), upd (\<lambda>p. p\<lparr> pg_history := saveCall env call (pg_history p) \<rparr>),
              upd (\<lambda>p. p\<lparr> pg_rooms := fst (markRoomJoined env roomId (js_now env) (pg_rooms p)) \<rparr>),
              upd (\<lambda>p. p\<lparr> pg_callStart := None \<rparr>)])"

definition record_cleanup :: "storage_env \<Rightarrow> string \<Rightarrow> page_act" where
  "record_cleanup env roomId = seqS [stopPreview, record_call env roomId]"

section \<open>The notification\<close>

definition notify_effect :: "nat option \<Rightarrow> page_act" where
  "notify_effect session =
     seqS
       [upd (\<lambda>p. p\<lparr> pg_depsNotify := Some (page_room p, session) \<rparr>),
        ifS (\<lambda>p. session = None \<or> page_room p = []) skipS (upd (\<lambda>p. p\<lparr> pg_notifySent := False, pg_listening := session \<rparr>))]"

definition notify_cleanup :: page_act where
  "notify_cleanup = upd (\<lambda>p. p\<lparr> pg_listening := None \<rparr>)"

definition session_state_changed :: "nat \<Rightarrow> call_phase \<Rightarrow> bool \<Rightarrow> page_act" where
  "session_state_changed n phase hasStream =
     whenS (\<lambda>p. pg_listening p = Some n \<and> (phase = WaitingPhase \<or> phase = InCall) \<and> \<not> pg_notifySent p \<and> hasStream)
       (seqS [upd (\<lambda>p. p\<lparr> pg_notifySent := True \<rparr>), out (\<lambda>p. NotifyRoom (page_room p))])"

section \<open>Rendering\<close>

text \<open>Whether the dependencies of an effect changed since it ran last.\<close>

definition preview_changed :: "page \<Rightarrow> bool" where
  "preview_changed r = (pg_depsPreview r \<noteq> Some (page_room r, pg_shouldJoin r))"

definition session_changed :: "page \<Rightarrow> bool" where
  "session_changed r = (pg_depsSession r \<noteq> Some (rt_url (pg_route r), page_room r, pg_shouldJoin r))"

definition notify_changed :: "page \<Rightarrow> bool" where
  "notify_changed r = (pg_depsNotify r \<noteq> Some (page_room r, pg_session r))"

definition record_changed :: "page \<Rightarrow> bool" where
  "record_changed r = (pg_depsRecord r \<noteq> Some (page_room r))"

definition page_cleanups :: "storage_env \<Rightarrow> page \<Rightarrow> page_act" where
  "page_cleanups env r =
     seqS
       [(if preview_changed r \<and> pg_depsPreview r \<noteq> None then preview_cleanup else skipS),
        (if session_changed r \<and> pg_depsSession r \<noteq> None then session_cleanup else skipS),
        (if notify_changed r \<and> pg_depsNotify r \<noteq> None then notify_cleanup else skipS),
        (if record_changed r then (case pg_depsRecord r of None \<Rightarrow> skipS | Some roomId \<Rightarrow> record_cleanup env roomId) else skipS)]"

definition page_effects :: "storage_env \<Rightarrow> page \<Rightarrow> page_act" where
  "page_effects env r =
     seqS
       [(if preview_changed r then preview_effect else skipS),
        (if session_changed r then join_effect env else skipS),
        (if notify_changed r then notify_effect (pg_session r) else skipS),
        (if record_changed r then upd (\<lambda>p. p\<lparr> pg_depsRecord := Some (page_room p) \<rparr>) else skipS)]"

text \<open>A render without a room leaves the page.\<close>

definition commit_page :: "storage_env \<Rightarrow> page_act" where
  "commit_page env =
     letS (\<lambda>p. p) (\<lambda>r. seqS
       [(if page_room r = [] then page_tell Navigate else skipS), page_cleanups env r, page_effects env r])"

text \<open>Only the session effect sets state that an effect depends on, so a second round is enough (theorem
  \<open>page_settles\<close>).\<close>

definition settle_page :: "storage_env \<Rightarrow> page_act" where
  "settle_page env = seqS [commit_page env, commit_page env]"

definition unmount_page :: "storage_env \<Rightarrow> page_act" where
  "unmount_page env =
     seqS
       [preview_cleanup, session_cleanup, notify_cleanup,
        letS pg_depsRecord (\<lambda>d. case d of None \<Rightarrow> skipS | Some roomId \<Rightarrow> record_cleanup env roomId),
        upd (\<lambda>p. p\<lparr> pg_mounted := False \<rparr>)]"

section \<open>Handlers\<close>

definition saveInvitedRoom :: "storage_env \<Rightarrow> (bool \<Rightarrow> page_act) \<Rightarrow> page_act" where
  "saveInvitedRoom env continue =
     letS (\<lambda>p. (rt_name (pg_route p), page_room p)) (\<lambda>(name, roomId).
       if default [] name = [] \<or> roomId = [] then continue False
       else letS (\<lambda>p. saveRoom env \<lparr> sr_roomId = roomId, sr_name = default [] name, sr_createdAt = js_now env, sr_host = None,
               sr_lastJoinedAt = None \<rparr> (pg_rooms p)) (\<lambda>(rooms, result).
         seqS [upd (\<lambda>p. p\<lparr> pg_rooms := rooms \<rparr>), page_tell (ShowToast (result = SaveOk)), continue (result = SaveOk)]))"

definition start_joining :: page_act where
  "start_joining = seqS [stopPreview, upd (\<lambda>p. p\<lparr> pg_shouldJoin := True \<rparr>)]"

definition handleJoin :: "storage_env \<Rightarrow> bool \<Rightarrow> page_act" where
  "handleJoin env saveBeforeJoin =
     whenS (\<lambda>p. page_room p \<noteq> [])
       (if saveBeforeJoin then saveInvitedRoom env (\<lambda>saved. if saved then start_joining else skipS) else start_joining)"

definition handleSaveOnly :: "storage_env \<Rightarrow> page_act" where
  "handleSaveOnly env = saveInvitedRoom env (\<lambda>saved. if saved then page_tell Navigate else skipS)"

definition handleDismiss :: "storage_env \<Rightarrow> page_act" where
  "handleDismiss env = seqS [letS page_room (record_call env), page_tell Navigate]"

definition handleEndCall :: "storage_env \<Rightarrow> page_act" where
  "handleEndCall env =
     seqS [letS pg_session (\<lambda>s. case s of None \<Rightarrow> skipS | Some n \<Rightarrow> page_tell (LeaveSession n)), handleDismiss env]"

definition handleInvite :: page_act where
  "handleInvite =
     whenS (\<lambda>p. page_room p \<noteq> [] \<and> \<not> pg_isInviting p)
       (seqS [upd (\<lambda>p. p\<lparr> pg_isInviting := True, pg_invites := pg_invites p + 1 \<rparr>), out (\<lambda>p. SendInvite (page_room p))])"

definition invite_answered :: "bool \<Rightarrow> page_act" where
  "invite_answered ok =
     whenS (\<lambda>p. pg_invites p > 0)
       (seqS [page_tell (ShowToast ok), upd (\<lambda>p. p\<lparr> pg_isInviting := False, pg_invites := pg_invites p - 1 \<rparr>)])"

text \<open>A toggle remembers whether the page was subscribed. Unsubscribing without a subscription ends silently, which is
  \<open>None\<close>.\<close>

definition handlePushToggle :: page_act where
  "handlePushToggle =
     whenS (\<lambda>p. page_room p \<noteq> [] \<and> pg_vapidKey p)
       (seqS [out (\<lambda>p. TogglePush (\<not> pg_isSubscribed p)), upd (\<lambda>p. p\<lparr> pg_toggles := pg_toggles p @ [pg_isSubscribed p] \<rparr>)])"

definition toggle_answered :: "bool \<Rightarrow> bool option \<Rightarrow> page_act" where
  "toggle_answered was outcome =
     whenS (\<lambda>p. was \<in> set (pg_toggles p))
       (seqS
         [upd (\<lambda>p. p\<lparr> pg_toggles := remove1 was (pg_toggles p) \<rparr>),
          (case outcome of
             None \<Rightarrow> skipS
           | Some ok \<Rightarrow> seqS [(if ok then upd (\<lambda>p. p\<lparr> pg_isSubscribed := \<not> was \<rparr>) else skipS), page_tell (ShowToast ok)])])"

definition typed_name :: "bool \<Rightarrow> string \<Rightarrow> page_act" where
  "typed_name writable name =
     upd (\<lambda>p. p\<lparr> pg_displayName := name, pg_nameItem := setDisplayName writable name (pg_nameItem p) \<rparr>)"

section \<open>The page as a state machine\<close>

datatype page_event =
    PgRoute page_route
  | PgPreviewGranted nat
  | PgPreviewDenied nat
  | PgJoin bool
  | PgSaveOnly
  | PgDismiss
  | PgEndCall
  | PgState nat call_phase bool
  | PgInvite
  | PgInviteAnswered bool
  | PgToggle
  | PgToggleAnswered bool "bool option"
  | PgPushSupported
  | PgVapidKey
  | PgSubscriptionFound
  | PgTyped bool string
  | PgUnmount

definition handle_page :: "storage_env \<Rightarrow> page_event \<Rightarrow> page_act" where
  "handle_page env e =
     (case e of
        PgRoute route \<Rightarrow> upd (\<lambda>p. p\<lparr> pg_route := route \<rparr>)
      | PgPreviewGranted n \<Rightarrow> preview_granted n
      | PgPreviewDenied n \<Rightarrow> preview_denied n
      | PgJoin saveBeforeJoin \<Rightarrow> handleJoin env saveBeforeJoin
      | PgSaveOnly \<Rightarrow> handleSaveOnly env
      | PgDismiss \<Rightarrow> handleDismiss env
      | PgEndCall \<Rightarrow> handleEndCall env
      | PgState n phase hasStream \<Rightarrow> session_state_changed n phase hasStream
      | PgInvite \<Rightarrow> handleInvite
      | PgInviteAnswered ok \<Rightarrow> invite_answered ok
      | PgToggle \<Rightarrow> handlePushToggle
      | PgToggleAnswered was outcome \<Rightarrow> toggle_answered was outcome
      | PgPushSupported \<Rightarrow> upd (\<lambda>p. p\<lparr> pg_pushSupported := True \<rparr>)
      | PgVapidKey \<Rightarrow> upd (\<lambda>p. p\<lparr> pg_vapidKey := True \<rparr>)
      | PgSubscriptionFound \<Rightarrow> upd (\<lambda>p. p\<lparr> pg_isSubscribed := True \<rparr>)
      | PgTyped writable name \<Rightarrow> typed_name writable name
      | PgUnmount \<Rightarrow> unmount_page env)"

text \<open>What the page waits for goes on when it is unmounted: a stream that is granted late is stopped. Nothing is rendered
  then.\<close>

definition page_step :: "page \<Rightarrow> storage_env \<times> page_event \<Rightarrow> page \<times> page_effect list" where
  "page_step p ee =
     (if pg_mounted p then seqS [handle_page (fst ee) (snd ee), whenS pg_mounted (settle_page (fst ee))] p
      else (case snd ee of PgPreviewGranted n \<Rightarrow> preview_granted n p | PgPreviewDenied n \<Rightarrow> preview_denied n p | _ \<Rightarrow> (p, [])))"

definition opened_page :: "page_route \<Rightarrow> storage_env \<Rightarrow> stored \<Rightarrow> stored \<Rightarrow> string option \<Rightarrow> page \<times> page_effect list" where
  "opened_page route env history rooms nameItem = settle_page env
     \<lparr> pg_route = route, pg_shouldJoin = False, pg_session = None, pg_preview = None, pg_isSubscribed = False,
       pg_pushSupported = False, pg_vapidKey = False, pg_isInviting = False, pg_displayName = getDisplayName True nameItem,
       pg_callStart = None, pg_notifySent = False, pg_mounted = True, pg_invites = 0, pg_toggles = [], pg_asked = [],
       pg_previewRun = None, pg_active = None, pg_created = None, pg_listening = None, pg_next = 0, pg_open = [],
       pg_depsPreview = None, pg_depsSession = None, pg_depsNotify = None, pg_depsRecord = None,
       pg_history = history, pg_rooms = rooms, pg_nameItem = nameItem \<rparr>"

end
