(* ===== verification/Call_Page_Claims.thy ===== *)
theory Call_Page_Claims
  imports Call_Page Stored_Data_Claims
begin

text \<open>
  Whatever a user does on the page of a call: the preview and the call never run at the same time, nothing runs once the
  page is gone, and every call that was begun is in the history once.
\<close>

section \<open>What the parts of a render leave alone\<close>

text \<open>The invariant of the preview and the one of the session, each with the dependencies of its effect.\<close>

definition preview_ok :: "page \<Rightarrow> bool" where
  "preview_ok p \<longleftrightarrow> set (pg_open p) \<subseteq> set_option (pg_active p) \<and> (pg_active p = None \<or> pg_active p = pg_previewRun p) \<and>
     (pg_previewRun p \<noteq> None \<longrightarrow> (\<exists>x. x \<noteq> [] \<and> pg_depsPreview p = Some (x, False)))"

definition session_ok :: "page \<Rightarrow> bool" where
  "session_ok p \<longleftrightarrow> pg_created p = pg_session p \<and>
     (pg_created p \<noteq> None \<longleftrightarrow> (\<exists>u x. x \<noteq> [] \<and> pg_depsSession p = Some (u, x, True)))"

text \<open>What a render reads, and what the preview and the session consist of.\<close>

definition inputs :: "page \<Rightarrow> page_route \<times> bool \<times> bool" where
  "inputs p = (pg_route p, pg_shouldJoin p, pg_mounted p)"

definition preview_side :: "page \<Rightarrow> nat option \<times> nat option \<times> (string \<times> bool) option" where
  "preview_side p = (pg_previewRun p, pg_active p, pg_depsPreview p)"

definition session_side :: "page \<Rightarrow> nat option \<times> nat option \<times> (string \<times> string \<times> bool) option" where
  "session_side p = (pg_created p, pg_session p, pg_depsSession p)"

lemmas sides = inputs_def preview_side_def session_side_def

lemmas page_parts = stopPreview_def stop_stream_def preview_effect_def preview_cleanup_def join_effect_def session_cleanup_def
  record_cleanup_def record_call_def notify_effect_def notify_cleanup_def

lemma inputs_kept [simp]:
  "inputs (fst (stop_stream x p)) = inputs p" "inputs (fst (stopPreview p)) = inputs p" "inputs (fst (preview_effect p)) = inputs p" "inputs (fst (preview_cleanup p)) = inputs p"
  "inputs (fst (join_effect env p)) = inputs p" "inputs (fst (session_cleanup p)) = inputs p"
  "inputs (fst (record_call env r p)) = inputs p" "inputs (fst (record_cleanup env r p)) = inputs p" "inputs (fst (notify_effect n p)) = inputs p"
  "inputs (fst (notify_cleanup p)) = inputs p"
  by (simp_all add: inputs_def page_parts fst_acts Let_def split: option.split)

lemma preview_side_kept [simp]:
  "preview_side (fst (stop_stream x p)) = preview_side p" "preview_side (fst (stopPreview p)) = preview_side p"
  "preview_side (fst (join_effect env p)) = preview_side p" "preview_side (fst (session_cleanup p)) = preview_side p"
  "preview_side (fst (record_call env r p)) = preview_side p" "preview_side (fst (record_cleanup env r p)) = preview_side p"
  "preview_side (fst (notify_effect n p)) = preview_side p" "preview_side (fst (notify_cleanup p)) = preview_side p"
  by (simp_all add: preview_side_def page_parts fst_acts Let_def split: option.split)

lemma session_side_kept [simp]:
  "session_side (fst (stop_stream x p)) = session_side p" "session_side (fst (stopPreview p)) = session_side p"
  "session_side (fst (preview_effect p)) = session_side p" "session_side (fst (preview_cleanup p)) = session_side p"
  "session_side (fst (record_call env r p)) = session_side p" "session_side (fst (record_cleanup env r p)) = session_side p"
  "session_side (fst (notify_effect n p)) = session_side p" "session_side (fst (notify_cleanup p)) = session_side p"
  by (simp_all add: session_side_def page_parts fst_acts Let_def split: option.split)

lemma deps_record [simp]:
  "inputs (p\<lparr> pg_depsRecord := d \<rparr>) = inputs p" "preview_side (p\<lparr> pg_depsRecord := d \<rparr>) = preview_side p"
  "session_side (p\<lparr> pg_depsRecord := d \<rparr>) = session_side p"
  by (simp_all add: sides)

lemma open_shrinks:
  "set (pg_open (fst (stop_stream x p))) \<subseteq> set (pg_open p)" "set (pg_open (fst (stopPreview p))) \<subseteq> set (pg_open p)"
  "set (pg_open (fst (preview_effect p))) \<subseteq> set (pg_open p)" "set (pg_open (fst (preview_cleanup p))) \<subseteq> set (pg_open p)"
  "set (pg_open (fst (join_effect env p))) \<subseteq> set (pg_open p)" "set (pg_open (fst (session_cleanup p))) \<subseteq> set (pg_open p)"
  "set (pg_open (fst (record_call env r p))) \<subseteq> set (pg_open p)" "set (pg_open (fst (record_cleanup env r p))) \<subseteq> set (pg_open p)"
  "set (pg_open (fst (notify_effect n p))) \<subseteq> set (pg_open p)" "set (pg_open (fst (notify_cleanup p))) \<subseteq> set (pg_open p)"
  by (auto simp: page_parts fst_acts Let_def split: option.split)

lemma preview_ok_same:
  "preview_ok p \<Longrightarrow> preview_side q = preview_side p \<Longrightarrow> set (pg_open q) \<subseteq> set (pg_open p) \<Longrightarrow> preview_ok q"
  by (auto simp: preview_ok_def preview_side_def)

lemma session_ok_same:
  assumes "session_ok p" and "session_side q = session_side p"
  shows "session_ok q"
proof -
  have "pg_created q = pg_created p" "pg_session q = pg_session p" "pg_depsSession q = pg_depsSession p"
    using assms(2) by (simp_all add: session_side_def)
  then have "session_ok q = session_ok p" by (simp only: session_ok_def)
  then show ?thesis using assms(1) by simp
qed

section \<open>A render\<close>

lemma cleaned_preview:
  "preview_ok p \<Longrightarrow> preview_ok (fst (preview_cleanup p)) \<and> pg_previewRun (fst (preview_cleanup p)) = None \<and>
   pg_open (fst (preview_cleanup p)) = []"
  by (auto simp: preview_ok_def preview_cleanup_def stop_stream_def fst_acts split: option.split)
     (auto simp: removeAll_filter_not_eq filter_empty_conv)

lemma started_preview:
  assumes "preview_ok p" and "pg_previewRun p = None"
  shows "preview_ok (fst (preview_effect p)) \<and> pg_depsPreview (fst (preview_effect p)) = Some (page_room p, pg_shouldJoin p)"
  using assms
  by (auto simp: preview_ok_def preview_effect_def stopPreview_def stop_stream_def page_room_def fst_acts split: option.split)

lemma cleaned_session:
  "session_ok p \<Longrightarrow> pg_created (fst (session_cleanup p)) = None \<and> pg_session (fst (session_cleanup p)) = None"
  by (auto simp: session_ok_def session_cleanup_def fst_acts split: option.split)

lemma started_session:
  assumes "pg_created p = None" and "pg_session p = None"
  shows "session_ok (fst (join_effect env p)) \<and>
    pg_depsSession (fst (join_effect env p)) = Some (rt_url (pg_route p), page_room p, pg_shouldJoin p)"
  using assms by (auto simp: session_ok_def join_effect_def page_room_def fst_acts)

text \<open>A render, and the states between its parts.\<close>

definition current :: "page \<Rightarrow> bool" where
  "current p \<longleftrightarrow> pg_depsPreview p = Some (page_room p, pg_shouldJoin p) \<and>
     pg_depsSession p = Some (rt_url (pg_route p), page_room p, pg_shouldJoin p)"

text \<open>After the cleanups: what changed is not running any more, the rest is as it was.\<close>

lemma after_cleanups:
  fixes env :: storage_env
  assumes "preview_ok p" and "session_ok p"
  defines "q \<equiv> fst (page_cleanups env p p)"
  shows "inputs q = inputs p" and "preview_ok q"
    and "if preview_changed p then pg_previewRun q = None else pg_depsPreview q = pg_depsPreview p"
    and "if session_changed p then pg_created q = None \<and> pg_session q = None else session_side q = session_side p"
proof -
  define s1 where "s1 = (if preview_changed p \<and> pg_depsPreview p \<noteq> None then fst (preview_cleanup p) else p)"
  define s2 where "s2 = (if session_changed p \<and> pg_depsSession p \<noteq> None then fst (session_cleanup s1) else s1)"
  define s3 where "s3 = (if notify_changed p \<and> pg_depsNotify p \<noteq> None then fst (notify_cleanup s2) else s2)"
  have q: "q = (if record_changed p then (case pg_depsRecord p of None \<Rightarrow> s3 | Some roomId \<Rightarrow> fst (record_cleanup env roomId s3)) else s3)"
    unfolding q_def page_cleanups_def s3_def s2_def s1_def by (simp only: fst_seqS fst_branch fst_basic(1))
  have "inputs s1 = inputs p" "inputs s2 = inputs s1" "inputs s3 = inputs s2" "inputs q = inputs s3"
    by (simp add: s1_def, simp add: s2_def, simp add: s3_def, simp add: q split: option.split)
  then show "inputs q = inputs p" by simp
  have pv1: "preview_ok s1 \<and> (preview_changed p \<longrightarrow> pg_previewRun s1 = None)"
    using assms(1) cleaned_preview [OF assms(1)] by (auto simp: s1_def preview_ok_def)
  have side: "preview_side q = preview_side s1" by (simp add: q s3_def s2_def split: option.split)
  have "set (pg_open q) \<subseteq> set (pg_open s3)" "set (pg_open s3) \<subseteq> set (pg_open s2)" "set (pg_open s2) \<subseteq> set (pg_open s1)"
    by (simp_all only: q s3_def s2_def open_shrinks order_refl split: option.split if_split) simp_all
  then have "set (pg_open q) \<subseteq> set (pg_open s1)" by blast
  then show "preview_ok q" using pv1 preview_ok_same [OF _ side] by blast
  show "if preview_changed p then pg_previewRun q = None else pg_depsPreview q = pg_depsPreview p"
    using pv1 side by (auto simp: preview_side_def s1_def)
  have sess: "session_side q = session_side s2" by (simp add: q s3_def split: option.split)
  show "if session_changed p then pg_created q = None \<and> pg_session q = None else session_side q = session_side p"
  proof (cases "session_changed p \<and> pg_depsSession p \<noteq> None")
    case True
    have "session_ok s1" by (rule session_ok_same [OF assms(2)]) (simp add: s1_def)
    then show ?thesis using True sess cleaned_session [of s1] by (simp add: s2_def session_side_def)
  next
    case False
    then have "session_side s2 = session_side p" by (simp only: s2_def if_False) (simp add: s1_def)
    moreover have "pg_created p = None \<and> pg_session p = None" if "pg_depsSession p = None"
      using assms(2) that by (auto simp: session_ok_def)
    ultimately show ?thesis using False sess
      by (cases "session_changed p"; cases "pg_depsSession p") (simp_all add: session_side_def)
  qed
qed

lemma commit_page_ok:
  assumes "preview_ok p" and "session_ok p"
  shows "preview_ok (fst (commit_page env p)) \<and> session_ok (fst (commit_page env p)) \<and> current (fst (commit_page env p)) \<and>
    inputs (fst (commit_page env p)) = inputs p"
proof -
  define q where "q = fst (page_cleanups env p p)"
  note after = after_cleanups [OF assms, of env, folded q_def]
  define s1 where "s1 = (if preview_changed p then fst (preview_effect q) else q)"
  define s2 where "s2 = (if session_changed p then fst (join_effect env s1) else s1)"
  define s3 where "s3 = (if notify_changed p then fst (notify_effect (pg_session p) s2) else s2)"
  define s4 where "s4 = (if record_changed p then s3\<lparr> pg_depsRecord := Some (page_room s3) \<rparr> else s3)"
  have commit: "fst (commit_page env p) = s4"
    unfolding commit_page_def page_effects_def s4_def s3_def s2_def s1_def q_def
    by (simp only: fst_seqS fst_branch fst_basic if_cancel)
  have "inputs s1 = inputs q" "inputs s2 = inputs s1" "inputs s3 = inputs s2" "inputs s4 = inputs s3"
    by (simp add: s1_def, simp add: s2_def, simp add: s3_def, simp add: s4_def)
  then have inputs: "inputs s1 = inputs p" "inputs s4 = inputs p" using after(1) by simp_all
  have pv1: "preview_ok s1 \<and> pg_depsPreview s1 = Some (page_room p, pg_shouldJoin p)"
  proof (cases "preview_changed p")
    case True
    then show ?thesis using after started_preview [of q] by (simp add: s1_def inputs_def page_room_def)
  next
    case False
    then show ?thesis using after(2,3) by (simp add: s1_def) (simp add: preview_changed_def)
  qed
  have side: "preview_side s4 = preview_side s1" by (simp add: s4_def s3_def s2_def)
  have "set (pg_open s4) \<subseteq> set (pg_open s3)" "set (pg_open s3) \<subseteq> set (pg_open s2)" "set (pg_open s2) \<subseteq> set (pg_open s1)"
    by (simp_all only: s4_def s3_def s2_def open_shrinks order_refl split: if_split) simp_all
  then have "set (pg_open s4) \<subseteq> set (pg_open s1)" by blast
  then have preview: "preview_ok s4" "pg_depsPreview s4 = Some (page_room p, pg_shouldJoin p)"
    using pv1 preview_ok_same [OF _ side] side by (blast, simp add: preview_side_def)
  have se1: "session_side s1 = session_side q" by (simp add: s1_def)
  have "session_ok s2 \<and> pg_depsSession s2 = Some (rt_url (pg_route p), page_room p, pg_shouldJoin p)"
  proof (cases "session_changed p")
    case True
    then have "pg_created s1 = None" "pg_session s1 = None" using after(4) se1 by (simp_all add: session_side_def)
    from started_session [OF this, of env] show ?thesis using True inputs by (simp add: s2_def inputs_def page_room_def)
  next
    case False
    then have "session_side s2 = session_side p" using se1 after(4) by (simp add: s2_def)
    then show ?thesis using session_ok_same [OF assms(2)] False by (simp add: session_side_def session_changed_def)
  qed
  moreover have side42: "session_side s4 = session_side s2" by (simp add: s4_def s3_def)
  ultimately have "session_ok s4" "pg_depsSession s4 = Some (rt_url (pg_route p), page_room p, pg_shouldJoin p)"
    using session_ok_same [OF _ side42] by (simp_all add: session_side_def)
  then show ?thesis unfolding commit using preview inputs(2) by (simp add: current_def inputs_def page_room_def)
qed

lemma settle_page_ok:
  assumes "preview_ok p" and "session_ok p"
  shows "preview_ok (fst (settle_page env p))" "session_ok (fst (settle_page env p))" "current (fst (settle_page env p))"
    "inputs (fst (settle_page env p)) = inputs p"
  using commit_page_ok [OF assms, of env] commit_page_ok [of "fst (commit_page env p)" env]
  by (simp_all add: settle_page_def fst_acts)

text \<open>What the notification and the record depended on.\<close>

lemma deps_kept [simp]:
  "pg_depsRecord (fst (preview_effect p)) = pg_depsRecord p" "pg_depsRecord (fst (join_effect env p)) = pg_depsRecord p"
  "pg_depsRecord (fst (notify_effect n p)) = pg_depsRecord p" "pg_depsRecord (fst (preview_cleanup p)) = pg_depsRecord p"
  "pg_depsRecord (fst (session_cleanup p)) = pg_depsRecord p" "pg_depsRecord (fst (notify_cleanup p)) = pg_depsRecord p"
  "pg_depsRecord (fst (record_cleanup env r p)) = pg_depsRecord p"
  "pg_depsNotify (fst (preview_effect p)) = pg_depsNotify p" "pg_depsNotify (fst (join_effect env p)) = pg_depsNotify p"
  "pg_depsNotify (fst (preview_cleanup p)) = pg_depsNotify p" "pg_depsNotify (fst (session_cleanup p)) = pg_depsNotify p"
  "pg_depsNotify (fst (notify_cleanup p)) = pg_depsNotify p" "pg_depsNotify (fst (record_cleanup env r p)) = pg_depsNotify p"
  "pg_depsNotify (fst (notify_effect n p)) = Some (page_room p, n)"
  by (simp_all add: page_parts page_room_def fst_acts Let_def split: option.split)

lemma room_of_inputs: "inputs q = inputs p \<Longrightarrow> page_room q = page_room p"
  by (simp add: inputs_def page_room_def)

lemma second_commit:
  fixes env :: storage_env
  assumes "current p"
  defines "q \<equiv> fst (commit_page env p)"
  shows "inputs q = inputs p \<and> current q \<and> \<not> notify_changed q \<and> \<not> record_changed q"
proof -
  have quiet: "\<not> preview_changed p" "\<not> session_changed p"
    using assms(1) by (simp_all add: current_def preview_changed_def session_changed_def)
  define s1 where "s1 = (if notify_changed p \<and> pg_depsNotify p \<noteq> None then fst (notify_cleanup p) else p)"
  define s2 where "s2 = (if record_changed p then (case pg_depsRecord p of None \<Rightarrow> s1 | Some roomId \<Rightarrow> fst (record_cleanup env roomId s1)) else s1)"
  define s3 where "s3 = (if notify_changed p then fst (notify_effect (pg_session p) s2) else s2)"
  have q: "q = (if record_changed p then s3\<lparr> pg_depsRecord := Some (page_room s3) \<rparr> else s3)"
    unfolding q_def commit_page_def page_cleanups_def page_effects_def s3_def s2_def s1_def
    by (simp only: fst_seqS fst_branch fst_basic if_cancel quiet if_False simp_thms)
  have "inputs s1 = inputs p" by (simp add: s1_def)
  moreover have "inputs s2 = inputs s1" by (simp add: s2_def split: option.split)
  moreover have "inputs s3 = inputs s2" by (simp add: s3_def)
  moreover have inputs3: "inputs q = inputs s3" by (simp add: q)
  ultimately have inputs: "inputs s2 = inputs p" "inputs s3 = inputs p" "inputs q = inputs p" by simp_all
  have same: "preview_side q = preview_side p" "session_side q = session_side p"
    by (simp_all add: q s3_def s2_def s1_def split: option.split)
  have "pg_depsNotify s2 = pg_depsNotify p" by (simp add: s2_def s1_def split: option.split)
  then have "pg_depsNotify q = Some (page_room p, pg_session p)"
    using room_of_inputs [OF inputs(1)] by (simp add: q s3_def) (simp add: notify_changed_def)
  moreover have "pg_depsRecord s3 = pg_depsRecord p" by (simp add: s3_def s2_def s1_def split: option.split)
  then have "pg_depsRecord q = Some (page_room p)"
    using room_of_inputs [OF inputs(2)] by (simp add: q) (simp add: record_changed_def)
  ultimately show ?thesis
    using inputs(3) same assms(1) room_of_inputs [OF inputs(3)]
    by (simp add: current_def notify_changed_def record_changed_def sides)
qed

text \<open>A render after two renders runs no effect, so a page with a room does not render without end.\<close>

theorem page_settles:
  assumes "preview_ok p" and "session_ok p"
  shows "commit_page env (fst (settle_page env' p)) =
    (fst (settle_page env' p), if page_room p = [] then [Navigate] else [])"
proof -
  let ?q = "fst (settle_page env' p)"
  note first = commit_page_ok [OF assms, of env']
  have "inputs ?q = inputs p \<and> current ?q \<and> \<not> notify_changed ?q \<and> \<not> record_changed ?q"
    using second_commit [of "fst (commit_page env' p)" env'] first by (simp add: settle_page_def fst_acts)
  then have "\<not> preview_changed ?q" "\<not> session_changed ?q" "\<not> notify_changed ?q" "\<not> record_changed ?q"
    "page_room ?q = page_room p"
    using room_of_inputs [of ?q p] by (simp_all add: current_def preview_changed_def session_changed_def)
  then show ?thesis by (simp add: commit_page_def page_cleanups_def page_effects_def act_simps)
qed

section \<open>Handlers\<close>

lemma granted_ok:
  "preview_ok p \<Longrightarrow> preview_ok (fst (preview_granted n p)) \<and> session_side (fst (preview_granted n p)) = session_side p \<and>
   inputs (fst (preview_granted n p)) = inputs p \<and> pg_previewRun (fst (preview_granted n p)) = pg_previewRun p"
  by (auto simp: preview_ok_def preview_granted_def stop_stream_def sides fst_acts)

text \<open>Statements that leave the two sides as they are and open no stream.\<close>

definition quiet :: "page_act \<Rightarrow> bool" where
  "quiet a \<longleftrightarrow> (\<forall>p. preview_side (fst (a p)) = preview_side p \<and> session_side (fst (a p)) = session_side p \<and>
     pg_mounted (fst (a p)) = pg_mounted p \<and> set (pg_open (fst (a p))) \<subseteq> set (pg_open p))"

named_theorems quiets \<open>quiet statements\<close>

lemma quietD:
  assumes "quiet a"
  shows "preview_side (fst (a p)) = preview_side p" "session_side (fst (a p)) = session_side p"
    "pg_mounted (fst (a p)) = pg_mounted p" "set (pg_open (fst (a p))) \<subseteq> set (pg_open p)"
  using assms by (simp_all add: quiet_def)

lemma quiet_skip [quiets]: "quiet skipS"
  by (simp add: quiet_def fst_acts)

lemma quiet_out [quiets]: "quiet (out f)"
  by (simp add: quiet_def fst_acts)

lemma quiet_upd:
  assumes "\<And>p. preview_side (f p) = preview_side p \<and> session_side (f p) = session_side p \<and> pg_mounted (f p) = pg_mounted p \<and>
    pg_open (f p) = pg_open p"
  shows "quiet (upd f)"
  using assms by (simp add: quiet_def fst_acts)

lemma quiet_then [quiets]: "quiet a \<Longrightarrow> quiet b \<Longrightarrow> quiet (thenS a b)"
  by (simp add: quiet_def fst_thenS) blast

lemma quiet_seq [quiets]: "(\<And>a. a \<in> set as \<Longrightarrow> quiet a) \<Longrightarrow> quiet (seqS as)"
  by (induction as) (auto intro: quiet_then quiet_skip)

lemma quiet_if [quiets]: "quiet a \<Longrightarrow> quiet b \<Longrightarrow> quiet (ifS c a b)"
  by (simp add: quiet_def fst_acts)

lemma quiet_when [quiets]: "quiet a \<Longrightarrow> quiet (whenS c a)"
  by (simp add: quiet_def fst_acts)

lemma quiet_let [quiets]: "(\<And>x. quiet (k x)) \<Longrightarrow> quiet (letS e k)"
  by (simp add: quiet_def fst_acts)

lemma quiet_cond [quiets]: "quiet a \<Longrightarrow> quiet b \<Longrightarrow> quiet (if c then a else b)"
  by simp

lemma quiet_stop [quiets]: "quiet stopPreview"
  using open_shrinks(2) inputs_kept(2) by (auto simp: quiet_def inputs_def)

lemma quiet_record [quiets]: "quiet (record_call env r)"
  using open_shrinks(7) inputs_kept(7) by (auto simp: quiet_def inputs_def)

lemma quiet_save [quiets]: "(\<And>b. quiet (k b)) \<Longrightarrow> quiet (saveInvitedRoom env k)"
  unfolding saveInvitedRoom_def
  by (auto simp: sides split: prod.splits intro!: quiets quiet_upd)

lemma handled_quiet:
  assumes "e \<noteq> PgUnmount" and "\<And>n. e \<noteq> PgPreviewGranted n"
  shows "quiet (handle_page env e)"
  using assms
  by (cases e)
    (auto simp: handle_page_def preview_denied_def handleJoin_def start_joining_def handleSaveOnly_def handleDismiss_def handleEndCall_def
      session_state_changed_def handleInvite_def invite_answered_def handlePushToggle_def toggle_answered_def typed_name_def sides
      intro!: quiets quiet_upd split: option.split)

section \<open>Counting sessions\<close>

fun created_by :: "page_effect \<Rightarrow> nat" where
  "created_by (CreateSession n url turnsOnly name) = 1"
| "created_by _ = 0"

fun destroyed_by :: "page_effect \<Rightarrow> nat" where
  "destroyed_by (DestroySession n) = 1"
| "destroyed_by _ = 0"

definition live_sessions :: "page \<Rightarrow> nat" where
  "live_sessions p = (if pg_created p = None then 0 else 1)"

abbreviation sessions_balanced :: "page_act \<Rightarrow> bool" where
  "sessions_balanced \<equiv> in_balance live_sessions created_by destroyed_by"

lemma live_same: "session_side q = session_side p \<Longrightarrow> live_sessions q = live_sessions p"
  by (simp add: live_sessions_def session_side_def)

lemma parts_balanced [balances]:
  "sessions_balanced stopPreview" "sessions_balanced preview_cleanup" "sessions_balanced preview_effect"
  "sessions_balanced (record_call env r)" "sessions_balanced (record_cleanup env r)" "sessions_balanced notify_cleanup"
  "sessions_balanced (notify_effect x)" "sessions_balanced (preview_granted n)"
  unfolding page_parts preview_granted_def
  by (auto simp: live_sessions_def Let_def intro!: balances in_balance_upd in_balance_out split: option.split)

lemma cleanup_balanced [balances]: "sessions_balanced session_cleanup"
  by (auto simp: in_balance_def session_cleanup_def live_sessions_def act_simps split: option.split)

lemma effect_balanced: "pg_created p = None \<Longrightarrow> in_balance_at live_sessions created_by destroyed_by (join_effect env) p"
  by (simp add: in_balance_at_def join_effect_def live_sessions_def act_simps)

lemma handled_balanced:
  assumes "e \<noteq> PgUnmount"
  shows "sessions_balanced (handle_page env e)"
  using assms
  by (cases e)
    (auto simp: handle_page_def preview_denied_def handleJoin_def start_joining_def handleSaveOnly_def handleDismiss_def handleEndCall_def
      saveInvitedRoom_def session_state_changed_def handleInvite_def invite_answered_def handlePushToggle_def toggle_answered_def
      typed_name_def live_sessions_def
      intro!: balances in_balance_upd in_balance_out split: option.split prod.split)

section \<open>Runs\<close>

definition page_inv :: "page \<Rightarrow> bool" where
  "page_inv p \<longleftrightarrow> preview_ok p \<and>
     (if pg_mounted p then session_ok p \<and> current p else pg_previewRun p = None \<and> pg_created p = None)"

lemma unmounted:
  assumes "preview_ok p" and "session_ok p"
  shows "page_inv (fst (unmount_page env p)) \<and> \<not> pg_mounted (fst (unmount_page env p))"
proof -
  define s1 where "s1 = fst (preview_cleanup p)"
  define s2 where "s2 = fst (session_cleanup s1)"
  define s3 where "s3 = fst (notify_cleanup s2)"
  define s4 where "s4 = (case pg_depsRecord s3 of None \<Rightarrow> s3 | Some roomId \<Rightarrow> fst (record_cleanup env roomId s3))"
  have unmount: "fst (unmount_page env p) = s4\<lparr> pg_mounted := False \<rparr>"
    unfolding unmount_page_def s4_def s3_def s2_def s1_def by (simp only: fst_seqS fst_branch fst_basic)
  have pv: "preview_ok s1" "pg_previewRun s1 = None" using cleaned_preview [OF assms(1)] by (simp_all add: s1_def)
  have "session_ok s1" by (rule session_ok_same [OF assms(2)]) (simp add: s1_def)
  then have "pg_created s2 = None" using cleaned_session [of s1] by (simp add: s2_def)
  moreover have "session_side s4 = session_side s2" by (simp add: s4_def s3_def split: option.split)
  moreover have side: "preview_side s4 = preview_side s1" by (simp add: s4_def s3_def s2_def split: option.split)
  have "set (pg_open s4) \<subseteq> set (pg_open s3)" "set (pg_open s3) \<subseteq> set (pg_open s2)" "set (pg_open s2) \<subseteq> set (pg_open s1)"
    by (simp_all only: s4_def s3_def s2_def open_shrinks order_refl split: option.split) simp_all
  then have "preview_ok s4" using preview_ok_same [OF pv(1) side] by blast
  then have "preview_ok (s4\<lparr> pg_mounted := False \<rparr>)" by (simp add: preview_ok_def)
  ultimately show ?thesis
    unfolding unmount using pv(2) side by (simp add: page_inv_def preview_side_def session_side_def)
qed

lemma handled_ok:
  assumes "preview_ok p" and "session_ok p" and "e \<noteq> PgUnmount"
  shows "preview_ok (fst (handle_page env e p))" "session_ok (fst (handle_page env e p))"
    "pg_mounted (fst (handle_page env e p)) = pg_mounted p"
proof -
  have "preview_ok (fst (handle_page env e p)) \<and> session_side (fst (handle_page env e p)) = session_side p \<and>
    pg_mounted (fst (handle_page env e p)) = pg_mounted p"
  proof (cases "\<exists>n. e = PgPreviewGranted n")
    case True
    then show ?thesis using granted_ok [OF assms(1)] by (auto simp: handle_page_def inputs_def)
  next
    case False
    then have "quiet (handle_page env e)" using handled_quiet [OF assms(3)] by blast
    note quiet = quietD [OF this, of p]
    show ?thesis using quiet(2,3) preview_ok_same [OF assms(1) quiet(1,4)] by simp
  qed
  then show "preview_ok (fst (handle_page env e p))" "session_ok (fst (handle_page env e p))"
    "pg_mounted (fst (handle_page env e p)) = pg_mounted p" using session_ok_same [OF assms(2)] by simp_all
qed

lemma page_step_mounted:
  "pg_mounted p \<Longrightarrow> fst (page_step p (env, e)) =
     (if pg_mounted (fst (handle_page env e p)) then fst (settle_page env (fst (handle_page env e p))) else fst (handle_page env e p))"
  by (simp add: page_step_def fst_acts)

lemma page_step_inv:
  assumes "page_inv p"
  shows "page_inv (fst (page_step p ee))"
proof (cases "pg_mounted p")
  case mounted: True
  obtain env e where ee: "ee = (env, e)" by (cases ee)
  have ok: "preview_ok p" "session_ok p" using assms mounted by (simp_all add: page_inv_def)
  show ?thesis
  proof (cases "e = PgUnmount")
    case True
    then show ?thesis using unmounted [OF ok, of env] by (simp add: ee page_step_mounted [OF mounted] handle_page_def)
  next
    case False
    note handled = handled_ok [OF ok False, of env]
    show ?thesis
      using settle_page_ok [OF handled(1,2), of env] handled(3) mounted
      by (simp add: ee page_step_mounted [OF mounted] page_inv_def inputs_def)
  qed
next
  case False
  have "page_inv (fst (preview_granted n p))" for n
    using assms False granted_ok [of p n] by (auto simp: page_inv_def inputs_def session_side_def)
  moreover have "page_inv (fst (preview_denied n p))" for n
    using assms False by (auto simp: page_inv_def preview_ok_def preview_denied_def fst_acts)
  ultimately show ?thesis using False assms by (simp add: page_step_def split: page_event.split)
qed

interpretation call_page: reactive page_step page_inv
  by unfold_locales (rule page_step_inv)

lemma cleanups_balanced: "sessions_balanced (page_cleanups env r)"
  unfolding page_cleanups_def by (auto intro!: balances split: option.split)

lemma commit_balanced:
  assumes "preview_ok p" and "session_ok p"
  shows "in_balance_at live_sessions created_by destroyed_by (commit_page env) p"
proof -
  define q where "q = fst (page_cleanups env p p)"
  have clean: "session_changed p \<longrightarrow> pg_created (fst ((if preview_changed p then preview_effect else skipS) q)) = None"
    using after_cleanups(4) [OF assms, of env, folded q_def] session_side_kept(3) [of q]
    by (simp add: fst_acts session_side_def)
  have "in_balance_at live_sessions created_by destroyed_by (page_effects env p) q"
    unfolding page_effects_def
  proof (intro in_balance_at_seq)
    show "in_balance_at live_sessions created_by destroyed_by (if preview_changed p then preview_effect else skipS) q"
      by (rule in_balance_atI) (intro balances)
    show "in_balance_at live_sessions created_by destroyed_by (if session_changed p then join_effect env else skipS)
      (fst ((if preview_changed p then preview_effect else skipS) q))"
      using clean by (cases "session_changed p") (auto intro: effect_balanced in_balance_atI in_balance_skip)
  qed (auto simp: live_sessions_def intro!: in_balance_atI balances in_balance_upd)
  moreover have "sessions_balanced (if page_room p = [] then page_tell Navigate else skipS)"
    by (intro balances in_balance_out) simp
  ultimately show ?thesis
    unfolding commit_page_def
    by (intro in_balance_at_let in_balance_at_seq)
      (simp_all only: q_def fst_branch fst_basic if_cancel in_balance_atI cleanups_balanced)
qed

lemma page_step_balanced:
  assumes "page_inv p"
  shows "in_balance_at live_sessions created_by destroyed_by (\<lambda>p. page_step p ee) p"
proof (cases "pg_mounted p")
  case mounted: True
  obtain env e where ee: "ee = (env, e)" by (cases ee)
  have ok: "preview_ok p" "session_ok p" using assms mounted by (simp_all add: page_inv_def)
  define q where "q = fst (handle_page env e p)"
  have handled: "in_balance_at live_sessions created_by destroyed_by (handle_page env e) p"
  proof (cases "e = PgUnmount")
    case True
    then show ?thesis
      by (auto simp: handle_page_def unmount_page_def live_sessions_def intro!: in_balance_atI balances in_balance_upd split: option.split)
  qed (rule in_balance_atI [OF handled_balanced])
  have "in_balance_at live_sessions created_by destroyed_by (whenS pg_mounted (settle_page env)) q"
  proof (cases "pg_mounted q")
    case True
    then have "e \<noteq> PgUnmount" using unmounted [OF ok, of env] by (auto simp: q_def handle_page_def)
    note okq = handled_ok(1,2) [OF ok this, of env, folded q_def]
    have "in_balance_at live_sessions created_by destroyed_by (settle_page env) q"
      unfolding settle_page_def
      using commit_balanced [OF okq, of env] commit_page_ok [OF okq, of env]
      by (intro in_balance_at_seq) (auto intro: commit_balanced)
    then show ?thesis using True by (simp add: in_balance_at_def whenS_def ifS_def)
  qed (simp add: in_balance_at_def act_simps)
  then have "in_balance_at live_sessions created_by destroyed_by (seqS [handle_page env e, whenS pg_mounted (settle_page env)]) p"
    by (intro in_balance_at_seq handled) (simp_all add: q_def)
  then show ?thesis using mounted by (simp add: in_balance_at_def page_step_def ee)
next
  case False
  have "sessions_balanced (preview_granted n)" "sessions_balanced (preview_denied n)" for n
    by (auto simp: preview_denied_def live_sessions_def intro!: balances in_balance_upd)
  then show ?thesis using False by (auto simp: in_balance_at_def page_step_def in_balance_def split: page_event.split)
qed

lemma page_run_balanced:
  "page_inv p \<Longrightarrow> in_balance_at live_sessions created_by destroyed_by (\<lambda>p. run page_step p es) p"
proof (induction es arbitrary: p)
  case (Cons e es)
  then show ?case
    using page_step_balanced [OF Cons.prems, of e] Cons.IH [OF page_step_inv [OF Cons.prems, of e]]
    by (simp add: in_balance_at_def Let_def)
qed (simp add: in_balance_at_def)

definition page_life ::
  "page_route \<Rightarrow> storage_env \<Rightarrow> stored \<Rightarrow> stored \<Rightarrow> string option \<Rightarrow> (storage_env \<times> page_event) list \<Rightarrow> page \<times> page_effect list" where
  "page_life route env history rooms nameItem es =
     (let start = opened_page route env history rooms nameItem; r = run page_step (fst start) es in (fst r, snd start @ snd r))"

lemma opened_ok:
  "page_inv (fst (opened_page route env history rooms nameItem)) \<and>
   sum_list (map created_by (snd (opened_page route env history rooms nameItem))) =
     live_sessions (fst (opened_page route env history rooms nameItem)) +
     sum_list (map destroyed_by (snd (opened_page route env history rooms nameItem)))"
proof -
  define p where "p = \<lparr> pg_route = route, pg_shouldJoin = False, pg_session = None, pg_preview = None, pg_isSubscribed = False,
       pg_pushSupported = False, pg_vapidKey = False, pg_isInviting = False, pg_displayName = getDisplayName True nameItem,
       pg_callStart = None, pg_notifySent = False, pg_mounted = True, pg_invites = 0, pg_toggles = [], pg_asked = [],
       pg_previewRun = None, pg_active = None, pg_created = None, pg_listening = None, pg_next = 0, pg_open = [],
       pg_depsPreview = None, pg_depsSession = None, pg_depsNotify = None, pg_depsRecord = None,
       pg_history = history, pg_rooms = rooms, pg_nameItem = nameItem \<rparr>"
  have ok: "preview_ok p" "session_ok p" "pg_mounted p" "live_sessions p = 0"
    by (simp_all add: p_def preview_ok_def session_ok_def live_sessions_def)
  have "in_balance_at live_sessions created_by destroyed_by (settle_page env) p"
    unfolding settle_page_def
    using commit_balanced [OF ok(1,2), of env] commit_page_ok [OF ok(1,2), of env]
    by (intro in_balance_at_seq) (auto intro: commit_balanced)
  then show ?thesis
    using settle_page_ok [OF ok(1,2), of env] ok(3,4)
    by (simp add: opened_page_def p_def [symmetric] page_inv_def in_balance_at_def inputs_def)
qed

text \<open>C27: The page of a call never holds more than it needs: in every run - joining, leaving, changing the address, streams
  granted late - a preview stream is live only while the page is shown and nobody has joined, a session is live only
  while somebody has joined a room, there is at most one, every other that was created was destroyed, and once the
  page is gone neither is left.\<close>

theorem page_holds_what_it_shows:
  "let (p, os) = page_life route env history rooms nameItem es
   in (pg_open p = [] \<or> pg_mounted p \<and> \<not> pg_shouldJoin p \<and> (\<exists>n. set (pg_open p) = {n} \<and> pg_active p = Some n)) \<and>
      ((pg_created p \<noteq> None) = (pg_mounted p \<and> pg_shouldJoin p \<and> page_room p \<noteq> [])) \<and>
      sum_list (map created_by os) = sum_list (map destroyed_by os) + (if pg_created p = None then 0 else 1)"
proof -
  define start where "start = opened_page route env history rooms nameItem"
  define p where "p = fst (run page_step (fst start) es)"
  note opened = opened_ok [of route env history rooms nameItem, folded start_def]
  have inv: "page_inv p" unfolding p_def by (rule call_page.run_inv [OF conjunct1 [OF opened]])
  have "sum_list (map created_by (snd start @ snd (run page_step (fst start) es))) =
    sum_list (map destroyed_by (snd start @ snd (run page_step (fst start) es))) + live_sessions p"
    using page_run_balanced [OF conjunct1 [OF opened], of es] opened by (simp add: in_balance_at_def p_def)
  moreover have "pg_open p = [] \<or> pg_mounted p \<and> \<not> pg_shouldJoin p \<and> (\<exists>n. set (pg_open p) = {n} \<and> pg_active p = Some n)"
    using inv by (cases "pg_active p"; cases "pg_open p") (auto simp: page_inv_def preview_ok_def current_def split: if_splits)
  moreover have "(pg_created p \<noteq> None) = (pg_mounted p \<and> pg_shouldJoin p \<and> page_room p \<noteq> [])"
  proof (cases "pg_mounted p")
    case True
    then have "session_ok p" "current p" using inv by (simp_all add: page_inv_def)
    note parts = conjunct2 [OF \<open>session_ok p\<close> [unfolded session_ok_def]] conjunct2 [OF \<open>current p\<close> [unfolded current_def]]
    show ?thesis unfolding parts(1) unfolding parts(2) using True by auto
  qed (use inv in \<open>simp add: page_inv_def\<close>)
  ultimately show ?thesis by (simp add: page_life_def start_def [symmetric] p_def live_sessions_def Let_def)
qed

section \<open>The history of calls\<close>

definition recorded :: "page_effect list \<Rightarrow> recent_call list" where
  "recorded os = List.map_filter (\<lambda>e. case e of RecordCall c \<Rightarrow> Some c | _ \<Rightarrow> None) os"

definition visit :: "page_route \<Rightarrow> (rat \<times> page_event) list \<Rightarrow> page \<times> page_effect list" where
  "visit route es = page_life route plain_storage NoText NoText None (map (\<lambda>(t, e). (plain_storage\<lparr> sv_now := t \<rparr>, e)) es)"

definition some_room :: string where
  "some_room = ''AAAAAAAAAAAAAAAAAAAAAAAAAAA''"

definition some_route :: "string \<Rightarrow> page_route" where
  "some_route url = \<lparr> rt_roomId = some_room, rt_url = url, rt_name = None, rt_turnsOnly = None \<rparr>"

text \<open>A call that was ended is recorded once, though the page records calls both when it is dismissed and when it goes.\<close>

theorem ended_call_recorded_once:
  "recorded (snd (visit (some_route ''u'') [(1000, PgJoin False), (62500, PgEndCall), (63000, PgUnmount)])) =
     [\<lparr> rc_roomId = some_room, rc_startTime = Fin 1000, rc_duration = Fin 61 \<rparr>] \<and>
   recorded (snd (visit (some_route ''u'') [(1000, PgJoin False), (62500, PgUnmount)])) =
     [\<lparr> rc_roomId = some_room, rc_startTime = Fin 1000, rc_duration = Fin 61 \<rparr>] \<and>
   length (snd (getRecentCalls plain_storage (pg_history (fst (visit (some_route ''u'') [(1000, PgJoin False), (62500, PgEndCall)]))))) = 1"
  by code_simp

text \<open>If the query or the hash of the address changes during a call, the call is torn down and begun again, and the time when
  it began is overwritten: two sessions were made, but only the part after the change is recorded.\<close>

theorem relocated_call_is_cut:
  "let (p, os) = visit (some_route ''u'') [(1000, PgJoin False), (61000, PgRoute (some_route ''u#x'')), (121000, PgUnmount)]
   in sum_list (map created_by os) = 2 \<and>
      recorded os = [\<lparr> rc_roomId = some_room, rc_startTime = Fin 61000, rc_duration = Fin 60 \<rparr>]"
  by code_simp

end
