(* ===== verification/Spec2Isabelle.thy ===== *)
theory Spec2Isabelle
  imports Payloads Room_Statuses Config_Policies Quality_Tracker Room_Watcher Server_Provider Content_Rendering
    Media_Claims Local_Media_Claims Media_Wire_Claims Media_Stats Session_Claims Stored_Data_Claims
    Call_View_Claims Server_Access_Claims Diagnostics_Claims Snapshots Audio_Level Call_Page_Claims
begin

text \<open>
  The client core of the Serenada call SDK (\<^verbatim>\<open>src/client/packages/core\<close>), with the call view
  (\<^verbatim>\<open>src/client/packages/react-ui\<close>) and the call page and stored data of the web client (\<^verbatim>\<open>src/client/src\<close>): a model of the TypeScript sources and the theorems that make them correct.

  \<^bold>\<open>The program.\<close> A host application creates a \<open>SerenadaSession\<close>. The session joins a room through a signaling
  provider, keeps the state of the room, publishes it to the host, and tells the media engine what the room looks
  like. The \<open>SerenadaServerProvider\<close> turns the messages of a \<open>SignalingEngine\<close> into provider events; the engine
  owns the connection, a WebSocket or a server-sent event stream with requests, with its pings, reconnections and
  credentials. The \<open>MediaEngine\<close> owns one peer connection per remote participant and the local tracks. A statistics
  collector samples the connections once a second, and the samples feed the quality tracker. A \<open>RoomWatcher\<close> uses
  an engine of its own to show how full rooms are. The call view lays out the participants and what they share.

  \<^bold>\<open>How code becomes definitions.\<close> A class is a record of its fields, and a method is a statement: a function from
  the state to the new state and the list of the effects performed, in order (section "Statements" of \<open>Prelude\<close>;
  \<open>upd\<close> assigns, \<open>out\<close> calls out, \<open>seqS\<close>, \<open>ifS\<close>, \<open>letS\<close> and \<open>forS\<close> are the sequence, the test, the constant and
  the loop). Each component has a datatype of the events it receives (calls of its client, callbacks, timers,
  answers of the environment), a step function from events to statements, and \<open>run\<close> runs a list of events. An
  awaiting method is split at its awaits: the part before the await leaves a continuation with its local
  variables, or a counter of requests, in the state, and the answer is an event that resumes it, so every order of
  answers and calls is a list of events. A map is an association list without duplicate keys in the insertion order
  of JavaScript, \<open>null\<close> and \<open>undefined\<close> are \<open>None\<close>, an error is a value of an option, a sum or an effect.

  \<^bold>\<open>Theories.\<close> Paths are below \<^verbatim>\<open>src/client/packages/core/src\<close> unless given in full.
    \<^item> \<open>Prelude\<close>: JSON values, JavaScript numbers and conversions, insertion-ordered maps (locale \<open>keyed_store\<close>),
      statements with their calculus (\<open>keeping\<close>, \<open>confined\<close>), the reactive components (locales \<open>reactive\<close> and
      \<open>reactive_final\<close>). \<open>Call_Types\<close>, \<open>Constants\<close>: enumerations of \<^verbatim>\<open>types.ts\<close> and the limits of \<^verbatim>\<open>constants.ts\<close>.
    \<^item> \<open>Payloads\<close>: \<^verbatim>\<open>signaling/payloads.ts\<close> over \<^verbatim>\<open>signaling/types.ts\<close>; parsed values are well-formed, and well-formed
      room states are recovered from their wire form.
    \<^item> \<open>Room_Statuses\<close>, \<open>Config_Policies\<close>: \<^verbatim>\<open>signaling/roomStatuses.ts\<close>, \<^verbatim>\<open>signaling/transportConfig.ts\<close>,
      \<^verbatim>\<open>cameraModes.ts\<close>, \<^verbatim>\<open>media/localVideoRecovery.ts\<close>, the validation of the configuration and the tables of error codes.
    \<^item> \<open>Streaming_Median\<close>, \<open>Quality_Tracker\<close>, \<open>Call_Stats\<close>: \<^verbatim>\<open>media/streamingMedian.ts\<close> (a priority queue as a locale,
      interpreted for both heaps), \<^verbatim>\<open>media/mos.ts\<close>, \<^verbatim>\<open>media/CallQualityTracker.ts\<close>, \<^verbatim>\<open>media/callStats.ts\<close>.
    \<^item> \<open>Transports\<close>, \<open>Signaling_Engine\<close>, \<open>Engine_Proofs\<close>: \<^verbatim>\<open>signaling/transports/*.ts\<close> (the contract of a transport
      as the locale \<open>signaling_transport\<close>, interpreted for both) and \<^verbatim>\<open>signaling/SignalingEngine.ts\<close>, with the storage
      of the reconnect credentials.
    \<^item> \<open>Room_Watcher\<close>, \<open>Server_Provider\<close>: \<^verbatim>\<open>RoomWatcher.ts\<close> and \<^verbatim>\<open>SerenadaServerProvider.ts\<close>, clients of the engine
      model; their states contain it.
    \<^item> \<open>Session_Room\<close>, \<open>Session\<close>, \<open>Session_Proofs\<close>, \<open>Session_Conduct\<close>, \<open>Session_Claims\<close>: \<^verbatim>\<open>SerenadaSession.ts\<close>.
      The provider, the media engine and the collector are effects; the getters of the media engine are part of each
      event. The locales \<open>session_basics\<close> and \<open>session_conduct\<close> are what every method is made of, interpreted for who arms
      and performs an ICE restart, and for what an ended session may still do with its requests for ICE servers.
    \<^item> \<open>Media_Engine\<close>, \<open>Media_Proofs\<close>, \<open>Media_Claims\<close>: the peers and the negotiation of \<^verbatim>\<open>media/MediaEngine.ts\<close>.
      Peer connections are addresses; what the code reads of them (signaling state, senders) comes with each event.
      The locales \<open>media_basics\<close> and \<open>media_conduct\<close> are what every method is made of, interpreted for the rule who
      offers and for the balance of opened and closed connections.
    \<^item> \<open>Media_Devices\<close>, \<open>Local_Media\<close>, \<open>Local_Media_Proofs\<close>, \<open>Track_References\<close>, \<open>Local_Media_Claims\<close>: the local
      tracks of \<^verbatim>\<open>media/MediaEngine.ts\<close>: microphone, camera, screen, with tracks as objects in a store that are live
      until stopped; the third theory follows what still refers to a track. Attaching and replacing tracks on the peers is an effect here and an event there.
    \<^item> \<open>Media_Wire\<close>, \<open>Media_Wire_Claims\<close>, \<open>Media_Stats\<close>: again \<^verbatim>\<open>media/MediaEngine.ts\<close>. The first has one
      connection with its transceivers in full, their binding to the camera and content roles, the tracks put on
      them, the limits on their encodings and the remote streams; the last has the counters it samples. The models of
      the media engine share no state: each has the fields its methods use, and meets the others in its events.
    \<^item> \<open>Layout\<close>, \<open>Content_Rendering\<close>: \<^verbatim>\<open>layout/computeLayout.ts\<close> and the content rendering of the call view,
      \<^verbatim>\<open>src/client/packages/react-ui/src/utils/contentRendering.ts\<close>.
    \<^item> \<open>Call_View\<close>, \<open>Call_View_Claims\<close>: the call view itself, \<^verbatim>\<open>src/client/packages/react-ui/src/SerenadaCallFlow.tsx\<close>,
      over these two: derived values, hooks, effects and handlers (locale \<open>reactive\<close> once more).
    \<^item> \<open>Stored_Data\<close>, \<open>Stored_Data_Claims\<close>: what outlives a page: \<^verbatim>\<open>src/client/src/utils/savedRooms.ts\<close>,
      \<^verbatim>\<open>callHistory.ts\<close>, \<^verbatim>\<open>displayName.ts\<close> and the recovery record of \<^verbatim>\<open>recoveryStorage.ts\<close>.
    \<^item> \<open>Browser_Basics\<close>: searching in strings, answers of \<open>fetch\<close>, the balance of what statements gain and lose, and the
      contract of a promise around callbacks and a timer (locale \<open>settles_once\<close>, interpreted for four of them).
    \<^item> \<open>Server_Access\<close>, \<open>Server_Access_Claims\<close>: \<^verbatim>\<open>serverUrls.ts\<close>, \<^verbatim>\<open>api/roomApi.ts\<close>, \<^verbatim>\<open>SerenadaCore.ts\<close>; the parser of URLs
      is a parameter.
    \<^item> \<open>Diagnostics\<close>, \<open>Diagnostics_Claims\<close>: \<^verbatim>\<open>SerenadaDiagnostics.ts\<close>, its probes as state machines.
    \<^item> \<open>Snapshots\<close>, \<open>Audio_Level\<close>: \<^verbatim>\<open>media/captureSnapshot.ts\<close> and \<^verbatim>\<open>media/AudioLevelMonitor.ts\<close>.
    \<^item> \<open>Call_Page\<close>, \<open>Call_Page_Claims\<close>: \<^verbatim>\<open>src/client/src/pages/CallRoom.tsx\<close>, the page of a call, over the stored data.

  \<^bold>\<open>What is shown.\<close>
    \<^item> Signaling: a lost connection waits its backoff and leads to exactly one rejoin with the stored credentials, the gate
      on ICE restarts is up all the while and holds until a snapshot of the room arrives, a rejected token leads to a fresh join, a destroyed engine is
      silent, falling back through the transports ends, delays stay in their bounds.
    \<^item> Session: an invariant of all runs (live and mirroring a sane room, or over with only the timer that shows
      the end and stale requests for ICE servers left), ended sessions stay ended and ask for nothing again, failures are
      terminal and visible, the retries of the ICE servers end with the last error, and an ICE restart takes a
      reconnection and a snapshot of the room.
    \<^item> Media: exactly one side of a pair offers and wins a collision, peers match the room, no connection leaks,
      offers come only from the offering side of a stable connection, a restart asked for while offline is
      kept until signaling is back and then performed, buffers and cooldowns are bounded. Both ends of a connection bind the same lines to the same roles, no
      transceiver gets two roles, and a share the browser refused is tried again; media count as arriving exactly
      when a counter advanced between two samplings.
    \<^item> Local media: every open microphone is accounted for in every run and none is open after \<open>destroy\<close>; the choice
      of the microphone settles exactly when the default routes agree. For the camera the corresponding statements
      fail, and theorems show how: a camera that is granted too late stays on for ever.
    \<^item> Data: parsers, status tables, membership differences and content revisions are exact or convergent; the median is
      the median of the sorted samples; published statistics and quality are in range, unknown counters stay
      unknown; layouts fit, do not overlap and show everyone once. A saved room is read back; a damaged history is
      never repaired.
    \<^item> Call view: renders settle after two rounds of effects, down to the identity of the arrays they set, pins, badges and timers always fit what is on screen, and
      the stage shows each camera and each share exactly once with the pinned tile in front.
    \<^item> Around the call: the link of a created room leads back to it, sockets are encrypted exactly when requests are,
      every probe ends at its timer at the latest and releases what it held, a snapshot waits for its frame no longer than
      its timer and then only for the encoder (which nothing bounds), the ICE probe reports
      what was gathered, audio levels stay in range and audio contexts do not leak, and the call page holds a preview
      or a session only as long as it shows one.

  \<^bold>\<open>Bounds and fuel.\<close> Only \<open>doConnect\<close> of the signaling engine carries fuel, for the transports that a failing
  transport falls back to: each nested attempt goes to a transport not tried yet, so the number of transports
  suffices (theorem \<open>connectAt_enough\<close>). All other recursion is on lists or has a termination proof. The session asks
  for ICE servers at most four times, which is part of its state and not of the model.

  \<^bold>\<open>Assumptions of the model.\<close> Arithmetic is exact where the code has IEEE doubles (with separate values for NaN and
  the infinities where they can occur); strings are lists of 8-bit characters; listeners do not call back into a
  component in the middle of a handler; setters of the browser that the code wraps in \<open>try\<close> do not fail except where a
  definition takes the failure as an input; random and
  clock values are inputs of the events; a granted media request holds at most one track of each kind it asked
  for; the answer of the gate on refreshing TURN credentials is an input.

  \<^bold>\<open>Not modelled.\<close> The markup of the call view, its styles, the debug panel and the hooks that only subscribe to a
  session; of the call page the requests to the push server and their encryption; the lists, dialogs and translations
  of the web client; logging. These are rendering, or calls of the browser without decisions of their own. The server
  and the native clients are other programs of the repository.
\<close>

end
